(* ===== verification/Prelude.thy ===== *)
theory Prelude
  imports Main "HOL-Library.Word"
begin

unbundle bit_operations_syntax

text \<open>
  What every component of the development shares: the machine integers of the Rust sources, the
  state-and-error monad the stateful components are written in, the bounded loop, and the generic
  lemmas on lists and words.
\<close>

section \<open>Machine integers\<close>

text \<open>
  Rust's fixed-width integers are words. A signed type and the unsigned type of the same width
  share the word type: a value is read with \<open>uint\<close>/\<open>unat\<close> where the source's type is unsigned
  and with \<open>sint\<close> where it is signed, and an \<open>as\<close> cast between the two is the identity.
  \<open>usize\<close> is a natural number; the source runs on 64-bit targets, so the checked operations
  on it fail at \<open>2 ^ 64\<close>. An \<open>f64\<close> is its bit pattern.
\<close>

type_synonym u8 = "8 word"
type_synonym u16 = "16 word"
type_synonym u32 = "32 word"
type_synonym u64 = "64 word"
type_synonym i32 = "32 word"
type_synonym i64 = "64 word"
type_synonym f64_bits = "64 word"
type_synonym usize = nat

definition usize_limit :: nat where
  "usize_limit = 18446744073709551616"

definition checked_add :: "usize \<Rightarrow> usize \<Rightarrow> usize option" where
  "checked_add a b = (if a + b < usize_limit then Some (a + b) else None)"

definition checked_mul :: "usize \<Rightarrow> usize \<Rightarrow> usize option" where
  "checked_mul a b = (if a * b < usize_limit then Some (a * b) else None)"

definition saturating_add :: "usize \<Rightarrow> usize \<Rightarrow> usize" where
  "saturating_add a b = min (a + b) (usize_limit - 1)"

text \<open>\<open>usize::try_from\<close> on an \<open>i32\<close>: the value, unless it is negative.\<close>

definition usize_try_from :: "i32 \<Rightarrow> usize option" where
  "usize_try_from v = (if sint v < 0 then None else Some (nat (sint v)))"

text \<open>\<open>as usize\<close> on an \<open>i32\<close>: sign extension to 64 bits.\<close>

definition i32_as_usize :: "i32 \<Rightarrow> usize" where
  "i32_as_usize v = unat (scast v :: u64)"

named_theorems checked_arith \<open>the checked operations on usize, unfolded\<close>

lemmas checked_arith_defs [checked_arith] =
  checked_add_def checked_mul_def saturating_add_def usize_limit_def

lemma checked_add_Some [simp]:
  "checked_add a b = Some c \<longleftrightarrow> c = a + b \<and> a + b < usize_limit"
  by (auto simp: checked_add_def)

lemma checked_add_None [simp]: "checked_add a b = None \<longleftrightarrow> usize_limit \<le> a + b"
  by (auto simp: checked_add_def)

lemma usize_try_from_Some [simp]:
  "usize_try_from v = Some n \<longleftrightarrow> 0 \<le> sint v \<and> n = nat (sint v)"
  by (auto simp: usize_try_from_def)

lemma usize_try_from_None [simp]: "usize_try_from v = None \<longleftrightarrow> sint v < 0"
  by (auto simp: usize_try_from_def)

lemma sint32_bounds: "- 2147483648 \<le> sint (v :: i32)" "sint (v :: i32) < 2147483648"
  using sint_range_size [of v] by (simp_all add: word_size)

lemma usize_try_from_bound: "usize_try_from v = Some n \<Longrightarrow> n < 2147483648"
  using sint32_bounds(2) [of v] by auto

lemma sint_unat: "\<not> bit (v :: i32) 31 \<Longrightarrow> sint v = int (unat v)"
proof -
  assume "\<not> bit v 31"
  then have "sint v = uint v"
    by (intro bit_eqI) (auto simp: bit_sint_iff bit_uint_iff dest: bit_imp_le_length)
  then show ?thesis by simp
qed

lemma unat_of_nat_u32: "n < 4294967296 \<Longrightarrow> unat (of_nat n :: u32) = n"
  by (simp add: unat_of_nat take_bit_nat_eq_self)

lemma scast_ucast_nonneg: "\<not> bit (v :: i32) 31 \<Longrightarrow> (scast v :: u64) = ucast v"
proof (rule bit_word_eqI)
  fix n assume "\<not> bit v 31" and "n < LENGTH(64)"
  then show "bit (scast v :: u64) n = bit (ucast v :: u64) n"
    using bit_imp_le_length [of v n] by (cases "n = 31") (auto simp: bit_simps min_def)
qed

lemma i32_as_usize_nonneg: "\<not> bit (v :: i32) 31 \<Longrightarrow> i32_as_usize v = unat v"
proof -
  assume "\<not> bit v 31"
  moreover have "unat (ucast v :: u64) = unat v"
    using unsigned_less [of v, where ?'a = nat] by (simp add: unsigned_ucast_eq take_bit_nat_eq_self)
  ultimately show ?thesis by (simp add: i32_as_usize_def scast_ucast_nonneg)
qed

text \<open>\<open>slice.get(i)\<close> and \<open>Vec::get\<close>.\<close>

definition nth_opt :: "'a list \<Rightarrow> nat \<Rightarrow> 'a option" where
  "nth_opt xs i = (if i < length xs then Some (xs ! i) else None)"

lemma nth_opt_Some [simp]: "nth_opt xs i = Some x \<longleftrightarrow> i < length xs \<and> xs ! i = x"
  by (auto simp: nth_opt_def)

lemma nth_opt_None [simp]: "nth_opt xs i = None \<longleftrightarrow> length xs \<le> i"
  by (auto simp: nth_opt_def)

text \<open>\<open>Option::unwrap_or\<close>.\<close>

definition unwrap_or :: "'a \<Rightarrow> 'a option \<Rightarrow> 'a" where
  "unwrap_or d x = (case x of Some y \<Rightarrow> y | None \<Rightarrow> d)"

lemma unwrap_or_simps [simp]: "unwrap_or d None = d" "unwrap_or d (Some x) = x"
  by (simp_all add: unwrap_or_def)

section \<open>The state-and-error monad\<close>

text \<open>
  A Rust method on \<open>&mut self\<close> that returns a \<open>Result\<close> is a function from the state to a
  result and the state it leaves: the state is kept on an error too, as it is in the source.
  \<open>sbind\<close> is the source's \<open>?\<close> followed by the rest of the function.
\<close>

type_synonym ('s, 'e, 'a) sm = "'s \<Rightarrow> ('e + 'a) \<times> 's"

definition ret :: "'a \<Rightarrow> ('s, 'e, 'a) sm" where
  "ret x = (\<lambda>s. (Inr x, s))"

definition fail :: "'e \<Rightarrow> ('s, 'e, 'a) sm" where
  "fail e = (\<lambda>s. (Inl e, s))"

definition sbind :: "('s, 'e, 'a) sm \<Rightarrow> ('a \<Rightarrow> ('s, 'e, 'b) sm) \<Rightarrow> ('s, 'e, 'b) sm" where
  "sbind m f = (\<lambda>s. case m s of (Inl e, s') \<Rightarrow> (Inl e, s') | (Inr x, s') \<Rightarrow> f x s')"

definition reads :: "('s \<Rightarrow> 'a) \<Rightarrow> ('s, 'e, 'a) sm" where
  "reads f = (\<lambda>s. (Inr (f s), s))"

definition updates :: "('s \<Rightarrow> 's) \<Rightarrow> ('s, 'e, unit) sm" where
  "updates f = (\<lambda>s. (Inr (), f s))"

text \<open>\<open>for _ in 0..count { v.push(m?) }\<close>\<close>

primrec repeat_sm :: "nat \<Rightarrow> ('s, 'e, 'a) sm \<Rightarrow> ('s, 'e, 'a list) sm" where
  "repeat_sm 0 m = ret []"
| "repeat_sm (Suc n) m = sbind m (\<lambda>x. sbind (repeat_sm n m) (\<lambda>xs. ret (x # xs)))"

named_theorems sm_run \<open>running a computation on a state\<close>

lemma ret_apply [sm_run]: "ret x s = (Inr x, s)"
  by (simp add: ret_def)

lemma fail_apply [sm_run]: "fail e s = (Inl e, s)"
  by (simp add: fail_def)

lemma reads_apply [simp]: "reads f s = (Inr (f s), s)"
  by (simp add: reads_def)

lemma updates_apply [simp]: "updates f s = (Inr (), f s)"
  by (simp add: updates_def)

lemma sbind_Inr [simp]: "m s = (Inr x, s') \<Longrightarrow> sbind m f s = f x s'"
  by (simp add: sbind_def)

lemma sbind_Inl [simp]: "m s = (Inl e, s') \<Longrightarrow> sbind m f s = (Inl e, s')"
  by (simp add: sbind_def)

lemma sbind_ret_left [simp]: "sbind (ret x) f = f x"
  by (simp add: sbind_def ret_def)

lemma sbind_fail_left [simp]: "sbind (fail e) f = fail e"
  by (simp add: sbind_def fail_def)

lemma sbind_reads_left [simp]: "sbind (reads g) f s = f (g s) s"
  by (simp add: sbind_def reads_def)

lemma sbind_updates_left [simp]: "sbind (updates g) f s = f () (g s)"
  by (simp add: sbind_def updates_def)

lemma sbind_InrE:
  assumes "sbind m f s = (Inr y, t)"
  obtains x s' where "m s = (Inr x, s')" and "f x s' = (Inr y, t)"
  using assms by (auto simp: sbind_def split: prod.splits sum.splits)

lemma sbind_cases:
  assumes "sbind m f s = (r, t)"
  obtains (err) e where "m s = (Inl e, t)" and "r = Inl e"
    | (ok) x s' where "m s = (Inr x, s')" and "f x s' = (r, t)"
  using assms by (auto simp: sbind_def split: prod.splits sum.splits)

text \<open>The result and the error of a pure \<open>Result\<close>, chained with \<open>?\<close>.\<close>

definition and_then :: "'e + 'a \<Rightarrow> ('a \<Rightarrow> 'e + 'b) \<Rightarrow> 'e + 'b" where
  "and_then r f = (case r of Inl e \<Rightarrow> Inl e | Inr x \<Rightarrow> f x)"

lemma and_then_Inl [simp]: "and_then (Inl e) f = Inl e"
  by (simp add: and_then_def)

lemma and_then_Inr [simp]: "and_then (Inr x) f = f x"
  by (simp add: and_then_def)

lemma and_then_eq_Inr: "and_then r f = Inr y \<longleftrightarrow> (\<exists>x. r = Inr x \<and> f x = Inr y)"
  by (cases r) auto

section \<open>Operations that keep a relation\<close>

text \<open>
  An operation keeps a relation between the state before and after it when every step of it does,
  for any relation that is reflexive and transitive.
\<close>

locale state_relation =
  fixes rel :: "'s \<Rightarrow> 's \<Rightarrow> bool"
  assumes rel_refl: "rel s s" and rel_trans: "rel s t \<Longrightarrow> rel t u \<Longrightarrow> rel s u"
begin

definition kept_by :: "('s, 'e, 'a) sm \<Rightarrow> bool" where
  "kept_by m \<longleftrightarrow> (\<forall>s. rel s (snd (m s)))"

lemma kept_byI: "(\<And>s. rel s (snd (m s))) \<Longrightarrow> kept_by m"
  by (simp add: kept_by_def)

lemma kept_byD: "kept_by m \<Longrightarrow> rel s (snd (m s))"
  by (simp add: kept_by_def)

lemma kept_by_sbind:
  assumes "kept_by m" and "\<And>x. kept_by (f x)"
  shows "kept_by (sbind m f)"
proof (rule kept_byI)
  fix s
  obtain r t where m: "m s = (r, t)" by fastforce
  then have "rel s t" using kept_byD [OF assms(1), of s] by simp
  moreover have "rel t (snd (f x t))" for x by (rule kept_byD [OF assms(2)])
  ultimately show "rel s (snd (sbind m f s))"
    using m rel_trans by (cases r) (auto simp: sbind_def)
qed

lemma kept_by_ret: "kept_by (ret x)"
  by (simp add: kept_by_def ret_def rel_refl)

lemma kept_by_fail: "kept_by (fail e)"
  by (simp add: kept_by_def fail_def rel_refl)

lemma kept_by_reads: "kept_by (reads f)"
  by (simp add: kept_by_def reads_def rel_refl)

lemma kept_by_result: "kept_by (\<lambda>s. (f s, s))"
  by (simp add: kept_by_def rel_refl)

lemma kept_by_updates: "(\<And>s. rel s (f s)) \<Longrightarrow> kept_by (updates f)"
  by (simp add: kept_by_def updates_def)

lemma kept_by_if: "(b \<Longrightarrow> kept_by m) \<Longrightarrow> (\<not> b \<Longrightarrow> kept_by m') \<Longrightarrow> kept_by (if b then m else m')"
  by simp

lemma kept_by_option: "kept_by m \<Longrightarrow> (\<And>y. kept_by (f y)) \<Longrightarrow> kept_by (case x of None \<Rightarrow> m | Some y \<Rightarrow> f y)"
  by (simp split: option.split)

lemma kept_by_prod: "(\<And>a b. kept_by (f a b)) \<Longrightarrow> kept_by (case x of (a, b) \<Rightarrow> f a b)"
  by (simp split: prod.split)

lemma kept_by_Let: "kept_by (f x) \<Longrightarrow> kept_by (let y = x in f y)"
  by simp

lemma kept_by_here: "(\<And>s. kept_by (m s)) \<Longrightarrow> kept_by (\<lambda>s. m s s)"
  by (simp add: kept_by_def)

lemmas rules = kept_by_sbind kept_by_ret kept_by_fail kept_by_reads kept_by_result kept_by_updates
  kept_by_if kept_by_option kept_by_prod kept_by_Let

end

section \<open>Buffers\<close>

text \<open>\<open>buf[pos..pos + vs.len()].copy_from_slice(vs)\<close>, for a range inside the buffer.\<close>

definition copy_at :: "nat \<Rightarrow> 'a list \<Rightarrow> 'a list \<Rightarrow> 'a list" where
  "copy_at pos vs buf = take pos buf @ vs @ drop (pos + length vs) buf"

text \<open>\<open>buf[pos..pos + n]\<close>, for a range inside the buffer.\<close>

definition subrange :: "nat \<Rightarrow> nat \<Rightarrow> 'a list \<Rightarrow> 'a list" where
  "subrange pos n buf = take n (drop pos buf)"

text \<open>\<open>Vec::resize\<close>.\<close>

definition resize :: "nat \<Rightarrow> 'a \<Rightarrow> 'a list \<Rightarrow> 'a list" where
  "resize n x xs = (if n \<le> length xs then take n xs else xs @ replicate (n - length xs) x)"

lemma length_resize [simp]: "length (resize n x xs) = n"
  by (simp add: resize_def)

lemma resize_same [simp]: "resize (length xs) x xs = xs"
  by (simp add: resize_def)

lemma take_resize: "length xs \<le> n \<Longrightarrow> take (length xs) (resize n x xs) = xs"
  by (simp add: resize_def)

lemma resize_grow: "length xs \<le> n \<Longrightarrow> resize n x xs = xs @ replicate (n - length xs) x"
  by (simp add: resize_def)

lemma length_copy_at [simp]:
  "pos + length vs \<le> length buf \<Longrightarrow> length (copy_at pos vs buf) = length buf"
  by (simp add: copy_at_def)

lemma length_subrange [simp]: "pos + n \<le> length buf \<Longrightarrow> length (subrange pos n buf) = n"
  by (simp add: subrange_def)

lemma nth_copy_at:
  assumes "pos + length vs \<le> length buf" and "i < length buf"
  shows "copy_at pos vs buf ! i =
    (if pos \<le> i \<and> i < pos + length vs then vs ! (i - pos) else buf ! i)"
  using assms by (auto simp: copy_at_def nth_append min_def)

lemma subrange_copy_at_same:
  "pos + length vs \<le> length buf \<Longrightarrow> subrange pos (length vs) (copy_at pos vs buf) = vs"
  by (simp add: subrange_def copy_at_def)

lemma subrange_copy_at_other:
  assumes "pos + length vs \<le> length buf" and "q + n \<le> length buf"
    and "q + n \<le> pos \<or> pos + length vs \<le> q"
  shows "subrange q n (copy_at pos vs buf) = subrange q n buf"
  using assms by (intro nth_equalityI) (auto simp: subrange_def nth_copy_at)

lemma copy_at_subrange_same:
  "pos + n \<le> length buf \<Longrightarrow> copy_at pos (subrange pos n buf) buf = buf"
  by (intro nth_equalityI) (auto simp: nth_copy_at subrange_def)

lemma drop_eq_append_conv: "drop n xs = ys @ zs \<Longrightarrow> n \<le> length xs \<Longrightarrow>
  n + length ys \<le> length xs \<and> subrange n (length ys) xs = ys \<and> drop (n + length ys) xs = zs"
  by (metis add.commute append_eq_conv_conj drop_drop le_add1 length_append length_drop
      nat_add_left_cancel_le ordered_cancel_comm_monoid_diff_class.add_diff_inverse subrange_def)

end
