(* ===== verification/Utf8.thy ===== *)
theory Utf8
  imports Prelude
begin

unbundle bit_operations_syntax

text \<open>
  Rust's \<open>String\<close>: a list of Unicode scalar values, with its UTF-8 bytes
  (\<open>str::as_bytes\<close>) and \<open>String::from_utf8_lossy\<close>, which replaces each maximal ill-formed
  byte sequence by U+FFFD as the standard library's chunk iterator does. The loader reads every
  name and string of a module through the second, the writer emits the first; decoding what was
  encoded gives the string back.
\<close>

section \<open>Strings\<close>

type_synonym rchar = nat
type_synonym rstring = "rchar list"

definition scalar :: "rchar \<Rightarrow> bool" where
  "scalar c \<longleftrightarrow> c < 55296 \<or> 57344 \<le> c \<and> c < 1114112"

definition rstr :: "string \<Rightarrow> rstring" where
  "rstr s = map of_char s"

text \<open>Decimal formatting (\<open>{}\<close> of an integer in a format string).\<close>

fun show_nat :: "nat \<Rightarrow> rstring" where
  "show_nat n = (if n < 10 then [48 + n] else show_nat (n div 10) @ [48 + n mod 10])"

declare show_nat.simps [simp del]

definition show_int :: "int \<Rightarrow> rstring" where
  "show_int i = (if i < 0 then 45 # show_nat (nat (- i)) else show_nat (nat i))"

definition show_i32 :: "i32 \<Rightarrow> rstring" where
  "show_i32 v = show_int (sint v)"

definition replacement_char :: rchar where
  "replacement_char = 65533"

section \<open>Encoding\<close>

definition byte :: "nat \<Rightarrow> u8" where
  "byte n = of_nat n"

definition char_utf8 :: "rchar \<Rightarrow> u8 list" where
  "char_utf8 c =
    (if c < 128 then [byte c]
     else if c < 2048 then [byte (192 + c div 64), byte (128 + c mod 64)]
     else if c < 65536 then
       [byte (224 + c div 4096), byte (128 + c div 64 mod 64), byte (128 + c mod 64)]
     else
       [byte (240 + c div 262144), byte (128 + c div 4096 mod 64), byte (128 + c div 64 mod 64),
        byte (128 + c mod 64)])"

definition as_bytes :: "rstring \<Rightarrow> u8 list" where
  "as_bytes s = concat (map char_utf8 s)"

definition str_len :: "rstring \<Rightarrow> nat" where
  "str_len s = length (as_bytes s)"

section \<open>Lossy decoding\<close>

definition continuation :: "nat \<Rightarrow> bool" where
  "continuation b \<longleftrightarrow> 128 \<le> b \<and> b < 192"

definition second_of_three :: "nat \<Rightarrow> nat \<Rightarrow> bool" where
  "second_of_three b b2 \<longleftrightarrow>
    (if b = 224 then 160 \<le> b2 \<and> b2 < 192
     else if b = 237 then 128 \<le> b2 \<and> b2 < 160
     else continuation b2)"

definition second_of_four :: "nat \<Rightarrow> nat \<Rightarrow> bool" where
  "second_of_four b b2 \<longleftrightarrow>
    (if b = 240 then 144 \<le> b2 \<and> b2 < 192
     else if b = 244 then 128 \<le> b2 \<and> b2 < 144
     else continuation b2)"

text \<open>
  One step on the bytes after a lead byte \<open>b\<close>: the character and how many further bytes it
  takes. An ill-formed sequence yields the replacement character and takes the continuation bytes
  that were still well-formed. A byte past the end reads as 0.
\<close>

definition byte_at :: "u8 list \<Rightarrow> nat \<Rightarrow> nat" where
  "byte_at bs i = (if i < length bs then unat (bs ! i) else 0)"

definition decode_step :: "nat \<Rightarrow> u8 list \<Rightarrow> rchar \<times> nat" where
  "decode_step b bs =
    (let b2 = byte_at bs 0; b3 = byte_at bs 1; b4 = byte_at bs 2 in
     if b < 128 then (b, 0)
     else if 194 \<le> b \<and> b < 224 then
       (if continuation b2 then (b mod 32 * 64 + b2 mod 64, 1) else (replacement_char, 0))
     else if 224 \<le> b \<and> b < 240 then
       (if \<not> second_of_three b b2 then (replacement_char, 0)
        else if \<not> continuation b3 then (replacement_char, 1)
        else (b mod 16 * 4096 + b2 mod 64 * 64 + b3 mod 64, 2))
     else if 240 \<le> b \<and> b < 245 then
       (if \<not> second_of_four b b2 then (replacement_char, 0)
        else if \<not> continuation b3 then (replacement_char, 1)
        else if \<not> continuation b4 then (replacement_char, 2)
        else (b mod 8 * 262144 + b2 mod 64 * 4096 + b3 mod 64 * 64 + b4 mod 64, 3))
     else (replacement_char, 0))"

function from_utf8_lossy :: "u8 list \<Rightarrow> rstring" where
  "from_utf8_lossy [] = []"
| "from_utf8_lossy (b # bs) =
    (let (c, n) = decode_step (unat b) bs in c # from_utf8_lossy (drop n bs))"
  by pat_completeness auto
termination
  by (relation "measure length") auto

section \<open>Decoding what was encoded\<close>

lemma unat_byte [simp]: "n < 256 \<Longrightarrow> unat (byte n) = n"
  by (simp add: byte_def unat_of_nat)

lemma byte_at_Cons_0 [simp]: "byte_at (b # bs) 0 = unat b"
  by (simp add: byte_at_def)

lemma byte_at_Cons_Suc [simp]: "byte_at (b # bs) (Suc n) = byte_at bs n"
  by (simp add: byte_at_def)

lemma byte_at_numeral [simp]: "byte_at (b # bs) (numeral n) = byte_at bs (pred_numeral n)"
  by (simp add: numeral_eq_Suc)

lemma byte_at_one [simp]: "byte_at (b # bs) 1 = byte_at bs 0"
  by (simp add: byte_at_def)

lemma continuation_low6 [simp]: "continuation (128 + n mod 64)"
proof -
  have "n mod 64 < 64" by simp
  then show ?thesis by (simp add: continuation_def)
qed

lemma low6 [simp]: "(128 + n mod 64) mod (64 :: nat) = n mod 64"
  using mod_add_left_eq [of 128 64 "n mod 64"] by simp

lemma low5 [simp]: "n < 32 \<Longrightarrow> (192 + n) mod (32 :: nat) = n"
  using mod_add_left_eq [of 192 32 n] by simp

lemma low4 [simp]: "n < 16 \<Longrightarrow> (224 + n) mod (16 :: nat) = n"
  using mod_add_left_eq [of 224 16 n] by simp

lemma low3 [simp]: "n < 8 \<Longrightarrow> (240 + n) mod (8 :: nat) = n"
  using mod_add_left_eq [of 240 8 n] by simp

lemma three_digits: "c div 4096 * 4096 + c div 64 mod 64 * 64 + c mod 64 = (c :: nat)"
proof -
  have "c div 4096 = c div 64 div 64" by (simp add: div_mult2_eq [symmetric])
  moreover have "c div 64 div 64 * 64 + c div 64 mod 64 = c div 64" by (rule div_mult_mod_eq)
  moreover have "c div 64 * 64 + c mod 64 = c" by (rule div_mult_mod_eq)
  ultimately show ?thesis by linarith
qed

lemma four_digits:
  "c div 262144 * 262144 + c div 4096 mod 64 * 4096 + c div 64 mod 64 * 64 + c mod 64 = (c :: nat)"
proof -
  have "c div 262144 = c div 4096 div 64" by (simp add: div_mult2_eq [symmetric])
  moreover have "c div 4096 div 64 * 64 + c div 4096 mod 64 = c div 4096" by (rule div_mult_mod_eq)
  moreover have "c div 4096 * 4096 + c div 64 mod 64 * 64 + c mod 64 = c" by (rule three_digits)
  ultimately show ?thesis by linarith
qed

lemma decode_step_char:
  assumes "scalar c"
  shows "\<exists>b bs. char_utf8 c = b # bs \<and> decode_step (unat b) (bs @ rest) = (c, length bs)"
proof -
  consider (one) "c < 128" | (two) "128 \<le> c" "c < 2048" | (three) "2048 \<le> c" "c < 65536"
    | (four) "65536 \<le> c" "c < 1114112"
    using assms by (fastforce simp: scalar_def)
  then show ?thesis
  proof cases
    case one
    then show ?thesis by (simp add: char_utf8_def decode_step_def)
  next
    case two
    have lead: "2 \<le> c div 64" "c div 64 < 32" using two by auto
    show ?thesis using two lead
      by (simp add: char_utf8_def decode_step_def)
  next
    case three
    have lead: "c div 4096 < 16" using three by auto
    have mid: "c div 64 mod 64 < 64" by simp
    have split: "second_of_three (224 + c div 4096) (128 + c div 64 mod 64)"
    proof -
      have z: "32 \<le> c div 64 mod 64" if "c div 4096 = 0" using that three by auto
      have s: "c div 64 mod 64 < 32" if "c div 4096 = 13"
      proof -
        have "\<not> (55296 \<le> c \<and> c < 57344)" using assms by (auto simp: scalar_def)
        with that have "c < 55296" by auto
        moreover have "c div 64 div 64 = 13"
          using that by (simp add: div_mult2_eq [symmetric])
        moreover have "c div 64 div 64 * 64 + c div 64 mod 64 = c div 64" by (rule div_mult_mod_eq)
        ultimately show ?thesis by linarith
      qed
      show ?thesis using z s mid by (auto simp: second_of_three_def)
    qed
    show ?thesis using three lead mid split three_digits [of c]
      by (simp add: char_utf8_def decode_step_def)
  next
    case four
    have lead: "c div 262144 < 5" using four by auto
    have mid: "c div 4096 mod 64 < 64" "c div 64 mod 64 < 64" by simp_all
    have split: "second_of_four (240 + c div 262144) (128 + c div 4096 mod 64)"
    proof -
      have z: "16 \<le> c div 4096 mod 64" if "c div 262144 = 0" using that four by simp
      have s: "c div 4096 mod 64 < 16" if "c div 262144 = 4"
      proof -
        have "c div 4096 div 64 = 4" using that by (simp add: div_mult2_eq [symmetric])
        moreover have "c div 4096 div 64 * 64 + c div 4096 mod 64 = c div 4096"
          by (rule div_mult_mod_eq)
        ultimately show ?thesis using four by linarith
      qed
      show ?thesis using z s mid by (auto simp: second_of_four_def)
    qed
    show ?thesis using four lead mid split four_digits [of c]
      by (simp add: char_utf8_def decode_step_def)
  qed
qed

lemma from_utf8_lossy_char:
  assumes "scalar c"
  shows "from_utf8_lossy (char_utf8 c @ rest) = c # from_utf8_lossy rest"
proof -
  from decode_step_char [OF assms] obtain b bs
    where "char_utf8 c = b # bs" and "decode_step (unat b) (bs @ rest) = (c, length bs)"
    by blast
  then show ?thesis by simp
qed

text \<open>The standard library's guarantee the loader and the writer rest on.\<close>

lemma from_utf8_lossy_as_bytes [simp]:
  "list_all scalar s \<Longrightarrow> from_utf8_lossy (as_bytes s) = s"
  by (induction s) (auto simp: as_bytes_def from_utf8_lossy_char)

text \<open>Only U+0000 has a zero byte in its encoding.\<close>

lemma byte_eq_0: "n < 256 \<Longrightarrow> byte n = 0 \<longleftrightarrow> n = 0"
  by (metis unat_byte unat_eq_zero)

lemma zero_in_char_utf8: "scalar c \<Longrightarrow> 0 \<in> set (char_utf8 c) \<longleftrightarrow> c = 0"
  by (auto simp: char_utf8_def scalar_def byte_eq_0 eq_commute [of 0] dest!: sym [of 0])

lemma zero_in_as_bytes: "list_all scalar s \<Longrightarrow> 0 \<in> set (as_bytes s) \<longleftrightarrow> 0 \<in> set s"
  by (induction s) (auto simp: as_bytes_def zero_in_char_utf8)

end
