(* ===== verification/Core.thy ===== *)
theory Core
  imports Utf8
begin

unbundle bit_operations_syntax

text \<open>
  The shared data of \<open>crates/ricevm-core\<close>: the errors, the 176 opcodes with their byte
  values, operands and instructions, type descriptors with their pointer maps, and a decoded
  module with its header, data items, exports, imports and exception handlers.
\<close>

section \<open>Errors\<close>

datatype load_error =
    InvalidMagic i32
  | UnexpectedEof rstring
  | InvalidOpcode u8
  | ObsoleteModule
  | InvalidDataType u8
  | InvalidAddressMode u8
  | ValidationError rstring
  | LoadOther rstring

datatype exec_error =
    NoEntryPoint
  | InvalidPc i32
  | ThreadFault rstring
  | ExecOther rstring

section \<open>Opcodes\<close>

text \<open>
  \<open>#[repr(u8)] enum Opcode\<close> has one variant for every byte up to \<open>0xAF\<close>, so an opcode is such
  a byte: \<open>opcode_as_u8\<close> is the cast \<open>as u8\<close> and \<open>opcode_transmute\<close> the transmute of
  \<open>TryFrom\<close>. Each variant is a constant of the type.
\<close>

typedef opcode = "{b :: u8. b \<le> 175}"
  morphisms opcode_as_u8 opcode_transmute
proof
  show "0 \<in> {b :: u8. b \<le> 175}" by simp
qed

setup_lifting type_definition_opcode

lift_definition Op_Nop :: opcode is "0" by simp
lift_definition Op_Alt :: opcode is "1" by simp
lift_definition Op_Nbalt :: opcode is "2" by simp
lift_definition Op_Goto :: opcode is "3" by simp
lift_definition Op_Call :: opcode is "4" by simp
lift_definition Op_Frame :: opcode is "5" by simp
lift_definition Op_Spawn :: opcode is "6" by simp
lift_definition Op_Runt :: opcode is "7" by simp
lift_definition Op_Load :: opcode is "8" by simp
lift_definition Op_Mcall :: opcode is "9" by simp
lift_definition Op_Mspawn :: opcode is "10" by simp
lift_definition Op_Mframe :: opcode is "11" by simp
lift_definition Op_Ret :: opcode is "12" by simp
lift_definition Op_Jmp :: opcode is "13" by simp
lift_definition Op_Casew :: opcode is "14" by simp
lift_definition Op_Exit :: opcode is "15" by simp
lift_definition Op_New :: opcode is "16" by simp
lift_definition Op_Newa :: opcode is "17" by simp
lift_definition Op_Newcb :: opcode is "18" by simp
lift_definition Op_Newcw :: opcode is "19" by simp
lift_definition Op_Newcf :: opcode is "20" by simp
lift_definition Op_Newcp :: opcode is "21" by simp
lift_definition Op_Newcm :: opcode is "22" by simp
lift_definition Op_Newcmp :: opcode is "23" by simp
lift_definition Op_Send :: opcode is "24" by simp
lift_definition Op_Recv :: opcode is "25" by simp
lift_definition Op_Consb :: opcode is "26" by simp
lift_definition Op_Consw :: opcode is "27" by simp
lift_definition Op_Consp :: opcode is "28" by simp
lift_definition Op_Consf :: opcode is "29" by simp
lift_definition Op_Consm :: opcode is "30" by simp
lift_definition Op_Consmp :: opcode is "31" by simp
lift_definition Op_Headb :: opcode is "32" by simp
lift_definition Op_Headw :: opcode is "33" by simp
lift_definition Op_Headp :: opcode is "34" by simp
lift_definition Op_Headf :: opcode is "35" by simp
lift_definition Op_Headm :: opcode is "36" by simp
lift_definition Op_Headmp :: opcode is "37" by simp
lift_definition Op_Tail :: opcode is "38" by simp
lift_definition Op_Lea :: opcode is "39" by simp
lift_definition Op_Indx :: opcode is "40" by simp
lift_definition Op_Movp :: opcode is "41" by simp
lift_definition Op_Movm :: opcode is "42" by simp
lift_definition Op_Movmp :: opcode is "43" by simp
lift_definition Op_Movb :: opcode is "44" by simp
lift_definition Op_Movw :: opcode is "45" by simp
lift_definition Op_Movf :: opcode is "46" by simp
lift_definition Op_Cvtbw :: opcode is "47" by simp
lift_definition Op_Cvtwb :: opcode is "48" by simp
lift_definition Op_Cvtfw :: opcode is "49" by simp
lift_definition Op_Cvtwf :: opcode is "50" by simp
lift_definition Op_Cvtca :: opcode is "51" by simp
lift_definition Op_Cvtac :: opcode is "52" by simp
lift_definition Op_Cvtwc :: opcode is "53" by simp
lift_definition Op_Cvtcw :: opcode is "54" by simp
lift_definition Op_Cvtfc :: opcode is "55" by simp
lift_definition Op_Cvtcf :: opcode is "56" by simp
lift_definition Op_Addb :: opcode is "57" by simp
lift_definition Op_Addw :: opcode is "58" by simp
lift_definition Op_Addf :: opcode is "59" by simp
lift_definition Op_Subb :: opcode is "60" by simp
lift_definition Op_Subw :: opcode is "61" by simp
lift_definition Op_Subf :: opcode is "62" by simp
lift_definition Op_Mulb :: opcode is "63" by simp
lift_definition Op_Mulw :: opcode is "64" by simp
lift_definition Op_Mulf :: opcode is "65" by simp
lift_definition Op_Divb :: opcode is "66" by simp
lift_definition Op_Divw :: opcode is "67" by simp
lift_definition Op_Divf :: opcode is "68" by simp
lift_definition Op_Modw :: opcode is "69" by simp
lift_definition Op_Modb :: opcode is "70" by simp
lift_definition Op_Andb :: opcode is "71" by simp
lift_definition Op_Andw :: opcode is "72" by simp
lift_definition Op_Orb :: opcode is "73" by simp
lift_definition Op_Orw :: opcode is "74" by simp
lift_definition Op_Xorb :: opcode is "75" by simp
lift_definition Op_Xorw :: opcode is "76" by simp
lift_definition Op_Shlb :: opcode is "77" by simp
lift_definition Op_Shlw :: opcode is "78" by simp
lift_definition Op_Shrb :: opcode is "79" by simp
lift_definition Op_Shrw :: opcode is "80" by simp
lift_definition Op_Insc :: opcode is "81" by simp
lift_definition Op_Indc :: opcode is "82" by simp
lift_definition Op_Addc :: opcode is "83" by simp
lift_definition Op_Lenc :: opcode is "84" by simp
lift_definition Op_Lena :: opcode is "85" by simp
lift_definition Op_Lenl :: opcode is "86" by simp
lift_definition Op_Beqb :: opcode is "87" by simp
lift_definition Op_Bneb :: opcode is "88" by simp
lift_definition Op_Bltb :: opcode is "89" by simp
lift_definition Op_Bleb :: opcode is "90" by simp
lift_definition Op_Bgtb :: opcode is "91" by simp
lift_definition Op_Bgeb :: opcode is "92" by simp
lift_definition Op_Beqw :: opcode is "93" by simp
lift_definition Op_Bnew :: opcode is "94" by simp
lift_definition Op_Bltw :: opcode is "95" by simp
lift_definition Op_Blew :: opcode is "96" by simp
lift_definition Op_Bgtw :: opcode is "97" by simp
lift_definition Op_Bgew :: opcode is "98" by simp
lift_definition Op_Beqf :: opcode is "99" by simp
lift_definition Op_Bnef :: opcode is "100" by simp
lift_definition Op_Bltf :: opcode is "101" by simp
lift_definition Op_Blef :: opcode is "102" by simp
lift_definition Op_Bgtf :: opcode is "103" by simp
lift_definition Op_Bgef :: opcode is "104" by simp
lift_definition Op_Beqc :: opcode is "105" by simp
lift_definition Op_Bnec :: opcode is "106" by simp
lift_definition Op_Bltc :: opcode is "107" by simp
lift_definition Op_Blec :: opcode is "108" by simp
lift_definition Op_Bgtc :: opcode is "109" by simp
lift_definition Op_Bgec :: opcode is "110" by simp
lift_definition Op_Slicea :: opcode is "111" by simp
lift_definition Op_Slicela :: opcode is "112" by simp
lift_definition Op_Slicec :: opcode is "113" by simp
lift_definition Op_Indw :: opcode is "114" by simp
lift_definition Op_Indf :: opcode is "115" by simp
lift_definition Op_Indb :: opcode is "116" by simp
lift_definition Op_Negf :: opcode is "117" by simp
lift_definition Op_Movl :: opcode is "118" by simp
lift_definition Op_Addl :: opcode is "119" by simp
lift_definition Op_Subl :: opcode is "120" by simp
lift_definition Op_Divl :: opcode is "121" by simp
lift_definition Op_Modl :: opcode is "122" by simp
lift_definition Op_Mull :: opcode is "123" by simp
lift_definition Op_Andl :: opcode is "124" by simp
lift_definition Op_Orl :: opcode is "125" by simp
lift_definition Op_Xorl :: opcode is "126" by simp
lift_definition Op_Shll :: opcode is "127" by simp
lift_definition Op_Shrl :: opcode is "128" by simp
lift_definition Op_Bnel :: opcode is "129" by simp
lift_definition Op_Bltl :: opcode is "130" by simp
lift_definition Op_Blel :: opcode is "131" by simp
lift_definition Op_Bgtl :: opcode is "132" by simp
lift_definition Op_Bgel :: opcode is "133" by simp
lift_definition Op_Beql :: opcode is "134" by simp
lift_definition Op_Cvtlf :: opcode is "135" by simp
lift_definition Op_Cvtfl :: opcode is "136" by simp
lift_definition Op_Cvtlw :: opcode is "137" by simp
lift_definition Op_Cvtwl :: opcode is "138" by simp
lift_definition Op_Cvtlc :: opcode is "139" by simp
lift_definition Op_Cvtcl :: opcode is "140" by simp
lift_definition Op_Headl :: opcode is "141" by simp
lift_definition Op_Consl :: opcode is "142" by simp
lift_definition Op_Newcl :: opcode is "143" by simp
lift_definition Op_Casec :: opcode is "144" by simp
lift_definition Op_Indl :: opcode is "145" by simp
lift_definition Op_Movpc :: opcode is "146" by simp
lift_definition Op_Tcmp :: opcode is "147" by simp
lift_definition Op_Mnewz :: opcode is "148" by simp
lift_definition Op_Cvtrf :: opcode is "149" by simp
lift_definition Op_Cvtfr :: opcode is "150" by simp
lift_definition Op_Cvtws :: opcode is "151" by simp
lift_definition Op_Cvtsw :: opcode is "152" by simp
lift_definition Op_Lsrw :: opcode is "153" by simp
lift_definition Op_Lsrl :: opcode is "154" by simp
lift_definition Op_Eclr :: opcode is "155" by simp
lift_definition Op_Newz :: opcode is "156" by simp
lift_definition Op_Newaz :: opcode is "157" by simp
lift_definition Op_Raise :: opcode is "158" by simp
lift_definition Op_Casel :: opcode is "159" by simp
lift_definition Op_Mulx :: opcode is "160" by simp
lift_definition Op_Divx :: opcode is "161" by simp
lift_definition Op_Cvtxx :: opcode is "162" by simp
lift_definition Op_Mulx0 :: opcode is "163" by simp
lift_definition Op_Divx0 :: opcode is "164" by simp
lift_definition Op_Cvtxx0 :: opcode is "165" by simp
lift_definition Op_Mulx1 :: opcode is "166" by simp
lift_definition Op_Divx1 :: opcode is "167" by simp
lift_definition Op_Cvtxx1 :: opcode is "168" by simp
lift_definition Op_Cvtfx :: opcode is "169" by simp
lift_definition Op_Cvtxf :: opcode is "170" by simp
lift_definition Op_Expw :: opcode is "171" by simp
lift_definition Op_Expl :: opcode is "172" by simp
lift_definition Op_Expf :: opcode is "173" by simp
lift_definition Op_Self :: opcode is "174" by simp
lift_definition Op_Brkpt :: opcode is "175" by simp

definition opcode_try_from :: "u8 \<Rightarrow> u8 + opcode" where
  "opcode_try_from v = (if v \<le> opcode_as_u8 Op_Brkpt then Inr (opcode_transmute v) else Inl v)"

text \<open>An executable form: the opcode of a byte, 0 standing for the bytes that have none.\<close>

lift_definition opcode_or_nop :: "nat \<Rightarrow> opcode" is "\<lambda>n. if n \<le> 175 then of_nat n else 0"
  by (simp add: word_le_nat_alt unat_of_nat)

lemma opcode_try_from_code [code]:
  "opcode_try_from v = (if v \<le> 175 then Inr (opcode_or_nop (unat v)) else Inl v)"
  by (auto simp: opcode_try_from_def Op_Brkpt.rep_eq opcode_or_nop.rep_eq opcode_transmute_inverse
      word_le_nat_alt simp flip: opcode_as_u8_inject)

instantiation opcode :: equal
begin

definition equal_opcode :: "opcode \<Rightarrow> opcode \<Rightarrow> bool" where
  "equal_opcode a b \<longleftrightarrow> opcode_as_u8 a = opcode_as_u8 b"

instance
  by standard (simp add: equal_opcode_def opcode_as_u8_inject)

end

lemma opcode_as_u8_le: "opcode_as_u8 op \<le> 175"
  using opcode_as_u8 [of op] by simp

lemma opcode_try_from_as_u8 [simp]: "opcode_try_from (opcode_as_u8 op) = Inr op"
  by (simp add: opcode_try_from_def Op_Brkpt.rep_eq opcode_as_u8_le opcode_as_u8_inverse)

lemma opcode_try_from_Inr: "opcode_try_from v = Inr op \<Longrightarrow> opcode_as_u8 op = v"
  by (auto simp: opcode_try_from_def Op_Brkpt.rep_eq opcode_transmute_inverse split: if_splits)

lemma opcode_try_from_Inl: "opcode_try_from v = Inl e \<longleftrightarrow> e = v \<and> 175 < v"
  by (auto simp: opcode_try_from_def Op_Brkpt.rep_eq not_le)

section \<open>Operands and instructions\<close>

datatype address_mode =
    OffsetIndirectMp
  | OffsetIndirectFp
  | Immediate
  | AM_None
  | OffsetDoubleIndirectMp
  | OffsetDoubleIndirectFp
  | Reserved1
  | Reserved2

datatype middle_mode = MM_None | SmallImmediate | SmallOffsetFp | SmallOffsetMp

record operand =
  op_mode :: address_mode
  op_register1 :: i32
  op_register2 :: i32

record middle_operand =
  mid_mode :: middle_mode
  mid_register1 :: i32

record instruction =
  i_opcode :: opcode
  i_source :: operand
  i_middle :: middle_operand
  i_destination :: operand

definition operand_UNUSED :: operand where
  "operand_UNUSED = \<lparr>op_mode = AM_None, op_register1 = 0, op_register2 = 0\<rparr>"

definition middle_UNUSED :: middle_operand where
  "middle_UNUSED = \<lparr>mid_mode = MM_None, mid_register1 = 0\<rparr>"

section \<open>Types\<close>

type_synonym pointer_map = "u8 list"

definition count_ones :: "u8 \<Rightarrow> nat" where
  "count_ones b = length (filter (\<lambda>i. bit b i) [0..<8])"

definition count_pointers :: "pointer_map \<Rightarrow> nat" where
  "count_pointers m = sum_list (map count_ones m)"

record type_descriptor =
  td_id :: u32
  td_size :: i32
  td_pointer_map :: pointer_map
  td_pointer_count :: nat

section \<open>Modules\<close>

definition XMAGIC :: i32 where
  "XMAGIC = 0x0C8030"

definition SMAGIC :: i32 where
  "SMAGIC = 0x0E1722"

type_synonym runtime_flags = u32

definition MUST_COMPILE :: runtime_flags where
  "MUST_COMPILE = 1"

definition DONT_COMPILE :: runtime_flags where
  "DONT_COMPILE = 2"

definition HAS_IMPORT_DEPRECATED :: runtime_flags where
  "HAS_IMPORT_DEPRECATED = 16"

definition HAS_HANDLER :: runtime_flags where
  "HAS_HANDLER = 32"

definition HAS_IMPORT :: runtime_flags where
  "HAS_IMPORT = 64"

definition flags_contains :: "runtime_flags \<Rightarrow> runtime_flags \<Rightarrow> bool" where
  "flags_contains flags flag \<longleftrightarrow> flags AND flag \<noteq> 0"

record header =
  h_magic :: i32
  h_signature :: "u8 list"
  h_runtime_flags :: runtime_flags
  h_stack_extent :: i32
  h_code_size :: i32
  h_data_size :: i32
  h_type_size :: i32
  h_export_size :: i32
  h_entry_pc :: i32
  h_entry_type :: i32

record export_entry =
  ex_pc :: i32
  ex_frame_type :: i32
  ex_signature :: i32
  ex_name :: rstring

record import_entry =
  im_signature :: i32
  im_name :: rstring

type_synonym import_module = "import_entry list"

record exception_case =
  ec_name :: "rstring option"
  ec_pc :: i32

record handler =
  hd_exception_offset :: i32
  hd_begin_pc :: i32
  hd_end_pc :: i32
  hd_type_descriptor :: "u32 option"
  hd_cases :: "exception_case list"

datatype data_item =
    DI_Bytes i32 "u8 list"
  | DI_Words i32 "i32 list"
  | DI_Bigs i32 "i64 list"
  | DI_Reals i32 "f64_bits list"
  | DI_String i32 rstring
  | DI_Array i32 i32 i32
  | DI_SetArray i32 i32
  | DI_RestoreBase

record dis_module =
  m_header :: header
  m_code :: "instruction list"
  m_types :: "type_descriptor list"
  m_data :: "data_item list"
  m_name :: rstring
  m_exports :: "export_entry list"
  m_imports :: "import_module list"
  m_handlers :: "handler list"

lemma count_ones_le: "count_ones b \<le> 8"
  unfolding count_ones_def by (rule order_trans [OF length_filter_le]) simp

lemma count_pointers_le: "count_pointers m \<le> 8 * length m"
proof (induction m)
  case (Cons b m)
  then show ?case using count_ones_le [of b] by (simp add: count_pointers_def)
qed (simp add: count_pointers_def)

end
