(* ===== verification/Bytes.thy ===== *)
theory Bytes
  imports Prelude
begin

unbundle bit_operations_syntax

text \<open>
  Machine words as bytes: Rust's \<open>to_be_bytes\<close> and \<open>from_be_bytes\<close> of 32-bit and 64-bit
  values, which the module format uses, and \<open>to_ne_bytes\<close>/\<open>from_ne_bytes\<close>, which the machine's
  memory uses. The native order is the little-endian one of the targets the program is built for.
\<close>

section \<open>Bits of a 32-bit word\<close>

lemma upt32: "[0..<32] = [0, 1, 2, 3, 4, 5, 6, 7, 8, 9, 10, 11, 12, 13, 14, 15, 16, 17, 18, 19, 20, 21, 22, 23, 24, 25, 26, 27, 28, 29, 30, 31]"
  by code_simp

lemma word32_eq_bits: "x = y \<longleftrightarrow> list_all (\<lambda>i. bit x i = bit y i)
  [0, 1, 2, 3, 4, 5, 6, 7, 8, 9, 10, 11, 12, 13, 14, 15, 16, 17, 18, 19, 20, 21, 22, 23, 24, 25, 26, 27, 28, 29, 30, 31]" for x y :: "32 word"
proof -
  have "x = y \<longleftrightarrow> (\<forall>i<32. bit x i = bit y i)"
    by (auto intro: bit_word_eqI)
  also have "\<dots> \<longleftrightarrow> list_all (\<lambda>i. bit x i = bit y i) [0..<32]"
    by (auto simp: list_all_iff)
  finally show ?thesis by (simp only: upt32)
qed

section \<open>Big-endian bytes\<close>

definition word_of_be :: "u8 list \<Rightarrow> i32" where
  "word_of_be bs = push_bit 24 (ucast (bs ! 0)) OR push_bit 16 (ucast (bs ! 1)) OR
    push_bit 8 (ucast (bs ! 2)) OR ucast (bs ! 3)"

definition join_words :: "i32 \<Rightarrow> i32 \<Rightarrow> u64" where
  "join_words hi lo = push_bit 32 (ucast hi) OR ucast lo"

definition to_be_bytes32 :: "i32 \<Rightarrow> u8 list" where
  "to_be_bytes32 v =
    [ucast (drop_bit 24 v), ucast (drop_bit 16 v), ucast (drop_bit 8 v), ucast v]"

definition to_be_bytes64 :: "u64 \<Rightarrow> u8 list" where
  "to_be_bytes64 v =
    [ucast (drop_bit 56 v), ucast (drop_bit 48 v), ucast (drop_bit 40 v), ucast (drop_bit 32 v),
     ucast (drop_bit 24 v), ucast (drop_bit 16 v), ucast (drop_bit 8 v), ucast v]"

lemma word_of_be_bytes: "word_of_be (to_be_bytes32 v) = v"
  unfolding word32_eq_bits by (simp add: word_of_be_def to_be_bytes32_def bit_simps)

lemma to_be_bytes64_split:
  "to_be_bytes64 v = to_be_bytes32 (ucast (drop_bit 32 v)) @ to_be_bytes32 (ucast v)"
proof -
  have hi: "ucast (drop_bit n (ucast (drop_bit 32 v) :: i32)) = (ucast (drop_bit (32 + n) v) :: u8)"
    if "n \<le> 24" for n using that by (intro bit_word_eqI) (auto simp: bit_simps ac_simps)
  have lo: "ucast (drop_bit n (ucast v :: i32)) = (ucast (drop_bit n v) :: u8)" if "n \<le> 24" for n
    using that by (intro bit_word_eqI) (auto simp: bit_simps)
  from hi [of 0] lo [of 0] show ?thesis
    by (simp add: to_be_bytes64_def to_be_bytes32_def hi lo)
qed

lemma join_words_split: "join_words (ucast (drop_bit 32 v)) (ucast v) = v"
  unfolding join_words_def by (rule bit_word_eqI) (auto simp: bit_simps)

section \<open>Native bytes\<close>

definition to_ne_bytes32 :: "i32 \<Rightarrow> u8 list" where
  "to_ne_bytes32 v = rev (to_be_bytes32 v)"

definition from_ne_bytes32 :: "u8 list \<Rightarrow> i32" where
  "from_ne_bytes32 bs = word_of_be (rev bs)"

definition to_ne_bytes64 :: "u64 \<Rightarrow> u8 list" where
  "to_ne_bytes64 v = rev (to_be_bytes64 v)"

definition from_ne_bytes64 :: "u8 list \<Rightarrow> u64" where
  "from_ne_bytes64 bs =
    join_words (from_ne_bytes32 (drop 4 bs)) (from_ne_bytes32 (take 4 bs))"

lemma length_to_ne_bytes [simp]:
  "length (to_ne_bytes32 v) = 4" "length (to_ne_bytes64 w) = 8"
  by (simp_all add: to_ne_bytes32_def to_be_bytes32_def to_ne_bytes64_def to_be_bytes64_def)

lemma from_to_ne_bytes32 [simp]: "from_ne_bytes32 (to_ne_bytes32 v) = v"
  by (simp add: from_ne_bytes32_def to_ne_bytes32_def word_of_be_bytes)

lemma from_to_ne_bytes64 [simp]: "from_ne_bytes64 (to_ne_bytes64 v) = v"
proof -
  have "to_ne_bytes64 v = to_ne_bytes32 (ucast v) @ to_ne_bytes32 (ucast (drop_bit 32 v))"
    by (simp add: to_ne_bytes64_def to_ne_bytes32_def to_be_bytes64_split)
  then show ?thesis by (simp add: from_ne_bytes64_def join_words_split)
qed

lemma from_ne_bytes_zero [simp]:
  "from_ne_bytes32 (replicate 4 0) = 0" "from_ne_bytes64 (replicate 8 0) = 0"
  by (simp_all add: from_ne_bytes32_def from_ne_bytes64_def word_of_be_def join_words_def
      numeral_eq_Suc)

end
