(* ===== verification/Reader.thy ===== *)
theory Reader
  imports Core Bytes
begin

unbundle bit_operations_syntax

text \<open>
  \<open>crates/ricevm-loader/src/reader.rs\<close>: a cursor over the bytes of a module. Every operation
  is a state-and-error computation on the cursor. The contract the loader relies on is the locale
  \<open>reader_op\<close>: an operation never changes the bytes, never moves the cursor backwards and never
  moves it past the end. \<open>parses p bs x\<close> says that \<open>p\<close> reads exactly the bytes \<open>bs\<close> as \<open>x\<close>,
  whatever follows them.
\<close>

section \<open>The cursor\<close>

record reader =
  r_data :: "u8 list"
  r_pos :: usize

type_synonym 'a rd = "(reader, load_error, 'a) sm"

definition reader_new :: "u8 list \<Rightarrow> reader" where
  "reader_new data = \<lparr>r_data = data, r_pos = 0\<rparr>"

definition read_byte :: "rstring \<Rightarrow> u8 rd" where
  "read_byte section = (\<lambda>r.
    if length (r_data r) \<le> r_pos r then (Inl (UnexpectedEof section), r)
    else (Inr (r_data r ! r_pos r), r\<lparr>r_pos := r_pos r + 1\<rparr>))"

definition remaining :: "reader \<Rightarrow> usize" where
  "remaining r = length (r_data r) - r_pos r"

definition read_bytes :: "usize \<Rightarrow> rstring \<Rightarrow> u8 list rd" where
  "read_bytes n section = (\<lambda>r.
    if remaining r < n then (Inl (UnexpectedEof section), r)
    else (Inr (subrange (r_pos r) n (r_data r)), r\<lparr>r_pos := r_pos r + n\<rparr>))"

definition read_operand :: "rstring \<Rightarrow> i32 rd" where
  "read_operand section =
    sbind (read_byte section) (\<lambda>b0.
    let b = ucast b0 :: i32;
        high = (if b AND 0x20 \<noteq> 0 then b OR NOT 0x3F else b AND 0x3F)
    in if b AND 0xC0 = 0 then ret b
       else if b AND 0xC0 = 0x40 then ret (b OR NOT 0x7F)
       else if b AND 0xC0 = 0x80 then
         sbind (read_byte section) (\<lambda>b2.
         ret (push_bit 8 high OR ucast b2))
       else
         sbind (read_byte section) (\<lambda>b2.
         sbind (read_byte section) (\<lambda>b3.
         sbind (read_byte section) (\<lambda>b4.
         ret (push_bit 24 high OR push_bit 16 (ucast b2) OR push_bit 8 (ucast b3) OR ucast b4)))))"

definition read_word_be :: "rstring \<Rightarrow> i32 rd" where
  "read_word_be section = sbind (read_bytes 4 section) (\<lambda>bs. ret (word_of_be bs))"

text \<open>The loop of \<open>read_cstring\<close>: the bytes up to the terminator, which is skipped.\<close>

fun cstring_scan :: "u8 list \<Rightarrow> u8 list option" where
  "cstring_scan [] = None"
| "cstring_scan (b # bs) = (if b = 0 then Some [] else map_option ((#) b) (cstring_scan bs))"

definition read_cstring :: "rstring \<Rightarrow> rstring rd" where
  "read_cstring section = (\<lambda>r.
    case cstring_scan (drop (r_pos r) (r_data r)) of
      None \<Rightarrow> (Inl (UnexpectedEof section), r\<lparr>r_pos := max (r_pos r) (length (r_data r))\<rparr>)
    | Some bs \<Rightarrow> (Inr (from_utf8_lossy bs), r\<lparr>r_pos := r_pos r + length bs + 1\<rparr>))"

section \<open>The contract of a reading operation\<close>

definition reader_ok :: "reader \<Rightarrow> bool" where
  "reader_ok r \<longleftrightarrow> r_pos r \<le> length (r_data r)"

locale reader_op =
  fixes p :: "'a rd"
  assumes keeps_data: "reader_ok r \<Longrightarrow> r_data (snd (p r)) = r_data r"
    and keeps_ok: "reader_ok r \<Longrightarrow> reader_ok (snd (p r))"
    and moves_forward: "reader_ok r \<Longrightarrow> r_pos r \<le> r_pos (snd (p r))"
begin

lemma pos_bounded: "reader_ok r \<Longrightarrow> r_pos (snd (p r)) \<le> length (r_data r)"
  using keeps_ok keeps_data by (metis reader_ok_def)

lemma consumed_at_most_remaining:
  "reader_ok r \<Longrightarrow> r_pos (snd (p r)) - r_pos r \<le> remaining r"
  using pos_bounded by (simp add: remaining_def diff_le_mono)

lemma remaining_le:
  "reader_ok r \<Longrightarrow> p r = (x, r') \<Longrightarrow> remaining r' \<le> remaining r \<and> reader_ok r'"
  using keeps_data [of r] keeps_ok [of r] moves_forward [of r] by (auto simp: remaining_def)

end

lemma reader_op_ret [intro, simp]: "reader_op (ret x)"
  by unfold_locales (auto simp: sm_run)

lemma reader_op_fail [intro, simp]: "reader_op (fail e)"
  by unfold_locales (auto simp: sm_run)

lemma reader_op_reads [intro, simp]: "reader_op (reads f)"
  by unfold_locales auto

lemma reader_op_sbind [intro]:
  assumes "reader_op p" and "\<And>x. reader_op (f x)"
  shows "reader_op (sbind p f)"
proof -
  have keep: "r_data (snd (sbind p f r)) = r_data r \<and> reader_ok (snd (sbind p f r)) \<and>
    r_pos r \<le> r_pos (snd (sbind p f r))" if ok: "reader_ok r" for r
  proof (cases "p r")
    case (Pair res r')
    note p = reader_op.keeps_data [OF assms(1) ok] reader_op.keeps_ok [OF assms(1) ok]
      reader_op.moves_forward [OF assms(1) ok]
    show ?thesis
    proof (cases res)
      case (Inl e)
      with Pair p show ?thesis by simp
    next
      case (Inr x)
      from p Pair have ok': "reader_ok r'" by simp
      note f = reader_op.keeps_data [OF assms(2) ok'] reader_op.keeps_ok [OF assms(2) ok']
        reader_op.moves_forward [OF assms(2) ok']
      from Inr Pair p f [of x] show ?thesis by simp
    qed
  qed
  show ?thesis by unfold_locales (use keep in auto)
qed

lemma reader_op_repeat [intro]: "reader_op p \<Longrightarrow> reader_op (repeat_sm n p)"
  by (induction n) auto

lemma reader_op_if [intro]:
  "(c \<Longrightarrow> reader_op p) \<Longrightarrow> (\<not> c \<Longrightarrow> reader_op q) \<Longrightarrow> reader_op (if c then p else q)"
  by simp

lemma cstring_scan_length: "cstring_scan bs = Some xs \<Longrightarrow> length xs < length bs"
  by (induction bs arbitrary: xs) (auto split: if_splits)

interpretation rbyte: reader_op "read_byte section" for "section"
  by unfold_locales (auto simp: read_byte_def reader_ok_def)

interpretation rbytes: reader_op "read_bytes n section" for n "section"
  by unfold_locales (auto simp: read_bytes_def reader_ok_def remaining_def)

interpretation rcstring: reader_op "read_cstring section" for "section"
  by unfold_locales
    (auto simp: read_cstring_def reader_ok_def split: option.splits dest: cstring_scan_length)

interpretation roperand: reader_op "read_operand section" for "section"
  unfolding read_operand_def Let_def
  by (intro reader_op_sbind reader_op_if reader_op_ret rbyte.reader_op_axioms)

interpretation rword: reader_op "read_word_be section" for "section"
  unfolding read_word_be_def
  by (intro reader_op_sbind reader_op_ret rbytes.reader_op_axioms)

lemmas reader_ops [intro, simp] =
  rbyte.reader_op_axioms rbytes.reader_op_axioms rcstring.reader_op_axioms
  roperand.reader_op_axioms rword.reader_op_axioms

end
