(* ===== verification/Loader.thy ===== *)
theory Loader
  imports Reader
begin

unbundle bit_operations_syntax

text \<open>
  \<open>crates/ricevm-loader/src/decode.rs\<close> and \<open>lib.rs\<close>: the sections of a \<open>.dis\<close> module in file
  order, the validation of the parsed module, and \<open>load\<close>. The loop of the data section runs until
  a zero byte; \<open>parse_data_loop\<close> is bounded by the bytes that are left, which is enough
  because every item takes at least one byte.
\<close>

section \<open>Counts and offsets\<close>

definition checked_count :: "i32 \<Rightarrow> rstring \<Rightarrow> load_error + usize" where
  "checked_count value section =
    (case usize_try_from value of
       Some n \<Rightarrow> Inr n
     | None \<Rightarrow> Inl (ValidationError (rstr ''negative count '' @ show_int (sint value) @
         rstr '' in '' @ section @ rstr '' section'')))"

definition lift_res :: "'e + 'a \<Rightarrow> ('s, 'e, 'a) sm" where
  "lift_res r = (case r of Inl e \<Rightarrow> fail e | Inr x \<Rightarrow> ret x)"

definition read_count :: "rstring \<Rightarrow> usize rd" where
  "read_count section =
    sbind (read_operand section) (\<lambda>value. lift_res (checked_count value section))"

definition checked_offset :: "i32 \<Rightarrow> rstring \<Rightarrow> load_error + i32" where
  "checked_offset value section =
    (if sint value < 0
     then Inl (ValidationError (rstr ''negative offset '' @ show_int (sint value) @
       rstr '' in '' @ section @ rstr '' section''))
     else Inr value)"

definition capacity_for :: "usize \<Rightarrow> reader \<Rightarrow> usize" where
  "capacity_for count r = min count (remaining r)"

section \<open>Header\<close>

definition parse_signature :: "i32 \<Rightarrow> u8 list rd" where
  "parse_signature magic =
    (if magic = SMAGIC then
       sbind (read_count (rstr ''header'')) (\<lambda>sig_len. read_bytes sig_len (rstr ''header''))
     else if magic = XMAGIC then ret []
     else fail (InvalidMagic magic))"

definition parse_header :: "header rd" where
  "parse_header =
    sbind (read_operand (rstr ''header'')) (\<lambda>magic.
    sbind (parse_signature magic) (\<lambda>signature.
    sbind (read_operand (rstr ''header'')) (\<lambda>runtime_flags.
    sbind (read_operand (rstr ''header'')) (\<lambda>stack_extent.
    sbind (read_operand (rstr ''header'')) (\<lambda>code_size.
    sbind (read_operand (rstr ''header'')) (\<lambda>data_size.
    sbind (read_operand (rstr ''header'')) (\<lambda>type_size.
    sbind (read_operand (rstr ''header'')) (\<lambda>export_size.
    sbind (read_operand (rstr ''header'')) (\<lambda>entry_pc.
    sbind (read_operand (rstr ''header'')) (\<lambda>entry_type.
    ret \<lparr>h_magic = magic, h_signature = signature, h_runtime_flags = runtime_flags,
      h_stack_extent = stack_extent, h_code_size = code_size, h_data_size = data_size,
      h_type_size = type_size, h_export_size = export_size, h_entry_pc = entry_pc,
      h_entry_type = entry_type\<rparr>))))))))))"

section \<open>Code\<close>

definition address_mode_of_bits :: "u8 \<Rightarrow> address_mode option" where
  "address_mode_of_bits mode_bits =
    (if mode_bits = 0 then Some OffsetIndirectMp
     else if mode_bits = 1 then Some OffsetIndirectFp
     else if mode_bits = 2 then Some Immediate
     else if mode_bits = 4 then Some OffsetDoubleIndirectMp
     else if mode_bits = 5 then Some OffsetDoubleIndirectFp
     else None)"

definition parse_src_dst_operand :: "u8 \<Rightarrow> operand rd" where
  "parse_src_dst_operand mode_bits =
    (if mode_bits = 3 then ret operand_UNUSED
     else case address_mode_of_bits mode_bits of
       None \<Rightarrow> fail (InvalidAddressMode mode_bits)
     | Some mode \<Rightarrow>
         sbind (read_operand (rstr ''code'')) (\<lambda>register1.
         sbind (if mode_bits = 4 \<or> mode_bits = 5 then read_operand (rstr ''code'') else ret 0)
           (\<lambda>register2.
         ret \<lparr>op_mode = mode, op_register1 = register1, op_register2 = register2\<rparr>)))"

definition middle_mode_of_bits :: "u8 \<Rightarrow> middle_mode" where
  "middle_mode_of_bits mid_bits =
    (if mid_bits = 1 then SmallImmediate
     else if mid_bits = 2 then SmallOffsetFp
     else SmallOffsetMp)"

definition parse_middle_operand :: "u8 \<Rightarrow> middle_operand rd" where
  "parse_middle_operand mid_bits =
    (if mid_bits = 0 then ret middle_UNUSED
     else
       sbind (read_operand (rstr ''code'')) (\<lambda>register1.
       ret \<lparr>mid_mode = middle_mode_of_bits mid_bits, mid_register1 = register1\<rparr>))"

definition parse_instruction :: "instruction rd" where
  "parse_instruction =
    sbind (read_byte (rstr ''code'')) (\<lambda>op_byte.
    sbind (case opcode_try_from op_byte of Inl v \<Rightarrow> fail (InvalidOpcode v) | Inr op \<Rightarrow> ret op)
      (\<lambda>opcode.
    sbind (read_byte (rstr ''code'')) (\<lambda>addr_code.
    let mid_bits = drop_bit 6 addr_code AND 3;
        src_bits = drop_bit 3 addr_code AND 7;
        dst_bits = addr_code AND 7
    in
      sbind (parse_middle_operand mid_bits) (\<lambda>middle.
      sbind (parse_src_dst_operand src_bits) (\<lambda>source.
      sbind (parse_src_dst_operand dst_bits) (\<lambda>destination.
      ret \<lparr>i_opcode = opcode, i_source = source, i_middle = middle,
        i_destination = destination\<rparr>))))))"

definition parse_code :: "i32 \<Rightarrow> instruction list rd" where
  "parse_code count =
    sbind (lift_res (checked_count count (rstr ''code''))) (\<lambda>count.
    repeat_sm count parse_instruction)"

section \<open>Types\<close>

definition parse_type :: "type_descriptor rd" where
  "parse_type =
    sbind (read_operand (rstr ''type'')) (\<lambda>tid.
    sbind (read_operand (rstr ''type'')) (\<lambda>size.
    sbind (read_count (rstr ''type'')) (\<lambda>map_in_bytes.
    sbind (if 0 < map_in_bytes then read_bytes map_in_bytes (rstr ''type'') else ret []) (\<lambda>bytes.
    ret \<lparr>td_id = tid, td_size = size, td_pointer_map = bytes,
      td_pointer_count = count_pointers bytes\<rparr>))))"

definition parse_types :: "i32 \<Rightarrow> type_descriptor list rd" where
  "parse_types count =
    sbind (lift_res (checked_count count (rstr ''type''))) (\<lambda>count. repeat_sm count parse_type)"

section \<open>Data\<close>

definition read_real :: "f64_bits rd" where
  "read_real =
    sbind (read_word_be (rstr ''data'')) (\<lambda>hi.
    sbind (read_word_be (rstr ''data'')) (\<lambda>lo.
    ret (join_words hi lo)))"

definition read_big :: "i64 rd" where
  "read_big =
    sbind (read_word_be (rstr ''data'')) (\<lambda>hi.
    sbind (read_word_be (rstr ''data'')) (\<lambda>lo.
    ret (join_words hi lo)))"

definition parse_data_body :: "u8 \<Rightarrow> usize \<Rightarrow> i32 \<Rightarrow> data_item rd" where
  "parse_data_body item_type count offset =
    (if item_type = 1 then
       sbind (read_bytes count (rstr ''data'')) (\<lambda>values. ret (DI_Bytes offset values))
     else if item_type = 2 then
       sbind (repeat_sm count (read_word_be (rstr ''data''))) (\<lambda>values. ret (DI_Words offset values))
     else if item_type = 3 then
       sbind (read_bytes count (rstr ''data'')) (\<lambda>bytes.
       ret (DI_String offset (from_utf8_lossy bytes)))
     else if item_type = 4 then
       sbind (repeat_sm count read_real) (\<lambda>values. ret (DI_Reals offset values))
     else if item_type = 5 then
       sbind (read_word_be (rstr ''data'')) (\<lambda>element_type.
       sbind (read_word_be (rstr ''data'')) (\<lambda>length.
       ret (DI_Array offset element_type length)))
     else if item_type = 6 then
       sbind (read_word_be (rstr ''data'')) (\<lambda>index. ret (DI_SetArray offset index))
     else if item_type = 7 then ret DI_RestoreBase
     else if item_type = 8 then
       sbind (repeat_sm count read_big) (\<lambda>values. ret (DI_Bigs offset values))
     else fail (InvalidDataType item_type))"

definition parse_data_item :: "u8 \<Rightarrow> data_item rd" where
  "parse_data_item code =
    (let item_type = drop_bit 4 code AND 15; inline_count = unat (code AND 15) in
     sbind (if inline_count = 0 then read_count (rstr ''data'') else ret inline_count) (\<lambda>count.
     sbind (read_operand (rstr ''data'')) (\<lambda>raw_offset.
     sbind (lift_res (checked_offset raw_offset (rstr ''data''))) (\<lambda>offset.
     parse_data_body item_type count offset))))"

fun parse_data_loop :: "nat \<Rightarrow> data_item list rd" where
  "parse_data_loop fuel =
    sbind (read_byte (rstr ''data'')) (\<lambda>code.
    if code = 0 then ret []
    else case fuel of
      0 \<Rightarrow> fail (UnexpectedEof (rstr ''data''))
    | Suc fuel' \<Rightarrow>
        sbind (parse_data_item code) (\<lambda>item.
        sbind (parse_data_loop fuel') (\<lambda>items. ret (item # items))))"

declare parse_data_loop.simps [simp del]

definition parse_data :: "data_item list rd" where
  "parse_data = sbind (reads remaining) parse_data_loop"

section \<open>Name, exports, imports, handlers\<close>

definition parse_name :: "rstring rd" where
  "parse_name = read_cstring (rstr ''module name'')"

definition parse_export :: "export_entry rd" where
  "parse_export =
    sbind (read_operand (rstr ''export'')) (\<lambda>pc.
    sbind (read_operand (rstr ''export'')) (\<lambda>frame_type.
    sbind (read_word_be (rstr ''export'')) (\<lambda>signature.
    sbind (read_cstring (rstr ''export'')) (\<lambda>name.
    ret \<lparr>ex_pc = pc, ex_frame_type = frame_type, ex_signature = signature, ex_name = name\<rparr>))))"

definition parse_exports :: "i32 \<Rightarrow> export_entry list rd" where
  "parse_exports count =
    sbind (lift_res (checked_count count (rstr ''export''))) (\<lambda>count.
    repeat_sm count parse_export)"

definition parse_import :: "import_entry rd" where
  "parse_import =
    sbind (read_word_be (rstr ''import'')) (\<lambda>signature.
    sbind (read_cstring (rstr ''import'')) (\<lambda>name.
    ret \<lparr>im_signature = signature, im_name = name\<rparr>))"

definition parse_import_module :: "import_module rd" where
  "parse_import_module =
    sbind (read_count (rstr ''import'')) (\<lambda>func_count. repeat_sm func_count parse_import)"

definition expect_null :: "rstring \<Rightarrow> rstring \<Rightarrow> unit rd" where
  "expect_null section msg =
    sbind (read_byte section) (\<lambda>e. if e \<noteq> 0 then fail (LoadOther msg) else ret ())"

definition parse_imports :: "import_module list rd" where
  "parse_imports =
    sbind (read_count (rstr ''import'')) (\<lambda>module_count.
    sbind (repeat_sm module_count parse_import_module) (\<lambda>modules.
    sbind (expect_null (rstr ''import'') (rstr ''expected null byte at end of import section''))
      (\<lambda>_. ret modules)))"

definition parse_case :: "exception_case rd" where
  "parse_case =
    sbind (read_cstring (rstr ''handler'')) (\<lambda>name_str.
    sbind (read_operand (rstr ''handler'')) (\<lambda>pc.
    ret \<lparr>ec_name = (if name_str = [] then None else Some name_str), ec_pc = pc\<rparr>))"

definition parse_handler :: "handler rd" where
  "parse_handler =
    sbind (read_operand (rstr ''handler'')) (\<lambda>exception_offset.
    sbind (read_operand (rstr ''handler'')) (\<lambda>begin_pc.
    sbind (read_operand (rstr ''handler'')) (\<lambda>end_pc.
    sbind (read_operand (rstr ''handler'')) (\<lambda>type_desc_number.
    sbind (read_operand (rstr ''handler'')) (\<lambda>packed_cases.
    let total_count = unat (packed_cases AND 0xFFFF) in
    sbind (repeat_sm total_count parse_case) (\<lambda>cases.
    sbind (read_operand (rstr ''handler'')) (\<lambda>wildcard_pc.
    ret \<lparr>hd_exception_offset = exception_offset, hd_begin_pc = begin_pc, hd_end_pc = end_pc,
      hd_type_descriptor = (if type_desc_number = - 1 then None else Some type_desc_number),
      hd_cases = cases @ [\<lparr>ec_name = None, ec_pc = wildcard_pc\<rparr>]\<rparr>)))))))"

definition parse_handlers :: "handler list rd" where
  "parse_handlers =
    sbind (read_count (rstr ''handler'')) (\<lambda>handler_count.
    sbind (repeat_sm handler_count parse_handler) (\<lambda>handlers.
    sbind (expect_null (rstr ''handler'') (rstr ''expected null byte at end of handler section''))
      (\<lambda>_. ret handlers)))"

section \<open>Validation\<close>

definition invalid :: "rstring list \<Rightarrow> load_error + unit" where
  "invalid parts = Inl (ValidationError (concat parts))"

definition as_i32 :: "usize \<Rightarrow> i32" where
  "as_i32 n = of_nat n"

text \<open>\<open>x < 0 || x >= len\<close> on \<open>i32\<close>.\<close>

definition out_of_bounds :: "i32 \<Rightarrow> i32 \<Rightarrow> bool" where
  "out_of_bounds x len \<longleftrightarrow> sint x < 0 \<or> sint len \<le> sint x"

fun validate_exports :: "i32 \<Rightarrow> i32 \<Rightarrow> nat \<Rightarrow> export_entry list \<Rightarrow> load_error + unit" where
  "validate_exports code_len type_len i [] = Inr ()"
| "validate_exports code_len type_len i (e # es) =
    (if 0 \<le> sint (ex_pc e) \<and> sint code_len \<le> sint (ex_pc e) then
       invalid [rstr ''export['', show_nat i, rstr ''] '', [39], ex_name e, [39], rstr '' has pc '',
         show_i32 (ex_pc e), rstr '' out of bounds (code size '', show_i32 code_len, rstr '')'']
     else if 0 \<le> sint (ex_frame_type e) \<and> 0 < sint type_len \<and>
         sint type_len \<le> sint (ex_frame_type e) then
       invalid [rstr ''export['', show_nat i, rstr ''] '', [39], ex_name e, [39],
         rstr '' has frame_type '', show_i32 (ex_frame_type e),
         rstr '' out of bounds (type count '', show_i32 type_len, rstr '')'']
     else validate_exports code_len type_len (Suc i) es)"

fun validate_cases ::
  "i32 \<Rightarrow> nat \<Rightarrow> nat \<Rightarrow> nat \<Rightarrow> exception_case list \<Rightarrow> load_error + unit" where
  "validate_cases code_len i wildcard_index j [] = Inr ()"
| "validate_cases code_len i wildcard_index j (c # cs) =
    (if j = wildcard_index \<and> ec_pc c = - 1 then
       validate_cases code_len i wildcard_index (Suc j) cs
     else if out_of_bounds (ec_pc c) code_len then
       invalid [rstr ''handler['', show_nat i, rstr ''] case['', show_nat j, rstr ''] pc '',
         show_i32 (ec_pc c), rstr '' out of bounds (code size '', show_i32 code_len, rstr '')'']
     else validate_cases code_len i wildcard_index (Suc j) cs)"

definition validate_handler ::
  "i32 \<Rightarrow> i32 \<Rightarrow> usize \<Rightarrow> nat \<Rightarrow> handler \<Rightarrow> load_error + unit" where
  "validate_handler code_len type_len n_types i h =
    (if out_of_bounds (hd_begin_pc h) code_len then
       invalid [rstr ''handler['', show_nat i, rstr ''] begin_pc '', show_i32 (hd_begin_pc h),
         rstr '' out of bounds'']
     else if sint (hd_end_pc h) < 0 \<or> sint code_len < sint (hd_end_pc h) then
       invalid [rstr ''handler['', show_nat i, rstr ''] end_pc '', show_i32 (hd_end_pc h),
         rstr '' out of bounds'']
     else if sint (hd_end_pc h) \<le> sint (hd_begin_pc h) then
       invalid [rstr ''handler['', show_nat i, rstr ''] begin_pc '', show_i32 (hd_begin_pc h),
         rstr '' >= end_pc '', show_i32 (hd_end_pc h)]
     else
       and_then
         (case hd_type_descriptor h of
            Some td \<Rightarrow>
              if n_types \<le> unat td then
                invalid [rstr ''handler['', show_nat i, rstr ''] type_descriptor '',
                  show_nat (unat td), rstr '' out of bounds (type count '', show_i32 type_len,
                  rstr '')'']
              else Inr ()
          | None \<Rightarrow> Inr ())
         (\<lambda>_. validate_cases code_len i (length (hd_cases h) - 1) 0 (hd_cases h)))"

fun validate_handlers ::
  "i32 \<Rightarrow> i32 \<Rightarrow> usize \<Rightarrow> nat \<Rightarrow> handler list \<Rightarrow> load_error + unit" where
  "validate_handlers code_len type_len n_types i [] = Inr ()"
| "validate_handlers code_len type_len n_types i (h # hs) =
    and_then (validate_handler code_len type_len n_types i h)
      (\<lambda>_. validate_handlers code_len type_len n_types (Suc i) hs)"

definition validate_module :: "dis_module \<Rightarrow> load_error + unit" where
  "validate_module m =
    (let code_len = as_i32 (length (m_code m));
         type_len = as_i32 (length (m_types m));
         h = m_header m
     in
       if h_entry_pc h \<noteq> - 1 \<and> out_of_bounds (h_entry_pc h) code_len then
         invalid [rstr ''entry_pc '', show_i32 (h_entry_pc h),
           rstr '' is out of bounds (code size '', show_i32 code_len, rstr '')'']
       else if h_entry_type h \<noteq> - 1 \<and> 0 < sint type_len \<and>
           out_of_bounds (h_entry_type h) type_len then
         invalid [rstr ''entry_type '', show_i32 (h_entry_type h),
           rstr '' is out of bounds (type count '', show_i32 type_len, rstr '')'']
       else if flags_contains (h_runtime_flags h) MUST_COMPILE \<and>
           flags_contains (h_runtime_flags h) DONT_COMPILE then
         invalid [rstr ''MUST_COMPILE and DONT_COMPILE flags are both set'']
       else
         and_then (validate_exports code_len type_len 0 (m_exports m)) (\<lambda>_.
         validate_handlers code_len type_len (length (m_types m)) 0 (m_handlers m)))"

section \<open>The module\<close>

definition parse_module :: "dis_module rd" where
  "parse_module =
    sbind parse_header (\<lambda>header.
    sbind (parse_code (h_code_size header)) (\<lambda>code.
    sbind (parse_types (h_type_size header)) (\<lambda>types.
    sbind parse_data (\<lambda>data.
    sbind parse_name (\<lambda>name.
    sbind (parse_exports (h_export_size header)) (\<lambda>exports.
    sbind (if flags_contains (h_runtime_flags header) HAS_IMPORT then parse_imports else ret [])
      (\<lambda>imports.
    sbind (if flags_contains (h_runtime_flags header) HAS_HANDLER then parse_handlers else ret [])
      (\<lambda>handlers.
    let m = \<lparr>m_header = header, m_code = code, m_types = types, m_data = data, m_name = name,
          m_exports = exports, m_imports = imports, m_handlers = handlers\<rparr> in
    sbind (lift_res (validate_module m)) (\<lambda>_. ret m)))))))))"

definition load :: "u8 list \<Rightarrow> load_error + dis_module" where
  "load data =
    (if data = [] then Inl (UnexpectedEof (rstr ''header''))
     else fst (parse_module (reader_new data)))"

end
