(* ===== verification/LoadProps.thy ===== *)
theory LoadProps
  imports Loader
begin

unbundle bit_operations_syntax

text \<open>
  What loading promises: every parser keeps the cursor inside the bytes (an interpretation of
  \<open>reader_op\<close> for each section), the bounded loop of the data section is the source's unbounded
  one, and a module that \<open>load\<close> accepts is well-formed.
\<close>

section \<open>Every parser is a reading operation\<close>

lemma reader_op_lift_res [intro, simp]: "reader_op (lift_res r)"
  by (cases r) (auto simp: lift_res_def)

lemma reader_op_count [intro, simp]: "reader_op (read_count sec)"
  unfolding read_count_def by auto

lemma reader_op_sum [intro]:
  "(\<And>x. reader_op (f x)) \<Longrightarrow> (\<And>y. reader_op (g y)) \<Longrightarrow>
    reader_op (case s of Inl x \<Rightarrow> f x | Inr y \<Rightarrow> g y)"
  by (cases s) auto

lemma reader_op_option [intro]:
  "reader_op n \<Longrightarrow> (\<And>x. reader_op (f x)) \<Longrightarrow>
    reader_op (case m of None \<Rightarrow> n | Some x \<Rightarrow> f x)"
  by (cases m) auto

interpretation rheader: reader_op parse_header
  unfolding parse_header_def parse_signature_def by (intro reader_op_sbind reader_op_if) auto

lemma reader_op_src_dst [intro, simp]: "reader_op (parse_src_dst_operand bits)"
  unfolding parse_src_dst_operand_def
  by (intro reader_op_sbind reader_op_if reader_op_option) auto

lemma reader_op_middle [intro, simp]: "reader_op (parse_middle_operand bits)"
  unfolding parse_middle_operand_def by (intro reader_op_sbind reader_op_if) auto

interpretation rinstruction: reader_op parse_instruction
  unfolding parse_instruction_def Let_def by (intro reader_op_sbind reader_op_sum) auto

interpretation rcode: reader_op "parse_code n" for n
  unfolding parse_code_def
  by (intro reader_op_sbind reader_op_repeat) (auto intro: rinstruction.reader_op_axioms)

interpretation rtypes: reader_op "parse_types n" for n
  unfolding parse_types_def parse_type_def
  by (intro reader_op_sbind reader_op_repeat reader_op_if) auto

lemma reader_op_big [intro, simp]: "reader_op read_big"
  unfolding read_big_def by (intro reader_op_sbind) auto

lemma reader_op_real [intro, simp]: "reader_op read_real"
  unfolding read_real_def by (intro reader_op_sbind) auto

lemma reader_op_data_body [intro, simp]: "reader_op (parse_data_body t n off)"
  unfolding parse_data_body_def by (intro reader_op_sbind reader_op_repeat reader_op_if) auto

lemma reader_op_data_item [intro, simp]: "reader_op (parse_data_item code)"
  unfolding parse_data_item_def Let_def
  by (intro reader_op_sbind reader_op_if reader_op_data_body) auto

lemma reader_op_data_loop [intro, simp]: "reader_op (parse_data_loop fuel)"
proof (induction fuel)
  case 0
  show ?case
    unfolding parse_data_loop.simps [of 0] by (intro reader_op_sbind reader_op_if) auto
next
  case (Suc fuel)
  then show ?case
    unfolding parse_data_loop.simps [of "Suc fuel"]
    by (intro reader_op_sbind reader_op_if) (auto intro!: reader_op_sbind)
qed

interpretation rdata: reader_op parse_data
proof -
  have "reader_op (\<lambda>r. parse_data_loop (remaining r) r)"
    using reader_op_data_loop by (auto simp: reader_op_def)
  then show "reader_op parse_data" by (simp add: parse_data_def sbind_def reads_def)
qed

interpretation rexports: reader_op "parse_exports n" for n
  unfolding parse_exports_def parse_export_def by (intro reader_op_sbind reader_op_repeat) auto

lemma reader_op_null [intro, simp]: "reader_op (expect_null sec msg)"
  unfolding expect_null_def by (intro reader_op_sbind reader_op_if) auto

interpretation rimports: reader_op parse_imports
  unfolding parse_imports_def parse_import_module_def parse_import_def
  by (intro reader_op_sbind reader_op_repeat) auto

interpretation rhandlers: reader_op parse_handlers
  unfolding parse_handlers_def parse_handler_def parse_case_def Let_def
  by (intro reader_op_sbind reader_op_repeat) auto

interpretation rmodule: reader_op parse_module
  unfolding parse_module_def Let_def parse_name_def
  by (intro reader_op_sbind reader_op_if)
    (auto intro: rheader.reader_op_axioms rcode.reader_op_axioms rtypes.reader_op_axioms
      rdata.reader_op_axioms rexports.reader_op_axioms rimports.reader_op_axioms
      rhandlers.reader_op_axioms)

section \<open>The loop of the data section\<close>

lemma remaining_read_byte:
  assumes "reader_ok r" and "read_byte sec r = (Inr b, r')"
  shows "Suc (remaining r') = remaining r" and "reader_ok r'"
  using assms by (auto simp: read_byte_def remaining_def reader_ok_def split: if_splits)

lemma data_step_cong:
  fixes p q :: "data_item list rd"
  assumes "reader_ok r" and "\<And>t. reader_ok t \<Longrightarrow> remaining t \<le> remaining r \<Longrightarrow> p t = q t"
  shows "sbind (parse_data_item code) (\<lambda>item. sbind p (\<lambda>items. ret (item # items))) r =
    sbind (parse_data_item code) (\<lambda>item. sbind q (\<lambda>items. ret (item # items))) r"
proof (cases "parse_data_item code r")
  case (Pair res t)
  have "remaining t \<le> remaining r \<and> reader_ok t"
    by (rule reader_op.remaining_le [OF reader_op_data_item assms(1) Pair])
  then have "p t = q t" by (simp add: assms(2))
  with Pair show ?thesis by (cases res) (simp_all add: sbind_def)
qed

text \<open>The bound never runs out: any fuel that covers the remaining bytes gives the same result.\<close>

lemma parse_data_loop_enough:
  "reader_ok r \<Longrightarrow> remaining r \<le> fuel \<Longrightarrow>
    parse_data_loop fuel r = parse_data_loop (remaining r) r"
proof (induction "remaining r" arbitrary: r fuel rule: less_induct)
  case less
  show ?case
  proof (cases "\<exists>code r'. read_byte (rstr ''data'') r = (Inr code, r')")
    case False
    then obtain e r' where "read_byte (rstr ''data'') r = (Inl e, r')"
      by (metis prod.exhaust sum.exhaust)
    then show ?thesis
      by (simp add: parse_data_loop.simps [of fuel] parse_data_loop.simps [of "remaining r"])
  next
    case True
    then obtain code r' where rd: "read_byte (rstr ''data'') r = (Inr code, r')" by blast
    note r' = remaining_read_byte [OF less.prems(1) rd]
    from r'(1) less.prems(2) obtain n where n: "fuel = Suc n" "remaining r' \<le> n"
      by (cases fuel) auto
    have "parse_data_loop n t = parse_data_loop (remaining r') t"
      if "reader_ok t" "remaining t \<le> remaining r'" for t
    proof -
      have lt: "remaining t < remaining r" using that r'(1) by simp
      from less.hyps [OF lt, of n] less.hyps [OF lt, of "remaining r'"] that n show ?thesis by simp
    qed
    note step = data_step_cong [OF r'(2) this]
    show ?thesis
      unfolding n(1) r'(1) [symmetric] parse_data_loop.simps [of "Suc n"]
        parse_data_loop.simps [of "Suc (remaining r')"]
      using rd step by simp
  qed
qed

text \<open>So \<open>parse_data\<close> satisfies the equation of the source's \<open>loop\<close>, which has no bound.\<close>

lemma parse_data_unfold:
  assumes "reader_ok r"
  shows "parse_data r =
    sbind (read_byte (rstr ''data'')) (\<lambda>code.
      if code = 0 then ret []
      else sbind (parse_data_item code) (\<lambda>item.
        sbind parse_data (\<lambda>items. ret (item # items)))) r"
proof (cases "\<exists>code r'. read_byte (rstr ''data'') r = (Inr code, r')")
  case False
  then obtain e r' where "read_byte (rstr ''data'') r = (Inl e, r')"
    by (metis prod.exhaust sum.exhaust)
  then show ?thesis by (simp add: parse_data_def parse_data_loop.simps [of "remaining r"])
next
  case True
  then obtain code r' where rd: "read_byte (rstr ''data'') r = (Inr code, r')" by blast
  note r' = remaining_read_byte [OF assms rd]
  have "parse_data_loop (remaining r') t = parse_data t"
    if "reader_ok t" "remaining t \<le> remaining r'" for t
    using parse_data_loop_enough [OF that] by (simp add: parse_data_def)
  note step = data_step_cong [OF r'(2) this]
  have "parse_data r = parse_data_loop (Suc (remaining r')) r"
    by (simp add: parse_data_def r'(1))
  also have "\<dots> = sbind (read_byte (rstr ''data'')) (\<lambda>code.
      if code = 0 then ret []
      else sbind (parse_data_item code) (\<lambda>item.
        sbind (parse_data_loop (remaining r')) (\<lambda>items. ret (item # items)))) r"
    unfolding parse_data_loop.simps [of "Suc (remaining r')"] nat.case by (rule refl)
  finally show ?thesis using rd step by simp
qed

section \<open>What an accepted module satisfies\<close>

definition pc_ok :: "nat \<Rightarrow> i32 \<Rightarrow> bool" where
  "pc_ok n pc \<longleftrightarrow> 0 \<le> sint pc \<and> sint pc < int n"

definition handler_valid :: "nat \<Rightarrow> nat \<Rightarrow> handler \<Rightarrow> bool" where
  "handler_valid n_code n_types h \<longleftrightarrow>
    0 \<le> sint (hd_begin_pc h) \<and> sint (hd_begin_pc h) < sint (hd_end_pc h) \<and>
    sint (hd_end_pc h) \<le> int n_code \<and>
    (case hd_type_descriptor h of None \<Rightarrow> True | Some td \<Rightarrow> unat td < n_types) \<and>
    (\<forall>j < length (hd_cases h). pc_ok n_code (ec_pc (hd_cases h ! j)) \<or>
      j = length (hd_cases h) - 1 \<and> ec_pc (hd_cases h ! j) = - 1)"

definition module_valid :: "dis_module \<Rightarrow> bool" where
  "module_valid m \<longleftrightarrow>
    (let n_code = length (m_code m); n_types = length (m_types m); h = m_header m in
     (h_entry_pc h = - 1 \<or> pc_ok n_code (h_entry_pc h)) \<and>
     (h_entry_type h = - 1 \<or> n_types = 0 \<or> pc_ok n_types (h_entry_type h)) \<and>
     \<not> (flags_contains (h_runtime_flags h) MUST_COMPILE \<and>
        flags_contains (h_runtime_flags h) DONT_COMPILE) \<and>
     (\<forall>e \<in> set (m_exports m). sint (ex_pc e) < int n_code \<or> sint (ex_pc e) < 0) \<and>
     (\<forall>e \<in> set (m_exports m). n_types = 0 \<or> sint (ex_frame_type e) < int n_types \<or>
        sint (ex_frame_type e) < 0) \<and>
     (\<forall>h \<in> set (m_handlers m). handler_valid n_code n_types h))"

lemma as_i32_small: "n < 2147483648 \<Longrightarrow> sint (as_i32 n) = int n"
  by (simp add: as_i32_def signed_of_nat signed_take_bit_int_eq_self)

lemma and_then_unit: "and_then r (\<lambda>_. s) = Inr () \<longleftrightarrow> r = Inr () \<and> s = Inr ()"
  by (cases r) auto

lemma validate_exports_ok:
  "validate_exports code_len type_len i es = Inr () \<longleftrightarrow>
    (\<forall>e \<in> set es. sint (ex_pc e) < 0 \<or> sint (ex_pc e) < sint code_len) \<and>
    (\<forall>e \<in> set es. sint (ex_frame_type e) < 0 \<or> sint type_len \<le> 0 \<or>
      sint (ex_frame_type e) < sint type_len)"
  by (induction es arbitrary: i) (auto simp: invalid_def)

lemma validate_cases_ok:
  "validate_cases code_len i w j cs = Inr () \<longleftrightarrow>
    (\<forall>k < length cs. j + k = w \<and> ec_pc (cs ! k) = - 1 \<or> \<not> out_of_bounds (ec_pc (cs ! k)) code_len)"
proof (induction cs arbitrary: j)
  case Nil
  then show ?case by simp
next
  case (Cons c cs)
  show ?case by (auto simp: Cons.IH invalid_def All_less_Suc2)
qed

lemma validate_handler_ok:
  assumes "sint code_len = int n_code"
  shows "validate_handler code_len type_len n_types i h = Inr () \<longleftrightarrow> handler_valid n_code n_types h"
proof -
  have "(case hd_type_descriptor h of None \<Rightarrow> Inr ()
      | Some td \<Rightarrow> if n_types \<le> unat td then invalid msg else Inr ()) = Inr () \<longleftrightarrow>
    (case hd_type_descriptor h of None \<Rightarrow> True | Some td \<Rightarrow> unat td < n_types)" for msg
    by (auto simp: invalid_def split: option.splits)
  then show ?thesis
    using assms
    by (auto simp: validate_handler_def handler_valid_def and_then_unit validate_cases_ok
        out_of_bounds_def pc_ok_def invalid_def split: option.splits)
qed

lemma validate_handlers_ok:
  "sint code_len = int n_code \<Longrightarrow>
    validate_handlers code_len type_len n_types i hs = Inr () \<longleftrightarrow>
    (\<forall>h \<in> set hs. handler_valid n_code n_types h)"
  by (induction hs arbitrary: i) (auto simp: and_then_unit validate_handler_ok)

text \<open>The sequence of checks of \<open>validate_module\<close> decides \<open>module_valid\<close>.\<close>

lemma validate_module_iff:
  assumes "length (m_code m) < 2147483648" and "length (m_types m) < 2147483648"
  shows "validate_module m = Inr () \<longleftrightarrow> module_valid m"
  using as_i32_small [OF assms(1)] as_i32_small [OF assms(2)]
  by (auto simp: validate_module_def module_valid_def Let_def and_then_unit validate_exports_ok
      validate_handlers_ok out_of_bounds_def pc_ok_def invalid_def split: if_splits)

text \<open>
  A count that passed \<open>checked_count\<close> is the length of the section it counts, so it fits in the
  \<open>i32\<close> the validation compares with.
\<close>

lemma repeat_sm_length: "repeat_sm n p s = (Inr xs, t) \<Longrightarrow> length xs = n"
proof (induction n arbitrary: s xs)
  case 0
  then show ?case by (simp add: sm_run)
next
  case (Suc n)
  then obtain x ys s' where "xs = x # ys" and "repeat_sm n p s' = (Inr ys, t)"
    by (auto elim!: sbind_InrE simp: sm_run)
  with Suc.IH show ?case by auto
qed

lemma counted_section:
  assumes "sbind (lift_res (checked_count n sec)) (\<lambda>c. repeat_sm c p) s = (Inr xs, t)"
  shows "int (length xs) = sint n" and "length xs < 2147483648"
proof -
  obtain k where k: "usize_try_from n = Some k" and "repeat_sm k p s = (Inr xs, t)"
  proof (cases "usize_try_from n")
    case None
    with assms show ?thesis by (simp only: checked_count_def lift_res_def option.case sum.case
          sbind_def sm_run prod.case) simp
  next
    case (Some k)
    with assms have "repeat_sm k p s = (Inr xs, t)"
      by (simp only: checked_count_def lift_res_def option.case sum.case sbind_def sm_run prod.case)
    with Some show ?thesis by (rule that)
  qed
  then have len: "length xs = k" by (intro repeat_sm_length)
  have "0 \<le> sint n" "k = nat (sint n)" using k unfolding usize_try_from_Some by blast+
  then show "int (length xs) = sint n" unfolding len by (metis int_nat_eq)
  show "length xs < 2147483648" unfolding len by (rule usize_try_from_bound [OF k])
qed

lemma validate_then_ret:
  assumes "sbind (lift_res (validate_module m')) (\<lambda>_. ret m') s = (Inr m, t)"
  shows "m' = m" and "validate_module m = Inr ()"
  using assms by (cases "validate_module m'"; simp add: lift_res_def sm_run)+

lemma sbind_step: "sbind m f s = (Inr y, t) \<Longrightarrow> m s = (Inr x, s') \<Longrightarrow> f x s' = (Inr y, t)"
  by simp

lemma parse_module_parts:
  assumes "parse_module r = (Inr m, t)"
  shows "validate_module m = Inr ()"
    and "\<exists>s s'. parse_code (h_code_size (m_header m)) s = (Inr (m_code m), s')"
    and "\<exists>s s'. parse_types (h_type_size (m_header m)) s = (Inr (m_types m), s')"
    and "\<exists>s s'. parse_exports (h_export_size (m_header m)) s = (Inr (m_exports m), s')"
proof -
  note 0 = assms [unfolded parse_module_def Let_def]
  obtain h s1 where 1: "parse_header r = (Inr h, s1)" by (rule sbind_InrE [OF 0]) blast
  note 0 = sbind_step [OF 0 1]
  obtain code s2 where 2: "parse_code (h_code_size h) s1 = (Inr code, s2)"
    by (rule sbind_InrE [OF 0]) blast
  note 0 = sbind_step [OF 0 2]
  obtain types s3 where 3: "parse_types (h_type_size h) s2 = (Inr types, s3)"
    by (rule sbind_InrE [OF 0]) blast
  note 0 = sbind_step [OF 0 3]
  obtain data s4 where 4: "parse_data s3 = (Inr data, s4)" by (rule sbind_InrE [OF 0]) blast
  note 0 = sbind_step [OF 0 4]
  obtain name s5 where 5: "parse_name s4 = (Inr name, s5)" by (rule sbind_InrE [OF 0]) blast
  note 0 = sbind_step [OF 0 5]
  obtain exports s6 where 6: "parse_exports (h_export_size h) s5 = (Inr exports, s6)"
    by (rule sbind_InrE [OF 0]) blast
  note 0 = sbind_step [OF 0 6]
  obtain imps s7 where "sbind (if flags_contains (h_runtime_flags h) HAS_HANDLER
      then parse_handlers else ret []) (\<lambda>handlers.
    sbind (lift_res (validate_module \<lparr>m_header = h, m_code = code, m_types = types,
      m_data = data, m_name = name, m_exports = exports, m_imports = imps,
      m_handlers = handlers\<rparr>)) (\<lambda>_. ret \<lparr>m_header = h, m_code = code, m_types = types,
      m_data = data, m_name = name, m_exports = exports, m_imports = imps,
      m_handlers = handlers\<rparr>)) s7 = (Inr m, t)"
    by (rule sbind_InrE [OF 0]) blast
  then obtain hs s8 where "sbind (lift_res (validate_module \<lparr>m_header = h, m_code = code,
      m_types = types, m_data = data, m_name = name, m_exports = exports, m_imports = imps,
      m_handlers = hs\<rparr>)) (\<lambda>_. ret \<lparr>m_header = h, m_code = code, m_types = types,
      m_data = data, m_name = name, m_exports = exports, m_imports = imps,
      m_handlers = hs\<rparr>) s8 = (Inr m, t)"
    by (rule sbind_InrE) blast
  note v = validate_then_ret [OF this]
  show "validate_module m = Inr ()" by (rule v(2))
  show "\<exists>s s'. parse_code (h_code_size (m_header m)) s = (Inr (m_code m), s')"
    unfolding v(1) [symmetric] using 2 by auto
  show "\<exists>s s'. parse_types (h_type_size (m_header m)) s = (Inr (m_types m), s')"
    unfolding v(1) [symmetric] using 3 by auto
  show "\<exists>s s'. parse_exports (h_export_size (m_header m)) s = (Inr (m_exports m), s')"
    unfolding v(1) [symmetric] using 6 by auto
qed

lemma parse_module_valid:
  assumes "parse_module r = (Inr m, t)"
  shows "module_valid m"
    and "int (length (m_code m)) = sint (h_code_size (m_header m))"
    and "int (length (m_types m)) = sint (h_type_size (m_header m))"
    and "int (length (m_exports m)) = sint (h_export_size (m_header m))"
proof -
  note parts = parse_module_parts [OF assms]
  obtain s s' where c: "parse_code (h_code_size (m_header m)) s = (Inr (m_code m), s')"
    using parts(2) by blast
  obtain s s' where ty: "parse_types (h_type_size (m_header m)) s = (Inr (m_types m), s')"
    using parts(3) by blast
  obtain s s' where ex: "parse_exports (h_export_size (m_header m)) s = (Inr (m_exports m), s')"
    using parts(4) by blast
  note c' = counted_section [OF c [unfolded parse_code_def]]
  note ty' = counted_section [OF ty [unfolded parse_types_def]]
  show "module_valid m" using validate_module_iff c'(2) ty'(2) parts(1) by blast
  show "int (length (m_code m)) = sint (h_code_size (m_header m))" by (rule c'(1))
  show "int (length (m_types m)) = sint (h_type_size (m_header m))" by (rule ty'(1))
  show "int (length (m_exports m)) = sint (h_export_size (m_header m))"
    by (rule counted_section(1) [OF ex [unfolded parse_exports_def]])
qed

lemma load_InrE:
  assumes "load data = Inr m"
  obtains t where "parse_module (reader_new data) = (Inr m, t)"
  using assms by (cases "parse_module (reader_new data)") (auto simp: load_def split: if_splits)

end
