(* ===== verification/Writer.thy ===== *)
theory Writer
  imports Core Bytes
begin

unbundle bit_operations_syntax

text \<open>
  \<open>crates/ricevm-limbo/src/writer.rs\<close>: serialising a module to the \<open>.dis\<close> format. A writer is a
  state-and-error computation on the output buffer. \<open>writes w bs\<close> says that \<open>w\<close> succeeds and
  appends exactly \<open>bs\<close>.
\<close>

section \<open>Operands\<close>

datatype write_error = OperandOutOfRange i32

type_synonym wr = "(u8 list, write_error, unit) sm"

definition OPERAND_MIN :: int where
  "OPERAND_MIN = - 536870912"

definition OPERAND_MAX :: int where
  "OPERAND_MAX = 536870911"

definition put :: "u8 list \<Rightarrow> wr" where
  "put bs = updates (\<lambda>buf. buf @ bs)"

definition then_w :: "wr \<Rightarrow> wr \<Rightarrow> wr" where
  "then_w w v = sbind w (\<lambda>_. v)"

fun each_w :: "('a \<Rightarrow> wr) \<Rightarrow> 'a list \<Rightarrow> wr" where
  "each_w w [] = ret ()"
| "each_w w (x # xs) = then_w (w x) (each_w w xs)"

fun seq_w :: "wr list \<Rightarrow> wr" where
  "seq_w [] = ret ()"
| "seq_w (w # ws) = then_w w (seq_w ws)"

definition write_op :: "i32 \<Rightarrow> wr" where
  "write_op val =
    (if 0 \<le> sint val \<and> sint val < 64 then put [ucast val]
     else if - 64 \<le> sint val \<and> sint val < 0 then put [0x40 OR ucast (val AND 0x3F)]
     else if - 8192 \<le> sint val \<and> sint val < 8192 then
       (let v = ucast val :: u16 in
        put [ucast (drop_bit 8 v AND 0x3F OR 0x80), ucast v])
     else if OPERAND_MIN \<le> sint val \<and> sint val \<le> OPERAND_MAX then
       put [ucast (drop_bit 24 val AND 0x3F OR 0xC0), ucast (drop_bit 16 val),
         ucast (drop_bit 8 val), ucast val]
     else fail (OperandOutOfRange val))"

definition write_cstring :: "rstring \<Rightarrow> wr" where
  "write_cstring s = put (as_bytes s @ [0])"

fun encode_addr_mode :: "address_mode \<Rightarrow> u8" where
  "encode_addr_mode OffsetIndirectMp = 0"
| "encode_addr_mode OffsetIndirectFp = 1"
| "encode_addr_mode Immediate = 2"
| "encode_addr_mode AM_None = 3"
| "encode_addr_mode OffsetDoubleIndirectMp = 4"
| "encode_addr_mode OffsetDoubleIndirectFp = 5"
| "encode_addr_mode _ = 3"

fun encode_mid_mode :: "middle_mode \<Rightarrow> u8" where
  "encode_mid_mode MM_None = 0"
| "encode_mid_mode SmallImmediate = 1"
| "encode_mid_mode SmallOffsetFp = 2"
| "encode_mid_mode SmallOffsetMp = 3"

definition write_middle_operand :: "middle_operand \<Rightarrow> wr" where
  "write_middle_operand mid =
    (case mid_mode mid of MM_None \<Rightarrow> ret () | _ \<Rightarrow> write_op (mid_register1 mid))"

definition write_operand :: "operand \<Rightarrow> wr" where
  "write_operand op =
    (case op_mode op of
       AM_None \<Rightarrow> ret ()
     | OffsetIndirectFp \<Rightarrow> write_op (op_register1 op)
     | OffsetIndirectMp \<Rightarrow> write_op (op_register1 op)
     | Immediate \<Rightarrow> write_op (op_register1 op)
     | OffsetDoubleIndirectFp \<Rightarrow> then_w (write_op (op_register1 op)) (write_op (op_register2 op))
     | OffsetDoubleIndirectMp \<Rightarrow> then_w (write_op (op_register1 op)) (write_op (op_register2 op))
     | _ \<Rightarrow> ret ())"

section \<open>Sections\<close>

definition addr_code :: "instruction \<Rightarrow> u8" where
  "addr_code inst =
    push_bit 6 (encode_mid_mode (mid_mode (i_middle inst))) OR
    push_bit 3 (encode_addr_mode (op_mode (i_source inst))) OR
    encode_addr_mode (op_mode (i_destination inst))"

definition write_instruction :: "instruction \<Rightarrow> wr" where
  "write_instruction inst = seq_w
    [put [opcode_as_u8 (i_opcode inst)],
     put [addr_code inst],
     write_middle_operand (i_middle inst),
     write_operand (i_source inst),
     write_operand (i_destination inst)]"

definition len_i32 :: "'a list \<Rightarrow> i32" where
  "len_i32 xs = of_nat (length xs)"

definition write_type :: "type_descriptor \<Rightarrow> wr" where
  "write_type td = seq_w
    [write_op (td_id td),
     write_op (td_size td),
     write_op (len_i32 (td_pointer_map td)),
     put (td_pointer_map td)]"

definition write_data_header :: "u8 \<Rightarrow> i32 \<Rightarrow> i32 \<Rightarrow> wr" where
  "write_data_header item_type count offset =
    then_w
      (if 0 < sint count \<and> sint count \<le> 15 then put [push_bit 4 item_type OR ucast count]
       else then_w (put [push_bit 4 item_type]) (write_op count))
      (write_op offset)"

fun write_data_item :: "data_item \<Rightarrow> wr" where
  "write_data_item (DI_Bytes offset values) =
     then_w (write_data_header 1 (len_i32 values) offset) (put values)"
| "write_data_item (DI_Words offset values) =
     then_w (write_data_header 2 (len_i32 values) offset) (each_w (\<lambda>w. put (to_be_bytes32 w)) values)"
| "write_data_item (DI_String offset value) =
     then_w (write_data_header 3 (of_nat (str_len value)) offset) (put (as_bytes value))"
| "write_data_item (DI_Reals offset values) =
     then_w (write_data_header 4 (len_i32 values) offset) (each_w (\<lambda>v. put (to_be_bytes64 v)) values)"
| "write_data_item (DI_Array offset element_type len) = seq_w
     [put [push_bit 4 5 OR 1], write_op offset, put (to_be_bytes32 element_type),
      put (to_be_bytes32 len)]"
| "write_data_item (DI_SetArray offset index) = seq_w
     [put [push_bit 4 6 OR 1], write_op offset, put (to_be_bytes32 index)]"
| "write_data_item DI_RestoreBase = seq_w [put [push_bit 4 7 OR 1], write_op 0]"
| "write_data_item (DI_Bigs offset values) =
     then_w (write_data_header 8 (len_i32 values) offset) (each_w (\<lambda>v. put (to_be_bytes64 v)) values)"

definition write_header :: "header \<Rightarrow> wr" where
  "write_header h = seq_w
    [write_op XMAGIC,
     write_op (h_runtime_flags h),
     write_op (h_stack_extent h),
     write_op (h_code_size h),
     write_op (h_data_size h),
     write_op (h_type_size h),
     write_op (h_export_size h),
     write_op (h_entry_pc h),
     write_op (h_entry_type h)]"

definition write_export :: "export_entry \<Rightarrow> wr" where
  "write_export e = seq_w
    [write_op (ex_pc e), write_op (ex_frame_type e), put (to_be_bytes32 (ex_signature e)),
     write_cstring (ex_name e)]"

definition write_import :: "import_entry \<Rightarrow> wr" where
  "write_import f = then_w (put (to_be_bytes32 (im_signature f))) (write_cstring (im_name f))"

definition write_import_module :: "import_module \<Rightarrow> wr" where
  "write_import_module fs = then_w (write_op (len_i32 fs)) (each_w write_import fs)"

definition write_imports :: "import_module list \<Rightarrow> wr" where
  "write_imports ms = seq_w
    [write_op (len_i32 ms), each_w write_import_module ms, if ms \<noteq> [] then put [0] else ret ()]"

definition named_cases :: "exception_case list \<Rightarrow> exception_case list" where
  "named_cases cs = filter (\<lambda>c. ec_name c \<noteq> None) cs"

definition wildcard_pc :: "exception_case list \<Rightarrow> i32" where
  "wildcard_pc cs = (case find (\<lambda>c. ec_name c = None) cs of Some c \<Rightarrow> ec_pc c | None \<Rightarrow> - 1)"

definition write_case :: "exception_case \<Rightarrow> wr" where
  "write_case c =
    then_w (case ec_name c of Some name \<Rightarrow> write_cstring name | None \<Rightarrow> ret ()) (write_op (ec_pc c))"

definition write_handler :: "handler \<Rightarrow> wr" where
  "write_handler h = seq_w
    [write_op (hd_exception_offset h),
     write_op (hd_begin_pc h),
     write_op (hd_end_pc h),
     write_op (case hd_type_descriptor h of Some t \<Rightarrow> t | None \<Rightarrow> - 1),
     write_op (len_i32 (named_cases (hd_cases h)) AND 0xFFFF),
     each_w write_case (named_cases (hd_cases h)),
     write_op (wildcard_pc (hd_cases h))]"

definition write_handlers :: "runtime_flags \<Rightarrow> handler list \<Rightarrow> wr" where
  "write_handlers flags hs =
    (if flags_contains flags HAS_HANDLER then
       seq_w [write_op (len_i32 hs), each_w write_handler hs, put [0]]
     else ret ())"

definition write_module :: "dis_module \<Rightarrow> wr" where
  "write_module m = seq_w
    [write_header (m_header m),
     each_w write_instruction (m_code m),
     each_w write_type (m_types m),
     each_w write_data_item (m_data m),
     put [0],
     write_cstring (m_name m),
     each_w write_export (m_exports m),
     write_imports (m_imports m),
     write_handlers (h_runtime_flags (m_header m)) (m_handlers m)]"

definition write_dis :: "dis_module \<Rightarrow> write_error + u8 list" where
  "write_dis m = (case write_module m [] of (Inl e, _) \<Rightarrow> Inl e | (Inr _, buf) \<Rightarrow> Inr buf)"

section \<open>What a writer appends\<close>

definition writes :: "wr \<Rightarrow> u8 list \<Rightarrow> bool" where
  "writes w bs \<longleftrightarrow> (\<forall>buf. w buf = (Inr (), buf @ bs))"

lemma writes_put [intro, simp]: "writes (put bs) bs"
  by (simp add: writes_def put_def)

lemma writes_ret [intro, simp]: "writes (ret ()) []"
  by (simp add: writes_def sm_run)

lemma writes_then_w [intro]: "writes w as \<Longrightarrow> writes v bs \<Longrightarrow> writes (then_w w v) (as @ bs)"
  by (simp add: writes_def then_w_def)

lemma writes_unique: "writes w as \<Longrightarrow> writes w bs \<Longrightarrow> as = bs"
  by (fastforce simp: writes_def)

lemma writes_seq_Nil [intro, simp]: "writes (seq_w []) []"
  by simp

lemma writes_seq_Cons [intro]:
  "writes w as \<Longrightarrow> writes (seq_w ws) bs \<Longrightarrow> writes (seq_w (w # ws)) (as @ bs)"
  by (simp add: writes_then_w)

lemma writes_each_put: "writes (each_w (\<lambda>x. put (f x)) xs) (concat (map f xs))"
  by (induction xs) auto

text \<open>An operand is written exactly when it has an encoding, and never truncated.\<close>

definition operand_in_range :: "i32 \<Rightarrow> bool" where
  "operand_in_range v \<longleftrightarrow> OPERAND_MIN \<le> sint v \<and> sint v \<le> OPERAND_MAX"

lemma write_op_out_of_range:
  "\<not> operand_in_range v \<Longrightarrow> write_op v buf = (Inl (OperandOutOfRange v), buf)"
  by (auto simp: write_op_def sm_run operand_in_range_def OPERAND_MIN_def OPERAND_MAX_def)

lemma write_op_in_range: "operand_in_range v \<Longrightarrow> \<exists>bs. writes (write_op v) bs"
  unfolding write_op_def operand_in_range_def Let_def by auto

end
