(* ===== verification/Codec.thy ===== *)
theory Codec
  imports Loader Writer
begin

unbundle bit_operations_syntax

text \<open>
  What the writer and the loader agree on, value by value. \<open>parses p bs x\<close> says that the reading
  operation \<open>p\<close> reads exactly \<open>bs\<close> as \<open>x\<close> whatever follows; \<open>coded w p x\<close> that the writer \<open>w\<close>
  appends bytes which \<open>p\<close> reads as \<open>x\<close>. The locale \<open>codec\<close> is the interface of a writer and
  a reader of one type of value; its list lemma is what every counted section rests on.
\<close>

section \<open>Bits of an operand\<close>

lemma and_0xC0_eq_0: "b AND 0xC0 = (0 :: i32) \<longleftrightarrow> \<not> bit b 6 \<and> \<not> bit b 7"
  unfolding word32_eq_bits by (simp add: bit_and_iff) 

lemma and_0xC0_eq_0x40: "b AND 0xC0 = (0x40 :: i32) \<longleftrightarrow> bit b 6 \<and> \<not> bit b 7"
  unfolding word32_eq_bits by (simp add: bit_and_iff) 

lemma and_0xC0_eq_0x80: "b AND 0xC0 = (0x80 :: i32) \<longleftrightarrow> \<not> bit b 6 \<and> bit b 7"
  unfolding word32_eq_bits by (simp add: bit_and_iff) 

lemma and_0x20: "b AND 0x20 = (0 :: i32) \<longleftrightarrow> \<not> bit b 5"
  unfolding word32_eq_bits by (simp add: bit_and_iff) 

lemma operand_high:
  "(if b AND 0x20 \<noteq> 0 then b OR NOT 0x3F else b AND 0x3F) = signed_take_bit 5 (b :: i32)"
proof (cases "bit b 5")
  case True
  have "b OR NOT 0x3F = signed_take_bit 5 b"
    unfolding word32_eq_bits using True by (simp add: bit_simps)
  with True show ?thesis by (simp add: and_0x20)
next
  case False
  have "b AND 0x3F = signed_take_bit 5 b"
    unfolding word32_eq_bits using False by (simp add: bit_simps)
  with False show ?thesis by (simp add: and_0x20)
qed

lemma sint_bits:
  assumes "- (2 ^ k) \<le> sint v" and "sint v < 2 ^ k" and "n < 32" and "k < 32"
  shows "bit (v :: i32) n = bit v (min k n)"
proof -
  have *: "bit (sint v) m = bit v m" if "m < 32" for m
    using that by (simp add: bit_sint_iff)
  have "signed_take_bit k (sint v) = sint v"
    using assms(1,2) by (rule signed_take_bit_int_eq_self)
  then have "bit (sint v) n = bit (sint v) (min k n)"
    by (metis bit_signed_take_bit_iff possible_bit_int)
  moreover have "min k n < 32" using assms by simp
  ultimately show ?thesis using assms(3) * by blast
qed

lemma sint_high_bits:
  assumes "- (2 ^ k) \<le> sint v" and "sint v < 2 ^ k"
  shows "k < n \<Longrightarrow> n < 32 \<Longrightarrow> bit (v :: i32) n = bit v k"
  using sint_bits [OF assms, of n] by (simp add: min_def)

lemma sint_nonneg_bit: "0 \<le> sint (v :: i32) \<longleftrightarrow> \<not> bit v 31"
  using bit_last_iff [of v] by auto

section \<open>Reading a given run of bytes\<close>

definition parses :: "'a rd \<Rightarrow> u8 list \<Rightarrow> 'a \<Rightarrow> bool" where
  "parses p bs x \<longleftrightarrow> (\<forall>r rest. reader_ok r \<longrightarrow> drop (r_pos r) (r_data r) = bs @ rest \<longrightarrow>
    p r = (Inr x, r\<lparr>r_pos := r_pos r + length bs\<rparr>))"

lemma parses_ret [intro, simp]: "parses (ret x) [] x"
  by (simp add: parses_def sm_run)

lemma parsesD:
  assumes "parses p bs x" and "reader_ok r" and "drop (r_pos r) (r_data r) = bs @ rest"
  shows "p r = (Inr x, r\<lparr>r_pos := r_pos r + length bs\<rparr>)"
    and "reader_ok (r\<lparr>r_pos := r_pos r + length bs\<rparr>)"
    and "drop (r_pos r + length bs) (r_data r) = rest"
proof -
  from assms(3) show "drop (r_pos r + length bs) (r_data r) = rest"
    by (metis append_eq_conv_conj drop_drop add.commute)
  have "length (r_data r) - r_pos r = length bs + length rest"
    using arg_cong [OF assms(3), of length] by simp
  with assms(2) show "reader_ok (r\<lparr>r_pos := r_pos r + length bs\<rparr>)"
    by (simp add: reader_ok_def)
  from assms show "p r = (Inr x, r\<lparr>r_pos := r_pos r + length bs\<rparr>)"
    by (simp add: parses_def)
qed

lemma parses_sbind [intro]:
  assumes "parses p as x" and "parses (f x) bs y"
  shows "parses (sbind p f) (as @ bs) y"
  unfolding parses_def
proof (intro allI impI)
  fix r rest
  assume ok: "reader_ok r" and d: "drop (r_pos r) (r_data r) = (as @ bs) @ rest"
  note p = parsesD [OF assms(1) ok, of "bs @ rest"]
  note f = parsesD [OF assms(2) p(2), of rest]
  from p f d show "sbind p f r = (Inr y, r\<lparr>r_pos := r_pos r + length (as @ bs)\<rparr>)"
    by (simp add: add.assoc)
qed

lemma parses_sbind_Nil: "parses p [] x \<Longrightarrow> parses (f x) bs y \<Longrightarrow> parses (sbind p f) bs y"
  using parses_sbind [of p "[]" x f bs y] by simp

lemma parses_sbind_last: "parses p as x \<Longrightarrow> parses (f x) [] y \<Longrightarrow> parses (sbind p f) as y"
  using parses_sbind [of p as x f "[]" y] by simp

lemma parses_read_byte: "parses (read_byte sec) [b] b"
  unfolding parses_def
proof (intro allI impI)
  fix r rest
  assume "reader_ok r" and d: "drop (r_pos r) (r_data r) = [b] @ rest"
  then have "r_pos r < length (r_data r)"
    by (metis append_Cons drop_all list.distinct(1) not_le)
  moreover from this d have "r_data r ! r_pos r = b" by (simp add: Cons_nth_drop_Suc [symmetric])
  ultimately show "read_byte sec r = (Inr b, r\<lparr>r_pos := r_pos r + length [b]\<rparr>)"
    by (simp add: read_byte_def)
qed

lemma parses_read_bytes: "parses (read_bytes (length bs) sec) bs bs"
  unfolding parses_def
proof (intro allI impI)
  fix r rest
  assume ok: "reader_ok r" and d: "drop (r_pos r) (r_data r) = bs @ rest"
  then have "length (r_data r) - r_pos r = length bs + length rest"
    by (metis length_append length_drop)
  with d show "read_bytes (length bs) sec r = (Inr bs, r\<lparr>r_pos := r_pos r + length bs\<rparr>)"
    by (simp add: read_bytes_def remaining_def subrange_def)
qed

lemma cstring_scan_append: "0 \<notin> set bs \<Longrightarrow> cstring_scan (bs @ 0 # rest) = Some bs"
  by (induction bs) auto

lemma parses_read_cstring:
  assumes "list_all scalar s" and "0 \<notin> set s"
  shows "parses (read_cstring sec) (as_bytes s @ [0]) s"
  using assms by (simp add: parses_def read_cstring_def cstring_scan_append zero_in_as_bytes)

section \<open>The four forms of an operand\<close>

lemma parses_read_operand1:
  assumes "0 \<le> sint v" and "sint v < 64"
  shows "parses (read_operand sec) [ucast v] v"
proof -
  let ?b = "ucast (ucast v :: u8) :: i32"
  have k: "- (2 ^ 6) \<le> sint v" "sint v < 2 ^ 6" using assms by simp_all
  note bits = sint_high_bits [OF k]
  have z: "\<not> bit v 6" using bits [of 31] assms by (simp add: sint_nonneg_bit)
  have "?b = v" unfolding word32_eq_bits using z by (simp add: bit_simps bits)
  moreover have "v AND 0xC0 = 0" using z bits [of 7] by (simp add: and_0xC0_eq_0)
  ultimately show ?thesis
    unfolding read_operand_def Let_def
    by (intro parses_sbind_last [OF parses_read_byte]) simp
qed

lemma parses_read_operand1n:
  assumes "- 64 \<le> sint v" and "sint v < 0"
  shows "parses (read_operand sec) [0x40 OR ucast (v AND 0x3F)] v"
proof -
  let ?b = "ucast (0x40 OR ucast (v AND 0x3F) :: u8) :: i32"
  have k: "- (2 ^ 6) \<le> sint v" "sint v < 2 ^ 6" using assms by simp_all
  note bits = sint_high_bits [OF k]
  have z: "bit v 6" using bits [of 31] assms sint_nonneg_bit [of v] by simp
  have "?b OR NOT 0x7F = v" unfolding word32_eq_bits using z by (simp add: bit_simps bits)
  moreover have "?b AND 0xC0 = 0x40" by (simp add: and_0xC0_eq_0x40 bit_simps)
  ultimately show ?thesis
    unfolding read_operand_def Let_def
    by (intro parses_sbind_last [OF parses_read_byte]) simp
qed

lemma parses_read_operand2:
  assumes "- 8192 \<le> sint v" and "sint v < 8192"
  defines "w \<equiv> ucast v :: u16"
  shows "parses (read_operand sec) [ucast (drop_bit 8 w AND 0x3F OR 0x80), ucast w] v"
proof -
  let ?b = "ucast (ucast (drop_bit 8 w AND 0x3F OR 0x80) :: u8) :: i32"
  have k: "- (2 ^ 13) \<le> sint v" "sint v < 2 ^ 13" using assms by simp_all
  note bits = sint_high_bits [OF k]
  have tag: "?b AND 0xC0 = 0x80" by (simp add: and_0xC0_eq_0x80 bit_simps)
  have "push_bit 8 (signed_take_bit 5 ?b) OR ucast (ucast w :: u8) = v"
    unfolding word32_eq_bits by (simp add: w_def bit_simps bits)
  with tag show ?thesis
    unfolding read_operand_def Let_def operand_high
    by (intro parses_sbind [of _ "[_]" _ _ "[_]", simplified, OF parses_read_byte])
      (auto intro!: parses_sbind_last [OF parses_read_byte])
qed

lemma parses_read_operand4:
  assumes "- 536870912 \<le> sint v" and "sint v \<le> 536870911"
  shows "parses (read_operand sec) [ucast (drop_bit 24 v AND 0x3F OR 0xC0), ucast (drop_bit 16 v),
    ucast (drop_bit 8 v), ucast v] v"
proof -
  let ?b = "ucast (ucast (drop_bit 24 v AND 0x3F OR 0xC0) :: u8) :: i32"
  have k: "- (2 ^ 29) \<le> sint v" "sint v < 2 ^ 29" using assms by simp_all
  note bits = sint_high_bits [OF k]
  have tag: "?b AND 0xC0 \<noteq> 0" "?b AND 0xC0 \<noteq> 0x40" "?b AND 0xC0 \<noteq> 0x80"
    by (simp_all add: and_0xC0_eq_0 and_0xC0_eq_0x40 and_0xC0_eq_0x80 bit_simps)
  have "push_bit 24 (signed_take_bit 5 ?b) OR push_bit 16 (ucast (ucast (drop_bit 16 v) :: u8)) OR
      push_bit 8 (ucast (ucast (drop_bit 8 v) :: u8)) OR ucast (ucast v :: u8) = v"
    unfolding word32_eq_bits by (simp add: bit_simps bits)
  with tag show ?thesis
    unfolding read_operand_def Let_def operand_high
    by (intro parses_sbind [of _ "[_]" _ _ "_ # _", simplified, OF parses_read_byte])
      (auto intro!: parses_sbind [of _ "[_]" _ _ "_ # _", simplified, OF parses_read_byte]
         parses_sbind_last [OF parses_read_byte])
qed

section \<open>Writer and reader together\<close>

definition coded :: "wr \<Rightarrow> 'a rd \<Rightarrow> 'a \<Rightarrow> bool" where
  "coded w p x \<longleftrightarrow> (\<exists>bs. writes w bs \<and> parses p bs x)"

named_theorems codec_intros \<open>building a coded pair along the structure of writer and reader\<close>

lemma codedI: "writes w bs \<Longrightarrow> parses p bs x \<Longrightarrow> coded w p x"
  by (auto simp: coded_def)

lemma coded_then [codec_intros]:
  "coded w p x \<Longrightarrow> coded v (f x) y \<Longrightarrow> coded (then_w w v) (sbind p f) y"
  unfolding coded_def by blast

lemma coded_last:
  assumes "coded w p x" and "parses (f x) [] y"
  shows "coded w (sbind p f) y"
proof -
  from assms(1) obtain bs where "writes w bs" and "parses p bs x" by (auto simp: coded_def)
  moreover from this(2) have "parses (sbind p f) bs y" using assms(2) by (rule parses_sbind_last)
  ultimately show ?thesis by (auto simp: coded_def)
qed

lemma coded_map: "coded w p x \<Longrightarrow> g x = y \<Longrightarrow> coded w (sbind p (\<lambda>x. ret (g x))) y"
  by (erule coded_last) simp

lemma coded_ret [codec_intros]: "x = y \<Longrightarrow> coded (ret ()) (ret x) y"
  by (auto intro: codedI)

lemma coded_seq [codec_intros]:
  "coded w p x \<Longrightarrow> coded (seq_w ws) (f x) y \<Longrightarrow> coded (seq_w (w # ws)) (sbind p f) y"
  by (simp add: coded_then)

lemma coded_seq_Nil [codec_intros]: "x = y \<Longrightarrow> coded (seq_w []) (ret x) y"
  by (simp add: coded_ret)

lemma coded_byte [codec_intros]: "coded (put [b]) (read_byte sec) b"
  by (rule codedI [OF writes_put parses_read_byte])

lemma coded_bytes: "n = length bs \<Longrightarrow> coded (put bs) (read_bytes n sec) bs"
  using codedI [OF writes_put parses_read_bytes] by blast

lemma coded_operand [codec_intros]:
  assumes "operand_in_range v"
  shows "coded (write_op v) (read_operand sec) v"
  using assms unfolding operand_in_range_def write_op_def Let_def
  by (auto simp: OPERAND_MIN_def OPERAND_MAX_def
      intro!: codedI [OF writes_put] parses_read_operand1 parses_read_operand1n
        parses_read_operand2 parses_read_operand4)

definition string_ok :: "rstring \<Rightarrow> bool" where
  "string_ok s \<longleftrightarrow> list_all scalar s \<and> 0 \<notin> set s"

lemma coded_cstring [codec_intros]: "string_ok s \<Longrightarrow> coded (write_cstring s) (read_cstring sec) s"
  unfolding write_cstring_def string_ok_def
  by (auto intro: codedI [OF writes_put] parses_read_cstring)

lemma coded_word_be [codec_intros]: "coded (put (to_be_bytes32 v)) (read_word_be sec) v"
proof -
  have "parses (read_bytes 4 sec) (to_be_bytes32 v) (to_be_bytes32 v)"
    using parses_read_bytes [of "to_be_bytes32 v" sec] by (simp add: to_be_bytes32_def numeral_eq_Suc)
  then have "coded (put (to_be_bytes32 v)) (read_bytes 4 sec) (to_be_bytes32 v)"
    by (rule codedI [OF writes_put])
  then show ?thesis
    unfolding read_word_be_def by (rule coded_map) (rule word_of_be_bytes)
qed

lemma put_append: "put (as @ bs) = then_w (put as) (put bs)"
  by (simp add: put_def then_w_def updates_def sbind_def)

lemma coded_big: "coded (put (to_be_bytes64 v)) read_big v"
  unfolding to_be_bytes64_split put_append read_big_def
  by (rule coded_then [OF coded_word_be], rule coded_map, rule coded_word_be, rule join_words_split)

lemma coded_real: "coded (put (to_be_bytes64 v)) read_real v"
  unfolding to_be_bytes64_split put_append read_real_def
  by (rule coded_then [OF coded_word_be], rule coded_map, rule coded_word_be, rule join_words_split)

section \<open>The interface of a codec\<close>

locale codec =
  fixes w :: "'a \<Rightarrow> wr" and p :: "'a rd" and ok :: "'a \<Rightarrow> bool"
  assumes roundtrip: "ok x \<Longrightarrow> coded (w x) p x"
begin

lemma list_roundtrip: "list_all ok xs \<Longrightarrow> coded (each_w w xs) (repeat_sm (length xs) p) xs"
proof (induction xs)
  case Nil
  then show ?case by (simp add: coded_ret)
next
  case (Cons x xs)
  then have "coded (w x) p x" and "coded (each_w w xs) (repeat_sm (length xs) p) xs"
    by (auto intro: roundtrip)
  then show ?case by (auto intro: coded_then coded_map)
qed

lemma counted_roundtrip:
  "list_all ok xs \<Longrightarrow> n = length xs \<Longrightarrow> coded (each_w w xs) (repeat_sm n p) xs"
  using list_roundtrip by blast

end

interpretation word_codec: codec "\<lambda>v. put (to_be_bytes32 v)" "read_word_be sec" "\<lambda>_. True" for sec
  by unfold_locales (rule coded_word_be)

interpretation big_codec: codec "\<lambda>v. put (to_be_bytes64 v)" read_big "\<lambda>_. True"
  by unfold_locales (rule coded_big)

interpretation real_codec: codec "\<lambda>v. put (to_be_bytes64 v)" read_real "\<lambda>_. True"
  by unfold_locales (rule coded_real)

interpretation operand_codec: codec write_op "read_operand sec" operand_in_range for sec
  by unfold_locales (rule coded_operand)

interpretation cstring_codec: codec write_cstring "read_cstring sec" string_ok for sec
  by unfold_locales (rule coded_cstring)

section \<open>Counts\<close>

definition count_ok :: "nat \<Rightarrow> bool" where
  "count_ok n \<longleftrightarrow> n \<le> 536870911"

lemma sint_of_nat32: "n < 2147483648 \<Longrightarrow> sint (of_nat n :: i32) = int n"
  by (simp add: signed_of_nat signed_take_bit_int_eq_self)

lemma count_ok_operand: "count_ok n \<Longrightarrow> operand_in_range (of_nat n)"
  by (simp add: count_ok_def operand_in_range_def OPERAND_MIN_def OPERAND_MAX_def sint_of_nat32)

lemma checked_count_of_nat: "count_ok n \<Longrightarrow> checked_count (of_nat n) sec = Inr n"
  by (simp add: checked_count_def usize_try_from_def count_ok_def sint_of_nat32)

lemma lift_res_Inr [simp]: "lift_res (Inr x) = ret x"
  by (simp add: lift_res_def)

lemma lift_res_Inl [simp]: "lift_res (Inl e) = fail e"
  by (simp add: lift_res_def)

lemma coded_count [codec_intros]:
  "count_ok n \<Longrightarrow> coded (write_op (of_nat n)) (read_count sec) n"
  unfolding read_count_def
  by (intro coded_last [OF coded_operand])
    (simp_all add: count_ok_operand checked_count_of_nat)

section \<open>Chaining\<close>

text \<open>One step of writer and reader on a known value, and the rest on both sides.\<close>

lemmas codec_then =
  coded_then [OF coded_byte]
  coded_then [OF coded_operand]
  coded_then [OF coded_cstring]
  coded_then [OF coded_word_be]
  coded_then [OF coded_count]
  coded_then [OF coded_bytes]

lemma coded_optional_bytes:
  "coded (put bs) (if 0 < length bs then read_bytes (length bs) sec else ret []) bs"
  by (cases bs) (auto intro: coded_bytes codedI)

lemma coded_words: "n = length vs \<Longrightarrow>
  coded (each_w (\<lambda>v. put (to_be_bytes32 v)) vs) (repeat_sm n (read_word_be sec)) vs"
  by (rule word_codec.counted_roundtrip) (simp_all add: list_all_iff)

lemma coded_bigs:
  "n = length vs \<Longrightarrow> coded (each_w (\<lambda>v. put (to_be_bytes64 v)) vs) (repeat_sm n read_big) vs"
  by (rule big_codec.counted_roundtrip) (simp_all add: list_all_iff)

lemma coded_reals:
  "n = length vs \<Longrightarrow> coded (each_w (\<lambda>v. put (to_be_bytes64 v)) vs) (repeat_sm n read_real) vs"
  by (rule real_codec.counted_roundtrip) (simp_all add: list_all_iff)

end
