(* ===== verification/RoundTrip.thy ===== *)
theory RoundTrip
  imports Codec
begin

unbundle bit_operations_syntax

text \<open>
  Every section of a module read back as it was written, and the whole module: for a module the
  format can express (\<open>module_ok\<close>), \<open>write_dis\<close> succeeds and \<open>load\<close> returns the same module.
\<close>

section \<open>Instructions\<close>

definition operand_ok :: "operand \<Rightarrow> bool" where
  "operand_ok op \<longleftrightarrow>
    (case op_mode op of
       AM_None \<Rightarrow> op = operand_UNUSED
     | OffsetDoubleIndirectFp \<Rightarrow>
         operand_in_range (op_register1 op) \<and> operand_in_range (op_register2 op)
     | OffsetDoubleIndirectMp \<Rightarrow>
         operand_in_range (op_register1 op) \<and> operand_in_range (op_register2 op)
     | Reserved1 \<Rightarrow> False
     | Reserved2 \<Rightarrow> False
     | _ \<Rightarrow> operand_in_range (op_register1 op) \<and> op_register2 op = 0)"

definition middle_ok :: "middle_operand \<Rightarrow> bool" where
  "middle_ok mid \<longleftrightarrow>
    (case mid_mode mid of
       MM_None \<Rightarrow> mid = middle_UNUSED
     | _ \<Rightarrow> operand_in_range (mid_register1 mid))"

definition instruction_ok :: "instruction \<Rightarrow> bool" where
  "instruction_ok inst \<longleftrightarrow>
    middle_ok (i_middle inst) \<and> operand_ok (i_source inst) \<and> operand_ok (i_destination inst)"

lemma addr_code_fields:
  "drop_bit 6 (addr_code inst) AND 3 = encode_mid_mode (mid_mode (i_middle inst))"
  "drop_bit 3 (addr_code inst) AND 7 = encode_addr_mode (op_mode (i_source inst))"
  "addr_code inst AND 7 = encode_addr_mode (op_mode (i_destination inst))"
  unfolding addr_code_def
  by (cases "mid_mode (i_middle inst)"; cases "op_mode (i_source inst)";
      cases "op_mode (i_destination inst)"; simp)+

lemma coded_middle:
  "middle_ok mid \<Longrightarrow>
    coded (write_middle_operand mid) (parse_middle_operand (encode_mid_mode (mid_mode mid))) mid"
  unfolding middle_ok_def write_middle_operand_def parse_middle_operand_def middle_mode_of_bits_def
  by (cases "mid_mode mid") (auto intro!: coded_map coded_operand coded_ret)

lemma coded_src_dst:
  "operand_ok op \<Longrightarrow>
    coded (write_operand op) (parse_src_dst_operand (encode_addr_mode (op_mode op))) op"
  unfolding operand_ok_def write_operand_def parse_src_dst_operand_def address_mode_of_bits_def
  by (cases "op_mode op") (auto intro!: coded_map coded_then coded_operand coded_ret)

lemma coded_instruction:
  assumes "instruction_ok inst"
  shows "coded (write_instruction inst) parse_instruction inst"
  using assms unfolding write_instruction_def parse_instruction_def instruction_ok_def Let_def
  by (auto simp: addr_code_fields
      intro!: codec_then coded_then [OF coded_middle] coded_then [OF coded_src_dst] coded_ret)

interpretation instruction_codec: codec write_instruction parse_instruction instruction_ok
  by unfold_locales (rule coded_instruction)

section \<open>Types\<close>

definition type_ok :: "type_descriptor \<Rightarrow> bool" where
  "type_ok td \<longleftrightarrow>
    operand_in_range (td_id td) \<and> operand_in_range (td_size td) \<and>
    count_ok (length (td_pointer_map td)) \<and>
    td_pointer_count td = count_pointers (td_pointer_map td)"

lemma coded_type: "type_ok td \<Longrightarrow> coded (write_type td) parse_type td"
  unfolding write_type_def parse_type_def type_ok_def len_i32_def
  by (auto simp del: length_greater_0_conv
      intro!: codec_then coded_then [OF coded_optional_bytes] coded_ret)

interpretation type_codec: codec write_type parse_type type_ok
  by unfold_locales (rule coded_type)

section \<open>Data items\<close>

definition data_item_ok :: "data_item \<Rightarrow> bool" where
  "data_item_ok item \<longleftrightarrow>
    (case item of
       DI_Bytes offset values \<Rightarrow>
         0 \<le> sint offset \<and> operand_in_range offset \<and> count_ok (length values)
     | DI_Words offset values \<Rightarrow>
         0 \<le> sint offset \<and> operand_in_range offset \<and> count_ok (length values)
     | DI_Bigs offset values \<Rightarrow>
         0 \<le> sint offset \<and> operand_in_range offset \<and> count_ok (length values)
     | DI_Reals offset values \<Rightarrow>
         0 \<le> sint offset \<and> operand_in_range offset \<and> count_ok (length values)
     | DI_String offset value \<Rightarrow>
         0 \<le> sint offset \<and> operand_in_range offset \<and> list_all scalar value \<and>
         count_ok (str_len value)
     | DI_Array offset element_type len \<Rightarrow> 0 \<le> sint offset \<and> operand_in_range offset
     | DI_SetArray offset index \<Rightarrow> 0 \<le> sint offset \<and> operand_in_range offset
     | DI_RestoreBase \<Rightarrow> True)"

lemma checked_offset_ok: "0 \<le> sint offset \<Longrightarrow> checked_offset offset sec = Inr offset"
  by (simp add: checked_offset_def)

lemma take_bit4_self: "(t :: u8) < 16 \<Longrightarrow> take_bit 4 t = t"
  by (simp add: word_unat_eq_iff word_less_nat_alt unsigned_take_bit_eq take_bit_nat_eq_self)

text \<open>The code byte of an item: its type in the high nibble, a small count in the low one.\<close>

lemma item_code_fields:
  fixes t c :: u8
  assumes "t < 16" and "c < 16"
  shows "drop_bit 4 (push_bit 4 t OR c) AND 15 = t" and "(push_bit 4 t OR c) AND 15 = c"
proof -
  have m: "(15 :: u8) = mask 4" by (simp add: mask_eq_exp_minus_1)
  have t: "take_bit 4 t = t" and c: "take_bit 4 c = c"
    using assms by (simp_all add: take_bit4_self)
  have tb: "n < 4" if "bit t n" for n using that t by (metis bit_take_bit_iff)
  have cb: "n < 4" if "bit c n" for n using that c by (metis bit_take_bit_iff)
  show "drop_bit 4 (push_bit 4 t OR c) AND 15 = t" "(push_bit 4 t OR c) AND 15 = c"
    unfolding m by (rule bit_word_eqI; auto simp: bit_simps dest: tb cb)+
qed

lemma item_code_nonzero:
  fixes t c :: u8
  assumes "0 < t" and "t < 16" and "c < 16"
  shows "push_bit 4 t OR c \<noteq> 0"
proof
  assume "push_bit 4 t OR c = 0"
  with item_code_fields(1) [OF assms(2,3)] have "t = 0" by simp
  with assms(1) show False by simp
qed

text \<open>
  An item's count and body, after its code byte has been read: the count is in the code byte when
  it is 1 to 15 and an operand otherwise.
\<close>

definition item_bytes :: "wr \<Rightarrow> data_item \<Rightarrow> bool" where
  "item_bytes w item \<longleftrightarrow> (\<exists>code bs. code \<noteq> 0 \<and> writes w (code # bs) \<and>
    parses (parse_data_item code) bs item)"

lemma item_bytesI:
  assumes "coded v (parse_data_item code) item" and "code \<noteq> 0"
  shows "item_bytes (then_w (put [code]) v) item"
proof -
  from assms(1) obtain bs where "writes v bs" and "parses (parse_data_item code) bs item"
    by (auto simp: coded_def)
  moreover from this(1) have "writes (then_w (put [code]) v) (code # bs)"
    using writes_then_w [OF writes_put, of v bs "[code]"] by simp
  ultimately show ?thesis using assms(2) by (auto simp: item_bytes_def)
qed

lemma then_w_ret [simp]: "then_w (ret ()) v = v"
  by (simp add: then_w_def)

lemma then_w_assoc: "then_w (then_w a b) c = then_w a (then_w b c)"
  by (rule ext) (simp add: then_w_def sbind_def split: prod.splits sum.splits)

lemma coded_data_item:
  assumes t: "0 < t" "t < 16" and n: "count_ok n"
    and off: "0 \<le> sint offset" "operand_in_range offset"
    and body: "coded v (parse_data_body t n offset) item"
  shows "item_bytes (then_w (write_data_header t (of_nat n) offset) v) item"
proof -
  have sn: "sint (of_nat n :: i32) = int n" using n by (simp add: count_ok_def sint_of_nat32)
  have rest: "coded (then_w (write_op offset) v)
    (sbind (read_operand (rstr ''data'')) (\<lambda>raw_offset.
     sbind (lift_res (checked_offset raw_offset (rstr ''data''))) (\<lambda>offset.
     parse_data_body t n offset))) item"
    using off body by (auto simp: checked_offset_ok intro!: codec_then)
  show ?thesis
  proof (cases "0 < n \<and> n \<le> 15")
    case True
    let ?c = "of_nat n :: u8"
    have c: "?c < 16" "unat ?c = n"
      using True by (simp_all add: word_less_nat_alt unat_of_nat)
    have cast: "ucast (of_nat n :: i32) = ?c" 
      using True by (simp add: unsigned_of_nat take_bit_nat_eq_self)
    have "then_w (write_data_header t (of_nat n) offset) v =
      then_w (put [push_bit 4 t OR ?c]) (then_w (write_op offset) v)"
      using True by (simp add: write_data_header_def then_w_assoc sn cast)
    moreover have "coded (then_w (write_op offset) v) (parse_data_item (push_bit 4 t OR ?c)) item"
      unfolding parse_data_item_def Let_def item_code_fields [OF t(2) c(1)] c
      using rest True by simp
    ultimately show ?thesis
      using item_code_nonzero [OF t c(1)] by (simp add: item_bytesI)
  next
    case False
    have z: "(0 :: u8) < 16" by simp
    have "then_w (write_data_header t (of_nat n) offset) v =
      then_w (put [push_bit 4 t OR 0]) (then_w (write_op (of_nat n)) (then_w (write_op offset) v))"
      using False by (auto simp: write_data_header_def then_w_assoc sn)
    moreover have "coded (then_w (write_op (of_nat n)) (then_w (write_op offset) v))
      (parse_data_item (push_bit 4 t OR 0)) item"
      unfolding parse_data_item_def Let_def item_code_fields [OF t(2) z]
      using rest n by (auto intro!: codec_then)
    ultimately show ?thesis
      using item_code_nonzero [OF t, of 0] item_bytesI by simp
  qed
qed

lemma coded_utf8: "list_all scalar s \<Longrightarrow> n = str_len s \<Longrightarrow>
  coded (put (as_bytes s)) (sbind (read_bytes n sec) (\<lambda>bs. ret (f (from_utf8_lossy bs)))) (f s)"
  by (rule coded_map [OF coded_bytes]) (simp_all add: str_len_def)

lemma coded_unit_item:
  assumes "0 < t" and "t < 16" and "0 \<le> sint offset" and "operand_in_range offset"
    and "coded v (parse_data_body t 1 offset) item"
  shows "item_bytes (then_w (put [push_bit 4 t OR 1]) (then_w (write_op offset) v)) item"
  using coded_data_item [of t 1 offset v item] assms
  by (simp add: count_ok_def write_data_header_def then_w_assoc)

lemma item_bytes_write: "data_item_ok item \<Longrightarrow> item_bytes (write_data_item item) item"
proof (cases item)
  case (DI_Bytes off vs)
  assume "data_item_ok item"
  with DI_Bytes show ?thesis
    by (auto simp: data_item_ok_def len_i32_def parse_data_body_def
        intro!: coded_data_item coded_map coded_bytes)
next
  case (DI_Words off vs)
  assume "data_item_ok item"
  with DI_Words show ?thesis
    by (auto simp: data_item_ok_def len_i32_def parse_data_body_def
        intro!: coded_data_item coded_map coded_words)
next
  case (DI_Bigs off vs)
  assume "data_item_ok item"
  with DI_Bigs show ?thesis
    by (auto simp: data_item_ok_def len_i32_def parse_data_body_def
        intro!: coded_data_item coded_map coded_bigs)
next
  case (DI_Reals off vs)
  assume "data_item_ok item"
  with DI_Reals show ?thesis
    by (auto simp: data_item_ok_def len_i32_def parse_data_body_def
        intro!: coded_data_item coded_map coded_reals)
next
  case (DI_String off str)
  assume "data_item_ok item"
  with DI_String show ?thesis
    by (auto simp: data_item_ok_def parse_data_body_def intro!: coded_data_item coded_utf8)
next
  case (DI_Array off et len)
  assume "data_item_ok item"
  then have ok: "0 \<le> sint off" "operand_in_range off"
    by (simp_all add: DI_Array data_item_ok_def)
  show ?thesis
    unfolding DI_Array write_data_item.simps seq_w.simps
    by (rule coded_unit_item [OF _ _ ok])
      (auto simp: parse_data_body_def intro!: codec_then coded_ret)
next
  case (DI_SetArray off index)
  assume "data_item_ok item"
  then have ok: "0 \<le> sint off" "operand_in_range off"
    by (simp_all add: DI_SetArray data_item_ok_def)
  show ?thesis
    unfolding DI_SetArray write_data_item.simps seq_w.simps
    by (rule coded_unit_item [OF _ _ ok])
      (auto simp: parse_data_body_def intro!: codec_then coded_ret)
next
  case DI_RestoreBase
  show ?thesis
    unfolding DI_RestoreBase write_data_item.simps seq_w.simps
    by (rule coded_unit_item)
      (auto simp: parse_data_body_def operand_in_range_def OPERAND_MIN_def OPERAND_MAX_def
        intro!: coded_ret)
qed

text \<open>The data section: the items and the terminator, for any fuel that covers the items.\<close>

lemma parses_data_end: "parses (parse_data_loop fuel) [0] []"
  unfolding parse_data_loop.simps [of fuel] by (rule parses_sbind_last [OF parses_read_byte]) simp

lemma parses_data_loop_Cons:
  assumes "code \<noteq> 0" and "parses (parse_data_item code) bs item"
    and "parses (parse_data_loop fuel) cs items"
  shows "parses (parse_data_loop (Suc fuel)) (code # bs @ cs) (item # items)"
proof -
  have "parses (sbind (parse_data_item code) (\<lambda>item. sbind (parse_data_loop fuel)
      (\<lambda>items. ret (item # items)))) (bs @ cs) (item # items)"
    using assms(2,3) by (intro parses_sbind parses_sbind_last) auto
  with assms(1) have "parses (parse_data_loop (Suc fuel)) ([code] @ bs @ cs) (item # items)"
    unfolding parse_data_loop.simps [of "Suc fuel"]
    by (intro parses_sbind [OF parses_read_byte]) simp
  then show ?thesis by simp
qed

lemma data_section:
  "list_all data_item_ok items \<Longrightarrow> \<exists>bs. writes (each_w write_data_item items) bs \<and>
    length items \<le> length bs \<and>
    (\<forall>fuel. length items \<le> fuel \<longrightarrow> parses (parse_data_loop fuel) (bs @ [0]) items)"
proof (induction items)
  case Nil
  then show ?case using parses_data_end by auto
next
  case (Cons item items)
  then obtain bs where bs: "writes (each_w write_data_item items) bs" "length items \<le> length bs"
    "\<And>fuel. length items \<le> fuel \<Longrightarrow> parses (parse_data_loop fuel) (bs @ [0]) items" by auto
  from Cons.prems have "item_bytes (write_data_item item) item" by (simp add: item_bytes_write)
  then obtain code as where item: "code \<noteq> 0" "writes (write_data_item item) (code # as)"
    "parses (parse_data_item code) as item"
    unfolding item_bytes_def by blast
  have "writes (each_w write_data_item (item # items)) (code # as @ bs)"
    using writes_then_w [OF item(2) bs(1)] by simp
  moreover have "parses (parse_data_loop fuel) ((code # as @ bs) @ [0]) (item # items)"
    if "length (item # items) \<le> fuel" for fuel
    using that parses_data_loop_Cons [OF item(1,3) bs(3), of "fuel - 1"] by (cases fuel) auto
  moreover have "length (item # items) \<le> length (code # as @ bs)" using bs(2) by simp
  ultimately show ?case by blast
qed

lemma coded_data:
  assumes "list_all data_item_ok items"
  shows "coded (then_w (each_w write_data_item items) (put [0])) parse_data items"
proof -
  obtain bs where w: "writes (each_w write_data_item items) bs" and len: "length items \<le> length bs"
    and p: "\<And>fuel. length items \<le> fuel \<Longrightarrow> parses (parse_data_loop fuel) (bs @ [0]) items"
    using data_section [OF assms] by blast
  have "parses parse_data (bs @ [0]) items"
    unfolding parses_def
  proof (intro allI impI)
    fix r rest
    assume ok: "reader_ok r" and d: "drop (r_pos r) (r_data r) = (bs @ [0]) @ rest"
    have "remaining r = length bs + 1 + length rest"
      using arg_cong [OF d, of length] by (simp add: remaining_def)
    with len have "length items \<le> remaining r" by simp
    from parsesD(1) [OF p [OF this] ok d]
    show "parse_data r = (Inr items, r\<lparr>r_pos := r_pos r + length (bs @ [0])\<rparr>)"
      by (simp add: parse_data_def)
  qed
  with writes_then_w [OF w writes_put] show ?thesis by (rule codedI)
qed

section \<open>Exports, imports and handlers\<close>

definition export_ok :: "export_entry \<Rightarrow> bool" where
  "export_ok e \<longleftrightarrow>
    operand_in_range (ex_pc e) \<and> operand_in_range (ex_frame_type e) \<and> string_ok (ex_name e)"

lemma coded_export: "export_ok e \<Longrightarrow> coded (write_export e) parse_export e"
  unfolding write_export_def parse_export_def export_ok_def
  by (auto intro!: codec_then coded_ret)

interpretation export_codec: codec write_export parse_export export_ok
  by unfold_locales (rule coded_export)

definition import_ok :: "import_entry \<Rightarrow> bool" where
  "import_ok f \<longleftrightarrow> string_ok (im_name f)"

lemma coded_import: "import_ok f \<Longrightarrow> coded (write_import f) parse_import f"
  unfolding write_import_def parse_import_def import_ok_def
  by (auto intro!: codec_then coded_map [OF coded_cstring])

interpretation import_codec: codec write_import parse_import import_ok
  by unfold_locales (rule coded_import)

definition import_module_ok :: "import_module \<Rightarrow> bool" where
  "import_module_ok fs \<longleftrightarrow> count_ok (length fs) \<and> list_all import_ok fs"

lemma coded_import_module:
  "import_module_ok fs \<Longrightarrow> coded (write_import_module fs) parse_import_module fs"
  unfolding write_import_module_def parse_import_module_def import_module_ok_def len_i32_def
  by (auto intro!: codec_then import_codec.list_roundtrip)

interpretation import_module_codec: codec write_import_module parse_import_module import_module_ok
  by unfold_locales (rule coded_import_module)

lemma coded_null: "coded (put [0]) (expect_null sec msg) ()"
  unfolding expect_null_def by (rule coded_last [OF coded_byte]) simp

lemma coded_imports:
  "list_all import_module_ok ms \<Longrightarrow> count_ok (length ms) \<Longrightarrow> ms \<noteq> [] \<Longrightarrow>
    coded (write_imports ms) parse_imports ms"
  unfolding write_imports_def parse_imports_def len_i32_def
  by (auto intro!: codec_then coded_then [OF import_module_codec.list_roundtrip]
      coded_then [OF coded_null] coded_ret)

definition case_ok :: "exception_case \<Rightarrow> bool" where
  "case_ok c \<longleftrightarrow> (\<exists>name. ec_name c = Some name \<and> string_ok name \<and> name \<noteq> []) \<and>
    operand_in_range (ec_pc c)"

lemma coded_case: "case_ok c \<Longrightarrow> coded (write_case c) parse_case c"
  unfolding write_case_def parse_case_def case_ok_def
  by (auto intro!: codec_then coded_map [OF coded_operand])

interpretation case_codec: codec write_case parse_case case_ok
  by unfold_locales (rule coded_case)

definition handler_ok :: "handler \<Rightarrow> bool" where
  "handler_ok h \<longleftrightarrow>
    operand_in_range (hd_exception_offset h) \<and> operand_in_range (hd_begin_pc h) \<and>
    operand_in_range (hd_end_pc h) \<and>
    (case hd_type_descriptor h of None \<Rightarrow> True | Some t \<Rightarrow> t \<noteq> - 1 \<and> operand_in_range t) \<and>
    hd_cases h \<noteq> [] \<and> list_all case_ok (butlast (hd_cases h)) \<and>
    length (butlast (hd_cases h)) < 65536 \<and>
    ec_name (last (hd_cases h)) = None \<and> operand_in_range (ec_pc (last (hd_cases h)))"

lemma find_last: "\<forall>x \<in> set xs. \<not> P x \<Longrightarrow> P w \<Longrightarrow> find P (xs @ [w]) = Some w"
  by (induction xs) auto

lemma handler_cases_split:
  assumes "handler_ok h"
  shows "named_cases (hd_cases h) = butlast (hd_cases h)"
    and "wildcard_pc (hd_cases h) = ec_pc (last (hd_cases h))"
    and "butlast (hd_cases h) @ [\<lparr>ec_name = None, ec_pc = ec_pc (last (hd_cases h))\<rparr>] = hd_cases h"
proof -
  let ?init = "butlast (hd_cases h)" and ?w = "last (hd_cases h)"
  have split: "hd_cases h = ?init @ [?w]" and named: "\<forall>c \<in> set ?init. ec_name c \<noteq> None"
    and wild: "ec_name ?w = None"
    using assms by (auto simp: handler_ok_def list_all_iff case_ok_def)
  show "named_cases (hd_cases h) = ?init"
    using named wild unfolding named_cases_def by (subst split) simp
  have "find (\<lambda>c. ec_name c = None) (?init @ [?w]) = Some ?w"
    using named wild by (intro find_last) auto
  then show "wildcard_pc (hd_cases h) = ec_pc ?w"
    unfolding wildcard_pc_def using split by simp
  have "\<lparr>ec_name = None, ec_pc = ec_pc ?w\<rparr> = ?w" using wild by simp
  with split show "?init @ [\<lparr>ec_name = None, ec_pc = ec_pc ?w\<rparr>] = hd_cases h" by simp
qed

lemma low16_of_nat: "n < 65536 \<Longrightarrow> (of_nat n AND 0xFFFF :: i32) = of_nat n"
proof -
  assume n: "n < 65536"
  have "(0xFFFF :: i32) = mask 16" by (simp add: mask_eq_exp_minus_1)
  then have "(of_nat n AND 0xFFFF :: i32) = take_bit 16 (of_nat n)" by (simp add: take_bit_eq_mask)
  also have "\<dots> = of_nat n"
    using n by (simp add: word_unat_eq_iff unsigned_take_bit_eq unsigned_of_nat
        take_bit_nat_eq_self)
  finally show ?thesis .
qed

lemma coded_handler:
  assumes "handler_ok h"
  shows "coded (write_handler h) parse_handler h"
proof -
  let ?n = "length (butlast (hd_cases h))"
  have n: "?n < 65536" using assms by (simp add: handler_ok_def)
  note low = low16_of_nat [OF n]
  have packed: "unat (of_nat ?n :: i32) = ?n" "operand_in_range (of_nat ?n)"
    using n by (simp_all add: unat_of_nat count_ok_operand count_ok_def)
  note split = handler_cases_split [OF assms]
  have td: "operand_in_range (case hd_type_descriptor h of Some t \<Rightarrow> t | None \<Rightarrow> - 1)"
    "(if (case hd_type_descriptor h of Some t \<Rightarrow> t | None \<Rightarrow> - 1) = - 1 then None
      else Some (case hd_type_descriptor h of Some t \<Rightarrow> t | None \<Rightarrow> - 1)) = hd_type_descriptor h"
    using assms by (auto simp: handler_ok_def operand_in_range_def OPERAND_MIN_def OPERAND_MAX_def
        split: option.splits)
  have ok: "operand_in_range (hd_exception_offset h)" "operand_in_range (hd_begin_pc h)"
    "operand_in_range (hd_end_pc h)" "operand_in_range (ec_pc (last (hd_cases h)))"
    "list_all case_ok (butlast (hd_cases h))"
    using assms by (simp_all add: handler_ok_def)
  show ?thesis
    unfolding write_handler_def parse_handler_def len_i32_def split(1,2) low Let_def
    by (auto simp: low packed(1) td(2) split(3) simp del: length_butlast intro!: codec_then ok packed(2) td(1)
        coded_then [OF case_codec.counted_roundtrip] coded_ret)
qed

interpretation handler_codec: codec write_handler parse_handler handler_ok
  by unfold_locales (rule coded_handler)

lemma coded_handlers:
  "list_all handler_ok hs \<Longrightarrow> count_ok (length hs) \<Longrightarrow> flags_contains flags HAS_HANDLER \<Longrightarrow>
    coded (write_handlers flags hs) parse_handlers hs"
  unfolding write_handlers_def parse_handlers_def len_i32_def
  by (auto intro!: codec_then coded_then [OF handler_codec.list_roundtrip]
      coded_then [OF coded_null] coded_ret)

section \<open>The module\<close>

definition header_ok :: "header \<Rightarrow> bool" where
  "header_ok h \<longleftrightarrow>
    h_magic h = XMAGIC \<and> h_signature h = [] \<and>
    list_all operand_in_range
      [h_runtime_flags h, h_stack_extent h, h_code_size h, h_data_size h, h_type_size h,
       h_export_size h, h_entry_pc h, h_entry_type h]"

lemma coded_header:
  assumes "header_ok h"
  shows "coded (write_header h) parse_header h"
proof -
  have magic: "operand_in_range XMAGIC"
    by (simp add: operand_in_range_def XMAGIC_def OPERAND_MIN_def OPERAND_MAX_def)
  have sig: "parse_signature XMAGIC = ret []"
    by (simp add: parse_signature_def XMAGIC_def SMAGIC_def)
  show ?thesis
    using assms unfolding write_header_def parse_header_def header_ok_def
    by (auto simp: magic sig intro!: codec_then coded_ret)
qed

text \<open>The conditions under which the format can carry a module.\<close>

definition module_ok :: "dis_module \<Rightarrow> bool" where
  "module_ok m \<longleftrightarrow>
    (let h = m_header m; flags = h_runtime_flags h in
     header_ok h \<and>
     count_ok (length (m_code m)) \<and> h_code_size h = of_nat (length (m_code m)) \<and>
     list_all instruction_ok (m_code m) \<and>
     count_ok (length (m_types m)) \<and> h_type_size h = of_nat (length (m_types m)) \<and>
     list_all type_ok (m_types m) \<and>
     list_all data_item_ok (m_data m) \<and>
     string_ok (m_name m) \<and>
     count_ok (length (m_exports m)) \<and> h_export_size h = of_nat (length (m_exports m)) \<and>
     list_all export_ok (m_exports m) \<and>
     (if flags_contains flags HAS_IMPORT
      then m_imports m \<noteq> [] \<and> count_ok (length (m_imports m)) \<and>
        list_all import_module_ok (m_imports m)
      else m_imports m = [] \<and> \<not> flags_contains flags HAS_HANDLER) \<and>
     (if flags_contains flags HAS_HANDLER
      then count_ok (length (m_handlers m)) \<and> list_all handler_ok (m_handlers m)
      else m_handlers m = []))"

text \<open>Like \<open>coded\<close>, but the writer may leave bytes the reader never asks for.\<close>

definition coded_prefix :: "wr \<Rightarrow> 'a rd \<Rightarrow> 'a \<Rightarrow> bool" where
  "coded_prefix w p x \<longleftrightarrow> (\<exists>bs extra. writes w (bs @ extra) \<and> parses p bs x)"

lemma coded_then_prefix:
  assumes "coded w p x" and "coded_prefix v (f x) y"
  shows "coded_prefix (then_w w v) (sbind p f) y"
proof -
  from assms obtain as bs extra where "writes w as" "parses p as x"
    "writes v (bs @ extra)" "parses (f x) bs y" by (auto simp: coded_def coded_prefix_def)
  then have "writes (then_w w v) ((as @ bs) @ extra)" "parses (sbind p f) (as @ bs) y"
    using writes_then_w by fastforce+
  then show ?thesis unfolding coded_prefix_def by blast
qed

lemma coded_imp_prefix: "coded w p x \<Longrightarrow> coded_prefix w p x"
  unfolding coded_def coded_prefix_def by (metis append_Nil2)

lemma coded_counted:
  assumes "codec w p ok" and "list_all ok xs" and "count_ok (length xs)" and "n = of_nat (length xs)"
  shows "coded (each_w w xs) (sbind (lift_res (checked_count n sec)) (\<lambda>c. repeat_sm c p)) xs"
  using codec.list_roundtrip [OF assms(1,2)] assms(3,4) by (simp add: checked_count_of_nat)

lemma coded_code: "list_all instruction_ok xs \<Longrightarrow> count_ok (length xs) \<Longrightarrow> n = of_nat (length xs) \<Longrightarrow>
  coded (each_w write_instruction xs) (parse_code n) xs"
  unfolding parse_code_def by (rule coded_counted [OF instruction_codec.codec_axioms])

lemma coded_types: "list_all type_ok xs \<Longrightarrow> count_ok (length xs) \<Longrightarrow> n = of_nat (length xs) \<Longrightarrow>
  coded (each_w write_type xs) (parse_types n) xs"
  unfolding parse_types_def by (rule coded_counted [OF type_codec.codec_axioms])

lemma coded_exports: "list_all export_ok xs \<Longrightarrow> count_ok (length xs) \<Longrightarrow> n = of_nat (length xs) \<Longrightarrow>
  coded (each_w write_export xs) (parse_exports n) xs"
  unfolding parse_exports_def by (rule coded_counted [OF export_codec.codec_axioms])

lemma coded_tail:
  assumes "module_ok m"
  defines "flags \<equiv> h_runtime_flags (m_header m)"
  assumes last: "f (m_imports m) (m_handlers m) = ret m"
  shows "coded_prefix
    (then_w (write_imports (m_imports m)) (then_w (write_handlers flags (m_handlers m)) (ret ())))
    (sbind (if flags_contains flags HAS_IMPORT then parse_imports else ret []) (\<lambda>imports.
     sbind (if flags_contains flags HAS_HANDLER then parse_handlers else ret []) (f imports))) m"
proof (cases "flags_contains flags HAS_IMPORT")
  case True
  with assms have imps: "coded (write_imports (m_imports m)) parse_imports (m_imports m)"
    by (auto simp: module_ok_def Let_def intro!: coded_imports)
  show ?thesis
  proof (cases "flags_contains flags HAS_HANDLER")
    case handler: True
    with assms have "coded (write_handlers flags (m_handlers m)) parse_handlers (m_handlers m)"
      by (auto simp: module_ok_def Let_def intro!: coded_handlers)
    with True handler imps last show ?thesis
      by (auto intro!: coded_imp_prefix coded_then [OF imps] coded_then coded_ret)
  next
    case no_handler: False
    with assms have "m_handlers m = []" by (auto simp: module_ok_def Let_def)
    with True no_handler last show ?thesis
      by (auto simp: write_handlers_def
          intro!: coded_imp_prefix coded_then [OF imps] coded_ret)
  qed
next
  case False
  with assms have none: "m_imports m = []" "\<not> flags_contains flags HAS_HANDLER" "m_handlers m = []"
    by (auto simp: module_ok_def Let_def split: if_splits)
  have "operand_in_range 0"
    by (simp add: operand_in_range_def OPERAND_MIN_def OPERAND_MAX_def)
  then obtain bs where "writes (write_op 0) bs" using write_op_in_range by blast
  then have "writes (then_w (write_imports []) (then_w (write_handlers flags []) (ret ())))
      ([] @ bs)"
    using none(2) by (auto simp: write_imports_def write_handlers_def len_i32_def writes_def
        then_w_def sm_run)
  moreover have "parses (ret m) [] m" by simp
  ultimately have "coded_prefix
    (then_w (write_imports []) (then_w (write_handlers flags []) (ret ()))) (ret m) m"
    unfolding coded_prefix_def by blast
  with False none last show ?thesis by simp
qed

lemma coded_module:
  assumes ok: "module_ok m" and valid: "validate_module m = Inr ()"
  shows "coded_prefix (write_module m) parse_module m"
proof -
  let ?h = "m_header m"
  have header: "coded (write_header ?h) parse_header ?h"
    using ok by (auto simp: module_ok_def Let_def intro!: coded_header)
  have code: "coded (each_w write_instruction (m_code m)) (parse_code (h_code_size ?h)) (m_code m)"
    using ok by (auto simp: module_ok_def Let_def intro!: coded_code)
  have types: "coded (each_w write_type (m_types m)) (parse_types (h_type_size ?h)) (m_types m)"
    using ok by (auto simp: module_ok_def Let_def intro!: coded_types)
  have data: "coded (then_w (each_w write_data_item (m_data m)) (put [0])) parse_data (m_data m)"
    using ok by (auto simp: module_ok_def Let_def intro!: coded_data)
  have name: "coded (write_cstring (m_name m)) parse_name (m_name m)"
    using ok by (auto simp: module_ok_def Let_def parse_name_def intro!: coded_cstring)
  have exports: "coded (each_w write_export (m_exports m)) (parse_exports (h_export_size ?h))
    (m_exports m)" using ok by (auto simp: module_ok_def Let_def intro!: coded_exports)
  have m: "\<lparr>m_header = m_header m, m_code = m_code m, m_types = m_types m, m_data = m_data m,
    m_name = m_name m, m_exports = m_exports m, m_imports = m_imports m,
    m_handlers = m_handlers m\<rparr> = m" by simp
  show ?thesis
    unfolding write_module_def parse_module_def seq_w.simps
    unfolding then_w_assoc [of "each_w write_data_item (m_data m)" "put [0]", symmetric]
    by (intro coded_then_prefix [OF header] coded_then_prefix [OF code] coded_then_prefix [OF types]
        coded_then_prefix [OF data] coded_then_prefix [OF name] coded_then_prefix [OF exports]
        coded_tail [OF ok]) (simp add: Let_def m valid)
qed

lemma parse_module_empty: "fst (parse_module (reader_new [])) = Inl (UnexpectedEof (rstr ''header''))"
  by (simp add: parse_module_def parse_header_def read_operand_def read_byte_def reader_new_def
      sbind_def)

text \<open>A module the format can carry is written and read back as it was.\<close>

lemma write_then_load:
  assumes "module_ok m" and "validate_module m = Inr ()"
  shows "\<exists>bs. write_dis m = Inr bs \<and> load bs = Inr m"
proof -
  obtain bs extra where w: "writes (write_module m) (bs @ extra)" and p: "parses parse_module bs m"
    using coded_module [OF assms] unfolding coded_prefix_def by blast
  have ok: "reader_ok (reader_new (bs @ extra))"
    "drop (r_pos (reader_new (bs @ extra))) (r_data (reader_new (bs @ extra))) = bs @ extra"
    by (simp_all add: reader_ok_def reader_new_def)
  have parsed: "fst (parse_module (reader_new (bs @ extra))) = Inr m"
    using parsesD(1) [OF p ok] by simp
  then have "bs @ extra \<noteq> []" using parse_module_empty by force
  with parsed have "load (bs @ extra) = Inr m" by (simp add: load_def)
  moreover have "write_dis m = Inr (bs @ extra)" using w by (simp add: write_dis_def writes_def)
  ultimately show ?thesis by blast
qed

end
