(* ===== verification/Memory.thy ===== *)
theory Memory
  imports Core Bytes
begin

text \<open>
  \<open>crates/ricevm-execute/src/memory.rs\<close>: the typed reads and writes on a flat byte buffer that
  every frame, module data area and heap buffer is accessed with. A read outside the buffer gives
  zero, a write outside it does nothing. The locale \<open>slot\<close> is the contract of one pair of
  accessors; the four pairs of the source are its interpretations.
\<close>

section \<open>The accessors\<close>

text \<open>The negation of \<open>offset.checked_add(n).is_none_or(|end| end > buf.len())\<close>.\<close>

definition in_buf :: "nat \<Rightarrow> nat \<Rightarrow> nat \<Rightarrow> bool" where
  "in_buf n len off = (case checked_add off n of None \<Rightarrow> False | Some end_pos \<Rightarrow> end_pos \<le> len)"

definition mem_read_word :: "u8 list \<Rightarrow> usize \<Rightarrow> i32" where
  "mem_read_word buf off =
    (if \<not> in_buf 4 (length buf) off then 0 else from_ne_bytes32 (subrange off 4 buf))"

definition mem_write_word :: "u8 list \<Rightarrow> usize \<Rightarrow> i32 \<Rightarrow> u8 list" where
  "mem_write_word buf off v =
    (if \<not> in_buf 4 (length buf) off then buf else copy_at off (to_ne_bytes32 v) buf)"

definition mem_read_big :: "u8 list \<Rightarrow> usize \<Rightarrow> i64" where
  "mem_read_big buf off =
    (if \<not> in_buf 8 (length buf) off then 0 else from_ne_bytes64 (subrange off 8 buf))"

definition mem_write_big :: "u8 list \<Rightarrow> usize \<Rightarrow> i64 \<Rightarrow> u8 list" where
  "mem_write_big buf off v =
    (if \<not> in_buf 8 (length buf) off then buf else copy_at off (to_ne_bytes64 v) buf)"

definition mem_read_real :: "u8 list \<Rightarrow> usize \<Rightarrow> f64_bits" where
  "mem_read_real buf off =
    (if \<not> in_buf 8 (length buf) off then 0 else from_ne_bytes64 (subrange off 8 buf))"

definition mem_write_real :: "u8 list \<Rightarrow> usize \<Rightarrow> f64_bits \<Rightarrow> u8 list" where
  "mem_write_real buf off v =
    (if \<not> in_buf 8 (length buf) off then buf else copy_at off (to_ne_bytes64 v) buf)"

definition mem_read_byte :: "u8 list \<Rightarrow> usize \<Rightarrow> u8" where
  "mem_read_byte buf off = (if length buf \<le> off then 0 else buf ! off)"

definition mem_write_byte :: "u8 list \<Rightarrow> usize \<Rightarrow> u8 \<Rightarrow> u8 list" where
  "mem_write_byte buf off v = (if length buf \<le> off then buf else buf[off := v])"

lemma in_buf_le: "in_buf n len off \<Longrightarrow> off + n \<le> len"
  by (auto simp: in_buf_def checked_add_def split: option.splits if_splits)

lemma in_buf_iff: "len < usize_limit \<Longrightarrow> in_buf n len off \<longleftrightarrow> off + n \<le> len"
  by (auto simp: in_buf_def checked_add_def split: option.splits if_splits)

lemma in_buf_mono: "in_buf n len off \<Longrightarrow> len \<le> len' \<Longrightarrow> in_buf n len' off"
  by (auto simp: in_buf_def split: option.splits)

section \<open>The contract of a pair of accessors\<close>

locale slot =
  fixes get :: "u8 list \<Rightarrow> usize \<Rightarrow> 'a"
    and put :: "u8 list \<Rightarrow> usize \<Rightarrow> 'a \<Rightarrow> u8 list"
    and width :: nat
    and fits :: "nat \<Rightarrow> usize \<Rightarrow> bool"
    and zero :: 'a
  assumes fits_le: "fits len off \<Longrightarrow> off + width \<le> len"
    and width_pos: "0 < width"
    and put_length: "length (put buf off v) = length buf"
    and put_frame: "q + n \<le> off \<or> off + width \<le> q \<Longrightarrow> q + n \<le> length buf \<Longrightarrow>
      subrange q n (put buf off v) = subrange q n buf"
    and get_local: "length buf = length buf' \<Longrightarrow>
      (fits (length buf) off \<Longrightarrow> subrange off width buf = subrange off width buf') \<Longrightarrow>
      get buf off = get buf' off"
    and get_put_same: "fits (length buf) off \<Longrightarrow> get (put buf off v) off = v"
    and get_outside: "\<not> fits (length buf) off \<Longrightarrow> get buf off = zero"
    and put_outside: "\<not> fits (length buf) off \<Longrightarrow> put buf off v = buf"
begin

lemma get_put_other:
  assumes "off + width \<le> q \<or> q + width \<le> off"
  shows "get (put buf off v) q = get buf q"
proof (rule get_local)
  show "length (put buf off v) = length buf" by (rule put_length)
  show "subrange q width (put buf off v) = subrange q width buf" if "fits (length (put buf off v)) q"
    using assms fits_le [OF that] by (intro put_frame) (auto simp: put_length)
qed

lemma put_nth:
  assumes "i < off \<or> off + width \<le> i" and "i < length buf"
  shows "put buf off v ! i = buf ! i"
proof -
  have "subrange i 1 (put buf off v) = subrange i 1 buf"
    using assms by (intro put_frame) auto
  with assms(2) show ?thesis by (simp add: subrange_def put_length take_Suc_conv_app_nth)
qed

text \<open>Reading through one pair what was written elsewhere through any length-preserving update.\<close>

lemma get_unchanged:
  "length buf' = length buf \<Longrightarrow>
    (off + width \<le> length buf \<Longrightarrow> subrange off width buf' = subrange off width buf) \<Longrightarrow>
    get buf' off = get buf off"
  by (rule get_local) (auto dest: fits_le)

end

text \<open>A pair of accessors made from an encoding of a fixed number of bytes has the contract.\<close>

lemma slot_of_bytes:
  assumes len: "\<And>v. length (enc v) = n" and dec: "\<And>v. dec (enc v) = v" and "0 < n"
    and get: "\<And>buf off. get buf off =
      (if \<not> in_buf n (length buf) off then zero else dec (subrange off n buf))"
    and put: "\<And>buf off v. put buf off v =
      (if \<not> in_buf n (length buf) off then buf else copy_at off (enc v) buf)"
  shows "slot get put n (in_buf n) zero"
proof -
  have bound: "off + length (enc v) \<le> length buf" if "in_buf n (length buf) off" for off v buf
    using in_buf_le [OF that] by (simp add: len)
  have same: "subrange off n (copy_at off (enc v) buf) = enc v" if "in_buf n (length buf) off"
    for off v buf
    using subrange_copy_at_same [OF bound [OF that]] by (simp add: len)
  note length = length_copy_at [OF bound]
  show ?thesis
    by unfold_locales
      (use assms(3) in \<open>auto simp: get put bound length same dec subrange_copy_at_other len dest: in_buf_le\<close>)
qed

interpretation word_slot: slot mem_read_word mem_write_word 4 "in_buf 4" 0
  by (rule slot_of_bytes [where enc = to_ne_bytes32 and dec = from_ne_bytes32])
    (simp_all add: mem_read_word_def mem_write_word_def)

interpretation big_slot: slot mem_read_big mem_write_big 8 "in_buf 8" 0
  by (rule slot_of_bytes [where enc = to_ne_bytes64 and dec = from_ne_bytes64])
    (simp_all add: mem_read_big_def mem_write_big_def)

interpretation real_slot: slot mem_read_real mem_write_real 8 "in_buf 8" 0
  by (rule slot_of_bytes [where enc = to_ne_bytes64 and dec = from_ne_bytes64])
    (simp_all add: mem_read_real_def mem_write_real_def)

lemma subrange_update_other:
  "q + n \<le> off \<or> Suc off \<le> q \<Longrightarrow> subrange q n (buf[off := v]) = subrange q n buf"
  by (auto simp: subrange_def drop_update_swap take_update_cancel)

interpretation byte_slot: slot mem_read_byte mem_write_byte 1 "\<lambda>len off. off < len" 0
proof unfold_locales
  fix buf buf' :: "u8 list" and off
  assume len: "length buf = length buf'"
    and eq: "off < length buf \<Longrightarrow> subrange off 1 buf = subrange off 1 buf'"
  then show "mem_read_byte buf off = mem_read_byte buf' off"
    by (auto simp: mem_read_byte_def subrange_def take_Suc_conv_app_nth dest!: eq)
qed (auto simp: mem_read_byte_def mem_write_byte_def subrange_update_other)

lemmas mem_lengths [simp] =
  word_slot.put_length big_slot.put_length real_slot.put_length byte_slot.put_length

end
