(* ===== verification/Address.thy ===== *)
theory Address
  imports Memory
begin

unbundle bit_operations_syntax

text \<open>
  \<open>crates/ricevm-execute/src/address.rs\<close>: where an operand lives. One 32-bit word addresses
  frame slots, the data areas of up to 128 modules, heap objects and, with its top bit set,
  entries of the table of element references. The lemmas show that the address ranges are disjoint,
  that each range decodes back to what was encoded, and that no resolved address leaves its range.
\<close>

section \<open>The address map\<close>

type_synonym heap_id = u32

type_synonym heap_refs = "(heap_id \<times> usize) list"

definition HEAP_ID_BASE :: heap_id where
  "HEAP_ID_BASE = 0x10000000"

definition HEAP_REF_FLAG :: i32 where
  "HEAP_REF_FLAG = 0x80000000"

definition MP_BASE :: usize where
  "MP_BASE = 0x00800000"

definition MP_STRIDE :: usize where
  "MP_STRIDE = 0x00100000"

definition MAX_MODULES :: usize where
  "MAX_MODULES = 128"

definition MP_LIMIT :: usize where
  "MP_LIMIT = MP_BASE + MAX_MODULES * MP_STRIDE"

datatype addr_target =
  AT_Frame usize
  | AT_Mp usize
  | AT_ModuleMp (at_module_idx: usize) (at_offset: usize)
  | AT_Immediate
  | AT_None
  | AT_HeapArray heap_id usize

definition offset_operand :: "i32 \<Rightarrow> rstring \<Rightarrow> exec_error + usize" where
  "offset_operand reg what =
    (case usize_try_from reg of
       Some off \<Rightarrow> Inr off
     | None \<Rightarrow> Inl (ExecOther (rstr ''negative '' @ what @ rstr '' offset: '' @ show_i32 reg)))"

definition frame_addr :: "usize \<Rightarrow> i32 \<Rightarrow> exec_error + usize" where
  "frame_addr fp_base reg =
    and_then (offset_operand reg (rstr ''frame'')) (\<lambda>off.
      case checked_add fp_base off of
        None \<Rightarrow> Inl (ExecOther (rstr ''frame offset out of range: '' @ show_i32 reg))
      | Some addr \<Rightarrow>
          if addr < MP_BASE then Inr addr
          else Inl (ExecOther (rstr ''frame offset out of range: '' @ show_i32 reg)))"

definition decode_virtual_addr :: "i32 \<Rightarrow> usize \<Rightarrow> addr_target" where
  "decode_virtual_addr addr register2 =
    (if addr = 0 then AT_None
     else if addr AND HEAP_REF_FLAG \<noteq> 0 then AT_None
     else let uaddr = i32_as_usize addr in
       if uaddr \<ge> unat HEAP_ID_BASE then AT_HeapArray (of_nat uaddr) register2
       else if uaddr \<ge> MP_LIMIT then AT_None
       else if uaddr \<ge> MP_BASE then
         let rel = uaddr - MP_BASE; module_idx = rel div MP_STRIDE; mp_off = rel mod MP_STRIDE in
         case checked_add mp_off register2 of
           Some offset \<Rightarrow> if offset < MP_STRIDE then AT_ModuleMp module_idx offset else AT_None
         | None \<Rightarrow> AT_None
       else
         case checked_add uaddr register2 of
           Some offset \<Rightarrow> if offset < MP_BASE then AT_Frame offset else AT_None
         | None \<Rightarrow> AT_None)"

text \<open>
  The reference table entry a word with the top bit set names: the \<open>if let\<close> shared by the two
  double-indirect modes.
\<close>

definition heap_ref_target :: "heap_refs \<Rightarrow> i32 \<Rightarrow> usize \<Rightarrow> addr_target option" where
  "heap_ref_target refs base_val register2 =
    (if base_val AND HEAP_REF_FLAG \<noteq> 0 then
       (case nth_opt refs (i32_as_usize (base_val AND NOT HEAP_REF_FLAG)) of
          Some (hid, byte_offset) \<Rightarrow> Some (AT_HeapArray hid (saturating_add byte_offset register2))
        | None \<Rightarrow> None)
     else None)"

definition resolve_operand ::
  "operand \<Rightarrow> usize \<Rightarrow> u8 list \<Rightarrow> u8 list \<Rightarrow> heap_refs \<Rightarrow> exec_error + addr_target" where
  "resolve_operand opd fp_base stack_data mp_data refs =
    (case op_mode opd of
       OffsetIndirectFp \<Rightarrow> and_then (frame_addr fp_base (op_register1 opd)) (\<lambda>a. Inr (AT_Frame a))
     | OffsetIndirectMp \<Rightarrow>
         and_then (offset_operand (op_register1 opd) (rstr ''mp'')) (\<lambda>a. Inr (AT_Mp a))
     | Immediate \<Rightarrow> Inr AT_Immediate
     | AM_None \<Rightarrow> Inr AT_None
     | OffsetDoubleIndirectFp \<Rightarrow>
         and_then (frame_addr fp_base (op_register1 opd)) (\<lambda>base_addr.
         and_then (offset_operand (op_register2 opd) (rstr ''indirect'')) (\<lambda>register2.
         let base_val = mem_read_word stack_data base_addr in
         if base_val = 0 then Inr AT_None
         else case heap_ref_target refs base_val register2 of
           Some t \<Rightarrow> Inr t
         | None \<Rightarrow> Inr (decode_virtual_addr base_val register2)))
     | OffsetDoubleIndirectMp \<Rightarrow>
         and_then (offset_operand (op_register1 opd) (rstr ''mp'')) (\<lambda>base_off.
         and_then (offset_operand (op_register2 opd) (rstr ''indirect'')) (\<lambda>register2.
         let base_val = mem_read_word mp_data base_off in
         if base_val = 0 then Inr AT_None
         else case heap_ref_target refs base_val register2 of
           Some t \<Rightarrow> Inr t
         | None \<Rightarrow>
             (case decode_virtual_addr base_val register2 of
                AT_Frame off \<Rightarrow> Inr (AT_Mp off)
              | decoded \<Rightarrow> Inr decoded)))
     | Reserved1 \<Rightarrow> Inl (ExecOther (rstr ''reserved address mode''))
     | Reserved2 \<Rightarrow> Inl (ExecOther (rstr ''reserved address mode'')))"

definition resolve_middle :: "middle_operand \<Rightarrow> usize \<Rightarrow> exec_error + addr_target" where
  "resolve_middle opd fp_base =
    (case mid_mode opd of
       MM_None \<Rightarrow> Inr AT_None
     | SmallImmediate \<Rightarrow> Inr AT_Immediate
     | SmallOffsetFp \<Rightarrow> and_then (frame_addr fp_base (mid_register1 opd)) (\<lambda>a. Inr (AT_Frame a))
     | SmallOffsetMp \<Rightarrow>
         and_then (offset_operand (mid_register1 opd) (rstr ''mp'')) (\<lambda>a. Inr (AT_Mp a)))"

section \<open>The ranges of the map\<close>

lemmas address_map_defs =
  HEAP_ID_BASE_def MP_BASE_def MP_STRIDE_def MAX_MODULES_def MP_LIMIT_def

lemma MP_LIMIT_below_heap: "MP_LIMIT < unat HEAP_ID_BASE"
  by (simp add: address_map_defs)

lemma and_HEAP_REF_FLAG: "v AND HEAP_REF_FLAG = 0 \<longleftrightarrow> \<not> bit v 31"
  unfolding word32_eq_bits HEAP_REF_FLAG_def by (simp add: bit_simps)

lemma bit31_unat: "bit (v :: i32) 31 \<longleftrightarrow> 2147483648 \<le> unat v"
proof -
  have "unat v < 4294967296" using unsigned_less [of v, where ?'a = nat] by simp
  then have "unat v div 2147483648 = (if 2147483648 \<le> unat v then 1 else 0)"
    by (simp add: div_nat_eqI)
  moreover have "bit v 31 \<longleftrightarrow> odd (unat v div 2147483648)"
    using bit_unsigned_iff [of v 31, where ?'a = nat] by (simp add: bit_iff_odd)
  ultimately show ?thesis by simp
qed

text \<open>\<open>decode_virtual_addr\<close> by the range its argument lies in.\<close>

lemma decode_virtual_addr_unat:
  "decode_virtual_addr addr register2 =
    (let a = unat addr in
     if a = 0 \<or> 0x80000000 \<le> a then AT_None
     else if 0x10000000 \<le> a then AT_HeapArray addr register2
     else if MP_LIMIT \<le> a then AT_None
     else if MP_BASE \<le> a then
       (if (a - MP_BASE) mod MP_STRIDE + register2 < MP_STRIDE
        then AT_ModuleMp ((a - MP_BASE) div MP_STRIDE) ((a - MP_BASE) mod MP_STRIDE + register2)
        else AT_None)
     else if a + register2 < MP_BASE then AT_Frame (a + register2) else AT_None)"
proof (cases "bit addr 31")
  case True
  then show ?thesis by (simp add: decode_virtual_addr_def and_HEAP_REF_FLAG bit31_unat)
next
  case False
  then have u: "i32_as_usize addr = unat addr" by (rule i32_as_usize_nonneg)
  have "addr = 0 \<longleftrightarrow> unat addr = 0" by (simp add: unat_eq_0)
  moreover have "unat HEAP_ID_BASE = 0x10000000" by (simp add: HEAP_ID_BASE_def)
  moreover have "\<not> 2147483648 \<le> unat addr" using False by (simp add: bit31_unat)
  ultimately show ?thesis
    using False
    by (auto simp: decode_virtual_addr_def and_HEAP_REF_FLAG u Let_def MP_BASE_def MP_STRIDE_def
        usize_limit_def split: option.splits)
qed

lemma decode_frame:
  "unat a < MP_BASE \<Longrightarrow> a \<noteq> 0 \<Longrightarrow> decode_virtual_addr a r =
    (if unat a + r < MP_BASE then AT_Frame (unat a + r) else AT_None)"
  by (simp add: decode_virtual_addr_unat Let_def address_map_defs unat_eq_0)

lemma decode_module:
  assumes "idx < MAX_MODULES" and "off < MP_STRIDE"
  shows "decode_virtual_addr (of_nat (MP_BASE + idx * MP_STRIDE + off)) r =
    (if off + r < MP_STRIDE then AT_ModuleMp idx (off + r) else AT_None)"
proof -
  let ?a = "MP_BASE + idx * MP_STRIDE + off"
  have "idx * MP_STRIDE \<le> 127 * MP_STRIDE"
    using assms(1) by (intro mult_right_mono) (simp_all add: MAX_MODULES_def)
  then have lt: "?a < MP_LIMIT" using assms(2) by (simp add: address_map_defs)
  have "unat (of_nat ?a :: i32) = ?a"
    by (rule unat_of_nat_u32, rule less_trans [OF lt]) (simp add: address_map_defs)
  moreover have "(?a - MP_BASE) div MP_STRIDE = idx" "(?a - MP_BASE) mod MP_STRIDE = off"
    using assms(2) by simp_all
  ultimately show ?thesis
    using lt by (simp add: decode_virtual_addr_unat Let_def address_map_defs)
qed

lemma decode_heap:
  "0x10000000 \<le> unat a \<Longrightarrow> unat a < 0x80000000 \<Longrightarrow> decode_virtual_addr a r = AT_HeapArray a r"
  by (simp add: decode_virtual_addr_unat Let_def)

text \<open>What a resolved target satisfies: every target lies in the range of its kind.\<close>

definition target_in_range :: "heap_refs \<Rightarrow> addr_target \<Rightarrow> bool" where
  "target_in_range refs t =
    (case t of
       AT_Frame off \<Rightarrow> off < MP_BASE
     | AT_Mp off \<Rightarrow> off < 2147483648
     | AT_ModuleMp idx off \<Rightarrow> idx < MAX_MODULES \<and> off < MP_STRIDE
     | AT_HeapArray hid off \<Rightarrow>
         unat HEAP_ID_BASE \<le> unat hid \<and> unat hid < 2147483648 \<or> hid \<in> fst ` set refs
     | _ \<Rightarrow> True)"

lemma decode_in_range: "target_in_range refs (decode_virtual_addr a r)"
proof -
  have "(unat a - MP_BASE) div MP_STRIDE < MAX_MODULES" if "unat a < MP_LIMIT"
    using that by (simp add: address_map_defs div_less_iff_less_mult)
  then show ?thesis
    by (auto simp: decode_virtual_addr_unat Let_def target_in_range_def HEAP_ID_BASE_def)
qed

lemma frame_addr_in_range: "frame_addr fp reg = Inr a \<Longrightarrow> a < MP_BASE \<and> fp \<le> a"
  by (auto simp: frame_addr_def offset_operand_def and_then_eq_Inr
      split: option.splits if_splits)

lemma offset_operand_in_range: "offset_operand reg what = Inr off \<Longrightarrow> off < 2147483648"
  using sint32_bounds [of reg] by (auto simp: offset_operand_def split: option.splits)

lemma heap_ref_in_range:
  assumes "heap_ref_target refs v r = Some t"
  shows "target_in_range refs t"
proof -
  obtain i hid off where "nth_opt refs i = Some (hid, off)"
    and t: "t = AT_HeapArray hid (saturating_add off r)"
    using assms unfolding heap_ref_target_def by (auto split: if_splits option.splits prod.splits)
  then have "(hid, off) \<in> set refs" by (metis nth_mem nth_opt_Some)
  then show ?thesis by (force simp: t target_in_range_def)
qed

lemma frame_as_mp: "target_in_range refs (AT_Frame off) \<Longrightarrow> target_in_range refs (AT_Mp off)"
  by (simp add: target_in_range_def MP_BASE_def)

lemma resolve_operand_in_range:
  assumes "resolve_operand opd fp stack mp refs = Inr t"
  shows "target_in_range refs t"
proof (cases "op_mode opd")
  case OffsetDoubleIndirectMp
  then obtain v r2 where t: "(if v = 0 then Inr AT_None else
      case heap_ref_target refs v r2 of
        Some t \<Rightarrow> Inr t
      | None \<Rightarrow> (case decode_virtual_addr v r2 of AT_Frame off \<Rightarrow> Inr (AT_Mp off)
          | decoded \<Rightarrow> Inr decoded)) = (Inr t :: exec_error + addr_target)"
    using assms unfolding resolve_operand_def Let_def
    by (simp only: address_mode.case and_then_eq_Inr) blast
  show ?thesis
  proof (cases "v = 0 \<or> heap_ref_target refs v r2 \<noteq> None")
    case True
    with t show ?thesis by (auto simp: target_in_range_def [of refs AT_None] intro: heap_ref_in_range
          split: if_splits)
  next
    case False
    then have "(case decode_virtual_addr v r2 of AT_Frame off \<Rightarrow> Inr (AT_Mp off)
          | decoded \<Rightarrow> Inr decoded) = (Inr t :: exec_error + addr_target)" using t by simp
    then show ?thesis
      using decode_in_range [of refs v r2]
      by (cases "decode_virtual_addr v r2") (auto intro: frame_as_mp)
  qed
next
  case OffsetDoubleIndirectFp
  then obtain v r2 where t: "(if v = 0 then Inr AT_None else
      case heap_ref_target refs v r2 of
        Some t \<Rightarrow> Inr t
      | None \<Rightarrow> Inr (decode_virtual_addr v r2)) = (Inr t :: exec_error + addr_target)"
    using assms unfolding resolve_operand_def Let_def
    by (simp only: address_mode.case and_then_eq_Inr) blast
  then show ?thesis
    using decode_in_range [of refs v r2]
    by (auto simp: target_in_range_def [of refs AT_None] intro: heap_ref_in_range
        split: if_splits option.splits)
qed (use assms in \<open>auto simp: resolve_operand_def and_then_eq_Inr target_in_range_def
    dest: frame_addr_in_range offset_operand_in_range\<close>)

lemma resolve_middle_in_range: "resolve_middle opd fp = Inr t \<Longrightarrow> target_in_range refs t"
  by (cases "mid_mode opd") (auto simp: resolve_middle_def and_then_eq_Inr target_in_range_def
    dest: frame_addr_in_range offset_operand_in_range)

end
