(* ===== verification/Channel.thy ===== *)
theory Channel
  imports Address
begin

text \<open>
  \<open>crates/ricevm-execute/src/channel.rs\<close>: the channels of the preemptive scheduler. A channel
  keeps the queue of the senders and the queue of the receivers that wait; the invariant is that
  never both wait. Delivery is in the order of sending: the messages received so far followed by
  the ones that wait are the messages sent.
\<close>

record channel_request =
  cr_thread_id :: u32
  cr_data :: "u8 list"

record channel =
  ch_senders :: "channel_request list"
  ch_receivers :: "channel_request list"
  ch_elem_size :: usize

definition channel_new :: "usize \<Rightarrow> channel" where
  "channel_new elem_size = \<lparr>ch_senders = [], ch_receivers = [], ch_elem_size = elem_size\<rparr>"

definition try_send :: "u8 list \<Rightarrow> u32 \<Rightarrow> channel \<Rightarrow> channel_request option \<times> channel" where
  "try_send data thread_id ch =
    (case ch_receivers ch of
       receiver # receivers \<Rightarrow>
         (Some \<lparr>cr_thread_id = cr_thread_id receiver, cr_data = data\<rparr>,
          ch\<lparr>ch_receivers := receivers\<rparr>)
     | [] \<Rightarrow>
         (None, ch\<lparr>ch_senders := ch_senders ch @ [\<lparr>cr_thread_id = thread_id, cr_data = data\<rparr>]\<rparr>))"

definition try_recv :: "u32 \<Rightarrow> channel \<Rightarrow> u8 list option \<times> channel" where
  "try_recv thread_id ch =
    (case ch_senders ch of
       sender # senders \<Rightarrow> (Some (cr_data sender), ch\<lparr>ch_senders := senders\<rparr>)
     | [] \<Rightarrow>
         (None, ch\<lparr>ch_receivers := ch_receivers ch @ [\<lparr>cr_thread_id = thread_id, cr_data = []\<rparr>]\<rparr>))"

definition has_pending_send :: "channel \<Rightarrow> bool" where
  "has_pending_send ch \<longleftrightarrow> ch_senders ch \<noteq> []"

definition has_pending_recv :: "channel \<Rightarrow> bool" where
  "has_pending_recv ch \<longleftrightarrow> ch_receivers ch \<noteq> []"

type_synonym channel_table = "u32 \<rightharpoonup> channel"

definition get_or_create :: "u32 \<Rightarrow> usize \<Rightarrow> channel_table \<Rightarrow> channel \<times> channel_table" where
  "get_or_create cid elem_size table =
    (case table cid of
       Some ch \<Rightarrow> (ch, table)
     | None \<Rightarrow> (channel_new elem_size, table(cid \<mapsto> channel_new elem_size)))"

definition channel_remove :: "u32 \<Rightarrow> channel_table \<Rightarrow> channel_table" where
  "channel_remove cid table = table(cid := None)"

section \<open>Runs of a channel\<close>

definition channel_ok :: "channel \<Rightarrow> bool" where
  "channel_ok ch \<longleftrightarrow> ch_senders ch = [] \<or> ch_receivers ch = []"

text \<open>
  A run is a sequence of send and receive attempts. Its trace records what each thread has been
  handed: \<open>delivered\<close> pairs a receiver with a message.
\<close>

datatype channel_op = Send u32 "u8 list" | Recv u32

fun channel_step :: "channel_op \<Rightarrow> channel \<Rightarrow> (u32 \<times> u8 list) list \<times> channel" where
  "channel_step (Send t data) ch =
    (case try_send data t ch of
       (Some r, ch') \<Rightarrow> ([(cr_thread_id r, cr_data r)], ch')
     | (None, ch') \<Rightarrow> ([], ch'))"
| "channel_step (Recv t) ch =
    (case try_recv t ch of
       (Some data, ch') \<Rightarrow> ([(t, data)], ch')
     | (None, ch') \<Rightarrow> ([], ch'))"

fun channel_run :: "channel_op list \<Rightarrow> channel \<Rightarrow> (u32 \<times> u8 list) list \<times> channel" where
  "channel_run [] ch = ([], ch)"
| "channel_run (x # xs) ch =
    (let (out, ch') = channel_step x ch; (outs, ch'') = channel_run xs ch' in (out @ outs, ch''))"

fun sent :: "channel_op list \<Rightarrow> u8 list list" where
  "sent [] = []"
| "sent (Send t data # xs) = data # sent xs"
| "sent (Recv t # xs) = sent xs"

fun asked :: "channel_op list \<Rightarrow> u32 list" where
  "asked [] = []"
| "asked (Send t data # xs) = asked xs"
| "asked (Recv t # xs) = t # asked xs"

lemma channel_ok_new: "channel_ok (channel_new n)"
  by (simp add: channel_ok_def channel_new_def)

lemma channel_step_ok: "channel_ok ch \<Longrightarrow> channel_ok (snd (channel_step x ch))"
  by (cases x) (auto simp: channel_ok_def try_send_def try_recv_def split: list.splits)

text \<open>
  Messages leave in the order they came, receivers are served in the order they asked: pending
  messages and deliveries together are the messages sent, pending receivers and deliveries the
  requests made.
\<close>

lemma channel_step_fifo:
  assumes "channel_ok ch" and "channel_step x ch = (out, ch')"
  shows "map snd out @ map cr_data (ch_senders ch') = map cr_data (ch_senders ch) @ sent [x]"
    and "map fst out @ map cr_thread_id (ch_receivers ch') =
      map cr_thread_id (ch_receivers ch) @ asked [x]"
  using assms
  by (cases x; auto simp: channel_ok_def try_send_def try_recv_def split: list.splits)+

lemma channel_run_fifo:
  "channel_ok ch \<Longrightarrow> channel_run xs ch = (outs, ch') \<Longrightarrow>
    channel_ok ch' \<and>
    map snd outs @ map cr_data (ch_senders ch') = map cr_data (ch_senders ch) @ sent xs \<and>
    map fst outs @ map cr_thread_id (ch_receivers ch') =
      map cr_thread_id (ch_receivers ch) @ asked xs"
proof (induction xs arbitrary: ch outs)
  case Nil
  then show ?case by simp
next
  case (Cons x xs)
  obtain out ch1 where step: "channel_step x ch = (out, ch1)" by fastforce
  obtain outs' where run: "channel_run xs ch1 = (outs', ch')" and outs: "outs = out @ outs'"
    using Cons.prems(2) step by (auto split: prod.splits)
  have ok: "channel_ok ch1" using channel_step_ok [OF Cons.prems(1), of x] step by simp
  note IH = Cons.IH [OF ok run] and fifo = channel_step_fifo [OF Cons.prems(1) step]
  have "sent (x # xs) = sent [x] @ sent xs" "asked (x # xs) = asked [x] @ asked xs"
    by (cases x; simp)+
  with IH fifo outs show ?case by (metis append.assoc map_append)
qed

end
