(* ===== verification/Heap.thy ===== *)
theory Heap
  imports Address "HOL-Library.Multiset"
begin

unbundle bit_operations_syntax

text \<open>
  \<open>crates/ricevm-execute/src/heap.rs\<close>: reference-counted objects named by 32-bit identifiers,
  the pointer maps of their types, arrays with slices that read and write through to their parent,
  and copy-on-write strings. The counters are \<open>u32\<close> and wrap as they do in a release build. The
  accounting lemmas show that releasing a held reference frees nothing that is still referenced.
\<close>

section \<open>Pointer maps\<close>

record trace_map =
  tm_offsets :: "usize list"
  tm_stride :: usize

definition trace_map_new :: "u8 list \<Rightarrow> usize \<Rightarrow> trace_map" where
  "trace_map_new map_bytes stride =
    \<lparr>tm_offsets = concat (map (\<lambda>byte_idx.
        map (\<lambda>bit_idx. (byte_idx * 8 + bit_idx) * 4)
          (filter (\<lambda>bit_idx. (map_bytes ! byte_idx) AND drop_bit bit_idx 0x80 \<noteq> 0 \<and>
              (byte_idx * 8 + bit_idx) * 4 + 4 \<le> stride)
            [0..<8]))
      [0..<length map_bytes]),
     tm_stride = stride\<rparr>"

definition div_ceil :: "nat \<Rightarrow> nat \<Rightarrow> nat" where
  "div_ceil a b = (if a mod b = 0 then a div b else a div b + 1)"

definition pointer_offsets :: "trace_map \<Rightarrow> usize \<Rightarrow> usize list" where
  "pointer_offsets tm buf_len =
    (let elements = (if tm_stride tm = 0 then 0 else div_ceil buf_len (tm_stride tm)) in
     concat (map (\<lambda>element. let base = element * tm_stride tm in
       filter (\<lambda>offset. offset + 4 \<le> buf_len) (map (\<lambda>offset. base + offset) (tm_offsets tm)))
     [0..<elements]))"

section \<open>Objects\<close>

definition NIL :: heap_id where
  "NIL = 0"

type_synonym func_map = "usize option list"

datatype heap_data =
    HD_Record "u8 list"
  | HD_Str rstring
  | HD_Array (hd_elem_type: u32) (hd_elem_size: usize) (hd_data: "u8 list") (hd_length: usize)
  | HD_List (hd_head: "u8 list") (hd_tail: heap_id)
  | HD_ModuleRef u32 func_map
  | HD_MainModule func_map
  | HD_LoadedModule usize func_map
  | HD_Channel usize "u8 list option"
  | HD_Adt u32 "u8 list"
  | HD_ArraySlice (hd_parent_id: heap_id) (hd_byte_start: usize) u32 usize usize

record heap_object =
  ho_ref_count :: u32
  ho_type_id :: u32
  ho_trace :: "trace_map option"
  ho_data :: heap_data

type_synonym objects = "heap_id \<rightharpoonup> heap_object"

type_synonym type_key = "usize \<times> u32"

record heap =
  hp_objects :: objects
  hp_next_id :: heap_id
  hp_trace_maps :: "type_key \<rightharpoonup> trace_map"

definition heap_new :: heap where
  "heap_new = \<lparr>hp_objects = Map.empty, hp_next_id = HEAP_ID_BASE, hp_trace_maps = Map.empty\<rparr>"

definition alloc_typed :: "u32 \<Rightarrow> heap_data \<Rightarrow> trace_map option \<Rightarrow> heap \<Rightarrow> heap_id \<times> heap" where
  "alloc_typed type_id data trace h =
    (let hid = hp_next_id h in
     (hid, h\<lparr>hp_next_id := hp_next_id h + 1,
       hp_objects := (hp_objects h)(hid \<mapsto>
         \<lparr>ho_ref_count = 1, ho_type_id = type_id, ho_trace = trace, ho_data = data\<rparr>)\<rparr>))"

definition heap_alloc :: "u32 \<Rightarrow> heap_data \<Rightarrow> heap \<Rightarrow> heap_id \<times> heap" where
  "heap_alloc type_id data h = alloc_typed type_id data None h"

definition trace_map_lookup :: "heap \<Rightarrow> type_key \<Rightarrow> trace_map option" where
  "trace_map_lookup h key = hp_trace_maps h key"

definition intern_trace_map :: "type_key \<Rightarrow> trace_map \<Rightarrow> heap \<Rightarrow> trace_map \<times> heap" where
  "intern_trace_map key tm h =
    (case hp_trace_maps h key of
       Some tm' \<Rightarrow> (tm', h)
     | None \<Rightarrow> (tm, h\<lparr>hp_trace_maps := (hp_trace_maps h)(key \<mapsto> tm)\<rparr>))"

definition heap_get :: "heap \<Rightarrow> heap_id \<Rightarrow> heap_object option" where
  "heap_get h hid = (if hid = NIL then None else hp_objects h hid)"

definition heap_contains :: "heap \<Rightarrow> heap_id \<Rightarrow> bool" where
  "heap_contains h hid \<longleftrightarrow> hid \<noteq> NIL \<and> hp_objects h hid \<noteq> None"

text \<open>Writing through \<open>get_mut(id)\<close>: the object's data is replaced, if there is an object.\<close>

definition heap_set_data :: "heap_id \<Rightarrow> heap_data \<Rightarrow> heap \<Rightarrow> heap" where
  "heap_set_data hid data h =
    (case heap_get h hid of
       None \<Rightarrow> h
     | Some obj \<Rightarrow> h\<lparr>hp_objects := (hp_objects h)(hid \<mapsto> obj\<lparr>ho_data := data\<rparr>)\<rparr>)"

section \<open>Reference counts\<close>

definition inc_ref :: "heap_id \<Rightarrow> heap \<Rightarrow> heap" where
  "inc_ref hid h =
    (if hid = NIL then h
     else case hp_objects h hid of
       None \<Rightarrow> h
     | Some obj \<Rightarrow>
         h\<lparr>hp_objects := (hp_objects h)(hid \<mapsto> obj\<lparr>ho_ref_count := ho_ref_count obj + 1\<rparr>)\<rparr>)"

fun is_permanent :: "heap_data \<Rightarrow> bool" where
  "is_permanent (HD_ModuleRef _ _) = True"
| "is_permanent (HD_MainModule _) = True"
| "is_permanent (HD_LoadedModule _ _) = True"
| "is_permanent _ = False"

fun child_refs :: "heap_data \<Rightarrow> heap_id list" where
  "child_refs (HD_List _ tail) = (if tail \<noteq> NIL then [tail] else [])"
| "child_refs (HD_ArraySlice parent_id _ _ _ _) = (if parent_id \<noteq> NIL then [parent_id] else [])"
| "child_refs _ = []"

definition saturating_dec :: "u32 \<Rightarrow> u32" where
  "saturating_dec n = (if n = 0 then 0 else n - 1)"

text \<open>
  The loop of \<open>dec_ref\<close>. The head of the list is the top of the source's \<open>pending\<close> stack. It
  ends: a step either shortens the stack or removes an object, of which there are finitely many.
\<close>

function dec_ref_loop :: "heap_id list \<Rightarrow> objects \<Rightarrow> objects" where
  "dec_ref_loop [] objs = objs"
| "dec_ref_loop (hid # pending) objs =
    (case objs hid of
       None \<Rightarrow> dec_ref_loop pending objs
     | Some obj \<Rightarrow>
         let rc = saturating_dec (ho_ref_count obj) in
         if rc = 0 \<and> \<not> is_permanent (ho_data obj)
         then dec_ref_loop (child_refs (ho_data obj) @ pending) (objs(hid := None))
         else dec_ref_loop pending (objs(hid \<mapsto> obj\<lparr>ho_ref_count := rc\<rparr>)))"
  by pat_completeness auto
termination
proof (relation "measures [\<lambda>(pending, objs). card (dom objs), \<lambda>(pending, objs). length pending]",
    goal_cases)
  case 1
  show ?case by simp
next
  case (2 hid pending objs)
  then show ?case by simp
next
  case (3 hid pending objs obj rc)
  have "card (dom objs - {hid}) < card (dom objs)"
    using 3(1) by (intro card_Diff1_less) auto
  then show ?case by simp
next
  case (4 hid pending objs obj rc)
  have "insert hid (dom objs) = dom objs" using 4(1) by auto
  then show ?case by simp
qed

definition dec_ref :: "heap_id \<Rightarrow> heap \<Rightarrow> heap" where
  "dec_ref hid h =
    (if hid = NIL then h else h\<lparr>hp_objects := dec_ref_loop [hid] (hp_objects h)\<rparr>)"

section \<open>Arrays and slices\<close>

definition array_byte_len :: "heap \<Rightarrow> heap_id \<Rightarrow> usize option" where
  "array_byte_len h hid =
    (case heap_get h hid of
       None \<Rightarrow> None
     | Some obj \<Rightarrow>
         (case ho_data obj of
            HD_Array _ _ data _ \<Rightarrow> Some (length data)
          | HD_ArraySlice _ _ _ elem_size len \<Rightarrow> Some (len * elem_size)
          | _ \<Rightarrow> None))"

text \<open>
  The recursion through slices is bounded by a number above the count of all identifiers: a chain
  of parents that is longer repeats an identifier, and then the source's recursion does not end
  either. On a heap whose slices are younger than their parents the bound is never reached
  (\<open>array_read_unfold\<close>, \<open>array_write_unfold\<close>).
\<close>

definition slice_depth :: nat where
  "slice_depth = 4294967296"

fun array_read_fuel :: "nat \<Rightarrow> heap \<Rightarrow> heap_id \<Rightarrow> usize \<Rightarrow> usize \<Rightarrow> u8 list option" where
  "array_read_fuel fuel h hid offset len =
    (if fuel = 0 then None
     else case heap_get h hid of
       None \<Rightarrow> None
     | Some obj \<Rightarrow>
         (case ho_data obj of
            HD_Array _ _ data _ \<Rightarrow>
              (case checked_add offset len of
                 Some end_pos \<Rightarrow>
                   if end_pos \<le> length data then Some (subrange offset len data)
                   else Some (replicate len 0)
               | None \<Rightarrow> Some (replicate len 0))
          | HD_ArraySlice parent_id byte_start _ _ _ \<Rightarrow>
              (case checked_add byte_start offset of
                 Some parent_offset \<Rightarrow> array_read_fuel (fuel - 1) h parent_id parent_offset len
               | None \<Rightarrow> Some (replicate len 0))
          | _ \<Rightarrow> None))"

definition array_read :: "heap \<Rightarrow> heap_id \<Rightarrow> usize \<Rightarrow> usize \<Rightarrow> u8 list option" where
  "array_read h hid offset len = array_read_fuel slice_depth h hid offset len"

fun array_write_fuel :: "nat \<Rightarrow> heap_id \<Rightarrow> usize \<Rightarrow> u8 list \<Rightarrow> heap \<Rightarrow> heap" where
  "array_write_fuel fuel hid offset bytes h =
    (if fuel = 0 then h
     else case heap_get h hid of
       None \<Rightarrow> h
     | Some obj \<Rightarrow>
         (case ho_data obj of
            HD_ArraySlice parent_id byte_start _ _ _ \<Rightarrow>
              (case checked_add byte_start offset of
                 Some parent_offset \<Rightarrow> array_write_fuel (fuel - 1) parent_id parent_offset bytes h
               | None \<Rightarrow> h)
          | HD_Array et es arr_data len \<Rightarrow>
              (case checked_add offset (length bytes) of
                 None \<Rightarrow> h
               | Some end_pos \<Rightarrow>
                   let end_pos = min end_pos (length arr_data);
                       copy_len = end_pos - offset in
                   if 0 < copy_len
                   then heap_set_data hid
                     (HD_Array et es (copy_at offset (take copy_len bytes) arr_data) len) h
                   else h)
          | _ \<Rightarrow> h))"

declare array_read_fuel.simps [simp del] array_write_fuel.simps [simp del]

definition array_write :: "heap_id \<Rightarrow> usize \<Rightarrow> u8 list \<Rightarrow> heap \<Rightarrow> heap" where
  "array_write hid offset bytes h = array_write_fuel slice_depth hid offset bytes h"

section \<open>Sweeping and strings\<close>

definition sweep :: "heap_id set \<Rightarrow> heap \<Rightarrow> heap" where
  "sweep marked h = h\<lparr>hp_objects := (\<lambda>hid.
    case hp_objects h hid of
      None \<Rightarrow> None
    | Some obj \<Rightarrow> if hid \<in> marked \<or> is_permanent (ho_data obj) then Some obj else None)\<rparr>"

definition get_string :: "heap \<Rightarrow> heap_id \<Rightarrow> rstring option" where
  "get_string h hid =
    (case heap_get h hid of
       Some obj \<Rightarrow> (case ho_data obj of HD_Str s \<Rightarrow> Some s | _ \<Rightarrow> None)
     | None \<Rightarrow> None)"

text \<open>
  The result names the string the caller may write to; it is written with \<open>heap_set_data\<close>.
\<close>

definition cow_string :: "heap_id \<Rightarrow> heap \<Rightarrow> (heap_id \<times> rstring) option \<times> heap" where
  "cow_string hid h =
    (if hid = NIL then (None, h)
     else case hp_objects h hid of
       None \<Rightarrow> (None, h)
     | Some obj \<Rightarrow>
         (case ho_data obj of
            HD_Str s \<Rightarrow>
              if 1 < ho_ref_count obj then
                let type_id = ho_type_id obj; h = dec_ref hid h;
                    (new_id, h) = heap_alloc type_id (HD_Str s) h in
                (Some (new_id, s), h)
              else (Some (hid, s), h)
          | _ \<Rightarrow> (None, h)))"

section \<open>The shape of the heap\<close>

text \<open>
  Identifiers are handed out in order from \<open>HEAP_ID_BASE\<close>, and what an object owns is older
  than the object.
\<close>

definition objects_ok :: "heap_id \<Rightarrow> objects \<Rightarrow> bool" where
  "objects_ok next objs \<longleftrightarrow> (\<forall>hid obj. objs hid = Some obj \<longrightarrow>
    unat HEAP_ID_BASE \<le> unat hid \<and> unat hid < unat next \<and>
    (\<forall>c \<in> set (child_refs (ho_data obj)). unat c < unat hid))"

definition heap_ok :: "heap \<Rightarrow> bool" where
  "heap_ok h \<longleftrightarrow> unat HEAP_ID_BASE \<le> unat (hp_next_id h) \<and> objects_ok (hp_next_id h) (hp_objects h)"

text \<open>The data an allocation may store: what it owns is older than the next identifier.\<close>

definition data_ok :: "heap_id \<Rightarrow> heap_data \<Rightarrow> bool" where
  "data_ok next data \<longleftrightarrow> (\<forall>c \<in> set (child_refs data). unat c < unat next)"

lemma heap_ok_new: "heap_ok heap_new"
  by (simp add: heap_ok_def objects_ok_def heap_new_def)

lemma objects_okD:
  "objects_ok next objs \<Longrightarrow> objs hid = Some obj \<Longrightarrow>
    0x10000000 \<le> unat hid \<and> unat hid < unat next \<and>
    (\<forall>c \<in> set (child_refs (ho_data obj)). unat c < unat hid)"
  by (simp add: objects_ok_def HEAP_ID_BASE_def)

lemma objects_ok_None:
  "objects_ok next objs \<Longrightarrow> unat hid < 0x10000000 \<or> unat next \<le> unat hid \<Longrightarrow> objs hid = None"
  by (cases "objs hid") (auto dest: objects_okD)

lemma objects_ok_update:
  "objects_ok n objs \<Longrightarrow> objs hid = Some obj \<Longrightarrow>
    child_refs (ho_data obj') = child_refs (ho_data obj) \<Longrightarrow> objects_ok n (objs(hid \<mapsto> obj'))"
  by (simp add: objects_ok_def)

lemma objects_ok_remove: "objects_ok n objs \<Longrightarrow> objects_ok n (objs(hid := None))"
  by (simp add: objects_ok_def)

lemma heap_ok_not_NIL: "heap_ok h \<Longrightarrow> hp_objects h NIL = None"
  unfolding heap_ok_def by (rule objects_ok_None) (auto simp: NIL_def)

lemma heap_ok_fresh: "heap_ok h \<Longrightarrow> hp_objects h (hp_next_id h) = None"
  unfolding heap_ok_def by (rule objects_ok_None) auto

lemma heap_get_objects: "heap_ok h \<Longrightarrow> heap_get h hid = hp_objects h hid"
  using heap_ok_not_NIL by (auto simp: heap_get_def)

lemma unat_add_1: "unat (n :: u32) < 4294967295 \<Longrightarrow> unat (n + 1) = Suc (unat n)"
proof -
  assume n: "unat n < 4294967295"
  then have "unat (of_nat (Suc (unat n)) :: u32) = Suc (unat n)" by (intro unat_of_nat_u32) simp
  then show ?thesis by (simp add: add.commute)
qed

lemma heap_ok_alloc:
  assumes ok: "heap_ok h" and data: "data_ok (hp_next_id h) data"
    and nxt: "unat (hp_next_id h) < 4294967295"
  shows "heap_ok (snd (alloc_typed type_id data trace h))"
  using ok data
  by (auto simp: heap_ok_def objects_ok_def alloc_typed_def Let_def data_ok_def unat_add_1 [OF nxt]
      less_Suc_eq)

lemma child_refs_older:
  "heap_ok h \<Longrightarrow> hp_objects h hid = Some obj \<Longrightarrow> c \<in> set (child_refs (ho_data obj)) \<Longrightarrow>
    unat c < unat hid"
  unfolding heap_ok_def by (blast dest: objects_okD)

section \<open>Reading and writing through slices\<close>

lemma parent_older:
  assumes "heap_ok h" and "heap_get h hid = Some obj" and "ho_data obj = HD_ArraySlice p bs et es n"
  shows "unat p < unat hid"
proof (cases "p = NIL")
  case True
  have "hid \<noteq> NIL" using assms(2) by (auto simp: heap_get_def)
  with True show ?thesis by (simp add: NIL_def unat_gt_0)
next
  case False
  have "hp_objects h hid = Some obj" using assms(1,2) by (simp add: heap_get_objects)
  from child_refs_older [OF assms(1) this, of p] False assms(3) show ?thesis by simp
qed

text \<open>Enough fuel is enough: the recursion ends at the identifier itself.\<close>

lemma array_read_enough:
  "heap_ok h \<Longrightarrow> unat hid < fuel \<Longrightarrow> unat hid < fuel' \<Longrightarrow>
    array_read_fuel fuel h hid offset len = array_read_fuel fuel' h hid offset len"
proof (induction "unat hid" arbitrary: hid fuel fuel' offset rule: less_induct)
  case less
  have IH: "array_read_fuel (fuel - 1) h p off len = array_read_fuel (fuel' - 1) h p off len"
    if "heap_get h hid = Some obj" "ho_data obj = HD_ArraySlice p bs et es n" for obj p bs et es n off
  proof -
    note old = parent_older [OF less.prems(1) that]
    with less.prems show ?thesis by (intro less.hyps) simp_all
  qed
  show ?case
    unfolding array_read_fuel.simps [of fuel] array_read_fuel.simps [of fuel']
    using less.prems(2,3) IH by (auto split: option.splits heap_data.splits)
qed

lemma array_write_enough:
  "heap_ok h \<Longrightarrow> unat hid < fuel \<Longrightarrow> unat hid < fuel' \<Longrightarrow>
    array_write_fuel fuel hid offset bytes h = array_write_fuel fuel' hid offset bytes h"
proof (induction "unat hid" arbitrary: hid fuel fuel' offset rule: less_induct)
  case less
  have IH: "array_write_fuel (fuel - 1) p off bytes h = array_write_fuel (fuel' - 1) p off bytes h"
    if "heap_get h hid = Some obj" "ho_data obj = HD_ArraySlice p bs et es n" for obj p bs et es n off
  proof -
    note old = parent_older [OF less.prems(1) that]
    with less.prems show ?thesis by (intro less.hyps) simp_all
  qed
  show ?case
    unfolding array_write_fuel.simps [of fuel] array_write_fuel.simps [of fuel']
    using less.prems(2,3) IH by (auto split: option.splits heap_data.splits)
qed

lemma unat_less_depth: "unat (hid :: heap_id) < slice_depth"
  using unsigned_less [of hid, where ?'a = nat] by (simp add: slice_depth_def)

lemma array_read_slice:
  assumes "heap_ok h" and "heap_get h hid = Some obj" and "ho_data obj = HD_ArraySlice p bs et es n"
  shows "array_read h hid offset len =
    (if bs + offset < usize_limit then array_read h p (bs + offset) len else Some (replicate len 0))"
proof -
  have "unat p < slice_depth - 1"
    using parent_older [OF assms] unat_less_depth [of hid] by linarith
  then have "array_read_fuel (slice_depth - 1) h p off len = array_read_fuel slice_depth h p off len"
    for off by (intro array_read_enough assms(1) unat_less_depth)
  moreover have "slice_depth \<noteq> 0" by (simp add: slice_depth_def)
  ultimately show ?thesis
    unfolding array_read_def array_read_fuel.simps [of slice_depth h hid]
    using assms(2,3) by (simp add: checked_add_def)
qed

lemma array_write_slice:
  assumes "heap_ok h" and "heap_get h hid = Some obj" and "ho_data obj = HD_ArraySlice p bs et es n"
  shows "array_write hid offset bytes h =
    (if bs + offset < usize_limit then array_write p (bs + offset) bytes h else h)"
proof -
  have "unat p < slice_depth - 1"
    using parent_older [OF assms] unat_less_depth [of hid] by linarith
  then have "array_write_fuel (slice_depth - 1) p off bytes h =
      array_write_fuel slice_depth p off bytes h"
    for off by (intro array_write_enough assms(1) unat_less_depth)
  moreover have "slice_depth \<noteq> 0" by (simp add: slice_depth_def)
  ultimately show ?thesis
    unfolding array_write_def array_write_fuel.simps [of slice_depth hid]
    using assms(2,3) by (simp add: checked_add_def)
qed

lemma array_read_array:
  assumes "heap_get h hid = Some obj" and "ho_data obj = HD_Array et es data n"
  shows "array_read h hid offset len =
    Some (if offset + len < usize_limit \<and> offset + len \<le> length data
      then subrange offset len data else replicate len 0)"
  unfolding array_read_def array_read_fuel.simps [of slice_depth]
  using assms by (simp add: slice_depth_def checked_add_def)

lemma array_write_array:
  assumes "heap_get h hid = Some obj" and "ho_data obj = HD_Array et es data n"
    and "offset + length bytes \<le> length data" and "length data < usize_limit"
  shows "array_write hid offset bytes h =
    (if bytes = [] then h
     else heap_set_data hid (HD_Array et es (copy_at offset bytes data) n) h)"
proof -
  have "offset < length data" if "bytes \<noteq> []" using assms(3) that by (cases bytes) auto
  then show ?thesis
    unfolding array_write_def array_write_fuel.simps [of slice_depth]
    using assms by (cases "bytes = []") (simp_all add: slice_depth_def checked_add_def Let_def)
qed

text \<open>
  The array a position of an array or of a slice of slices really is: \<open>array_view h hid off r o\<close>
  says that position \<open>off\<close> of \<open>hid\<close> is position \<open>o\<close> of the array \<open>r\<close>.
\<close>

inductive array_view :: "heap \<Rightarrow> heap_id \<Rightarrow> usize \<Rightarrow> heap_id \<Rightarrow> usize \<Rightarrow> bool" for h where
  view_array: "heap_get h hid = Some obj \<Longrightarrow> ho_data obj = HD_Array et es data n \<Longrightarrow>
    array_view h hid off hid off"
| view_slice: "heap_get h hid = Some obj \<Longrightarrow> ho_data obj = HD_ArraySlice p bs et es n \<Longrightarrow>
    bs + off < usize_limit \<Longrightarrow> array_view h p (bs + off) r q \<Longrightarrow> array_view h hid off r q"

lemma array_view_read:
  "array_view h hid off r q \<Longrightarrow> heap_ok h \<Longrightarrow> array_read h hid off len = array_read h r q len"
  by (induction rule: array_view.induct) (simp_all add: array_read_slice)

lemma array_view_write:
  "array_view h hid off r q \<Longrightarrow> heap_ok h \<Longrightarrow> array_write hid off bytes h = array_write r q bytes h"
  by (induction rule: array_view.induct) (simp_all add: array_write_slice)

lemma heap_get_set_data:
  "heap_get (heap_set_data hid data h) x =
    (if x = hid then map_option (\<lambda>obj. obj\<lparr>ho_data := data\<rparr>) (heap_get h hid) else heap_get h x)"
  by (auto simp: heap_set_data_def heap_get_def split: option.splits)

text \<open>Replacing the bytes of an array changes no view.\<close>

lemma array_view_set_data:
  assumes "heap_get h r = Some obj" and "ho_data obj = HD_Array et es data n"
  shows "array_view h hid off r' q \<Longrightarrow>
    array_view (heap_set_data r (HD_Array et es data' n) h) hid off r' q"
proof (induction rule: array_view.induct)
  case (view_array hid obj' et' es' data'' n' off)
  show ?case
  proof (cases "hid = r")
    case True
    with assms show ?thesis
      by (intro array_view.view_array [where obj = "obj\<lparr>ho_data := HD_Array et es data' n\<rparr>"])
        (simp_all add: heap_get_set_data)
  next
    case False
    then show ?thesis using view_array
      by (intro array_view.view_array) (simp_all add: heap_get_set_data)
  qed
next
  case (view_slice hid obj' p bs et' es' n' off r' q)
  then have "hid \<noteq> r" using assms by auto
  then show ?case using view_slice.hyps(1-3) view_slice.IH
    by - (rule array_view.view_slice, simp_all add: heap_get_set_data)
qed

lemma heap_ok_set_data:
  assumes ok: "heap_ok h" and get: "heap_get h hid = Some obj"
    and refs: "child_refs data = child_refs (ho_data obj)"
  shows "heap_ok (heap_set_data hid data h)"
proof -
  have "hp_objects h hid = Some obj" using ok get by (simp add: heap_get_objects)
  moreover have "objects_ok (hp_next_id h) (hp_objects h)" using ok by (simp add: heap_ok_def)
  moreover have "child_refs (ho_data (obj\<lparr>ho_data := data\<rparr>)) = child_refs (ho_data obj)"
    using refs by simp
  ultimately have "objects_ok (hp_next_id h) ((hp_objects h)(hid \<mapsto> obj\<lparr>ho_data := data\<rparr>))"
    by (metis objects_ok_update)
  with ok get show ?thesis by (simp add: heap_ok_def heap_set_data_def)
qed

text \<open>
  What is written through one view is what every other view of the same array reads, at its own
  position.
\<close>

lemma array_write_read:
  assumes ok: "heap_ok h" and a: "array_view h a i r q" and b: "array_view h b j r q'"
    and get: "heap_get h r = Some obj" and data: "ho_data obj = HD_Array et es data n"
    and bounds: "q + length bytes \<le> length data" "q' + len \<le> length data"
      "length data < usize_limit"
  shows "array_read (array_write a i bytes h) b j len =
    Some (subrange q' len (copy_at q bytes data))"
proof (cases "bytes = []")
  case True
  have "array_write a i bytes h = h"
    using array_write_array [OF get data bounds(1,3)] True by (simp add: array_view_write [OF a ok])
  moreover have "copy_at q bytes data = data" using True by (simp add: copy_at_def)
  ultimately show ?thesis
    using array_read_array [OF get data] bounds by (simp add: array_view_read [OF b ok])
next
  case False
  let ?h = "heap_set_data r (HD_Array et es (copy_at q bytes data) n) h"
  have "array_write a i bytes h = ?h"
    using array_write_array [OF get data bounds(1,3)] False by (simp add: array_view_write [OF a ok])
  moreover have "array_read ?h b j len = array_read ?h r q' len"
    by (intro array_view_read array_view_set_data [OF get data] heap_ok_set_data [OF ok get] b)
      (simp add: data)
  moreover have "heap_get ?h r = Some (obj\<lparr>ho_data := HD_Array et es (copy_at q bytes data) n\<rparr>)"
    using get by (simp add: heap_get_set_data)
  ultimately show ?thesis
    using bounds by (simp add: array_read_array)
qed

section \<open>Reference counting\<close>

text \<open>
  The references to an object that the counts must cover: those its owners hold, and those held
  from outside the heap, a multiset \<open>ext\<close>.
\<close>

definition owners :: "objects \<Rightarrow> heap_id \<Rightarrow> heap_id set" where
  "owners objs c = {hid. \<exists>obj. objs hid = Some obj \<and> c \<in> set (child_refs (ho_data obj))}"

definition rc_ok :: "heap_id multiset \<Rightarrow> objects \<Rightarrow> bool" where
  "rc_ok ext objs \<longleftrightarrow>
    (\<forall>hid obj. objs hid = Some obj \<longrightarrow> card (owners objs hid) + count ext hid \<le> unat (ho_ref_count obj)) \<and>
    (\<forall>hid obj. objs hid = Some obj \<longrightarrow> (\<forall>c \<in> set (child_refs (ho_data obj)). objs c \<noteq> None)) \<and>
    (\<forall>hid \<in># ext. objs hid \<noteq> None)"

lemma child_refs_cases: "child_refs data = [] \<or> (\<exists>c. child_refs data = [c])"
  by (cases data) auto

lemma owners_update_same:
  "objs hid = Some obj \<Longrightarrow> child_refs (ho_data obj') = child_refs (ho_data obj) \<Longrightarrow>
    owners (objs(hid \<mapsto> obj')) c = owners objs c"
  by (auto simp: owners_def)

lemma owners_remove: "owners (objs(hid := None)) c = owners objs c - {hid}"
  by (auto simp: owners_def)

lemma saturating_dec_unat: "unat (saturating_dec n) = unat n - 1"
  by (auto simp: saturating_dec_def unat_minus_one unat_eq_0)

text \<open>One step of \<open>dec_ref\<close>: the released reference goes, the count or the object with it.\<close>

lemma rc_ok_decrement:
  assumes ok: "rc_ok (add_mset hid ext) objs" and get: "objs hid = Some obj"
    and obj': "child_refs (ho_data obj') = child_refs (ho_data obj)"
      "ho_ref_count obj' = saturating_dec (ho_ref_count obj)"
  shows "rc_ok ext (objs(hid \<mapsto> obj'))"
proof -
  have count: "card (owners objs x) + count ext x + (if x = hid then 1 else 0) \<le> unat (ho_ref_count o')"
    if "objs x = Some o'" for x o'
    using ok that by (fastforce simp: rc_ok_def)
  have "card (owners (objs(hid \<mapsto> obj')) x) + count ext x \<le> unat (ho_ref_count o')"
    if "(objs(hid \<mapsto> obj')) x = Some o'" for x o'
  proof -
    note same = owners_update_same [where objs = objs and hid = hid, OF get obj'(1)]
    show ?thesis
    proof (cases "x = hid")
      case True
      with that have "o' = obj'" by simp
      with True count [OF get] show ?thesis by (simp add: same obj'(2) saturating_dec_unat)
    next
      case False
      with that count [of x o'] show ?thesis by (simp add: same)
    qed
  qed
  with ok get obj'(1) show ?thesis
    unfolding rc_ok_def by auto
qed

lemma rc_ok_free:
  assumes ok: "rc_ok (add_mset hid ext) objs" and get: "objs hid = Some obj"
    and last: "saturating_dec (ho_ref_count obj) = 0"
  shows "rc_ok (mset (child_refs (ho_data obj)) + ext) (objs(hid := None))"
proof -
  let ?objs = "objs(hid := None)" and ?cs = "child_refs (ho_data obj)"
  have "card (owners objs hid) + Suc (count ext hid) \<le> unat (ho_ref_count obj)"
    using ok get by (fastforce simp: rc_ok_def)
  moreover have "unat (ho_ref_count obj) \<le> 1"
    using arg_cong [OF last, of unat] by (simp add: saturating_dec_unat)
  ultimately have "card (owners objs hid) = 0" and none: "count ext hid = 0" by linarith+
  then have none: "owners objs hid = {}" "count ext hid = 0" by (simp_all add: card_eq_0_iff)
  have count: "card (owners ?objs x) + count (mset ?cs + ext) x \<le> unat (ho_ref_count o')"
    if "?objs x = Some o'" for x o'
  proof -
    have x: "x \<noteq> hid" "objs x = Some o'" using that by (auto split: if_splits)
    then have "card (owners objs x) + count ext x \<le> unat (ho_ref_count o')"
      using ok by (fastforce simp: rc_ok_def)
    moreover have "card (owners ?objs x) + count (mset ?cs) x \<le> card (owners objs x)"
    proof (cases "x \<in> set ?cs")
      case True
      then have "hid \<in> owners objs x" using get by (auto simp: owners_def)
      then have "Suc (card (owners objs x - {hid})) = card (owners objs x)"
        by (intro card_Suc_Diff1) auto
      moreover have "count (mset ?cs) x \<le> 1" using child_refs_cases [of "ho_data obj"] by auto
      ultimately show ?thesis by (simp add: owners_remove)
    next
      case False
      then have "count (mset ?cs) x = 0" by (simp add: count_eq_zero_iff)
      then show ?thesis by (simp only: owners_remove card_Diff1_le add_0_right)
    qed
    ultimately show ?thesis by simp
  qed
  have not_owned: "hid \<notin> set (child_refs (ho_data o'))" if "objs x = Some o'" for x o'
    using none(1) that by (auto simp: owners_def)
  have "\<forall>c \<in> set ?cs. ?objs c \<noteq> None"
    using ok get not_owned [OF get] by (auto simp: rc_ok_def)
  moreover have "\<forall>x \<in># ext. ?objs x \<noteq> None"
  proof
    fix x assume x: "x \<in># ext"
    then have "x \<noteq> hid" using none(2) by (auto simp: count_eq_zero_iff)
    moreover have "objs x \<noteq> None" using ok x by (simp add: rc_ok_def)
    ultimately show "?objs x \<noteq> None" by simp
  qed
  moreover have "\<forall>c \<in> set (child_refs (ho_data o')). ?objs c \<noteq> None" if "?objs x = Some o'" for x o'
    using that ok not_owned [of x o'] by (auto simp: rc_ok_def split: if_splits)
  ultimately show ?thesis
    using count by (auto simp: rc_ok_def)
qed

lemma rc_ok_absent: "rc_ok (add_mset hid ext) objs \<Longrightarrow> objs hid \<noteq> None"
  by (simp add: rc_ok_def)

lemma dec_ref_loop_rc_ok:
  "rc_ok (mset pending + ext) objs \<Longrightarrow> rc_ok ext (dec_ref_loop pending objs)"
proof (induction pending objs rule: dec_ref_loop.induct)
  case (1 objs)
  then show ?case by simp
next
  case (2 hid pending objs)
  have ok: "rc_ok (add_mset hid (mset pending + ext)) objs" using "2.prems" by simp
  from rc_ok_absent [OF this] obtain obj where get: "objs hid = Some obj" by auto
  show ?case
  proof (cases "saturating_dec (ho_ref_count obj) = 0 \<and> \<not> is_permanent (ho_data obj)")
    case True
    then have "rc_ok (mset (child_refs (ho_data obj)) + (mset pending + ext)) (objs(hid := None))"
      by (intro rc_ok_free [OF ok get]) simp
    then have "rc_ok ext (dec_ref_loop (child_refs (ho_data obj) @ pending) (objs(hid := None)))"
      by (intro "2.IH"(2) [OF get refl True]) (simp add: ac_simps fun_upd_def)
    with True get show ?thesis by (simp del: fun_upd_apply)
  next
    case False
    have "rc_ok (mset pending + ext)
        (objs(hid \<mapsto> obj\<lparr>ho_ref_count := saturating_dec (ho_ref_count obj)\<rparr>))"
      by (rule rc_ok_decrement [OF ok get]) simp_all
    note "2.IH"(3) [OF get refl False this]
    with False get show ?thesis by (auto simp del: fun_upd_apply simp: Let_def)
  qed
qed

text \<open>Releasing a reference that is held keeps every other reference, inside or outside, good.\<close>

lemma dec_ref_rc_ok:
  assumes "rc_ok (add_mset hid ext) (hp_objects h)"
  shows "rc_ok ext (hp_objects (dec_ref hid h))"
proof (cases "hid = NIL")
  case True
  have "card (owners (hp_objects h) x) + count ext x \<le> unat (ho_ref_count obj)"
    if "hp_objects h x = Some obj" for x obj
  proof -
    have "count ext x \<le> count (add_mset hid ext) x" by simp
    also have "card (owners (hp_objects h) x) + \<dots> \<le> unat (ho_ref_count obj)"
      using assms that unfolding rc_ok_def by blast
    finally show ?thesis by simp
  qed
  with assms have "rc_ok ext (hp_objects h)" by (simp add: rc_ok_def)
  with True show ?thesis by (simp add: dec_ref_def)
next
  case False
  with dec_ref_loop_rc_ok [of "[hid]" ext "hp_objects h"] assms show ?thesis
    by (simp add: dec_ref_def)
qed

text \<open>Taking a reference, and allocating an object that takes over the references it owns.\<close>

lemma inc_ref_rc_ok:
  assumes ok: "rc_ok ext (hp_objects h)" and get: "hp_objects h hid = Some obj" and nil: "hid \<noteq> NIL"
    and max: "unat (ho_ref_count obj) < 4294967295"
  shows "rc_ok (add_mset hid ext) (hp_objects (inc_ref hid h))"
proof -
  let ?obj = "obj\<lparr>ho_ref_count := ho_ref_count obj + 1\<rparr>"
  let ?objs = "(hp_objects h)(hid \<mapsto> ?obj)"
  have same: "owners ?objs x = owners (hp_objects h) x" for x
    using get by (intro owners_update_same) simp_all
  have "card (owners ?objs x) + count (add_mset hid ext) x \<le> unat (ho_ref_count o')"
    if "?objs x = Some o'" for x o'
  proof (cases "x = hid")
    case True
    with that have "o' = ?obj" by simp
    moreover have "card (owners (hp_objects h) hid) + count ext hid \<le> unat (ho_ref_count obj)"
      using ok get by (simp add: rc_ok_def)
    ultimately show ?thesis using True by (simp add: same unat_add_1 [OF max])
  next
    case False
    with that ok show ?thesis by (simp add: same rc_ok_def)
  qed
  then have "rc_ok (add_mset hid ext) ?objs"
    using ok get by (auto simp: rc_ok_def)
  with get nil show ?thesis by (simp add: inc_ref_def)
qed

lemma alloc_rc_ok:
  assumes ok: "heap_ok h" and rc: "rc_ok (mset (child_refs data) + ext) (hp_objects h)"
    and alloc: "alloc_typed type_id data trace h = (hid, h')"
  shows "rc_ok (add_mset hid ext) (hp_objects h')"
proof -
  let ?obj = "\<lparr>ho_ref_count = 1, ho_type_id = type_id, ho_trace = trace, ho_data = data\<rparr>"
  let ?objs = "hp_objects h" and ?cs = "child_refs data"
  have hid: "hid = hp_next_id h" and h': "hp_objects h' = ?objs(hid \<mapsto> ?obj)"
    using alloc by (auto simp: alloc_typed_def Let_def)
  have fresh: "?objs hid = None" using heap_ok_fresh [OF ok] by (simp add: hid)
  have own: "owners (?objs(hid \<mapsto> ?obj)) x =
      (if x \<in> set ?cs then insert hid (owners ?objs x) else owners ?objs x)" for x
    using fresh by (auto simp: owners_def)
  have "\<forall>x \<in> set ?cs \<union> set_mset ext. ?objs x \<noteq> None" using rc by (simp add: rc_ok_def)
  then have held: "?objs c \<noteq> None" if "c \<in> set ?cs \<or> c \<in># ext" for c using that by blast
  then have live: "c \<noteq> hid" if "c \<in> set ?cs" for c using that fresh by metis
  have ext_live: "count ext hid = 0"
    using held fresh by (meson count_eq_zero_iff)
  have "?objs c \<noteq> None" if "?objs x = Some obj" "c \<in> set (child_refs (ho_data obj))" for x obj c
    using rc that unfolding rc_ok_def by blast
  with fresh have "owners ?objs hid = {}" unfolding owners_def by fastforce
  then have new: "card (owners (?objs(hid \<mapsto> ?obj)) hid) = 0"
    using live by (auto simp: own card_eq_0_iff)
  have "card (owners (?objs(hid \<mapsto> ?obj)) x) + count (add_mset hid ext) x \<le> unat (ho_ref_count o')"
    if "(?objs(hid \<mapsto> ?obj)) x = Some o'" for x o'
  proof (cases "x = hid")
    case True
    with that new ext_live show ?thesis by auto
  next
    case False
    with that have x: "?objs x = Some o'" by simp
    have "card (owners (?objs(hid \<mapsto> ?obj)) x) \<le> card (owners ?objs x) + count (mset ?cs) x"
      by (auto simp: own card_insert_if Suc_le_eq)
    moreover have "card (owners ?objs x) + count (mset ?cs + ext) x \<le> unat (ho_ref_count o')"
      using rc x by (simp add: rc_ok_def)
    ultimately show ?thesis using False by simp
  qed
  moreover have "\<forall>c \<in> set (child_refs (ho_data o')). (?objs(hid \<mapsto> ?obj)) c \<noteq> None"
    if "(?objs(hid \<mapsto> ?obj)) x = Some o'" for x o'
    using that rc by (auto simp: rc_ok_def split: if_splits)
  moreover have "\<forall>x \<in># add_mset hid ext. (?objs(hid \<mapsto> ?obj)) x \<noteq> None"
    using rc by (auto simp: rc_ok_def)
  ultimately show ?thesis unfolding rc_ok_def h' by blast
qed

text \<open>\<open>dec_ref\<close> keeps the shape of the heap, and never frees a module handle.\<close>

lemma dec_ref_loop_objects_ok: "objects_ok n objs \<Longrightarrow> objects_ok n (dec_ref_loop pending objs)"
proof (induction pending objs rule: dec_ref_loop.induct)
  case (1 objs)
  then show ?case by simp
next
  case (2 hid pending objs)
  show ?case
  proof (cases "objs hid")
    case None
    with 2 show ?thesis by simp
  next
    case (Some obj)
    let ?obj = "obj\<lparr>ho_ref_count := saturating_dec (ho_ref_count obj)\<rparr>"
    have "objects_ok n (objs(hid \<mapsto> ?obj))" by (rule objects_ok_update [OF 2(4) Some]) simp
    moreover have "objects_ok n (objs(hid := None))" by (rule objects_ok_remove [OF 2(4)])
    ultimately show ?thesis
      using "2.IH"(2,3) [OF Some refl] Some by (simp add: Let_def fun_upd_def)
  qed
qed

lemma dec_ref_heap_ok: "heap_ok h \<Longrightarrow> heap_ok (dec_ref hid h)"
  using dec_ref_loop_objects_ok [of "hp_next_id h" "hp_objects h" "[hid]"]
  by (simp add: heap_ok_def dec_ref_def del: dec_ref_loop.simps)

lemma inc_ref_heap_ok: "heap_ok h \<Longrightarrow> heap_ok (inc_ref hid h)"
  by (auto simp: heap_ok_def inc_ref_def objects_ok_def split: option.splits)

lemma dec_ref_loop_data:
  "dec_ref_loop pending objs hid = Some obj' \<Longrightarrow>
    \<exists>obj. objs hid = Some obj \<and> ho_data obj' = ho_data obj \<and> ho_trace obj' = ho_trace obj \<and>
      ho_type_id obj' = ho_type_id obj"
proof (induction pending objs rule: dec_ref_loop.induct)
  case (1 objs)
  then show ?case by simp
next
  case (2 x pending objs)
  show ?case
  proof (cases "objs x")
    case None
    with 2 show ?thesis by simp
  next
    case (Some obj)
    show ?thesis
    proof (cases "saturating_dec (ho_ref_count obj) = 0 \<and> \<not> is_permanent (ho_data obj)")
      case True
      with "2.IH"(2) [OF Some refl True] "2.prems" Some show ?thesis
        by (auto simp: fun_upd_def split: if_splits)
    next
      case False
      with "2.IH"(3) [OF Some refl False] "2.prems" Some show ?thesis
        by (auto simp: Let_def fun_upd_def split: if_splits)
    qed
  qed
qed

lemma dec_ref_loop_permanent:
  "objs hid = Some obj \<Longrightarrow> is_permanent (ho_data obj) \<Longrightarrow> dec_ref_loop pending objs hid \<noteq> None"
proof (induction pending objs arbitrary: obj rule: dec_ref_loop.induct)
  case (1 objs)
  then show ?case by simp
next
  case (2 x pending objs)
  show ?case
  proof (cases "objs x")
    case None
    with 2 show ?thesis by simp
  next
    case (Some obj')
    show ?thesis
    proof (cases "saturating_dec (ho_ref_count obj') = 0 \<and> \<not> is_permanent (ho_data obj')")
      case True
      with Some "2.prems" have "x \<noteq> hid" by auto
      with True "2.IH"(2) [OF Some refl True, of obj] "2.prems" Some show ?thesis
        by (simp add: fun_upd_def)
    next
      case False
      let ?obj' = "obj'\<lparr>ho_ref_count := saturating_dec (ho_ref_count obj')\<rparr>"
      have "(objs(x \<mapsto> ?obj')) hid = Some (if x = hid then ?obj' else obj)"
        "is_permanent (ho_data (if x = hid then ?obj' else obj))"
        using Some "2.prems" by auto
      from "2.IH"(3) [OF Some refl False this] False Some show ?thesis
        by (auto simp del: fun_upd_apply simp: Let_def)
    qed
  qed
qed

section \<open>Copy on write\<close>

text \<open>The string a write goes to is never shared, and everyone else keeps the old contents.\<close>

lemma dec_ref_shared:
  assumes "hp_objects h hid = Some obj" and "hid \<noteq> NIL" and "1 < ho_ref_count obj"
  shows "dec_ref hid h = h\<lparr>hp_objects := (hp_objects h)(hid \<mapsto>
    obj\<lparr>ho_ref_count := ho_ref_count obj - 1\<rparr>)\<rparr>"
proof -
  have "ho_ref_count obj \<noteq> 0" "ho_ref_count obj - 1 \<noteq> 0" using assms(3) by auto
  then show ?thesis
    using assms(1,2) by (simp add: dec_ref_def saturating_dec_def Let_def)
qed

lemma cow_string_cases:
  assumes "cow_string hid h = (Some (new_id, s), h')"
  obtains (own) obj where "hp_objects h hid = Some obj" "hid \<noteq> NIL" "ho_data obj = HD_Str s"
      "ho_ref_count obj \<le> 1" "new_id = hid" "h' = h"
  | (copied) obj h1 where "hp_objects h hid = Some obj" "hid \<noteq> NIL" "ho_data obj = HD_Str s"
      "1 < ho_ref_count obj" "h1 = dec_ref hid h"
      "heap_alloc (ho_type_id obj) (HD_Str s) h1 = (new_id, h')"
  using assms
  by (auto simp: cow_string_def Let_def split: if_splits option.splits heap_data.splits prod.splits)

lemma cow_string_unshared:
  assumes ok: "heap_ok h" and cow: "cow_string hid h = (Some (new_id, s), h')"
  shows "get_string h hid = Some s" and "get_string h' new_id = Some s"
    and "\<exists>obj. hp_objects h' new_id = Some obj \<and> ho_ref_count obj \<le> 1"
    and "new_id \<noteq> hid \<Longrightarrow> get_string h' hid = Some s \<and> hp_objects h new_id = None"
proof -
  from cow have "get_string h hid = Some s \<and> get_string h' new_id = Some s \<and>
    (\<exists>obj. hp_objects h' new_id = Some obj \<and> ho_ref_count obj \<le> 1) \<and>
    (new_id \<noteq> hid \<longrightarrow> get_string h' hid = Some s \<and> hp_objects h new_id = None)"
  proof (cases rule: cow_string_cases)
    case (own obj)
    then show ?thesis by (simp add: get_string_def heap_get_def)
  next
    case (copied obj h1)
    note h1 = dec_ref_shared [OF copied(1,2,4)]
    have new: "new_id = hp_next_id h" "hp_objects h' = (hp_objects h1)(new_id \<mapsto>
        \<lparr>ho_ref_count = 1, ho_type_id = ho_type_id obj, ho_trace = None, ho_data = HD_Str s\<rparr>)"
      using copied(5,6) h1 by (auto simp: heap_alloc_def alloc_typed_def Let_def)
    have fresh: "hp_objects h new_id = None" using heap_ok_fresh [OF ok] new(1) by simp
    then have "new_id \<noteq> hid" using copied(1) by auto
    moreover have "new_id \<noteq> NIL"
      using ok new(1) by (auto simp: heap_ok_def NIL_def HEAP_ID_BASE_def)
    ultimately show ?thesis
      using copied(1-3,5) new(2) h1 fresh by (simp add: get_string_def heap_get_def)
  qed
  then show "get_string h hid = Some s" and "get_string h' new_id = Some s"
    and "\<exists>obj. hp_objects h' new_id = Some obj \<and> ho_ref_count obj \<le> 1"
    and "new_id \<noteq> hid \<Longrightarrow> get_string h' hid = Some s \<and> hp_objects h new_id = None"
    by blast+
qed

end
