(* ===== verification/Frame.thy ===== *)
theory Frame
  imports Address
begin

text \<open>
  \<open>crates/ricevm-execute/src/frame.rs\<close>: the stack of activation frames in one byte buffer. The
  instruction \<open>frame\<close> reserves a frame with \<open>alloc_pending\<close>, \<open>call\<close> makes it current with
  \<open>activate_pending\<close>, \<open>ret\<close> removes it with \<open>pop\<close>. The invariant \<open>frames_ok\<close> keeps the stack
  inside the range of frame addresses and the current frame inside the stack; the main lemma
  shows that a call followed by a return gives the caller's frame back unchanged.
\<close>

section \<open>The stack\<close>

definition FRAME_HEADER_SIZE :: usize where
  "FRAME_HEADER_SIZE = 16"

definition MAX_FRAME_STACK_SIZE :: usize where
  "MAX_FRAME_STACK_SIZE = MP_BASE"

record frame_stack =
  fs_data :: "u8 list"
  fs_current_base :: usize
  fs_current_size :: usize

definition frame_stack_new :: frame_stack where
  "frame_stack_new = \<lparr>fs_data = [], fs_current_base = 0, fs_current_size = 0\<rparr>"

definition push_entry :: "usize \<Rightarrow> i32 \<Rightarrow> frame_stack \<Rightarrow> frame_stack" where
  "push_entry data_area_size sentinel_pc fs =
    (let total_size = (FRAME_HEADER_SIZE + data_area_size) mod usize_limit;
         data = resize total_size 0 (fs_data fs);
         data = mem_write_word data 0 sentinel_pc;
         data = mem_write_word data 4 0 in
     \<lparr>fs_data = data, fs_current_base = 0, fs_current_size = total_size\<rparr>)"

definition current_data_offset :: "frame_stack \<Rightarrow> usize" where
  "current_data_offset fs = fs_current_base fs + FRAME_HEADER_SIZE"

definition alloc_pending :: "usize \<Rightarrow> (frame_stack, exec_error, usize) sm" where
  "alloc_pending data_area_size = (\<lambda>fs.
    let new_base = max (length (fs_data fs)) (saturating_add (fs_current_base fs) (fs_current_size fs));
        overflow = Inl (ExecOther (rstr ''stack overflow: frame of '' @ show_nat data_area_size @
          rstr '' bytes'')) in
    case checked_add FRAME_HEADER_SIZE data_area_size of
      None \<Rightarrow> (overflow, fs)
    | Some total_size \<Rightarrow>
        (case checked_add new_base total_size of
           None \<Rightarrow> (overflow, fs)
         | Some new_end \<Rightarrow>
             if new_end \<le> MAX_FRAME_STACK_SIZE
             then (Inr (new_base + FRAME_HEADER_SIZE), fs\<lparr>fs_data := resize new_end 0 (fs_data fs)\<rparr>)
             else (overflow, fs)))"

definition activate_pending :: "usize \<Rightarrow> i32 \<Rightarrow> (frame_stack, exec_error, unit) sm" where
  "activate_pending data_area_offset saved_pc = (\<lambda>fs.
    if data_area_offset < FRAME_HEADER_SIZE \<or> data_area_offset > length (fs_data fs)
    then (Inl (ExecOther (rstr ''invalid frame pointer: '' @ show_nat data_area_offset)), fs)
    else
      let new_base = data_area_offset - FRAME_HEADER_SIZE;
          new_size = length (fs_data fs) - new_base;
          data = mem_write_word (fs_data fs) new_base saved_pc;
          data = mem_write_word data (new_base + 4) (of_nat (fs_current_base fs)) in
      (Inr (), \<lparr>fs_data = data, fs_current_base = new_base, fs_current_size = new_size\<rparr>))"

definition frame_pop :: "(frame_stack, exec_error, i32) sm" where
  "frame_pop = (\<lambda>fs.
    if fs_data fs = [] then (Inl (ExecOther (rstr ''stack underflow'')), fs)
    else
      let prev_pc = mem_read_word (fs_data fs) (fs_current_base fs);
          prev_base = i32_as_usize (mem_read_word (fs_data fs) (fs_current_base fs + 4));
          data = take (fs_current_base fs) (fs_data fs) in
      (Inr prev_pc,
       if data = [] then \<lparr>fs_data = data, fs_current_base = 0, fs_current_size = 0\<rparr>
       else if fs_current_base fs \<ge> prev_base
       then \<lparr>fs_data = data, fs_current_base = prev_base,
              fs_current_size = fs_current_base fs - prev_base\<rparr>
       else \<lparr>fs_data = data, fs_current_base = 0, fs_current_size = length data\<rparr>))"

section \<open>The invariant\<close>

text \<open>
  The stack stays inside the frame address range, and the current frame starts inside it. The
  current frame's recorded size never reaches past the end of the buffer.
\<close>

definition frames_ok :: "frame_stack \<Rightarrow> bool" where
  "frames_ok fs \<longleftrightarrow> length (fs_data fs) \<le> MAX_FRAME_STACK_SIZE \<and>
    fs_current_base fs + fs_current_size fs \<le> length (fs_data fs)"

lemma frames_ok_bound: "frames_ok fs \<Longrightarrow> length (fs_data fs) < usize_limit"
  by (simp add: frames_ok_def MAX_FRAME_STACK_SIZE_def MP_BASE_def usize_limit_def)

lemma frames_ok_new: "frames_ok frame_stack_new"
  by (simp add: frames_ok_def frame_stack_new_def)

lemma frames_ok_push_entry:
  "FRAME_HEADER_SIZE + n \<le> MAX_FRAME_STACK_SIZE \<Longrightarrow> frames_ok (push_entry n pc fs)"
  by (simp add: frames_ok_def push_entry_def Let_def MAX_FRAME_STACK_SIZE_def MP_BASE_def usize_limit_def)

lemma frames_ok_alloc:
  assumes "frames_ok fs" and "alloc_pending n fs = (r, fs')"
  shows "frames_ok fs'"
  using assms by (auto simp: frames_ok_def alloc_pending_def Let_def checked_arith
      split: option.splits if_splits)

lemma frames_ok_activate:
  assumes "frames_ok fs" and "activate_pending off pc fs = (r, fs')"
  shows "frames_ok fs'"
  using assms by (auto simp: frames_ok_def activate_pending_def Let_def split: if_splits)

lemma frames_ok_pop:
  assumes "frames_ok fs" and "frame_pop fs = (r, fs')"
  shows "frames_ok fs'"
  using assms by (auto simp: frames_ok_def frame_pop_def Let_def split: if_splits)

section \<open>Reserving, calling and returning\<close>

lemma pending_base:
  "frames_ok fs \<Longrightarrow>
    max (length (fs_data fs)) (saturating_add (fs_current_base fs) (fs_current_size fs)) =
    length (fs_data fs)"
  unfolding frames_ok_def saturating_add_def by (intro max_absorb1 min.coboundedI1) simp

lemma alloc_pending_Inr:
  assumes ok: "frames_ok fs" and alloc: "alloc_pending n fs = (Inr off, fs')"
  shows "off = length (fs_data fs) + FRAME_HEADER_SIZE"
    and "fs' = fs\<lparr>fs_data := fs_data fs @ replicate (FRAME_HEADER_SIZE + n) 0\<rparr>"
    and "off + n \<le> MAX_FRAME_STACK_SIZE"
proof -
  note alloc = alloc [unfolded alloc_pending_def Let_def pending_base [OF ok]]
  then show "off = length (fs_data fs) + FRAME_HEADER_SIZE"
    by (auto split: option.splits if_splits)
  from alloc show "off + n \<le> MAX_FRAME_STACK_SIZE"
    by (auto split: option.splits if_splits)
  from alloc show "fs' = fs\<lparr>fs_data := fs_data fs @ replicate (FRAME_HEADER_SIZE + n) 0\<rparr>"
    by (auto simp: resize_grow split: option.splits if_splits)
qed

lemma alloc_pending_total:
  assumes "frames_ok fs" and "length (fs_data fs) + FRAME_HEADER_SIZE + n \<le> MAX_FRAME_STACK_SIZE"
  shows "\<exists>off fs'. alloc_pending n fs = (Inr off, fs')"
proof -
  have "MAX_FRAME_STACK_SIZE < usize_limit"
    by (simp add: MAX_FRAME_STACK_SIZE_def MP_BASE_def usize_limit_def)
  with assms(2) show ?thesis
    unfolding alloc_pending_def Let_def pending_base [OF assms(1)] by (simp add: checked_add_def)
qed

text \<open>The current frame's header as \<open>activate_pending\<close> writes it.\<close>

definition header_is :: "frame_stack \<Rightarrow> i32 \<Rightarrow> usize \<Rightarrow> bool" where
  "header_is fs pc base \<longleftrightarrow>
    fs_current_base fs + FRAME_HEADER_SIZE \<le> length (fs_data fs) \<and>
    mem_read_word (fs_data fs) (fs_current_base fs) = pc \<and>
    i32_as_usize (mem_read_word (fs_data fs) (fs_current_base fs + 4)) = base"

lemma activate_pending_Inr:
  assumes ok: "frames_ok fs" and act: "activate_pending off pc fs = (Inr (), fs')"
  shows "FRAME_HEADER_SIZE \<le> off" "off \<le> length (fs_data fs)"
    and "current_data_offset fs' = off"
    and "header_is fs' pc (fs_current_base fs)"
    and "length (fs_data fs') = length (fs_data fs)"
    and "take (off - FRAME_HEADER_SIZE) (fs_data fs') = take (off - FRAME_HEADER_SIZE) (fs_data fs)"
    and "drop off (fs_data fs') = drop off (fs_data fs)"
proof -
  from act show off: "FRAME_HEADER_SIZE \<le> off" "off \<le> length (fs_data fs)"
    by (auto simp: activate_pending_def split: if_splits)
  let ?nb = "off - FRAME_HEADER_SIZE" and ?base = "of_nat (fs_current_base fs) :: i32"
  let ?data = "mem_write_word (mem_write_word (fs_data fs) ?nb pc) (?nb + 4) ?base"
  have fs': "fs' = \<lparr>fs_data = ?data, fs_current_base = ?nb,
      fs_current_size = length (fs_data fs) - ?nb\<rparr>"
    using act off by (simp add: activate_pending_def Let_def)
  from off show "current_data_offset fs' = off" by (simp add: fs' current_data_offset_def)
  show "length (fs_data fs') = length (fs_data fs)" by (simp add: fs')
  have room: "?nb + 16 \<le> length (fs_data fs)" using off by (simp add: FRAME_HEADER_SIZE_def)
  then have fits: "in_buf 4 (length (fs_data fs)) ?nb" "in_buf 4 (length (fs_data fs)) (?nb + 4)"
    using frames_ok_bound [OF ok] by (simp_all add: in_buf_iff)
  have "fs_current_base fs \<le> 8388608"
    using ok by (simp add: frames_ok_def MAX_FRAME_STACK_SIZE_def MP_BASE_def)
  then have small: "unat ?base = fs_current_base fs" "\<not> bit ?base 31"
    by (simp_all add: unat_of_nat_u32 bit31_unat)
  have "i32_as_usize ?base = fs_current_base fs"
    using i32_as_usize_nonneg [OF small(2)] small(1) by simp
  moreover have "mem_read_word ?data ?nb = pc"
    using fits by (simp add: word_slot.get_put_other word_slot.get_put_same)
  moreover have "mem_read_word ?data (?nb + 4) = ?base"
    using fits by (simp add: word_slot.get_put_same)
  ultimately show "header_is fs' pc (fs_current_base fs)"
    using room by (simp add: header_is_def fs' FRAME_HEADER_SIZE_def)
  have "subrange 0 ?nb ?data = subrange 0 ?nb (fs_data fs)"
    using room by (simp add: word_slot.put_frame)
  then show "take ?nb (fs_data fs') = take ?nb (fs_data fs)" by (simp add: fs' subrange_def)
  have "subrange off (length (fs_data fs) - off) ?data =
      subrange off (length (fs_data fs) - off) (fs_data fs)"
    using off by (simp add: word_slot.put_frame FRAME_HEADER_SIZE_def)
  then show "drop off (fs_data fs') = drop off (fs_data fs)" by (simp add: fs' subrange_def)
qed

lemma frame_pop_header:
  assumes "header_is fs pc base"
  shows "frame_pop fs = (Inr pc,
    (let data = take (fs_current_base fs) (fs_data fs) in
     if data = [] then \<lparr>fs_data = data, fs_current_base = 0, fs_current_size = 0\<rparr>
     else if fs_current_base fs \<ge> base
     then \<lparr>fs_data = data, fs_current_base = base, fs_current_size = fs_current_base fs - base\<rparr>
     else \<lparr>fs_data = data, fs_current_base = 0, fs_current_size = length data\<rparr>))"
proof -
  have "fs_data fs \<noteq> []" using assms by (auto simp: header_is_def FRAME_HEADER_SIZE_def)
  with assms show ?thesis by (simp add: frame_pop_def Let_def header_is_def)
qed

section \<open>Balanced runs\<close>

text \<open>
  What a function may do to the stack between being called and returning: write into its own
  frame, reserve frames, and make balanced calls of frames above its own header.
\<close>

inductive frame_run :: "frame_stack \<Rightarrow> frame_stack \<Rightarrow> bool" where
  run_done: "frame_run fs fs"
| run_write: "length data = length (fs_data fs) \<Longrightarrow>
    take (current_data_offset fs) data = take (current_data_offset fs) (fs_data fs) \<Longrightarrow>
    frame_run (fs\<lparr>fs_data := data\<rparr>) fs' \<Longrightarrow> frame_run fs fs'"
| run_alloc: "alloc_pending n fs = (r, fs1) \<Longrightarrow> frame_run fs1 fs' \<Longrightarrow> frame_run fs fs'"
| run_call: "current_data_offset fs + FRAME_HEADER_SIZE \<le> off \<Longrightarrow>
    activate_pending off pc fs = (Inr (), fs1) \<Longrightarrow> frame_run fs1 fs2 \<Longrightarrow>
    frame_pop fs2 = (Inr pc', fs3) \<Longrightarrow> frame_run fs3 fs' \<Longrightarrow> frame_run fs fs'"

definition keeps_below :: "frame_stack \<Rightarrow> frame_stack \<Rightarrow> bool" where
  "keeps_below fs fs' \<longleftrightarrow> frames_ok fs' \<and> fs_current_base fs' = fs_current_base fs \<and>
    current_data_offset fs \<le> length (fs_data fs') \<and>
    take (current_data_offset fs) (fs_data fs') = take (current_data_offset fs) (fs_data fs)"

lemma keeps_below_trans:
  "keeps_below fs fs1 \<Longrightarrow> keeps_below fs1 fs2 \<Longrightarrow> keeps_below fs fs2"
  by (auto simp: keeps_below_def current_data_offset_def)

text \<open>A call that kept its own header returns to its caller's frame.\<close>

lemma call_return:
  assumes ok: "frames_ok fs" and room: "current_data_offset fs + FRAME_HEADER_SIZE \<le> off"
    and act: "activate_pending off pc fs = (Inr (), fs1)" and run: "keeps_below fs1 fs2"
    and pop: "frame_pop fs2 = (r, fs3)"
  shows "r = Inr pc" and "keeps_below fs fs3"
    and "fs_data fs3 = take (off - FRAME_HEADER_SIZE) (fs_data fs)"
proof -
  let ?nb = "off - FRAME_HEADER_SIZE"
  note act' = activate_pending_Inr [OF ok act]
  have nb: "fs_current_base fs1 = ?nb" using act'(3) by (simp add: current_data_offset_def)
  have base2: "fs_current_base fs2 = ?nb" using run nb by (simp add: keeps_below_def)
  have same: "take off (fs_data fs2) = take off (fs_data fs1)" "off \<le> length (fs_data fs2)"
    using run act'(3) by (simp_all add: keeps_below_def)
  have "length (fs_data fs1) < usize_limit" "length (fs_data fs2) < usize_limit"
    using run frames_ok_bound frames_ok_activate [OF ok act] by (simp_all add: keeps_below_def)
  then have fits: "in_buf 4 (length d) q" if "d = fs_data fs1 \<or> d = fs_data fs2" "q + 4 \<le> off" for d q
    using that same(2) act'(2,5) by (auto simp: in_buf_iff)
  have read: "mem_read_word (fs_data fs2) q = mem_read_word (fs_data fs1) q"
    if q: "q + 4 \<le> off" for q
  proof -
    have "4 \<le> off - q" using q by simp
    then have "subrange q 4 (fs_data fs2) = subrange q 4 (fs_data fs1)"
      using arg_cong [OF same(1), of "subrange q 4"] by (simp add: subrange_def drop_take)
    with fits q show ?thesis by (simp add: mem_read_word_def)
  qed
  have header: "header_is fs2 pc (fs_current_base fs)"
    using act'(1,4) same(2) read [of ?nb] read [of "?nb + 4"]
    by (simp add: header_is_def base2 nb FRAME_HEADER_SIZE_def)
  have below: "take ?nb (fs_data fs2) = take ?nb (fs_data fs)"
    using arg_cong [OF same(1), of "take ?nb"] act'(6) by (simp add: min_def split: if_splits)
  have le: "fs_current_base fs + FRAME_HEADER_SIZE \<le> ?nb" "?nb \<le> length (fs_data fs)"
    using room act'(2) by (simp_all add: current_data_offset_def)
  have ne: "take ?nb (fs_data fs) \<noteq> []" using le by (auto simp: FRAME_HEADER_SIZE_def)
  have res: "(r, fs3) = (Inr pc, \<lparr>fs_data = take ?nb (fs_data fs),
      fs_current_base = fs_current_base fs, fs_current_size = ?nb - fs_current_base fs\<rparr>)"
    using frame_pop_header [OF header] ne le pop by (simp add: Let_def base2 below)
  then show "r = Inr pc" "fs_data fs3 = take ?nb (fs_data fs)" by simp_all
  have "frames_ok fs2" using run by (simp add: keeps_below_def)
  from frames_ok_pop [OF this pop] have "frames_ok fs3" .
  with res le show "keeps_below fs fs3"
    by (simp add: keeps_below_def current_data_offset_def min_def)
qed

text \<open>Whatever a balanced run does, everything below the running frame's data stays as it was.\<close>

lemma frame_run_keeps_below:
  "frame_run fs fs' \<Longrightarrow> frames_ok fs \<Longrightarrow> current_data_offset fs \<le> length (fs_data fs) \<Longrightarrow>
    keeps_below fs fs'"
proof (induction rule: frame_run.induct)
  case (run_done fs)
  then show ?case by (simp add: keeps_below_def)
next
  case (run_write data fs fs')
  then have "keeps_below fs (fs\<lparr>fs_data := data\<rparr>)"
    by (simp add: keeps_below_def frames_ok_def)
  moreover have "keeps_below (fs\<lparr>fs_data := data\<rparr>) fs'"
    using run_write by (simp add: frames_ok_def current_data_offset_def)
  ultimately show ?case by (rule keeps_below_trans)
next
  case (run_alloc n fs r fs1 fs')
  have "keeps_below fs fs1"
  proof (cases r)
    case (Inr off)
    with run_alloc.hyps(1) have "alloc_pending n fs = (Inr off, fs1)" by simp
    note alloc_pending_Inr(2) [OF run_alloc.prems(1) this]
    with run_alloc.prems frames_ok_alloc [OF run_alloc.prems(1) run_alloc.hyps(1)]
    show ?thesis by (simp add: keeps_below_def)
  next
    case (Inl e)
    with run_alloc.hyps(1) have "fs1 = fs"
      by (auto simp: alloc_pending_def Let_def split: option.splits if_splits)
    with run_alloc.prems show ?thesis by (simp add: keeps_below_def)
  qed
  moreover from this have "keeps_below fs1 fs'"
    using run_alloc.IH by (simp add: keeps_below_def current_data_offset_def)
  ultimately show ?case by (rule keeps_below_trans)
next
  case (run_call fs off pc fs1 fs2 pc' fs3 fs')
  note act = activate_pending_Inr [OF run_call.prems(1) run_call.hyps(2)]
  have "keeps_below fs1 fs2"
    using run_call.IH(1) frames_ok_activate [OF run_call.prems(1) run_call.hyps(2)] act(2,3,5)
    by simp
  from call_return(2) [OF run_call.prems(1) run_call.hyps(1,2) this run_call.hyps(4)]
  have "keeps_below fs fs3" .
  moreover from this have "keeps_below fs3 fs'"
    using run_call.IH(2) by (simp add: keeps_below_def current_data_offset_def)
  ultimately show ?case by (rule keeps_below_trans)
qed

end
