(* ===== verification/VmTypes.thy ===== *)
theory VmTypes
  imports Heap Frame
begin

text \<open>
  The types of \<open>crates/ricevm-execute/src/vm.rs\<close>: a module loaded at run time, a suspended thread,
  and the state of the machine. The fields that only the host-facing parts of the program use (the
  file table, the registry of built-in modules, the tracing flag and the root path) are left out;
  every modelled operation leaves them alone.
\<close>

record loaded_module =
  lm_module :: dis_module
  lm_mp :: "u8 list"

record suspended_thread =
  st_frames :: frame_stack
  st_mp :: "u8 list"
  st_pc :: usize
  st_pid :: i32
  st_heap_refs :: heap_refs
  st_last_error :: rstring
  st_current_loaded_module :: "usize option"
  st_caller_mp_stack :: "(usize \<times> u8 list) list"
  st_blocked_on :: "heap_id option"

record vm_state =
  vm_module :: dis_module
  vm_mp :: "u8 list"
  vm_frames :: frame_stack
  vm_heap :: heap
  vm_loaded_modules :: "loaded_module list"
  vm_pc :: usize
  vm_next_pc :: usize
  vm_halted :: bool
  vm_gc_enabled :: bool
  vm_gc_counter :: usize
  vm_current_loaded_module :: "usize option"
  vm_src :: addr_target
  vm_mid :: addr_target
  vm_dst :: addr_target
  vm_imm_src :: i32
  vm_imm_mid :: i32
  vm_imm_dst :: i32
  vm_last_error :: rstring
  vm_caller_mp_stack :: "(usize \<times> u8 list) list"
  vm_heap_refs :: heap_refs
  vm_blocked_channel :: "heap_id option"
  vm_unwind_floor :: usize
  vm_thread_queue :: "suspended_thread list"
  vm_current_pid :: i32
  vm_next_pid :: i32
  vm_wait_records :: "rstring list"

type_synonym 'a vm = "(vm_state, exec_error, 'a) sm"

end
