(* ===== verification/Gc.thy ===== *)
theory Gc
  imports VmTypes
begin

text \<open>
  \<open>crates/ricevm-execute/src/gc.rs\<close>: the mark-and-sweep collector. Roots are every word of the
  frame stacks and module data areas that names a live object, and the table of element
  references; an object with a pointer map is scanned by it, any other buffer word by word. The
  main lemma gives the exact result: what is kept is what is reachable, and the module handles.
\<close>

section \<open>Scanning\<close>

function collect_ids_from :: "heap \<Rightarrow> u8 list \<Rightarrow> usize \<Rightarrow> heap_id list" where
  "collect_ids_from h buf offset =
    (if offset + 4 \<le> length buf then
       let w = mem_read_word buf offset; rest = collect_ids_from h buf (offset + 4) in
       if w \<noteq> NIL \<and> heap_contains h w then w # rest else rest
     else [])"
  by pat_completeness auto
termination by (relation "measure (\<lambda>(h, buf, offset). length buf - offset)") auto

declare collect_ids_from.simps [simp del]

definition collect_ids :: "heap \<Rightarrow> u8 list \<Rightarrow> heap_id list" where
  "collect_ids h buf = collect_ids_from h buf 0"

definition collect_mapped_ids :: "heap \<Rightarrow> u8 list \<Rightarrow> trace_map \<Rightarrow> heap_id list" where
  "collect_mapped_ids h buf tm =
    filter (\<lambda>w. w \<noteq> NIL \<and> heap_contains h w)
      (map (mem_read_word buf) (pointer_offsets tm (length buf)))"

text \<open>The identifiers the \<open>match\<close> of \<open>mark_all\<close> pushes for an object, in order.\<close>

definition scan_data :: "heap \<Rightarrow> trace_map option \<Rightarrow> u8 list \<Rightarrow> heap_id list" where
  "scan_data h trace data =
    (case trace of Some tm \<Rightarrow> collect_mapped_ids h data tm | None \<Rightarrow> collect_ids h data)"

definition object_refs :: "heap \<Rightarrow> heap_object \<Rightarrow> heap_id list" where
  "object_refs h obj =
    (case ho_data obj of
       HD_Record data \<Rightarrow> scan_data h (ho_trace obj) data
     | HD_Array _ _ data _ \<Rightarrow> scan_data h (ho_trace obj) data
     | HD_Adt _ data \<Rightarrow> scan_data h (ho_trace obj) data
     | HD_List head tail \<Rightarrow> collect_ids h head @ [tail]
     | HD_ArraySlice parent_id _ _ _ _ \<Rightarrow> [parent_id]
     | HD_Channel _ pending \<Rightarrow> (case pending of Some p \<Rightarrow> collect_ids h p | None \<Rightarrow> [])
     | HD_Str _ \<Rightarrow> []
     | HD_ModuleRef _ _ \<Rightarrow> []
     | HD_MainModule _ \<Rightarrow> []
     | HD_LoadedModule _ _ \<Rightarrow> [])"

section \<open>Marking and sweeping\<close>

text \<open>The head of the worklist is the end of the source's vector, which \<open>pop\<close> takes.\<close>

function mark_all :: "heap \<Rightarrow> heap_id list \<Rightarrow> heap_id set \<Rightarrow> heap_id set" where
  "mark_all h [] marked = marked"
| "mark_all h (hid # worklist) marked =
    (if hid = NIL \<or> hid \<in> marked then mark_all h worklist marked
     else case heap_get h hid of
       None \<Rightarrow> mark_all h worklist (insert hid marked)
     | Some obj \<Rightarrow> mark_all h (rev (object_refs h obj) @ worklist) (insert hid marked))"
  by pat_completeness auto
termination
proof (relation "measures [\<lambda>(h, worklist, marked). card (- marked),
    \<lambda>(h, worklist, marked). length worklist]", goal_cases)
  case 1
  show ?case by simp
next
  case (2 h hid worklist marked)
  then show ?case by simp
next
  case (3 h hid worklist marked)
  then have "card (- insert hid marked) < card (- marked)"
    by (intro psubset_card_mono) auto
  then show ?case by simp
next
  case (4 h hid worklist marked obj)
  then have "card (- insert hid marked) < card (- marked)"
    by (intro psubset_card_mono) auto
  then show ?case by simp
qed

definition scan_buffer :: "heap \<Rightarrow> u8 list \<Rightarrow> heap_id set \<Rightarrow> heap_id set" where
  "scan_buffer h buf marked = mark_all h (rev (collect_ids h buf)) marked"

definition scan_heap_refs :: "heap \<Rightarrow> heap_refs \<Rightarrow> heap_id set \<Rightarrow> heap_id set" where
  "scan_heap_refs h refs marked = mark_all h (rev (map fst refs)) marked"

definition scan_thread :: "heap \<Rightarrow> suspended_thread \<Rightarrow> heap_id set \<Rightarrow> heap_id set" where
  "scan_thread h thread marked =
    (let marked = scan_buffer h (fs_data (st_frames thread)) marked;
         marked = scan_buffer h (st_mp thread) marked;
         marked = fold (\<lambda>(_, caller_mp). scan_buffer h caller_mp) (st_caller_mp_stack thread) marked in
     scan_heap_refs h (st_heap_refs thread) marked)"

definition mark_phase ::
  "heap \<Rightarrow> frame_stack \<Rightarrow> u8 list \<Rightarrow> loaded_module list \<Rightarrow> suspended_thread list \<Rightarrow>
    (usize \<times> u8 list) list \<Rightarrow> heap_refs \<Rightarrow> heap_id set" where
  "mark_phase h frames mp loaded threads caller_mp_stack refs =
    (let marked = {};
         marked = scan_buffer h (fs_data frames) marked;
         marked = scan_buffer h mp marked;
         marked = fold (\<lambda>(_, caller_mp). scan_buffer h caller_mp) caller_mp_stack marked;
         marked = fold (\<lambda>lm. scan_buffer h (lm_mp lm)) loaded marked;
         marked = scan_heap_refs h refs marked in
     fold (scan_thread h) threads marked)"

definition collect ::
  "heap \<Rightarrow> frame_stack \<Rightarrow> u8 list \<Rightarrow> loaded_module list \<Rightarrow> suspended_thread list \<Rightarrow>
    (usize \<times> u8 list) list \<Rightarrow> heap_refs \<Rightarrow> heap" where
  "collect h frames mp loaded threads caller_mp_stack refs =
    (if hp_objects h = Map.empty then h
     else sweep (mark_phase h frames mp loaded threads caller_mp_stack refs) h)"

section \<open>Reachability\<close>

inductive reachable :: "heap \<Rightarrow> heap_id set \<Rightarrow> heap_id \<Rightarrow> bool" for h roots where
  reach_root: "hid \<in> roots \<Longrightarrow> hid \<noteq> NIL \<Longrightarrow> reachable h roots hid"
| reach_step: "reachable h roots hid \<Longrightarrow> heap_get h hid = Some obj \<Longrightarrow>
    c \<in> set (object_refs h obj) \<Longrightarrow> c \<noteq> NIL \<Longrightarrow> reachable h roots c"

definition succs :: "heap \<Rightarrow> heap_id \<Rightarrow> heap_id set" where
  "succs h hid = (case heap_get h hid of None \<Rightarrow> {} | Some obj \<Rightarrow> set (object_refs h obj) - {NIL})"

definition closed_upto :: "heap \<Rightarrow> heap_id set \<Rightarrow> heap_id set \<Rightarrow> bool" where
  "closed_upto h wl M \<longleftrightarrow> (\<forall>x \<in> M. succs h x \<subseteq> M \<union> wl)"

lemma reachable_mono: "reachable h A x \<Longrightarrow> A \<subseteq> B \<Longrightarrow> reachable h B x"
  by (induction rule: reachable.induct) (auto intro: reachable.intros)

lemma reachable_closed:
  assumes "reachable h roots x" and "roots - {NIL} \<subseteq> R" and "closed_upto h {} R"
  shows "x \<in> R"
  using assms
proof (induction rule: reachable.induct)
  case (reach_root hid)
  then show ?case by auto
next
  case (reach_step hid obj c)
  then have "hid \<in> R" "c \<in> succs h hid" by (auto simp: succs_def)
  with reach_step.prems(2) show ?case by (auto simp: closed_upto_def)
qed

lemma reachable_Un:
  "reachable h (A \<union> B) x \<longleftrightarrow> reachable h A x \<or> reachable h B x"
proof
  show "reachable h A x \<or> reachable h B x" if "reachable h (A \<union> B) x"
    using that by (induction rule: reachable.induct) (auto intro: reachable.intros)
qed (auto intro: reachable_mono)

text \<open>What marking adds: the worklist and all it reaches, nothing else.\<close>

lemma mark_all_sound:
  "x \<in> mark_all h wl M \<Longrightarrow> x \<in> M \<or> reachable h (set wl) x"
proof (induction h wl M rule: mark_all.induct)
  case (1 h marked)
  then show ?case by simp
next
  case (2 h hid worklist marked)
  have mono: "reachable h (insert hid (set worklist)) y" if "reachable h (set worklist) y" for y
    by (rule reachable_mono [OF that]) auto
  consider "hid = NIL \<or> hid \<in> marked" | "hid \<noteq> NIL" "hid \<notin> marked" "heap_get h hid = None"
    | obj where "hid \<noteq> NIL" "hid \<notin> marked" "heap_get h hid = Some obj"
    by fastforce
  then show ?case
  proof cases
    case 1
    with "2.IH"(1) "2.prems" mono [of x] show ?thesis by auto
  next
    case 2
    have "reachable h (insert hid (set worklist)) hid" using 2 by (intro reach_root) auto
    with 2 "2.IH"(2) "2.prems" show ?thesis by (auto intro: mono)
  next
    case (3 obj)
    have root: "reachable h (insert hid (set worklist)) hid" using 3 by (intro reach_root) auto
    have step: "reachable h (insert hid (set worklist)) c" if "c \<in> set (object_refs h obj)" "c \<noteq> NIL" for c
      using reach_step [OF root 3(3)] that by blast
    have "reachable h (insert hid (set worklist)) y" if "reachable h (set (object_refs h obj)) y" for y
      using that
    proof (induction rule: reachable.induct)
      case (reach_root hid)
      then show ?case by (rule step)
    next
      case (reach_step hid obj c)
      from reach_step.IH reach_step.hyps(2-4) show ?case by (rule reachable.reach_step)
    qed
    note this [of x]
    moreover have "x \<in> insert hid marked \<or> reachable h (set (object_refs h obj) \<union> set worklist) x"
      using 3 "2.IH"(3) "2.prems" by simp
    ultimately show ?thesis using root mono [of x] by (auto simp: reachable_Un)
  qed
qed

lemma mark_all_closed:
  "closed_upto h (set wl - {NIL}) M \<Longrightarrow>
    M \<subseteq> mark_all h wl M \<and> set wl - {NIL} \<subseteq> mark_all h wl M \<and> closed_upto h {} (mark_all h wl M)"
proof (induction h wl M rule: mark_all.induct)
  case (1 h marked)
  then show ?case by simp
next
  case (2 h hid worklist marked)
  consider "hid = NIL \<or> hid \<in> marked" | "hid \<noteq> NIL" "hid \<notin> marked" "heap_get h hid = None"
    | obj where "hid \<noteq> NIL" "hid \<notin> marked" "heap_get h hid = Some obj"
    by fastforce
  then show ?case
  proof cases
    case 1
    with "2.prems" have "closed_upto h (set worklist - {NIL}) marked"
      by (fastforce simp: closed_upto_def)
    with 1 "2.IH"(1) show ?thesis by auto
  next
    case 2
    with "2.prems" have "closed_upto h (set worklist - {NIL}) (insert hid marked)"
      by (fastforce simp: closed_upto_def succs_def)
    with 2 "2.IH"(2) show ?thesis by auto
  next
    case (3 obj)
    with "2.prems" have
      "closed_upto h (set (rev (object_refs h obj) @ worklist) - {NIL}) (insert hid marked)"
      by (fastforce simp: closed_upto_def succs_def)
    with 3 "2.IH"(3) show ?thesis by auto
  qed
qed

definition reach_set :: "heap \<Rightarrow> heap_id set \<Rightarrow> heap_id set" where
  "reach_set h roots = {x. reachable h roots x}"

lemma reach_set_Un: "reach_set h (A \<union> B) = reach_set h A \<union> reach_set h B"
  by (auto simp: reach_set_def reachable_Un)

lemma reach_set_closed: "closed_upto h {} (reach_set h A)"
  by (auto simp: closed_upto_def reach_set_def succs_def split: option.splits
      intro: reachable.reach_step)

lemma reach_set_empty [simp]: "reach_set h {} = {}"
proof -
  have "\<not> reachable h {} x" for x
  proof
    assume "reachable h {} x"
    then show False by (induction rule: reachable.induct) auto
  qed
  then show ?thesis by (simp add: reach_set_def)
qed

lemma mark_all_reach:
  "mark_all h wl (reach_set h A) = reach_set h (A \<union> set wl)"
proof -
  have "closed_upto h (set wl - {NIL}) (reach_set h A)"
    using reach_set_closed [of h A] by (auto simp: closed_upto_def)
  note closed = mark_all_closed [OF this]
  have "x \<in> mark_all h wl (reach_set h A)" if "reachable h (set wl) x" for x
    using reachable_closed [OF that] closed by auto
  with closed mark_all_sound [of _ h wl "reach_set h A"] show ?thesis
    by (auto simp: reach_set_Un) (auto simp: reach_set_def)
qed

section \<open>The roots\<close>

definition thread_roots :: "heap \<Rightarrow> suspended_thread \<Rightarrow> heap_id set" where
  "thread_roots h thread =
    set (collect_ids h (fs_data (st_frames thread))) \<union> set (collect_ids h (st_mp thread)) \<union>
    (\<Union>(_, mp) \<in> set (st_caller_mp_stack thread). set (collect_ids h mp)) \<union>
    fst ` set (st_heap_refs thread)"

definition gc_roots ::
  "heap \<Rightarrow> frame_stack \<Rightarrow> u8 list \<Rightarrow> loaded_module list \<Rightarrow> suspended_thread list \<Rightarrow>
    (usize \<times> u8 list) list \<Rightarrow> heap_refs \<Rightarrow> heap_id set" where
  "gc_roots h frames mp loaded threads caller_mp_stack refs =
    set (collect_ids h (fs_data frames)) \<union> set (collect_ids h mp) \<union>
    (\<Union>(_, cmp) \<in> set caller_mp_stack. set (collect_ids h cmp)) \<union>
    (\<Union>lm \<in> set loaded. set (collect_ids h (lm_mp lm))) \<union> fst ` set refs \<union>
    (\<Union>t \<in> set threads. thread_roots h t)"

lemma scan_buffer_reach:
  "scan_buffer h buf (reach_set h A) = reach_set h (A \<union> set (collect_ids h buf))"
  by (simp add: scan_buffer_def mark_all_reach)

lemma scan_refs_reach: "scan_heap_refs h refs (reach_set h A) = reach_set h (A \<union> fst ` set refs)"
  by (simp add: scan_heap_refs_def mark_all_reach)

lemma fold_reach:
  assumes "\<And>x A. f x (reach_set h A) = reach_set h (A \<union> g x)"
  shows "fold f xs (reach_set h A) = reach_set h (A \<union> (\<Union>x \<in> set xs. g x))"
  by (induction xs arbitrary: A) (simp_all add: assms Un_assoc)

lemma scan_callers_reach:
  "fold (\<lambda>(_, mp). scan_buffer h mp) stack (reach_set h A) =
    reach_set h (A \<union> (\<Union>(_, mp) \<in> set stack. set (collect_ids h mp)))"
  by (rule fold_reach) (auto simp: scan_buffer_reach split: prod.splits)

lemma scan_thread_reach: "scan_thread h t (reach_set h A) = reach_set h (A \<union> thread_roots h t)"
  by (simp add: scan_thread_def Let_def scan_buffer_reach scan_callers_reach scan_refs_reach
      thread_roots_def Un_assoc)

lemma mark_phase_reach:
  "mark_phase h frames mp loaded threads callers refs =
    reach_set h (gc_roots h frames mp loaded threads callers refs)"
proof -
  have loaded: "fold (\<lambda>lm. scan_buffer h (lm_mp lm)) loaded (reach_set h A) =
      reach_set h (A \<union> (\<Union>lm \<in> set loaded. set (collect_ids h (lm_mp lm))))" for A
    by (rule fold_reach) (rule scan_buffer_reach)
  have threads: "fold (scan_thread h) threads (reach_set h A) =
      reach_set h (A \<union> (\<Union>t \<in> set threads. thread_roots h t))" for A
    by (rule fold_reach) (rule scan_thread_reach)
  have start: "scan_buffer h buf {} = reach_set h (set (collect_ids h buf))" for buf
    using scan_buffer_reach [of h buf "{}"] by simp
  show ?thesis
    by (simp add: mark_phase_def Let_def start scan_buffer_reach scan_callers_reach loaded
        scan_refs_reach threads gc_roots_def Un_assoc)
qed

text \<open>The collector keeps exactly what is reachable from a root, and the module handles.\<close>

lemma collect_exact:
  "hp_objects (collect h frames mp loaded threads callers refs) hid =
    (case hp_objects h hid of
       None \<Rightarrow> None
     | Some obj \<Rightarrow>
         if reachable h (gc_roots h frames mp loaded threads callers refs) hid \<or>
           is_permanent (ho_data obj)
         then Some obj else None)"
  by (auto simp: collect_def sweep_def mark_phase_reach reach_set_def split: option.splits)

text \<open>
  A collection leaves no object with a reference it owns dangling: what a kept object owns is
  traced from it.
\<close>

lemma child_refs_traced: "set (child_refs (ho_data obj)) \<subseteq> set (object_refs h obj) - {NIL}"
  by (cases "ho_data obj") (auto simp: object_refs_def)

lemma collect_heap_ok:
  "heap_ok h \<Longrightarrow> heap_ok (collect h frames mp loaded threads callers refs)"
  by (auto simp: heap_ok_def collect_def sweep_def objects_ok_def split: option.splits if_splits)

lemma collect_rc_ok:
  assumes ok: "heap_ok h" and rc: "rc_ok {#} (hp_objects h)"
  shows "rc_ok {#} (hp_objects (collect h frames mp loaded threads callers refs))"
proof -
  let ?objs = "hp_objects (collect h frames mp loaded threads callers refs)"
  let ?roots = "gc_roots h frames mp loaded threads callers refs"
  have kept: "hp_objects h x = Some obj \<and> (reachable h ?roots x \<or> is_permanent (ho_data obj))"
    if "?objs x = Some obj" for x obj
    using that by (auto simp: collect_exact split: option.splits if_splits)
  have "owners ?objs x \<subseteq> owners (hp_objects h) x" for x
    using kept by (auto simp: owners_def)
  then have card: "card (owners ?objs x) \<le> card (owners (hp_objects h) x)" for x
    by (intro card_mono) auto
  have "card (owners ?objs x) \<le> unat (ho_ref_count obj)" if "?objs x = Some obj" for x obj
  proof -
    have "card (owners (hp_objects h) x) \<le> unat (ho_ref_count obj)"
      using rc kept [OF that] by (simp add: rc_ok_def)
    with card [of x] show ?thesis by simp
  qed
  moreover have "?objs c \<noteq> None" if x: "?objs x = Some obj" and c: "c \<in> set (child_refs (ho_data obj))"
    for x obj c
  proof -
    have "\<not> is_permanent (ho_data obj)" using c by (cases "ho_data obj") auto
    with kept [OF x] have "reachable h ?roots x" "heap_get h x = Some obj"
      by (simp_all add: heap_get_objects [OF ok])
    then have "reachable h ?roots c"
      using child_refs_traced [of obj h] c by (auto intro: reachable.reach_step)
    moreover obtain obj' where "hp_objects h c = Some obj'"
      using rc kept [OF x] c unfolding rc_ok_def by blast
    ultimately show ?thesis by (simp add: collect_exact)
  qed
  ultimately show ?thesis by (simp add: rc_ok_def)
qed

end
