(* ===== verification/Vm.thy ===== *)
theory Vm
  imports Gc
begin

unbundle bit_operations_syntax

text \<open>
  \<open>crates/ricevm-execute/src/vm.rs\<close>, the accessors: resolving the operands of an instruction, and
  reading and writing a value of each type at a resolved target, wherever it lives: the frame, the
  data area of this or another module, or a heap object, through slices. The locale
  \<open>target_access\<close> is the contract of a pair of accessors that the instructions rest on.
\<close>

section \<open>Resolving operands\<close>

definition resolve_operands :: "instruction \<Rightarrow> unit vm" where
  "resolve_operands inst = (\<lambda>vm.
    let fp_base = current_data_offset (vm_frames vm);
        vm = vm\<lparr>vm_imm_src := op_register1 (i_source inst)\<rparr> in
    case resolve_operand (i_source inst) fp_base (fs_data (vm_frames vm)) (vm_mp vm)
        (vm_heap_refs vm) of
      Inl e \<Rightarrow> (Inl e, vm)
    | Inr src \<Rightarrow>
        let vm = vm\<lparr>vm_src := src, vm_imm_mid := mid_register1 (i_middle inst)\<rparr> in
        (case resolve_middle (i_middle inst) fp_base of
           Inl e \<Rightarrow> (Inl e, vm)
         | Inr mid \<Rightarrow>
             let vm = vm\<lparr>vm_mid := mid, vm_imm_dst := op_register1 (i_destination inst)\<rparr> in
             (case resolve_operand (i_destination inst) fp_base (fs_data (vm_frames vm)) (vm_mp vm)
                 (vm_heap_refs vm) of
                Inl e \<Rightarrow> (Inl e, vm)
              | Inr dst \<Rightarrow> (Inr (), vm\<lparr>vm_dst := dst\<rparr>))))"

section \<open>Bytes of heap objects\<close>

text \<open>As for \<open>array_read\<close>, the bound stands for the host recursion through slices.\<close>

fun heap_slice_fuel :: "nat \<Rightarrow> heap \<Rightarrow> heap_id \<Rightarrow> usize \<Rightarrow> usize \<Rightarrow> u8 list option" where
  "heap_slice_fuel fuel h hid offset len =
    (if fuel = 0 then None
     else case heap_get h hid of
       None \<Rightarrow> None
     | Some obj \<Rightarrow>
         let inside = (\<lambda>data.
           case checked_add offset len of
             Some end_pos \<Rightarrow>
               if end_pos \<le> length data then Some (subrange offset len data)
               else Some (replicate len 0)
           | None \<Rightarrow> Some (replicate len 0)) in
         (case ho_data obj of
            HD_Array _ _ data _ \<Rightarrow> inside data
          | HD_Record data \<Rightarrow> inside data
          | HD_Adt _ data \<Rightarrow> inside data
          | HD_ArraySlice parent_id byte_start _ _ _ \<Rightarrow>
              (case checked_add byte_start offset of
                 Some parent_offset \<Rightarrow> heap_slice_fuel (fuel - 1) h parent_id parent_offset len
               | None \<Rightarrow> Some (replicate len 0))
          | _ \<Rightarrow> Some (replicate len 0)))"

definition heap_slice :: "heap \<Rightarrow> heap_id \<Rightarrow> usize \<Rightarrow> usize \<Rightarrow> u8 list option" where
  "heap_slice h hid offset len = heap_slice_fuel slice_depth h hid offset len"

fun heap_write_fuel :: "nat \<Rightarrow> heap_id \<Rightarrow> usize \<Rightarrow> u8 list \<Rightarrow> heap \<Rightarrow> heap" where
  "heap_write_fuel fuel hid offset bytes h =
    (if fuel = 0 then h
     else case heap_get h hid of
       None \<Rightarrow> h
     | Some obj \<Rightarrow>
         (case ho_data obj of
            HD_ArraySlice parent_id byte_start _ _ _ \<Rightarrow>
              (case checked_add byte_start offset of
                 Some parent_offset \<Rightarrow> heap_write_fuel (fuel - 1) parent_id parent_offset bytes h
               | None \<Rightarrow> h)
          | data \<Rightarrow>
              (case checked_add offset (length bytes) of
                 None \<Rightarrow> h
               | Some end_pos \<Rightarrow>
                   (case data of
                      HD_Array et es buf n \<Rightarrow>
                        if end_pos \<le> length buf
                        then heap_set_data hid (HD_Array et es (copy_at offset bytes buf) n) h else h
                    | HD_Record buf \<Rightarrow>
                        if end_pos \<le> length buf
                        then heap_set_data hid (HD_Record (copy_at offset bytes buf)) h else h
                    | HD_Adt tag buf \<Rightarrow>
                        if end_pos \<le> length buf
                        then heap_set_data hid (HD_Adt tag (copy_at offset bytes buf)) h else h
                    | _ \<Rightarrow> h))))"

declare heap_slice_fuel.simps [simp del] heap_write_fuel.simps [simp del]

definition heap_write :: "heap_id \<Rightarrow> usize \<Rightarrow> u8 list \<Rightarrow> heap \<Rightarrow> heap" where
  "heap_write hid offset bytes h = heap_write_fuel slice_depth hid offset bytes h"

section \<open>Module data areas\<close>

definition current_module_virt_idx :: "vm_state \<Rightarrow> usize" where
  "current_module_virt_idx vm =
    (case vm_current_loaded_module vm of None \<Rightarrow> 0 | Some idx \<Rightarrow> idx + 1)"

text \<open>The position of the last entry of the caller stack for a module: \<open>iter().rev()\<close>.\<close>

fun last_index :: "('a \<Rightarrow> bool) \<Rightarrow> 'a list \<Rightarrow> nat option" where
  "last_index p [] = None"
| "last_index p (x # xs) =
    (case last_index p xs of
       Some i \<Rightarrow> Some (Suc i)
     | None \<Rightarrow> if p x then Some 0 else None)"

definition module_mp :: "vm_state \<Rightarrow> usize \<Rightarrow> u8 list option" where
  "module_mp vm module_idx =
    (if module_idx = current_module_virt_idx vm then Some (vm_mp vm)
     else case last_index (\<lambda>(virt_idx, _). virt_idx = module_idx) (vm_caller_mp_stack vm) of
       Some i \<Rightarrow> Some (snd (vm_caller_mp_stack vm ! i))
     | None \<Rightarrow>
         if module_idx = 0 then None
         else map_option lm_mp (nth_opt (vm_loaded_modules vm) (module_idx - 1)))"

text \<open>Writing through \<open>module_mp_mut\<close>.\<close>

definition module_mp_update :: "usize \<Rightarrow> (u8 list \<Rightarrow> u8 list) \<Rightarrow> vm_state \<Rightarrow> vm_state" where
  "module_mp_update module_idx f vm =
    (if module_idx = current_module_virt_idx vm then vm\<lparr>vm_mp := f (vm_mp vm)\<rparr>
     else case last_index (\<lambda>(virt_idx, _). virt_idx = module_idx) (vm_caller_mp_stack vm) of
       Some i \<Rightarrow>
         vm\<lparr>vm_caller_mp_stack := (vm_caller_mp_stack vm)[i :=
           (fst (vm_caller_mp_stack vm ! i), f (snd (vm_caller_mp_stack vm ! i)))]\<rparr>
     | None \<Rightarrow>
         if module_idx = 0 then vm
         else (case nth_opt (vm_loaded_modules vm) (module_idx - 1) of
             None \<Rightarrow> vm
           | Some lm \<Rightarrow>
               vm\<lparr>vm_loaded_modules := (vm_loaded_modules vm)[module_idx - 1 :=
                 lm\<lparr>lm_mp := f (lm_mp lm)\<rparr>]\<rparr>))"

section \<open>Values at a target\<close>

definition update_frame_data :: "(u8 list \<Rightarrow> u8 list) \<Rightarrow> vm_state \<Rightarrow> vm_state" where
  "update_frame_data f vm = vm\<lparr>vm_frames := (vm_frames vm)\<lparr>fs_data := f (fs_data (vm_frames vm))\<rparr>\<rparr>"

definition update_heap :: "(heap \<Rightarrow> heap) \<Rightarrow> vm_state \<Rightarrow> vm_state" where
  "update_heap f vm = vm\<lparr>vm_heap := f (vm_heap vm)\<rparr>"

definition read_word_at :: "vm_state \<Rightarrow> addr_target \<Rightarrow> i32 \<Rightarrow> exec_error + i32" where
  "read_word_at vm target imm =
    (case target of
       AT_Frame off \<Rightarrow> Inr (mem_read_word (fs_data (vm_frames vm)) off)
     | AT_Mp off \<Rightarrow>
         if off + 4 \<le> length (vm_mp vm) then Inr (mem_read_word (vm_mp vm) off) else Inr 0
     | AT_ModuleMp module_idx offset \<Rightarrow>
         (case module_mp vm module_idx of
            None \<Rightarrow> Inr 0
          | Some mp \<Rightarrow> if offset + 4 \<le> length mp then Inr (mem_read_word mp offset) else Inr 0)
     | AT_Immediate \<Rightarrow> Inr imm
     | AT_None \<Rightarrow> Inr 0
     | AT_HeapArray hid offset \<Rightarrow>
         (case heap_slice (vm_heap vm) hid offset 4 of
            Some b \<Rightarrow> Inr (mem_read_word b 0) | None \<Rightarrow> Inr 0))"

definition write_word_at :: "addr_target \<Rightarrow> i32 \<Rightarrow> unit vm" where
  "write_word_at target v = (\<lambda>vm.
    case target of
      AT_Frame off \<Rightarrow> (Inr (), update_frame_data (\<lambda>d. mem_write_word d off v) vm)
    | AT_Mp off \<Rightarrow>
        (Inr (), if off + 4 \<le> length (vm_mp vm)
          then vm\<lparr>vm_mp := mem_write_word (vm_mp vm) off v\<rparr> else vm)
    | AT_ModuleMp module_idx offset \<Rightarrow>
        (Inr (), module_mp_update module_idx
          (\<lambda>mp. if offset + 4 \<le> length mp then mem_write_word mp offset v else mp) vm)
    | AT_Immediate \<Rightarrow> (Inl (ExecOther (rstr ''cannot write to immediate'')), vm)
    | AT_None \<Rightarrow> (Inr (), vm)
    | AT_HeapArray hid offset \<Rightarrow>
        (Inr (), update_heap (heap_write hid offset (mem_write_word (replicate 4 0) 0 v)) vm))"

definition read_big_at :: "vm_state \<Rightarrow> addr_target \<Rightarrow> i32 \<Rightarrow> exec_error + i64" where
  "read_big_at vm target imm =
    (case target of
       AT_Frame off \<Rightarrow> Inr (mem_read_big (fs_data (vm_frames vm)) off)
     | AT_Mp off \<Rightarrow> Inr (mem_read_big (vm_mp vm) off)
     | AT_ModuleMp module_idx offset \<Rightarrow>
         (case module_mp vm module_idx of
            None \<Rightarrow> Inr 0
          | Some mp \<Rightarrow> if offset + 8 \<le> length mp then Inr (mem_read_big mp offset) else Inr 0)
     | AT_Immediate \<Rightarrow> Inr (scast imm)
     | AT_None \<Rightarrow> Inr 0
     | AT_HeapArray hid offset \<Rightarrow>
         (case heap_slice (vm_heap vm) hid offset 8 of
            Some b \<Rightarrow> Inr (mem_read_big b 0) | None \<Rightarrow> Inr 0))"

definition write_big_at :: "addr_target \<Rightarrow> i64 \<Rightarrow> unit vm" where
  "write_big_at target v = (\<lambda>vm.
    case target of
      AT_Frame off \<Rightarrow> (Inr (), update_frame_data (\<lambda>d. mem_write_big d off v) vm)
    | AT_Mp off \<Rightarrow> (Inr (), vm\<lparr>vm_mp := mem_write_big (vm_mp vm) off v\<rparr>)
    | AT_ModuleMp module_idx offset \<Rightarrow>
        (Inr (), module_mp_update module_idx
          (\<lambda>mp. if offset + 8 \<le> length mp then mem_write_big mp offset v else mp) vm)
    | AT_Immediate \<Rightarrow> (Inl (ExecOther (rstr ''cannot write to immediate'')), vm)
    | AT_None \<Rightarrow> (Inr (), vm)
    | AT_HeapArray hid offset \<Rightarrow>
        (Inr (), update_heap (heap_write hid offset (mem_write_big (replicate 8 0) 0 v)) vm))"

definition read_real_at :: "vm_state \<Rightarrow> addr_target \<Rightarrow> i32 \<Rightarrow> exec_error + f64_bits" where
  "read_real_at vm target imm =
    (case target of
       AT_Frame off \<Rightarrow> Inr (mem_read_real (fs_data (vm_frames vm)) off)
     | AT_Mp off \<Rightarrow> Inr (mem_read_real (vm_mp vm) off)
     | AT_ModuleMp module_idx offset \<Rightarrow>
         (case module_mp vm module_idx of
            None \<Rightarrow> Inr 0
          | Some mp \<Rightarrow> if offset + 8 \<le> length mp then Inr (mem_read_real mp offset) else Inr 0)
     | AT_Immediate \<Rightarrow> Inr 0
     | AT_None \<Rightarrow> Inr 0
     | AT_HeapArray hid offset \<Rightarrow>
         (case heap_slice (vm_heap vm) hid offset 8 of
            Some b \<Rightarrow> Inr (mem_read_real b 0) | None \<Rightarrow> Inr 0))"

definition write_real_at :: "addr_target \<Rightarrow> f64_bits \<Rightarrow> unit vm" where
  "write_real_at target v = (\<lambda>vm.
    case target of
      AT_Frame off \<Rightarrow> (Inr (), update_frame_data (\<lambda>d. mem_write_real d off v) vm)
    | AT_Mp off \<Rightarrow> (Inr (), vm\<lparr>vm_mp := mem_write_real (vm_mp vm) off v\<rparr>)
    | AT_ModuleMp module_idx offset \<Rightarrow>
        (Inr (), module_mp_update module_idx
          (\<lambda>mp. if offset + 8 \<le> length mp then mem_write_real mp offset v else mp) vm)
    | AT_Immediate \<Rightarrow> (Inl (ExecOther (rstr ''cannot write to immediate'')), vm)
    | AT_None \<Rightarrow> (Inr (), vm)
    | AT_HeapArray hid offset \<Rightarrow>
        (Inr (), update_heap (heap_write hid offset (mem_write_real (replicate 8 0) 0 v)) vm))"

definition read_byte_at :: "vm_state \<Rightarrow> addr_target \<Rightarrow> i32 \<Rightarrow> exec_error + u8" where
  "read_byte_at vm target imm =
    (case target of
       AT_Frame off \<Rightarrow> Inr (mem_read_byte (fs_data (vm_frames vm)) off)
     | AT_Mp off \<Rightarrow> Inr (mem_read_byte (vm_mp vm) off)
     | AT_ModuleMp module_idx offset \<Rightarrow>
         (case module_mp vm module_idx of
            None \<Rightarrow> Inr 0
          | Some mp \<Rightarrow> if offset < length mp then Inr (mem_read_byte mp offset) else Inr 0)
     | AT_Immediate \<Rightarrow> Inr (ucast imm)
     | AT_None \<Rightarrow> Inr 0
     | AT_HeapArray hid offset \<Rightarrow>
         (case heap_slice (vm_heap vm) hid offset 1 of
            Some b \<Rightarrow> Inr (b ! 0) | None \<Rightarrow> Inr 0))"

definition write_byte_at :: "addr_target \<Rightarrow> u8 \<Rightarrow> unit vm" where
  "write_byte_at target v = (\<lambda>vm.
    case target of
      AT_Frame off \<Rightarrow> (Inr (), update_frame_data (\<lambda>d. mem_write_byte d off v) vm)
    | AT_Mp off \<Rightarrow> (Inr (), vm\<lparr>vm_mp := mem_write_byte (vm_mp vm) off v\<rparr>)
    | AT_ModuleMp module_idx offset \<Rightarrow>
        (Inr (), module_mp_update module_idx
          (\<lambda>mp. if offset < length mp then mem_write_byte mp offset v else mp) vm)
    | AT_Immediate \<Rightarrow> (Inl (ExecOther (rstr ''cannot write to immediate'')), vm)
    | AT_None \<Rightarrow> (Inr (), vm)
    | AT_HeapArray hid offset \<Rightarrow> (Inr (), update_heap (heap_write hid offset [v]) vm))"

section \<open>The operands of an instruction\<close>

definition src_word :: "i32 vm" where
  "src_word = (\<lambda>vm. (read_word_at vm (vm_src vm) (vm_imm_src vm), vm))"

definition mid_word :: "i32 vm" where
  "mid_word = (\<lambda>vm. (read_word_at vm (vm_mid vm) (vm_imm_mid vm), vm))"

definition dst_word :: "i32 vm" where
  "dst_word = (\<lambda>vm. (read_word_at vm (vm_dst vm) (vm_imm_dst vm), vm))"

definition set_dst_word :: "i32 \<Rightarrow> unit vm" where
  "set_dst_word v = (\<lambda>vm. write_word_at (vm_dst vm) v vm)"

definition src_big :: "i64 vm" where
  "src_big = (\<lambda>vm. (read_big_at vm (vm_src vm) (vm_imm_src vm), vm))"

definition mid_big :: "i64 vm" where
  "mid_big = (\<lambda>vm. (read_big_at vm (vm_mid vm) (vm_imm_mid vm), vm))"

definition set_dst_big :: "i64 \<Rightarrow> unit vm" where
  "set_dst_big v = (\<lambda>vm. write_big_at (vm_dst vm) v vm)"

definition src_real :: "f64_bits vm" where
  "src_real = (\<lambda>vm. (read_real_at vm (vm_src vm) (vm_imm_src vm), vm))"

definition mid_real :: "f64_bits vm" where
  "mid_real = (\<lambda>vm. (read_real_at vm (vm_mid vm) (vm_imm_mid vm), vm))"

definition dst_real :: "f64_bits vm" where
  "dst_real = (\<lambda>vm. (read_real_at vm (vm_dst vm) (vm_imm_dst vm), vm))"

definition set_dst_real :: "f64_bits \<Rightarrow> unit vm" where
  "set_dst_real v = (\<lambda>vm. write_real_at (vm_dst vm) v vm)"

definition src_byte :: "u8 vm" where
  "src_byte = (\<lambda>vm. (read_byte_at vm (vm_src vm) (vm_imm_src vm), vm))"

definition mid_byte :: "u8 vm" where
  "mid_byte = (\<lambda>vm. (read_byte_at vm (vm_mid vm) (vm_imm_mid vm), vm))"

definition set_dst_byte :: "u8 \<Rightarrow> unit vm" where
  "set_dst_byte v = (\<lambda>vm. write_byte_at (vm_dst vm) v vm)"

definition mid_or_dst_word :: "i32 vm" where
  "mid_or_dst_word = (\<lambda>vm. if vm_mid vm = AT_None then dst_word vm else mid_word vm)"

definition mid_or_dst_byte :: "u8 vm" where
  "mid_or_dst_byte = (\<lambda>vm.
    if vm_mid vm = AT_None then (read_byte_at vm (vm_dst vm) (vm_imm_dst vm), vm) else mid_byte vm)"

definition mid_or_dst_big :: "i64 vm" where
  "mid_or_dst_big = (\<lambda>vm.
    if vm_mid vm = AT_None then (read_big_at vm (vm_dst vm) (vm_imm_dst vm), vm) else mid_big vm)"

definition mid_or_dst_real :: "f64_bits vm" where
  "mid_or_dst_real = (\<lambda>vm.
    if vm_mid vm = AT_None then (read_real_at vm (vm_dst vm) (vm_imm_dst vm), vm) else mid_real vm)"

section \<open>Pointers\<close>

definition src_ptr :: "heap_id vm" where
  "src_ptr = src_word"

definition mid_ptr :: "heap_id vm" where
  "mid_ptr = mid_word"

definition dst_ptr :: "heap_id vm" where
  "dst_ptr = dst_word"

definition set_dst_ptr :: "heap_id \<Rightarrow> unit vm" where
  "set_dst_ptr hid = (\<lambda>vm. write_word_at (vm_dst vm) hid vm)"

definition move_ptr_to_dst :: "heap_id \<Rightarrow> unit vm" where
  "move_ptr_to_dst new_id =
    sbind dst_ptr (\<lambda>old_id.
    sbind (updates (\<lambda>vm. if new_id \<noteq> NIL then update_heap (inc_ref new_id) vm else vm)) (\<lambda>_.
    sbind (set_dst_ptr new_id) (\<lambda>_.
    updates (\<lambda>vm. if old_id \<noteq> NIL then update_heap (dec_ref old_id) vm else vm))))"

end
