(* ===== verification/VmAccess.thy ===== *)
theory VmAccess
  imports Vm
begin

text \<open>
  The contract of the operand accessors of \<open>vm.rs\<close>: a read gives a value, a write to a place that
  holds a value of the type is read back, writes to an immediate are refused, writes to an unused
  operand are ignored, and no write touches the machine's control state or the shape of its heap.
\<close>

section \<open>Bytes of a heap object through slices\<close>

definition buffer_of :: "heap_data \<Rightarrow> u8 list option" where
  "buffer_of data =
    (case data of
       HD_Array _ _ b _ \<Rightarrow> Some b | HD_Record b \<Rightarrow> Some b | HD_Adt _ b \<Rightarrow> Some b | _ \<Rightarrow> None)"

definition with_buffer :: "u8 list \<Rightarrow> heap_data \<Rightarrow> heap_data" where
  "with_buffer b data =
    (case data of
       HD_Array et es _ n \<Rightarrow> HD_Array et es b n
     | HD_Record _ \<Rightarrow> HD_Record b
     | HD_Adt tag _ \<Rightarrow> HD_Adt tag b
     | _ \<Rightarrow> data)"

lemma buffer_with_buffer [simp]: "buffer_of data = Some b \<Longrightarrow> buffer_of (with_buffer b' data) = Some b'"
  by (cases data) (auto simp: buffer_of_def with_buffer_def)

lemma child_refs_with_buffer [simp]: "child_refs (with_buffer b data) = child_refs data"
  by (cases data) (auto simp: with_buffer_def)

lemma is_permanent_with_buffer [simp]: "is_permanent (with_buffer b data) = is_permanent data"
  by (cases data) (auto simp: with_buffer_def)

inductive heap_view :: "heap \<Rightarrow> heap_id \<Rightarrow> usize \<Rightarrow> heap_id \<Rightarrow> usize \<Rightarrow> bool" for h where
  view_base: "heap_get h hid = Some obj \<Longrightarrow> buffer_of (ho_data obj) = Some b \<Longrightarrow>
    heap_view h hid off hid off"
| view_parent: "heap_get h hid = Some obj \<Longrightarrow> ho_data obj = HD_ArraySlice p bs et es n \<Longrightarrow>
    bs + off < usize_limit \<Longrightarrow> heap_view h p (bs + off) r q \<Longrightarrow> heap_view h hid off r q"

lemma heap_slice_enough:
  "heap_ok h \<Longrightarrow> unat hid < fuel \<Longrightarrow> unat hid < fuel' \<Longrightarrow>
    heap_slice_fuel fuel h hid offset len = heap_slice_fuel fuel' h hid offset len"
proof (induction "unat hid" arbitrary: hid fuel fuel' offset rule: less_induct)
  case less
  have IH: "heap_slice_fuel (fuel - 1) h p off len = heap_slice_fuel (fuel' - 1) h p off len"
    if "heap_get h hid = Some obj" "ho_data obj = HD_ArraySlice p bs et es n" for obj p bs et es n off
  proof -
    note old = parent_older [OF less.prems(1) that]
    with less.prems show ?thesis by (intro less.hyps) simp_all
  qed
  show ?case
    unfolding heap_slice_fuel.simps [of fuel] heap_slice_fuel.simps [of fuel'] Let_def
    using less.prems(2,3) IH by (auto split: option.splits heap_data.splits)
qed

lemma heap_write_enough:
  "heap_ok h \<Longrightarrow> unat hid < fuel \<Longrightarrow> unat hid < fuel' \<Longrightarrow>
    heap_write_fuel fuel hid offset bytes h = heap_write_fuel fuel' hid offset bytes h"
proof (induction "unat hid" arbitrary: hid fuel fuel' offset rule: less_induct)
  case less
  have IH: "heap_write_fuel (fuel - 1) p off bytes h = heap_write_fuel (fuel' - 1) p off bytes h"
    if "heap_get h hid = Some obj" "ho_data obj = HD_ArraySlice p bs et es n" for obj p bs et es n off
  proof -
    note old = parent_older [OF less.prems(1) that]
    with less.prems show ?thesis by (intro less.hyps) simp_all
  qed
  show ?case
  proof (cases "heap_get h hid")
    case None
    with less.prems show ?thesis
      unfolding heap_write_fuel.simps [of fuel] heap_write_fuel.simps [of fuel'] by simp
  next
    case (Some obj)
    with less.prems IH show ?thesis
      unfolding heap_write_fuel.simps [of fuel] heap_write_fuel.simps [of fuel']
      by (cases "ho_data obj") (simp_all split: option.splits)
  qed
qed

lemma heap_slice_parent:
  assumes "heap_ok h" and "heap_get h hid = Some obj" and "ho_data obj = HD_ArraySlice p bs et es n"
    and "bs + offset < usize_limit"
  shows "heap_slice h hid offset len = heap_slice h p (bs + offset) len"
proof -
  have "unat p < slice_depth - 1"
    using parent_older [OF assms(1-3)] unat_less_depth [of hid] by linarith
  then have "heap_slice_fuel (slice_depth - 1) h p off len = heap_slice_fuel slice_depth h p off len"
    for off by (intro heap_slice_enough assms(1) unat_less_depth)
  moreover have "slice_depth \<noteq> 0" by (simp add: slice_depth_def)
  ultimately show ?thesis
    unfolding heap_slice_def heap_slice_fuel.simps [of slice_depth h hid]
    using assms(2-4) by (simp add: checked_add_def Let_def)
qed

lemma heap_write_parent:
  assumes "heap_ok h" and "heap_get h hid = Some obj" and "ho_data obj = HD_ArraySlice p bs et es n"
    and "bs + offset < usize_limit"
  shows "heap_write hid offset bytes h = heap_write p (bs + offset) bytes h"
proof -
  have "unat p < slice_depth - 1"
    using parent_older [OF assms(1-3)] unat_less_depth [of hid] by linarith
  then have "heap_write_fuel (slice_depth - 1) p off bytes h =
      heap_write_fuel slice_depth p off bytes h"
    for off by (intro heap_write_enough assms(1) unat_less_depth)
  moreover have "slice_depth \<noteq> 0" by (simp add: slice_depth_def)
  ultimately show ?thesis
    unfolding heap_write_def heap_write_fuel.simps [of slice_depth hid]
    using assms(2-4) by (simp add: checked_add_def)
qed

lemma heap_slice_base:
  assumes "heap_get h hid = Some obj" and "buffer_of (ho_data obj) = Some b"
  shows "heap_slice h hid offset len =
    Some (if offset + len < usize_limit \<and> offset + len \<le> length b
      then subrange offset len b else replicate len 0)"
  unfolding heap_slice_def heap_slice_fuel.simps [of slice_depth]
  using assms
  by (cases "ho_data obj") (simp_all add: slice_depth_def checked_add_def Let_def buffer_of_def)

lemma heap_write_base:
  assumes "heap_get h hid = Some obj" and "buffer_of (ho_data obj) = Some b"
    and "offset + length bytes < usize_limit"
  shows "heap_write hid offset bytes h =
    (if offset + length bytes \<le> length b
     then heap_set_data hid (with_buffer (copy_at offset bytes b) (ho_data obj)) h else h)"
  unfolding heap_write_def heap_write_fuel.simps [of slice_depth]
  using assms
  by (cases "ho_data obj")
    (simp_all add: slice_depth_def checked_add_def buffer_of_def with_buffer_def)

lemma heap_view_slice:
  "heap_view h hid off r q \<Longrightarrow> heap_ok h \<Longrightarrow> heap_slice h hid off len = heap_slice h r q len"
  by (induction rule: heap_view.induct) (simp_all add: heap_slice_parent)

lemma heap_view_write:
  "heap_view h hid off r q \<Longrightarrow> heap_ok h \<Longrightarrow> heap_write hid off bytes h = heap_write r q bytes h"
  by (induction rule: heap_view.induct) (simp_all add: heap_write_parent)

lemma heap_view_set_buffer:
  assumes r: "heap_get h r = Some obj" and b: "buffer_of (ho_data obj) = Some b"
  shows "heap_view h hid off r' q \<Longrightarrow>
    heap_view (heap_set_data r (with_buffer b' (ho_data obj)) h) hid off r' q"
proof (induction rule: heap_view.induct)
  case (view_base hid obj' b'' off)
  show ?case
  proof (cases "hid = r")
    case True
    with r b show ?thesis
      by (intro heap_view.view_base [where obj = "obj\<lparr>ho_data := with_buffer b' (ho_data obj)\<rparr>"
            and b = b']) (simp_all add: heap_get_set_data)
  next
    case False
    with view_base show ?thesis
      by (intro heap_view.view_base [where obj = obj' and b = b'']) (simp_all add: heap_get_set_data)
  qed
next
  case (view_parent hid obj' p bs et es n off r' q)
  then have "hid \<noteq> r" using r b by (auto simp: buffer_of_def)
  with view_parent show ?case
    by - (rule heap_view.view_parent [where obj = obj' and p = p and bs = bs],
        simp_all add: heap_get_set_data)
qed

text \<open>A place of a heap object that has room for \<open>n\<close> bytes.\<close>

definition heap_cell :: "heap \<Rightarrow> heap_id \<Rightarrow> usize \<Rightarrow> nat \<Rightarrow> bool" where
  "heap_cell h hid off n \<longleftrightarrow> heap_ok h \<and>
    (\<exists>r q obj b. heap_view h hid off r q \<and> heap_get h r = Some obj \<and>
      buffer_of (ho_data obj) = Some b \<and> q + n \<le> length b \<and> length b < usize_limit)"

lemma heap_write_slice:
  assumes "heap_cell h hid off (length bytes)"
  shows "heap_slice (heap_write hid off bytes h) hid off (length bytes) = Some bytes"
proof -
  obtain r q obj b where ok: "heap_ok h" and view: "heap_view h hid off r q"
    and r: "heap_get h r = Some obj" and b: "buffer_of (ho_data obj) = Some b"
    and room: "q + length bytes \<le> length b" "length b < usize_limit"
    using assms unfolding heap_cell_def by blast
  let ?data = "with_buffer (copy_at q bytes b) (ho_data obj)"
  let ?h = "heap_set_data r ?data h"
  have "heap_write hid off bytes h = ?h"
    using heap_write_base [OF r b, of q bytes] room by (simp add: heap_view_write [OF view ok])
  moreover have "heap_slice ?h hid off (length bytes) = heap_slice ?h r q (length bytes)"
    by (intro heap_view_slice heap_view_set_buffer [OF r b] heap_ok_set_data [OF ok r] view) simp
  moreover have "heap_slice ?h r q (length bytes) = Some bytes"
    using room r b
      heap_slice_base [of ?h r "obj\<lparr>ho_data := ?data\<rparr>" "copy_at q bytes b" q "length bytes"]
    by (simp add: heap_get_set_data subrange_copy_at_same)
  ultimately show ?thesis by simp
qed

text \<open>Whatever is written, the shape of the heap, its counts and its ownership stay.\<close>

definition same_shape :: "heap \<Rightarrow> heap \<Rightarrow> bool" where
  "same_shape h h' \<longleftrightarrow> hp_next_id h' = hp_next_id h \<and> hp_trace_maps h' = hp_trace_maps h \<and>
    (\<forall>hid. rel_option (\<lambda>obj obj'. ho_ref_count obj' = ho_ref_count obj \<and>
        ho_type_id obj' = ho_type_id obj \<and> ho_trace obj' = ho_trace obj \<and>
        child_refs (ho_data obj') = child_refs (ho_data obj) \<and>
        is_permanent (ho_data obj') = is_permanent (ho_data obj))
      (hp_objects h hid) (hp_objects h' hid))"

lemma same_shape_refl [simp]: "same_shape h h"
  by (simp add: same_shape_def option.rel_refl)

lemma same_shape_set_data:
  "heap_get h hid = Some obj \<Longrightarrow> child_refs data = child_refs (ho_data obj) \<Longrightarrow>
    is_permanent data = is_permanent (ho_data obj) \<Longrightarrow> same_shape h (heap_set_data hid data h)"
  by (auto simp: same_shape_def heap_set_data_def heap_get_def option.rel_refl split: if_splits)

lemma heap_write_same_shape: "same_shape h (heap_write_fuel fuel hid offset bytes h)"
proof (induction fuel arbitrary: hid offset)
  case 0
  show ?case by (simp add: heap_write_fuel.simps [of 0])
next
  case (Suc fuel)
  show ?case
  proof (cases "heap_get h hid")
    case None
    then show ?thesis by (simp add: heap_write_fuel.simps [of "Suc fuel"])
  next
    case (Some obj)
    with Suc show ?thesis
      by (cases "ho_data obj")
        (auto simp: heap_write_fuel.simps [of "Suc fuel"] intro!: same_shape_set_data [OF Some]
          split: option.splits)
  qed
qed

definition same_object :: "heap_object \<Rightarrow> heap_object \<Rightarrow> bool" where
  "same_object obj obj' \<longleftrightarrow> ho_ref_count obj' = ho_ref_count obj \<and>
    child_refs (ho_data obj') = child_refs (ho_data obj) \<and>
    is_permanent (ho_data obj') = is_permanent (ho_data obj)"

lemma same_shape_cases:
  assumes "same_shape h h'"
  obtains "hp_objects h hid = None" "hp_objects h' hid = None"
    | obj obj' where "hp_objects h hid = Some obj" "hp_objects h' hid = Some obj'"
        "same_object obj obj'"
proof -
  have "rel_option (\<lambda>obj obj'. ho_ref_count obj' = ho_ref_count obj \<and>
        ho_type_id obj' = ho_type_id obj \<and> ho_trace obj' = ho_trace obj \<and>
        child_refs (ho_data obj') = child_refs (ho_data obj) \<and>
        is_permanent (ho_data obj') = is_permanent (ho_data obj))
      (hp_objects h hid) (hp_objects h' hid)"
    using assms unfolding same_shape_def by blast
  then show ?thesis
    by (cases rule: option.rel_cases) (use that in \<open>simp_all add: same_object_def\<close>)
qed

lemma same_shape_owns:
  assumes "same_shape h h'"
  shows "(\<exists>obj. hp_objects h' hid = Some obj \<and> c \<in> set (child_refs (ho_data obj))) \<longleftrightarrow>
    (\<exists>obj. hp_objects h hid = Some obj \<and> c \<in> set (child_refs (ho_data obj)))"
  by (rule same_shape_cases [OF assms, of hid]) (simp_all add: same_object_def)

lemma same_shape_owners: "same_shape h h' \<Longrightarrow> owners (hp_objects h') c = owners (hp_objects h) c"
  unfolding owners_def by (simp only: same_shape_owns)

lemma same_shape_None: "same_shape h h' \<Longrightarrow> hp_objects h' hid = None \<longleftrightarrow> hp_objects h hid = None"
  by (rule same_shape_cases [of h h' hid]) simp_all

lemma same_shape_rc_ok:
  assumes shape: "same_shape h h'" and ok: "rc_ok ext (hp_objects h)"
  shows "rc_ok ext (hp_objects h')"
proof -
  have "card (owners (hp_objects h') hid) + count ext hid \<le> unat (ho_ref_count obj') \<and>
    (\<forall>c \<in> set (child_refs (ho_data obj')). hp_objects h' c \<noteq> None)"
    if obj': "hp_objects h' hid = Some obj'" for hid obj'
  proof -
    obtain obj where obj: "hp_objects h hid = Some obj" "same_object obj obj'"
      using same_shape_cases [OF shape, of hid] obj' by (metis option.distinct(1) option.inject)
    have "card (owners (hp_objects h) hid) + count ext hid \<le> unat (ho_ref_count obj)"
      "\<forall>c \<in> set (child_refs (ho_data obj)). hp_objects h c \<noteq> None"
      using ok obj(1) unfolding rc_ok_def by blast+
    with obj(2) show ?thesis
      by (simp add: same_shape_owners [OF shape] same_shape_None [OF shape] same_object_def)
  qed
  moreover have "\<forall>hid \<in># ext. hp_objects h' hid \<noteq> None"
    using ok unfolding rc_ok_def same_shape_None [OF shape] by blast
  ultimately show ?thesis unfolding rc_ok_def by blast
qed

lemma same_shape_heap_ok:
  assumes shape: "same_shape h h'" and ok: "heap_ok h"
  shows "heap_ok h'"
proof -
  have nxt: "hp_next_id h' = hp_next_id h" using shape by (simp add: same_shape_def)
  have "unat HEAP_ID_BASE \<le> unat hid \<and> unat hid < unat (hp_next_id h) \<and>
      (\<forall>c \<in> set (child_refs (ho_data obj')). unat c < unat hid)"
    if obj': "hp_objects h' hid = Some obj'" for hid obj'
  proof -
    obtain obj where obj: "hp_objects h hid = Some obj" "same_object obj obj'"
      using same_shape_cases [OF shape, of hid] obj' by (metis option.distinct(1) option.inject)
    then show ?thesis using ok by (auto simp: heap_ok_def objects_ok_def same_object_def)
  qed
  with ok nxt show ?thesis by (simp add: heap_ok_def objects_ok_def)
qed

section \<open>What a write leaves alone\<close>

text \<open>
  The control state of the machine: everything but the bytes of the frames and of the data areas
  and the contents of heap objects.
\<close>

definition with_memory_of :: "vm_state \<Rightarrow> vm_state \<Rightarrow> vm_state" where
  "with_memory_of vm' vm = vm\<lparr>vm_frames := (vm_frames vm)\<lparr>fs_data := fs_data (vm_frames vm')\<rparr>,
    vm_mp := vm_mp vm', vm_heap := vm_heap vm', vm_caller_mp_stack := vm_caller_mp_stack vm',
    vm_loaded_modules := vm_loaded_modules vm'\<rparr>"

definition only_memory :: "vm_state \<Rightarrow> vm_state \<Rightarrow> bool" where
  "only_memory vm vm' \<longleftrightarrow> vm' = with_memory_of vm' vm \<and>
    length (fs_data (vm_frames vm')) = length (fs_data (vm_frames vm)) \<and>
    length (vm_mp vm') = length (vm_mp vm) \<and>
    map lm_module (vm_loaded_modules vm') = map lm_module (vm_loaded_modules vm) \<and>
    same_shape (vm_heap vm) (vm_heap vm')"

lemma only_memory_refl [simp]: "only_memory vm vm"
  by (simp add: only_memory_def with_memory_of_def)

lemma only_memory_shape: "only_memory vm vm' \<Longrightarrow> same_shape (vm_heap vm) (vm_heap vm')"
  by (simp add: only_memory_def)

lemma only_memory_frame:
  "(\<And>d. length (f d) = length d) \<Longrightarrow> only_memory vm (update_frame_data f vm)"
  by (simp add: only_memory_def with_memory_of_def update_frame_data_def)

lemma only_memory_mp: "length d = length (vm_mp vm) \<Longrightarrow> only_memory vm (vm\<lparr>vm_mp := d\<rparr>)"
  by (simp add: only_memory_def with_memory_of_def)

lemma only_memory_heap: "only_memory vm (update_heap (heap_write hid off bytes) vm)"
  using heap_write_same_shape
  by (simp add: only_memory_def with_memory_of_def update_heap_def heap_write_def)

lemma only_memory_module_mp:
  assumes "\<And>mp. length (f mp) = length mp"
  shows "only_memory vm (module_mp_update idx f vm)"
  using assms
  by (auto simp: only_memory_def with_memory_of_def module_mp_update_def map_update
      split: option.splits intro!: nth_equalityI)
    (auto simp: nth_list_update)

definition holds :: "nat \<Rightarrow> vm_state \<Rightarrow> addr_target \<Rightarrow> bool" where
  "holds n vm t \<longleftrightarrow>
    (case t of
       AT_Frame off \<Rightarrow> in_buf n (length (fs_data (vm_frames vm))) off
     | AT_Mp off \<Rightarrow> in_buf n (length (vm_mp vm)) off
     | AT_ModuleMp idx off \<Rightarrow> (\<exists>mp. module_mp vm idx = Some mp \<and> in_buf n (length mp) off)
     | AT_HeapArray hid off \<Rightarrow> heap_cell (vm_heap vm) hid off n
     | _ \<Rightarrow> False)"

locale target_access =
  fixes rd :: "vm_state \<Rightarrow> addr_target \<Rightarrow> i32 \<Rightarrow> exec_error + 'a"
    and wr :: "addr_target \<Rightarrow> 'a \<Rightarrow> unit vm"
    and width :: nat
  assumes rd_total: "\<exists>v. rd vm t imm = Inr v"
    and wr_total: "t \<noteq> AT_Immediate \<Longrightarrow> \<exists>vm'. wr t v vm = (Inr (), vm')"
    and wr_immediate: "wr AT_Immediate v vm = (Inl (ExecOther (rstr ''cannot write to immediate'')), vm)"
    and wr_none: "wr AT_None v vm = (Inr (), vm)"
    and rd_wr: "holds width vm t \<Longrightarrow> wr t v vm = (Inr (), vm') \<Longrightarrow> rd vm' t imm = Inr v"
    and wr_only_memory: "wr t v vm = (res, vm') \<Longrightarrow> only_memory vm vm'"
begin

lemma wr_heap_ok: "wr t v vm = (res, vm') \<Longrightarrow> heap_ok (vm_heap vm) \<Longrightarrow> heap_ok (vm_heap vm')"
  by (blast dest: wr_only_memory only_memory_shape intro: same_shape_heap_ok)

lemma wr_rc_ok:
  "wr t v vm = (res, vm') \<Longrightarrow> rc_ok ext (hp_objects (vm_heap vm)) \<Longrightarrow>
    rc_ok ext (hp_objects (vm_heap vm'))"
  by (blast dest: wr_only_memory only_memory_shape intro: same_shape_rc_ok)

lemma wr_result: "wr t v vm = (res, vm') \<Longrightarrow> t \<noteq> AT_Immediate \<Longrightarrow> res = Inr ()"
  using wr_total by (metis prod.inject)

lemma wr_holds:
  assumes "wr t v vm = (res, vm')" and "holds width vm t"
  shows "res = Inr () \<and> rd vm' t imm = Inr v"
proof -
  have "t \<noteq> AT_Immediate" using assms(2) by (auto simp: holds_def)
  with wr_result [OF assms(1)] show ?thesis using rd_wr [OF assms(2)] assms(1) by blast
qed

end

lemma last_index_map: "map p xs = map p ys \<Longrightarrow> last_index p xs = last_index p ys"
proof (induction xs arbitrary: ys)
  case Nil
  then show ?case by simp
next
  case (Cons x xs)
  then obtain y ys' where "ys = y # ys'" "p x = p y" "map p xs = map p ys'" by auto
  with Cons.IH [of ys'] show ?case by (simp split: option.splits)
qed

lemma last_index_bound: "last_index p xs = Some i \<Longrightarrow> i < length xs \<and> p (xs ! i)"
proof (induction xs arbitrary: i)
  case Nil
  then show ?case by simp
next
  case (Cons x xs)
  then show ?case by (cases "last_index p xs") (auto split: if_splits)
qed

lemma module_mp_same:
  assumes "module_mp vm idx = Some mp"
  shows "module_mp (module_mp_update idx f vm) idx = Some (f mp)"
proof (cases "idx = current_module_virt_idx vm")
  case True
  with assms show ?thesis
    by (simp add: module_mp_def module_mp_update_def current_module_virt_idx_def)
next
  case False
  let ?p = "\<lambda>(virt_idx, _). virt_idx = idx"
  show ?thesis
  proof (cases "last_index ?p (vm_caller_mp_stack vm)")
    case None
    with False assms show ?thesis
      by (auto simp: module_mp_def module_mp_update_def current_module_virt_idx_def nth_opt_def
          split: if_splits)
  next
    case (Some i)
    let ?stack = "(vm_caller_mp_stack vm)[i := (fst (vm_caller_mp_stack vm ! i),
        f (snd (vm_caller_mp_stack vm ! i)))]"
    have i: "i < length (vm_caller_mp_stack vm)" using last_index_bound [OF Some] by simp
    have "map ?p ?stack = map ?p (vm_caller_mp_stack vm)"
      using i by (intro nth_equalityI) (auto simp: nth_list_update split: prod.splits)
    then have "last_index ?p ?stack = Some i" using last_index_map [of ?p ?stack] Some by metis
    with False Some assms i show ?thesis
      by (simp add: module_mp_def module_mp_update_def current_module_virt_idx_def)
  qed
qed

section \<open>The four types of value\<close>

lemma in_buf_cell: "in_buf n n 0 \<longleftrightarrow> n < usize_limit"
  by (auto simp: in_buf_def checked_add_def)

lemma usize_limit_big: "4 < usize_limit" "8 < usize_limit" "1 < usize_limit"
  by (simp_all add: usize_limit_def)

interpretation word_target: target_access read_word_at write_word_at 4
proof unfold_locales
  fix t v vm vm' imm
  assume holds: "holds 4 vm t" and wr: "write_word_at t v vm = (Inr (), vm')"
  show "read_word_at vm' t imm = Inr v"
  proof (cases t)
    case (AT_HeapArray hid off)
    let ?b = "mem_write_word (replicate 4 0) 0 v"
    have "heap_slice (heap_write hid off ?b (vm_heap vm)) hid off 4 = Some ?b"
      using heap_write_slice [of "vm_heap vm" hid off ?b] holds AT_HeapArray by (simp add: holds_def)
    moreover have "mem_read_word ?b 0 = v"
      by (rule word_slot.get_put_same) (simp add: in_buf_cell usize_limit_big)
    ultimately show ?thesis
      using AT_HeapArray wr by (auto simp: read_word_at_def write_word_at_def update_heap_def)
  qed (use holds wr in \<open>auto simp: holds_def read_word_at_def write_word_at_def update_frame_data_def
      word_slot.get_put_same module_mp_same dest: in_buf_le\<close>)
next
  fix t v vm res vm'
  assume "write_word_at t v vm = (res, vm')"
  then show "only_memory vm vm'"
    by (cases t) (auto simp: write_word_at_def intro!: only_memory_frame only_memory_mp
        only_memory_module_mp only_memory_heap)
qed (auto simp: read_word_at_def write_word_at_def split: addr_target.splits option.splits)

interpretation big_target: target_access read_big_at write_big_at 8
proof unfold_locales
  fix t v vm vm' imm
  assume holds: "holds 8 vm t" and wr: "write_big_at t v vm = (Inr (), vm')"
  show "read_big_at vm' t imm = Inr v"
  proof (cases t)
    case (AT_HeapArray hid off)
    let ?b = "mem_write_big (replicate 8 0) 0 v"
    have "heap_slice (heap_write hid off ?b (vm_heap vm)) hid off 8 = Some ?b"
      using heap_write_slice [of "vm_heap vm" hid off ?b] holds AT_HeapArray by (simp add: holds_def)
    moreover have "mem_read_big ?b 0 = v"
      by (rule big_slot.get_put_same) (simp add: in_buf_cell usize_limit_big)
    ultimately show ?thesis
      using AT_HeapArray wr by (auto simp: read_big_at_def write_big_at_def update_heap_def)
  qed (use holds wr in \<open>auto simp: holds_def read_big_at_def write_big_at_def update_frame_data_def
      big_slot.get_put_same module_mp_same dest: in_buf_le\<close>)
next
  fix t v vm res vm'
  assume "write_big_at t v vm = (res, vm')"
  then show "only_memory vm vm'"
    by (cases t) (auto simp: write_big_at_def intro!: only_memory_frame only_memory_mp
        only_memory_module_mp only_memory_heap)
qed (auto simp: read_big_at_def write_big_at_def split: addr_target.splits option.splits)

interpretation real_target: target_access read_real_at write_real_at 8
proof unfold_locales
  fix t v vm vm' imm
  assume holds: "holds 8 vm t" and wr: "write_real_at t v vm = (Inr (), vm')"
  show "read_real_at vm' t imm = Inr v"
  proof (cases t)
    case (AT_HeapArray hid off)
    let ?b = "mem_write_real (replicate 8 0) 0 v"
    have "heap_slice (heap_write hid off ?b (vm_heap vm)) hid off 8 = Some ?b"
      using heap_write_slice [of "vm_heap vm" hid off ?b] holds AT_HeapArray by (simp add: holds_def)
    moreover have "mem_read_real ?b 0 = v"
      by (rule real_slot.get_put_same) (simp add: in_buf_cell usize_limit_big)
    ultimately show ?thesis
      using AT_HeapArray wr by (auto simp: read_real_at_def write_real_at_def update_heap_def)
  qed (use holds wr in \<open>auto simp: holds_def read_real_at_def write_real_at_def update_frame_data_def
      real_slot.get_put_same module_mp_same dest: in_buf_le\<close>)
next
  fix t v vm res vm'
  assume "write_real_at t v vm = (res, vm')"
  then show "only_memory vm vm'"
    by (cases t) (auto simp: write_real_at_def intro!: only_memory_frame only_memory_mp
        only_memory_module_mp only_memory_heap)
qed (auto simp: read_real_at_def write_real_at_def split: addr_target.splits option.splits)

lemma in_buf_1: "in_buf 1 n off \<Longrightarrow> off < n"
  using in_buf_le [of 1 n off] by simp

interpretation byte_target: target_access read_byte_at write_byte_at 1
proof unfold_locales
  fix t v vm vm' imm
  assume holds: "holds 1 vm t" and wr: "write_byte_at t v vm = (Inr (), vm')"
  show "read_byte_at vm' t imm = Inr v"
  proof (cases t)
    case (AT_HeapArray hid off)
    have "heap_slice (heap_write hid off [v] (vm_heap vm)) hid off 1 = Some [v]"
      using heap_write_slice [of "vm_heap vm" hid off "[v]"] holds AT_HeapArray
      by (simp add: holds_def)
    then show ?thesis
      using AT_HeapArray wr by (auto simp: read_byte_at_def write_byte_at_def update_heap_def)
  qed (use holds wr in \<open>auto simp: holds_def read_byte_at_def write_byte_at_def update_frame_data_def
      byte_slot.get_put_same module_mp_same dest: in_buf_1 [simplified]\<close>)
next
  fix t v vm res vm'
  assume "write_byte_at t v vm = (res, vm')"
  then show "only_memory vm vm'"
    by (cases t) (auto simp: write_byte_at_def intro!: only_memory_frame only_memory_mp
        only_memory_module_mp only_memory_heap)
qed (auto simp: read_byte_at_def write_byte_at_def split: addr_target.splits option.splits)

end
