(* ===== verification/Exceptions.thy ===== *)
theory Exceptions
  imports VmAccess
begin

text \<open>
  The exceptions of \<open>crates/ricevm-execute/src/vm.rs\<close>: the search of the handler tables along the
  chain of frames, the unwinding to the frame of the handler, and the fault when there is none. The
  chain of frames is a list here (\<open>frame_chain\<close>), and raising is characterised by the first entry
  of it that a handler covers.
\<close>

section \<open>Finding a handler\<close>

definition starts_with :: "rstring \<Rightarrow> rstring \<Rightarrow> bool" where
  "starts_with msg prefix \<longleftrightarrow> take (length prefix) msg = prefix"

fun find_case :: "rstring \<Rightarrow> exception_case list \<Rightarrow> usize option" where
  "find_case msg [] = None"
| "find_case msg (c # cs) =
    (let matches = (case ec_name c of Some name \<Rightarrow> starts_with msg name | None \<Rightarrow> True) in
     if matches \<and> \<not> sint (ec_pc c) < 0 then Some (i32_as_usize (ec_pc c))
     else find_case msg cs)"

fun find_in_handlers :: "i32 \<Rightarrow> rstring \<Rightarrow> handler list \<Rightarrow> (usize \<times> usize) option" where
  "find_in_handlers pc msg [] = None"
| "find_in_handlers pc msg (h # hs) =
    (if sint pc < sint (hd_begin_pc h) \<or> sint (hd_end_pc h) \<le> sint pc
     then find_in_handlers pc msg hs
     else case find_case msg (hd_cases h) of
       Some target \<Rightarrow> Some (target, nat (max (sint (hd_exception_offset h)) 0))
     | None \<Rightarrow> find_in_handlers pc msg hs)"

definition find_handler :: "vm_state \<Rightarrow> i32 \<Rightarrow> rstring \<Rightarrow> (usize \<times> usize) option" where
  "find_handler vm pc msg =
    (case vm_current_loaded_module vm of
       Some lm_idx \<Rightarrow>
         (case nth_opt (vm_loaded_modules vm) lm_idx of
            None \<Rightarrow> None
          | Some lm \<Rightarrow> find_in_handlers pc msg (m_handlers (lm_module lm)))
     | None \<Rightarrow> find_in_handlers pc msg (m_handlers (vm_module vm)))"

definition caller_frame :: "vm_state \<Rightarrow> usize \<Rightarrow> (i32 \<times> usize) option" where
  "caller_frame vm frame_base =
    (if frame_base \<le> vm_unwind_floor vm \<or>
        frame_base + FRAME_HEADER_SIZE > length (fs_data (vm_frames vm)) then None
     else
       let saved_pc = mem_read_word (fs_data (vm_frames vm)) frame_base in
       if sint saved_pc \<le> 0 then None
       else
         let caller_base = i32_as_usize (mem_read_word (fs_data (vm_frames vm)) (frame_base + 4)) in
         if caller_base \<ge> frame_base then None else Some (saved_pc - 1, caller_base))"

lemma caller_frame_less: "caller_frame vm fb = Some (pc, cb) \<Longrightarrow> cb < fb"
  by (auto simp: caller_frame_def Let_def split: if_splits)

section \<open>Unwinding\<close>

text \<open>A pop either lowers the current base or, leaving it, shortens the stack.\<close>

lemma frame_pop_decreases:
  assumes "frame_pop fs = (Inr pc, fs')" and "fb < fs_current_base fs"
  shows "fs_current_base fs' < fs_current_base fs \<or>
    fs_current_base fs' = fs_current_base fs \<and> length (fs_data fs') < length (fs_data fs)"
proof (cases "fs_current_base fs < length (fs_data fs)")
  case True
  with assms show ?thesis
    by (auto simp: frame_pop_def Let_def split: if_splits)
next
  case False
  have "\<not> in_buf 4 (length (fs_data fs)) (fs_current_base fs + 4)"
    using in_buf_le [of 4 "length (fs_data fs)" "fs_current_base fs + 4"] False by linarith
  then have "mem_read_word (fs_data fs) (fs_current_base fs + 4) = 0"
    by (rule word_slot.get_outside)
  with assms show ?thesis
    by (auto simp: frame_pop_def Let_def i32_as_usize_def split: if_splits)
qed

function unwind_to :: "usize \<Rightarrow> frame_stack \<Rightarrow> (exec_error + unit) \<times> frame_stack" where
  "unwind_to frame_base fs =
    (if fs_current_base fs > frame_base then
       (case frame_pop fs of
          (Inl e, fs') \<Rightarrow> (Inl e, fs')
        | (Inr _, fs') \<Rightarrow> unwind_to frame_base fs')
     else (Inr (), fs))"
  by pat_completeness auto
termination
proof (relation "measures [\<lambda>(fb, fs). fs_current_base fs, \<lambda>(fb, fs). length (fs_data fs)]", goal_cases)
  case 1
  show ?case by simp
next
  case (2 frame_base fs x fs' pc)
  then have "frame_pop fs = (Inr pc, fs')" by (metis prod.collapse)
  from frame_pop_decreases [OF this 2(1)] show ?case by auto
qed

declare unwind_to.simps [simp del]

function raise_loop :: "rstring \<Rightarrow> heap_id \<Rightarrow> i32 \<Rightarrow> usize \<Rightarrow> vm_state \<Rightarrow> (exec_error + unit) \<times> vm_state" where
  "raise_loop msg str_id pc frame_base vm =
    (case find_handler vm pc msg of
       Some (handler_pc, exception_offset) \<Rightarrow>
         (case unwind_to frame_base (vm_frames vm) of
            (Inl e, fs) \<Rightarrow> (Inl e, vm\<lparr>vm_frames := fs\<rparr>)
          | (Inr _, fs) \<Rightarrow>
              let vm = vm\<lparr>vm_frames := fs, vm_next_pc := handler_pc\<rparr>;
                  off = current_data_offset fs + exception_offset in
              (Inr (),
               if off + 4 \<le> length (fs_data fs)
               then update_frame_data (\<lambda>d. mem_write_word d off str_id) vm else vm))
     | None \<Rightarrow>
         (case caller_frame vm frame_base of
            Some (caller_pc, caller_base) \<Rightarrow> raise_loop msg str_id caller_pc caller_base vm
          | None \<Rightarrow> (Inl (ThreadFault (rstr ''unhandled exception: '' @ msg)), vm)))"
  by pat_completeness auto
termination
  by (relation "measure (\<lambda>(msg, str_id, pc, frame_base, vm). frame_base)")
    (auto dest: caller_frame_less)

declare raise_loop.simps [simp del]

definition raise_exception_with_value :: "rstring \<Rightarrow> heap_id \<Rightarrow> unit vm" where
  "raise_exception_with_value msg str_id = (\<lambda>vm.
    raise_loop msg str_id (of_nat (vm_pc vm)) (fs_current_base (vm_frames vm)) vm)"

definition raise_exception :: "rstring \<Rightarrow> unit vm" where
  "raise_exception msg = (\<lambda>vm.
    let (str_id, h) = heap_alloc 0 (HD_Str msg) (vm_heap vm) in
    raise_exception_with_value msg str_id (vm\<lparr>vm_heap := h\<rparr>))"

section \<open>The chain of frames\<close>

text \<open>The frames of a thread from a point on, with the program counter each one is at.\<close>

function frame_chain :: "vm_state \<Rightarrow> i32 \<Rightarrow> usize \<Rightarrow> (i32 \<times> usize) list" where
  "frame_chain vm pc frame_base = (pc, frame_base) #
    (case caller_frame vm frame_base of
       None \<Rightarrow> []
     | Some (caller_pc, caller_base) \<Rightarrow> frame_chain vm caller_pc caller_base)"
  by pat_completeness auto
termination by (relation "measure (\<lambda>(vm, pc, frame_base). frame_base)") (auto dest: caller_frame_less)

declare frame_chain.simps [simp del]

text \<open>The first frame of the chain that has a handler for the message.\<close>

definition catching :: "vm_state \<Rightarrow> rstring \<Rightarrow> (i32 \<times> usize) list \<Rightarrow> (usize \<times> usize \<times> usize) option" where
  "catching vm msg chain =
    (case find (\<lambda>(pc, base). find_handler vm pc msg \<noteq> None) chain of
       None \<Rightarrow> None
     | Some (pc, base) \<Rightarrow>
         (case find_handler vm pc msg of
            None \<Rightarrow> None
          | Some (target, off) \<Rightarrow> Some (target, off, base)))"

lemma frame_chain_Cons: "\<exists>rest. frame_chain vm pc fb = (pc, fb) # rest"
  by (subst frame_chain.simps) blast

lemma catching_step:
  "catching vm msg (frame_chain vm pc fb) =
    (case find_handler vm pc msg of
       Some (target, off) \<Rightarrow> Some (target, off, fb)
     | None \<Rightarrow>
         (case caller_frame vm fb of
            None \<Rightarrow> None
          | Some (cpc, cb) \<Rightarrow> catching vm msg (frame_chain vm cpc cb)))"
  by (subst frame_chain.simps) (auto simp: catching_def split: option.splits)

text \<open>Raising with no handler along the chain is a fault that leaves the machine as it was.\<close>

lemma raise_loop_uncaught:
  "catching vm msg (frame_chain vm pc fb) = None \<Longrightarrow>
    raise_loop msg str_id pc fb vm = (Inl (ThreadFault (rstr ''unhandled exception: '' @ msg)), vm)"
proof (induction fb arbitrary: pc rule: less_induct)
  case (less fb)
  then show ?case
    by (subst raise_loop.simps)
      (auto simp: catching_step [of vm msg pc fb] split: option.splits dest: caller_frame_less)
qed

text \<open>With a handler, raising unwinds to the first frame of the chain that has one.\<close>

definition land :: "heap_id \<Rightarrow> usize \<Rightarrow> usize \<Rightarrow> usize \<Rightarrow> unit vm" where
  "land str_id target exc_off base = (\<lambda>vm.
    case unwind_to base (vm_frames vm) of
      (Inl e, fs) \<Rightarrow> (Inl e, vm\<lparr>vm_frames := fs\<rparr>)
    | (Inr _, fs) \<Rightarrow>
        let vm = vm\<lparr>vm_frames := fs, vm_next_pc := target\<rparr>;
            off = current_data_offset fs + exc_off in
        (Inr (),
         if off + 4 \<le> length (fs_data fs)
         then update_frame_data (\<lambda>d. mem_write_word d off str_id) vm else vm))"

lemma raise_loop_caught:
  "catching vm msg (frame_chain vm pc fb) = Some (target, off, base) \<Longrightarrow>
    raise_loop msg str_id pc fb vm = land str_id target off base vm"
proof (induction fb arbitrary: pc rule: less_induct)
  case (less fb)
  show ?case
  proof (cases "find_handler vm pc msg")
    case None
    with less.prems obtain cpc cb where c: "caller_frame vm fb = Some (cpc, cb)"
      and "catching vm msg (frame_chain vm cpc cb) = Some (target, off, base)"
      by (auto simp: catching_step [of vm msg pc fb] split: option.splits)
    with less.IH [OF caller_frame_less [OF c]] None show ?thesis
      by (subst raise_loop.simps) simp
  next
    case (Some a)
    with less.prems show ?thesis
      by (subst raise_loop.simps, cases a) (simp add: catching_step [of vm msg pc fb] land_def)
  qed
qed

section \<open>Landing in the frame of the handler\<close>

text \<open>The callers of a frame, whose headers do not overlap.\<close>

inductive frame_link :: "vm_state \<Rightarrow> usize \<Rightarrow> usize \<Rightarrow> bool" for vm where
  link_here: "frame_link vm fb fb"
| link_caller: "caller_frame vm fb = Some (pc, cb) \<Longrightarrow> cb + FRAME_HEADER_SIZE \<le> fb \<Longrightarrow>
    frame_link vm cb base \<Longrightarrow> frame_link vm fb base"

text \<open>A stack that is a truncation of the machine's stack, with \<open>fb\<close> current.\<close>

definition truncated :: "vm_state \<Rightarrow> usize \<Rightarrow> frame_stack \<Rightarrow> bool" where
  "truncated vm fb fs \<longleftrightarrow> fs_current_base fs = fb \<and> fb + FRAME_HEADER_SIZE \<le> length (fs_data fs) \<and>
    fs_data fs = take (length (fs_data fs)) (fs_data (vm_frames vm)) \<and> frames_ok fs"

lemma truncated_read:
  assumes "truncated vm fb fs" and "q + 4 \<le> length (fs_data fs)"
    and "length (fs_data (vm_frames vm)) < usize_limit"
  shows "mem_read_word (fs_data fs) q = mem_read_word (fs_data (vm_frames vm)) q"
proof -
  let ?d = "fs_data (vm_frames vm)" and ?n = "length (fs_data fs)"
  have len: "?n \<le> length ?d" and eq: "fs_data fs = take ?n ?d"
    using assms(1) unfolding truncated_def by (metis length_take min.cobounded1, blast)
  have "4 \<le> ?n - q" using assms(2) by simp
  then have "subrange q 4 (take ?n ?d) = subrange q 4 ?d"
    by (simp add: subrange_def drop_take)
  with eq have "subrange q 4 (fs_data fs) = subrange q 4 ?d" by simp
  moreover have "in_buf 4 ?n q" "in_buf 4 (length ?d) q"
    using assms(2,3) len by (simp_all add: in_buf_iff)
  ultimately show ?thesis by (simp add: mem_read_word_def)
qed

lemma unwind_to_link:
  "frame_link vm fb base \<Longrightarrow> truncated vm fb fs \<Longrightarrow> length (fs_data (vm_frames vm)) < usize_limit \<Longrightarrow>
    \<exists>fs'. unwind_to base fs = (Inr (), fs') \<and> truncated vm base fs' \<and>
      (fb = base \<longrightarrow> fs' = fs)"
proof (induction arbitrary: fs rule: frame_link.induct)
  case (link_here fb)
  then show ?case by (subst unwind_to.simps) (auto simp: truncated_def)
next
  case (link_caller fb pc cb base)
  let ?d = "fs_data (vm_frames vm)"
  note t = link_caller.prems(1) [unfolded truncated_def]
  have "base \<le> cb"
    using link_caller.hyps(3)
    by (induction rule: frame_link.induct) (auto dest: caller_frame_less)
  with link_caller.hyps(2) have lt: "base < fb" by (simp add: FRAME_HEADER_SIZE_def)
  have "mem_read_word (fs_data fs) (fb + 4) = mem_read_word ?d (fb + 4)"
    using t by (intro truncated_read [OF link_caller.prems(1) _ link_caller.prems(2)]) (simp add: FRAME_HEADER_SIZE_def)
  then have prev: "i32_as_usize (mem_read_word (fs_data fs) (fb + 4)) = cb"
    using link_caller.hyps(1) by (auto simp: caller_frame_def Let_def split: if_splits)
  let ?fs = "\<lparr>fs_data = take fb (fs_data fs), fs_current_base = cb, fs_current_size = fb - cb\<rparr>"
  have ne: "take fb (fs_data fs) \<noteq> []" "fs_data fs \<noteq> []"
    using t link_caller.hyps(2) by (auto simp: FRAME_HEADER_SIZE_def)
  have pop: "frame_pop fs = (Inr (mem_read_word (fs_data fs) fb), ?fs)"
    using ne prev t lt link_caller.hyps(2) by (simp add: frame_pop_def Let_def)
  have "take fb (fs_data fs) = take fb ?d"
    using t by (metis add_leD1 min.absorb1 take_take)
  moreover have "length (fs_data fs) \<le> length ?d"
    using t by (metis length_take min.cobounded1)
  then have "fb \<le> length ?d" using t by linarith
  ultimately have "truncated vm cb ?fs"
    using t link_caller.hyps(2) by (simp add: truncated_def frames_ok_def min_absorb2)
  from link_caller.IH [OF this link_caller.prems(2)] obtain fs' where
    "unwind_to base ?fs = (Inr (), fs')" "truncated vm base fs'" by blast
  moreover have "unwind_to base fs = unwind_to base ?fs"
    using pop lt t by (subst unwind_to.simps) simp
  ultimately show ?case using lt by auto
qed

text \<open>
  A caught exception: the frame of the handler is current, its bytes are as they were but for the
  exception value in its slot, and execution continues at the target.
\<close>

lemma land_link:
  assumes link: "frame_link vm (fs_current_base (vm_frames vm)) base"
    and ok: "frames_ok (vm_frames vm)"
    and cur: "current_data_offset (vm_frames vm) \<le> length (fs_data (vm_frames vm))"
  shows "\<exists>vm'. land str_id target exc_off base vm = (Inr (), vm') \<and>
    vm_next_pc vm' = target \<and> fs_current_base (vm_frames vm') = base \<and> frames_ok (vm_frames vm') \<and>
    vm_heap vm' = vm_heap vm \<and> vm_mp vm' = vm_mp vm \<and>
    (let n = length (fs_data (vm_frames vm')); off = base + FRAME_HEADER_SIZE + exc_off in
      base + FRAME_HEADER_SIZE \<le> n \<and>
      take (base + FRAME_HEADER_SIZE) (fs_data (vm_frames vm')) =
        take (base + FRAME_HEADER_SIZE) (fs_data (vm_frames vm)) \<and>
      (off + 4 \<le> n \<longrightarrow> mem_read_word (fs_data (vm_frames vm')) off = str_id))"
proof -
  let ?d = "fs_data (vm_frames vm)"
  have limit: "length ?d < usize_limit" by (rule frames_ok_bound [OF ok])
  have "truncated vm (fs_current_base (vm_frames vm)) (vm_frames vm)"
    using ok cur by (simp add: truncated_def current_data_offset_def)
  from unwind_to_link [OF link this limit] obtain fs where
    u: "unwind_to base (vm_frames vm) = (Inr (), fs)" and t: "truncated vm base fs" by blast
  let ?off = "base + FRAME_HEADER_SIZE + exc_off"
  let ?vm = "vm\<lparr>vm_frames := fs, vm_next_pc := target\<rparr>"
  let ?vm' = "if ?off + 4 \<le> length (fs_data fs)
    then update_frame_data (\<lambda>d. mem_write_word d ?off str_id) ?vm else ?vm"
  have base: "current_data_offset fs = base + FRAME_HEADER_SIZE"
    using t by (simp add: truncated_def current_data_offset_def)
  have land: "land str_id target exc_off base vm = (Inr (), ?vm')"
    by (simp add: land_def u base Let_def)
  have header: "take (base + FRAME_HEADER_SIZE) (fs_data fs) = take (base + FRAME_HEADER_SIZE) ?d"
    using t unfolding truncated_def by (metis min.absorb1 take_take)
  have room: "base + FRAME_HEADER_SIZE \<le> length (fs_data fs)" "frames_ok fs"
    using t by (simp_all add: truncated_def)
  have "length (fs_data fs) < usize_limit" by (rule frames_ok_bound [OF room(2)])
  then have fits: "in_buf 4 (length (fs_data fs)) ?off" if "?off + 4 \<le> length (fs_data fs)"
    using that by (simp add: in_buf_iff)
  have "subrange 0 (base + FRAME_HEADER_SIZE) (mem_write_word (fs_data fs) ?off str_id) =
      subrange 0 (base + FRAME_HEADER_SIZE) (fs_data fs)"
    using room by (intro word_slot.put_frame) simp_all
  then have below: "take (base + FRAME_HEADER_SIZE) (mem_write_word (fs_data fs) ?off str_id) =
      take (base + FRAME_HEADER_SIZE) (fs_data fs)" by (simp add: subrange_def)
  show ?thesis
    using t room header below fits
    by (intro exI [of _ ?vm'])
      (auto simp: land update_frame_data_def truncated_def frames_ok_def Let_def
        word_slot.get_put_same)
qed

end
