(* ===== verification/Arith.thy ===== *)
theory Arith
  imports Exceptions "HOL-Library.Signed_Division"
begin

unbundle bit_operations_syntax

text \<open>
  The integer instructions of \<open>ops/arith.rs\<close> and \<open>ops/big.rs\<close>: arithmetic, bitwise operations,
  shifts and exponentiation on words (32-bit signed), bytes (8-bit unsigned) and bigs (64-bit
  signed). Each instruction is shown to compute what the same operation on the integers gives,
  wrapped to the width, with the division by zero raised as an exception.
\<close>

section \<open>Wrapping operations of Rust\<close>

definition wrapping_div :: "'a::len word \<Rightarrow> 'a word \<Rightarrow> 'a word" where
  "wrapping_div a b = word_of_int (sint a sdiv sint b)"

definition wrapping_rem :: "'a::len word \<Rightarrow> 'a word \<Rightarrow> 'a word" where
  "wrapping_rem a b = word_of_int (sint a smod sint b)"

text \<open>The shift amount is a \<open>u32\<close>, of which the bits above the width are ignored.\<close>

definition wrapping_shl :: "'a::len word \<Rightarrow> u32 \<Rightarrow> 'a word" where
  "wrapping_shl a n = push_bit (unat n mod LENGTH('a)) a"

definition wrapping_shr_signed :: "'a::len word \<Rightarrow> u32 \<Rightarrow> 'a word" where
  "wrapping_shr_signed a n = signed_drop_bit (unat n mod LENGTH('a)) a"

definition wrapping_shr_unsigned :: "'a::len word \<Rightarrow> u32 \<Rightarrow> 'a word" where
  "wrapping_shr_unsigned a n = drop_bit (unat n mod LENGTH('a)) a"

definition unsigned_abs :: "i32 \<Rightarrow> u32" where
  "unsigned_abs n = (if sint n < 0 then - n else n)"

definition ZERO_DIVIDE :: rstring where
  "ZERO_DIVIDE = rstr ''zero divide''"

section \<open>Word instructions\<close>

definition op_addw :: "unit vm" where
  "op_addw = sbind src_word (\<lambda>s. sbind mid_or_dst_word (\<lambda>m. set_dst_word (s + m)))"

definition op_subw :: "unit vm" where
  "op_subw = sbind src_word (\<lambda>s. sbind mid_or_dst_word (\<lambda>m. set_dst_word (m - s)))"

definition op_mulw :: "unit vm" where
  "op_mulw = sbind src_word (\<lambda>s. sbind mid_or_dst_word (\<lambda>m. set_dst_word (s * m)))"

definition op_divw :: "unit vm" where
  "op_divw = sbind src_word (\<lambda>s. sbind mid_or_dst_word (\<lambda>m.
    if s = 0 then raise_exception ZERO_DIVIDE else set_dst_word (wrapping_div m s)))"

definition op_modw :: "unit vm" where
  "op_modw = sbind src_word (\<lambda>s. sbind mid_or_dst_word (\<lambda>m.
    if s = 0 then raise_exception ZERO_DIVIDE else set_dst_word (wrapping_rem m s)))"

definition op_andw :: "unit vm" where
  "op_andw = sbind src_word (\<lambda>s. sbind mid_or_dst_word (\<lambda>m. set_dst_word (s AND m)))"

definition op_orw :: "unit vm" where
  "op_orw = sbind src_word (\<lambda>s. sbind mid_or_dst_word (\<lambda>m. set_dst_word (s OR m)))"

definition op_xorw :: "unit vm" where
  "op_xorw = sbind src_word (\<lambda>s. sbind mid_or_dst_word (\<lambda>m. set_dst_word (s XOR m)))"

definition op_shlw :: "unit vm" where
  "op_shlw = sbind src_word (\<lambda>s. sbind mid_or_dst_word (\<lambda>m. set_dst_word (wrapping_shl m s)))"

definition op_shrw :: "unit vm" where
  "op_shrw = sbind src_word (\<lambda>s. sbind mid_or_dst_word (\<lambda>m.
    set_dst_word (wrapping_shr_signed m s)))"

definition op_lsrw :: "unit vm" where
  "op_lsrw = sbind src_word (\<lambda>s. sbind mid_or_dst_word (\<lambda>m.
    set_dst_word (wrapping_shr_unsigned m s)))"

section \<open>Byte instructions\<close>

definition op_addb :: "unit vm" where
  "op_addb = sbind src_byte (\<lambda>s. sbind mid_or_dst_byte (\<lambda>m. set_dst_byte (s + m)))"

definition op_subb :: "unit vm" where
  "op_subb = sbind src_byte (\<lambda>s. sbind mid_or_dst_byte (\<lambda>m. set_dst_byte (m - s)))"

definition op_mulb :: "unit vm" where
  "op_mulb = sbind src_byte (\<lambda>s. sbind mid_or_dst_byte (\<lambda>m. set_dst_byte (s * m)))"

definition op_divb :: "unit vm" where
  "op_divb = sbind src_byte (\<lambda>s. sbind mid_or_dst_byte (\<lambda>m.
    if s = 0 then raise_exception ZERO_DIVIDE else set_dst_byte (m div s)))"

definition op_modb :: "unit vm" where
  "op_modb = sbind src_byte (\<lambda>s. sbind mid_or_dst_byte (\<lambda>m.
    if s = 0 then raise_exception ZERO_DIVIDE else set_dst_byte (m mod s)))"

definition op_andb :: "unit vm" where
  "op_andb = sbind src_byte (\<lambda>s. sbind mid_or_dst_byte (\<lambda>m. set_dst_byte (s AND m)))"

definition op_orb :: "unit vm" where
  "op_orb = sbind src_byte (\<lambda>s. sbind mid_or_dst_byte (\<lambda>m. set_dst_byte (s OR m)))"

definition op_xorb :: "unit vm" where
  "op_xorb = sbind src_byte (\<lambda>s. sbind mid_or_dst_byte (\<lambda>m. set_dst_byte (s XOR m)))"

definition op_shlb :: "unit vm" where
  "op_shlb = sbind src_byte (\<lambda>s. sbind mid_or_dst_byte (\<lambda>m.
    set_dst_byte (wrapping_shl m (ucast s))))"

definition op_shrb :: "unit vm" where
  "op_shrb = sbind src_byte (\<lambda>s. sbind mid_or_dst_byte (\<lambda>m.
    set_dst_byte (wrapping_shr_unsigned m (ucast s))))"

section \<open>Big instructions\<close>

definition op_addl :: "unit vm" where
  "op_addl = sbind src_big (\<lambda>s. sbind mid_or_dst_big (\<lambda>m. set_dst_big (s + m)))"

definition op_subl :: "unit vm" where
  "op_subl = sbind src_big (\<lambda>s. sbind mid_or_dst_big (\<lambda>m. set_dst_big (m - s)))"

definition op_mull :: "unit vm" where
  "op_mull = sbind src_big (\<lambda>s. sbind mid_or_dst_big (\<lambda>m. set_dst_big (s * m)))"

definition op_divl :: "unit vm" where
  "op_divl = sbind src_big (\<lambda>s. sbind mid_or_dst_big (\<lambda>m.
    if s = 0 then raise_exception ZERO_DIVIDE else set_dst_big (wrapping_div m s)))"

definition op_modl :: "unit vm" where
  "op_modl = sbind src_big (\<lambda>s. sbind mid_or_dst_big (\<lambda>m.
    if s = 0 then raise_exception ZERO_DIVIDE else set_dst_big (wrapping_rem m s)))"

definition op_andl :: "unit vm" where
  "op_andl = sbind src_big (\<lambda>s. sbind mid_or_dst_big (\<lambda>m. set_dst_big (s AND m)))"

definition op_orl :: "unit vm" where
  "op_orl = sbind src_big (\<lambda>s. sbind mid_or_dst_big (\<lambda>m. set_dst_big (s OR m)))"

definition op_xorl :: "unit vm" where
  "op_xorl = sbind src_big (\<lambda>s. sbind mid_or_dst_big (\<lambda>m. set_dst_big (s XOR m)))"

definition op_shll :: "unit vm" where
  "op_shll = sbind src_word (\<lambda>s. sbind mid_or_dst_big (\<lambda>m. set_dst_big (wrapping_shl m s)))"

definition op_shrl :: "unit vm" where
  "op_shrl = sbind src_word (\<lambda>s. sbind mid_or_dst_big (\<lambda>m.
    set_dst_big (wrapping_shr_signed m s)))"

definition op_lsrl :: "unit vm" where
  "op_lsrl = sbind src_word (\<lambda>s. sbind mid_or_dst_big (\<lambda>m.
    set_dst_big (wrapping_shr_unsigned m s)))"

section \<open>Exponentiation\<close>

lemma unat_drop_bit_div: "unat (drop_bit n w) = unat w div 2 ^ n"
  using unat_drop_bit_eq [of n w] unfolding drop_bit_eq_div [of n "unat w"] .

lemma odd_unat_and_one: "odd (unat w) \<longleftrightarrow> (w :: 'a::len word) AND 1 \<noteq> 0"
proof -
  have "odd (unat w) \<longleftrightarrow> bit w 0"
    using bit_unsigned_iff [of w 0, where ?'a = nat] by (simp add: bit_0)
  also have "\<dots> \<longleftrightarrow> w AND 1 \<noteq> 0"
    by (simp add: and_one_eq bit_0 odd_iff_mod_2_eq_one)
  finally show ?thesis .
qed

text \<open>The loop shared by \<open>op_expw\<close> and \<open>op_expl\<close>, at their two widths.\<close>

function exp_loop :: "u32 \<Rightarrow> 'a::len word \<Rightarrow> 'a word \<Rightarrow> 'a word" where
  "exp_loop e x r =
    (let r = (if e AND 1 \<noteq> 0 then r * x else r); e = drop_bit 1 e in
     if e = 0 then r else exp_loop e (x * x) r)"
  by pat_completeness auto
termination
proof (relation "measure (\<lambda>(e, x, r). unat e)", goal_cases)
  case 1
  show ?case by simp
next
  case (2 e x r ra ea)
  then have "unat ea = unat e div 2" using unat_drop_bit_div [of 1 e] by simp
  moreover have "unat ea \<noteq> 0" using 2 by (simp add: unat_eq_0)
  ultimately show ?case by simp
qed

declare exp_loop.simps [simp del]

definition op_expw :: "unit vm" where
  "op_expw = sbind src_word (\<lambda>n. sbind mid_or_dst_word (\<lambda>x.
    let r = exp_loop (unsigned_abs n) x 1;
        r = (if sint n < 0 then if r \<noteq> 0 then wrapping_div 1 r else 0 else r) in
    set_dst_word r))"

definition op_expl :: "unit vm" where
  "op_expl = sbind src_word (\<lambda>n. sbind mid_or_dst_big (\<lambda>x.
    let r = exp_loop (unsigned_abs n) x 1;
        r = (if sint n < 0 then if r \<noteq> 0 then wrapping_div 1 r else 0 else r) in
    set_dst_big r))"

section \<open>What the operations compute\<close>

lemma exp_loop_power: "exp_loop e x r = r * x ^ unat e"
proof (induction e x r rule: exp_loop.induct)
  case (1 e x r)
  let ?r = "if e AND 1 \<noteq> 0 then r * x else r" and ?e = "drop_bit 1 e"
  have half: "unat ?e = unat e div 2" using unat_drop_bit_div [of 1 e] by simp
  have odd: "e AND 1 \<noteq> 0 \<longleftrightarrow> odd (unat e)"
    by (simp only: odd_unat_and_one)
  have "?r * (x * x) ^ unat ?e = r * x ^ unat e"
  proof (cases "odd (unat e)")
    case True
    then have "unat e = Suc (2 * (unat e div 2))" by simp
    then have "x ^ unat e = x * (x * x) ^ (unat e div 2)"
      by (metis power_Suc power_mult power2_eq_square)
    moreover have "e AND 1 \<noteq> 0" using True odd by blast
    ultimately show ?thesis using half by (simp add: mult.assoc mult.left_commute)
  next
    case False
    then have "x ^ unat e = (x * x) ^ (unat e div 2)"
      by (metis even_two_times_div_two power2_eq_square power_mult)
    moreover have "\<not> e AND 1 \<noteq> 0" using False odd by blast
    ultimately show ?thesis using half by simp
  qed
  moreover have "exp_loop ?e (x * x) ?r = ?r * (x * x) ^ unat ?e" if "?e \<noteq> 0"
    using "1.IH" [OF refl refl that] .
  ultimately show ?case
    by (subst exp_loop.simps) (auto simp: Let_def)
qed

lemma wrapping_shl_int: "wrapping_shl a n = word_of_int (sint a * 2 ^ (unat n mod LENGTH('a)))"
  for a :: "'a::len word"
  by (simp add: wrapping_shl_def push_bit_eq_mult)

lemma wrapping_shr_signed_int:
  "wrapping_shr_signed a n = word_of_int (sint a div 2 ^ (unat n mod LENGTH('a)))"
  for a :: "'a::len word"
proof -
  let ?k = "unat n mod LENGTH('a)"
  have "word_of_int (sint (signed_drop_bit ?k a)) = signed_drop_bit ?k a" by simp
  then show ?thesis
    unfolding wrapping_shr_signed_def by (simp only: sint_signed_drop_bit_eq drop_bit_eq_div)
qed

lemma wrapping_shr_unsigned_nat:
  "unat (wrapping_shr_unsigned a n) = unat a div 2 ^ (unat n mod LENGTH('a))"
  for a :: "'a::len word"
  unfolding wrapping_shr_unsigned_def by (rule unat_drop_bit_div)

section \<open>The contract of a two-operand instruction\<close>

text \<open>
  A pure instruction reads its source and its second operand and stores a function of them;
  \<open>second\<close> is the middle operand, or the destination when there is none.
\<close>

definition second :: "(vm_state \<Rightarrow> addr_target \<Rightarrow> i32 \<Rightarrow> exec_error + 'a) \<Rightarrow> vm_state \<Rightarrow> exec_error + 'a" where
  "second rd vm = (if vm_mid vm = AT_None then rd vm (vm_dst vm) (vm_imm_dst vm)
    else rd vm (vm_mid vm) (vm_imm_mid vm))"

definition first :: "(vm_state \<Rightarrow> addr_target \<Rightarrow> i32 \<Rightarrow> exec_error + 'a) \<Rightarrow> vm_state \<Rightarrow> exec_error + 'a" where
  "first rd vm = rd vm (vm_src vm) (vm_imm_src vm)"

text \<open>
  \<open>computes op rd1 rd wr f\<close>: whatever the operands, \<open>op\<close> writes \<open>f\<close> of their values to the
  destination and does nothing else.
\<close>

definition computes ::
  "unit vm \<Rightarrow> (vm_state \<Rightarrow> addr_target \<Rightarrow> i32 \<Rightarrow> exec_error + 'b) \<Rightarrow>
    (vm_state \<Rightarrow> addr_target \<Rightarrow> i32 \<Rightarrow> exec_error + 'a) \<Rightarrow> (addr_target \<Rightarrow> 'a \<Rightarrow> unit vm) \<Rightarrow>
    ('b \<Rightarrow> 'a \<Rightarrow> 'a) \<Rightarrow> bool" where
  "computes op rd1 rd wr f \<longleftrightarrow> (\<forall>vm s m. first rd1 vm = Inr s \<longrightarrow> second rd vm = Inr m \<longrightarrow>
    op vm = wr (vm_dst vm) (f s m) vm)"

context target_access
begin

text \<open>So the result is stored where it fits, and only memory changes.\<close>

lemma computes_stores:
  assumes "computes op rd1 rd wr f" and "first rd1 vm = Inr s" and "second rd vm = Inr m"
    and "holds width vm (vm_dst vm)"
  shows "\<exists>vm'. op vm = (Inr (), vm') \<and> rd vm' (vm_dst vm) imm = Inr (f s m) \<and> only_memory vm vm'"
proof -
  have "vm_dst vm \<noteq> AT_Immediate" using assms(4) by (auto simp: holds_def)
  from wr_total [OF this] obtain vm' where wr: "wr (vm_dst vm) (f s m) vm = (Inr (), vm')" by blast
  moreover have "op vm = wr (vm_dst vm) (f s m) vm" using assms(1-3) by (simp add: computes_def)
  ultimately show ?thesis using rd_wr [OF assms(4) wr] wr_only_memory [OF wr] by metis
qed

lemma computes_immediate:
  assumes "computes op rd1 rd wr f" and "first rd1 vm = Inr s" and "second rd vm = Inr m"
    and "vm_dst vm = AT_Immediate"
  shows "op vm = (Inl (ExecOther (rstr ''cannot write to immediate'')), vm)"
  using assms wr_immediate by (simp add: computes_def)

end

lemmas operand_defs = src_word_def mid_word_def dst_word_def set_dst_word_def mid_or_dst_word_def
  src_byte_def mid_byte_def set_dst_byte_def mid_or_dst_byte_def
  src_big_def mid_big_def set_dst_big_def mid_or_dst_big_def

text \<open>The integer each word instruction computes, before it is wrapped to 32 bits.\<close>

definition word_results :: "(unit vm \<times> (int \<Rightarrow> int \<Rightarrow> int)) list" where
  "word_results =
    [(op_addw, \<lambda>s m. m + s), (op_subw, \<lambda>s m. m - s), (op_mulw, \<lambda>s m. m * s),
     (op_andw, \<lambda>s m. m AND s), (op_orw, \<lambda>s m. m OR s), (op_xorw, \<lambda>s m. m XOR s),
     (op_shlw, \<lambda>s m. m * 2 ^ nat (s mod 32)), (op_shrw, \<lambda>s m. m div 2 ^ nat (s mod 32)),
     (op_lsrw, \<lambda>s m. (m mod 2 ^ 32) div 2 ^ nat (s mod 32))]"

text \<open>The same for bytes, which are unsigned, and for bigs.\<close>

definition byte_results :: "(unit vm \<times> (int \<Rightarrow> int \<Rightarrow> int)) list" where
  "byte_results =
    [(op_addb, \<lambda>s m. m + s), (op_subb, \<lambda>s m. m - s), (op_mulb, \<lambda>s m. m * s),
     (op_andb, \<lambda>s m. m AND s), (op_orb, \<lambda>s m. m OR s), (op_xorb, \<lambda>s m. m XOR s),
     (op_shlb, \<lambda>s m. m * 2 ^ nat (s mod 8)), (op_shrb, \<lambda>s m. m div 2 ^ nat (s mod 8))]"

definition big_results :: "(unit vm \<times> (int \<Rightarrow> int \<Rightarrow> int)) list" where
  "big_results =
    [(op_addl, \<lambda>s m. m + s), (op_subl, \<lambda>s m. m - s), (op_mull, \<lambda>s m. m * s),
     (op_andl, \<lambda>s m. m AND s), (op_orl, \<lambda>s m. m OR s), (op_xorl, \<lambda>s m. m XOR s)]"

text \<open>The bigs whose second operand is a word.\<close>

definition big_word_results :: "(unit vm \<times> (int \<Rightarrow> int \<Rightarrow> int)) list" where
  "big_word_results =
    [(op_shll, \<lambda>s m. m * 2 ^ nat (s mod 64)), (op_shrl, \<lambda>s m. m div 2 ^ nat (s mod 64)),
     (op_lsrl, \<lambda>s m. (m mod 2 ^ 64) div 2 ^ nat (s mod 64))]"

lemma word_of_sint [simp]: "word_of_int (sint a) = a"
  by simp

lemma bitwise_int:
  "word_of_int (sint a AND sint b) = a AND b"
  "word_of_int (sint a OR sint b) = a OR b"
  "word_of_int (sint a XOR sint b) = a XOR b"
  by (rule bit_word_eqI, simp add: bit_simps bit_sint_iff)+

lemma bitwise_uint:
  "word_of_int (uint a AND uint b) = a AND b"
  "word_of_int (uint a OR uint b) = a OR b"
  "word_of_int (uint a XOR uint b) = a XOR b"
  by (rule bit_word_eqI, simp add: bit_simps bit_uint_iff)+

lemma shift_amount: "unat (n :: i32) mod 2 ^ k = nat (sint n mod 2 ^ k)" if "k \<le> 31"
proof -
  have "take_bit k (sint n) = take_bit k (uint n)"
    using that by (simp add: sint_uint take_bit_signed_take_bit)
  then show ?thesis
    by (simp add: take_bit_eq_mod nat_mod_distrib nat_power_eq flip: nat_uint_eq)
qed

lemma computesI:
  assumes "\<And>vm s m. first rd1 vm = Inr s \<Longrightarrow> second rd vm = Inr m \<Longrightarrow>
    op vm = wr (vm_dst vm) (f s m) vm"
  shows "computes op rd1 rd wr f"
  using assms by (simp add: computes_def)

lemma computes_cong: "computes op rd1 rd wr g \<Longrightarrow> (\<And>s m. g s m = f s m) \<Longrightarrow> computes op rd1 rd wr f"
  by (simp add: computes_def)

text \<open>The instruction patterns of the source, once for each type of value.\<close>

lemma computes_word: "computes (sbind src_word (\<lambda>s. sbind mid_or_dst_word (\<lambda>m. set_dst_word (f s m))))
    read_word_at read_word_at write_word_at f"
  by (auto simp: computes_def operand_defs first_def second_def sbind_def split: if_splits)

lemma computes_byte: "computes (sbind src_byte (\<lambda>s. sbind mid_or_dst_byte (\<lambda>m. set_dst_byte (f s m))))
    read_byte_at read_byte_at write_byte_at f"
  by (auto simp: computes_def operand_defs first_def second_def sbind_def split: if_splits)

lemma computes_big: "computes (sbind src_big (\<lambda>s. sbind mid_or_dst_big (\<lambda>m. set_dst_big (f s m))))
    read_big_at read_big_at write_big_at f"
  by (auto simp: computes_def operand_defs first_def second_def sbind_def split: if_splits)

lemma computes_big_word:
  "computes (sbind src_word (\<lambda>s. sbind mid_or_dst_big (\<lambda>m. set_dst_big (f s m))))
    read_word_at read_big_at write_big_at f"
  by (auto simp: computes_def operand_defs first_def second_def sbind_def split: if_splits)

lemma wrapping_shl_word: "wrapping_shl m s = word_of_int (sint m * 2 ^ nat (sint s mod 32))"
  for m s :: i32
  using shift_amount [of 5 s] by (simp add: wrapping_shl_int)

lemma wrapping_shr_word: "wrapping_shr_signed m s = word_of_int (sint m div 2 ^ nat (sint s mod 32))"
  for m s :: i32
  using shift_amount [of 5 s] by (simp add: wrapping_shr_signed_int)

lemma sint_mod_uint: "sint (m :: 'a::len word) mod 2 ^ LENGTH('a) = uint m"
  by (simp add: uint_sint take_bit_eq_mod)

lemma wrapping_lsr_int:
  "wrapping_shr_unsigned m n = word_of_int (uint m div 2 ^ (unat n mod LENGTH('a)))"
  for m :: "'a::len word"
proof -
  have "int (unat (wrapping_shr_unsigned m n)) = uint m div 2 ^ (unat n mod LENGTH('a))"
    by (simp add: wrapping_shr_unsigned_nat zdiv_int)
  then show ?thesis by (metis of_int_uint of_nat_unat word_of_int_uint uint_nat)
qed

lemmas big_word_shifts =
  wrapping_shl_int [where 'a = 64] wrapping_shr_signed_int [where 'a = 64] wrapping_lsr_int [where 'a = 64]

lemma shift_amount_64: "unat (n :: i32) mod 64 = nat (sint n mod 64)"
  using shift_amount [of 6 n] by simp

lemma shift_amount_byte: "unat (ucast (s :: u8) :: u32) mod 8 = nat (uint s mod 8)"
proof -
  have "unat (ucast s :: u32) = unat s"
    using unsigned_less [of s, where ?'a = nat]
    by (simp add: unsigned_ucast_eq take_bit_nat_eq_self)
  then show ?thesis by (simp add: nat_mod_distrib flip: nat_uint_eq)
qed

text \<open>A power by the exponent's magnitude, inverted when the exponent is negative.\<close>

lemma unat_of_int_u32: "0 \<le> k \<Longrightarrow> k < 4294967296 \<Longrightarrow> unat (word_of_int k :: u32) = nat k"
  by (simp add: unsigned_of_int take_bit_int_eq_self flip: nat_uint_eq)

lemma unsigned_abs_unat: "unat (unsigned_abs n) = nat \<bar>sint n\<bar>"
proof -
  have "unsigned_abs n = word_of_int \<bar>sint n\<bar>" by (simp add: unsigned_abs_def)
  moreover have "\<bar>sint n\<bar> < 4294967296" using sint32_bounds [of n] by linarith
  ultimately show ?thesis by (metis abs_ge_zero unat_of_int_u32)
qed

text \<open>
  The power of the source: the integer power wrapped to the width, and for a negative exponent the
  integer inverse of the wrapped power, zero when that is zero.
\<close>

definition exp_spec :: "int \<Rightarrow> int \<Rightarrow> 'a::len word" where
  "exp_spec n x =
    (if 0 \<le> n then word_of_int (x ^ nat n)
     else let r = word_of_int (x ^ nat (- n)) :: 'a word in
       if r = 0 then 0 else word_of_int (1 sdiv sint r))"

lemma exp_loop_abs: "exp_loop (unsigned_abs n) x 1 = word_of_int (sint x ^ nat \<bar>sint n\<bar>)"
  by (simp add: exp_loop_power unsigned_abs_unat)

lemma computes_expw: "computes op_expw read_word_at read_word_at write_word_at
    (\<lambda>n x. exp_spec (sint n) (sint x))"
  unfolding op_expw_def Let_def
  by (rule computes_cong [OF computes_word])
    (auto simp: exp_loop_abs exp_spec_def Let_def wrapping_div_def)

lemma computes_expl: "computes op_expl read_word_at read_big_at write_big_at
    (\<lambda>n x. exp_spec (sint n) (sint x))"
  unfolding op_expl_def Let_def
  by (rule computes_cong [OF computes_big_word])
    (auto simp: exp_loop_abs exp_spec_def Let_def wrapping_div_def)

section \<open>The instructions compute the integer operations\<close>

lemma computes_word_results:
  "(op, f) \<in> set word_results \<Longrightarrow>
    computes op read_word_at read_word_at write_word_at (\<lambda>s m. word_of_int (f (sint s) (sint m)))"
  unfolding word_results_def op_addw_def op_subw_def op_mulw_def op_andw_def op_orw_def op_xorw_def
    op_shlw_def op_shrw_def op_lsrw_def
  by (auto intro!: computes_cong [OF computes_word] simp: bitwise_int wrapping_shl_word wrapping_shr_word
      wrapping_lsr_int sint_mod_uint [where 'a = 32, simplified] shift_amount [of 5, simplified] ac_simps)

lemma computes_byte_results:
  "(op, f) \<in> set byte_results \<Longrightarrow>
    computes op read_byte_at read_byte_at write_byte_at (\<lambda>s m. word_of_int (f (uint s) (uint m)))"
  unfolding byte_results_def op_addb_def op_subb_def op_mulb_def op_andb_def op_orb_def op_xorb_def
    op_shlb_def op_shrb_def
  by (auto intro!: computes_cong [OF computes_byte] simp: bitwise_uint wrapping_lsr_int wrapping_shl_def
      push_bit_eq_mult shift_amount_byte ac_simps)

lemma computes_big_results:
  "(op, f) \<in> set big_results \<Longrightarrow>
    computes op read_big_at read_big_at write_big_at (\<lambda>s m. word_of_int (f (sint s) (sint m)))"
  unfolding big_results_def op_addl_def op_subl_def op_mull_def op_andl_def op_orl_def op_xorl_def
  by (auto intro!: computes_cong [OF computes_big] simp: bitwise_int ac_simps)

lemma computes_big_word_results:
  "(op, f) \<in> set big_word_results \<Longrightarrow>
    computes op read_word_at read_big_at write_big_at (\<lambda>s m. word_of_int (f (sint s) (sint m)))"
  unfolding big_word_results_def op_shll_def op_shrl_def op_lsrl_def
  by (auto intro!: computes_cong [OF computes_big_word] simp: big_word_shifts shift_amount_64
      sint_mod_uint [where 'a = 64, simplified])

section \<open>Division\<close>

text \<open>Every division and remainder, with its result for a divisor that is not zero.\<close>

lemma division_result:
  "first read_word_at vm = Inr s \<Longrightarrow> second read_word_at vm = Inr m \<Longrightarrow>
    op_divw vm = (if s = 0 then raise_exception ZERO_DIVIDE vm
      else write_word_at (vm_dst vm) (word_of_int (sint m sdiv sint s)) vm)"
  "first read_word_at vm = Inr s \<Longrightarrow> second read_word_at vm = Inr m \<Longrightarrow>
    op_modw vm = (if s = 0 then raise_exception ZERO_DIVIDE vm
      else write_word_at (vm_dst vm) (word_of_int (sint m smod sint s)) vm)"
  "first read_big_at vm = Inr s' \<Longrightarrow> second read_big_at vm = Inr m' \<Longrightarrow>
    op_divl vm = (if s' = 0 then raise_exception ZERO_DIVIDE vm
      else write_big_at (vm_dst vm) (word_of_int (sint m' sdiv sint s')) vm)"
  "first read_big_at vm = Inr s' \<Longrightarrow> second read_big_at vm = Inr m' \<Longrightarrow>
    op_modl vm = (if s' = 0 then raise_exception ZERO_DIVIDE vm
      else write_big_at (vm_dst vm) (word_of_int (sint m' smod sint s')) vm)"
  "first read_byte_at vm = Inr b \<Longrightarrow> second read_byte_at vm = Inr c \<Longrightarrow>
    op_divb vm = (if b = 0 then raise_exception ZERO_DIVIDE vm
      else write_byte_at (vm_dst vm) (c div b) vm)"
  "first read_byte_at vm = Inr b \<Longrightarrow> second read_byte_at vm = Inr c \<Longrightarrow>
    op_modb vm = (if b = 0 then raise_exception ZERO_DIVIDE vm
      else write_byte_at (vm_dst vm) (c mod b) vm)"
  by (auto simp: op_divw_def op_modw_def op_divl_def op_modl_def op_divb_def op_modb_def operand_defs
      first_def second_def sbind_def wrapping_div_def wrapping_rem_def split: if_splits)

end
