(* ===== verification/Compare.thy ===== *)
theory Compare
  imports Arith "HOL-Library.List_Lexorder"
begin

unbundle bit_operations_syntax

text \<open>
  The conditional branches of \<open>ops/compare.rs\<close>: words, reals, bigs, bytes and strings. A
  branch is taken exactly when the values of its operands stand in the relation of its name:
  signed integers for words and bigs, unsigned for bytes, the order of the numbers an \<open>f64\<close>
  encodes for reals (with no relation but \<open>!=\<close> holding for a NaN), and for strings the order
  of their bytes, which is the order of their characters.
\<close>

section \<open>Comparing \<open>f64\<close>s\<close>

text \<open>
  Rust's comparisons of two \<open>f64\<close>s, on their bit patterns: nothing compares to a NaN, the two
  zeros are equal, and otherwise the patterns order as sign and magnitude.
\<close>

definition f64_magnitude :: "f64_bits \<Rightarrow> nat" where
  "f64_magnitude b = unat b mod 9223372036854775808"

definition f64_negative :: "f64_bits \<Rightarrow> bool" where
  "f64_negative b \<longleftrightarrow> 9223372036854775808 \<le> unat b"

definition f64_is_nan :: "f64_bits \<Rightarrow> bool" where
  "f64_is_nan b \<longleftrightarrow> 9218868437227405312 < f64_magnitude b"

definition f64_key :: "f64_bits \<Rightarrow> int" where
  "f64_key b = (if f64_negative b then - int (f64_magnitude b) else int (f64_magnitude b))"

definition f64_eq :: "f64_bits \<Rightarrow> f64_bits \<Rightarrow> bool" where
  "f64_eq a b \<longleftrightarrow> \<not> f64_is_nan a \<and> \<not> f64_is_nan b \<and> f64_key a = f64_key b"

definition f64_lt :: "f64_bits \<Rightarrow> f64_bits \<Rightarrow> bool" where
  "f64_lt a b \<longleftrightarrow> \<not> f64_is_nan a \<and> \<not> f64_is_nan b \<and> f64_key a < f64_key b"

definition f64_le :: "f64_bits \<Rightarrow> f64_bits \<Rightarrow> bool" where
  "f64_le a b \<longleftrightarrow> \<not> f64_is_nan a \<and> \<not> f64_is_nan b \<and> f64_key a \<le> f64_key b"

text \<open>
  The number an \<open>f64\<close> encodes, in units of the smallest positive one, \<open>2 ^ - 1074\<close>; the
  infinities get the value that their exponent would give.
\<close>

definition f64_scaled :: "f64_bits \<Rightarrow> int" where
  "f64_scaled b =
    (let e = f64_magnitude b div 4503599627370496; f = f64_magnitude b mod 4503599627370496;
         m = (if e = 0 then f else (4503599627370496 + f) * 2 ^ (e - 1)) in
     if f64_negative b then - int m else int m)"

definition magnitude_value :: "nat \<Rightarrow> nat" where
  "magnitude_value k =
    (let e = k div 4503599627370496; f = k mod 4503599627370496 in
     if e = 0 then f else (4503599627370496 + f) * 2 ^ (e - 1))"

lemma f64_scaled_magnitude:
  "f64_scaled b = (if f64_negative b then - int (magnitude_value (f64_magnitude b))
    else int (magnitude_value (f64_magnitude b)))"
  by (simp add: f64_scaled_def magnitude_value_def Let_def)

lemma magnitude_value_bounds:
  assumes "k div 4503599627370496 = Suc e"
  shows "4503599627370496 * 2 ^ e \<le> magnitude_value k" "magnitude_value k < 4503599627370496 * 2 ^ Suc e"
proof -
  have "magnitude_value k = (4503599627370496 + k mod 4503599627370496) * 2 ^ e"
    using assms by (simp add: magnitude_value_def)
  moreover have "k mod 4503599627370496 < (4503599627370496 :: nat)" by simp
  ultimately show "4503599627370496 * 2 ^ e \<le> magnitude_value k"
    "magnitude_value k < 4503599627370496 * 2 ^ Suc e" by auto
qed

lemma magnitude_value_mono_step:
  assumes "i div 4503599627370496 < j div (4503599627370496 :: nat)"
  shows "magnitude_value i < magnitude_value j"
proof -
  obtain e where e: "j div 4503599627370496 = Suc e"
    using assms by (metis less_imp_Suc_add)
  note hi = magnitude_value_bounds(1) [OF e]
  show ?thesis
  proof (cases "i div 4503599627370496")
    case 0
    then have "magnitude_value i < 4503599627370496"
      by (simp add: magnitude_value_def)
    also have "\<dots> \<le> 4503599627370496 * 2 ^ e" by simp
    finally show ?thesis using hi by linarith
  next
    case (Suc d)
    with assms e have "Suc d \<le> e" by simp
    then have "(2 :: nat) ^ Suc d \<le> 2 ^ e" by (rule power_increasing) simp
    then show ?thesis using magnitude_value_bounds(2) [OF Suc] hi by linarith
  qed
qed

lemma magnitude_value_strict: "i < j \<Longrightarrow> magnitude_value i < magnitude_value j"
proof -
  assume less: "i < j"
  then have "i div 4503599627370496 \<le> j div 4503599627370496" by (intro div_le_mono) simp
  then consider "i div 4503599627370496 < j div (4503599627370496 :: nat)"
    | "i div 4503599627370496 = j div (4503599627370496 :: nat)" by linarith
  then show ?thesis
  proof cases
    case 1
    then show ?thesis by (rule magnitude_value_mono_step)
  next
    case 2
    with less have "i mod 4503599627370496 < j mod 4503599627370496"
      by (metis mod_less_eq_dividend mult_div_mod_eq nat_add_left_cancel_less)
    with 2 less show ?thesis by (simp add: magnitude_value_def Let_def)
  qed
qed

lemma strict_nat_iff:
  fixes f :: "nat \<Rightarrow> nat"
  assumes "\<And>i j. i < j \<Longrightarrow> f i < f j"
  shows "f i < f j \<longleftrightarrow> i < j" "f i = f j \<longleftrightarrow> i = j"
  using assms [of i j] assms [of j i] by (cases i j rule: linorder_cases; simp)+

lemmas magnitude_value_less = strict_nat_iff [of magnitude_value, OF magnitude_value_strict]

lemma magnitude_value_0 [simp]: "magnitude_value 0 = 0"
  by (simp add: magnitude_value_def)

lemma magnitude_value_eq_0: "magnitude_value k = 0 \<longleftrightarrow> k = 0"
  using magnitude_value_less(2) [of k 0] by simp

lemma int_eq_neg_int:
  "int i = - int j \<longleftrightarrow> i = 0 \<and> j = 0" "- int i = int j \<longleftrightarrow> i = 0 \<and> j = 0"
  by auto

lemma f64_key_value:
  "f64_key a < f64_key b \<longleftrightarrow> f64_scaled a < f64_scaled b"
  "f64_key a = f64_key b \<longleftrightarrow> f64_scaled a = f64_scaled b"
proof -
  let ?v = magnitude_value and ?i = "f64_magnitude a" and ?j = "f64_magnitude b"
  have "?v ?i < ?v ?j \<longleftrightarrow> ?i < ?j" "?v ?j < ?v ?i \<longleftrightarrow> ?j < ?i" "?v ?i = ?v ?j \<longleftrightarrow> ?i = ?j"
    "?v ?i = 0 \<longleftrightarrow> ?i = 0" "?v ?j = 0 \<longleftrightarrow> ?j = 0"
    by (simp_all add: magnitude_value_less magnitude_value_eq_0)
  then show "f64_key a < f64_key b \<longleftrightarrow> f64_scaled a < f64_scaled b"
    "f64_key a = f64_key b \<longleftrightarrow> f64_scaled a = f64_scaled b"
    unfolding f64_key_def f64_scaled_magnitude by (auto simp: int_eq_neg_int)
qed

lemma f64_compare_value:
  assumes "\<not> f64_is_nan a" and "\<not> f64_is_nan b"
  shows "f64_eq a b \<longleftrightarrow> f64_scaled a = f64_scaled b"
    and "f64_lt a b \<longleftrightarrow> f64_scaled a < f64_scaled b"
    and "f64_le a b \<longleftrightarrow> f64_scaled a \<le> f64_scaled b"
  using assms f64_key_value [of a b]
  by (auto simp: f64_eq_def f64_lt_def f64_le_def order_le_less)

section \<open>Comparing strings\<close>

text \<open>\<open>str\<close> compares the bytes of its UTF-8 encoding, in lexicographic order.\<close>

definition str_lt :: "rstring \<Rightarrow> rstring \<Rightarrow> bool" where
  "str_lt s m \<longleftrightarrow> as_bytes s < as_bytes m"

definition str_le :: "rstring \<Rightarrow> rstring \<Rightarrow> bool" where
  "str_le s m \<longleftrightarrow> as_bytes s \<le> as_bytes m"

text \<open>The encoding keeps the order: of two characters at the first difference, the bytes decide.\<close>

lemma byte_less: "i < 256 \<Longrightarrow> j < 256 \<Longrightarrow> byte i < byte j \<longleftrightarrow> i < j"
  by (simp add: word_less_nat_alt)

lemma byte_inj: "i < 256 \<Longrightarrow> j < 256 \<Longrightarrow> byte i = byte j \<longleftrightarrow> i = j"
  by (metis unat_byte)

definition utf8_width :: "rchar \<Rightarrow> nat" where
  "utf8_width c = (if c < 128 then 1 else if c < 2048 then 2 else if c < 65536 then 3 else 4)"

definition utf8_lead :: "rchar \<Rightarrow> nat" where
  "utf8_lead c = (if c < 128 then c else if c < 2048 then 192 + c div 64
    else if c < 65536 then 224 + c div 4096 else 240 + c div 262144)"

lemma char_utf8_lead: "\<exists>t. char_utf8 c = byte (utf8_lead c) # t"
  by (auto simp: char_utf8_def utf8_lead_def)

lemma utf8_lead_less:
  assumes "c < d" and "d < 1114112" and "utf8_width c \<noteq> utf8_width d"
  shows "utf8_lead c < utf8_lead d"
proof -
  have "i < 2048 \<Longrightarrow> i div 64 < 32" "i < 65536 \<Longrightarrow> i div 4096 < 16" for i :: nat
    by (simp_all add: less_mult_imp_div_less)
  note bounds = this [of c] this [of d]
  consider "c < 128" "128 \<le> d" | "128 \<le> c" "c < 2048" "2048 \<le> d" | "2048 \<le> c" "c < 65536" "65536 \<le> d"
    using assms(1,3) unfolding utf8_width_def by (smt (verit) not_le order.strict_trans)
  then show ?thesis
    by cases (use bounds in \<open>auto simp: utf8_lead_def\<close>)
qed

lemma utf8_lead_byte: "d < 1114112 \<Longrightarrow> utf8_lead d < 256"
proof -
  assume "d < 1114112"
  then have "d < 2048 \<Longrightarrow> d div 64 < 32" "d < 65536 \<Longrightarrow> d div 4096 < 16" "d div 262144 < 5"
    by (simp_all add: less_mult_imp_div_less)
  then show ?thesis by (auto simp: utf8_lead_def)
qed

text \<open>Numbers in base 64 compare by their digits.\<close>

lemma base64_less:
  "i < j \<longleftrightarrow> i div 64 < j div 64 \<or> i div 64 = j div 64 \<and> i mod 64 < j mod (64 :: nat)"
proof -
  have "i = 64 * (i div 64) + i mod 64" "j = 64 * (j div 64) + j mod 64"
    "i mod 64 < 64" "j mod 64 < 64" by simp_all
  then show ?thesis by linarith
qed

lemma continuation_byte:
  "byte (128 + i mod 64) < byte (128 + j mod 64) \<longleftrightarrow> i mod 64 < j mod 64"
  "byte (128 + i mod 64) = byte (128 + j mod 64) \<longleftrightarrow> i mod 64 = j mod 64"
proof -
  have "128 + i mod 64 < 256" "128 + j mod 64 < 256" using mod_less_divisor [of 64] by (simp_all add: trans_less_add1)
  then show "byte (128 + i mod 64) < byte (128 + j mod 64) \<longleftrightarrow> i mod 64 < j mod 64"
    "byte (128 + i mod 64) = byte (128 + j mod 64) \<longleftrightarrow> i mod 64 = j mod 64"
    by (simp_all add: byte_less byte_inj)
qed

lemma char_utf8_less_same_width:
  assumes "c < d" and "d < 1114112" and "utf8_width c = utf8_width d"
  shows "char_utf8 c @ x < char_utf8 d @ y"
proof -
  have div64: "c div 4096 = c div 64 div 64" "d div 4096 = d div 64 div 64"
    "c div 262144 = c div 64 div 64 div 64" "d div 262144 = d div 64 div 64 div 64"
    by (simp_all add: div_mult2_eq [symmetric])
  have lead: "utf8_lead c < 256" "utf8_lead d < 256"
    using assms(1,2) by (simp_all add: utf8_lead_byte)
  have bytes: "byte i < byte j \<longleftrightarrow> i < j" "byte i = byte j \<longleftrightarrow> i = j"
    if "i = utf8_lead c" "j = utf8_lead d" for i j
    using lead that by (simp_all add: byte_less byte_inj)
  consider "c < 128" "d < 128" | "128 \<le> c" "c < 2048" "128 \<le> d" "d < 2048"
    | "2048 \<le> c" "c < 65536" "2048 \<le> d" "d < 65536" | "65536 \<le> c" "65536 \<le> d"
    using assms(3) unfolding utf8_width_def by (smt (verit) not_le numeral_eq_iff one_eq_numeral_iff semiring_norm)
  then show ?thesis
  proof cases
    case 1
    with bytes [of c d] assms(1) show ?thesis by (simp add: char_utf8_def utf8_lead_def)
  next
    case 2
    with bytes [of "192 + c div 64" "192 + d div 64"] assms(1) show ?thesis
      by (simp add: char_utf8_def utf8_lead_def continuation_byte base64_less [of c d]) blast
  next
    case 3
    with bytes [of "224 + c div 4096" "224 + d div 4096"] assms(1) show ?thesis
      by (simp add: char_utf8_def utf8_lead_def continuation_byte div64 base64_less [of c d]
          base64_less [of "c div 64" "d div 64"])
        auto
  next
    case 4
    with bytes [of "240 + c div 262144" "240 + d div 262144"] assms(1) show ?thesis
      by (simp add: char_utf8_def utf8_lead_def continuation_byte div64 base64_less [of c d]
          base64_less [of "c div 64" "d div 64"] base64_less [of "c div 64 div 64" "d div 64 div 64"])
        auto
  qed
qed

lemma char_utf8_less:
  assumes "c < d" and "d < 1114112"
  shows "char_utf8 c @ x < char_utf8 d @ y"
proof (cases "utf8_width c = utf8_width d")
  case True
  with assms show ?thesis by (rule char_utf8_less_same_width)
next
  case False
  moreover obtain t u where "char_utf8 c = byte (utf8_lead c) # t" "char_utf8 d = byte (utf8_lead d) # u"
    using char_utf8_lead by blast
  ultimately show ?thesis
    using assms utf8_lead_less [OF assms] by (simp add: byte_less utf8_lead_byte)
qed

lemma list_less_append_same: "(xs @ ys < xs @ zs) \<longleftrightarrow> (ys < zs)" for xs :: "'a::order list"
  by (induction xs) auto

lemma str_lt_characters:
  "list_all scalar s \<Longrightarrow> list_all scalar m \<Longrightarrow> str_lt s m \<longleftrightarrow> s < m"
proof (induction s arbitrary: m)
  case Nil
  then show ?case
    using char_utf8_lead by (cases m) (auto simp: str_lt_def as_bytes_def Cons_eq_append_conv, metis append_Cons Nil_less_Cons)
next
  case (Cons c s)
  show ?case
  proof (cases m)
    case m: (Cons d m')
    have less: "c < 1114112" "d < 1114112" using Cons.prems m by (auto simp: scalar_def)
    consider "c < d" | "c = d" | "d < c" by linarith
    then show ?thesis
    proof cases
      case 1
      with less char_utf8_less m show ?thesis by (simp add: str_lt_def as_bytes_def)
    next
      case 2
      with Cons m show ?thesis by (simp add: str_lt_def as_bytes_def list_less_append_same)
    next
      case 3
      from char_utf8_less [OF this less(1)] have "\<not> as_bytes (c # s) < as_bytes (d # m')"
        unfolding as_bytes_def list.map concat.simps by (rule less_not_sym)
      with 3 m show ?thesis by (simp add: str_lt_def)
    qed
  qed (simp add: str_lt_def as_bytes_def)
qed

section \<open>The branches\<close>

definition branch_when :: "bool \<Rightarrow> unit vm" where
  "branch_when b = (if b then sbind dst_word (\<lambda>t. updates (\<lambda>vm. vm\<lparr>vm_next_pc := i32_as_usize t\<rparr>))
    else ret ())"

subsection \<open>Words\<close>

definition op_beqw :: "unit vm" where
  "op_beqw = sbind src_word (\<lambda>s. sbind mid_word (\<lambda>m. branch_when (s = m)))"

definition op_bnew :: "unit vm" where
  "op_bnew = sbind src_word (\<lambda>s. sbind mid_word (\<lambda>m. branch_when (s \<noteq> m)))"

definition op_bltw :: "unit vm" where
  "op_bltw = sbind src_word (\<lambda>s. sbind mid_word (\<lambda>m. branch_when (s <s m)))"

definition op_blew :: "unit vm" where
  "op_blew = sbind src_word (\<lambda>s. sbind mid_word (\<lambda>m. branch_when (s <=s m)))"

definition op_bgtw :: "unit vm" where
  "op_bgtw = sbind src_word (\<lambda>s. sbind mid_word (\<lambda>m. branch_when (m <s s)))"

definition op_bgew :: "unit vm" where
  "op_bgew = sbind src_word (\<lambda>s. sbind mid_word (\<lambda>m. branch_when (m <=s s)))"

subsection \<open>Reals\<close>

definition op_beqf :: "unit vm" where
  "op_beqf = sbind src_real (\<lambda>s. sbind mid_real (\<lambda>m. branch_when (f64_eq s m)))"

definition op_bnef :: "unit vm" where
  "op_bnef = sbind src_real (\<lambda>s. sbind mid_real (\<lambda>m. branch_when (\<not> f64_eq s m)))"

definition op_bltf :: "unit vm" where
  "op_bltf = sbind src_real (\<lambda>s. sbind mid_real (\<lambda>m. branch_when (f64_lt s m)))"

definition op_blef :: "unit vm" where
  "op_blef = sbind src_real (\<lambda>s. sbind mid_real (\<lambda>m. branch_when (f64_le s m)))"

definition op_bgtf :: "unit vm" where
  "op_bgtf = sbind src_real (\<lambda>s. sbind mid_real (\<lambda>m. branch_when (f64_lt m s)))"

definition op_bgef :: "unit vm" where
  "op_bgef = sbind src_real (\<lambda>s. sbind mid_real (\<lambda>m. branch_when (f64_le m s)))"

subsection \<open>Bigs\<close>

definition op_beql :: "unit vm" where
  "op_beql = sbind src_big (\<lambda>s. sbind mid_big (\<lambda>m. branch_when (s = m)))"

definition op_bnel :: "unit vm" where
  "op_bnel = sbind src_big (\<lambda>s. sbind mid_big (\<lambda>m. branch_when (s \<noteq> m)))"

definition op_bltl :: "unit vm" where
  "op_bltl = sbind src_big (\<lambda>s. sbind mid_big (\<lambda>m. branch_when (s <s m)))"

definition op_blel :: "unit vm" where
  "op_blel = sbind src_big (\<lambda>s. sbind mid_big (\<lambda>m. branch_when (s <=s m)))"

definition op_bgtl :: "unit vm" where
  "op_bgtl = sbind src_big (\<lambda>s. sbind mid_big (\<lambda>m. branch_when (m <s s)))"

definition op_bgel :: "unit vm" where
  "op_bgel = sbind src_big (\<lambda>s. sbind mid_big (\<lambda>m. branch_when (m <=s s)))"

subsection \<open>Bytes\<close>

definition op_beqb :: "unit vm" where
  "op_beqb = sbind src_byte (\<lambda>s. sbind mid_byte (\<lambda>m. branch_when (s = m)))"

definition op_bneb :: "unit vm" where
  "op_bneb = sbind src_byte (\<lambda>s. sbind mid_byte (\<lambda>m. branch_when (s \<noteq> m)))"

definition op_bltb :: "unit vm" where
  "op_bltb = sbind src_byte (\<lambda>s. sbind mid_byte (\<lambda>m. branch_when (s < m)))"

definition op_bleb :: "unit vm" where
  "op_bleb = sbind src_byte (\<lambda>s. sbind mid_byte (\<lambda>m. branch_when (s \<le> m)))"

definition op_bgtb :: "unit vm" where
  "op_bgtb = sbind src_byte (\<lambda>s. sbind mid_byte (\<lambda>m. branch_when (m < s)))"

definition op_bgeb :: "unit vm" where
  "op_bgeb = sbind src_byte (\<lambda>s. sbind mid_byte (\<lambda>m. branch_when (m \<le> s)))"

subsection \<open>Strings\<close>

text \<open>A value that is not a string on the heap, such as nil, compares as the empty one.\<close>

definition get_str_pair_src_mid :: "(rstring \<times> rstring) vm" where
  "get_str_pair_src_mid = sbind src_word (\<lambda>s_id. sbind mid_word (\<lambda>m_id.
    reads (\<lambda>vm. (unwrap_or [] (get_string (vm_heap vm) s_id), unwrap_or [] (get_string (vm_heap vm) m_id)))))"

definition op_beqc :: "unit vm" where
  "op_beqc = sbind get_str_pair_src_mid (\<lambda>(s, m). branch_when (s = m))"

definition op_bnec :: "unit vm" where
  "op_bnec = sbind get_str_pair_src_mid (\<lambda>(s, m). branch_when (s \<noteq> m))"

definition op_bltc :: "unit vm" where
  "op_bltc = sbind get_str_pair_src_mid (\<lambda>(s, m). branch_when (str_lt s m))"

definition op_blec :: "unit vm" where
  "op_blec = sbind get_str_pair_src_mid (\<lambda>(s, m). branch_when (str_le s m))"

definition op_bgtc :: "unit vm" where
  "op_bgtc = sbind get_str_pair_src_mid (\<lambda>(s, m). branch_when (str_lt m s))"

definition op_bgec :: "unit vm" where
  "op_bgec = sbind get_str_pair_src_mid (\<lambda>(s, m). branch_when (str_le m s))"

section \<open>What a branch does\<close>

text \<open>
  \<open>branches op rd P\<close>: whatever its operands, \<open>op\<close> continues at its destination when \<open>P\<close> holds of
  their values, and does nothing otherwise.
\<close>

definition branches ::
  "unit vm \<Rightarrow> (vm_state \<Rightarrow> addr_target \<Rightarrow> i32 \<Rightarrow> exec_error + 'a) \<Rightarrow> ('a \<Rightarrow> 'a \<Rightarrow> bool) \<Rightarrow> bool" where
  "branches op rd P \<longleftrightarrow> (\<forall>vm s m t.
    rd vm (vm_src vm) (vm_imm_src vm) = Inr s \<longrightarrow> rd vm (vm_mid vm) (vm_imm_mid vm) = Inr m \<longrightarrow>
    read_word_at vm (vm_dst vm) (vm_imm_dst vm) = Inr t \<longrightarrow>
    op vm = (Inr (), if P s m then vm\<lparr>vm_next_pc := i32_as_usize t\<rparr> else vm))"

lemmas branch_defs = branches_def branch_when_def operand_defs src_real_def mid_real_def sm_run

lemma branches_word: "branches (sbind src_word (\<lambda>s. sbind mid_word (\<lambda>m. branch_when (P s m)))) read_word_at P"
  by (auto simp: branch_defs sbind_def)

lemma branches_byte: "branches (sbind src_byte (\<lambda>s. sbind mid_byte (\<lambda>m. branch_when (P s m)))) read_byte_at P"
  by (auto simp: branch_defs sbind_def)

lemma branches_big: "branches (sbind src_big (\<lambda>s. sbind mid_big (\<lambda>m. branch_when (P s m)))) read_big_at P"
  by (auto simp: branch_defs sbind_def)

lemma branches_real: "branches (sbind src_real (\<lambda>s. sbind mid_real (\<lambda>m. branch_when (P s m)))) read_real_at P"
  by (auto simp: branch_defs sbind_def)

text \<open>The string at an operand, as the string branches read it.\<close>

definition read_string_at :: "vm_state \<Rightarrow> addr_target \<Rightarrow> i32 \<Rightarrow> exec_error + rstring" where
  "read_string_at vm target imm =
    map_sum (\<lambda>e. e) (\<lambda>hid. unwrap_or [] (get_string (vm_heap vm) hid)) (read_word_at vm target imm)"

lemma branches_string:
  "branches (sbind get_str_pair_src_mid (\<lambda>(s, m). branch_when (P s m))) read_string_at P"
proof -
  have "(\<exists>v. x = Inr v \<and> f v = y) \<longleftrightarrow> map_sum (\<lambda>e. e) f x = Inr y" for x :: "exec_error + i32" and f y
    by (cases x) auto
  then show ?thesis
    unfolding branches_def read_string_at_def
    by (auto simp: get_str_pair_src_mid_def branch_when_def operand_defs sm_run sbind_def
        split: sum.splits)
qed

section \<open>The relation of each branch\<close>

text \<open>The relation each branch tests, on the integers its operands stand for.\<close>

definition word_branches :: "(unit vm \<times> (int \<Rightarrow> int \<Rightarrow> bool)) list" where
  "word_branches =
    [(op_beqw, (=)),
     (op_bnew, (\<noteq>)),
     (op_bltw, (<)),
     (op_blew, (\<le>)),
     (op_bgtw, (>)),
     (op_bgew, (\<ge>))]"

definition big_branches :: "(unit vm \<times> (int \<Rightarrow> int \<Rightarrow> bool)) list" where
  "big_branches =
    [(op_beql, (=)),
     (op_bnel, (\<noteq>)),
     (op_bltl, (<)),
     (op_blel, (\<le>)),
     (op_bgtl, (>)),
     (op_bgel, (\<ge>))]"

definition byte_branches :: "(unit vm \<times> (int \<Rightarrow> int \<Rightarrow> bool)) list" where
  "byte_branches =
    [(op_beqb, (=)),
     (op_bneb, (\<noteq>)),
     (op_bltb, (<)),
     (op_bleb, (\<le>)),
     (op_bgtb, (>)),
     (op_bgeb, (\<ge>))]"

text \<open>For reals the numbers are scaled integers, and \<open>bnef\<close> alone is taken on a NaN.\<close>

definition real_branches :: "(unit vm \<times> (int \<Rightarrow> int \<Rightarrow> bool)) list" where
  "real_branches =
    [(op_beqf, (=)),
     (op_bnef, (\<noteq>)),
     (op_bltf, (<)),
     (op_blef, (\<le>)),
     (op_bgtf, (>)),
     (op_bgef, (\<ge>))]"

definition string_branches :: "(unit vm \<times> (rstring \<Rightarrow> rstring \<Rightarrow> bool)) list" where
  "string_branches =
    [(op_beqc, (=)),
     (op_bnec, (\<noteq>)),
     (op_bltc, (<)),
     (op_blec, (\<le>)),
     (op_bgtc, (>)),
     (op_bgec, (\<ge>))]"

lemma branches_cong: "branches op rd P \<Longrightarrow> (\<And>s m. P s m = Q s m) \<Longrightarrow> branches op rd Q"
  by (simp add: branches_def)

lemma branches_word_relation:
  "(op, P) \<in> set word_branches \<Longrightarrow> branches op read_word_at (\<lambda>s m. P (sint s) (sint m))"
  unfolding word_branches_def op_beqw_def op_bnew_def op_bltw_def op_blew_def op_bgtw_def op_bgew_def
  by (auto intro!: branches_cong [OF branches_word] simp: word_sless_alt word_sle_eq signed_word_eqI)

lemma branches_big_relation:
  "(op, P) \<in> set big_branches \<Longrightarrow> branches op read_big_at (\<lambda>s m. P (sint s) (sint m))"
  unfolding big_branches_def op_beql_def op_bnel_def op_bltl_def op_blel_def op_bgtl_def op_bgel_def
  by (auto intro!: branches_cong [OF branches_big] simp: word_sless_alt word_sle_eq signed_word_eqI)

lemma branches_byte_relation:
  "(op, P) \<in> set byte_branches \<Longrightarrow> branches op read_byte_at (\<lambda>s m. P (uint s) (uint m))"
  unfolding byte_branches_def op_beqb_def op_bneb_def op_bltb_def op_bleb_def op_bgtb_def op_bgeb_def
  by (auto intro!: branches_cong [OF branches_byte] simp: word_less_def word_le_def word_uint_eq_iff)

lemma f64_nan_compare:
  assumes "f64_is_nan a \<or> f64_is_nan b"
  shows "\<not> f64_eq a b" and "\<not> f64_lt a b" and "\<not> f64_le a b"
  using assms by (auto simp: f64_eq_def f64_lt_def f64_le_def)

definition real_relation :: "(int \<Rightarrow> int \<Rightarrow> bool) \<Rightarrow> f64_bits \<Rightarrow> f64_bits \<Rightarrow> bool" where
  "real_relation P s m \<longleftrightarrow>
    (if f64_is_nan s \<or> f64_is_nan m then P = (\<noteq>) else P (f64_scaled s) (f64_scaled m))"

lemma real_relation_cases:
  "f64_eq = real_relation (=)" "(\<lambda>s m. \<not> f64_eq s m) = real_relation (\<noteq>)"
  "f64_lt = real_relation (<)" "f64_le = real_relation (\<le>)"
  "(\<lambda>s m. f64_lt m s) = real_relation (>)" "(\<lambda>s m. f64_le m s) = real_relation (\<ge>)"
proof -
  have rel: "P \<noteq> (\<noteq>)" if "P 0 0 \<or> \<not> P (0 :: int) 1 \<or> \<not> P 1 0" for P :: "int \<Rightarrow> int \<Rightarrow> bool"
    using that by auto
  note [simp] = rel [of "(=)", simplified] rel [of "(<)", simplified] rel [of "(\<le>)", simplified]
    rel [of "(>)", simplified] rel [of "(\<ge>)", simplified]
  show "f64_eq = real_relation (=)" "(\<lambda>s m. \<not> f64_eq s m) = real_relation (\<noteq>)"
    "f64_lt = real_relation (<)" "f64_le = real_relation (\<le>)"
    "(\<lambda>s m. f64_lt m s) = real_relation (>)" "(\<lambda>s m. f64_le m s) = real_relation (\<ge>)"
    by (intro ext; auto simp: real_relation_def f64_nan_compare f64_compare_value)+
qed

lemma branches_real_relation:
  "(op, P) \<in> set real_branches \<Longrightarrow> branches op read_real_at (real_relation P)"
  unfolding real_branches_def op_beqf_def op_bnef_def op_bltf_def op_blef_def op_bgtf_def op_bgef_def
  by (auto simp flip: real_relation_cases intro: branches_real)

text \<open>On strings of Unicode scalar values, which are those of Rust, the bytes order as the characters.\<close>

definition agree_on_strings :: "(rstring \<Rightarrow> rstring \<Rightarrow> bool) \<Rightarrow> (rstring \<Rightarrow> rstring \<Rightarrow> bool) \<Rightarrow> bool" where
  "agree_on_strings R P \<longleftrightarrow> (\<forall>s m. list_all scalar s \<longrightarrow> list_all scalar m \<longrightarrow> R s m = P s m)"

lemma agree_on_strings:
  "agree_on_strings R R" "agree_on_strings str_lt (<)" "agree_on_strings str_le (\<le>)"
  "agree_on_strings (\<lambda>s m. str_lt m s) (\<lambda>s m. m < s)" "agree_on_strings (\<lambda>s m. str_le m s) (\<lambda>s m. m \<le> s)"
proof -
  have le: "str_le s m \<longleftrightarrow> s \<le> m" if "list_all scalar s" "list_all scalar m" for s m
    using str_lt_characters [OF that(2,1)] by (simp add: str_lt_def str_le_def flip: not_less)
  show "agree_on_strings R R" "agree_on_strings str_lt (<)" "agree_on_strings str_le (\<le>)"
    "agree_on_strings (\<lambda>s m. str_lt m s) (\<lambda>s m. m < s)" "agree_on_strings (\<lambda>s m. str_le m s) (\<lambda>s m. m \<le> s)"
    by (simp_all add: agree_on_strings_def str_lt_characters le)
qed

lemma branches_string_agree:
  "agree_on_strings R P \<Longrightarrow>
    \<exists>R. branches (sbind get_str_pair_src_mid (\<lambda>(s, m). branch_when (Q s m))) read_string_at R \<and> agree_on_strings R P"
  if "Q = R"
  using that branches_string by blast

lemma branches_string_relation:
  assumes "(op, P) \<in> set string_branches"
  shows "\<exists>R. branches op read_string_at R \<and> agree_on_strings R P"
  using assms unfolding string_branches_def op_beqc_def op_bnec_def op_bltc_def op_blec_def op_bgtc_def op_bgec_def
  by (auto intro!: agree_on_strings branches_string_agree [OF refl])

end
