(* ===== verification/Control.thy ===== *)
theory Control
  imports Compare
begin

unbundle bit_operations_syntax

text \<open>
  The control instructions of \<open>ops/control.rs\<close> that stay in their module: jumps, calls and
  returns, the computed jump, the three \<open>case\<close> instructions and raising. A case table is searched
  by bisection; the searches are shown to find exactly what a scan of the table finds, for tables
  in order, and to end for every table.
\<close>

section \<open>Types of the running module\<close>

definition current_type :: "vm_state \<Rightarrow> usize \<Rightarrow> type_descriptor option" where
  "current_type vm type_idx =
    (case vm_current_loaded_module vm of
       Some lm_idx \<Rightarrow>
         (case nth_opt (vm_loaded_modules vm) lm_idx of
            None \<Rightarrow> None
          | Some lm \<Rightarrow> nth_opt (m_types (lm_module lm)) type_idx)
     | None \<Rightarrow> nth_opt (m_types (vm_module vm)) type_idx)"

definition current_type_size :: "vm_state \<Rightarrow> usize \<Rightarrow> usize option" where
  "current_type_size vm type_idx = map_option (\<lambda>td. i32_as_usize (td_size td)) (current_type vm type_idx)"

definition trace_map_for_type :: "usize \<Rightarrow> vm_state \<Rightarrow> trace_map option \<times> vm_state" where
  "trace_map_for_type type_idx vm =
    (let key = (current_module_virt_idx vm, of_nat type_idx :: u32) in
     case trace_map_lookup (vm_heap vm) key of
       Some tm \<Rightarrow> (Some tm, vm)
     | None \<Rightarrow>
         (case current_type vm type_idx of
            None \<Rightarrow> (None, vm)
          | Some td \<Rightarrow>
              let (tm, h) = intern_trace_map key
                (trace_map_new (td_pointer_map td) (i32_as_usize (td_size td))) (vm_heap vm) in
              (Some tm, vm\<lparr>vm_heap := h\<rparr>)))"

section \<open>Jumps, calls and returns\<close>

text \<open>Running an operation of the frame stack inside the machine.\<close>

definition on_frames :: "(frame_stack, exec_error, 'a) sm \<Rightarrow> 'a vm" where
  "on_frames m = (\<lambda>vm. let (r, fs) = m (vm_frames vm) in (r, vm\<lparr>vm_frames := fs\<rparr>))"

definition op_exit :: "unit vm" where
  "op_exit = updates (\<lambda>vm. vm\<lparr>vm_halted := True\<rparr>)"

definition set_next_pc :: "i32 \<Rightarrow> unit vm" where
  "set_next_pc t = updates (\<lambda>vm. vm\<lparr>vm_next_pc := i32_as_usize t\<rparr>)"

definition op_jmp :: "unit vm" where
  "op_jmp = sbind dst_word set_next_pc"

definition op_frame :: "unit vm" where
  "op_frame = sbind src_word (\<lambda>t. let type_idx = i32_as_usize t in
    (\<lambda>vm. case current_type_size vm type_idx of
       None \<Rightarrow> (Inl (ExecOther (rstr ''invalid type index: '' @ show_nat type_idx)), vm)
     | Some frame_size \<Rightarrow>
         sbind (on_frames (alloc_pending frame_size)) (\<lambda>pending_data_offset.
         sbind (updates (update_frame_data (\<lambda>d.
           mem_write_word d (pending_data_offset - 8) (of_nat type_idx)))) (\<lambda>_.
         set_dst_word (of_nat pending_data_offset))) vm))"

definition op_call :: "unit vm" where
  "op_call = sbind src_word (\<lambda>s. sbind dst_word (\<lambda>t.
    sbind (\<lambda>vm. on_frames (activate_pending (i32_as_usize s) (of_nat (vm_next_pc vm))) vm) (\<lambda>_.
    set_next_pc t)))"

definition op_ret :: "unit vm" where
  "op_ret = sbind (on_frames frame_pop) (\<lambda>prev_pc.
    if sint prev_pc < 0 then updates (\<lambda>vm. vm\<lparr>vm_halted := True\<rparr>) else set_next_pc prev_pc)"

section \<open>Computed jumps\<close>

text \<open>Unchecked \<open>usize\<close> arithmetic, which wraps in a release build.\<close>

definition wrap_usize :: "nat \<Rightarrow> usize" where
  "wrap_usize n = n mod usize_limit"

text \<open>The closures \<open>read_table\<close>: a table lies in the frame or in the module's data.\<close>

definition table_word :: "vm_state \<Rightarrow> addr_target \<Rightarrow> usize \<Rightarrow> i32" where
  "table_word vm table_base byte_off =
    (case table_base of
       AT_Frame off \<Rightarrow> mem_read_word (fs_data (vm_frames vm)) (wrap_usize (off + byte_off))
     | AT_Mp off \<Rightarrow> mem_read_word (vm_mp vm) (wrap_usize (off + byte_off))
     | _ \<Rightarrow> 0)"

definition table_big :: "vm_state \<Rightarrow> addr_target \<Rightarrow> usize \<Rightarrow> i64" where
  "table_big vm table_base byte_off =
    (case table_base of
       AT_Frame off \<Rightarrow> mem_read_big (fs_data (vm_frames vm)) (wrap_usize (off + byte_off))
     | AT_Mp off \<Rightarrow> mem_read_big (vm_mp vm) (wrap_usize (off + byte_off))
     | _ \<Rightarrow> 0)"

definition op_goto :: "unit vm" where
  "op_goto = sbind src_word (\<lambda>i. let index = i32_as_usize i in
    sbind (\<lambda>vm. case vm_dst vm of
        AT_Frame off \<Rightarrow> (Inr (table_word vm (vm_dst vm) (wrap_usize (index * 4))), vm)
      | AT_Mp off \<Rightarrow> (Inr (table_word vm (vm_dst vm) (wrap_usize (index * 4))), vm)
      | _ \<Rightarrow> dst_word vm) set_next_pc)"

section \<open>Case tables\<close>

text \<open>
  The bisection the three \<open>case\<close> instructions share: the entry in the middle sends the search to
  the left, to the right, or ends it.
\<close>

datatype case_probe = Go_left | Go_right | Hit i32

function case_loop :: "usize \<Rightarrow> (usize \<Rightarrow> case_probe) \<Rightarrow> usize \<Rightarrow> usize \<Rightarrow> i32 option" where
  "case_loop entry_size probe t_off remaining =
    (if remaining = 0 then None
     else
       let n2 = remaining div 2; l_off = wrap_usize (t_off + n2 * entry_size) in
       case probe l_off of
         Go_left \<Rightarrow> case_loop entry_size probe t_off n2
       | Go_right \<Rightarrow> case_loop entry_size probe (wrap_usize (l_off + entry_size)) (remaining - (n2 + 1))
       | Hit pc \<Rightarrow> Some pc)"
  by pat_completeness auto
termination by (relation "measure (\<lambda>(_, _, _, remaining). remaining)") auto

declare case_loop.simps [simp del]

text \<open>Offsets into the table of words are counted in words there, in bytes for bigs.\<close>

definition table_at :: "vm_state \<Rightarrow> addr_target \<Rightarrow> usize \<Rightarrow> i32" where
  "table_at vm table_base idx = table_word vm table_base (wrap_usize (idx * 4))"

definition casew_probe :: "vm_state \<Rightarrow> addr_target \<Rightarrow> i32 \<Rightarrow> usize \<Rightarrow> case_probe" where
  "casew_probe vm table_base v l_off =
    (let lo = table_at vm table_base l_off; hi = table_at vm table_base (wrap_usize (l_off + 1)) in
     if v <s lo then Go_left
     else if hi <=s v then Go_right
     else Hit (table_at vm table_base (wrap_usize (l_off + 2))))"

definition op_casew :: "unit vm" where
  "op_casew = sbind src_word (\<lambda>v. sbind dst_word (\<lambda>cnt. sbind (reads (\<lambda>vm.
    let table_base = vm_dst vm; n = i32_as_usize cnt;
        default_pc = table_at vm table_base (wrap_usize (1 + n * 3)) in
    unwrap_or default_pc (case_loop 3 (casew_probe vm table_base v) 1 n))) set_next_pc))"

definition casec_probe :: "vm_state \<Rightarrow> addr_target \<Rightarrow> rstring \<Rightarrow> usize \<Rightarrow> case_probe" where
  "casec_probe vm table_base v l_off =
    (let lo_str = unwrap_or [] (get_string (vm_heap vm) (table_at vm table_base l_off));
         hit = Hit (table_at vm table_base (wrap_usize (l_off + 2))) in
     if v = lo_str then hit
     else if str_lt v lo_str then Go_left
     else
       let hi_id = table_at vm table_base (wrap_usize (l_off + 1)) in
       if hi_id = NIL \<or> str_lt (unwrap_or [] (get_string (vm_heap vm) hi_id)) v then Go_right
       else hit)"

definition op_casec :: "unit vm" where
  "op_casec = sbind src_ptr (\<lambda>value_id.
    sbind (reads (\<lambda>vm. unwrap_or [] (get_string (vm_heap vm) value_id))) (\<lambda>v.
    sbind dst_word (\<lambda>cnt. sbind (reads (\<lambda>vm.
    let table_base = vm_dst vm; n = i32_as_usize cnt;
        default_pc = table_at vm table_base (wrap_usize (1 + n * 3)) in
    unwrap_or default_pc (case_loop 3 (casec_probe vm table_base v) 1 n))) set_next_pc)))"

definition casel_probe :: "vm_state \<Rightarrow> addr_target \<Rightarrow> i64 \<Rightarrow> usize \<Rightarrow> case_probe" where
  "casel_probe vm table_base v l_off =
    (let lo = table_big vm table_base l_off; hi = table_big vm table_base (wrap_usize (l_off + 8)) in
     if v <s lo then Go_left
     else if hi <=s v then Go_right
     else Hit (table_word vm table_base (wrap_usize (l_off + 16))))"

definition op_casel :: "unit vm" where
  "op_casel = sbind src_big (\<lambda>v. sbind dst_word (\<lambda>cnt. sbind (reads (\<lambda>vm.
    let table_base = vm_dst vm; n = i32_as_usize cnt;
        default_pc = table_word vm table_base (wrap_usize (8 + n * 24)) in
    unwrap_or default_pc (case_loop 24 (casel_probe vm table_base v) 8 n))) set_next_pc))"

section \<open>Raising, and instructions without effect\<close>

definition op_raise :: "unit vm" where
  "op_raise = sbind src_ptr (\<lambda>str_id.
    sbind (reads (\<lambda>vm. unwrap_or (rstr ''unknown exception'') (get_string (vm_heap vm) str_id))) (\<lambda>msg.
    raise_exception_with_value msg str_id))"

definition op_runt :: "unit vm" where
  "op_runt = sbind src_word (\<lambda>_. ret ())"

definition op_eclr :: "unit vm" where
  "op_eclr = ret ()"

definition op_brkpt :: "unit vm" where
  "op_brkpt = updates (\<lambda>vm. vm\<lparr>vm_halted := True\<rparr>)"

section \<open>Bisection finds what a scan finds\<close>

text \<open>The first entry that matches, looking at every entry in turn.\<close>

primrec case_scan :: "(nat \<Rightarrow> case_probe) \<Rightarrow> nat list \<Rightarrow> i32 option" where
  "case_scan entry [] = None"
| "case_scan entry (k # ks) = (case entry k of Hit pc \<Rightarrow> Some pc | _ \<Rightarrow> case_scan entry ks)"

lemma case_scan_append:
  "case_scan entry (ks @ ls) = (case case_scan entry ks of Some pc \<Rightarrow> Some pc | None \<Rightarrow> case_scan entry ls)"
  by (induction ks) (auto split: case_probe.splits)

lemma case_scan_None: "(\<And>k. k \<in> set ks \<Longrightarrow> \<forall>pc. entry k \<noteq> Hit pc) \<Longrightarrow> case_scan entry ks = None"
  by (induction ks) (auto split: case_probe.splits)

lemma case_scan_Some: "case_scan entry ks = Some pc \<Longrightarrow> \<exists>k \<in> set ks. entry k = Hit pc"
  by (induction ks) (auto split: case_probe.splits)

text \<open>
  What a table provides: how its entries are placed, and that entries in order send the search of
  one value to the left from some entry on.
\<close>

locale case_table =
  fixes probe :: "'t \<Rightarrow> usize \<Rightarrow> case_probe" and in_order :: "'t \<Rightarrow> nat \<Rightarrow> bool"
    and start :: usize and entry_size :: usize
  assumes ordered: "in_order tab n \<Longrightarrow> i < j \<Longrightarrow> j < n \<Longrightarrow>
      probe tab (start + i * entry_size) \<noteq> Go_right \<Longrightarrow> probe tab (start + j * entry_size) = Go_left"
begin

definition entry :: "'t \<Rightarrow> nat \<Rightarrow> case_probe" where
  "entry tab k = probe tab (start + k * entry_size)"

lemma entry_left: "in_order tab n \<Longrightarrow> i < j \<Longrightarrow> j < n \<Longrightarrow> entry tab i \<noteq> Go_right \<Longrightarrow> entry tab j = Go_left"
  unfolding entry_def by (rule ordered)

lemma case_loop_scan:
  "in_order tab n \<Longrightarrow> start + n * entry_size < usize_limit \<Longrightarrow> i + r \<le> n \<Longrightarrow>
    case_loop entry_size (probe tab) (start + i * entry_size) r = case_scan (entry tab) [i..<i + r]"
proof (induction r arbitrary: i rule: less_induct)
  case (less r)
  show ?case
  proof (cases "r = 0")
    case True
    then show ?thesis by (simp add: case_loop.simps)
  next
    case False
    let ?h = "r div 2" and ?m = "i + r div 2" and ?rest = "r - (r div 2 + 1)"
    have bounds: "?h < r" "?m < i + r" "?rest < r" using False by simp_all
    then have m: "?m < n" using less.prems(3) by linarith
    have place: "start + i * entry_size + ?h * entry_size = start + ?m * entry_size"
      "start + ?m * entry_size + entry_size = start + Suc ?m * entry_size"
      by (simp_all add: algebra_simps)
    have fits: "start + k * entry_size < usize_limit" if "k \<le> n" for k
      using less.prems(2) that by (meson add_left_mono mult_le_mono1 order.strict_trans1)
    have off: "wrap_usize (start + i * entry_size + ?h * entry_size) = start + ?m * entry_size"
      "wrap_usize (start + ?m * entry_size + entry_size) = start + Suc ?m * entry_size"
      unfolding wrap_usize_def place using fits [of ?m] fits [of "Suc ?m"] m
      by (simp_all del: mult_Suc add: Suc_leI)
    have split: "[i..<i + r] = [i..<?m] @ ?m # [Suc ?m..<i + r]"
      using upt_add_eq_append [of i ?m "r - ?h"] bounds by (simp add: upt_conv_Cons)
    have scan: "case_scan (entry tab) [i..<i + r] = (case case_scan (entry tab) [i..<?m] of Some pc \<Rightarrow> Some pc
        | None \<Rightarrow> case_scan (entry tab) (?m # [Suc ?m..<i + r]))"
      unfolding split by (rule case_scan_append)
    have nohit: "case_scan (entry tab) [k..<k'] = None"
      if "\<And>l. k \<le> l \<Longrightarrow> l < k' \<Longrightarrow> entry tab l = Go_left \<or> entry tab l = Go_right" for k k'
      using that by (intro case_scan_None) fastforce
    note IH = less.IH [OF _ less.prems(1,2)]
    show ?thesis
    proof (cases "entry tab ?m")
      case Go_left
      then have "case_scan (entry tab) [Suc ?m..<i + r] = None"
        using less.prems entry_left [of tab n ?m] by (intro nohit) auto
      with Go_left have "case_scan (entry tab) [i..<i + r] = case_scan (entry tab) [i..<?m]"
        by (simp add: scan split: option.split)
      moreover have "case_loop entry_size (probe tab) (start + i * entry_size) r =
          case_loop entry_size (probe tab) (start + i * entry_size) ?h"
        using Go_left False by (subst case_loop.simps) (simp add: Let_def off entry_def)
      ultimately show ?thesis using IH [of ?h i] bounds m by simp
    next
      case Go_right
      then have "case_scan (entry tab) [i..<?m] = None"
        using less.prems m entry_left [of tab n _ ?m] by (intro nohit) (metis case_probe.distinct(1))
      with Go_right have "case_scan (entry tab) [i..<i + r] = case_scan (entry tab) [Suc ?m..<Suc ?m + ?rest]"
        using bounds by (simp add: scan)
      moreover have "case_loop entry_size (probe tab) (start + i * entry_size) r =
          case_loop entry_size (probe tab) (start + Suc ?m * entry_size) ?rest"
        using Go_right False by (subst case_loop.simps) (simp add: Let_def off entry_def del: mult_Suc)
      ultimately show ?thesis using IH [of ?rest "Suc ?m"] bounds less.prems(3) by simp
    next
      case (Hit pc)
      then have "case_scan (entry tab) [i..<?m] = None"
        using less.prems m entry_left [of tab n _ ?m] by (intro nohit) (metis case_probe.distinct(3))
      with Hit have "case_scan (entry tab) [i..<i + r] = Some pc" by (simp add: scan)
      moreover have "case_loop entry_size (probe tab) (start + i * entry_size) r = Some pc"
        using Hit False by (subst case_loop.simps) (simp add: Let_def off entry_def)
      ultimately show ?thesis by simp
    qed
  qed
qed

lemma case_search:
  "in_order tab n \<Longrightarrow> start + n * entry_size < usize_limit \<Longrightarrow>
    case_loop entry_size (probe tab) start n = case_scan (\<lambda>k. probe tab (start + k * entry_size)) [0..<n]"
  using case_loop_scan [of tab n 0 n] by (simp add: entry_def [abs_def])

end

text \<open>
  Tables in order: each entry's upper end does not pass the next one's lower end. For strings an
  entry with a nil upper end matches its lower end alone.
\<close>

definition casew_in_order :: "vm_state \<times> addr_target \<times> i32 \<Rightarrow> nat \<Rightarrow> bool" where
  "casew_in_order = (\<lambda>(vm, base, v) n.
    (\<forall>i < n. sint (table_at vm base (1 + i * 3)) \<le> sint (table_at vm base (wrap_usize (1 + i * 3 + 1)))) \<and>
    (\<forall>j < n. \<forall>i < j. sint (table_at vm base (wrap_usize (1 + i * 3 + 1))) \<le> sint (table_at vm base (1 + j * 3))))"

definition casel_in_order :: "vm_state \<times> addr_target \<times> i64 \<Rightarrow> nat \<Rightarrow> bool" where
  "casel_in_order = (\<lambda>(vm, base, v) n.
    (\<forall>i < n. sint (table_big vm base (8 + i * 24)) \<le> sint (table_big vm base (wrap_usize (8 + i * 24 + 8)))) \<and>
    (\<forall>j < n. \<forall>i < j. sint (table_big vm base (wrap_usize (8 + i * 24 + 8))) \<le> sint (table_big vm base (8 + j * 24))))"

definition table_string :: "vm_state \<Rightarrow> heap_id \<Rightarrow> rstring" where
  "table_string vm hid = unwrap_or [] (get_string (vm_heap vm) hid)"

definition casec_in_order :: "vm_state \<times> addr_target \<times> rstring \<Rightarrow> nat \<Rightarrow> bool" where
  "casec_in_order = (\<lambda>(vm, base, v) n.
    \<forall>j < n. \<forall>i < j.
      str_lt (table_string vm (table_at vm base (1 + i * 3))) (table_string vm (table_at vm base (1 + j * 3))) \<and>
      (table_at vm base (wrap_usize (1 + i * 3 + 1)) = NIL \<or>
       str_lt (table_string vm (table_at vm base (wrap_usize (1 + i * 3 + 1))))
         (table_string vm (table_at vm base (1 + j * 3)))))"

interpretation casew_table: case_table "\<lambda>(vm, base, v). casew_probe vm base v" casew_in_order 1 3
proof (unfold_locales, goal_cases)
  case (1 tab n i j)
  obtain vm base v where tab: "tab = (vm, base, v)" by (cases tab) auto
  note order = 1(1) [unfolded tab] and ij = 1(2,3)
  have stop: "casew_probe vm base v (1 + i * 3) \<noteq> Go_right" using 1(4) tab by simp
  let ?lo = "\<lambda>k. sint (table_at vm base (1 + k * 3))" and ?hi = "sint (table_at vm base (wrap_usize (1 + i * 3 + 1)))"
  have "?lo i \<le> ?hi" "?hi \<le> ?lo j" using order ij by (simp_all add: casew_in_order_def)
  moreover have "sint v < ?lo i \<or> sint v < ?hi"
    using stop by (auto simp: casew_probe_def Let_def word_sless_alt word_sle_eq split: if_splits)
  ultimately show ?case
    by (auto simp: tab casew_probe_def Let_def word_sless_alt)
qed

interpretation casel_table: case_table "\<lambda>(vm, base, v). casel_probe vm base v" casel_in_order 8 24
proof (unfold_locales, goal_cases)
  case (1 tab n i j)
  obtain vm base v where tab: "tab = (vm, base, v)" by (cases tab) auto
  note order = 1(1) [unfolded tab] and ij = 1(2,3)
  have stop: "casel_probe vm base v (8 + i * 24) \<noteq> Go_right" using 1(4) tab by simp
  let ?lo = "\<lambda>k. sint (table_big vm base (8 + k * 24))" and ?hi = "sint (table_big vm base (wrap_usize (8 + i * 24 + 8)))"
  have "?lo i \<le> ?hi" "?hi \<le> ?lo j" using order ij by (simp_all add: casel_in_order_def)
  moreover have "sint v < ?lo i \<or> sint v < ?hi"
    using stop by (auto simp: casel_probe_def Let_def word_sless_alt word_sle_eq split: if_splits)
  ultimately show ?case
    by (auto simp: tab casel_probe_def Let_def word_sless_alt)
qed

lemma str_lt_trans: "str_lt a b \<Longrightarrow> str_lt b c \<Longrightarrow> str_lt a c"
  by (simp add: str_lt_def)

lemma str_not_lt: "\<not> str_lt a b \<Longrightarrow> str_lt a c \<Longrightarrow> str_lt b c"
  by (simp add: str_lt_def)

lemma str_lt_irrefl [simp]: "\<not> str_lt a a"
  by (simp add: str_lt_def)

interpretation casec_table: case_table "\<lambda>(vm, base, v). casec_probe vm base v" casec_in_order 1 3
proof (unfold_locales, goal_cases)
  case (1 tab n i j)
  obtain vm base v where tab: "tab = (vm, base, v)" by (cases tab) auto
  note order = 1(1) [unfolded tab] and ij = 1(2,3)
  have stop: "casec_probe vm base v (1 + i * 3) \<noteq> Go_right" using 1(4) tab by simp
  let ?lo = "\<lambda>k. table_string vm (table_at vm base (1 + k * 3))"
  let ?hi = "table_at vm base (wrap_usize (1 + i * 3 + 1))"
  have sorted: "str_lt (?lo i) (?lo j)" "?hi = NIL \<or> str_lt (table_string vm ?hi) (?lo j)"
    using order ij by (auto simp: casec_in_order_def)
  have "v = ?lo i \<or> str_lt v (?lo i) \<or> ?hi \<noteq> NIL \<and> \<not> str_lt (table_string vm ?hi) v"
    using stop by (auto simp: casec_probe_def table_string_def Let_def split: if_splits)
  then have "str_lt v (?lo j)"
    using sorted str_lt_trans [of v "?lo i" "?lo j"] str_not_lt by blast
  moreover from this have "v \<noteq> ?lo j" by auto
  ultimately have "casec_probe vm base v (1 + j * 3) = Go_left"
    by (auto simp: casec_probe_def table_string_def Let_def)
  then show ?case by (simp add: tab)
qed

text \<open>So each case instruction on a table in order continues where a scan of the table says.\<close>

lemma usize_of_count: "0 \<le> sint cnt \<Longrightarrow> i32_as_usize cnt = nat (sint cnt)" for cnt :: i32
proof -
  assume "0 \<le> sint cnt"
  then have "\<not> bit cnt 31" using bit_last_iff [of cnt] by simp
  then show ?thesis by (simp add: i32_as_usize_nonneg sint_unat)
qed

lemma count_bound: "nat (sint cnt) * 24 + 8 < usize_limit" for cnt :: i32
  using sint32_bounds(2) [of cnt] by (simp add: usize_limit_def)

lemma op_casew_scan:
  assumes "read_word_at vm (vm_src vm) (vm_imm_src vm) = Inr v"
    and "read_word_at vm (vm_dst vm) (vm_imm_dst vm) = Inr cnt" and "0 \<le> sint cnt"
    and "casew_in_order (vm, vm_dst vm, v) (nat (sint cnt))"
  shows "op_casew vm = (Inr (), vm\<lparr>vm_next_pc := i32_as_usize
    (unwrap_or (table_at vm (vm_dst vm) (1 + nat (sint cnt) * 3))
      (case_scan (\<lambda>k. casew_probe vm (vm_dst vm) v (1 + k * 3)) [0..<nat (sint cnt)]))\<rparr>)"
  using casew_table.case_search [OF assms(4)] assms(1-3) count_bound [of cnt]
  by (simp add: op_casew_def set_next_pc_def src_word_def dst_word_def sbind_def usize_of_count
      wrap_usize_def Let_def)

lemma op_casel_scan:
  assumes "read_big_at vm (vm_src vm) (vm_imm_src vm) = Inr v"
    and "read_word_at vm (vm_dst vm) (vm_imm_dst vm) = Inr cnt" and "0 \<le> sint cnt"
    and "casel_in_order (vm, vm_dst vm, v) (nat (sint cnt))"
  shows "op_casel vm = (Inr (), vm\<lparr>vm_next_pc := i32_as_usize
    (unwrap_or (table_word vm (vm_dst vm) (8 + nat (sint cnt) * 24))
      (case_scan (\<lambda>k. casel_probe vm (vm_dst vm) v (8 + k * 24)) [0..<nat (sint cnt)]))\<rparr>)"
  using casel_table.case_search [OF assms(4)] assms(1-3) count_bound [of cnt]
  by (simp add: op_casel_def set_next_pc_def src_big_def dst_word_def sbind_def usize_of_count
      wrap_usize_def Let_def)

lemma op_casec_scan:
  assumes "read_word_at vm (vm_src vm) (vm_imm_src vm) = Inr value_id" and "v = table_string vm value_id"
    and "read_word_at vm (vm_dst vm) (vm_imm_dst vm) = Inr cnt" and "0 \<le> sint cnt"
    and "casec_in_order (vm, vm_dst vm, v) (nat (sint cnt))"
  shows "op_casec vm = (Inr (), vm\<lparr>vm_next_pc := i32_as_usize
    (unwrap_or (table_at vm (vm_dst vm) (1 + nat (sint cnt) * 3))
      (case_scan (\<lambda>k. casec_probe vm (vm_dst vm) v (1 + k * 3)) [0..<nat (sint cnt)]))\<rparr>)"
  using casec_table.case_search [OF assms(5)] assms(1-4) count_bound [of cnt]
  by (simp add: op_casec_def set_next_pc_def src_ptr_def src_word_def dst_word_def sbind_def usize_of_count
      wrap_usize_def Let_def table_string_def)

end
