(* ===== verification/HeapOps.thy ===== *)
theory HeapOps
  imports Control
begin

unbundle bit_operations_syntax

text \<open>
  The allocating instructions of \<open>ops/heap.rs\<close>, the block moves, the type comparison and \<open>self\<close> of
  \<open>ops/data_move.rs\<close>, and the initialisation of a module's data of \<open>data.rs\<close>.
\<close>

section \<open>Allocating\<close>

definition NEGATIVE_ARRAY_SIZE :: rstring where
  "NEGATIVE_ARRAY_SIZE = rstr ''negative array size''"

definition OUT_OF_MEMORY :: rstring where
  "OUT_OF_MEMORY = rstr ''out of memory: heap''"

definition MAX_ARRAY_BYTES :: usize where
  "MAX_ARRAY_BYTES = 64 * 1024 * 1024"

text \<open>
  A panic of the source, which unwinds out of the interpreter, is an error with the panic's message.
  A vector's length in bytes is at most \<open>isize::MAX\<close>; asking for more panics.
\<close>

definition capacity_overflow :: exec_error where
  "capacity_overflow = ExecOther (rstr ''capacity overflow'')"

definition ISIZE_MAX :: usize where
  "ISIZE_MAX = 9223372036854775807"

text \<open>\<open>heap.alloc\<close> and \<open>heap.alloc_typed\<close> inside the machine.\<close>

definition vm_alloc :: "u32 \<Rightarrow> heap_data \<Rightarrow> trace_map option \<Rightarrow> heap_id vm" where
  "vm_alloc type_id data trace = (\<lambda>vm.
    let (hid, h) = alloc_typed type_id data trace (vm_heap vm) in (Inr hid, vm\<lparr>vm_heap := h\<rparr>))"

definition vm_trace_map :: "usize \<Rightarrow> trace_map option vm" where
  "vm_trace_map type_idx = (\<lambda>vm. let (tm, vm) = trace_map_for_type type_idx vm in (Inr tm, vm))"

definition type_size_or :: "rstring \<Rightarrow> usize \<Rightarrow> usize vm" where
  "type_size_or what type_idx = (\<lambda>vm.
    case current_type_size vm type_idx of
      Some n \<Rightarrow> (Inr n, vm)
    | None \<Rightarrow> (Inl (ExecOther (rstr ''invalid '' @ what @ rstr '' index: '' @ show_nat type_idx)), vm))"

definition op_new :: "unit vm" where
  "op_new = sbind src_word (\<lambda>t. let type_idx = i32_as_usize t in
    sbind (type_size_or (rstr ''type'') type_idx) (\<lambda>sz.
    sbind (vm_trace_map type_idx) (\<lambda>trace.
    if sz > ISIZE_MAX then fail capacity_overflow
    else sbind (vm_alloc (of_nat type_idx) (HD_Record (replicate sz 0)) trace) move_ptr_to_dst)))"

definition op_newz :: "unit vm" where
  "op_newz = op_new"

definition op_newa :: "unit vm" where
  "op_newa = sbind src_word (\<lambda>raw_length.
    if sint raw_length < 0 then raise_exception NEGATIVE_ARRAY_SIZE
    else let len = i32_as_usize raw_length in
    sbind mid_word (\<lambda>t. let elem_type_idx = i32_as_usize t in
    sbind (type_size_or (rstr ''element type'') elem_type_idx) (\<lambda>elem_size.
    case checked_mul len elem_size of
      None \<Rightarrow> raise_exception OUT_OF_MEMORY
    | Some byte_len \<Rightarrow>
        if byte_len > MAX_ARRAY_BYTES then raise_exception OUT_OF_MEMORY
        else sbind (vm_trace_map elem_type_idx) (\<lambda>trace.
          sbind (vm_alloc (of_nat elem_type_idx)
            (HD_Array (of_nat elem_type_idx) elem_size (replicate byte_len 0) len) trace)
          move_ptr_to_dst))))"

definition op_newaz :: "unit vm" where
  "op_newaz = op_newa"

definition op_mnewz :: "unit vm" where
  "op_mnewz = op_new"

definition alloc_channel :: "usize \<Rightarrow> unit vm" where
  "alloc_channel elem_size = sbind (vm_alloc 0 (HD_Channel elem_size None) None) move_ptr_to_dst"

definition op_newcb :: "unit vm" where
  "op_newcb = alloc_channel 1"

definition op_newcw :: "unit vm" where
  "op_newcw = alloc_channel 4"

definition op_newcf :: "unit vm" where
  "op_newcf = alloc_channel 8"

definition op_newcp :: "unit vm" where
  "op_newcp = alloc_channel 4"

definition op_newcm :: "unit vm" where
  "op_newcm = sbind src_word (\<lambda>t.
    sbind (reads (\<lambda>vm. unwrap_or 4 (current_type_size vm (i32_as_usize t)))) alloc_channel)"

definition op_newcmp :: "unit vm" where
  "op_newcmp = sbind src_word (\<lambda>t.
    sbind (reads (\<lambda>vm. unwrap_or 4 (current_type_size vm (i32_as_usize t)))) alloc_channel)"

definition op_newcl :: "unit vm" where
  "op_newcl = alloc_channel 8"

section \<open>Moving values and blocks\<close>

definition op_movw :: "unit vm" where
  "op_movw = sbind src_word set_dst_word"

definition op_movb :: "unit vm" where
  "op_movb = sbind src_byte set_dst_byte"

definition op_movf :: "unit vm" where
  "op_movf = sbind src_real set_dst_real"

definition op_movl :: "unit vm" where
  "op_movl = sbind src_big set_dst_big"

definition op_movpc :: "unit vm" where
  "op_movpc = sbind src_word set_dst_word"

text \<open>As much of a buffer as there is from an offset on, filled up with zeros; and writing as much.\<close>

definition read_part :: "u8 list \<Rightarrow> usize \<Rightarrow> usize \<Rightarrow> u8 list" where
  "read_part buf off n =
    (if off < length buf then
       let copy_len = min n (length buf - off) in
       subrange off copy_len buf @ replicate (n - copy_len) 0
     else replicate n 0)"

definition write_part :: "usize \<Rightarrow> u8 list \<Rightarrow> u8 list \<Rightarrow> u8 list" where
  "write_part off bytes buf =
    (if off < length buf then copy_at off (take (length buf - off) bytes) buf else buf)"

text \<open>A block is copied as far as its memory goes in the frame, and all or nothing elsewhere.\<close>

definition read_block :: "vm_state \<Rightarrow> addr_target \<Rightarrow> usize \<Rightarrow> u8 list" where
  "read_block vm target sz =
    (let whole = (\<lambda>buf off. if off + sz \<le> length buf then subrange off sz buf else replicate sz 0) in
     case target of
       AT_Frame off \<Rightarrow> read_part (fs_data (vm_frames vm)) off sz
     | AT_Mp off \<Rightarrow> whole (vm_mp vm) off
     | AT_ModuleMp module_idx offset \<Rightarrow>
         (case module_mp vm module_idx of None \<Rightarrow> replicate sz 0 | Some mp \<Rightarrow> whole mp offset)
     | AT_HeapArray hid offset \<Rightarrow> unwrap_or (replicate sz 0) (heap_slice (vm_heap vm) hid offset sz)
     | AT_Immediate \<Rightarrow> replicate sz 0
     | AT_None \<Rightarrow> replicate sz 0)"

definition write_block :: "addr_target \<Rightarrow> u8 list \<Rightarrow> vm_state \<Rightarrow> vm_state" where
  "write_block target bytes vm =
    (let whole = (\<lambda>off buf. if off + length bytes \<le> length buf then copy_at off bytes buf else buf) in
     case target of
       AT_Frame off \<Rightarrow> update_frame_data (write_part off bytes) vm
     | AT_Mp off \<Rightarrow> vm\<lparr>vm_mp := whole off (vm_mp vm)\<rparr>
     | AT_ModuleMp module_idx offset \<Rightarrow> module_mp_update module_idx (whole offset) vm
     | AT_HeapArray hid offset \<Rightarrow> update_heap (heap_write hid offset bytes) vm
     | AT_Immediate \<Rightarrow> vm
     | AT_None \<Rightarrow> vm)"

definition op_movm :: "unit vm" where
  "op_movm = sbind mid_word (\<lambda>m. let sz = i32_as_usize m in
    if sz = 0 then ret ()
    else if sz > ISIZE_MAX then fail capacity_overflow
    else updates (\<lambda>vm. write_block (vm_dst vm) (read_block vm (vm_src vm) sz) vm))"

definition for_each_pointer :: "(heap_id \<Rightarrow> heap \<Rightarrow> heap) \<Rightarrow> u8 list \<Rightarrow> usize list \<Rightarrow> heap \<Rightarrow> heap" where
  "for_each_pointer f bytes offsets h = fold (\<lambda>offset h.
    let ptr_val = mem_read_word bytes offset in
    if unat ptr_val \<ge> unat HEAP_ID_BASE \<and> heap_contains h ptr_val then f ptr_val h else h) offsets h"

definition op_movmp :: "unit vm" where
  "op_movmp = sbind mid_word (\<lambda>m. let type_idx = i32_as_usize m in
    sbind (reads (\<lambda>vm. unwrap_or type_idx (current_type_size vm type_idx))) (\<lambda>sz.
    if sz = 0 then ret ()
    else sbind (vm_trace_map type_idx) (\<lambda>ptr_map.
      if sz > ISIZE_MAX then fail capacity_overflow
      else updates (\<lambda>vm.
        let src_bytes = read_block vm (vm_src vm) sz;
            dst_bytes = read_block vm (vm_dst vm) sz;
            vm = (case ptr_map of
                None \<Rightarrow> vm
              | Some tm \<Rightarrow>
                  update_heap (\<lambda>h. for_each_pointer dec_ref dst_bytes (pointer_offsets tm sz)
                    (for_each_pointer inc_ref src_bytes (pointer_offsets tm sz) h)) vm) in
        write_block (vm_dst vm) src_bytes vm))))"

definition typecheck_fault :: exec_error where
  "typecheck_fault = ThreadFault (rstr ''typecheck'')"

definition op_tcmp :: "unit vm" where
  "op_tcmp = sbind src_ptr (\<lambda>src_id. sbind dst_ptr (\<lambda>dst_id. (\<lambda>vm.
    if dst_id = NIL then (Inl typecheck_fault, vm)
    else case heap_get (vm_heap vm) dst_id of
      None \<Rightarrow> (Inl typecheck_fault, vm)
    | Some dst_obj \<Rightarrow>
        if src_id = NIL then (Inr (), vm)
        else (case heap_get (vm_heap vm) src_id of
            None \<Rightarrow> (Inl typecheck_fault, vm)
          | Some src_obj \<Rightarrow>
              if ho_type_id src_obj = ho_type_id dst_obj then (Inr (), vm)
              else (Inl typecheck_fault, vm)))))"

definition op_self :: "unit vm" where
  "op_self = sbind (\<lambda>vm. case vm_current_loaded_module vm of
      Some module_idx \<Rightarrow> vm_alloc 0 (HD_LoadedModule module_idx []) None vm
    | None \<Rightarrow> vm_alloc 0 (HD_MainModule []) None vm) move_ptr_to_dst"

end
