(* ===== verification/Pointers.thy ===== *)
theory Pointers
  imports HeapOps
begin

unbundle bit_operations_syntax

text \<open>
  The instructions of \<open>ops/pointer.rs\<close>: moving a counted pointer, taking addresses, and indexing,
  measuring, slicing and overwriting arrays.
\<close>

section \<open>Moving a pointer, taking an address\<close>

definition op_movp :: "unit vm" where
  "op_movp = sbind src_ptr move_ptr_to_dst"

definition encode_mp_addr :: "usize \<Rightarrow> usize \<Rightarrow> exec_error + i32" where
  "encode_mp_addr module_idx offset =
    (if module_idx \<ge> MAX_MODULES then
       Inl (ExecOther (rstr ''lea: module index out of range: '' @ show_nat module_idx))
     else if offset \<ge> MP_STRIDE then
       Inl (ExecOther (rstr ''lea: mp offset out of range: '' @ show_nat offset))
     else Inr (of_nat (MP_BASE + module_idx * MP_STRIDE + offset)))"

text \<open>Entering an element into the reference table gives its flagged index.\<close>

definition push_heap_ref :: "heap_id \<Rightarrow> usize \<Rightarrow> i32 vm" where
  "push_heap_ref hid offset = (\<lambda>vm.
    (Inr (HEAP_REF_FLAG OR of_nat (length (vm_heap_refs vm))),
     vm\<lparr>vm_heap_refs := vm_heap_refs vm @ [(hid, offset)]\<rparr>))"

definition op_lea :: "unit vm" where
  "op_lea = sbind (\<lambda>vm. case vm_src vm of
      AT_Frame off \<Rightarrow> (Inr (of_nat off), vm)
    | AT_Mp off \<Rightarrow>
        (encode_mp_addr (case vm_current_loaded_module vm of None \<Rightarrow> 0 | Some idx \<Rightarrow> saturating_add idx 1) off, vm)
    | AT_ModuleMp module_idx offset \<Rightarrow> (encode_mp_addr module_idx offset, vm)
    | AT_HeapArray hid offset \<Rightarrow> push_heap_ref hid offset vm
    | AT_Immediate \<Rightarrow> (Inr (vm_imm_src vm), vm)
    | AT_None \<Rightarrow> (Inr 0, vm)) set_dst_word"

section \<open>Arrays\<close>

definition index_fault :: "usize \<Rightarrow> usize \<Rightarrow> exec_error" where
  "index_fault index len = ThreadFault (rstr ''array index out of bounds: '' @ show_nat index @
    rstr '' >= '' @ show_nat len)"

definition store_element_ref :: "heap_id \<Rightarrow> usize \<Rightarrow> unit vm" where
  "store_element_ref hid byte_offset =
    sbind (push_heap_ref hid byte_offset) (\<lambda>encoded vm. write_word_at (vm_mid vm) encoded vm)"

definition op_indx :: "unit vm" where
  "op_indx = sbind src_ptr (\<lambda>arr_id. sbind dst_word (\<lambda>raw_index.
    if sint raw_index < 0 then
      fail (ThreadFault (rstr ''array index negative: '' @ show_i32 raw_index))
    else let index = i32_as_usize raw_index in (\<lambda>vm.
      case heap_get (vm_heap vm) arr_id of
        None \<Rightarrow> raise_exception (rstr ''nil dereference'') vm
      | Some obj \<Rightarrow>
          (case ho_data obj of
             HD_Array _ elem_size _ len \<Rightarrow>
               if index \<ge> len then (Inl (index_fault index len), vm)
               else store_element_ref arr_id (wrap_usize (index * elem_size)) vm
           | HD_ArraySlice parent_id byte_start _ elem_size len \<Rightarrow>
               if index \<ge> len then (Inl (index_fault index len), vm)
               else store_element_ref parent_id (wrap_usize (byte_start + index * elem_size)) vm
           | _ \<Rightarrow> (Inl (ThreadFault (rstr ''indx on non-array'')), vm)))))"

definition op_indw :: "unit vm" where
  "op_indw = op_indx"

definition op_indf :: "unit vm" where
  "op_indf = op_indx"

definition op_indb :: "unit vm" where
  "op_indb = op_indx"

definition op_indl :: "unit vm" where
  "op_indl = op_indx"

definition op_lena :: "unit vm" where
  "op_lena = sbind src_ptr (\<lambda>arr_id. sbind (reads (\<lambda>vm.
    if arr_id = NIL then 0
    else case heap_get (vm_heap vm) arr_id of
      None \<Rightarrow> 0
    | Some obj \<Rightarrow>
        (case ho_data obj of
           HD_Array _ _ _ len \<Rightarrow> of_nat len
         | HD_ArraySlice _ _ _ _ len \<Rightarrow> of_nat len
         | _ \<Rightarrow> 0))) set_dst_word)"

section \<open>Slicing\<close>

definition nonneg_usize :: "i32 \<Rightarrow> usize" where
  "nonneg_usize v = nat (max (sint v) 0)"

definition slice_fault :: "usize \<Rightarrow> usize \<Rightarrow> usize \<Rightarrow> exec_error" where
  "slice_fault s e len = ThreadFault (rstr ''array slice out of bounds: ['' @ show_nat s @ rstr ''..'' @
    show_nat e @ rstr ''] for length '' @ show_nat len)"

text \<open>The new slice, on the root array that \<open>slicea\<close> resolves its operand to.\<close>

definition make_slice ::
  "heap_id \<Rightarrow> heap_id \<Rightarrow> usize \<Rightarrow> u32 \<Rightarrow> usize \<Rightarrow> usize \<Rightarrow> usize \<Rightarrow> usize \<Rightarrow> unit vm" where
  "make_slice arr_id root_id base_byte_start elem_type elem_size source_length s e =
    (if e > source_length \<or> s > e then fail (slice_fault s e source_length)
     else
       sbind (vm_alloc elem_type
         (HD_ArraySlice root_id (wrap_usize (base_byte_start + s * elem_size)) elem_type elem_size (e - s))
         None) (\<lambda>new_id.
       sbind (updates (update_heap (inc_ref root_id))) (\<lambda>_.
       sbind (set_dst_ptr new_id) (\<lambda>_.
       updates (update_heap (dec_ref arr_id))))))"

definition op_slicea :: "unit vm" where
  "op_slicea = sbind src_word (\<lambda>raw_start. sbind mid_word (\<lambda>raw_end.
    let s = nonneg_usize raw_start; e = nonneg_usize raw_end in
    sbind dst_ptr (\<lambda>arr_id.
      if arr_id = NIL then
        (if s = 0 \<and> e = 0 then ret () else fail (ThreadFault (rstr ''slice of nil array'')))
      else (\<lambda>vm. case heap_get (vm_heap vm) arr_id of
          None \<Rightarrow> (Inl (ThreadFault (rstr ''slicea: invalid array'')), vm)
        | Some obj \<Rightarrow>
            (case ho_data obj of
               HD_Array elem_type elem_size _ len \<Rightarrow>
                 make_slice arr_id arr_id 0 elem_type elem_size len s e vm
             | HD_ArraySlice parent_id bs elem_type elem_size len \<Rightarrow>
                 make_slice arr_id parent_id bs elem_type elem_size len s e vm
             | _ \<Rightarrow> (Inl (ThreadFault (rstr ''slicea on non-array'')), vm))))))"

section \<open>Overwriting a part of an array\<close>

text \<open>The source of \<open>slicela\<close>: its bytes, element count and element size.\<close>

definition slicela_source :: "heap \<Rightarrow> heap_id \<Rightarrow> exec_error + u8 list \<times> usize \<times> usize" where
  "slicela_source h src_id =
    (case heap_get h src_id of
       None \<Rightarrow> Inl (ThreadFault (rstr ''slicela: invalid src array''))
     | Some obj \<Rightarrow>
         (case ho_data obj of
            HD_Array _ elem_size data len \<Rightarrow> Inr (data, len, elem_size)
          | HD_ArraySlice parent_id byte_start _ elem_size len \<Rightarrow>
              Inr (unwrap_or [] (array_read h parent_id byte_start (wrap_usize (len * elem_size))), len, elem_size)
          | _ \<Rightarrow> Inl (ThreadFault (rstr ''slicela: src not an array''))))"

text \<open>Its destination: the root array, the position in it, and the length of the view.\<close>

definition slicela_target :: "heap \<Rightarrow> heap_id \<Rightarrow> exec_error + heap_id \<times> usize \<times> usize" where
  "slicela_target h dst_id =
    (case heap_get h dst_id of
       None \<Rightarrow> Inr (dst_id, 0, 0)
     | Some obj \<Rightarrow>
         (case ho_data obj of
            HD_ArraySlice parent_id byte_start _ _ len \<Rightarrow> Inr (parent_id, byte_start, len)
          | HD_Array _ _ _ len \<Rightarrow> Inr (dst_id, 0, len)
          | _ \<Rightarrow> Inl (ThreadFault (rstr ''slicela: dst not an array''))))"

text \<open>The pointers among some words of a buffer: the identifiers that name an object.\<close>

definition live_pointers :: "heap \<Rightarrow> u8 list \<Rightarrow> usize list \<Rightarrow> heap_id list" where
  "live_pointers h data offs =
    filter (\<lambda>hid. hid \<noteq> NIL \<and> heap_contains h hid)
      (map (mem_read_word data) (filter (\<lambda>off. off + 4 \<le> length data) offs))"

definition slicela_offsets :: "heap \<Rightarrow> heap_id \<Rightarrow> usize \<Rightarrow> usize \<Rightarrow> usize list" where
  "slicela_offsets h real_dst_id src_len elem_size =
    (case Option.bind (heap_get h real_dst_id) ho_trace of
       Some tm \<Rightarrow> pointer_offsets tm (src_len * elem_size)
     | None \<Rightarrow> if elem_size = 4 then map (\<lambda>i. i * 4) [0..<src_len] else [])"

definition slicela_copy :: "u8 list \<Rightarrow> usize \<Rightarrow> usize \<Rightarrow> heap_id \<Rightarrow> usize \<Rightarrow> usize \<Rightarrow> heap \<Rightarrow> heap" where
  "slicela_copy src_data src_len elem_size real_dst_id dst_byte_offset insert_pos h =
    (let ptr_offsets = slicela_offsets h real_dst_id src_len elem_size;
         start = dst_byte_offset + insert_pos * elem_size in
     case map_option ho_data (heap_get h real_dst_id) of
       Some (HD_Array et es data len) \<Rightarrow>
         let old_ptrs = live_pointers h data
               (filter (\<lambda>off. off < usize_limit) (map (\<lambda>o'. start + o') ptr_offsets));
             new_ptrs = live_pointers h src_data ptr_offsets;
             copy_start = min start (length data);
             copy_bytes = min (min (src_len * elem_size) (length src_data)) (length data - copy_start);
             len' = (if dst_byte_offset = 0 then max (insert_pos + src_len) len else len);
             h = heap_set_data real_dst_id
               (HD_Array et es (copy_at copy_start (take copy_bytes src_data) data) len') h in
         fold dec_ref old_ptrs (fold inc_ref new_ptrs h)
     | _ \<Rightarrow> fold inc_ref (live_pointers h src_data ptr_offsets) h)"

definition op_slicela :: "unit vm" where
  "op_slicela = sbind src_ptr (\<lambda>src_id. sbind mid_word (\<lambda>m. let insert_pos = nonneg_usize m in
    sbind dst_ptr (\<lambda>dst_id.
      if src_id = NIL then ret ()
      else sbind (\<lambda>vm. (slicela_source (vm_heap vm) src_id, vm)) (\<lambda>(src_data, src_len, elem_size).
        sbind (\<lambda>vm. (slicela_target (vm_heap vm) dst_id, vm)) (\<lambda>(real_dst_id, dst_byte_offset, dst_len).
          if saturating_add insert_pos src_len > dst_len
          then fail (slice_fault insert_pos (wrap_usize (insert_pos + src_len)) dst_len)
          else updates (update_heap
            (slicela_copy src_data src_len elem_size real_dst_id dst_byte_offset insert_pos)))))))"

end
