(* ===== verification/Lists.thy ===== *)
theory Lists
  imports Pointers
begin

text \<open>
  The instructions of \<open>ops/list.rs\<close>: prepending a value, a pointer or a record to a list, and
  taking its head and tail. What \<open>cons\<close> puts in front, \<open>head\<close> and \<open>tail\<close> give back.
\<close>

section \<open>Prepending\<close>

definition MAX_CONS_BYTES :: usize where
  "MAX_CONS_BYTES = 1048576"

text \<open>The \<open>Debug\<close> form of a target, which the bounds fault names.\<close>

definition debug_target :: "addr_target \<Rightarrow> rstring" where
  "debug_target t =
    (case t of
       AT_Frame off \<Rightarrow> rstr ''Frame('' @ show_nat off @ rstr '')''
     | AT_Mp off \<Rightarrow> rstr ''Mp('' @ show_nat off @ rstr '')''
     | AT_ModuleMp idx off \<Rightarrow> rstr ''ModuleMp { module_idx: '' @ show_nat idx @ rstr '', offset: '' @
         show_nat off @ rstr '' }''
     | AT_Immediate \<Rightarrow> rstr ''Immediate''
     | AT_None \<Rightarrow> rstr ''None''
     | AT_HeapArray hid off \<Rightarrow> rstr ''HeapArray { id: '' @ show_nat (unat hid) @ rstr '', offset: '' @
         show_nat off @ rstr '' }'')"

definition cons_fault :: "vm_state \<Rightarrow> usize \<Rightarrow> exec_error" where
  "cons_fault vm n = ThreadFault (rstr ''cons source out of bounds: '' @ show_nat n @
    rstr '' bytes at '' @ debug_target (vm_src vm))"

definition read_cons_head :: "vm_state \<Rightarrow> usize \<Rightarrow> exec_error + u8 list" where
  "read_cons_head vm n =
    (let block = (\<lambda>buf off.
       case checked_add off n of
         None \<Rightarrow> Inl (cons_fault vm n)
       | Some end_pos \<Rightarrow> if end_pos > length buf then Inl (cons_fault vm n) else Inr (subrange off n buf)) in
     case vm_src vm of
       AT_Frame off \<Rightarrow> block (fs_data (vm_frames vm)) off
     | AT_Mp off \<Rightarrow> block (vm_mp vm) off
     | AT_ModuleMp module_idx offset \<Rightarrow>
         (case module_mp vm module_idx of Some mp \<Rightarrow> block mp offset | None \<Rightarrow> Inr (replicate n 0))
     | AT_Immediate \<Rightarrow>
         Inr (if n \<ge> 4 then mem_write_word (replicate n 0) 0 (vm_imm_src vm)
              else if n \<ge> 1 then (replicate n 0)[0 := ucast (vm_imm_src vm)] else [])
     | AT_None \<Rightarrow> Inr (replicate n 0)
     | AT_HeapArray hid offset \<Rightarrow>
         Inr (case heap_slice (vm_heap vm) hid offset n of
            Some bytes \<Rightarrow> copy_at 0 (take n bytes) (replicate n 0)
          | None \<Rightarrow> replicate n 0))"

text \<open>
  What ends every \<open>cons\<close>: the list cell takes over a reference to the tail, and the destination's
  reference to the old list is released.
\<close>

definition inc_ref_unless_nil :: "heap_id \<Rightarrow> unit vm" where
  "inc_ref_unless_nil hid = updates (\<lambda>vm. if hid \<noteq> NIL then update_heap (inc_ref hid) vm else vm)"

definition push_cell :: "u8 list \<Rightarrow> heap_id \<Rightarrow> unit vm" where
  "push_cell head tail_id =
    sbind (vm_alloc 0 (HD_List head tail_id) None) (\<lambda>list_id.
    sbind dst_ptr (\<lambda>old_id.
    sbind (set_dst_ptr list_id) (\<lambda>_.
    updates (\<lambda>vm. if old_id \<noteq> NIL then update_heap (dec_ref old_id) vm else vm))))"

definition cons_bytes :: "usize \<Rightarrow> unit vm" where
  "cons_bytes n = sbind dst_ptr (\<lambda>tail_id. sbind (\<lambda>vm. (read_cons_head vm n, vm)) (\<lambda>head.
    sbind (inc_ref_unless_nil tail_id) (\<lambda>_. push_cell head tail_id)))"

definition op_consb :: "unit vm" where
  "op_consb = cons_bytes 1"

definition op_consw :: "unit vm" where
  "op_consw = cons_bytes 4"

definition op_consf :: "unit vm" where
  "op_consf = cons_bytes 8"

definition op_consl :: "unit vm" where
  "op_consl = cons_bytes 8"

definition op_consp :: "unit vm" where
  "op_consp = sbind src_ptr (\<lambda>ptr_id. sbind dst_ptr (\<lambda>tail_id.
    sbind (inc_ref_unless_nil ptr_id) (\<lambda>_. sbind (inc_ref_unless_nil tail_id) (\<lambda>_.
    push_cell (mem_write_word (replicate 4 0) 0 ptr_id) tail_id))))"

definition op_consm :: "unit vm" where
  "op_consm = sbind mid_word (\<lambda>m.
    if sint m < 0 then fail (ThreadFault (rstr ''consm: negative block size: '' @ show_i32 m))
    else let n = i32_as_usize m in
      if n > MAX_CONS_BYTES then fail (ThreadFault (rstr ''consm: block size too large: '' @ show_nat n))
      else cons_bytes n)"

definition op_consmp :: "unit vm" where
  "op_consmp = sbind mid_word (\<lambda>m. let type_idx = i32_as_usize m in
    sbind (reads (\<lambda>vm. unwrap_or type_idx (current_type_size vm type_idx))) (\<lambda>n.
    if n > MAX_CONS_BYTES then fail (ThreadFault (rstr ''consmp: block size too large: '' @ show_nat n))
    else sbind (vm_trace_map type_idx) (\<lambda>ptr_map.
      sbind (case ptr_map of
          None \<Rightarrow> ret ()
        | Some tm \<Rightarrow> sbind (\<lambda>vm. (read_cons_head vm n, vm)) (\<lambda>head.
            updates (update_heap (for_each_pointer inc_ref head (pointer_offsets tm n))))) (\<lambda>_.
      cons_bytes n))))"

section \<open>Heads\<close>

definition head_read :: "vm_state \<Rightarrow> heap_id \<Rightarrow> exec_error + u8 list" where
  "head_read vm list_id =
    (if list_id = NIL then Inr []
     else case heap_get (vm_heap vm) list_id of
       None \<Rightarrow> Inl (ThreadFault (rstr ''head of a released list (id '' @ show_nat (unat list_id) @ rstr '')''))
     | Some obj \<Rightarrow>
         (case ho_data obj of
            HD_List head _ \<Rightarrow> Inr head
          | _ \<Rightarrow> Inl (ThreadFault (rstr ''head on non-list''))))"

definition src_head :: "u8 list vm" where
  "src_head = sbind src_ptr (\<lambda>list_id vm. (head_read vm list_id, vm))"

definition op_headb :: "unit vm" where
  "op_headb = sbind src_head (\<lambda>head. set_dst_byte (if head = [] then 0 else head ! 0))"

definition op_headw :: "unit vm" where
  "op_headw = sbind src_head (\<lambda>head. set_dst_word (if length head \<ge> 4 then mem_read_word head 0 else 0))"

definition op_headf :: "unit vm" where
  "op_headf = sbind src_head (\<lambda>head. set_dst_real (if length head \<ge> 8 then mem_read_real head 0 else 0))"

definition op_headl :: "unit vm" where
  "op_headl = sbind src_head (\<lambda>head. set_dst_big (if length head \<ge> 8 then mem_read_big head 0 else 0))"

definition op_headp :: "unit vm" where
  "op_headp = sbind src_head (\<lambda>head. move_ptr_to_dst (if length head \<ge> 4 then mem_read_word head 0 else NIL))"

definition write_head :: "u8 list \<Rightarrow> vm_state \<Rightarrow> vm_state" where
  "write_head head vm =
    (let put = (\<lambda>off buf. if off + length head \<le> length buf then copy_at off head buf else buf) in
     case vm_dst vm of
       AT_Frame off \<Rightarrow> update_frame_data (put off) vm
     | AT_Mp off \<Rightarrow> vm\<lparr>vm_mp := put off (vm_mp vm)\<rparr>
     | AT_ModuleMp module_idx offset \<Rightarrow> module_mp_update module_idx (put offset) vm
     | _ \<Rightarrow> vm)"

definition op_headm :: "unit vm" where
  "op_headm = sbind src_head (\<lambda>head. updates (write_head head))"

definition read_dst_block :: "vm_state \<Rightarrow> usize \<Rightarrow> u8 list option" where
  "read_dst_block vm n =
    (let block = (\<lambda>buf off.
       case checked_add off n of
         Some end_pos \<Rightarrow> if end_pos \<le> length buf then subrange off n buf else replicate n 0
       | None \<Rightarrow> replicate n 0) in
     case vm_dst vm of
       AT_Frame off \<Rightarrow> Some (block (fs_data (vm_frames vm)) off)
     | AT_Mp off \<Rightarrow> Some (block (vm_mp vm) off)
     | AT_ModuleMp module_idx offset \<Rightarrow>
         Some (case module_mp vm module_idx of Some mp \<Rightarrow> block mp offset | None \<Rightarrow> replicate n 0)
     | _ \<Rightarrow> None)"

text \<open>The words of the copy that really move are those the head is long enough to hold.\<close>

definition moved_offsets :: "trace_map \<Rightarrow> usize \<Rightarrow> u8 list \<Rightarrow> usize list" where
  "moved_offsets tm n head = filter (\<lambda>offset. offset + 4 \<le> length head) (pointer_offsets tm n)"

definition op_headmp :: "unit vm" where
  "op_headmp = sbind mid_word (\<lambda>m. let type_idx = i32_as_usize m in
    sbind (reads (\<lambda>vm. unwrap_or type_idx (current_type_size vm type_idx))) (\<lambda>n.
    sbind (vm_trace_map type_idx) (\<lambda>ptr_map.
    sbind (case ptr_map of
        None \<Rightarrow> ret ()
      | Some tm \<Rightarrow> sbind (reads (\<lambda>vm. read_dst_block vm n)) (\<lambda>dst.
          case dst of
            None \<Rightarrow> ret ()
          | Some overwritten \<Rightarrow> sbind src_head (\<lambda>head.
              let moved = moved_offsets tm n head in
              updates (update_heap (\<lambda>h. for_each_pointer dec_ref overwritten moved
                (for_each_pointer inc_ref head moved h)))))) (\<lambda>_.
    op_headm))))"

section \<open>Tails\<close>

definition op_tail :: "unit vm" where
  "op_tail = sbind src_ptr (\<lambda>list_id.
    if list_id = NIL then move_ptr_to_dst NIL
    else (\<lambda>vm. case heap_get (vm_heap vm) list_id of
        None \<Rightarrow> (Inl (ThreadFault (rstr ''nil list dereference (tail)'')), vm)
      | Some obj \<Rightarrow>
          (case ho_data obj of
             HD_List _ tail \<Rightarrow> move_ptr_to_dst tail vm
           | _ \<Rightarrow> (Inl (ThreadFault (rstr ''tail on non-list'')), vm))))"

section \<open>What a cell gives back\<close>

text \<open>Destinations outside the heap: writing to one leaves every object as it was.\<close>

definition outside_heap :: "addr_target \<Rightarrow> bool" where
  "outside_heap t \<longleftrightarrow> (\<exists>off. t = AT_Frame off \<or> t = AT_Mp off) \<or> (\<exists>idx off. t = AT_ModuleMp idx off)"

lemma vm_heap_module_mp_update [simp]: "vm_heap (module_mp_update idx f vm) = vm_heap vm"
  by (auto simp: module_mp_update_def split: option.split)

lemma write_word_outside_heap:
  assumes "outside_heap t"
  shows "\<exists>vm'. write_word_at t v vm = (Inr (), vm') \<and> vm_heap vm' = vm_heap vm"
  using assms by (auto simp: outside_heap_def write_word_at_def update_frame_data_def)

lemma module_mp_heap [simp]: "module_mp (vm\<lparr>vm_heap := h\<rparr>) idx = module_mp vm idx"
  by (simp add: module_mp_def current_module_virt_idx_def split: option.split)

lemma read_word_at_outside_heap [simp]:
  "outside_heap t \<Longrightarrow> read_word_at (vm\<lparr>vm_heap := h\<rparr>) t imm = read_word_at vm t imm"
  by (auto simp: outside_heap_def read_word_at_def)

lemma holds_outside_heap [simp]:
  "outside_heap t \<Longrightarrow> holds n (vm\<lparr>vm_heap := h\<rparr>) t = holds n vm t"
  by (auto simp: outside_heap_def holds_def)

text \<open>Taking a reference and releasing it again, with a new object allocated in between.\<close>

definition add_cell :: "u8 list \<Rightarrow> heap_id \<Rightarrow> heap \<Rightarrow> heap" where
  "add_cell head tail_id h = snd (heap_alloc 0 (HD_List head tail_id) h)"

lemma saturating_dec_inc: "unat (n :: u32) < 4294967295 \<Longrightarrow> saturating_dec (n + 1) = n"
  using unat_add_1 [of n] by (auto simp: saturating_dec_def)

lemma release_after_alloc:
  assumes get: "hp_objects h t = Some obj" and nil: "t \<noteq> NIL" and fresh: "hp_next_id h \<noteq> t"
    and rc: "ho_ref_count obj \<noteq> 0" "unat (ho_ref_count obj) < 4294967295"
  shows "dec_ref t (add_cell head tail_id (inc_ref t h)) = add_cell head tail_id h"
  using assms saturating_dec_inc [OF rc(2)]
  by (auto simp: dec_ref_def add_cell_def inc_ref_def heap_alloc_def alloc_typed_def Let_def fun_upd_twist
      fun_upd_idem)

lemma push_cell_result:
  assumes "outside_heap (vm_dst vm)" and "holds 4 vm (vm_dst vm)"
    and "read_word_at vm (vm_dst vm) (vm_imm_dst vm) = Inr old_id"
  shows "\<exists>vm'. push_cell head tail_id vm = (Inr (), vm') \<and>
    read_word_at vm' (vm_dst vm) (vm_imm_dst vm) = Inr (hp_next_id (vm_heap vm)) \<and>
    vm_heap vm' = (if old_id \<noteq> NIL then dec_ref old_id (add_cell head tail_id (vm_heap vm))
      else add_cell head tail_id (vm_heap vm))"
proof -
  let ?h = "add_cell head tail_id (vm_heap vm)"
  let ?vm = "vm\<lparr>vm_heap := ?h\<rparr>"
  obtain vm1 where wr: "write_word_at (vm_dst vm) (hp_next_id (vm_heap vm)) ?vm = (Inr (), vm1)"
    and heap: "vm_heap vm1 = ?h"
    using write_word_outside_heap [OF assms(1), of "hp_next_id (vm_heap vm)" ?vm] by auto
  have rd: "read_word_at vm1 (vm_dst vm) (vm_imm_dst vm) = Inr (hp_next_id (vm_heap vm))"
    using word_target.rd_wr [OF _ wr] assms(1,2) by simp
  have "push_cell head tail_id vm =
      (Inr (), if old_id \<noteq> NIL then update_heap (dec_ref old_id) vm1 else vm1)"
    using wr assms(1,3)
    by (simp add: push_cell_def vm_alloc_def dst_ptr_def dst_word_def set_dst_ptr_def sbind_def
        add_cell_def heap_alloc_def alloc_typed_def Let_def)
  then show ?thesis using rd heap assms(1) by (auto simp: update_heap_def)
qed

text \<open>
  \<open>cons\<close> on a destination outside the heap adds one cell, holding the value and the old list, and
  leaves every other object and its count as they were.
\<close>

lemma cons_bytes_result:
  assumes dst: "outside_heap (vm_dst vm)" "holds 4 vm (vm_dst vm)"
    and tail: "read_word_at vm (vm_dst vm) (vm_imm_dst vm) = Inr tail_id"
    and head: "read_cons_head vm n = Inr head"
    and owned: "tail_id = NIL \<or> (\<exists>obj. hp_objects (vm_heap vm) tail_id = Some obj \<and>
      ho_ref_count obj \<noteq> 0 \<and> unat (ho_ref_count obj) < 4294967295)"
    and fresh: "hp_objects (vm_heap vm) (hp_next_id (vm_heap vm)) = None"
  shows "\<exists>vm'. cons_bytes n vm = (Inr (), vm') \<and>
    read_word_at vm' (vm_dst vm) (vm_imm_dst vm) = Inr (hp_next_id (vm_heap vm)) \<and>
    vm_heap vm' = add_cell head tail_id (vm_heap vm)"
proof -
  let ?h = "if tail_id \<noteq> NIL then inc_ref tail_id (vm_heap vm) else vm_heap vm"
  let ?vm = "vm\<lparr>vm_heap := ?h\<rparr>"
  have "cons_bytes n vm = push_cell head tail_id ?vm"
    using tail head
    by (simp add: cons_bytes_def inc_ref_unless_nil_def dst_ptr_def dst_word_def sbind_def update_heap_def)
  moreover have "hp_next_id ?h = hp_next_id (vm_heap vm)"
    by (simp add: inc_ref_def split: option.split)
  moreover have "dec_ref tail_id (add_cell head tail_id ?h) = add_cell head tail_id (vm_heap vm)"
    if "tail_id \<noteq> NIL"
    using that owned fresh by (auto intro!: release_after_alloc)
  ultimately show ?thesis
    using push_cell_result [of ?vm tail_id head tail_id] dst tail by auto
qed

lemma heap_get_add_cell:
  "hp_next_id h \<noteq> NIL \<Longrightarrow> heap_get (add_cell head tail_id h) (hp_next_id h) =
    Some \<lparr>ho_ref_count = 1, ho_type_id = 0, ho_trace = None, ho_data = HD_List head tail_id\<rparr>"
  "x \<noteq> hp_next_id h \<Longrightarrow> heap_get (add_cell head tail_id h) x = heap_get h x"
  by (simp_all add: heap_get_def add_cell_def heap_alloc_def alloc_typed_def Let_def)

end
