(* ===== verification/Strings.thy ===== *)
theory Strings
  imports Lists
begin

unbundle bit_operations_syntax

text \<open>
  The instructions of \<open>ops/string.rs\<close>. A string is its list of characters, so \<open>chars().count()\<close> is
  its length and \<open>chars().nth\<close> its element; the identifiers are those of strings on the heap, and
  changing one character copies a shared string first.
\<close>

section \<open>Length, indexing, concatenation\<close>

definition op_lenc :: "unit vm" where
  "op_lenc = sbind src_ptr (\<lambda>str_id. sbind (reads (\<lambda>vm.
    case get_string (vm_heap vm) str_id of Some s \<Rightarrow> of_nat (length s) | None \<Rightarrow> 0)) set_dst_word)"

definition op_indc :: "unit vm" where
  "op_indc = sbind src_ptr (\<lambda>str_id. sbind mid_word (\<lambda>m. let index = i32_as_usize m in (\<lambda>vm.
    case get_string (vm_heap vm) str_id of
      None \<Rightarrow> raise_exception (rstr ''nil dereference'') vm
    | Some s \<Rightarrow>
        (case nth_opt s index of
           None \<Rightarrow> raise_exception (rstr ''string index out of bounds'') vm
         | Some c \<Rightarrow> set_dst_word (of_nat c) vm))))"

text \<open>\<open>char::from_u32\<close>, with the replacement character for a number that is no character.\<close>

definition char_from_u32 :: "u32 \<Rightarrow> rchar" where
  "char_from_u32 v = (if scalar (unat v) then unat v else replacement_char)"

text \<open>Putting a character at an index, with zero characters up to it where the string is shorter.\<close>

definition extend_with_zeros :: "nat \<Rightarrow> rstring \<Rightarrow> rstring" where
  "extend_with_zeros n s = s @ replicate (n - length s) 0"

definition put_char :: "rchar \<Rightarrow> nat \<Rightarrow> rstring \<Rightarrow> rstring" where
  "put_char c index s = (extend_with_zeros (Suc index) s)[index := c]"

definition vm_cow_string :: "heap_id \<Rightarrow> (heap_id \<times> rstring) option vm" where
  "vm_cow_string hid = (\<lambda>vm. let (r, h) = cow_string hid (vm_heap vm) in (Inr r, vm\<lparr>vm_heap := h\<rparr>))"

definition op_insc :: "unit vm" where
  "op_insc = sbind src_word (\<lambda>rune_val. sbind mid_word (\<lambda>m. let index = i32_as_usize m in
    sbind dst_ptr (\<lambda>str_id. let ch = char_from_u32 rune_val in
      if str_id = NIL then
        (if index > ISIZE_MAX then fail capacity_overflow
         else sbind (vm_alloc 0 (HD_Str (extend_with_zeros index [] @ [ch])) None) set_dst_ptr)
      else sbind (vm_cow_string str_id) (\<lambda>cow. case cow of
          None \<Rightarrow> fail (ThreadFault (rstr ''insc on non-string''))
        | Some (new_id, s) \<Rightarrow>
            if index \<ge> ISIZE_MAX then fail capacity_overflow
            else sbind (updates (update_heap (heap_set_data new_id (HD_Str (put_char ch index s))))) (\<lambda>_.
              if new_id \<noteq> str_id then set_dst_ptr new_id else ret ())))))"

text \<open>Replacing the destination and releasing what it named, in the order of the source.\<close>

definition replace_dst :: "heap_id \<Rightarrow> unit vm" where
  "replace_dst new_id = sbind dst_ptr (\<lambda>old_dst. sbind (set_dst_ptr new_id) (\<lambda>_.
    updates (\<lambda>vm. if old_dst \<noteq> NIL then update_heap (dec_ref old_dst) vm else vm)))"

definition op_addc :: "unit vm" where
  "op_addc = sbind src_ptr (\<lambda>s2_id.
    sbind (\<lambda>vm. if vm_mid vm = AT_None then dst_ptr vm else mid_ptr vm) (\<lambda>s1_id.
    sbind (reads (\<lambda>vm. (get_string (vm_heap vm) s1_id, get_string (vm_heap vm) s2_id))) (\<lambda>(s1, s2).
      if s1 = None \<and> s2 = None then replace_dst NIL
      else sbind (vm_alloc 0 (HD_Str (unwrap_or [] s1 @ unwrap_or [] s2)) None) replace_dst)))"

definition op_slicec :: "unit vm" where
  "op_slicec = sbind src_word (\<lambda>a. sbind mid_word (\<lambda>b. let s = i32_as_usize a; e = i32_as_usize b in
    sbind dst_ptr (\<lambda>str_id.
      if str_id = NIL then
        (if s = 0 \<and> e = 0 then ret () else fail (ThreadFault (rstr ''slice of nil string'')))
      else sbind (reads (\<lambda>vm. get_string (vm_heap vm) str_id)) (\<lambda>str. case str of
          None \<Rightarrow> fail (ThreadFault (rstr ''slicec on non-string''))
        | Some chars \<Rightarrow>
            if e < s \<or> e > length chars then
              fail (ThreadFault (rstr ''string slice out of bounds: ['' @ show_nat s @ rstr ''..'' @
                show_nat e @ rstr ''] len='' @ show_nat (length chars)))
            else
              sbind (if e - s = 0 then ret NIL
                     else vm_alloc 0 (HD_Str (take (e - s) (drop s chars))) None) (\<lambda>new_id.
              sbind (set_dst_ptr new_id) (\<lambda>_. updates (update_heap (dec_ref str_id))))))))"

section \<open>Bytes\<close>

definition op_cvtca :: "unit vm" where
  "op_cvtca = sbind src_ptr (\<lambda>str_id.
    sbind (reads (\<lambda>vm. case get_string (vm_heap vm) str_id of Some s \<Rightarrow> as_bytes s | None \<Rightarrow> [])) (\<lambda>bytes.
    sbind (vm_alloc 0 (HD_Array 0 1 bytes (length bytes)) None) move_ptr_to_dst))"

definition bytes_as_string :: "heap \<Rightarrow> heap_id \<Rightarrow> rstring" where
  "bytes_as_string h arr_id =
    (case heap_get h arr_id of
       None \<Rightarrow> []
     | Some obj \<Rightarrow>
         (case ho_data obj of
            HD_Array _ _ data _ \<Rightarrow> from_utf8_lossy data
          | HD_ArraySlice parent_id byte_start _ elem_size len \<Rightarrow>
              (case array_read h parent_id byte_start (wrap_usize (len * elem_size)) of
                 Some bytes \<Rightarrow> from_utf8_lossy bytes
               | None \<Rightarrow> [])
          | _ \<Rightarrow> []))"

definition op_cvtac :: "unit vm" where
  "op_cvtac = sbind src_ptr (\<lambda>arr_id.
    if arr_id = NIL then move_ptr_to_dst NIL
    else sbind (\<lambda>vm. vm_alloc 0 (HD_Str (bytes_as_string (vm_heap vm) arr_id)) None vm) move_ptr_to_dst)"

section \<open>The length of a list\<close>

text \<open>
  The walk down the tails ends on every heap whose objects only own older ones. The bound stands for
  the host loop; any bound above the identifier is enough (\<open>list_length_enough\<close>).
\<close>

fun list_length_fuel :: "nat \<Rightarrow> heap \<Rightarrow> heap_id \<Rightarrow> nat \<Rightarrow> (exec_error + nat) option" where
  "list_length_fuel fuel h list_id len =
    (if list_id = NIL then Some (Inr len)
     else if fuel = 0 then None
     else case heap_get h list_id of
       None \<Rightarrow> Some (Inl (ThreadFault (rstr ''nil list dereference (lenl)'')))
     | Some obj \<Rightarrow>
         (case ho_data obj of
            HD_List _ tail \<Rightarrow> list_length_fuel (fuel - 1) h tail (len + 1)
          | _ \<Rightarrow> Some (Inl (ThreadFault (rstr ''lenl on non-list'')))))"

declare list_length_fuel.simps [simp del]

definition list_length :: "heap \<Rightarrow> heap_id \<Rightarrow> (exec_error + nat) option" where
  "list_length h list_id = list_length_fuel slice_depth h list_id 0"

definition op_lenl :: "unit vm" where
  "op_lenl = sbind src_ptr (\<lambda>list_id. sbind (\<lambda>vm.
    (unwrap_or (Inl (ExecOther (rstr ''lenl does not end''))) (list_length (vm_heap vm) list_id), vm))
    (\<lambda>len. set_dst_word (of_nat len)))"

section \<open>Lists on the heap\<close>

text \<open>The heads of the cells from an identifier down to nil.\<close>

inductive heap_list :: "heap \<Rightarrow> heap_id \<Rightarrow> u8 list list \<Rightarrow> bool" for h where
  heap_list_nil: "heap_list h NIL []"
| heap_list_cell: "list_id \<noteq> NIL \<Longrightarrow> heap_get h list_id = Some obj \<Longrightarrow> ho_data obj = HD_List head tail \<Longrightarrow>
    heap_list h tail heads \<Longrightarrow> heap_list h list_id (head # heads)"

inductive_cases heap_list_nilE: "heap_list h NIL heads"
inductive_cases heap_list_consE: "heap_list h list_id (head # heads)"

lemma heap_list_NIL [simp]: "heap_list h NIL heads \<longleftrightarrow> heads = []"
  by (auto elim: heap_list_nilE intro: heap_list_nil)

lemma tail_older:
  assumes "heap_ok h" and "heap_get h list_id = Some obj" and "ho_data obj = HD_List head tail"
  shows "tail = NIL \<or> unat tail < unat list_id"
proof (cases "tail = NIL")
  case False
  have "hp_objects h list_id = Some obj" using assms(1,2) by (simp add: heap_get_objects)
  with child_refs_older [OF assms(1) this] assms(3) False show ?thesis by simp
qed simp

lemma list_length_fuel_total:
  "heap_ok h \<Longrightarrow> unat list_id < fuel \<Longrightarrow> \<exists>r. list_length_fuel fuel h list_id len = Some r"
proof (induction fuel arbitrary: list_id len)
  case 0
  then show ?case by simp
next
  case (Suc fuel)
  have IH: "\<exists>r. list_length_fuel fuel h tail (len + 1) = Some r"
    if "heap_get h list_id = Some obj" "ho_data obj = HD_List head tail" for obj head tail
  proof (cases "tail = NIL")
    case True
    then show ?thesis by (subst list_length_fuel.simps) simp
  next
    case False
    with tail_older [OF Suc.prems(1) that] Suc.prems(2) show ?thesis
      by (intro Suc.IH Suc.prems(1)) simp
  qed
  show ?case
    by (subst list_length_fuel.simps) (use IH in \<open>auto split: option.splits heap_data.splits\<close>)
qed

lemma list_length_total: "heap_ok h \<Longrightarrow> \<exists>r. list_length h list_id = Some r"
  unfolding list_length_def by (rule list_length_fuel_total [OF _ unat_less_depth])

lemma list_length_fuel_heads:
  "heap_list h list_id heads \<Longrightarrow> heap_ok h \<Longrightarrow> unat list_id < fuel \<Longrightarrow>
    list_length_fuel fuel h list_id len = Some (Inr (len + length heads))"
proof (induction arbitrary: fuel len rule: heap_list.induct)
  case heap_list_nil
  then show ?case by (subst list_length_fuel.simps) simp
next
  case (heap_list_cell list_id obj head tail heads)
  from tail_older [OF heap_list_cell.prems(1) heap_list_cell.hyps(2,3)] heap_list_cell.prems(2)
  have "unat tail < fuel - 1 \<or> tail = NIL" by auto
  then have "list_length_fuel (fuel - 1) h tail (len + 1) = Some (Inr (len + 1 + length heads))"
  proof
    assume "unat tail < fuel - 1"
    then show ?thesis by (rule heap_list_cell.IH [OF heap_list_cell.prems(1)])
  next
    assume "tail = NIL"
    with heap_list_cell.hyps(4) show ?thesis by (subst list_length_fuel.simps) simp
  qed
  with heap_list_cell show ?case by (subst list_length_fuel.simps) simp
qed

lemma list_length_heads:
  "heap_list h list_id heads \<Longrightarrow> heap_ok h \<Longrightarrow> list_length h list_id = Some (Inr (length heads))"
  unfolding list_length_def using list_length_fuel_heads [OF _ _ unat_less_depth, of h list_id heads 0]
  by simp

text \<open>A cell added in front of a list.\<close>

lemma heap_list_add_cell:
  assumes "heap_list h list_id heads" and "heap_get h (hp_next_id h) = None"
  shows "heap_list (add_cell head tail_id h) list_id heads"
  using assms(1)
proof (induction rule: heap_list.induct)
  case heap_list_nil
  show ?case by simp
next
  case (heap_list_cell list_id obj hd' tail heads)
  have "list_id \<noteq> hp_next_id h" using heap_list_cell.hyps(2) assms(2) by auto
  then have "heap_get (add_cell head tail_id h) list_id = Some obj"
    using heap_list_cell.hyps(2) by (simp add: heap_get_add_cell)
  with heap_list_cell.hyps(1,3) heap_list_cell.IH show ?case by (intro heap_list.heap_list_cell)
qed

lemma heap_list_cons:
  assumes "heap_list h tail_id heads" and "heap_get h (hp_next_id h) = None" and "hp_next_id h \<noteq> NIL"
  shows "heap_list (add_cell head tail_id h) (hp_next_id h) (head # heads)"
  by (rule heap_list_cell [OF assms(3) heap_get_add_cell(1) [OF assms(3)] _
        heap_list_add_cell [OF assms(1,2)]]) simp

end
