(* ===== verification/Reals.thy ===== *)
theory Reals
  imports Strings
begin

unbundle bit_operations_syntax

text \<open>
  Arithmetic on \<open>f64\<close>, for the instructions of \<open>ops/float.rs\<close>, \<open>op_expf\<close> and the numeric
  conversions of \<open>ops/convert.rs\<close>. Every finite \<open>f64\<close> is a whole number of units of \<open>2 ^ - 1074\<close>
  (\<open>f64_scaled\<close>), so the exact result of an operation is a fraction of naturals, which is then
  rounded once, to the nearest representable number and to the even one on a tie, as IEEE 754
  prescribes. Which NaN an operation gives, Rust leaves open: that is the parameter \<open>nan\<close>.
\<close>

section \<open>Rounding\<close>

fun bit_size :: "nat \<Rightarrow> nat" where
  "bit_size n = (if n = 0 then 0 else Suc (bit_size (n div 2)))"

declare bit_size.simps [simp del]

definition div_round_even :: "nat \<Rightarrow> nat \<Rightarrow> nat" where
  "div_round_even p q =
    (let d = p div q; r = p mod q in
     if 2 * r < q \<or> 2 * r = q \<and> even d then d else Suc d)"

text \<open>
  The pattern, without its sign, of the number nearest to \<open>p / q\<close> units in a format with \<open>prec\<close>
  bits of precision whose infinity has the pattern \<open>infinity\<close>: the unit in the last place is \<open>2 ^ E\<close>.
\<close>

definition round_to_format :: "nat \<Rightarrow> nat \<Rightarrow> nat \<Rightarrow> nat \<Rightarrow> nat" where
  "round_to_format prec infinity p q =
    (let E = bit_size (p div (q * 2 ^ prec)) in
     min (E * 2 ^ (prec - 1) + div_round_even p (q * 2 ^ E)) infinity)"

definition F64_INF :: nat where
  "F64_INF = 9218868437227405312"

definition f64_make :: "bool \<Rightarrow> nat \<Rightarrow> f64_bits" where
  "f64_make neg mag = of_nat ((if neg then 9223372036854775808 else 0) + mag)"

text \<open>The number \<open>\<plusminus>p / q\<close> units, rounded.\<close>

definition f64_round :: "bool \<Rightarrow> nat \<Rightarrow> nat \<Rightarrow> f64_bits" where
  "f64_round neg p q = f64_make neg (round_to_format 53 F64_INF p q)"

section \<open>The operations\<close>

datatype f64_op = F_Add | F_Sub | F_Mul | F_Div | F_Widen | F_Narrow

type_synonym nan_choice = "f64_op \<Rightarrow> f64_bits \<Rightarrow> f64_bits \<Rightarrow> f64_bits"

definition f64_is_inf :: "f64_bits \<Rightarrow> bool" where
  "f64_is_inf b \<longleftrightarrow> f64_magnitude b = F64_INF"

definition f64_is_zero :: "f64_bits \<Rightarrow> bool" where
  "f64_is_zero b \<longleftrightarrow> f64_magnitude b = 0"

definition f64_neg :: "f64_bits \<Rightarrow> f64_bits" where
  "f64_neg b = b XOR 0x8000000000000000"

definition f64_from_scaled :: "int \<Rightarrow> f64_bits" where
  "f64_from_scaled v = f64_round (v < 0) (nat \<bar>v\<bar>) 1"

text \<open>\<open>a + b\<close> of two that are not NaNs, with the NaN that opposite infinities give.\<close>

definition f64_sum :: "f64_bits \<Rightarrow> f64_bits \<Rightarrow> f64_bits \<Rightarrow> f64_bits" where
  "f64_sum invalid a b =
    (if f64_is_inf a then
       (if f64_is_inf b \<and> f64_negative a \<noteq> f64_negative b then invalid else a)
     else if f64_is_inf b then b
     else let v = f64_scaled a + f64_scaled b in
       if v = 0 then f64_make (f64_negative a \<and> f64_negative b) 0 else f64_from_scaled v)"

definition f64_add :: "nan_choice \<Rightarrow> f64_bits \<Rightarrow> f64_bits \<Rightarrow> f64_bits" where
  "f64_add nan a b =
    (if f64_is_nan a \<or> f64_is_nan b then nan F_Add a b else f64_sum (nan F_Add a b) a b)"

definition f64_sub :: "nan_choice \<Rightarrow> f64_bits \<Rightarrow> f64_bits \<Rightarrow> f64_bits" where
  "f64_sub nan a b =
    (if f64_is_nan a \<or> f64_is_nan b then nan F_Sub a b else f64_sum (nan F_Sub a b) a (f64_neg b))"

definition f64_mul :: "nan_choice \<Rightarrow> f64_bits \<Rightarrow> f64_bits \<Rightarrow> f64_bits" where
  "f64_mul nan a b =
    (let neg = (f64_negative a \<noteq> f64_negative b) in
     if f64_is_nan a \<or> f64_is_nan b \<or> f64_is_inf a \<and> f64_is_zero b \<or> f64_is_zero a \<and> f64_is_inf b
     then nan F_Mul a b
     else if f64_is_inf a \<or> f64_is_inf b then f64_make neg F64_INF
     else f64_round neg (nat \<bar>f64_scaled a\<bar> * nat \<bar>f64_scaled b\<bar>) (2 ^ 1074))"

definition f64_div :: "nan_choice \<Rightarrow> f64_bits \<Rightarrow> f64_bits \<Rightarrow> f64_bits" where
  "f64_div nan a b =
    (let neg = (f64_negative a \<noteq> f64_negative b) in
     if f64_is_nan a \<or> f64_is_nan b \<or> f64_is_inf a \<and> f64_is_inf b \<or> f64_is_zero a \<and> f64_is_zero b
     then nan F_Div a b
     else if f64_is_inf a \<or> f64_is_zero b then f64_make neg F64_INF
     else if f64_is_inf b then f64_make neg 0
     else f64_round neg (nat \<bar>f64_scaled a\<bar> * 2 ^ 1074) (nat \<bar>f64_scaled b\<bar>))"

text \<open>\<open>as f64\<close> of an integer, and \<open>as i32\<close>, \<open>as i64\<close> of an \<open>f64\<close>: truncated and saturating.\<close>

definition f64_of_int :: "int \<Rightarrow> f64_bits" where
  "f64_of_int i = f64_round (i < 0) (nat \<bar>i\<bar> * 2 ^ 1074) 1"

definition f64_trunc :: "f64_bits \<Rightarrow> int" where
  "f64_trunc b = (let m = int (nat \<bar>f64_scaled b\<bar> div 2 ^ 1074) in if f64_negative b then - m else m)"

definition f64_as_signed :: "f64_bits \<Rightarrow> 'a::len word" where
  "f64_as_signed b =
    (if f64_is_nan b then 0
     else word_of_int (max (- (2 ^ (LENGTH('a) - 1))) (min (2 ^ (LENGTH('a) - 1) - 1) (f64_trunc b))))"

definition F64_HALF :: f64_bits where
  "F64_HALF = 0x3FE0000000000000"

definition F64_ONE :: f64_bits where
  "F64_ONE = 0x3FF0000000000000"

section \<open>The instructions\<close>

definition op_addf :: "nan_choice \<Rightarrow> unit vm" where
  "op_addf nan = sbind src_real (\<lambda>s. sbind mid_or_dst_real (\<lambda>m. set_dst_real (f64_add nan s m)))"

definition op_subf :: "nan_choice \<Rightarrow> unit vm" where
  "op_subf nan = sbind src_real (\<lambda>s. sbind mid_or_dst_real (\<lambda>m. set_dst_real (f64_sub nan m s)))"

definition op_mulf :: "nan_choice \<Rightarrow> unit vm" where
  "op_mulf nan = sbind src_real (\<lambda>s. sbind mid_or_dst_real (\<lambda>m. set_dst_real (f64_mul nan s m)))"

definition op_divf :: "nan_choice \<Rightarrow> unit vm" where
  "op_divf nan = sbind src_real (\<lambda>s. sbind mid_or_dst_real (\<lambda>m. set_dst_real (f64_div nan m s)))"

definition op_negf :: "unit vm" where
  "op_negf = sbind src_real (\<lambda>s. set_dst_real (f64_neg s))"

function expf_loop :: "nan_choice \<Rightarrow> u32 \<Rightarrow> f64_bits \<Rightarrow> f64_bits \<Rightarrow> f64_bits" where
  "expf_loop nan e x r =
    (let r = (if e AND 1 \<noteq> 0 then f64_mul nan r x else r); e = drop_bit 1 e in
     if e = 0 then r else expf_loop nan e (f64_mul nan x x) r)"
  by pat_completeness auto
termination
proof (relation "measure (\<lambda>(nan, e, x, r). unat e)", goal_cases)
  case 1
  show ?case by simp
next
  case (2 nan e x r ra ea)
  then have "unat ea = unat e div 2" using unat_drop_bit_div [of 1 e] by simp
  moreover have "unat ea \<noteq> 0" using 2 by (simp add: unat_eq_0)
  ultimately show ?case by simp
qed

declare expf_loop.simps [simp del]

definition op_expf :: "nan_choice \<Rightarrow> unit vm" where
  "op_expf nan = sbind src_word (\<lambda>n. sbind mid_or_dst_real (\<lambda>x.
    let r = expf_loop nan (unsigned_abs n) x F64_ONE in
    set_dst_real (if sint n < 0 then f64_div nan F64_ONE r else r)))"

text \<open>Rounding half away from zero, then truncating.\<close>

definition f64_round_half :: "nan_choice \<Rightarrow> f64_bits \<Rightarrow> f64_bits" where
  "f64_round_half nan f = (if f64_lt f 0 then f64_sub nan f F64_HALF else f64_add nan f F64_HALF)"

definition op_cvtfw :: "nan_choice \<Rightarrow> unit vm" where
  "op_cvtfw nan = sbind src_real (\<lambda>f. set_dst_word (f64_as_signed (f64_round_half nan f)))"

definition op_cvtwf :: "unit vm" where
  "op_cvtwf = sbind src_word (\<lambda>w. set_dst_real (f64_of_int (sint w)))"

definition op_cvtlf :: "unit vm" where
  "op_cvtlf = sbind src_big (\<lambda>b. set_dst_real (f64_of_int (sint b)))"

definition op_cvtfl :: "nan_choice \<Rightarrow> unit vm" where
  "op_cvtfl nan = sbind src_real (\<lambda>f. set_dst_big (f64_as_signed (f64_round_half nan f)))"

text \<open>An \<open>f32\<close> is a whole number of units of \<open>2 ^ - 149\<close>, which is \<open>2 ^ 925\<close> units here.\<close>

definition f32_widen :: "nan_choice \<Rightarrow> u32 \<Rightarrow> f64_bits" where
  "f32_widen nan b =
    (let neg = (2147483648 \<le> unat b); mag = unat b mod 2147483648;
         e = mag div 8388608; f = mag mod 8388608;
         m = (if e = 0 then f else (8388608 + f) * 2 ^ (e - 1)) in
     if 2139095040 < mag then nan F_Widen (ucast b) 0
     else if mag = 2139095040 then f64_make neg F64_INF
     else f64_round neg (m * 2 ^ 925) 1)"

definition f32_narrow :: "nan_choice \<Rightarrow> f64_bits \<Rightarrow> u32" where
  "f32_narrow nan b =
    (if f64_is_nan b then ucast (nan F_Narrow b 0)
     else of_nat ((if f64_negative b then 2147483648 else 0) +
       (if f64_is_inf b then 2139095040
        else round_to_format 24 2139095040 (nat \<bar>f64_scaled b\<bar>) (2 ^ 925))))"

definition op_cvtrf :: "nan_choice \<Rightarrow> unit vm" where
  "op_cvtrf nan = sbind src_word (\<lambda>w. set_dst_real (f32_widen nan w))"

definition op_cvtfr :: "nan_choice \<Rightarrow> unit vm" where
  "op_cvtfr nan = sbind src_real (\<lambda>f. set_dst_word (f32_narrow nan f))"

definition op_cvtfx :: "nan_choice \<Rightarrow> unit vm" where
  "op_cvtfx nan = sbind src_real (\<lambda>f. sbind mid_real (\<lambda>scale.
    set_dst_word (f64_as_signed (f64_round_half nan (f64_mul nan f scale)))))"

definition op_cvtxf :: "nan_choice \<Rightarrow> unit vm" where
  "op_cvtxf nan = sbind src_word (\<lambda>x. sbind mid_real (\<lambda>scale.
    set_dst_real (f64_mul nan (f64_of_int (sint x)) scale)))"

section \<open>Correct rounding\<close>

lemma bit_size_bounds: "n < 2 ^ bit_size n" "n \<noteq> 0 \<Longrightarrow> 2 ^ (bit_size n - 1) \<le> n"
proof (induction n rule: bit_size.induct)
  case (1 n)
  {
    case 1
    show ?case
    proof (cases "n = 0")
      case False
      with "1.IH"(1) have "n div 2 < 2 ^ bit_size (n div 2)" by simp
      with False show ?thesis by (subst bit_size.simps) simp
    qed (simp add: bit_size.simps)
  next
    case 2
    show ?case
    proof (cases "n div 2 = 0")
      case True
      with 2 have "n = 1" by simp
      then show ?thesis by (simp add: bit_size.simps)
    next
      case False
      with 2 "1.IH"(2) have "2 ^ (bit_size (n div 2) - 1) \<le> n div 2" by simp
      then have "2 * 2 ^ (bit_size (n div 2) - 1) \<le> n" by linarith
      moreover have "bit_size (n div 2) \<noteq> 0" using False by (subst bit_size.simps) simp
      then have "bit_size n - 1 = Suc (bit_size (n div 2) - 1)"
        using 2 by (subst bit_size.simps [of n]) simp
      ultimately show ?thesis by simp
    qed
  }
qed

text \<open>The rounded quotient is as near as any whole number, and even when two are as near.\<close>

lemma div_round_even_nearest:
  assumes "0 < q"
  shows "\<bar>int (div_round_even p q * q) - int p\<bar> \<le> \<bar>int (k * q) - int p\<bar>"
proof -
  define d r where "d = p div q" and "r = p mod q"
  have p: "int p = int (d * q) + int r" and r: "r < q"
    using assms unfolding d_def r_def by (simp_all only: of_nat_add [symmetric] div_mult_mod_eq mod_less_divisor)
  have chosen: "div_round_even p q = (if 2 * r < q \<or> 2 * r = q \<and> even d then d else Suc d)"
    by (simp add: div_round_even_def d_def r_def Let_def)
  consider "k \<le> d" | "Suc d \<le> k" by linarith
  then have "min (int r) (int q - int r) \<le> \<bar>int (k * q) - int p\<bar>"
  proof cases
    case 1
    then have "int (k * q) \<le> int (d * q)" by (simp only: of_nat_le_iff mult_le_mono1)
    with p show ?thesis by linarith
  next
    case 2
    then have "int (Suc d * q) \<le> int (k * q)" by (simp only: of_nat_le_iff mult_le_mono1)
    then have "int (d * q) + int q \<le> int (k * q)" by simp
    with p r show ?thesis by linarith
  qed
  moreover have "\<bar>int (div_round_even p q * q) - int p\<bar> = min (int r) (int q - int r)"
    unfolding chosen using p r by (auto simp: distrib_right)
  ultimately show ?thesis by linarith
qed

lemma div_round_even_even:
  "0 < q \<Longrightarrow> 2 * (p mod q) = q \<Longrightarrow> even (div_round_even p q)"
  by (simp add: div_round_even_def Let_def)

lemma div_round_even_bounds:
  assumes "0 < q" and "a * q \<le> p" and "p \<le> b * q"
  shows "a \<le> div_round_even p q" "div_round_even p q \<le> b"
proof -
  have "a \<le> p div q" using assms(1,2) by (simp add: less_eq_div_iff_mult_less_eq)
  then show "a \<le> div_round_even p q" by (auto simp: div_round_even_def Let_def)
  show "div_round_even p q \<le> b"
  proof (cases "p mod q = 0")
    case True
    then have "div_round_even p q = p div q" using assms(1) by (simp add: div_round_even_def)
    also have "\<dots> \<le> b * q div q" by (rule div_le_mono) (rule assms(3))
    finally show ?thesis using assms(1) by simp
  next
    case False
    then have "q * (p div q) < p" using mult_div_mod_eq [of q p] by linarith
    then have "q * (p div q) < q * b" using assms(3) by (metis less_le_trans mult.commute)
    then have "p div q < b" by (metis mult_less_cancel1)
    then show ?thesis by (auto simp: div_round_even_def Let_def)
  qed
qed

text \<open>The value of a pattern built from an exponent and a significand, the carry included.\<close>

lemma magnitude_value_parts:
  assumes "m \<le> 2 ^ 53" and "E \<noteq> 0 \<Longrightarrow> 2 ^ 52 \<le> m"
  shows "magnitude_value (E * 2 ^ 52 + m) = m * 2 ^ E"
proof -
  let ?B = "4503599627370496 :: nat"
  have "m \<le> 2 * ?B" using assms(1) by simp
  then consider "m < ?B" | "?B \<le> m" "m < 2 * ?B" | "m = 2 * ?B" by linarith
  then show ?thesis
  proof cases
    case 1
    with assms(2) show ?thesis by (auto simp: magnitude_value_def)
  next
    case 2
    obtain f where f1: "m = ?B + f" using le_Suc_ex [OF 2(1)] by blast
    with 2(2) have f: "m = ?B + f" "f < ?B" by simp_all
    then have "(E * 2 ^ 52 + m) div ?B = Suc E" "(E * 2 ^ 52 + m) mod ?B = f" by simp_all
    with f show ?thesis by (simp add: magnitude_value_def)
  next
    case 3
    then have "(E * 2 ^ 52 + m) div ?B = Suc (Suc E)" "(E * 2 ^ 52 + m) mod ?B = 0" by simp_all
    with 3 show ?thesis by (simp add: magnitude_value_def)
  qed
qed

lemma magnitude_value_grid: "(\<exists>j. magnitude_value k = j * 2 ^ E) \<or> E \<noteq> 0 \<and> magnitude_value k \<le> 2 ^ 52 * 2 ^ E"
proof (cases "k div 4503599627370496")
  case 0
  then have "magnitude_value k < 4503599627370496" by (simp add: magnitude_value_def)
  then have "magnitude_value k \<le> 4503599627370496 * 1" by simp
  also have "\<dots> \<le> 4503599627370496 * 2 ^ E" by (intro mult_le_mono2) simp
  finally have "magnitude_value k \<le> 2 ^ 52 * 2 ^ E" by simp
  then show ?thesis by (cases "E = 0") auto
next
  case (Suc e)
  then have v: "magnitude_value k = (4503599627370496 + k mod 4503599627370496) * 2 ^ e"
    by (simp add: magnitude_value_def)
  show ?thesis
  proof (cases "E \<le> e")
    case True
    then have "magnitude_value k = (4503599627370496 + k mod 4503599627370496) * 2 ^ (e - E) * 2 ^ E"
      unfolding v by (simp add: mult.assoc flip: power_add)
    then show ?thesis by blast
  next
    case False
    then have "(2 :: nat) ^ Suc e \<le> 2 ^ E" by (intro power_increasing) simp_all
    with magnitude_value_bounds(2) [OF Suc] have "magnitude_value k < 4503599627370496 * 2 ^ E"
      by (meson le_less_trans less_le_trans mult_le_mono2 nat_less_le)
    with False show ?thesis by simp
  qed
qed

text \<open>The exponent leaves a significand of 53 bits, with its top bit set unless it is the least.\<close>

lemma round_exponent:
  fixes p q :: nat
  assumes "0 < q" and E: "E = bit_size (p div (q * 2 ^ 53))"
  shows "p \<le> 2 ^ 53 * (q * 2 ^ E)" and "E \<noteq> 0 \<Longrightarrow> 2 ^ 52 * (q * 2 ^ E) \<le> p"
proof -
  let ?n = "p div (q * 2 ^ 53)"
  have pos: "0 < q * 2 ^ 53" using assms(1) by simp
  have "?n < 2 ^ E" unfolding E by (rule bit_size_bounds)
  then have "p < 2 ^ E * (q * 2 ^ 53)" using div_less_iff_less_mult [OF pos] by blast
  then show "p \<le> 2 ^ 53 * (q * 2 ^ E)" by (simp add: ac_simps)
  assume "E \<noteq> 0"
  then have "?n \<noteq> 0" unfolding E by (subst (asm) bit_size.simps) (simp split: if_splits)
  then have "2 ^ (E - 1) \<le> ?n" unfolding E by (rule bit_size_bounds)
  then have "2 ^ (E - 1) * (q * 2 ^ 53) \<le> p" using less_eq_div_iff_mult_less_eq [OF pos] by blast
  moreover have "(2 :: nat) ^ E = 2 * 2 ^ (E - 1)" using \<open>E \<noteq> 0\<close> by (cases E) simp_all
  ultimately show "2 ^ 52 * (q * 2 ^ E) \<le> p" by (simp add: ac_simps)
qed

text \<open>No finite number is nearer to the exact result than the rounded one.\<close>

lemma round_to_format_nearest:
  assumes q: "0 < q" and finite: "round_to_format 53 F64_INF p q < F64_INF"
  shows "\<bar>int (magnitude_value (round_to_format 53 F64_INF p q) * q) - int p\<bar> \<le>
    \<bar>int (magnitude_value k * q) - int p\<bar>"
proof -
  define E where "E = bit_size (p div (q * 2 ^ 53))"
  define m where "m = div_round_even p (q * 2 ^ E)"
  have pos: "0 < q * 2 ^ E" using q by simp
  note exp = round_exponent [OF q E_def]
  have m: "m \<le> 2 ^ 53" "E \<noteq> 0 \<Longrightarrow> 2 ^ 52 \<le> m"
    unfolding m_def using div_round_even_bounds [OF pos _ exp(1), of 0]
      div_round_even_bounds(1) [OF pos exp(2) exp(1)] by auto
  have "round_to_format 53 F64_INF p q = E * 2 ^ 52 + m"
    using finite by (simp add: round_to_format_def E_def m_def Let_def min_def split: if_splits)
  then have v: "magnitude_value (round_to_format 53 F64_INF p q) * q = m * (q * 2 ^ E)"
    using magnitude_value_parts [OF m] by (simp add: ac_simps)
  have near: "\<bar>int (m * (q * 2 ^ E)) - int p\<bar> \<le> \<bar>int (j * (q * 2 ^ E)) - int p\<bar>" for j
    unfolding m_def by (rule div_round_even_nearest [OF pos])
  show ?thesis
  proof (cases "\<exists>j. magnitude_value k = j * 2 ^ E")
    case True
    then obtain j where "magnitude_value k * q = j * (q * 2 ^ E)" by (auto simp: ac_simps)
    with near [of j] v show ?thesis by (simp only:)
  next
    case False
    with magnitude_value_grid [of k E] have "E \<noteq> 0" "magnitude_value k \<le> 2 ^ 52 * 2 ^ E" by auto
    from mult_le_mono1 [OF this(2), of q] have "magnitude_value k * q \<le> 2 ^ 52 * (q * 2 ^ E)"
      by (simp add: ac_simps)
    with exp(2) [OF \<open>E \<noteq> 0\<close>] near [of "2 ^ 52"] v show ?thesis by linarith
  qed
qed

text \<open>A number of the format is not changed by rounding it.\<close>

lemma round_to_format_exact:
  assumes "k < F64_INF"
  shows "round_to_format 53 F64_INF (magnitude_value k) 1 = k"
proof -
  define E where "E = bit_size (magnitude_value k div 2 ^ 53)"
  obtain m E' where k: "k = E' * 2 ^ 52 + m" "m < 2 ^ 53" "E' \<noteq> 0 \<longrightarrow> 2 ^ 52 \<le> m"
  proof (cases "k div 2 ^ 52")
    case 0
    then have "k < 2 ^ 52" by simp
    then show ?thesis by (intro that [of 0 k]) simp_all
  next
    case (Suc e)
    have "k = Suc e * 2 ^ 52 + k mod 2 ^ 52" using Suc by (metis div_mult_mod_eq)
    moreover have "k mod 2 ^ 52 < 2 ^ 52" by (rule mod_less_divisor) simp
    ultimately show ?thesis by (intro that [of e "2 ^ 52 + k mod 2 ^ 52"]) simp_all
  qed
  have v: "magnitude_value k = m * 2 ^ E'" unfolding k(1) using k by (intro magnitude_value_parts) auto
  have "E = E'"
  proof (cases "E' = 0")
    case True
    with v k(2) show ?thesis by (simp add: E_def bit_size.simps)
  next
    case False
    note exp = round_exponent [of 1 E "magnitude_value k"]
    have "\<not> E < E'"
    proof
      assume "E < E'"
      then have "(2 :: nat) ^ Suc E \<le> 2 ^ E'" by (intro power_increasing) simp_all
      moreover have "2 ^ 52 * 2 ^ E' \<le> magnitude_value k" using v k(3) False by simp
      moreover have "magnitude_value k div 2 ^ 53 < 2 ^ E" unfolding E_def by (rule bit_size_bounds)
      then have "magnitude_value k < 2 ^ E * 2 ^ 53" by (simp add: div_less_iff_less_mult)
      ultimately show False by simp
    qed
    moreover have "\<not> E' < E"
    proof
      assume "E' < E"
      then have "(2 :: nat) ^ Suc E' \<le> 2 ^ E" by (intro power_increasing) simp_all
      moreover have "2 ^ 52 * 2 ^ E \<le> magnitude_value k"
        using exp(2) \<open>E' < E\<close> by (simp add: E_def)
      moreover have "magnitude_value k < 2 ^ 53 * 2 ^ E'" using v k(2) by simp
      ultimately show False by simp
    qed
    ultimately show ?thesis by simp
  qed
  then have "div_round_even (magnitude_value k) (1 * 2 ^ E) = m" using v by (simp add: div_round_even_def)
  moreover have "round_to_format 53 F64_INF (magnitude_value k) 1 =
      min (E * 2 ^ 52 + div_round_even (magnitude_value k) (1 * 2 ^ E)) F64_INF"
    by (simp add: round_to_format_def E_def Let_def)
  moreover have "k = E * 2 ^ 52 + m" using k(1) \<open>E = E'\<close> by simp
  ultimately show ?thesis using assms by (simp only: min_absorb1 less_imp_le)
qed

section \<open>Every result is the nearest\<close>

lemma f64_make_parts:
  assumes "mag \<le> F64_INF"
  shows "f64_magnitude (f64_make neg mag) = mag" "f64_negative (f64_make neg mag) = neg"
proof -
  have u: "unat (f64_make neg mag) = (if neg then 9223372036854775808 else 0) + mag"
    unfolding f64_make_def unsigned_of_nat of_nat_id using assms
    by (intro take_bit_nat_eq_self) (simp add: F64_INF_def)
  show "f64_magnitude (f64_make neg mag) = mag" "f64_negative (f64_make neg mag) = neg"
    using assms by (auto simp: f64_magnitude_def f64_negative_def u F64_INF_def)
qed

lemma f64_round_nearest:
  assumes "0 < q" and "r = f64_round neg p q" and "f64_magnitude r < F64_INF"
    and "x = (if neg then - int p else int p)"
  shows "\<bar>f64_scaled r * int q - x\<bar> \<le> \<bar>f64_scaled c * int q - x\<bar>"
proof -
  let ?R = "round_to_format 53 F64_INF p q" and ?k = "f64_magnitude c"
  have le: "?R \<le> F64_INF" by (simp add: round_to_format_def Let_def)
  have r: "f64_magnitude r = ?R" "f64_negative r = neg"
    using f64_make_parts [OF le] assms(2) by (simp_all add: f64_round_def)
  then have "?R < F64_INF" using assms(3) by simp
  from round_to_format_nearest [OF assms(1) this, of ?k]
  have near: "\<bar>int (magnitude_value ?R) * int q - int p\<bar> \<le> \<bar>int (magnitude_value ?k) * int q - int p\<bar>"
    by simp
  define y z where "y = int (magnitude_value ?R) * int q" and "z = int (magnitude_value ?k) * int q"
  have "0 \<le> y" "0 \<le> z" "\<bar>y - int p\<bar> \<le> \<bar>z - int p\<bar>" using near by (simp_all add: y_def z_def)
  then have "\<bar>(if neg then - y else y) - x\<bar> \<le> \<bar>(if b then - z else z) - x\<bar>" for b
    using assms(4) by (cases neg; cases b) simp_all
  from this [of "f64_negative c"] show ?thesis
    by (simp add: f64_scaled_magnitude r y_def z_def if_distrib [of "\<lambda>v. v * int q"] cong: if_cong)
qed

definition f64_finite :: "f64_bits \<Rightarrow> bool" where
  "f64_finite b \<longleftrightarrow> f64_magnitude b < F64_INF"

lemma f64_finite_cases:
  "f64_finite b \<Longrightarrow> \<not> f64_is_nan b" "f64_finite b \<Longrightarrow> \<not> f64_is_inf b"
  by (simp_all add: f64_finite_def f64_is_nan_def f64_is_inf_def F64_INF_def)

lemma f64_scaled_sign: "f64_scaled b \<noteq> 0 \<Longrightarrow> f64_scaled b < 0 \<longleftrightarrow> f64_negative b"
  by (auto simp: f64_scaled_magnitude)

lemma f64_zero_scaled: "f64_is_zero b \<longleftrightarrow> f64_scaled b = 0"
  by (simp add: f64_is_zero_def f64_scaled_magnitude magnitude_value_eq_0)

lemma f64_make_zero: "f64_scaled (f64_make neg 0) = 0"
  unfolding f64_zero_scaled [symmetric] f64_is_zero_def by (rule f64_make_parts) simp

lemma f64_add_nearest:
  assumes "f64_finite a" "f64_finite b" "f64_finite (f64_add nan a b)"
  shows "\<bar>f64_scaled (f64_add nan a b) - (f64_scaled a + f64_scaled b)\<bar> \<le>
    \<bar>f64_scaled c - (f64_scaled a + f64_scaled b)\<bar>"
proof (cases "f64_scaled a + f64_scaled b = 0")
  case True
  with assms(1,2) show ?thesis
    by (simp add: f64_add_def f64_sum_def f64_finite_cases Let_def f64_make_zero)
next
  case False
  let ?v = "f64_scaled a + f64_scaled b"
  have r: "f64_add nan a b = f64_round (?v < 0) (nat \<bar>?v\<bar>) 1"
    using False assms(1,2) by (simp add: f64_add_def f64_sum_def f64_finite_cases Let_def f64_from_scaled_def)
  from f64_round_nearest [OF _ r, of ?v c] assms(3) show ?thesis
    by (simp add: f64_finite_def)
qed

lemma scaled_product_sign:
  assumes "p = nat \<bar>f64_scaled a\<bar> * nat \<bar>f64_scaled b\<bar>" and "neg = (f64_negative a \<noteq> f64_negative b)"
  shows "f64_scaled a * f64_scaled b = (if neg then - int p else int p)"
  by (simp add: assms f64_scaled_magnitude)

lemma f64_mul_nearest:
  assumes "f64_finite a" "f64_finite b" "f64_finite (f64_mul nan a b)"
  shows "\<bar>f64_scaled (f64_mul nan a b) * 2 ^ 1074 - f64_scaled a * f64_scaled b\<bar> \<le>
    \<bar>f64_scaled c * 2 ^ 1074 - f64_scaled a * f64_scaled b\<bar>"
proof -
  let ?p = "nat \<bar>f64_scaled a\<bar> * nat \<bar>f64_scaled b\<bar>"
  have r: "f64_mul nan a b = f64_round (f64_negative a \<noteq> f64_negative b) ?p (2 ^ 1074)"
    unfolding f64_mul_def Let_def using assms(1,2) by (simp only: f64_finite_cases if_False simp_thms)
  have "int (2 ^ 1074) = 2 ^ 1074" by (simp only: of_nat_power of_nat_numeral)
  with f64_round_nearest [OF _ r _ scaled_product_sign [OF refl refl], of c] assms(3) show ?thesis
    by (simp only: f64_finite_def zero_less_power zero_less_numeral)
qed

lemma f64_div_nearest:
  assumes "f64_finite a" "f64_finite b" "f64_scaled b \<noteq> 0" "f64_finite (f64_div nan a b)"
  shows "\<bar>f64_scaled (f64_div nan a b) * \<bar>f64_scaled b\<bar> - f64_scaled a * sgn (f64_scaled b) * 2 ^ 1074\<bar> \<le>
    \<bar>f64_scaled c * \<bar>f64_scaled b\<bar> - f64_scaled a * sgn (f64_scaled b) * 2 ^ 1074\<bar>"
proof -
  let ?p = "nat \<bar>f64_scaled a\<bar> * 2 ^ 1074" and ?neg = "f64_negative a \<noteq> f64_negative b"
  have b: "\<not> f64_is_zero b" using assms(3) by (simp add: f64_zero_scaled)
  have r: "f64_div nan a b = f64_round ?neg ?p (nat \<bar>f64_scaled b\<bar>)"
    unfolding f64_div_def Let_def using assms(1,2) b by (simp only: f64_finite_cases if_False simp_thms)
  have sign: "f64_scaled a * sgn (f64_scaled b) = (if ?neg then - \<bar>f64_scaled a\<bar> else \<bar>f64_scaled a\<bar>)"
    using assms(3) by (auto simp: f64_scaled_magnitude sgn_if)
  have pow: "int (2 ^ 1074) = 2 ^ 1074" by (simp only: of_nat_power of_nat_numeral)
  have "f64_scaled a * sgn (f64_scaled b) * 2 ^ 1074 = (if ?neg then - int ?p else int ?p)"
    unfolding sign of_nat_mult pow by (simp only: if_distrib [of "\<lambda>v. v * 2 ^ 1074"] mult_minus_left
        int_nat_eq abs_ge_zero if_True)
  from f64_round_nearest [OF _ r _ this, of c] assms(3,4) show ?thesis
    by (simp only: f64_finite_def int_nat_eq abs_ge_zero if_True zero_less_nat_eq zero_less_abs_iff simp_thms)
qed

end
