(* ===== verification/DataInit.thy ===== *)
theory DataInit
  imports HeapOps
begin

text \<open>
  \<open>crates/ricevm-execute/src/data.rs\<close>: filling a module's data area from its data items. Strings and
  arrays are allocated on the heap and named by a word in the data; \<open>SetArray\<close> turns to the bytes
  of such an array until \<open>RestoreBase\<close>. The stack of arrays has its top at the head of the list.
\<close>

section \<open>Buffers\<close>

record init_state =
  is_mp :: "u8 list"
  is_heap :: heap
  is_stack :: "(heap_id \<times> usize \<times> usize) list"

definition element_pos :: "usize \<Rightarrow> usize \<Rightarrow> usize \<Rightarrow> usize option" where
  "element_pos base index elem_size =
    (case checked_mul index elem_size of None \<Rightarrow> None | Some d \<Rightarrow> checked_add base d)"

text \<open>The array whose data \<open>active_buffer\<close> returns, if it is not the module's data.\<close>

definition active_array :: "init_state \<Rightarrow> (heap_id \<times> heap_data) option" where
  "active_array s =
    (case is_stack s of
       [] \<Rightarrow> None
     | (arr_id, _, _) # _ \<Rightarrow>
         (case heap_get (is_heap s) arr_id of
            None \<Rightarrow> None
          | Some obj \<Rightarrow>
              (case ho_data obj of HD_Array _ _ _ _ \<Rightarrow> Some (arr_id, ho_data obj) | _ \<Rightarrow> None)))"

definition active_buffer :: "init_state \<Rightarrow> u8 list" where
  "active_buffer s =
    (case active_array s of Some (_, HD_Array _ _ data _) \<Rightarrow> data | _ \<Rightarrow> is_mp s)"

definition set_active_buffer :: "u8 list \<Rightarrow> init_state \<Rightarrow> init_state" where
  "set_active_buffer buf s =
    (case active_array s of
       Some (arr_id, HD_Array et es _ n) \<Rightarrow>
         s\<lparr>is_heap := heap_set_data arr_id (HD_Array et es buf n) (is_heap s)\<rparr>
     | _ \<Rightarrow> s\<lparr>is_mp := buf\<rparr>)"

definition word_slot_fits :: "init_state \<Rightarrow> usize \<Rightarrow> bool" where
  "word_slot_fits s off =
    (case checked_add off 4 of Some end_pos \<Rightarrow> end_pos \<le> length (active_buffer s) | None \<Rightarrow> False)"

section \<open>Items\<close>

text \<open>The loops over the elements of an item, which stop at the first that does not fit.\<close>

fun init_elements ::
  "(u8 list \<Rightarrow> usize \<Rightarrow> 'v \<Rightarrow> u8 list) \<Rightarrow> usize \<Rightarrow> usize \<Rightarrow> usize \<Rightarrow> 'v list \<Rightarrow> u8 list \<Rightarrow> u8 list" where
  "init_elements put width off i [] buf = buf"
| "init_elements put width off i (v # vs) buf =
    (case element_pos off i width of
       Some pos \<Rightarrow>
         if pos + width \<le> length buf then init_elements put width off (Suc i) vs (put buf pos v) else buf
     | None \<Rightarrow> buf)"

definition init_values ::
  "(u8 list \<Rightarrow> usize \<Rightarrow> 'v \<Rightarrow> u8 list) \<Rightarrow> usize \<Rightarrow> i32 \<Rightarrow> 'v list \<Rightarrow> init_state \<Rightarrow> init_state" where
  "init_values put width offset vs s =
    (case usize_try_from offset of
       None \<Rightarrow> s
     | Some off \<Rightarrow> set_active_buffer (init_elements put width off 0 vs (active_buffer s)) s)"

text \<open>Allocating an object whose identifier goes to a slot known to fit.\<close>

definition init_object :: "u32 \<Rightarrow> heap_data \<Rightarrow> usize \<Rightarrow> init_state \<Rightarrow> init_state" where
  "init_object type_id data off s =
    (let (hid, h) = heap_alloc type_id data (is_heap s); s = s\<lparr>is_heap := h\<rparr> in
     set_active_buffer (mem_write_word (active_buffer s) off hid) s)"

definition init_array :: "type_descriptor list \<Rightarrow> i32 \<Rightarrow> i32 \<Rightarrow> i32 \<Rightarrow> init_state \<Rightarrow> init_state" where
  "init_array types offset element_type len s =
    (case usize_try_from offset of
       None \<Rightarrow> s
     | Some off \<Rightarrow>
         (case usize_try_from len of
            None \<Rightarrow> s
          | Some n \<Rightarrow>
              if \<not> word_slot_fits s off then s
              else
                let et = i32_as_usize element_type;
                    elem_size = max (unwrap_or 4
                      (map_option (\<lambda>td. i32_as_usize (td_size td)) (nth_opt types et))) 1 in
                (case checked_mul n elem_size of
                   None \<Rightarrow> s
                 | Some byte_len \<Rightarrow>
                     if byte_len > MAX_ARRAY_BYTES then s
                     else init_object (of_nat et)
                       (HD_Array (of_nat et) elem_size (replicate byte_len 0) n) off s)))"

text \<open>The array a \<open>SetArray\<close> item names, read from the active array or the module's data.\<close>

definition array_at :: "init_state \<Rightarrow> usize \<Rightarrow> heap_id" where
  "array_at s off =
    (if is_stack s = [] then
       (if off + 4 \<le> length (is_mp s) then mem_read_word (is_mp s) off else 0)
     else
       (case active_array s of
          Some (_, HD_Array _ _ data _) \<Rightarrow> if off + 4 \<le> length data then mem_read_word data off else 0
        | _ \<Rightarrow> 0))"

definition init_set_array :: "i32 \<Rightarrow> i32 \<Rightarrow> init_state \<Rightarrow> init_state" where
  "init_set_array offset index s =
    (case usize_try_from offset of
       None \<Rightarrow> s
     | Some off \<Rightarrow>
         (case usize_try_from index of
            None \<Rightarrow> s
          | Some idx \<Rightarrow>
              let arr_id = array_at s off in
              if arr_id = 0 then s
              else
                let elem_size =
                  (case heap_get (is_heap s) arr_id of
                     None \<Rightarrow> 4
                   | Some obj \<Rightarrow> (case ho_data obj of HD_Array _ es _ _ \<Rightarrow> es | _ \<Rightarrow> 4)) in
                (case checked_mul idx elem_size of
                   None \<Rightarrow> s
                 | Some base \<Rightarrow> s\<lparr>is_stack := (arr_id, elem_size, base) # is_stack s\<rparr>)))"

fun init_item :: "type_descriptor list \<Rightarrow> data_item \<Rightarrow> init_state \<Rightarrow> init_state" where
  "init_item types (DI_Bytes offset vs) s = init_values mem_write_byte 1 offset vs s"
| "init_item types (DI_Words offset vs) s = init_values mem_write_word 4 offset vs s"
| "init_item types (DI_Bigs offset vs) s = init_values mem_write_big 8 offset vs s"
| "init_item types (DI_Reals offset vs) s = init_values mem_write_real 8 offset vs s"
| "init_item types (DI_String offset v) s =
    (case usize_try_from offset of
       None \<Rightarrow> s
     | Some off \<Rightarrow> if word_slot_fits s off then init_object 0 (HD_Str v) off s else s)"
| "init_item types (DI_Array offset element_type len) s = init_array types offset element_type len s"
| "init_item types (DI_SetArray offset index) s = init_set_array offset index s"
| "init_item types DI_RestoreBase s = s\<lparr>is_stack := tl (is_stack s)\<rparr>"

definition init_mp_with_types ::
  "usize \<Rightarrow> data_item list \<Rightarrow> heap \<Rightarrow> type_descriptor list \<Rightarrow> u8 list \<times> heap" where
  "init_mp_with_types data_size items h types =
    (let s = fold (init_item types) items
       \<lparr>is_mp = replicate data_size 0, is_heap = h, is_stack = []\<rparr> in
     (is_mp s, is_heap s))"

definition init_mp :: "usize \<Rightarrow> data_item list \<Rightarrow> heap \<Rightarrow> u8 list \<times> heap" where
  "init_mp data_size items h = init_mp_with_types data_size items h []"

section \<open>Properties\<close>

text \<open>No item changes the size of the data area or of an array, nor breaks the heap's order.\<close>

lemma length_init_elements:
  "(\<And>buf pos v. length (put buf pos v) = length buf) \<Longrightarrow>
    length (init_elements put width off i vs buf) = length buf"
  by (induction vs arbitrary: i buf) (auto split: option.splits)

lemma is_mp_set_active_buffer:
  "length buf = length (active_buffer s) \<Longrightarrow> length (is_mp (set_active_buffer buf s)) = length (is_mp s)"
  by (auto simp: set_active_buffer_def active_buffer_def split: option.splits heap_data.splits prod.splits)

lemma length_mp_init_values:
  "(\<And>buf pos v. length (put buf pos v) = length buf) \<Longrightarrow>
    length (is_mp (init_values put width offset vs s)) = length (is_mp s)"
  by (simp add: init_values_def length_init_elements is_mp_set_active_buffer split: option.split)

lemma length_mp_init_object: "length (is_mp (init_object type_id data off s)) = length (is_mp s)"
  by (simp add: init_object_def Let_def is_mp_set_active_buffer split: prod.split)

lemma length_mp_init_item: "length (is_mp (init_item types item s)) = length (is_mp s)"
  by (cases item)
    (simp_all add: length_mp_init_values length_mp_init_object init_array_def init_set_array_def Let_def
      split: option.split)

text \<open>\<open>n\<close> more objects can be named.\<close>

definition init_ok :: "nat \<Rightarrow> init_state \<Rightarrow> bool" where
  "init_ok n s \<longleftrightarrow> heap_ok (is_heap s) \<and> unat (hp_next_id (is_heap s)) + n < 4294967296"

lemma hp_next_id_set_data [simp]: "hp_next_id (heap_set_data hid data h) = hp_next_id h"
  by (simp add: heap_set_data_def split: option.split)

lemma init_ok_set_active_buffer: "init_ok n s \<Longrightarrow> init_ok n (set_active_buffer buf s)"
  unfolding set_active_buffer_def active_array_def init_ok_def
  by (auto split: option.splits heap_data.splits list.splits prod.splits intro!: heap_ok_set_data)

lemma init_ok_init_object:
  assumes "init_ok (Suc n) s" and "child_refs data = []"
  shows "init_ok n (init_object type_id data off s)"
proof -
  let ?s = "s\<lparr>is_heap := snd (heap_alloc type_id data (is_heap s))\<rparr>"
  have bound: "unat (hp_next_id (is_heap s)) < 4294967295" and ok: "heap_ok (is_heap s)"
    using assms(1) by (simp_all add: init_ok_def)
  have "init_ok n ?s"
    using assms heap_ok_alloc [OF ok _ bound, of data type_id None] unat_add_1 [OF bound]
    by (simp add: init_ok_def heap_alloc_def alloc_typed_def Let_def data_ok_def)
  then show ?thesis
    by (auto simp: init_object_def Let_def intro: init_ok_set_active_buffer split: prod.split)
qed

lemma init_ok_weaken: "init_ok (Suc n) s \<Longrightarrow> init_ok n s"
  by (simp add: init_ok_def)

lemma init_ok_init_item: "init_ok (Suc n) s \<Longrightarrow> init_ok n (init_item types item s)"
  by (cases item)
    (auto simp: init_values_def init_array_def init_set_array_def Let_def init_ok_def [of n "_\<lparr>is_stack := _\<rparr>"]
      dest: init_ok_weaken intro!: init_ok_set_active_buffer init_ok_init_object split: option.split,
      auto simp: init_ok_def)

lemma init_items_ok:
  "init_ok (n + length items) s \<Longrightarrow> init_ok n (fold (init_item types) items s) \<and>
    length (is_mp (fold (init_item types) items s)) = length (is_mp s)"
proof (induction items arbitrary: s)
  case Nil
  then show ?case by simp
next
  case (Cons item items)
  then have "init_ok (n + length items) (init_item types item s)"
    by (intro init_ok_init_item) simp
  from Cons.IH [OF this] show ?case by (simp add: length_mp_init_item)
qed

lemma init_mp_with_types_ok:
  assumes "heap_ok h" and "unat (hp_next_id h) + length items < 4294967296"
    and "init_mp_with_types data_size items h types = (mp, h')"
  shows "length mp = data_size \<and> heap_ok h'"
  using init_items_ok [of 0 items "\<lparr>is_mp = replicate data_size 0, is_heap = h, is_stack = []\<rparr>" types] assms
  by (auto simp: init_mp_with_types_def Let_def init_ok_def)

text \<open>
  The stack's element size and position are never read: two states that differ only there stay so,
  and end with the same data and heap.
\<close>

definition same_but_base :: "init_state \<Rightarrow> init_state \<Rightarrow> bool" where
  "same_but_base s s' \<longleftrightarrow> is_mp s' = is_mp s \<and> is_heap s' = is_heap s \<and>
    map fst (is_stack s') = map fst (is_stack s)"

lemma same_but_base_active:
  assumes "same_but_base s s'"
  shows "active_array s' = active_array s" "active_buffer s' = active_buffer s"
    "array_at s' off = array_at s off" "word_slot_fits s' off = word_slot_fits s off"
proof -
  show arr: "active_array s' = active_array s"
    using assms by (cases "is_stack s"; cases "is_stack s'") (auto simp: same_but_base_def active_array_def)
  have "is_mp s' = is_mp s" using assms by (simp add: same_but_base_def)
  with arr show buf: "active_buffer s' = active_buffer s" unfolding active_buffer_def by presburger
  have "is_stack s' = [] \<longleftrightarrow> is_stack s = []"
    using assms by (metis same_but_base_def map_is_Nil_conv)
  with arr show "array_at s' off = array_at s off"
    using assms by (simp add: array_at_def same_but_base_def)
  from buf show "word_slot_fits s' off = word_slot_fits s off" by (simp add: word_slot_fits_def split: option.split)
qed

lemma same_but_base_set_active:
  "same_but_base s s' \<Longrightarrow> same_but_base (set_active_buffer buf s) (set_active_buffer buf s')"
  using same_but_base_active(1) [of s s']
  by (auto simp: set_active_buffer_def same_but_base_def split: option.splits prod.splits heap_data.splits)

lemma same_but_base_init_object:
  assumes "same_but_base s s'"
  shows "same_but_base (init_object t data off s) (init_object t data off s')"
proof -
  let ?u = "\<lambda>s. s\<lparr>is_heap := snd (heap_alloc t data (is_heap s))\<rparr>"
  have "same_but_base (?u s) (?u s')" using assms by (simp add: same_but_base_def)
  from same_but_base_set_active [OF this] same_but_base_active(2) [OF this]
  have "same_but_base (set_active_buffer (mem_write_word (active_buffer (?u s)) off v) (?u s))
      (set_active_buffer (mem_write_word (active_buffer (?u s')) off v) (?u s'))" for v by simp
  moreover have "is_heap s' = is_heap s" using assms by (simp add: same_but_base_def)
  ultimately show ?thesis
    by (cases "heap_alloc t data (is_heap s)") (simp add: init_object_def Let_def)
qed

lemma same_but_base_init_set_array:
  assumes "same_but_base s s'"
  shows "same_but_base (init_set_array off i s) (init_set_array off i s')"
  using assms same_but_base_active(3) [OF assms]
  by (auto simp: init_set_array_def same_but_base_def Let_def split: option.split)

lemma same_but_base_init_item:
  "same_but_base s s' \<Longrightarrow> same_but_base (init_item types item s) (init_item types item s')"
  using same_but_base_active [of s s']
  by (cases item)
    (auto simp: init_values_def init_array_def Let_def same_but_base_set_active same_but_base_init_object
      same_but_base_init_set_array split: option.split, auto simp: same_but_base_def map_tl)

lemma same_but_base_items:
  "same_but_base s s' \<Longrightarrow>
    same_but_base (fold (init_item types) items s) (fold (init_item types) items s')"
  by (induction items arbitrary: s s') (simp_all add: same_but_base_init_item)

end
