(* ===== verification/RealText.thy ===== *)
theory RealText
  imports Convert
begin

text \<open>
  Reals as text, \<open>ops/convert.rs\<close>: the prefix of a string that C's \<open>strtod\<close> reads, and C's \<open>%g\<close>.
  Both rest on exact decimal conversion, rounded once, ties to even, which is what \<open>str::parse\<close> and
  the formatting of \<open>f64\<close> with a precision do. Reading back a printed whole number gives the real
  nearest to it.
\<close>

section \<open>Reading\<close>

definition is_ascii_space :: "rchar \<Rightarrow> bool" where
  "is_ascii_space c \<longleftrightarrow> c = 9 \<or> c = 10 \<or> c = 12 \<or> c = 13 \<or> c = 32"

definition is_digit :: "rchar \<Rightarrow> bool" where
  "is_digit c \<longleftrightarrow> 48 \<le> c \<and> c \<le> 57"

definition ascii_lowercase :: "rchar \<Rightarrow> rchar" where
  "ascii_lowercase c = (if 65 \<le> c \<and> c \<le> 90 then c + 32 else c)"

text \<open>An optional sign: whether it is a minus, and what follows.\<close>

definition take_sign :: "rstring \<Rightarrow> bool \<times> rstring" where
  "take_sign s =
    (case s of
       c # rest \<Rightarrow> if c = 43 then (False, rest) else if c = 45 then (True, rest) else (False, s)
     | [] \<Rightarrow> (False, s))"

definition digits_value :: "rstring \<Rightarrow> nat" where
  "digits_value ds = foldl (\<lambda>v c. v * 10 + (c - 48)) 0 ds"

text \<open>The exponent, which counts only when a digit follows the sign.\<close>

definition decimal_exponent :: "rstring \<Rightarrow> int" where
  "decimal_exponent s =
    (case s of
       [] \<Rightarrow> 0
     | c # rest \<Rightarrow>
         if c = 101 \<or> c = 69 then
           (case take_sign rest of (neg, rest) \<Rightarrow>
             let v = int (digits_value (takeWhile is_digit rest)) in if neg then - v else v)
         else 0)"

text \<open>\<open>\<plusminus>m * 10 ^ e\<close>, rounded.\<close>

definition f64_of_decimal :: "bool \<Rightarrow> nat \<Rightarrow> int \<Rightarrow> f64_bits" where
  "f64_of_decimal neg m e = f64_round neg (m * 10 ^ nat e * 2 ^ 1074) (10 ^ nat (- e))"

definition F64_NAN :: nat where
  "F64_NAN = 9221120237041090560"

definition parse_strtod :: "rstring \<Rightarrow> f64_bits" where
  "parse_strtod s =
    (case take_sign (dropWhile is_ascii_space s) of (neg, rest) \<Rightarrow>
      let lower = map ascii_lowercase rest in
      if starts_with lower (rstr ''infinity'') \<or> starts_with lower (rstr ''inf'') then f64_make neg F64_INF
      else if starts_with lower (rstr ''nan'') then f64_make neg F64_NAN
      else
        let whole = takeWhile is_digit rest; rest = dropWhile is_digit rest;
            (fraction, rest) = (case rest of
                c # r \<Rightarrow> if c = 46 then (takeWhile is_digit r, dropWhile is_digit r) else ([], rest)
              | [] \<Rightarrow> ([], rest)) in
        if whole @ fraction = [] then 0
        else f64_of_decimal neg (digits_value (whole @ fraction))
          (decimal_exponent rest - int (length fraction)))"

definition op_cvtcf :: "unit vm" where
  "op_cvtcf = sbind src_ptr (\<lambda>str_id. sbind (reads (\<lambda>vm.
    case get_string (vm_heap vm) str_id of Some s \<Rightarrow> parse_strtod s | None \<Rightarrow> 0)) set_dst_real)"

section \<open>Writing\<close>

text \<open>
  The decimal exponent of \<open>p / q > 0\<close>: of a number at least 1 from the digits of its whole part,
  of a smaller one from the digits of the whole part of \<open>(q - 1) / p\<close>.
\<close>

definition floor_log10 :: "nat \<Rightarrow> nat \<Rightarrow> int" where
  "floor_log10 p q =
    (if q \<le> p then int (length (show_nat (p div q))) - 1
     else - int (length (show_nat ((q - 1) div p))))"

text \<open>\<open>p / q * 10 ^ k\<close>, rounded.\<close>

definition scaled_digits :: "nat \<Rightarrow> nat \<Rightarrow> int \<Rightarrow> nat" where
  "scaled_digits p q k = div_round_even (p * 10 ^ nat k) (q * 10 ^ nat (- k))"

text \<open>The digits and the exponent of \<open>{:.5e}\<close>.\<close>

definition scientific :: "nat \<Rightarrow> nat \<Rightarrow> nat \<times> int" where
  "scientific p q =
    (if p = 0 then (0, 0)
     else
       let e = floor_log10 p q; d = scaled_digits p q (5 - e) in
       if d = 1000000 then (100000, e + 1) else (d, e))"

text \<open>Decimal digits padded with zeros on the left, and with a point before the last \<open>n\<close> of them.\<close>

definition pad_digits :: "nat \<Rightarrow> nat \<Rightarrow> rstring" where
  "pad_digits w n = (let s = show_nat n in replicate (w - length s) 48 @ s)"

definition with_point :: "nat \<Rightarrow> nat \<Rightarrow> rstring" where
  "with_point n d =
    (let s = pad_digits (n + 1) d; whole = length s - n in
     if n = 0 then s else take whole s @ [46] @ drop whole s)"

definition trim_end :: "rchar \<Rightarrow> rstring \<Rightarrow> rstring" where
  "trim_end c s = rev (dropWhile (\<lambda>x. x = c) (rev s))"

definition trim_zeros :: "rstring \<Rightarrow> rstring" where
  "trim_zeros s = (if 46 \<in> set s then trim_end 46 (trim_end 48 s) else s)"

definition format_g :: "f64_bits \<Rightarrow> rstring" where
  "format_g v =
    (if f64_is_nan v then rstr ''NaN''
     else if f64_is_inf v then (if f64_negative v then rstr ''-Inf'' else rstr ''+Inf'')
     else
       let p = nat \<bar>f64_scaled v\<bar>; q = 2 ^ 1074; sgn = (if f64_negative v then [45] else []);
           (d, e) = scientific p q in
       if - 4 \<le> e \<and> e < 6 then
         sgn @ trim_zeros (with_point (nat (5 - e)) (scaled_digits p q (5 - e)))
       else
         sgn @ trim_zeros (with_point 5 d) @
           (if 0 \<le> e then rstr ''e+'' @ pad_digits 2 (nat e) else rstr ''e-'' @ pad_digits 2 (nat (- e))))"

definition op_cvtfc :: "unit vm" where
  "op_cvtfc = sbind src_real (\<lambda>v. vm_new_string (format_g v))"

section \<open>Whole numbers\<close>

lemma digits_value_append: "digits_value (s @ [48 + d]) = digits_value s * 10 + d"
  by (simp add: digits_value_def)

lemma digits_value_show_nat: "digits_value (show_nat n) = n"
proof (induction n rule: show_nat.induct)
  case (1 n)
  show ?case
  proof (cases "n < 10")
    case True
    then show ?thesis by (subst show_nat.simps) (simp add: digits_value_def)
  next
    case False
    with 1 show ?thesis by (subst show_nat.simps) (simp add: digits_value_append)
  qed
qed

lemma show_nat_digits: "c \<in> set (show_nat n) \<Longrightarrow> is_digit c"
proof (induction n rule: show_nat.induct)
  case (1 n)
  have d: "n mod 10 < 10" by simp
  show ?case
  proof (cases "n < 10")
    case True
    with 1 show ?thesis by (subst (asm) show_nat.simps) (auto simp: is_digit_def)
  next
    case False
    then have "show_nat n = show_nat (n div 10) @ [48 + n mod 10]" by (subst show_nat.simps) simp
    then have "c \<in> set (show_nat (n div 10)) \<or> c = 48 + n mod 10" using 1(2) by auto
    then show ?thesis using 1(1) [OF False] d by (auto simp: is_digit_def)
  qed
qed

lemma takeWhile_show_nat [simp]:
  "takeWhile is_digit (show_nat n) = show_nat n" "dropWhile is_digit (show_nat n) = []"
  by (simp_all add: show_nat_digits)

lemma show_nat_Cons: obtains c cs where "show_nat n = c # cs" "is_digit c"
  by (metis show_nat_digits show_nat.simps append_is_Nil_conv list.exhaust list.set_intros(1) not_Cons_self2)

lemma digit_not_name:
  assumes "is_digit c"
  shows "\<not> starts_with (map ascii_lowercase (c # cs)) (rstr ''infinity'')"
    "\<not> starts_with (map ascii_lowercase (c # cs)) (rstr ''inf'')"
    "\<not> starts_with (map ascii_lowercase (c # cs)) (rstr ''nan'')"
  using assms by (auto simp: starts_with_def rstr_def is_digit_def ascii_lowercase_def)

lemma parse_strtod_digits:
  assumes "take_sign (dropWhile is_ascii_space s) = (neg, show_nat n)"
  shows "parse_strtod s = f64_of_decimal neg n 0"
proof -
  obtain c cs where c: "show_nat n = c # cs" "is_digit c" by (rule show_nat_Cons)
  note names = digit_not_name [OF c(2), of cs, folded c(1)]
  have ne: "show_nat n \<noteq> []" using c by simp
  show ?thesis
    unfolding parse_strtod_def assms
    by (simp add: names ne decimal_exponent_def digits_value_show_nat)
qed

lemma parse_strtod_show_int: "parse_strtod (show_int i) = f64_of_int i"
proof -
  obtain c cs where c: "show_nat (nat \<bar>i\<bar>) = c # cs" "is_digit c" by (rule show_nat_Cons)
  have "take_sign (dropWhile is_ascii_space (show_int i)) = (i < 0, show_nat (nat \<bar>i\<bar>))"
    using c by (auto simp: show_int_def take_sign_def is_ascii_space_def is_digit_def)
  from parse_strtod_digits [OF this] show ?thesis
    by (simp add: f64_of_decimal_def f64_of_int_def)
qed

text \<open>A decimal number is read as the nearest one of the format.\<close>

lemma f64_of_decimal_nearest:
  assumes "f64_finite (f64_of_decimal neg m e)"
    and "x = (if neg then - 1 else 1) * int m * 10 ^ nat e * 2 ^ 1074"
  shows "\<bar>f64_scaled (f64_of_decimal neg m e) * 10 ^ nat (- e) - x\<bar> \<le> \<bar>f64_scaled c * 10 ^ nat (- e) - x\<bar>"
proof -
  let ?p = "m * 10 ^ nat e * 2 ^ 1074"
  have "int ?p = int m * 10 ^ nat e * 2 ^ 1074" by (simp only: of_nat_mult of_nat_power of_nat_numeral)
  then have x: "x = (if neg then - int ?p else int ?p)"
    unfolding assms(2) by (cases neg) (simp_all only: if_True if_False mult_minus_left mult_1)
  have pow: "int (10 ^ nat (- e)) = 10 ^ nat (- e)" by (simp only: of_nat_power of_nat_numeral)
  have pos: "0 < (10 ^ nat (- e) :: nat)" by simp
  from f64_round_nearest [OF pos f64_of_decimal_def [of neg m e] _ x, of c] assms(1) show ?thesis
    by (simp only: f64_finite_def pow)
qed

end
