(* ===== verification/FixedPoint.thy ===== *)
theory FixedPoint
  imports Convert
begin

unbundle bit_operations_syntax

text \<open>
  The fixed-point instructions of \<open>ops/fixedpoint.rs\<close>, which work on 64-bit intermediate values and
  take a scale and a residual from reserved slots of the frame.
\<close>

section \<open>Scaling\<close>

definition STEMP_OFFSET :: usize where
  "STEMP_OFFSET = 4"

definition DTEMP_OFFSET :: usize where
  "DTEMP_OFFSET = 12"

definition read_temp :: "usize \<Rightarrow> vm_state \<Rightarrow> i32" where
  "read_temp offset vm =
    (let base = current_data_offset (vm_frames vm) in
     if base + offset + 4 \<le> length (fs_data (vm_frames vm))
     then mem_read_word (fs_data (vm_frames vm)) (base + offset) else 0)"

definition read_stmp :: "vm_state \<Rightarrow> i32" where
  "read_stmp = read_temp STEMP_OFFSET"

definition read_dtmp :: "vm_state \<Rightarrow> i32" where
  "read_dtmp = read_temp DTEMP_OFFSET"

definition apply_scale :: "i64 \<Rightarrow> i32 \<Rightarrow> i64" where
  "apply_scale v scale =
    (if 0 \<le> sint scale then wrapping_shl v scale else wrapping_shr_signed v (- scale))"

definition safe_div :: "i64 \<Rightarrow> i64 \<Rightarrow> i64" where
  "safe_div a b = (if b = 0 then 0 else wrapping_div a b)"

definition rounding_mask :: "i32 \<Rightarrow> i64" where
  "rounding_mask scale =
    (if 0 \<le> sint scale \<or> 63 \<le> unat (- scale) then 0 else push_bit (unat (- scale)) 1 - 1)"

section \<open>Multiplication\<close>

definition op_mulx :: "unit vm" where
  "op_mulx = sbind src_word (\<lambda>ys. sbind mid_word (\<lambda>xs. sbind (reads read_dtmp) (\<lambda>scale.
    let y = scast ys :: i64; x = scast xs :: i64 in
    set_dst_word (ucast (apply_scale (x * y) scale)))))"

definition op_mulx0 :: "unit vm" where
  "op_mulx0 = sbind src_word (\<lambda>ys. sbind mid_word (\<lambda>xs.
    let y = scast ys :: i64; x = scast xs :: i64 in
    if x = 0 \<or> y = 0 then set_dst_word 0
    else sbind (reads (\<lambda>vm. (read_dtmp vm, scast (read_stmp vm) :: i64))) (\<lambda>(scale, residual).
      let z = apply_scale (x * y) scale in
      set_dst_word (ucast (if residual \<noteq> 0 then safe_div z residual else z)))))"

text \<open>The signs of two numbers differ, a zero counting as positive.\<close>

definition signs_differ :: "i64 \<Rightarrow> i64 \<Rightarrow> bool" where
  "signs_differ x y \<longleftrightarrow> 0 \<le> sint x \<and> sint y < 0 \<or> sint x < 0 \<and> 0 \<le> sint y"

definition mulx1_result :: "i64 \<Rightarrow> i64 \<Rightarrow> i32 \<Rightarrow> i64 \<Rightarrow> i64" where
  "mulx1_result x y p a =
    (let vnz = p AND 2 \<noteq> 0; wnz = p AND 1 \<noteq> 0; scale = signed_drop_bit 2 p;
         v = (if vnz then if signs_differ x y then - (a - 1) else a - 1 else 0);
         w = (if wnz \<and>
                (\<not> vnz \<and> (0 < sint x \<and> sint y < 0 \<or> sint x < 0 \<and> 0 < sint y) \<or>
                 vnz \<and> (0 < sint x \<and> 0 < sint y \<or> sint x < 0 \<and> sint y < 0))
              then rounding_mask scale else 0);
         r = apply_scale (x * y + w) scale + v in
     if a \<noteq> 0 then safe_div r a else r)"

definition op_mulx1 :: "unit vm" where
  "op_mulx1 = sbind src_word (\<lambda>ys. sbind mid_word (\<lambda>xs.
    sbind (reads (\<lambda>vm. (read_dtmp vm, scast (read_stmp vm)))) (\<lambda>(p, a).
    let y = scast ys; x = scast xs in
    if x = 0 \<or> y = 0 then set_dst_word 0
    else set_dst_word (ucast (mulx1_result x y p a)))))"

section \<open>Division\<close>

definition fixed_division_fault :: exec_error where
  "fixed_division_fault = ThreadFault (rstr ''fixed-point division by zero'')"

definition op_divx :: "unit vm" where
  "op_divx = sbind src_word (\<lambda>ys. let y = scast ys :: i64 in
    if y = 0 then fail fixed_division_fault
    else sbind mid_word (\<lambda>xs. sbind (reads read_dtmp) (\<lambda>scale.
      set_dst_word (ucast (safe_div (apply_scale (scast xs) scale) y)))))"

definition op_divx0 :: "unit vm" where
  "op_divx0 = sbind src_word (\<lambda>ys. let y = scast ys :: i64 in
    if y = 0 then fail fixed_division_fault
    else sbind mid_word (\<lambda>xs. let x = scast xs :: i64 in
      if x = 0 then set_dst_word 0
      else sbind (reads (\<lambda>vm. (read_dtmp vm, scast (read_stmp vm) :: i64))) (\<lambda>(scale, residual).
        let tmp = (if residual \<noteq> 0 then x * residual else x) in
        set_dst_word (ucast (safe_div (apply_scale tmp scale) y)))))"

definition divx1_result :: "i64 \<Rightarrow> i64 \<Rightarrow> i32 \<Rightarrow> i64 \<Rightarrow> i64" where
  "divx1_result x y p b =
    (let vnz = p AND 2 \<noteq> 0; wnz = p AND 1 \<noteq> 0; scale = signed_drop_bit 2 p;
         v = (if vnz then if signs_differ x y then - 1 else 1 else 0);
         w = (if wnz \<and> sint x \<le> 0 then rounding_mask scale else 0) in
     safe_div (apply_scale (b * x + w) scale) y + v)"

definition op_divx1 :: "unit vm" where
  "op_divx1 = sbind src_word (\<lambda>ys. let y = scast ys :: i64 in
    if y = 0 then fail fixed_division_fault
    else sbind mid_word (\<lambda>xs. sbind (reads (\<lambda>vm. (read_dtmp vm, scast (read_stmp vm)))) (\<lambda>(p, b).
      let x = scast xs in
      if x = 0 then set_dst_word 0 else set_dst_word (ucast (divx1_result x y p b)))))"

section \<open>Conversion between scales\<close>

definition op_cvtxx :: "unit vm" where
  "op_cvtxx = sbind src_word (\<lambda>xs. sbind mid_word (\<lambda>scale.
    set_dst_word (ucast (apply_scale (scast xs) scale))))"

definition op_cvtxx0 :: "unit vm" where
  "op_cvtxx0 = sbind src_word (\<lambda>xs. let x = scast xs :: i64 in
    if x = 0 then set_dst_word 0
    else sbind (reads (\<lambda>vm. scast (read_stmp vm) :: i64)) (\<lambda>residual. sbind mid_word (\<lambda>scale.
      let scaled = apply_scale x scale in
      set_dst_word (ucast (if residual \<noteq> 0 then safe_div scaled residual else scaled)))))"

definition cvtxx1_result :: "i64 \<Rightarrow> i32 \<Rightarrow> i64 \<Rightarrow> i64" where
  "cvtxx1_result x p a =
    (let vnz = p AND 2 \<noteq> 0; wnz = p AND 1 \<noteq> 0; scale = signed_drop_bit 2 p;
         v = (if vnz then if sint x < 0 then - (a - 1) else a - 1 else 0);
         w = (if wnz \<and> (\<not> vnz \<and> sint x < 0 \<or> vnz \<and> 0 < sint x) then rounding_mask scale else 0);
         r = apply_scale (x + w) scale + v in
     if a \<noteq> 0 then safe_div r a else r)"

definition op_cvtxx1 :: "unit vm" where
  "op_cvtxx1 = sbind src_word (\<lambda>xs. sbind mid_word (\<lambda>p.
    sbind (reads (\<lambda>vm. scast (read_stmp vm))) (\<lambda>a.
    let x = scast xs in
    if x = 0 then set_dst_word 0 else set_dst_word (ucast (cvtxx1_result x p a)))))"

section \<open>What scaling computes\<close>

lemma apply_scale_left:
  assumes "0 \<le> sint scale" and "sint scale < 64"
  shows "apply_scale v scale = word_of_int (sint v * 2 ^ nat (sint scale))"
proof -
  have "unat scale mod 64 = nat (sint scale mod 64)" by (rule shift_amount_64)
  with assms show ?thesis by (simp add: apply_scale_def wrapping_shl_int)
qed

lemma apply_scale_right:
  assumes "sint scale < 0" and "- 64 < sint scale"
  shows "apply_scale v scale = word_of_int (sint v div 2 ^ nat (- sint scale))"
proof -
  have "- scale = word_of_int (- sint scale)" by simp
  then have "unat (- scale) = nat (- sint scale)"
    using assms unat_of_int_u32 [of "- sint scale"] by simp
  with assms show ?thesis by (simp add: apply_scale_def wrapping_shr_signed_int)
qed

lemma sint_product: "sint (scast xs * scast ys :: i64) = sint xs * sint ys" for xs ys :: i32
proof -
  have "\<bar>sint xs * sint ys\<bar> \<le> 2147483648 * 2147483648"
    unfolding abs_mult using sint32_bounds [of xs] sint32_bounds [of ys] by (intro mult_mono) auto
  then have "- 9223372036854775808 \<le> sint xs * sint ys" "sint xs * sint ys < 9223372036854775808"
    by auto
  then have "signed_take_bit 63 (sint xs * sint ys) = sint xs * sint ys"
    by (intro signed_take_bit_int_eq_self) simp_all
  moreover have "scast xs * scast ys = (word_of_int (sint xs * sint ys) :: i64)" by simp
  then have "sint (scast xs * scast ys :: i64) = signed_take_bit 63 (sint xs * sint ys)"
    by (simp only: signed_of_int) simp
  ultimately show ?thesis by simp
qed

text \<open>The product of \<open>mulx\<close>: exact, then scaled by a power of two and rounded down, then wrapped.\<close>

definition scaled_down :: "int \<Rightarrow> int \<Rightarrow> int" where
  "scaled_down v scale = (if 0 \<le> scale then v * 2 ^ nat scale else v div 2 ^ nat (- scale))"

lemma mulx_value:
  fixes xs ys scale :: i32
  assumes "\<bar>sint scale\<bar> < 64"
  shows "apply_scale (scast xs * scast ys) scale = word_of_int (scaled_down (sint xs * sint ys) (sint scale))"
  using assms by (cases "0 \<le> sint scale")
    (simp_all add: apply_scale_left apply_scale_right sint_product scaled_down_def)

end
