(* ===== verification/Threads.thy ===== *)
theory Threads
  imports Vm
begin

text \<open>
  The cooperative threads of \<open>crates/ricevm-execute/src/vm.rs\<close>: suspending the running thread,
  waking the threads that wait for a channel, and resuming the next one that is ready. The lemmas
  show that no thread and no part of a thread's state is lost, that threads take turns, and that
  resuming fails exactly when every thread waits.
\<close>

section \<open>Saving and loading a thread\<close>

text \<open>The running thread as the literal \<open>SuspendedThread\<close> of the two suspending functions.\<close>

definition running_thread :: "heap_id option \<Rightarrow> vm_state \<Rightarrow> suspended_thread" where
  "running_thread blocked_on vm = \<lparr>st_frames = vm_frames vm, st_mp = vm_mp vm, st_pc = vm_pc vm,
    st_pid = vm_current_pid vm, st_heap_refs = vm_heap_refs vm, st_last_error = vm_last_error vm,
    st_current_loaded_module = vm_current_loaded_module vm,
    st_caller_mp_stack = vm_caller_mp_stack vm, st_blocked_on = blocked_on\<rparr>"

text \<open>What the \<open>mem::take\<close>s of a suspension leave behind.\<close>

definition take_running :: "vm_state \<Rightarrow> vm_state" where
  "take_running vm = vm\<lparr>vm_frames := frame_stack_new, vm_mp := [], vm_heap_refs := [],
    vm_last_error := [], vm_current_loaded_module := None, vm_caller_mp_stack := []\<rparr>"

definition load_thread :: "suspended_thread \<Rightarrow> vm_state \<Rightarrow> vm_state" where
  "load_thread t vm = vm\<lparr>vm_frames := st_frames t, vm_mp := st_mp t, vm_pc := st_pc t,
    vm_heap_refs := st_heap_refs t, vm_last_error := st_last_error t,
    vm_current_loaded_module := st_current_loaded_module t,
    vm_caller_mp_stack := st_caller_mp_stack t, vm_current_pid := st_pid t, vm_halted := False\<rparr>"

text \<open>The loop of \<open>resume_next_ready_thread\<close>, which runs once per queued thread.\<close>

fun resume_loop :: "nat \<Rightarrow> vm_state \<Rightarrow> bool \<times> vm_state" where
  "resume_loop 0 vm = (False, vm\<lparr>vm_halted := True\<rparr>)"
| "resume_loop (Suc n) vm =
    (case vm_thread_queue vm of
       [] \<Rightarrow> resume_loop n vm
     | t # queue \<Rightarrow>
         if st_blocked_on t = None then (True, load_thread t (vm\<lparr>vm_thread_queue := queue\<rparr>))
         else resume_loop n (vm\<lparr>vm_thread_queue := queue @ [t]\<rparr>))"

definition resume_next_ready_thread :: "vm_state \<Rightarrow> bool \<times> vm_state" where
  "resume_next_ready_thread vm = resume_loop (length (vm_thread_queue vm)) vm"

definition suspend_and_rotate :: "vm_state \<Rightarrow> vm_state" where
  "suspend_and_rotate vm =
    (let suspended = running_thread None vm;
         vm = take_running vm;
         vm = vm\<lparr>vm_thread_queue := vm_thread_queue vm @ [suspended]\<rparr> in
     snd (resume_next_ready_thread vm))"

definition suspend_as_blocked :: "heap_id \<Rightarrow> vm_state \<Rightarrow> vm_state" where
  "suspend_as_blocked chan_id vm =
    (let suspended = running_thread (Some chan_id) vm;
         vm = take_running vm in
     vm\<lparr>vm_thread_queue := vm_thread_queue vm @ [suspended]\<rparr>)"

definition unblock_thread :: "heap_id \<Rightarrow> suspended_thread \<Rightarrow> suspended_thread" where
  "unblock_thread chan_id t =
    (case st_blocked_on t of
       None \<Rightarrow> t
     | Some blocked_id \<Rightarrow>
         if blocked_id = chan_id \<or> blocked_id = 0 then t\<lparr>st_blocked_on := None\<rparr> else t)"

definition unblock_channel :: "heap_id \<Rightarrow> vm_state \<Rightarrow> vm_state" where
  "unblock_channel chan_id vm =
    vm\<lparr>vm_thread_queue := map (unblock_thread chan_id) (vm_thread_queue vm)\<rparr>"

definition deadlock_fault :: exec_error where
  "deadlock_fault = ThreadFault (rstr ''deadlock: all threads are blocked on channels'')"

definition fault_on_nested_block :: "unit vm" where
  "fault_on_nested_block = (\<lambda>vm.
    case vm_blocked_channel vm of
      Some _ \<Rightarrow>
        (Inl (ThreadFault (rstr ''deadlock: blocking channel operation inside a cross-module call'')),
         vm\<lparr>vm_blocked_channel := None\<rparr>)
    | None \<Rightarrow> (Inr (), vm))"

text \<open>
  The exit record. The source indexes the table of loaded modules, which is in bounds whenever a
  loaded module runs; out of bounds it panics, here the state is returned as it was.
\<close>

definition record_thread_exit :: "rstring \<Rightarrow> vm_state \<Rightarrow> vm_state" where
  "record_thread_exit cause vm =
    (let record_for = (\<lambda>name. vm\<lparr>vm_wait_records := vm_wait_records vm @
           [show_i32 (vm_current_pid vm) @ rstr '' '' @ [34] @ name @ [34] @ rstr '':'' @ cause]\<rparr>) in
     case vm_current_loaded_module vm of
       Some idx \<Rightarrow>
         (case nth_opt (vm_loaded_modules vm) idx of
            Some lm \<Rightarrow> record_for (m_name (lm_module lm))
          | None \<Rightarrow> vm)
     | None \<Rightarrow> record_for (m_name (vm_module vm)))"

section \<open>Turns\<close>

lemma load_take_running:
  "load_thread (running_thread b vm) (take_running vm) = vm\<lparr>vm_halted := False\<rparr>"
  by (simp add: load_thread_def running_thread_def take_running_def)

text \<open>The first ready thread is resumed; the threads before it, all waiting, move to the back.\<close>

lemma resume_loop_ready:
  "vm_thread_queue vm = waiting @ t # queue \<Longrightarrow> (\<forall>w \<in> set waiting. st_blocked_on w \<noteq> None) \<Longrightarrow>
    st_blocked_on t = None \<Longrightarrow> length waiting < n \<Longrightarrow>
    resume_loop n vm = (True, load_thread t (vm\<lparr>vm_thread_queue := queue @ waiting\<rparr>))"
proof (induction waiting arbitrary: n vm queue)
  case Nil
  then obtain k where "n = Suc k" by (cases n) auto
  with Nil show ?case by simp
next
  case (Cons w waiting)
  then obtain k where n: "n = Suc k" "length waiting < k" by (cases n) auto
  let ?vm = "vm\<lparr>vm_thread_queue := (waiting @ t # queue) @ [w]\<rparr>"
  have "resume_loop n vm = resume_loop k ?vm" using Cons.prems n by auto
  moreover have "resume_loop k ?vm =
      (True, load_thread t (?vm\<lparr>vm_thread_queue := (queue @ [w]) @ waiting\<rparr>))"
    using Cons.prems n by (intro Cons.IH) simp_all
  ultimately show ?case by simp
qed

lemma resume_loop_rotate:
  "\<forall>t \<in> set (vm_thread_queue vm). st_blocked_on t \<noteq> None \<Longrightarrow> n \<le> length (vm_thread_queue vm) \<Longrightarrow>
    resume_loop n vm =
      (False, vm\<lparr>vm_halted := True, vm_thread_queue := rotate n (vm_thread_queue vm)\<rparr>)"
proof (induction n arbitrary: vm)
  case 0
  then show ?case by simp
next
  case (Suc n)
  then obtain t queue where q: "vm_thread_queue vm = t # queue"
    by (cases "vm_thread_queue vm") auto
  have "resume_loop n (vm\<lparr>vm_thread_queue := queue @ [t]\<rparr>) =
      (False, vm\<lparr>vm_halted := True, vm_thread_queue := rotate n (queue @ [t])\<rparr>)"
    using Suc.IH [of "vm\<lparr>vm_thread_queue := queue @ [t]\<rparr>"] Suc.prems q by simp
  moreover have "rotate (Suc n) (t # queue) = rotate n (queue @ [t])"
    by (metis rotate1.simps(2) rotate1_rotate_swap rotate_Suc)
  ultimately show ?case using Suc.prems q by auto
qed

lemma first_ready:
  "\<exists>t \<in> set q. st_blocked_on t = None \<Longrightarrow>
    \<exists>waiting t queue. q = waiting @ t # queue \<and> st_blocked_on t = None \<and>
      (\<forall>w \<in> set waiting. st_blocked_on w \<noteq> None)"
  using split_list_first_prop [of q "\<lambda>t. st_blocked_on t = None"] by blast

lemma resume_next_ready_thread_ready:
  assumes "vm_thread_queue vm = waiting @ t # queue" and "\<forall>w \<in> set waiting. st_blocked_on w \<noteq> None"
    and "st_blocked_on t = None"
  shows "resume_next_ready_thread vm =
    (True, load_thread t (vm\<lparr>vm_thread_queue := queue @ waiting\<rparr>))"
  unfolding resume_next_ready_thread_def by (rule resume_loop_ready [OF assms]) (simp add: assms(1))

lemma resume_next_ready_thread_deadlock:
  assumes "\<forall>t \<in> set (vm_thread_queue vm). st_blocked_on t \<noteq> None"
  shows "resume_next_ready_thread vm = (False, vm\<lparr>vm_halted := True\<rparr>)"
  using resume_loop_rotate [OF assms, of "length (vm_thread_queue vm)"]
  by (simp add: resume_next_ready_thread_def)

text \<open>A running thread is never lost: the threads, running or queued, are the same after a turn.\<close>

lemma suspend_and_rotate_turn:
  assumes "vm_thread_queue vm = waiting @ t # queue" and "\<forall>w \<in> set waiting. st_blocked_on w \<noteq> None"
    and "st_blocked_on t = None"
  shows "suspend_and_rotate vm =
    load_thread t (take_running vm\<lparr>vm_thread_queue := queue @ [running_thread None vm] @ waiting\<rparr>)"
proof -
  let ?vm = "take_running vm\<lparr>vm_thread_queue := vm_thread_queue vm @ [running_thread None vm]\<rparr>"
  have "vm_thread_queue (take_running vm) = vm_thread_queue vm" by (simp add: take_running_def)
  moreover have "resume_next_ready_thread ?vm =
      (True, load_thread t (?vm\<lparr>vm_thread_queue := (queue @ [running_thread None vm]) @ waiting\<rparr>))"
    using assms by (intro resume_next_ready_thread_ready) simp_all
  ultimately show ?thesis by (simp add: suspend_and_rotate_def Let_def)
qed

lemma suspend_and_rotate_alone:
  assumes "\<forall>t \<in> set (vm_thread_queue vm). st_blocked_on t \<noteq> None"
  shows "suspend_and_rotate vm = vm\<lparr>vm_halted := False\<rparr>"
proof -
  let ?vm = "take_running vm\<lparr>vm_thread_queue := vm_thread_queue vm @ [running_thread None vm]\<rparr>"
  have "vm_thread_queue (take_running vm) = vm_thread_queue vm" by (simp add: take_running_def)
  moreover have "resume_next_ready_thread ?vm =
      (True, load_thread (running_thread None vm) (?vm\<lparr>vm_thread_queue := [] @ vm_thread_queue vm\<rparr>))"
    using assms by (intro resume_next_ready_thread_ready) (simp_all add: running_thread_def)
  ultimately show ?thesis
    by (simp add: suspend_and_rotate_def Let_def load_thread_def running_thread_def take_running_def)
qed

text \<open>Who waits after a channel operation: exactly those that wait for another channel.\<close>

lemma unblock_channel_waiting:
  "(t \<in> set (vm_thread_queue (unblock_channel c vm)) \<and> st_blocked_on t = Some b) \<longleftrightarrow>
    t \<in> set (vm_thread_queue vm) \<and> st_blocked_on t = Some b \<and> b \<noteq> c \<and> b \<noteq> 0"
  by (auto simp: unblock_channel_def unblock_thread_def split: option.splits if_splits)
    (force split: option.splits)

section \<open>Turns are fair\<close>

definition ready_threads :: "vm_state \<Rightarrow> suspended_thread list" where
  "ready_threads vm = filter (\<lambda>t. st_blocked_on t = None) (vm_thread_queue vm)"

lemma ready_split:
  assumes "ready_threads vm = t # ready"
  obtains waiting queue where "vm_thread_queue vm = waiting @ t # queue"
    "\<forall>w \<in> set waiting. st_blocked_on w \<noteq> None" "st_blocked_on t = None"
    "filter (\<lambda>t. st_blocked_on t = None) queue = ready"
  using assms unfolding ready_threads_def filter_eq_Cons_iff by auto

lemma rotate_ready:
  assumes "ready_threads vm = t # ready"
  shows "vm_current_pid (suspend_and_rotate vm) = st_pid t"
    "ready_threads (suspend_and_rotate vm) = ready @ [running_thread None vm]"
proof -
  from assms obtain waiting queue where q: "vm_thread_queue vm = waiting @ t # queue"
    "\<forall>w \<in> set waiting. st_blocked_on w \<noteq> None" "st_blocked_on t = None"
    and rest: "filter (\<lambda>t. st_blocked_on t = None) queue = ready"
    by (rule ready_split)
  have "filter (\<lambda>t. st_blocked_on t = None) waiting = []" using q(2) by (simp add: filter_empty_conv)
  then show "vm_current_pid (suspend_and_rotate vm) = st_pid t"
    "ready_threads (suspend_and_rotate vm) = ready @ [running_thread None vm]"
    unfolding suspend_and_rotate_turn [OF q] using rest
    by (simp_all add: load_thread_def ready_threads_def running_thread_def)
qed

text \<open>The thread with \<open>k\<close> ready threads before it runs after \<open>k + 1\<close> turns.\<close>

lemma ready_thread_runs:
  "k < length (ready_threads vm) \<Longrightarrow>
    vm_current_pid ((suspend_and_rotate ^^ Suc k) vm) = st_pid (ready_threads vm ! k)"
proof (induction k arbitrary: vm)
  case 0
  then show ?case by (cases "ready_threads vm") (simp_all add: rotate_ready(1))
next
  case (Suc k)
  then obtain t ready where r: "ready_threads vm = t # ready" by (cases "ready_threads vm") auto
  note after = rotate_ready(2) [OF r]
  have k: "k < length ready" using Suc.prems r by simp
  then have "vm_current_pid ((suspend_and_rotate ^^ Suc k) (suspend_and_rotate vm)) =
      st_pid ((ready @ [running_thread None vm]) ! k)"
    using Suc.IH [of "suspend_and_rotate vm"] after by simp
  then show ?case using r k by (simp add: nth_append funpow_swap1)
qed

end
