(* ===== verification/Concurrency.thy ===== *)
theory Concurrency
  imports Lists Threads
begin

unbundle bit_operations_syntax

text \<open>
  The instructions of \<open>ops/concurrency.rs\<close> that stay in their module: \<open>spawn\<close>, which puts a new
  thread at the end of the queue, and the channel operations. A channel is a heap object with room
  for one message; an operation that cannot go on marks its thread as blocked, one that succeeds
  wakes the threads that wait for the channel.
\<close>

section \<open>Spawning\<close>

text \<open>
  The pending frame is activated, cut off the parent's stack, and becomes the whole stack of the
  child, which starts with a copy of the module's data; every object named by a word of the copy
  gets a reference. The same lines stand in \<open>op_spawn\<close> and in the first branch of \<open>op_mspawn\<close>.
\<close>

definition word_offsets :: "usize \<Rightarrow> usize list" where
  "word_offsets len = map (\<lambda>i. i * 4) [0..<len div 4]"

definition split_child :: "frame_stack \<Rightarrow> frame_stack \<times> frame_stack" where
  "split_child fs =
    (let child_base = fs_current_base fs;
         child_data = drop child_base (fs_data fs);
         parent_data = take child_base (fs_data fs);
         prev_base = i32_as_usize (mem_read_word child_data 4) in
     (\<lparr>fs_data = child_data, fs_current_base = 0, fs_current_size = length child_data\<rparr>,
      if prev_base < length parent_data
      then \<lparr>fs_data = parent_data, fs_current_base = prev_base,
             fs_current_size = length parent_data - prev_base\<rparr>
      else \<lparr>fs_data = parent_data, fs_current_base = 0, fs_current_size = length parent_data\<rparr>))"

definition start_thread :: "usize \<Rightarrow> usize \<Rightarrow> unit vm" where
  "start_thread frame_ptr entry_pc =
    sbind (on_frames (activate_pending frame_ptr (- 1))) (\<lambda>_. updates (\<lambda>vm.
      let (child_frames, parent_frames) = split_child (vm_frames vm);
          vm = vm\<lparr>vm_frames := parent_frames\<rparr>;
          cloned_mp = vm_mp vm;
          vm = update_heap (for_each_pointer inc_ref cloned_mp (word_offsets (length cloned_mp))) vm;
          child = \<lparr>st_frames = child_frames, st_mp = cloned_mp, st_pc = entry_pc,
            st_pid = vm_next_pid vm, st_heap_refs = [], st_last_error = [],
            st_current_loaded_module = vm_current_loaded_module vm,
            st_caller_mp_stack = vm_caller_mp_stack vm, st_blocked_on = None\<rparr> in
      vm\<lparr>vm_next_pid := vm_next_pid vm + 1, vm_thread_queue := vm_thread_queue vm @ [child]\<rparr>))"

definition op_spawn :: "unit vm" where
  "op_spawn = sbind src_word (\<lambda>s. sbind dst_word (\<lambda>t.
    start_thread (i32_as_usize s) (i32_as_usize t)))"

section \<open>Channels\<close>

definition channel_ref :: "vm_state \<Rightarrow> heap_id \<Rightarrow> exec_error + usize \<times> u8 list option" where
  "channel_ref vm chan_id =
    (if chan_id = NIL then Inl (ThreadFault (rstr ''nil channel''))
     else case heap_get (vm_heap vm) chan_id of
       None \<Rightarrow> Inl (ThreadFault (rstr ''dangling channel''))
     | Some obj \<Rightarrow>
         (case ho_data obj of
            HD_Channel elem_size pending \<Rightarrow> Inr (elem_size, pending)
          | _ \<Rightarrow> Inl (ThreadFault (rstr ''operation on non-channel''))))"

text \<open>Setting the message of a channel that \<open>channel_ref\<close> has found.\<close>

definition set_pending :: "heap_id \<Rightarrow> usize \<Rightarrow> u8 list option \<Rightarrow> vm_state \<Rightarrow> vm_state" where
  "set_pending chan_id elem_size pending = update_heap (heap_set_data chan_id (HD_Channel elem_size pending))"

definition block_on :: "heap_id \<Rightarrow> unit vm" where
  "block_on chan_id = updates (\<lambda>vm. vm\<lparr>vm_blocked_channel := Some chan_id\<rparr>)"

definition read_addr_bytes :: "vm_state \<Rightarrow> addr_target \<Rightarrow> i32 \<Rightarrow> usize \<Rightarrow> u8 list" where
  "read_addr_bytes vm target imm n =
    (case target of
       AT_Frame off \<Rightarrow> read_part (fs_data (vm_frames vm)) off n
     | AT_Mp off \<Rightarrow> read_part (vm_mp vm) off n
     | AT_ModuleMp module_idx offset \<Rightarrow>
         (case module_mp vm module_idx of Some mp \<Rightarrow> read_part mp offset n | None \<Rightarrow> replicate n 0)
     | AT_Immediate \<Rightarrow>
         if n = 1 then [ucast imm]
         else if n = 8 then to_ne_bytes64 (scast imm)
         else copy_at 0 (take n (to_ne_bytes32 imm)) (replicate n 0)
     | AT_None \<Rightarrow> replicate n 0
     | AT_HeapArray hid offset \<Rightarrow> unwrap_or (replicate n 0) (heap_slice (vm_heap vm) hid offset n))"

definition write_record_part :: "heap_id \<Rightarrow> usize \<Rightarrow> u8 list \<Rightarrow> heap \<Rightarrow> heap" where
  "write_record_part hid offset bytes h =
    (case map_option ho_data (heap_get h hid) of
       Some (HD_Record buf) \<Rightarrow> heap_set_data hid (HD_Record (write_part offset bytes buf)) h
     | _ \<Rightarrow> h)"

definition write_addr_bytes :: "addr_target \<Rightarrow> u8 list \<Rightarrow> unit vm" where
  "write_addr_bytes target bytes = (\<lambda>vm.
    case target of
      AT_Frame off \<Rightarrow> (Inr (), update_frame_data (write_part off bytes) vm)
    | AT_Mp off \<Rightarrow> (Inr (), vm\<lparr>vm_mp := write_part off bytes (vm_mp vm)\<rparr>)
    | AT_ModuleMp module_idx offset \<Rightarrow> (Inr (), module_mp_update module_idx (write_part offset bytes) vm)
    | AT_Immediate \<Rightarrow> (Inl (ExecOther (rstr ''cannot write to immediate'')), vm)
    | AT_None \<Rightarrow> (Inr (), vm)
    | AT_HeapArray hid offset \<Rightarrow>
        (Inr (), update_heap (\<lambda>h. write_record_part hid offset bytes (array_write hid offset bytes h)) vm))"

definition op_send :: "unit vm" where
  "op_send = sbind dst_ptr (\<lambda>chan_id vm.
    case channel_ref vm chan_id of
      Inl _ \<Rightarrow> raise_exception (rstr ''nil dereference'') vm
    | Inr (elem_size, Some _) \<Rightarrow> block_on chan_id vm
    | Inr (elem_size, None) \<Rightarrow>
        if elem_size > ISIZE_MAX then (Inl capacity_overflow, vm)
        else
          let src_data = read_addr_bytes vm (vm_src vm) (vm_imm_src vm) elem_size in
          (Inr (), unblock_channel chan_id (set_pending chan_id elem_size (Some src_data) vm)))"

definition op_recv :: "unit vm" where
  "op_recv = sbind src_ptr (\<lambda>chan_id vm.
    case channel_ref vm chan_id of
      Inl _ \<Rightarrow> raise_exception (rstr ''nil dereference'') vm
    | Inr (elem_size, Some data) \<Rightarrow>
        write_addr_bytes (vm_dst vm) data (unblock_channel chan_id (set_pending chan_id elem_size None vm))
    | Inr (elem_size, None) \<Rightarrow> block_on chan_id vm)"

section \<open>Selecting\<close>

datatype table_base = TB_Frame | TB_Mp

record alt_entry =
  ae_channel_id :: heap_id
  ae_is_send :: bool
  ae_data_offset :: usize

datatype alt_outcome = Selected nat | NoneReady | Raised

definition table_memory :: "vm_state \<Rightarrow> table_base \<Rightarrow> u8 list" where
  "table_memory vm base = (case base of TB_Frame \<Rightarrow> fs_data (vm_frames vm) | TB_Mp \<Rightarrow> vm_mp vm)"

definition read_table_word :: "vm_state \<Rightarrow> table_base \<Rightarrow> usize \<Rightarrow> i32" where
  "read_table_word vm base offset = mem_read_word (table_memory vm base) offset"

definition read_table_bytes :: "vm_state \<Rightarrow> table_base \<Rightarrow> usize \<Rightarrow> usize \<Rightarrow> u8 list" where
  "read_table_bytes vm base offset n = read_part (table_memory vm base) offset n"

definition write_table_bytes :: "table_base \<Rightarrow> usize \<Rightarrow> u8 list \<Rightarrow> vm_state \<Rightarrow> vm_state" where
  "write_table_bytes base offset bytes vm =
    (case base of
       TB_Frame \<Rightarrow> update_frame_data (write_part offset bytes) vm
     | TB_Mp \<Rightarrow> vm\<lparr>vm_mp := write_part offset bytes (vm_mp vm)\<rparr>)"

definition alt_entry_at :: "vm_state \<Rightarrow> table_base \<Rightarrow> usize \<Rightarrow> nat \<Rightarrow> nat \<Rightarrow> alt_entry" where
  "alt_entry_at vm base table_offset nsend idx =
    (let base_off = table_offset + 8 + idx * 8 in
     \<lparr>ae_channel_id = read_table_word vm base base_off, ae_is_send = idx < nsend,
       ae_data_offset = nonneg_usize (read_table_word vm base (base_off + 4))\<rparr>)"

definition parse_alt_table :: "vm_state \<Rightarrow> exec_error + table_base \<times> nat \<times> nat \<times> alt_entry list" where
  "parse_alt_table vm =
    and_then
      (case vm_src vm of
         AT_Frame off \<Rightarrow> Inr (TB_Frame, off)
       | AT_Mp off \<Rightarrow> Inr (TB_Mp, off)
       | _ \<Rightarrow> Inl (ExecOther (rstr ''alt table must live in frame or module memory'')))
      (\<lambda>(base, table_offset).
        let nsend = nonneg_usize (read_table_word vm base table_offset);
            nrecv = nonneg_usize (read_table_word vm base (table_offset + 4));
            total_count = saturating_add nsend nrecv;
            table_end = Option.bind (checked_mul total_count 8) (\<lambda>entries_size.
              Option.bind (checked_add entries_size 8) (\<lambda>table_size. checked_add table_size table_offset)) in
        case table_end of
          Some end_pos \<Rightarrow>
            if end_pos \<le> length (table_memory vm base) then
              Inr (base, nsend, nrecv, map (alt_entry_at vm base table_offset nsend) [0..<total_count])
            else Inl (ExecOther (rstr ''alt table with '' @ show_nat nsend @ rstr '' send and '' @
              show_nat nrecv @ rstr '' recv entries does not fit in memory''))
        | None \<Rightarrow> Inl (ExecOther (rstr ''alt table with '' @ show_nat nsend @ rstr '' send and '' @
              show_nat nrecv @ rstr '' recv entries does not fit in memory'')))"

definition alt_fault :: "alt_entry list \<Rightarrow> rstring option" where
  "alt_fault entries =
    (if list_ex (\<lambda>e. ae_channel_id e = NIL) entries then Some (rstr ''nil dereference'')
     else if list_ex (\<lambda>s. ae_is_send s \<and>
         list_ex (\<lambda>r. \<not> ae_is_send r \<and> ae_channel_id r = ae_channel_id s) entries) entries
     then Some (rstr ''alt send/recv on same chan'')
     else None)"

text \<open>The first entry that is ready performs its transfer and wakes the other side.\<close>

fun alt_select :: "table_base \<Rightarrow> nat \<Rightarrow> alt_entry list \<Rightarrow> nat option vm" where
  "alt_select base idx [] vm = (Inr None, vm)"
| "alt_select base idx (e # es) vm =
    (case channel_ref vm (ae_channel_id e) of
       Inl err \<Rightarrow> (Inl err, vm)
     | Inr (elem_size, None) \<Rightarrow>
         if ae_is_send e then
           if elem_size > ISIZE_MAX then (Inl capacity_overflow, vm)
           else
             let data = read_table_bytes vm base (ae_data_offset e) elem_size in
             (Inr (Some idx), unblock_channel (ae_channel_id e)
               (set_pending (ae_channel_id e) elem_size (Some data) vm))
         else alt_select base (Suc idx) es vm
     | Inr (elem_size, Some data) \<Rightarrow>
         if ae_is_send e then alt_select base (Suc idx) es vm
         else (Inr (Some idx), unblock_channel (ae_channel_id e)
           (write_table_bytes base (ae_data_offset e) data (set_pending (ae_channel_id e) elem_size None vm))))"

definition execute_alt :: "bool \<Rightarrow> alt_outcome vm" where
  "execute_alt blocking = sbind (\<lambda>vm. (parse_alt_table vm, vm)) (\<lambda>(base, _, _, entries).
    case alt_fault entries of
      Some msg \<Rightarrow> sbind (raise_exception msg) (\<lambda>_. ret Raised)
    | None \<Rightarrow> sbind (alt_select base 0 entries) (\<lambda>sel.
        case sel of
          Some idx \<Rightarrow> ret (Selected idx)
        | None \<Rightarrow> sbind (if blocking then block_on NIL else ret ()) (\<lambda>_. ret NoneReady)))"

definition op_alt :: "unit vm" where
  "op_alt = sbind (execute_alt True) (\<lambda>outcome.
    case outcome of Selected idx \<Rightarrow> set_dst_word (of_nat idx) | _ \<Rightarrow> ret ())"

definition op_nbalt :: "unit vm" where
  "op_nbalt = sbind (\<lambda>vm. (parse_alt_table vm, vm)) (\<lambda>(_, nsend, nrecv, _).
    sbind (execute_alt False) (\<lambda>outcome.
      case outcome of
        Selected idx \<Rightarrow> set_dst_word (of_nat idx)
      | NoneReady \<Rightarrow> set_dst_word (of_nat (nsend + nrecv))
      | Raised \<Rightarrow> ret ()))"

section \<open>What a channel does\<close>

text \<open>
  A channel is a mailbox with room for one message: putting one in succeeds when it is empty, taking
  one out when it is full. \<open>None\<close> is what has no mailbox: \<open>nil\<close> and every other object.
\<close>

definition mailbox_put :: "'m \<Rightarrow> 'm option \<Rightarrow> bool \<times> 'm option" where
  "mailbox_put m box = (case box of None \<Rightarrow> (True, Some m) | Some _ \<Rightarrow> (False, box))"

definition mailbox_take :: "'m option \<Rightarrow> 'm option \<times> 'm option" where
  "mailbox_take box = (box, None)"

definition mailbox :: "vm_state \<Rightarrow> heap_id \<Rightarrow> u8 list option option" where
  "mailbox vm c = (case channel_ref vm c of Inl _ \<Rightarrow> None | Inr (_, pending) \<Rightarrow> Some pending)"

definition awaited :: "heap_id \<Rightarrow> vm_state \<Rightarrow> bool" where
  "awaited c vm \<longleftrightarrow> (\<exists>t \<in> set (vm_thread_queue vm). st_blocked_on t = Some c \<or> st_blocked_on t = Some 0)"

lemma channel_ref_heap: "vm_heap vm' = vm_heap vm \<Longrightarrow> channel_ref vm' c = channel_ref vm c"
  by (simp add: channel_ref_def)

lemma mailbox_heap: "vm_heap vm' = vm_heap vm \<Longrightarrow> mailbox vm' = mailbox vm"
  by (simp add: mailbox_def channel_ref_def fun_eq_iff)

lemma mailbox_channel:
  "mailbox vm c = Some p \<longleftrightarrow> (\<exists>n. channel_ref vm c = Inr (n, p))"
  by (auto simp: mailbox_def split: sum.split)

lemma vm_heap_unblock [simp]: "vm_heap (unblock_channel c vm) = vm_heap vm"
  by (simp add: unblock_channel_def)

lemma mailbox_set_pending:
  assumes "channel_ref vm c = Inr (n, p)"
  shows "mailbox (set_pending c n q vm) = (mailbox vm)(c := Some q)"
proof (rule ext)
  fix d
  obtain obj where obj: "heap_get (vm_heap vm) c = Some obj" and c: "c \<noteq> NIL"
    using assms by (auto simp: channel_ref_def split: if_splits option.splits)
  show "mailbox (set_pending c n q vm) d = ((mailbox vm)(c := Some q)) d"
  proof (cases "d = c")
    case True
    with obj c show ?thesis
      by (simp add: mailbox_def channel_ref_def set_pending_def update_heap_def heap_set_data_def heap_get_def)
  next
    case False
    then show ?thesis
      by (simp add: mailbox_def channel_ref_def set_pending_def update_heap_def heap_get_set_data)
  qed
qed

lemma not_awaited_unblock: "\<not> awaited c (unblock_channel c vm)"
  by (auto simp: awaited_def unblock_channel_def unblock_thread_def split: option.splits)

lemma write_bytes_outside_heap:
  assumes "outside_heap t"
  shows "\<exists>vm'. write_addr_bytes t bytes vm = (Inr (), vm') \<and> vm_heap vm' = vm_heap vm"
  using assms by (auto simp: outside_heap_def write_addr_bytes_def update_frame_data_def)

lemma read_write_part:
  assumes "in_buf (length bytes) (length buf) off" and "bytes \<noteq> []"
  shows "read_part (write_part off bytes buf) off (length bytes) = bytes"
proof -
  have "off + length bytes \<le> length buf" using in_buf_le [OF assms(1)] .
  moreover from this have "length bytes \<le> length buf - off" by simp
  moreover from \<open>off + length bytes \<le> length buf\<close> assms(2) have "off < length buf" by (cases bytes) auto
  ultimately show ?thesis
    by (simp add: read_part_def write_part_def Let_def subrange_def copy_at_def min_def)
qed

text \<open>A message written to a place outside the heap that holds it is read there.\<close>

lemma read_written_bytes:
  assumes "outside_heap t" and "holds (length bytes) vm t" and "bytes \<noteq> []"
    and "write_addr_bytes t bytes vm = (r, vm')"
  shows "read_addr_bytes vm' t imm (length bytes) = bytes"
proof -
  from assms(1) consider off where "t = AT_Frame off" | off where "t = AT_Mp off"
    | idx off where "t = AT_ModuleMp idx off"
    unfolding outside_heap_def by blast
  then show ?thesis
    using assms(2-4)
    by cases (auto simp: holds_def write_addr_bytes_def read_addr_bytes_def update_frame_data_def
        read_write_part module_mp_same)
qed

text \<open>
  \<open>send\<close> puts and \<open>recv\<close> takes: with success the mailbox changes, no thread is left waiting for the
  channel and the operation does not block; without, nothing changes but the mark that the running
  thread waits. No other channel is touched.
\<close>

lemma op_send_refines:
  assumes "read_word_at vm (vm_dst vm) (vm_imm_dst vm) = Inr c" and "channel_ref vm c = Inr (n, box)"
    and "n \<le> ISIZE_MAX" and "mailbox_put (read_addr_bytes vm (vm_src vm) (vm_imm_src vm) n) box = (done, box')"
  shows "\<exists>vm'. op_send vm = (Inr (), vm') \<and> mailbox vm' = (mailbox vm)(c := Some box') \<and>
    (if done then \<not> awaited c vm' \<and> vm_blocked_channel vm' = vm_blocked_channel vm
     else vm' = vm\<lparr>vm_blocked_channel := Some c\<rparr>)"
proof (cases box)
  case None
  let ?data = "read_addr_bytes vm (vm_src vm) (vm_imm_src vm) n"
  let ?vm = "unblock_channel c (set_pending c n (Some ?data) vm)"
  have "op_send vm = (Inr (), ?vm)"
    using assms None by (simp add: op_send_def dst_ptr_def dst_word_def sbind_def)
  moreover have "mailbox ?vm = (mailbox vm)(c := Some (Some ?data))"
    using mailbox_set_pending [OF assms(2), of "Some ?data"] by (subst mailbox_heap) simp_all
  moreover have "vm_blocked_channel ?vm = vm_blocked_channel vm"
    by (simp add: unblock_channel_def set_pending_def update_heap_def)
  ultimately show ?thesis
    using assms(4) None not_awaited_unblock by (auto simp: mailbox_put_def)
next
  case (Some m)
  have "op_send vm = (Inr (), vm\<lparr>vm_blocked_channel := Some c\<rparr>)"
    using assms Some by (simp add: op_send_def dst_ptr_def dst_word_def sbind_def block_on_def updates_def)
  moreover have "mailbox (vm\<lparr>vm_blocked_channel := Some c\<rparr>) = mailbox vm" by (rule mailbox_heap) simp
  moreover have "mailbox vm c = Some box" using assms(2) by (simp add: mailbox_def)
  ultimately show ?thesis using assms(4) Some by (auto simp: mailbox_put_def)
qed

lemma op_recv_refines:
  assumes "read_word_at vm (vm_src vm) (vm_imm_src vm) = Inr c" and "channel_ref vm c = Inr (n, box)"
    and "outside_heap (vm_dst vm)" and "mailbox_take box = (taken, box')"
  shows "\<exists>vm'. op_recv vm = (Inr (), vm') \<and> mailbox vm' = (mailbox vm)(c := Some box') \<and>
    (case taken of
       None \<Rightarrow> vm' = vm\<lparr>vm_blocked_channel := Some c\<rparr>
     | Some m \<Rightarrow> \<not> awaited c vm' \<and> vm_blocked_channel vm' = vm_blocked_channel vm \<and>
         (m \<noteq> [] \<and> holds (length m) vm (vm_dst vm) \<longrightarrow>
           read_addr_bytes vm' (vm_dst vm) imm (length m) = m))"
proof (cases box)
  case (Some m)
  let ?vm = "unblock_channel c (set_pending c n None vm)"
  obtain vm' where w: "write_addr_bytes (vm_dst vm) m ?vm = (Inr (), vm')" and h: "vm_heap vm' = vm_heap ?vm"
    using write_bytes_outside_heap [OF assms(3)] by blast
  have "op_recv vm = (Inr (), vm')"
    using assms Some w by (simp add: op_recv_def src_ptr_def src_word_def sbind_def)
  moreover have "mailbox vm' = (mailbox vm)(c := Some None)"
    using mailbox_set_pending [OF assms(2), of None] h by (subst mailbox_heap) simp_all
  moreover have "vm_thread_queue vm' = vm_thread_queue ?vm" "vm_blocked_channel vm' = vm_blocked_channel ?vm"
    using assms(3) w by (auto simp: outside_heap_def write_addr_bytes_def update_frame_data_def
        module_mp_update_def split: option.splits)
  moreover have "vm_blocked_channel ?vm = vm_blocked_channel vm"
    by (simp add: unblock_channel_def set_pending_def update_heap_def)
  moreover have "\<not> awaited c vm'"
    using not_awaited_unblock [of c "set_pending c n None vm"] calculation(3) by (simp add: awaited_def)
  moreover have "module_mp ?vm idx = module_mp vm idx" for idx
    by (simp add: module_mp_def current_module_virt_idx_def unblock_channel_def set_pending_def
        update_heap_def split: option.split)
  then have "holds (length m) ?vm (vm_dst vm) = holds (length m) vm (vm_dst vm)"
    using assms(3) by (auto simp: outside_heap_def holds_def unblock_channel_def set_pending_def
        update_heap_def)
  ultimately show ?thesis
    using assms(4) Some read_written_bytes [OF assms(3) _ _ w] by (auto simp: mailbox_take_def)
next
  case None
  have "op_recv vm = (Inr (), vm\<lparr>vm_blocked_channel := Some c\<rparr>)"
    using assms None by (simp add: op_recv_def src_ptr_def src_word_def sbind_def block_on_def updates_def)
  moreover have "mailbox (vm\<lparr>vm_blocked_channel := Some c\<rparr>) = mailbox vm" by (rule mailbox_heap) simp
  moreover have "mailbox vm c = Some box" using assms(2) by (simp add: mailbox_def)
  ultimately show ?thesis using assms(4) None by (auto simp: mailbox_take_def)
qed

end
