(* ===== verification/Calls.thy ===== *)
theory Calls
  imports Modules RealText FixedPoint Concurrency Pointers
begin

text \<open>
  Calls into other modules (\<open>ops/control.rs\<close>, \<open>op_mspawn\<close> of \<open>ops/concurrency.rs\<close>) and the table of
  all instructions (\<open>ops/mod.rs\<close>). Such a call runs an interpreter loop of its own over the callee's
  code, which may not end: a run has a bound on the instructions of one loop and on the depth of
  loops, and gives nothing when the bound is too small. A run that ends within a bound has the same
  outcome for every larger one. Whatever way a call ends, its caller goes on with its own module,
  data, position and unwinding limit.
\<close>

section \<open>Runs\<close>

type_synonym 'a run = "vm_state \<Rightarrow> ((exec_error + 'a) \<times> vm_state) option"

definition rlift :: "'a vm \<Rightarrow> 'a run" where
  "rlift m = (\<lambda>vm. Some (m vm))"

definition rbind :: "'a run \<Rightarrow> ('a \<Rightarrow> 'b run) \<Rightarrow> 'b run" where
  "rbind m f = (\<lambda>vm. case m vm of
      None \<Rightarrow> None
    | Some (Inl e, vm') \<Rightarrow> Some (Inl e, vm')
    | Some (Inr x, vm') \<Rightarrow> f x vm')"

text \<open>A nested interpreter loop: the module it runs and the frame whose return ends it.\<close>

type_synonym nested = "usize option \<Rightarrow> usize \<Rightarrow> unit run"

section \<open>Entering and leaving a module\<close>

definition no_module :: "vm_state \<Rightarrow> usize \<Rightarrow> exec_error" where
  "no_module vm idx = index_panic (length (vm_loaded_modules vm)) idx"

text \<open>
  Taking a module's data from where it rests, which leaves an empty buffer there, and putting it
  back: a loaded module's rests with the module, the main module's in the slot of the caller stack
  where its call parked it, if there is one.
\<close>

definition take_callee_mp :: "usize option \<Rightarrow> usize option \<Rightarrow> u8 list vm" where
  "take_callee_mp module_idx parked_slot = (\<lambda>vm.
    case module_idx of
      Some idx \<Rightarrow>
        (case nth_opt (vm_loaded_modules vm) idx of
           None \<Rightarrow> (Inl (no_module vm idx), vm)
         | Some lm \<Rightarrow>
             (Inr (lm_mp lm),
              vm\<lparr>vm_loaded_modules := (vm_loaded_modules vm)[idx := lm\<lparr>lm_mp := []\<rparr>]\<rparr>))
    | None \<Rightarrow>
        (case parked_slot of
           Some place \<Rightarrow>
             (Inr (snd (vm_caller_mp_stack vm ! place)),
              vm\<lparr>vm_caller_mp_stack := (vm_caller_mp_stack vm)[place :=
                (fst (vm_caller_mp_stack vm ! place), [])]\<rparr>)
         | None \<Rightarrow> (Inr (vm_mp vm), vm\<lparr>vm_mp := []\<rparr>)))"

definition put_callee_mp :: "usize option \<Rightarrow> usize option \<Rightarrow> u8 list \<Rightarrow> unit vm" where
  "put_callee_mp module_idx parked_slot mp = (\<lambda>vm.
    case module_idx of
      Some idx \<Rightarrow>
        (case nth_opt (vm_loaded_modules vm) idx of
           None \<Rightarrow> (Inl (no_module vm idx), vm)
         | Some lm \<Rightarrow>
             (Inr (), vm\<lparr>vm_loaded_modules := (vm_loaded_modules vm)[idx := lm\<lparr>lm_mp := mp\<rparr>]\<rparr>))
    | None \<Rightarrow>
        (case parked_slot of
           Some place \<Rightarrow>
             (case nth_opt (vm_caller_mp_stack vm) place of
                None \<Rightarrow> (Inl (index_panic (length (vm_caller_mp_stack vm)) place), vm)
              | Some (virt, _) \<Rightarrow>
                  (Inr (), vm\<lparr>vm_caller_mp_stack := (vm_caller_mp_stack vm)[place := (virt, mp)]\<rparr>))
         | None \<Rightarrow> (Inr (), vm\<lparr>vm_mp := mp\<rparr>)))"

definition enter_module :: "usize option \<Rightarrow> usize option \<Rightarrow> unit vm" where
  "enter_module module_idx parked_slot = (\<lambda>vm.
    let caller_virt_idx = current_module_virt_idx vm in
    sbind (take_callee_mp module_idx parked_slot) (\<lambda>callee_mp. updates (\<lambda>vm.
      vm\<lparr>vm_mp := callee_mp, vm_caller_mp_stack := vm_caller_mp_stack vm @ [(caller_virt_idx, vm_mp vm)],
         vm_current_loaded_module := module_idx\<rparr>)) vm)"

definition leave_module :: "usize option \<Rightarrow> usize option \<Rightarrow> unit vm" where
  "leave_module module_idx parked_slot = (\<lambda>vm.
    let stack = vm_caller_mp_stack vm;
        parent_mp = (if stack = [] then [] else snd (last stack));
        callee_mp = vm_mp vm in
    put_callee_mp module_idx parked_slot callee_mp
      (vm\<lparr>vm_caller_mp_stack := butlast stack, vm_mp := parent_mp\<rparr>))"

definition parked_main_slot :: "vm_state \<Rightarrow> usize option" where
  "parked_main_slot vm = last_index (\<lambda>(virt, _). virt = 0) (vm_caller_mp_stack vm)"

text \<open>
  The call: enter, run, leave, and restore what is the caller's. An index of no module panics before
  anything has run; nobody sees the machine after a panic, and it is given back as it was.
\<close>

definition run_nested_module_call :: "nested \<Rightarrow> usize option \<Rightarrow> usize \<Rightarrow> usize \<Rightarrow> unit run" where
  "run_nested_module_call nested module_idx entry_pc call_frame_base = (\<lambda>vm.
    let entering = (module_idx \<noteq> vm_current_loaded_module vm);
        parked_slot = parked_main_slot vm;
        vm1 = vm\<lparr>vm_unwind_floor := fs_current_base (vm_frames vm)\<rparr> in
    case (if entering then enter_module module_idx parked_slot vm1 else (Inr (), vm1)) of
      (Inl e, _) \<Rightarrow> Some (Inl e, vm)
    | (Inr _, vm2) \<Rightarrow>
        (case nested module_idx call_frame_base (vm2\<lparr>vm_pc := entry_pc, vm_halted := False\<rparr>) of
           None \<Rightarrow> None
         | Some (r, vm3) \<Rightarrow>
             let vm3 = vm3\<lparr>vm_unwind_floor := vm_unwind_floor vm\<rparr> in
             (case (if entering then leave_module module_idx parked_slot vm3 else (Inr (), vm3)) of
                (Inl e, vm4) \<Rightarrow> Some (Inl e, vm4)
              | (Inr _, vm4) \<Rightarrow>
                  Some (r, vm4\<lparr>vm_pc := vm_pc vm, vm_next_pc := vm_next_pc vm,
                    vm_current_loaded_module := vm_current_loaded_module vm, vm_halted := False\<rparr>))))"

definition call_loaded_module :: "nested \<Rightarrow> usize \<Rightarrow> usize \<Rightarrow> usize \<Rightarrow> unit run" where
  "call_loaded_module nested module_idx entry_pc call_frame_base =
    run_nested_module_call nested (Some module_idx) entry_pc call_frame_base"

section \<open>Calling an exported function\<close>

definition export_pc :: "rstring \<Rightarrow> dis_module \<Rightarrow> u32 \<Rightarrow> usize \<Rightarrow> exec_error + usize" where
  "export_pc where_found m func_idx export_idx =
    (case nth_opt (m_exports m) export_idx of
       Some e \<Rightarrow> Inr (i32_as_usize (ex_pc e))
     | None \<Rightarrow> Inl (ExecOther (rstr ''export function '' @ show_nat (unat func_idx) @
         rstr '' (mapped to '' @ show_nat export_idx @ rstr '') not found in '' @ where_found @
         rstr '' module'')))"

definition loaded_export_pc :: "vm_state \<Rightarrow> usize \<Rightarrow> func_map \<Rightarrow> u32 \<Rightarrow> exec_error + usize" where
  "loaded_export_pc vm module_idx fm func_idx =
    (case nth_opt (vm_loaded_modules vm) module_idx of
       None \<Rightarrow> Inl (no_module vm module_idx)
     | Some lm \<Rightarrow> export_pc (rstr ''loaded'') (lm_module lm) func_idx (mapped_index fm func_idx))"

definition builtin_handler :: "host \<Rightarrow> u32 \<Rightarrow> func_map \<Rightarrow> u32 \<Rightarrow> unit vm" where
  "builtin_handler hst module_id fm func_idx =
    (let builtin_idx = mapped_index fm func_idx in
     case get_func (hs_registry hst) module_id (of_nat builtin_idx) of
       Some f \<Rightarrow> bf_handler f
     | None \<Rightarrow> fail (builtin_not_found module_id func_idx builtin_idx))"

text \<open>The value at the start of the callee's frame goes to where its return pointer says.\<close>

definition copy_return_value :: "unit vm" where
  "copy_return_value = (\<lambda>vm.
    let data_off = current_data_offset (vm_frames vm);
        ret_ptr = mem_read_word (fs_data (vm_frames vm)) (data_off + 16) in
    if ret_ptr \<noteq> 0 then
      write_word_at (decode_return_target vm ret_ptr) (mem_read_word (fs_data (vm_frames vm)) data_off) vm
    else (Inr (), vm))"

definition pop_to_caller :: "unit vm" where
  "pop_to_caller = sbind (on_frames frame_pop) (\<lambda>prev_pc.
    if 0 \<le> sint prev_pc then set_next_pc prev_pc else ret ())"

definition frame_base_here :: "usize vm" where
  "frame_base_here = reads (\<lambda>vm. current_data_offset (vm_frames vm))"

definition op_mcall :: "nested \<Rightarrow> host \<Rightarrow> unit run" where
  "op_mcall nested hst =
    rbind (rlift src_word) (\<lambda>frame_data_offset. rbind (rlift mid_word) (\<lambda>func_idx.
    rbind (rlift dst_ptr) (\<lambda>mod_ref_id.
    rbind (rlift (from_result (\<lambda>vm. resolve_module_ref vm mod_ref_id))) (\<lambda>kind.
    rbind (rlift (\<lambda>vm. on_frames (activate_pending (i32_as_usize frame_data_offset)
      (of_nat (vm_next_pc vm))) vm)) (\<lambda>_.
    case kind of
      MK_Builtin module_id fm \<Rightarrow>
        rlift (sbind (builtin_handler hst module_id fm func_idx) (\<lambda>_.
          sbind copy_return_value (\<lambda>_. pop_to_caller)))
    | MK_Main fm \<Rightarrow>
        rbind (rlift (from_result (\<lambda>vm.
          export_pc (rstr ''main'') (vm_module vm) func_idx (mapped_index fm func_idx)))) (\<lambda>entry_pc.
        rbind (rlift frame_base_here) (\<lambda>base. run_nested_module_call nested None entry_pc base))
    | MK_Loaded module_idx fm \<Rightarrow>
        rbind (rlift (from_result (\<lambda>vm. loaded_export_pc vm module_idx fm func_idx))) (\<lambda>entry_pc.
        rbind (rlift frame_base_here) (\<lambda>base. call_loaded_module nested module_idx entry_pc base)))))))"

text \<open>
  \<open>mspawn\<close> on the main module starts a thread, as \<open>spawn\<close> does; on another module it runs the
  function to its end in the thread that spawns.
\<close>

definition op_mspawn :: "nested \<Rightarrow> host \<Rightarrow> unit run" where
  "op_mspawn nested hst =
    rbind (rlift src_word) (\<lambda>s. rbind (rlift mid_word) (\<lambda>func_idx.
    rbind (rlift dst_ptr) (\<lambda>mod_ref_id.
    rbind (rlift (from_result (\<lambda>vm. resolve_module_ref vm mod_ref_id))) (\<lambda>kind.
    let inline_call = (\<lambda>body. rbind (rlift (\<lambda>vm. on_frames (activate_pending (i32_as_usize s)
            (of_nat (vm_next_pc vm))) vm)) (\<lambda>_.
          (\<lambda>vm. rbind body (\<lambda>_. rlift (updates (\<lambda>vm'.
            vm'\<lparr>vm_pc := vm_pc vm, vm_next_pc := vm_next_pc vm\<rparr>))) vm))) in
    case kind of
      MK_Main fm \<Rightarrow>
        rlift (sbind (from_result (\<lambda>vm.
          export_pc (rstr ''main'') (vm_module vm) func_idx (mapped_index fm func_idx))) (\<lambda>entry_pc.
          start_thread (i32_as_usize s) entry_pc))
    | MK_Builtin module_id fm \<Rightarrow>
        inline_call (rlift (sbind (builtin_handler hst module_id fm func_idx) (\<lambda>_. pop_to_caller)))
    | MK_Loaded module_idx fm \<Rightarrow>
        inline_call (
          rbind (rlift frame_base_here) (\<lambda>base.
          rbind (rlift (from_result (\<lambda>vm. loaded_export_pc vm module_idx fm func_idx))) (\<lambda>entry_pc.
          call_loaded_module nested module_idx entry_pc base)))))))"

section \<open>The table of instructions\<close>

definition plain_ops :: "host \<Rightarrow> (opcode \<times> unit vm) list" where
  "plain_ops hst = [
    (Op_Nop, ret ()), (Op_Exit, op_exit), (Op_Jmp, op_jmp), (Op_Frame, op_frame),
    (Op_Call, op_call), (Op_Ret, op_ret), (Op_Load, op_load hst), (Op_Mframe, op_mframe hst),
    (Op_Movw, op_movw), (Op_Movb, op_movb), (Op_Movf, op_movf), (Op_Movl, op_movl),
    (Op_Movp, op_movp), (Op_Movm, op_movm), (Op_Movmp, op_movmp), (Op_Movpc, op_movpc),
    (Op_New, op_new), (Op_Newz, op_newz), (Op_Newa, op_newa), (Op_Newaz, op_newaz),
    (Op_Mnewz, op_mnewz), (Op_Newcb, op_newcb), (Op_Newcw, op_newcw), (Op_Newcf, op_newcf),
    (Op_Newcp, op_newcp), (Op_Newcm, op_newcm), (Op_Newcmp, op_newcmp), (Op_Newcl, op_newcl),
    (Op_Lea, op_lea), (Op_Indx, op_indx), (Op_Indw, op_indw), (Op_Indf, op_indf),
    (Op_Indb, op_indb), (Op_Indl, op_indl), (Op_Lena, op_lena), (Op_Consb, op_consb),
    (Op_Consw, op_consw), (Op_Consp, op_consp), (Op_Consf, op_consf), (Op_Consm, op_consm),
    (Op_Consmp, op_consmp), (Op_Consl, op_consl), (Op_Headb, op_headb), (Op_Headw, op_headw),
    (Op_Headp, op_headp), (Op_Headf, op_headf), (Op_Headm, op_headm), (Op_Headmp, op_headmp),
    (Op_Headl, op_headl), (Op_Tail, op_tail), (Op_Lenc, op_lenc), (Op_Indc, op_indc),
    (Op_Insc, op_insc), (Op_Addc, op_addc), (Op_Slicec, op_slicec), (Op_Cvtca, op_cvtca),
    (Op_Cvtac, op_cvtac), (Op_Lenl, op_lenl), (Op_Addw, op_addw), (Op_Subw, op_subw),
    (Op_Mulw, op_mulw), (Op_Divw, op_divw), (Op_Modw, op_modw), (Op_Addb, op_addb),
    (Op_Subb, op_subb), (Op_Mulb, op_mulb), (Op_Divb, op_divb), (Op_Modb, op_modb),
    (Op_Andw, op_andw), (Op_Orw, op_orw), (Op_Xorw, op_xorw), (Op_Shlw, op_shlw),
    (Op_Shrw, op_shrw), (Op_Lsrw, op_lsrw), (Op_Andb, op_andb), (Op_Orb, op_orb),
    (Op_Xorb, op_xorb), (Op_Shlb, op_shlb), (Op_Shrb, op_shrb), (Op_Andl, op_andl),
    (Op_Orl, op_orl), (Op_Xorl, op_xorl), (Op_Shll, op_shll), (Op_Shrl, op_shrl),
    (Op_Lsrl, op_lsrl), (Op_Expw, op_expw), (Op_Expl, op_expl), (Op_Expf, op_expf (hs_nan hst)),
    (Op_Addf, op_addf (hs_nan hst)), (Op_Subf, op_subf (hs_nan hst)),
    (Op_Mulf, op_mulf (hs_nan hst)), (Op_Divf, op_divf (hs_nan hst)), (Op_Negf, op_negf),
    (Op_Addl, op_addl), (Op_Subl, op_subl), (Op_Mull, op_mull), (Op_Divl, op_divl),
    (Op_Modl, op_modl), (Op_Beqw, op_beqw), (Op_Bnew, op_bnew), (Op_Bltw, op_bltw),
    (Op_Blew, op_blew), (Op_Bgtw, op_bgtw), (Op_Bgew, op_bgew), (Op_Beqf, op_beqf),
    (Op_Bnef, op_bnef), (Op_Bltf, op_bltf), (Op_Blef, op_blef), (Op_Bgtf, op_bgtf),
    (Op_Bgef, op_bgef), (Op_Beql, op_beql), (Op_Bnel, op_bnel), (Op_Bltl, op_bltl),
    (Op_Blel, op_blel), (Op_Bgtl, op_bgtl), (Op_Bgel, op_bgel), (Op_Beqb, op_beqb),
    (Op_Bneb, op_bneb), (Op_Bltb, op_bltb), (Op_Bleb, op_bleb), (Op_Bgtb, op_bgtb),
    (Op_Bgeb, op_bgeb), (Op_Beqc, op_beqc), (Op_Bnec, op_bnec), (Op_Bltc, op_bltc),
    (Op_Blec, op_blec), (Op_Bgtc, op_bgtc), (Op_Bgec, op_bgec), (Op_Cvtbw, op_cvtbw),
    (Op_Cvtwb, op_cvtwb), (Op_Cvtfw, op_cvtfw (hs_nan hst)), (Op_Cvtwf, op_cvtwf),
    (Op_Cvtwl, op_cvtwl), (Op_Cvtlw, op_cvtlw), (Op_Cvtlf, op_cvtlf),
    (Op_Cvtfl, op_cvtfl (hs_nan hst)), (Op_Cvtwc, op_cvtwc), (Op_Cvtcw, op_cvtcw),
    (Op_Cvtfc, op_cvtfc), (Op_Cvtcf, op_cvtcf), (Op_Cvtlc, op_cvtlc), (Op_Cvtcl, op_cvtcl),
    (Op_Cvtws, op_cvtws), (Op_Cvtsw, op_cvtsw), (Op_Slicea, op_slicea), (Op_Slicela, op_slicela),
    (Op_Cvtrf, op_cvtrf (hs_nan hst)), (Op_Cvtfr, op_cvtfr (hs_nan hst)), (Op_Goto, op_goto),
    (Op_Casew, op_casew), (Op_Casec, op_casec), (Op_Casel, op_casel), (Op_Raise, op_raise),
    (Op_Runt, op_runt), (Op_Eclr, op_eclr), (Op_Brkpt, op_brkpt), (Op_Mulx, op_mulx),
    (Op_Mulx0, op_mulx0), (Op_Mulx1, op_mulx1), (Op_Divx, op_divx), (Op_Divx0, op_divx0),
    (Op_Divx1, op_divx1), (Op_Cvtxx, op_cvtxx), (Op_Cvtxx0, op_cvtxx0), (Op_Cvtxx1, op_cvtxx1),
    (Op_Cvtfx, op_cvtfx (hs_nan hst)), (Op_Cvtxf, op_cvtxf (hs_nan hst)), (Op_Spawn, op_spawn),
    (Op_Send, op_send), (Op_Recv, op_recv), (Op_Alt, op_alt), (Op_Nbalt, op_nbalt),
    (Op_Tcmp, op_tcmp), (Op_Self, op_self)]"

text \<open>
  \<open>dispatch\<close>: every opcode has its operation, the calls into other modules apart in the table
  above. The last case does not occur (\<open>plain_ops_complete\<close>).
\<close>

definition dispatch :: "nested \<Rightarrow> host \<Rightarrow> instruction \<Rightarrow> unit run" where
  "dispatch nested hst inst =
    (if i_opcode inst = Op_Mcall then op_mcall nested hst
     else if i_opcode inst = Op_Mspawn then op_mspawn nested hst
     else case map_of (plain_ops hst) (i_opcode inst) of
       Some op \<Rightarrow> rlift op
     | None \<Rightarrow> rlift (ret ()))"

section \<open>The nested interpreter loop\<close>

definition module_code :: "vm_state \<Rightarrow> usize option \<Rightarrow> exec_error + instruction list" where
  "module_code vm module_idx =
    (case module_idx of
       Some idx \<Rightarrow>
         (case nth_opt (vm_loaded_modules vm) idx of
            None \<Rightarrow> Inl (no_module vm idx)
          | Some lm \<Rightarrow> Inr (m_code (lm_module lm)))
     | None \<Rightarrow> Inr (m_code (vm_module vm)))"

text \<open>One turn of the loop body up to the check for the return of the call's frame.\<close>

definition nested_turn :: "nested \<Rightarrow> host \<Rightarrow> instruction \<Rightarrow> unit run" where
  "nested_turn nested hst inst =
    rbind (rlift (resolve_operands inst)) (\<lambda>_.
    rbind (rlift (updates (\<lambda>vm. vm\<lparr>vm_next_pc := vm_pc vm + 1\<rparr>))) (\<lambda>_.
    rbind (dispatch nested hst inst) (\<lambda>_.
    rbind (rlift fault_on_nested_block) (\<lambda>_.
    rlift (updates (\<lambda>vm. vm\<lparr>vm_pc := vm_next_pc vm\<rparr>))))))"

primrec nested_interpreter_loop :: "host \<Rightarrow> nat \<Rightarrow> nested" where
  "nested_interpreter_loop hst 0 = (\<lambda>module_idx call_frame_base vm. None)"
| "nested_interpreter_loop hst (Suc n) = (\<lambda>module_idx call_frame_base vm.
    case module_code vm module_idx of
      Inl e \<Rightarrow> Some (Inl e, vm)
    | Inr code \<Rightarrow>
        if \<not> vm_halted vm \<and> vm_pc vm < length code then
          rbind (nested_turn (nested_interpreter_loop hst n) hst (code ! vm_pc vm)) (\<lambda>_ vm.
            if current_data_offset (vm_frames vm) < call_frame_base then Some (Inr (), vm)
            else nested_interpreter_loop hst n module_idx call_frame_base vm) vm
        else Some (Inr (), vm))"

end
