(* ===== verification/Machine.thy ===== *)
theory Machine
  imports Calls Gc
begin

text \<open>
  The machine as a whole: the built-in modules \<open>vm.rs\<close> defines itself, the state a program starts
  in (\<open>VmState::with_args\<close>), the main loop with its turns, its collections and its treatment of
  faults (\<open>VmState::run\<close>), and \<open>execute_with_args\<close> of \<open>lib.rs\<close>.
\<close>

section \<open>Digests\<close>

text \<open>
  The hash functions come from other packages: the parameter \<open>hash\<close> gives the digest of a kind.
\<close>

type_synonym digest_function = "i32 \<Rightarrow> u8 list \<Rightarrow> u8 list"

definition DIGEST_MD5 :: i32 where "DIGEST_MD5 = 0"
definition DIGEST_SHA1 :: i32 where "DIGEST_SHA1 = 1"
definition DIGEST_SHA224 :: i32 where "DIGEST_SHA224 = 2"
definition DIGEST_SHA256 :: i32 where "DIGEST_SHA256 = 3"
definition DIGEST_SHA384 :: i32 where "DIGEST_SHA384 = 4"
definition DIGEST_SHA512 :: i32 where "DIGEST_SHA512 = 5"
definition DIGEST_MD4 :: i32 where "DIGEST_MD4 = 6"

text \<open>The bytes a digest state has accumulated.\<close>

definition digest_accumulated :: "heap \<Rightarrow> heap_id \<Rightarrow> u8 list" where
  "digest_accumulated h state_id =
    (if state_id = NIL then []
     else case heap_get h state_id of
       None \<Rightarrow> []
     | Some obj \<Rightarrow> (case ho_data obj of HD_Record data \<Rightarrow> drop 4 data | _ \<Rightarrow> []))"

definition keyring_digest :: "digest_function \<Rightarrow> i32 \<Rightarrow> unit vm" where
  "keyring_digest hash kind = updates (\<lambda>vm.
    let frame_base = current_data_offset (vm_frames vm);
        arg = (\<lambda>off. mem_read_word (fs_data (vm_frames vm)) (frame_base + off));
        data_id = arg 32; n = i32_as_usize (arg 36); digest_id = arg 40; state_id = arg 44;
        input = (if data_id \<noteq> NIL \<and> n > 0
          then unwrap_or [] (array_read (vm_heap vm) data_id 0 n) else []);
        accumulated = digest_accumulated (vm_heap vm) state_id @ input;
        vm = (if digest_id \<noteq> NIL
          then update_heap (array_write digest_id 0 (hash kind accumulated)) vm else vm);
        state_data = mem_write_word (replicate 4 0) 0 kind @ accumulated;
        (new_state_id, h) = heap_alloc 0 (HD_Record state_data) (vm_heap vm);
        vm = vm\<lparr>vm_heap := h\<rparr> in
    update_frame_data (\<lambda>d. mem_write_word d frame_base new_state_id) vm)"

definition keyring_return_nil :: "unit vm" where
  "keyring_return_nil = updates (\<lambda>vm.
    update_frame_data (\<lambda>d. mem_write_word d (current_data_offset (vm_frames vm)) 0) vm)"

definition keyring_return_zero :: "unit vm" where
  "keyring_return_zero = updates (\<lambda>vm.
    update_frame_data (\<lambda>d. mem_write_word d (current_data_offset (vm_frames vm)) 0) vm)"

definition builtin :: "string \<Rightarrow> u32 \<Rightarrow> usize \<Rightarrow> unit vm \<Rightarrow> builtin_func" where
  "builtin name sig frame_size handler = \<lparr>bf_name = rstr name, bf_sig = sig,
    bf_frame_size = frame_size, bf_handler = handler\<rparr>"

definition digest_funcs :: "digest_function \<Rightarrow> builtin_func list" where
  "digest_funcs hash = map (\<lambda>(name, kind). builtin name 0x07656377 56 (keyring_digest hash kind))
    [(''md5'', DIGEST_MD5), (''sha1'', DIGEST_SHA1), (''sha224'', DIGEST_SHA224),
     (''sha256'', DIGEST_SHA256), (''sha384'', DIGEST_SHA384), (''sha512'', DIGEST_SHA512),
     (''md4'', DIGEST_MD4)]"

definition crypt_module :: "digest_function \<Rightarrow> builtin_module" where
  "crypt_module hash = \<lparr>bm_name = rstr ''$Crypt'', bm_funcs = digest_funcs hash\<rparr>"

definition keyring_module :: "digest_function \<Rightarrow> builtin_module" where
  "keyring_module hash = \<lparr>bm_name = rstr ''$Keyring'', bm_funcs = digest_funcs hash @
    [builtin ''readauthinfo'' 0xb2c82015 40 keyring_return_nil,
     builtin ''writeauthinfo'' 0 40 keyring_return_zero,
     builtin ''getstring'' 0 40 keyring_return_nil,
     builtin ''putstring'' 0 40 keyring_return_zero,
     builtin ''getbytearray'' 0 40 keyring_return_nil,
     builtin ''putbytearray'' 0 40 keyring_return_zero,
     builtin ''auth'' 0 48 keyring_return_nil]\<rparr>"

text \<open>
  The registry of a machine: the modules of \<open>sys.rs\<close>, \<open>math.rs\<close>, \<open>draw.rs\<close> and \<open>tk.rs\<close>, whose handlers
  talk to the host and are a parameter here, and the two above.
\<close>

definition standard_registry :: "builtin_module list \<Rightarrow> digest_function \<Rightarrow> module_registry" where
  "standard_registry natives hash =
    register (keyring_module hash) (register (crypt_module hash)
      (foldl (\<lambda>reg m. register m reg) registry_new natives))"

section \<open>The start of a program\<close>

definition entry_frame_size :: "dis_module \<Rightarrow> usize" where
  "entry_frame_size m =
    (let t = h_entry_type (m_header m) in
     if 0 \<le> sint t \<and> i32_as_usize t < length (m_types m)
     then i32_as_usize (td_size (m_types m ! i32_as_usize t)) else 64)"

text \<open>The list of arguments, built from its end.\<close>

fun build_args :: "rstring list \<Rightarrow> heap_id \<Rightarrow> heap \<Rightarrow> heap_id \<times> heap" where
  "build_args [] args_list h = (args_list, h)"
| "build_args (arg # rest) args_list h =
    (let (str_id, h) = heap_alloc 0 (HD_Str arg) h;
         head_buf = mem_write_word (replicate 4 0) 0 str_id;
         h = (if args_list \<noteq> NIL then inc_ref args_list h else h);
         (args_list, h) = heap_alloc 0 (HD_List head_buf args_list) h in
     build_args rest args_list h)"

definition draw_context :: "heap \<Rightarrow> heap_id \<times> heap" where
  "draw_context h =
    (let (display_id, h) = heap_alloc 0 (HD_Record (replicate 32 0)) h;
         ctx_data = mem_write_word (replicate 16 0) 0 display_id;
         (screen_id, h) = heap_alloc 0 (HD_Record (replicate 16 0)) h;
         ctx_data = mem_write_word ctx_data 4 screen_id in
     heap_alloc 0 (HD_Record ctx_data) h)"

definition init_entry_frame :: "dis_module \<Rightarrow> rstring list \<Rightarrow> frame_stack \<Rightarrow> heap \<Rightarrow> frame_stack \<times> heap" where
  "init_entry_frame m args frames h =
    (let (ctx_id, h) = draw_context h;
         (args_list, h) = build_args (rev (m_name m # args)) NIL h;
         fp_base = current_data_offset frames;
         put = (\<lambda>off w d. if fp_base + off + 4 \<le> length d then mem_write_word d (fp_base + off) w else d) in
     (frames\<lparr>fs_data := put 36 args_list (put 32 ctx_id (fs_data frames))\<rparr>, h))"

definition with_args :: "bool \<Rightarrow> dis_module \<Rightarrow> rstring list \<Rightarrow> exec_error + vm_state" where
  "with_args gc_enabled m args =
    (let data_size = i32_as_usize (h_data_size (m_header m)); frame_size = entry_frame_size m in
     if data_size > ISIZE_MAX then Inl capacity_overflow
     else
       let (mp, h) = init_mp_with_types data_size (m_data m) heap_new (m_types m) in
       if wrap_usize (FRAME_HEADER_SIZE + frame_size) > ISIZE_MAX then Inl capacity_overflow
       else
         let frames = push_entry frame_size (- 1) frame_stack_new;
             (frames, h) = (if 40 \<le> frame_size then init_entry_frame m args frames h else (frames, h)) in
         Inr \<lparr>vm_module = m, vm_mp = mp, vm_frames = frames, vm_heap = h, vm_loaded_modules = [],
           vm_pc = i32_as_usize (h_entry_pc (m_header m)), vm_next_pc = 0, vm_halted = False,
           vm_gc_enabled = gc_enabled, vm_gc_counter = 0, vm_current_loaded_module = None,
           vm_src = AT_None, vm_mid = AT_None, vm_dst = AT_None,
           vm_imm_src = 0, vm_imm_mid = 0, vm_imm_dst = 0, vm_last_error = [],
           vm_caller_mp_stack = [], vm_heap_refs = [], vm_blocked_channel = None,
           vm_unwind_floor = 0, vm_thread_queue = [], vm_current_pid = 1, vm_next_pid = 2,
           vm_wait_records = []\<rparr>)"

section \<open>The main loop\<close>

definition GC_INTERVAL :: usize where
  "GC_INTERVAL = 10000"

definition THREAD_QUANTUM :: usize where
  "THREAD_QUANTUM = 2048"

definition collect_garbage :: "vm_state \<Rightarrow> vm_state" where
  "collect_garbage vm = vm\<lparr>vm_heap := collect (vm_heap vm) (vm_frames vm) (vm_mp vm)
    (vm_loaded_modules vm) (vm_thread_queue vm) (vm_caller_mp_stack vm) (vm_heap_refs vm)\<rparr>"

text \<open>\<open>str::contains\<close>.\<close>

fun contains_text :: "rstring \<Rightarrow> rstring \<Rightarrow> bool" where
  "contains_text [] pat = (pat = [])"
| "contains_text (c # cs) pat = (starts_with (c # cs) pat \<or> contains_text cs pat)"

definition raises_exception :: "rstring \<Rightarrow> bool" where
  "raises_exception msg \<longleftrightarrow> contains_text msg (rstr ''nil'') \<or>
    contains_text msg (rstr ''out of bounds'') \<or> contains_text msg (rstr ''not a module'')"

text \<open>An instruction, with the faults among its errors raised as exceptions.\<close>

definition dispatch_or_raise :: "nested \<Rightarrow> host \<Rightarrow> instruction \<Rightarrow> unit run" where
  "dispatch_or_raise nested hst inst = (\<lambda>vm.
    case dispatch nested hst inst vm of
      None \<Rightarrow> None
    | Some (Inr _, vm) \<Rightarrow> Some (Inr (), vm)
    | Some (Inl (ThreadFault msg), vm) \<Rightarrow>
        if raises_exception msg then Some (raise_exception msg vm) else Some (Inl (ThreadFault msg), vm)
    | Some (Inl e, vm) \<Rightarrow> Some (Inl e, vm))"

definition execute_instruction :: "nested \<Rightarrow> host \<Rightarrow> instruction \<Rightarrow> unit run" where
  "execute_instruction nested hst inst =
    rbind (rlift (resolve_operands inst)) (\<lambda>_.
    rbind (rlift (updates (\<lambda>vm. vm\<lparr>vm_next_pc := vm_pc vm + 1\<rparr>))) (\<lambda>_.
    dispatch_or_raise nested hst inst))"

definition periodic_gc :: "vm_state \<Rightarrow> vm_state" where
  "periodic_gc vm =
    (if vm_gc_enabled vm then
       let vm = vm\<lparr>vm_gc_counter := vm_gc_counter vm + 1\<rparr> in
       if vm_gc_counter vm \<ge> GC_INTERVAL then collect_garbage (vm\<lparr>vm_gc_counter := 0\<rparr>) else vm
     else vm)"

definition end_turn :: "usize \<Rightarrow> vm_state \<Rightarrow> usize \<times> vm_state" where
  "end_turn quantum_counter vm =
    (let q = quantum_counter + 1 in
     if q \<ge> THREAD_QUANTUM \<and> vm_thread_queue vm \<noteq> [] then (0, suspend_and_rotate vm) else (q, vm))"

definition any_ready :: "vm_state \<Rightarrow> bool" where
  "any_ready vm \<longleftrightarrow> (\<exists>t \<in> set (vm_thread_queue vm). st_blocked_on t = None)"

text \<open>What follows an instruction that did not fail.\<close>

definition after_instruction :: "usize \<Rightarrow> vm_state \<Rightarrow> (exec_error + usize) \<times> vm_state" where
  "after_instruction quantum_counter vm =
    (case vm_blocked_channel vm of
       Some chan_id \<Rightarrow>
         let vm = vm\<lparr>vm_blocked_channel := None\<rparr> in
         if \<not> any_ready vm then (Inl deadlock_fault, vm)
         else (Inr quantum_counter, snd (resume_next_ready_thread (suspend_as_blocked chan_id vm)))
     | None \<Rightarrow>
         (case end_turn quantum_counter (vm\<lparr>vm_pc := vm_next_pc vm\<rparr>) of
            (quantum_counter, vm) \<Rightarrow> (Inr quantum_counter, periodic_gc vm)))"

text \<open>
  One turn of the main loop: it goes on with a quantum counter, or the program ends with a result.
\<close>

datatype turn = Go_on usize | Finished "exec_error + unit"

definition halted_turn :: "usize \<Rightarrow> vm_state \<Rightarrow> turn \<times> vm_state" where
  "halted_turn quantum_counter vm =
    (let vm = record_thread_exit [] vm in
     if vm_thread_queue vm = [] then (Finished (Inr ()), vm)
     else case resume_next_ready_thread vm of
       (True, vm) \<Rightarrow> (Go_on quantum_counter, vm)
     | (False, vm) \<Rightarrow> (Finished (Inl deadlock_fault), vm))"

definition run_turn :: "nested \<Rightarrow> host \<Rightarrow> usize \<Rightarrow> vm_state \<Rightarrow> (turn \<times> vm_state) option" where
  "run_turn nested hst quantum_counter vm =
    (if vm_halted vm then Some (halted_turn quantum_counter vm)
     else case module_code vm (vm_current_loaded_module vm) of
       Inl e \<Rightarrow> Some (Finished (Inl e), vm)
     | Inr code \<Rightarrow>
         if length code \<le> vm_pc vm then
           (if vm_current_loaded_module vm \<noteq> None then Some (Go_on quantum_counter, vm\<lparr>vm_halted := True\<rparr>)
            else Some (Finished (Inl (InvalidPc (of_nat (vm_pc vm)))), vm))
         else
           (case execute_instruction nested hst (code ! vm_pc vm) vm of
              None \<Rightarrow> None
            | Some (Inl e, vm) \<Rightarrow> Some (Finished (Inl e), vm)
            | Some (Inr _, vm) \<Rightarrow>
                (case after_instruction quantum_counter vm of
                   (Inl e, vm) \<Rightarrow> Some (Finished (Inl e), vm)
                 | (Inr quantum_counter, vm) \<Rightarrow> Some (Go_on quantum_counter, vm))))"

primrec run_loop :: "host \<Rightarrow> nat \<Rightarrow> usize \<Rightarrow> unit run" where
  "run_loop hst 0 = (\<lambda>quantum_counter vm. None)"
| "run_loop hst (Suc n) = (\<lambda>quantum_counter vm.
    case run_turn (nested_interpreter_loop hst n) hst quantum_counter vm of
      None \<Rightarrow> None
    | Some (Finished r, vm) \<Rightarrow> Some (r, vm)
    | Some (Go_on quantum_counter, vm) \<Rightarrow> run_loop hst n quantum_counter vm)"

definition run_machine :: "host \<Rightarrow> nat \<Rightarrow> unit run" where
  "run_machine hst fuel = (\<lambda>vm.
    if sint (h_entry_pc (m_header (vm_module vm))) < 0 then Some (Inr (), vm)
    else run_loop hst fuel 0 vm)"

section \<open>Executing a module\<close>

definition execute_with_args ::
  "host \<Rightarrow> bool \<Rightarrow> nat \<Rightarrow> dis_module \<Rightarrow> rstring list \<Rightarrow> (exec_error + unit) option" where
  "execute_with_args hst gc_enabled fuel m args =
    (let entry_pc = h_entry_pc (m_header m) in
     if sint entry_pc < 0 then Some (Inr ())
     else if length (m_code m) \<le> i32_as_usize entry_pc then Some (Inl (InvalidPc entry_pc))
     else case with_args gc_enabled m args of
       Inl e \<Rightarrow> Some (Inl e)
     | Inr vm \<Rightarrow> map_option fst (run_machine hst fuel vm))"

definition execute :: "host \<Rightarrow> bool \<Rightarrow> nat \<Rightarrow> dis_module \<Rightarrow> (exec_error + unit) option" where
  "execute hst gc_enabled fuel m = execute_with_args hst gc_enabled fuel m []"

end
