(* ===== verification/Context.thy ===== *)
theory Context
  imports Calls
begin

text \<open>
  What every instruction leaves alone. An operation of the machine keeps a relation between the
  state before and after it when every step of it does (\<open>state_relation\<close>). The rules are used for
  \<open>same_context\<close>: the program counter, the running module, the unwinding limit, the modules loaded
  so far and the threads waiting stay, no data area changes its size, and the frame stacks stay well
  formed.
\<close>

named_theorems keeping

section \<open>The context of an instruction\<close>

definition area_sizes :: "(usize \<times> u8 list) list \<Rightarrow> (usize \<times> nat) list" where
  "area_sizes = map (\<lambda>(virt, mp). (virt, length mp))"

definition loaded_shape :: "loaded_module list \<Rightarrow> (dis_module \<times> nat) list" where
  "loaded_shape = map (\<lambda>lm. (lm_module lm, length (lm_mp lm)))"

definition extends :: "'a list \<Rightarrow> 'a list \<Rightarrow> bool" where
  "extends xs ys \<longleftrightarrow> take (length xs) ys = xs"

lemma extends_refl [simp]: "extends xs xs"
  by (simp add: extends_def)

lemma extends_append [simp]: "extends xs (xs @ ys)"
  by (simp add: extends_def)

lemma extends_iff: "extends xs ys \<longleftrightarrow> (\<exists>zs. ys = xs @ zs)"
  unfolding extends_def by (metis append_eq_conv_conj append_take_drop_id)

lemma extends_trans: "extends xs ys \<Longrightarrow> extends ys zs \<Longrightarrow> extends xs zs"
  by (auto simp: extends_iff)

text \<open>A waiting thread but for what it waits for; and the frame stacks of all threads.\<close>

definition at_rest :: "suspended_thread \<Rightarrow> suspended_thread" where
  "at_rest t = t\<lparr>st_blocked_on := None\<rparr>"

definition stacks_ok :: "vm_state \<Rightarrow> bool" where
  "stacks_ok vm \<longleftrightarrow> frames_ok (vm_frames vm) \<and> (\<forall>t \<in> set (vm_thread_queue vm). frames_ok (st_frames t))"

lemma stacks_ok_fields [simp]:
  "stacks_ok (vm\<lparr>vm_mp := x0\<rparr>) = stacks_ok vm"
  "stacks_ok (vm\<lparr>vm_heap := x1\<rparr>) = stacks_ok vm"
  "stacks_ok (vm\<lparr>vm_loaded_modules := x2\<rparr>) = stacks_ok vm"
  "stacks_ok (vm\<lparr>vm_pc := x3\<rparr>) = stacks_ok vm"
  "stacks_ok (vm\<lparr>vm_next_pc := x4\<rparr>) = stacks_ok vm"
  "stacks_ok (vm\<lparr>vm_halted := x5\<rparr>) = stacks_ok vm"
  "stacks_ok (vm\<lparr>vm_gc_counter := x6\<rparr>) = stacks_ok vm"
  "stacks_ok (vm\<lparr>vm_current_loaded_module := x7\<rparr>) = stacks_ok vm"
  "stacks_ok (vm\<lparr>vm_src := x8\<rparr>) = stacks_ok vm"
  "stacks_ok (vm\<lparr>vm_mid := x9\<rparr>) = stacks_ok vm"
  "stacks_ok (vm\<lparr>vm_dst := x10\<rparr>) = stacks_ok vm"
  "stacks_ok (vm\<lparr>vm_imm_src := x11\<rparr>) = stacks_ok vm"
  "stacks_ok (vm\<lparr>vm_imm_mid := x12\<rparr>) = stacks_ok vm"
  "stacks_ok (vm\<lparr>vm_imm_dst := x13\<rparr>) = stacks_ok vm"
  "stacks_ok (vm\<lparr>vm_caller_mp_stack := x14\<rparr>) = stacks_ok vm"
  "stacks_ok (vm\<lparr>vm_heap_refs := x15\<rparr>) = stacks_ok vm"
  "stacks_ok (vm\<lparr>vm_blocked_channel := x16\<rparr>) = stacks_ok vm"
  "stacks_ok (vm\<lparr>vm_unwind_floor := x17\<rparr>) = stacks_ok vm"
  "stacks_ok (vm\<lparr>vm_next_pid := x18\<rparr>) = stacks_ok vm"
  "stacks_ok (vm\<lparr>vm_last_error := x19\<rparr>) = stacks_ok vm"
  "stacks_ok (vm\<lparr>vm_current_pid := x20\<rparr>) = stacks_ok vm"
  "stacks_ok (vm\<lparr>vm_wait_records := x21\<rparr>) = stacks_ok vm"
  by (simp_all add: stacks_ok_def)

text \<open>Everything but the program counter, which a run changes and a call restores.\<close>

definition same_frame_of_reference :: "vm_state \<Rightarrow> vm_state \<Rightarrow> bool" where
  "same_frame_of_reference vm vm' \<longleftrightarrow>
    vm_module vm' = vm_module vm \<and> vm_current_loaded_module vm' = vm_current_loaded_module vm \<and>
    vm_unwind_floor vm' = vm_unwind_floor vm \<and> vm_current_pid vm' = vm_current_pid vm \<and>
    length (vm_mp vm') = length (vm_mp vm) \<and>
    area_sizes (vm_caller_mp_stack vm') = area_sizes (vm_caller_mp_stack vm) \<and>
    extends (loaded_shape (vm_loaded_modules vm)) (loaded_shape (vm_loaded_modules vm')) \<and>
    extends (map at_rest (vm_thread_queue vm)) (map at_rest (vm_thread_queue vm')) \<and>
    (stacks_ok vm \<longrightarrow> stacks_ok vm')"

definition same_context :: "vm_state \<Rightarrow> vm_state \<Rightarrow> bool" where
  "same_context vm vm' \<longleftrightarrow> vm_pc vm' = vm_pc vm \<and> same_frame_of_reference vm vm'"

lemma same_frame_of_reference_refl: "same_frame_of_reference vm vm"
  by (simp add: same_frame_of_reference_def)

lemma same_frame_of_reference_trans:
  "same_frame_of_reference s t \<Longrightarrow> same_frame_of_reference t u \<Longrightarrow> same_frame_of_reference s u"
  unfolding same_frame_of_reference_def by (metis extends_trans)

interpretation frame_of_reference: state_relation same_frame_of_reference
  by unfold_locales (rule same_frame_of_reference_refl, rule same_frame_of_reference_trans)

interpretation ctx: state_relation same_context
  by unfold_locales (auto simp: same_context_def intro: same_frame_of_reference_refl same_frame_of_reference_trans)

abbreviation keeps_context :: "'a vm \<Rightarrow> bool" where
  "keeps_context m \<equiv> ctx.kept_by m"

declare ctx.rules [keeping]

section \<open>Parts of the state\<close>

lemma same_context_refl [keeping]: "same_context vm vm"
  by (rule ctx.rel_refl)

lemma same_context_if [keeping]:
  "same_context vm s \<Longrightarrow> same_context vm t \<Longrightarrow> same_context vm (if b then s else t)"
  by simp

text \<open>Fields that are no part of the context.\<close>

lemma same_context_fields [keeping]:
  assumes "same_context vm vm'"
  shows "same_context vm (vm'\<lparr>vm_heap := h\<rparr>)" "same_context vm (vm'\<lparr>vm_next_pc := n\<rparr>)"
    "same_context vm (vm'\<lparr>vm_halted := b\<rparr>)" "same_context vm (vm'\<lparr>vm_src := t\<rparr>)"
    "same_context vm (vm'\<lparr>vm_mid := t\<rparr>)" "same_context vm (vm'\<lparr>vm_dst := t\<rparr>)"
    "same_context vm (vm'\<lparr>vm_imm_src := w\<rparr>)" "same_context vm (vm'\<lparr>vm_imm_mid := w\<rparr>)"
    "same_context vm (vm'\<lparr>vm_imm_dst := w\<rparr>)" "same_context vm (vm'\<lparr>vm_heap_refs := refs\<rparr>)"
    "same_context vm (vm'\<lparr>vm_blocked_channel := c\<rparr>)" "same_context vm (vm'\<lparr>vm_next_pid := p\<rparr>)"
    "same_context vm (update_heap f vm')"
  using assms by (simp_all add: same_context_def same_frame_of_reference_def update_heap_def)

lemma same_context_frame_data [keeping]:
  assumes "same_context vm vm'" and "\<And>d. length (f d) = length d"
  shows "same_context vm (update_frame_data f vm')"
proof -
  have "stacks_ok (update_frame_data f vm') = stacks_ok vm'"
    by (simp add: stacks_ok_def update_frame_data_def frames_ok_def assms(2))
  with assms(1) show ?thesis
    by (simp add: same_context_def same_frame_of_reference_def update_frame_data_def)
qed

lemma same_context_frames [keeping]:
  assumes "same_context vm vm'" and "frames_ok (vm_frames vm') \<Longrightarrow> frames_ok fs"
  shows "same_context vm (vm'\<lparr>vm_frames := fs\<rparr>)"
  using assms by (simp add: same_context_def same_frame_of_reference_def stacks_ok_def)

lemma same_context_mp [keeping]:
  assumes "same_context vm vm'" and "length mp = length (vm_mp vm')"
  shows "same_context vm (vm'\<lparr>vm_mp := mp\<rparr>)"
  using assms by (simp add: same_context_def same_frame_of_reference_def)

lemma area_sizes_update:
  assumes "i < length xs" and "length d = length (snd (xs ! i))"
  shows "area_sizes (xs[i := (fst (xs ! i), d)]) = area_sizes xs"
  unfolding area_sizes_def map_update using assms
  by (metis (no_types, lifting) case_prod_conv length_map list_update_id nth_map prod.collapse)

lemma last_index_less: "last_index p xs = Some i \<Longrightarrow> i < length xs"
  by (induction xs arbitrary: i) (auto split: option.splits if_splits)

lemma loaded_shape_update:
  assumes "nth_opt xs i = Some lm" and "length d = length (lm_mp lm)"
  shows "loaded_shape (xs[i := lm\<lparr>lm_mp := d\<rparr>]) = loaded_shape xs"
proof -
  have "i < length xs" "lm = xs ! i" using assms(1) by (simp_all add: nth_opt_def split: if_splits)
  then have "map f (xs[i := lm\<lparr>lm_mp := d\<rparr>]) = map f xs" if "f (lm\<lparr>lm_mp := d\<rparr>) = f lm" for f :: "loaded_module \<Rightarrow> dis_module \<times> nat"
    using that by (simp add: map_update list_update_same_conv)
  from this [of "\<lambda>lm. (lm_module lm, length (lm_mp lm))"] show ?thesis
    using assms(2) by (simp add: loaded_shape_def)
qed

lemma same_context_areas:
  "area_sizes stack = area_sizes (vm_caller_mp_stack vm) \<Longrightarrow> same_context vm (vm\<lparr>vm_caller_mp_stack := stack\<rparr>)"
  "extends (loaded_shape (vm_loaded_modules vm)) (loaded_shape lms) \<Longrightarrow>
    same_context vm (vm\<lparr>vm_loaded_modules := lms\<rparr>)"
  by (simp_all add: same_context_def same_frame_of_reference_def)

lemma same_context_module_mp [keeping]:
  assumes "same_context vm vm'" and f: "\<And>d. length (f d) = length d"
  shows "same_context vm (module_mp_update idx f vm')"
proof -
  let ?stack = "vm_caller_mp_stack vm'" and ?lms = "vm_loaded_modules vm'"
  have "same_context vm' (module_mp_update idx f vm')"
  proof (cases "idx = current_module_virt_idx vm'")
    case True
    then show ?thesis by (simp add: module_mp_update_def same_context_mp same_context_refl f)
  next
    case here: False
    show ?thesis
    proof (cases "last_index (\<lambda>(virt_idx, _). virt_idx = idx) ?stack")
      case (Some i)
      then have "area_sizes (?stack[i := (fst (?stack ! i), f (snd (?stack ! i)))]) = area_sizes ?stack"
        using f by (intro area_sizes_update last_index_less)
      from same_context_areas(1) [OF this] here Some show ?thesis by (simp add: module_mp_update_def)
    next
      case None
      show ?thesis
      proof (cases "idx = 0 \<or> nth_opt ?lms (idx - 1) = None")
        case True
        with here None show ?thesis by (auto simp: module_mp_update_def same_context_refl split: option.split)
      next
        case False
        then obtain lm where lm: "nth_opt ?lms (idx - 1) = Some lm" by auto
        have "loaded_shape (?lms[idx - 1 := lm\<lparr>lm_mp := f (lm_mp lm)\<rparr>]) = loaded_shape ?lms"
          using lm f by (rule loaded_shape_update)
        then have "extends (loaded_shape ?lms) (loaded_shape (?lms[idx - 1 := lm\<lparr>lm_mp := f (lm_mp lm)\<rparr>]))"
          by simp
        from same_context_areas(2) [OF this] here None False show ?thesis
          by (simp add: module_mp_update_def lm del: One_nat_def)
      qed
    qed
  qed
  with assms(1) show ?thesis by (rule ctx.rel_trans)
qed

lemma at_rest_unblock [simp]: "at_rest (unblock_thread c t) = at_rest t" "st_frames (unblock_thread c t) = st_frames t"
  by (auto simp: unblock_thread_def at_rest_def split: option.split)

lemma at_rest_unblocked [simp]: "map at_rest (map (unblock_thread c) q) = map at_rest q"
  by simp

lemma same_context_unblock [keeping]:
  "same_context vm vm' \<Longrightarrow> same_context vm (unblock_channel c vm')"
  unfolding same_context_def same_frame_of_reference_def unblock_channel_def stacks_ok_def
  by (simp del: map_map)

lemma same_context_set_pending [keeping]:
  "same_context vm vm' \<Longrightarrow> same_context vm (set_pending c n p vm')"
  unfolding set_pending_def by (rule keeping)

lemma length_write_part [simp]: "length (write_part off bytes buf) = length buf"
  by (simp add: write_part_def copy_at_def)

section \<open>Accessors\<close>

lemma keeps_reading [keeping]:
  "keeps_context src_word" "keeps_context mid_word" "keeps_context dst_word" "keeps_context src_big"
  "keeps_context mid_big" "keeps_context src_real" "keeps_context mid_real" "keeps_context dst_real"
  "keeps_context src_byte" "keeps_context mid_byte" "keeps_context mid_or_dst_word"
  "keeps_context mid_or_dst_byte" "keeps_context mid_or_dst_big" "keeps_context mid_or_dst_real"
  "keeps_context src_ptr" "keeps_context mid_ptr" "keeps_context dst_ptr"
  by (simp_all add: ctx.kept_by_def keeping src_word_def mid_word_def dst_word_def src_big_def mid_big_def
      src_real_def mid_real_def dst_real_def src_byte_def mid_byte_def mid_or_dst_word_def
      mid_or_dst_byte_def mid_or_dst_big_def mid_or_dst_real_def src_ptr_def mid_ptr_def dst_ptr_def)

lemma length_put [simp]:
  "length (if b then mem_write_word d off w else d) = length d"
  "length (if b then mem_write_big d off v else d) = length d"
  "length (if b then mem_write_real d off v else d) = length d"
  "length (if b then mem_write_byte d off c else d) = length d"
  by simp_all

lemma keeps_writing [keeping]:
  "keeps_context (write_word_at t w)" "keeps_context (write_big_at t v)"
  "keeps_context (write_real_at t v)" "keeps_context (write_byte_at t c)"
  by (intro ctx.kept_byI; cases t; simp add: write_word_at_def write_big_at_def write_real_at_def
      write_byte_at_def keeping)+

lemma keeps_setting [keeping]:
  "keeps_context (set_dst_word w)" "keeps_context (set_dst_big v)" "keeps_context (set_dst_real v)"
  "keeps_context (set_dst_byte c)" "keeps_context (set_dst_ptr hid)"
  unfolding set_dst_word_def set_dst_big_def set_dst_real_def set_dst_byte_def set_dst_ptr_def
  by (rule ctx.kept_by_here, rule keeping)+

section \<open>Building blocks\<close>

lemma keeps_split [keeping]:
  "(\<And>a b. keeps_context (f a b)) \<Longrightarrow> keeps_context (\<lambda>vm. case x of (a, b) \<Rightarrow> f a b vm)"
  "(\<And>e. keeps_context (g e)) \<Longrightarrow> (\<And>y. keeps_context (h y)) \<Longrightarrow>
    keeps_context (case r of Inl e \<Rightarrow> g e | Inr y \<Rightarrow> h y)"
  by (auto simp: ctx.kept_by_def split: prod.split sum.split)

lemma keeps_heap_step [keeping]:
  "keeps_context (vm_alloc t data trace)" "keeps_context (inc_ref_unless_nil hid)"
  "keeps_context (vm_cow_string hid)" "keeps_context (move_ptr_to_dst hid)"
  "keeps_context (push_heap_ref hid off)" "keeps_context (block_on hid)"
  "keeps_context (type_size_or what i)" "keeps_context (set_next_pc w)"
proof -
  show "keeps_context (vm_alloc t data trace)" "keeps_context (vm_cow_string hid)"
    "keeps_context (push_heap_ref hid off)" "keeps_context (type_size_or what i)"
    by (auto simp: ctx.kept_by_def vm_alloc_def vm_cow_string_def push_heap_ref_def type_size_or_def
        keeping split: prod.split option.split)
  show "keeps_context (inc_ref_unless_nil hid)" "keeps_context (block_on hid)" "keeps_context (set_next_pc w)"
    unfolding inc_ref_unless_nil_def block_on_def set_next_pc_def
    by (rule keeping, simp add: keeping)+
  show "keeps_context (move_ptr_to_dst hid)"
    unfolding move_ptr_to_dst_def by (rule keeping | simp add: keeping)+
qed

lemma keeps_trace_map [keeping]: "keeps_context (vm_trace_map i)"
  by (auto simp: ctx.kept_by_def vm_trace_map_def trace_map_for_type_def Let_def keeping
      split: prod.split option.split)

lemma keeps_on_frames:
  assumes "\<And>fs r fs'. frames_ok fs \<Longrightarrow> m fs = (r, fs') \<Longrightarrow> frames_ok fs'"
  shows "keeps_context (on_frames m)"
  by (auto simp: ctx.kept_by_def on_frames_def Let_def split: prod.split
      intro!: same_context_frames same_context_refl dest: assms)

lemma keeps_frame_steps [keeping]:
  "keeps_context (on_frames (alloc_pending n))" "keeps_context (on_frames (activate_pending off pc))"
  "keeps_context (on_frames frame_pop)"
  by (rule keeps_on_frames, erule frames_ok_alloc frames_ok_activate frames_ok_pop, assumption)+

section \<open>Exceptions\<close>

lemma frames_ok_unwind: "frames_ok fs \<Longrightarrow> unwind_to fb fs = (r, fs') \<Longrightarrow> frames_ok fs'"
proof (induction fb fs arbitrary: r fs' rule: unwind_to.induct)
  case (1 fb fs)
  show ?case
  proof (cases "fs_current_base fs > fb")
    case True
    obtain p fs1 where pop: "frame_pop fs = (p, fs1)" by fastforce
    have ok: "frames_ok fs1" by (rule frames_ok_pop [OF 1(2) pop])
    show ?thesis
    proof (cases p)
      case (Inl e)
      with 1(3) True pop ok show ?thesis by (subst (asm) unwind_to.simps) simp
    next
      case (Inr pc)
      with 1(3) True pop have "unwind_to fb fs1 = (r, fs')" by (subst (asm) unwind_to.simps) simp
      from 1(1) [OF True _ _ ok this] pop Inr show ?thesis by simp
    qed
  next
    case False
    with 1 show ?thesis by (subst (asm) (2) unwind_to.simps) simp
  qed
qed

lemma same_context_landing:
  assumes "unwind_to fb (vm_frames vm) = (r, fs)"
  shows "same_context vm (vm\<lparr>vm_frames := fs\<rparr>)"
    "same_context vm (vm\<lparr>vm_frames := fs, vm_next_pc := t\<rparr>)"
  using frames_ok_unwind [OF _ assms]
  by (simp_all add: same_context_frames same_context_fields same_context_refl)

lemma same_context_raise_loop: "same_context vm (snd (raise_loop msg str_id pc fb vm))"
proof (induction fb arbitrary: pc rule: less_induct)
  case (less fb)
  show ?case
  proof (cases "find_handler vm pc msg")
    case None
    then show ?thesis
      by (subst raise_loop.simps)
        (auto simp: less.IH dest: caller_frame_less split: option.split intro: same_context_refl)
  next
    case (Some h)
    then show ?thesis
      by (subst raise_loop.simps)
        (auto simp: Let_def split: prod.split sum.split intro!: same_context_frame_data
          dest: same_context_landing)
  qed
qed

lemma keeps_raising [keeping]:
  "keeps_context (raise_exception_with_value msg str_id)" "keeps_context (raise_exception msg)"
proof -
  show with_value: "keeps_context (raise_exception_with_value msg str_id)" for str_id
    by (simp add: ctx.kept_by_def raise_exception_with_value_def same_context_raise_loop)
  have "same_context vm (snd (raise_exception_with_value msg str_id (vm\<lparr>vm_heap := h\<rparr>)))" for vm str_id h
    by (rule ctx.rel_trans [OF _ ctx.kept_byD [OF with_value]]) (simp add: keeping)
  then show "keeps_context (raise_exception msg)"
    by (auto simp: ctx.kept_by_def raise_exception_def Let_def split: prod.split)
qed

section \<open>Case distinctions on the state\<close>

lemma keeps_cases [keeping]:
  "keeps_context m \<Longrightarrow> (\<And>y. keeps_context (h y)) \<Longrightarrow>
    keeps_context (\<lambda>vm. case f vm of None \<Rightarrow> m vm | Some y \<Rightarrow> h y vm)"
  "(\<And>e. keeps_context (g e)) \<Longrightarrow> (\<And>y. keeps_context (h y)) \<Longrightarrow>
    keeps_context (\<lambda>vm. case r vm of Inl e \<Rightarrow> g e vm | Inr y \<Rightarrow> h y vm)"
  "keeps_context m \<Longrightarrow> keeps_context m' \<Longrightarrow> keeps_context (\<lambda>vm. if b vm then m vm else m' vm)"
  "(\<And>x y. keeps_context (k x y)) \<Longrightarrow> keeps_context (\<lambda>vm. case p vm of (x, y) \<Rightarrow> k x y vm)"
  by (auto simp: ctx.kept_by_def split: option.split sum.split prod.split)

lemma keeps_heap_data [keeping]:
  assumes "\<And>a. keeps_context (f1 a)" "\<And>a. keeps_context (f2 a)"
    "\<And>a b c d. keeps_context (f3 a b c d)" "\<And>a b. keeps_context (f4 a b)"
    "\<And>a b. keeps_context (f5 a b)" "\<And>a. keeps_context (f6 a)" "\<And>a b. keeps_context (f7 a b)"
    "\<And>a b. keeps_context (f8 a b)" "\<And>a b. keeps_context (f9 a b)"
    "\<And>a b c d e. keeps_context (f10 a b c d e)"
  shows "keeps_context (\<lambda>vm. case d vm of
      HD_Record a \<Rightarrow> f1 a vm | HD_Str a \<Rightarrow> f2 a vm | HD_Array a b c d \<Rightarrow> f3 a b c d vm
    | HD_List a b \<Rightarrow> f4 a b vm | HD_ModuleRef a b \<Rightarrow> f5 a b vm | HD_MainModule a \<Rightarrow> f6 a vm
    | HD_LoadedModule a b \<Rightarrow> f7 a b vm | HD_Channel a b \<Rightarrow> f8 a b vm | HD_Adt a b \<Rightarrow> f9 a b vm
    | HD_ArraySlice a b c d e \<Rightarrow> f10 a b c d e vm)"
  using assms by (auto simp: ctx.kept_by_def split: heap_data.split)

lemma keeps_target [keeping]:
  assumes "\<And>a. keeps_context (f1 a)" "\<And>a. keeps_context (f2 a)" "\<And>a b. keeps_context (f3 a b)"
    "keeps_context f4" "keeps_context f5" "\<And>a b. keeps_context (f6 a b)"
  shows "keeps_context (\<lambda>vm. case t vm of AT_Frame a \<Rightarrow> f1 a vm | AT_Mp a \<Rightarrow> f2 a vm
    | AT_ModuleMp a b \<Rightarrow> f3 a b vm | AT_Immediate \<Rightarrow> f4 vm | AT_None \<Rightarrow> f5 vm
    | AT_HeapArray a b \<Rightarrow> f6 a b vm)"
  using assms by (auto simp: ctx.kept_by_def split: addr_target.split)

section \<open>The instructions\<close>

lemma keeps_state_dependent: "(\<And>vm0. keeps_context (m vm0)) \<Longrightarrow> keeps_context (\<lambda>vm. m vm vm)"
  by (rule ctx.kept_by_here)

lemma keeps_branch_when [keeping]: "keeps_context (branch_when b)"
  unfolding branch_when_def by (rule keeping)+

end
