(* ===== verification/Instructions.thy ===== *)
theory Instructions
  imports Context
begin

text \<open>
  Every instruction but the calls into other modules keeps the context of the thread that executes
  it: \<open>same_context\<close> holds between the state before and the state after, whether it succeeds or not.
\<close>

section \<open>Instructions with steps of their own\<close>

lemma keeps_frames_with [keeping]: "keeps_context (\<lambda>vm. on_frames (activate_pending off (f vm)) vm)"
  by (rule keeps_state_dependent, rule keeping)

lemma keeps_note_type [keeping]:
  "keeps_context (updates (update_frame_data (\<lambda>d. mem_write_word d off w)))"
  by (rule keeping)+ simp

lemma keeps_alloc_from [keeping]: "keeps_context (\<lambda>vm. vm_alloc t (f vm) trace vm)"
  by (rule keeps_state_dependent, rule keeping)

lemma keeps_write_mid [keeping]: "keeps_context (\<lambda>vm. write_word_at (vm_mid vm) w vm)"
  by (rule keeps_state_dependent, rule keeping)

lemma keeps_new_ref [keeping]: "keeps_context (new_ref data)"
  unfolding new_ref_def by (rule keeping)+

lemma keeps_load_self [keeping]: "keeps_context (load_self imps)"
  by (rule ctx.kept_byI)
    (simp add: load_self_def ctx.kept_byD [OF keeps_new_ref] same_context_refl split: option.split)

lemma same_context_write_block [keeping]:
  "same_context vm vm' \<Longrightarrow> same_context vm (write_block t bytes vm')"
  unfolding write_block_def Let_def
  by (cases t) (auto intro!: same_context_frame_data same_context_mp same_context_module_mp same_context_fields simp: copy_at_def)

lemma same_context_write_head [keeping]:
  "same_context vm vm' \<Longrightarrow> same_context vm (write_head head vm')"
  unfolding write_head_def Let_def
  by (cases "vm_dst vm'") (auto intro!: same_context_frame_data same_context_mp same_context_module_mp same_context_fields simp: copy_at_def)

lemma keeps_write_addr_bytes [keeping]: "keeps_context (write_addr_bytes t bytes)"
  unfolding write_addr_bytes_def
  by (rule ctx.kept_byI, cases t) (simp_all add: keeping)

lemma frames_ok_split:
  assumes "frames_ok fs"
  shows "frames_ok (fst (split_child fs))" "frames_ok (snd (split_child fs))"
  using assms by (auto simp: split_child_def Let_def frames_ok_def)

lemma keeps_start_thread [keeping]: "keeps_context (start_thread frame_ptr entry_pc)"
  unfolding start_thread_def
proof (intro ctx.kept_by_sbind keeps_frame_steps ctx.kept_by_updates, goal_cases)
  case (1 x vm)
  show ?case
    using frames_ok_split [of "vm_frames vm"]
    by (cases "split_child (vm_frames vm)")
      (auto simp: same_context_def same_frame_of_reference_def update_heap_def stacks_ok_def Let_def)
qed

lemma keeps_op_frame [keeping]: "keeps_context op_frame"
  unfolding op_frame_def by (rule keeping | simp)+

lemma keeps_op_mframe [keeping]: "keeps_context (op_mframe hst)"
  unfolding op_mframe_def from_result_def by (rule keeping | simp)+

lemma keeps_op_call [keeping]: "keeps_context op_call"
  unfolding op_call_def by (rule keeping)+

lemma length_init_mp: "init_mp_with_types n items h types = (mp, h') \<Longrightarrow> length mp = n"
proof -
  have "length (is_mp (fold (init_item types) items s)) = length (is_mp s)" for s
    by (induction items arbitrary: s) (simp_all add: length_mp_init_item)
  then show "init_mp_with_types n items h types = (mp, h') \<Longrightarrow> length mp = n"
    by (auto simp: init_mp_with_types_def Let_def)
qed

lemma same_context_load:
  assumes "same_context vm vm'"
  shows "same_context vm (vm'\<lparr>vm_loaded_modules := vm_loaded_modules vm' @ lms\<rparr>)"
proof -
  have "same_context vm' (vm'\<lparr>vm_loaded_modules := vm_loaded_modules vm' @ lms\<rparr>)"
    by (rule same_context_areas(2)) (simp add: loaded_shape_def)
  with assms show ?thesis by (rule ctx.rel_trans)
qed

lemma keeps_load_file [keeping]: "keeps_context (load_file hst path imps)"
proof (rule ctx.kept_byI)
  fix vm
  show "same_context vm (snd (load_file hst path imps vm))"
  proof (cases "find_module_file hst (module_candidates path (hs_root hst) (hs_probe hst))")
    case None
    then show ?thesis by (simp add: load_file_def ctx.kept_byD keeping)
  next
    case (Some m)
    obtain mp h where init: "init_mp_with_types (i32_as_usize (h_data_size (m_header m))) (m_data m)
        (vm_heap vm) (m_types m) = (mp, h)" by fastforce
    have "same_context vm (vm\<lparr>vm_heap := h, vm_loaded_modules := vm_loaded_modules vm @ lms\<rparr>)" for lms
      using same_context_load [OF same_context_fields(1) [OF same_context_refl]] by simp
    then show ?thesis
      using Some init
      by (simp add: load_file_def Let_def same_context_refl ctx.rel_trans [OF _ ctx.kept_byD [OF keeps_new_ref]])
  qed
qed

lemma keeps_op_load [keeping]: "keeps_context (op_load hst)"
  unfolding op_load_def by (rule keeping)+

lemma keeps_src_head [keeping]: "keeps_context src_head"
  unfolding src_head_def by (rule keeping)+

lemma keeps_op_movm [keeping]: "keeps_context op_movm"
  unfolding op_movm_def Let_def by (rule keeping)+

lemma keeps_op_movmp [keeping]: "keeps_context op_movmp"
proof -
  have "keeps_context (updates (\<lambda>vm.
      let src_bytes = read_block vm (vm_src vm) sz; dst_bytes = read_block vm (vm_dst vm) sz;
          vm = (case ptr_map of None \<Rightarrow> vm | Some tm \<Rightarrow> update_heap (f src_bytes dst_bytes tm) vm) in
      write_block (vm_dst vm) src_bytes vm))" for ptr_map sz f
    by (cases ptr_map) (simp_all add: ctx.kept_by_updates same_context_write_block same_context_fields
        same_context_refl Let_def)
  note block = this
  show ?thesis unfolding op_movmp_def by (rule block keeping)+
qed

lemma keeps_op_headm [keeping]: "keeps_context op_headm"
  unfolding op_headm_def by (rule keeping)+

lemma keeps_op_headmp [keeping]: "keeps_context op_headmp"
  unfolding op_headmp_def Let_def by (rule keeping)+

lemma keeps_store_element_ref [keeping]: "keeps_context (store_element_ref hid off)"
  unfolding store_element_ref_def by (rule keeping)+

lemma keeps_op_indx [keeping]: "keeps_context op_indx"
  unfolding op_indx_def Let_def by (rule keeping)+

lemma keeps_op_cvtac [keeping]: "keeps_context op_cvtac"
  unfolding op_cvtac_def by (rule keeping)+

section \<open>The other instructions\<close>

lemma keeps_get_str_pair_src_mid [keeping]: "keeps_context get_str_pair_src_mid"
  unfolding get_str_pair_src_mid_def by (rule keeping)+

lemma keeps_alloc_channel [keeping]: "keeps_context (alloc_channel n)"
  unfolding alloc_channel_def by (rule keeping)+

lemma keeps_op_new [keeping]: "keeps_context op_new"
  unfolding op_new_def by (rule keeping)+

lemma keeps_op_newa [keeping]: "keeps_context op_newa"
  unfolding op_newa_def by (rule keeping)+

lemma keeps_push_cell [keeping]: "keeps_context (push_cell h t)"
  unfolding push_cell_def by (rule keeping)+

lemma keeps_cons_bytes [keeping]: "keeps_context (cons_bytes n)"
  unfolding cons_bytes_def by (rule keeping)+

lemma keeps_make_slice [keeping]: "keeps_context (make_slice a b c d e f g h)"
  unfolding make_slice_def by (rule keeping)+

lemma keeps_replace_dst [keeping]: "keeps_context (replace_dst hid)"
  unfolding replace_dst_def by (rule keeping)+

lemma keeps_vm_new_string [keeping]: "keeps_context (vm_new_string s)"
  unfolding vm_new_string_def by (rule keeping)+

lemma keeps_arithmetic [keeping]:
  "keeps_context op_addw" "keeps_context op_subw" "keeps_context op_mulw" "keeps_context op_divw"
  "keeps_context op_modw" "keeps_context op_addb" "keeps_context op_subb" "keeps_context op_mulb"
  "keeps_context op_divb" "keeps_context op_modb" "keeps_context op_andw" "keeps_context op_orw"
  "keeps_context op_xorw" "keeps_context op_shlw" "keeps_context op_shrw" "keeps_context op_lsrw"
  "keeps_context op_andb" "keeps_context op_orb" "keeps_context op_xorb" "keeps_context op_shlb"
  "keeps_context op_shrb" "keeps_context op_andl" "keeps_context op_orl" "keeps_context op_xorl"
  "keeps_context op_shll" "keeps_context op_shrl" "keeps_context op_lsrl" "keeps_context op_expw"
  "keeps_context op_expl" "keeps_context op_addl" "keeps_context op_subl" "keeps_context op_mull"
  "keeps_context op_divl" "keeps_context op_modl"
  unfolding
    op_addw_def op_subw_def op_mulw_def op_divw_def op_modw_def op_addb_def op_subb_def op_mulb_def
    op_divb_def op_modb_def op_andw_def op_orw_def op_xorw_def op_shlw_def op_shrw_def op_lsrw_def
    op_andb_def op_orb_def op_xorb_def op_shlb_def op_shrb_def op_andl_def op_orl_def op_xorl_def
    op_shll_def op_shrl_def op_lsrl_def op_expw_def op_expl_def op_addl_def op_subl_def op_mull_def
    op_divl_def op_modl_def
  by (rule keeping)+

lemma keeps_branches [keeping]:
  "keeps_context op_beqw" "keeps_context op_bnew" "keeps_context op_bltw" "keeps_context op_blew"
  "keeps_context op_bgtw" "keeps_context op_bgew" "keeps_context op_beqf" "keeps_context op_bnef"
  "keeps_context op_bltf" "keeps_context op_blef" "keeps_context op_bgtf" "keeps_context op_bgef"
  "keeps_context op_beql" "keeps_context op_bnel" "keeps_context op_bltl" "keeps_context op_blel"
  "keeps_context op_bgtl" "keeps_context op_bgel" "keeps_context op_beqb" "keeps_context op_bneb"
  "keeps_context op_bltb" "keeps_context op_bleb" "keeps_context op_bgtb" "keeps_context op_bgeb"
  "keeps_context op_beqc" "keeps_context op_bnec" "keeps_context op_bltc" "keeps_context op_blec"
  "keeps_context op_bgtc" "keeps_context op_bgec"
  unfolding
    op_beqw_def op_bnew_def op_bltw_def op_blew_def op_bgtw_def op_bgew_def op_beqf_def op_bnef_def
    op_bltf_def op_blef_def op_bgtf_def op_bgef_def op_beql_def op_bnel_def op_bltl_def op_blel_def
    op_bgtl_def op_bgel_def op_beqb_def op_bneb_def op_bltb_def op_bleb_def op_bgtb_def op_bgeb_def
    op_beqc_def op_bnec_def op_bltc_def op_blec_def op_bgtc_def op_bgec_def
  by (rule keeping)+

lemma keeps_control [keeping]:
  "keeps_context op_exit" "keeps_context op_jmp" "keeps_context op_ret" "keeps_context op_goto"
  "keeps_context op_casew" "keeps_context op_casec" "keeps_context op_casel"
  "keeps_context op_raise" "keeps_context op_runt" "keeps_context op_eclr" "keeps_context op_brkpt"
  unfolding
    op_exit_def op_jmp_def op_ret_def op_goto_def op_casew_def op_casec_def op_casel_def
    op_raise_def op_runt_def op_eclr_def op_brkpt_def
  by (rule keeping)+

lemma keeps_allocation_and_moves [keeping]:
  "keeps_context op_movw" "keeps_context op_movb" "keeps_context op_movf" "keeps_context op_movl"
  "keeps_context op_movpc" "keeps_context op_newz" "keeps_context op_newaz"
  "keeps_context op_mnewz" "keeps_context op_newcb" "keeps_context op_newcw"
  "keeps_context op_newcf" "keeps_context op_newcp" "keeps_context op_newcm"
  "keeps_context op_newcmp" "keeps_context op_newcl" "keeps_context op_tcmp"
  "keeps_context op_self"
  unfolding
    op_movw_def op_movb_def op_movf_def op_movl_def op_movpc_def op_newz_def op_newaz_def
    op_mnewz_def op_newcb_def op_newcw_def op_newcf_def op_newcp_def op_newcm_def op_newcmp_def
    op_newcl_def op_tcmp_def op_self_def
  by (rule keeping)+

lemma keeps_pointer_instructions [keeping]:
  "keeps_context op_movp" "keeps_context op_lea" "keeps_context op_lena" "keeps_context op_slicea"
  "keeps_context op_slicela" "keeps_context op_indw" "keeps_context op_indf"
  "keeps_context op_indb" "keeps_context op_indl"
  unfolding
    op_movp_def op_lea_def op_lena_def op_slicea_def op_slicela_def op_indw_def op_indf_def
    op_indb_def op_indl_def
  by (rule keeping)+

lemma keeps_list_instructions [keeping]:
  "keeps_context op_consb" "keeps_context op_consw" "keeps_context op_consp"
  "keeps_context op_consf" "keeps_context op_consm" "keeps_context op_consmp"
  "keeps_context op_consl" "keeps_context op_headb" "keeps_context op_headw"
  "keeps_context op_headp" "keeps_context op_headf" "keeps_context op_headl"
  "keeps_context op_tail"
  unfolding
    op_consb_def op_consw_def op_consp_def op_consf_def op_consm_def op_consmp_def op_consl_def
    op_headb_def op_headw_def op_headp_def op_headf_def op_headl_def op_tail_def
  by (rule keeping)+

lemma keeps_string_instructions [keeping]:
  "keeps_context op_lenc" "keeps_context op_indc" "keeps_context op_insc" "keeps_context op_addc"
  "keeps_context op_slicec" "keeps_context op_cvtca" "keeps_context op_lenl"
  unfolding
    op_lenc_def op_indc_def op_insc_def op_addc_def op_slicec_def op_cvtca_def op_lenl_def
  by (rule keeping)+

lemma keeps_real_instructions [keeping]:
  "keeps_context (op_expf nan)" "keeps_context (op_addf nan)" "keeps_context (op_subf nan)"
  "keeps_context (op_mulf nan)" "keeps_context (op_divf nan)" "keeps_context op_negf"
  "keeps_context (op_cvtfw nan)" "keeps_context op_cvtwf" "keeps_context op_cvtlf"
  "keeps_context (op_cvtfl nan)" "keeps_context (op_cvtrf nan)" "keeps_context (op_cvtfr nan)"
  "keeps_context (op_cvtfx nan)" "keeps_context (op_cvtxf nan)"
  unfolding
    op_expf_def op_addf_def op_subf_def op_mulf_def op_divf_def op_negf_def op_cvtfw_def
    op_cvtwf_def op_cvtlf_def op_cvtfl_def op_cvtrf_def op_cvtfr_def op_cvtfx_def op_cvtxf_def
  by (rule keeping)+

lemma keeps_conversions [keeping]:
  "keeps_context op_cvtbw" "keeps_context op_cvtwb" "keeps_context op_cvtwl"
  "keeps_context op_cvtlw" "keeps_context op_cvtwc" "keeps_context op_cvtcw"
  "keeps_context op_cvtlc" "keeps_context op_cvtcl" "keeps_context op_cvtws"
  "keeps_context op_cvtsw" "keeps_context op_cvtfc" "keeps_context op_cvtcf"
  unfolding
    op_cvtbw_def op_cvtwb_def op_cvtwl_def op_cvtlw_def op_cvtwc_def op_cvtcw_def op_cvtlc_def
    op_cvtcl_def op_cvtws_def op_cvtsw_def op_cvtfc_def op_cvtcf_def
  by (rule keeping)+

lemma keeps_fixed_point [keeping]:
  "keeps_context op_mulx" "keeps_context op_mulx0" "keeps_context op_mulx1" "keeps_context op_divx"
  "keeps_context op_divx0" "keeps_context op_divx1" "keeps_context op_cvtxx"
  "keeps_context op_cvtxx0" "keeps_context op_cvtxx1"
  unfolding
    op_mulx_def op_mulx0_def op_mulx1_def op_divx_def op_divx0_def op_divx1_def op_cvtxx_def
    op_cvtxx0_def op_cvtxx1_def
  by (rule keeping)+

section \<open>Channels\<close>

lemma keeps_op_send [keeping]: "keeps_context op_send"
proof -
  have "same_context vm (snd (case channel_ref vm chan_id of
      Inl _ \<Rightarrow> raise_exception (rstr ''nil dereference'') vm
    | Inr (elem_size, Some _) \<Rightarrow> block_on chan_id vm
    | Inr (elem_size, None) \<Rightarrow>
        if elem_size > ISIZE_MAX then (Inl capacity_overflow, vm)
        else
          let src_data = read_addr_bytes vm (vm_src vm) (vm_imm_src vm) elem_size in
          (Inr (), unblock_channel chan_id (set_pending chan_id elem_size (Some src_data) vm))))" for vm chan_id
    by (auto simp: Let_def keeping ctx.kept_byD split: sum.split option.split)
  then show ?thesis
    unfolding op_send_def by (intro ctx.kept_by_sbind keeps_reading ctx.kept_byI)
qed

lemma keeps_op_recv [keeping]: "keeps_context op_recv"
proof -
  have "same_context vm (snd (write_addr_bytes t data (unblock_channel c (set_pending c n None vm))))"
    for vm t data c n
    by (rule ctx.rel_trans [OF _ ctx.kept_byD [OF keeps_write_addr_bytes]]) (simp add: keeping)
  then have "same_context vm (snd (case channel_ref vm chan_id of
      Inl _ \<Rightarrow> raise_exception (rstr ''nil dereference'') vm
    | Inr (elem_size, Some data) \<Rightarrow>
        write_addr_bytes (vm_dst vm) data (unblock_channel chan_id (set_pending chan_id elem_size None vm))
    | Inr (elem_size, None) \<Rightarrow> block_on chan_id vm))" for vm chan_id
    by (auto simp: keeping ctx.kept_byD split: sum.split option.split)
  then show ?thesis
    unfolding op_recv_def by (intro ctx.kept_by_sbind keeps_reading ctx.kept_byI)
qed

lemma same_context_write_table:
  "same_context vm vm' \<Longrightarrow> same_context vm (write_table_bytes base off bytes vm')"
  by (cases base) (auto simp: write_table_bytes_def intro!: same_context_frame_data same_context_mp)

lemma keeps_alt_select [keeping]: "keeps_context (alt_select base idx es)"
proof (rule ctx.kept_byI, induction es arbitrary: idx)
  case Nil
  show ?case by (simp add: same_context_refl)
next
  case (Cons e es)
  then show ?case
    by (auto simp: Let_def keeping split: sum.split option.split intro!: same_context_unblock same_context_write_table)
qed

lemma keeps_alt [keeping]: "keeps_context (execute_alt blocking)"
  unfolding execute_alt_def by (rule keeping)+

lemma keeps_op_alt [keeping]: "keeps_context op_alt"
proof -
  have "keeps_context (case outcome of Selected idx \<Rightarrow> set_dst_word (of_nat idx) | _ \<Rightarrow> ret ())" for outcome
    by (cases outcome) (simp_all add: keeping)
  then show ?thesis unfolding op_alt_def by (intro ctx.kept_by_sbind keeping)
qed

lemma keeps_op_nbalt [keeping]: "keeps_context op_nbalt"
proof -
  have "keeps_context (case outcome of Selected idx \<Rightarrow> set_dst_word (of_nat idx)
      | NoneReady \<Rightarrow> set_dst_word w | Raised \<Rightarrow> ret ())" for outcome w
    by (cases outcome) (simp_all add: keeping)
  note outcome = this
  show ?thesis unfolding op_nbalt_def by (rule keeping outcome)+
qed

lemma keeps_op_spawn [keeping]: "keeps_context op_spawn"
  unfolding op_spawn_def by (rule keeping)+

section \<open>The whole table\<close>

theorem plain_op_keeps_context:
  assumes "map_of (plain_ops hst) opc = Some m"
  shows "keeps_context m"
proof -
  have "list_all (\<lambda>(_, m). keeps_context m) (plain_ops hst)"
    unfolding plain_ops_def by (simp add: keeping)
  with map_of_SomeD [OF assms] show ?thesis by (auto simp: list_all_iff)
qed

end
