(* ===== verification/CallProps.thy ===== *)
theory CallProps
  imports Instructions
begin

text \<open>
  Properties of the calls into other modules: a call keeps the context of its caller, on every way
  out of it; an interpreter loop keeps everything but the program counter; and a run that ends
  within a bound has the same outcome within every larger one.
\<close>

section \<open>Runs that keep a relation\<close>

definition run_keeps :: "(vm_state \<Rightarrow> vm_state \<Rightarrow> bool) \<Rightarrow> 'a run \<Rightarrow> bool" where
  "run_keeps rel m \<longleftrightarrow> (\<forall>vm r vm'. m vm = Some (r, vm') \<longrightarrow> rel vm vm')"

lemma run_keepsI: "(\<And>vm r vm'. m vm = Some (r, vm') \<Longrightarrow> rel vm vm') \<Longrightarrow> run_keeps rel m"
  by (simp add: run_keeps_def)

lemma run_keepsD: "run_keeps rel m \<Longrightarrow> m vm = Some (r, vm') \<Longrightarrow> rel vm vm'"
  by (simp add: run_keeps_def)

locale run_relation = state_relation rel for rel :: "vm_state \<Rightarrow> vm_state \<Rightarrow> bool"
begin

lemma keeps_rlift: "kept_by m \<Longrightarrow> run_keeps rel (rlift m)"
  by (auto simp: run_keeps_def kept_by_def rlift_def) (metis snd_conv)

lemma keeps_rbind:
  assumes "run_keeps rel m" and "\<And>x. run_keeps rel (f x)"
  shows "run_keeps rel (rbind m f)"
proof (rule run_keepsI)
  fix vm r vm'
  assume "rbind m f vm = Some (r, vm')"
  then consider e where "m vm = Some (Inl e, vm')"
    | x vm1 where "m vm = Some (Inr x, vm1)" "f x vm1 = Some (r, vm')"
    by (auto simp: rbind_def split: option.splits sum.splits)
  then show "rel vm vm'"
  proof cases
    case 1
    then show ?thesis by (rule run_keepsD [OF assms(1)])
  next
    case 2
    then show ?thesis using run_keepsD [OF assms(1)] run_keepsD [OF assms(2)] rel_trans by blast
  qed
qed

end

interpretation ref_runs: run_relation same_frame_of_reference
  by unfold_locales

interpretation ctx_runs: run_relation same_context
  by unfold_locales

lemma run_keeps_weaken: "run_keeps same_context m \<Longrightarrow> run_keeps same_frame_of_reference m"
  by (auto simp: run_keeps_def same_context_def)

section \<open>Entering and leaving\<close>

text \<open>What a nested loop is to do: to keep the frame of reference.\<close>

definition nested_ok :: "nested \<Rightarrow> bool" where
  "nested_ok nested \<longleftrightarrow> (\<forall>module_idx base. run_keeps same_frame_of_reference (nested module_idx base))"

lemma area_sizes_append [simp]: "area_sizes (xs @ ys) = area_sizes xs @ area_sizes ys"
  by (simp add: area_sizes_def)

lemma area_sizes_pop:
  assumes "area_sizes stack = area_sizes xs @ [(v, n)]"
  shows "stack \<noteq> []" "area_sizes (butlast stack) = area_sizes xs" "length (snd (last stack)) = n"
proof -
  show ne: "stack \<noteq> []" using assms by (auto simp: area_sizes_def)
  then have "area_sizes (butlast stack) @ area_sizes [last stack] = area_sizes xs @ [(v, n)]"
    using assms by (metis append_butlast_last_id area_sizes_append)
  then show "area_sizes (butlast stack) = area_sizes xs" "length (snd (last stack)) = n"
    by (auto simp: area_sizes_def split: prod.splits)
qed

lemma area_sizes_nth: "area_sizes xs = area_sizes ys \<Longrightarrow> length xs = length ys"
  unfolding area_sizes_def by (metis length_map)

lemma area_sizes_put:
  "area_sizes (xs[i := (v, mp)]) = (area_sizes xs)[i := (v, length mp)]"
  by (simp add: area_sizes_def map_update)

lemma loaded_shape_put:
  "loaded_shape (lms[i := lm]) = (loaded_shape lms)[i := (lm_module lm, length (lm_mp lm))]"
  by (simp add: loaded_shape_def map_update)

lemma loaded_shape_nth: "i < length lms \<Longrightarrow> loaded_shape lms ! i = (lm_module (lms ! i), length (lm_mp (lms ! i)))"
  by (simp add: loaded_shape_def)

lemma length_loaded_shape [simp]: "length (loaded_shape lms) = length lms"
  by (simp add: loaded_shape_def)

text \<open>The data of a loaded module goes out and comes back at the same size.\<close>

lemma loaded_round_trip:
  assumes "nth_opt lms i = Some lm"
    and "extends (loaded_shape (lms[i := lm\<lparr>lm_mp := []\<rparr>])) (loaded_shape lms3)"
    and "length mp3 = length (lm_mp lm)"
  obtains lm3 where "nth_opt lms3 i = Some lm3"
    "extends (loaded_shape lms) (loaded_shape (lms3[i := lm3\<lparr>lm_mp := mp3\<rparr>]))"
proof -
  have i: "i < length lms" and lm: "lm = lms ! i"
    using assms(1) by (simp_all add: nth_opt_def split: if_splits)
  obtain zs where zs: "loaded_shape lms3 = (loaded_shape lms)[i := (lm_module lm, 0)] @ zs"
    using assms(2) by (auto simp: extends_iff loaded_shape_put)
  then have "length lms3 = length lms + length zs"
    by (metis length_append length_list_update length_loaded_shape)
  then have i3: "i < length lms3" using i by simp
  have "loaded_shape lms3 ! i = (lm_module lm, 0)"
    using i by (simp add: zs nth_append)
  then have "lm_module (lms3 ! i) = lm_module lm" using i3 by (simp add: loaded_shape_nth)
  then have "loaded_shape (lms3[i := (lms3 ! i)\<lparr>lm_mp := mp3\<rparr>]) =
      ((loaded_shape lms)[i := (lm_module lm, 0)] @ zs)[i := (lm_module lm, length (lm_mp lm))]"
    using assms(3) by (simp add: loaded_shape_put zs)
  also have "\<dots> = loaded_shape lms @ zs"
    using i lm by (simp add: list_update_append loaded_shape_nth flip: loaded_shape_nth)
  finally have "extends (loaded_shape lms) (loaded_shape (lms3[i := (lms3 ! i)\<lparr>lm_mp := mp3\<rparr>]))"
    by simp
  moreover have "nth_opt lms3 i = Some (lms3 ! i)" using i3 by (simp add: nth_opt_def)
  ultimately show thesis using that by blast
qed

text \<open>The same for the main module's, in the slot of the caller stack where it is parked.\<close>

lemma parked_round_trip:
  assumes "i < length stack" and "xs = area_sizes (stack[i := (fst (stack ! i), [])])"
    and "area_sizes stack3 = xs" and "length mp3 = length (snd (stack ! i))"
  obtains virt d where "nth_opt stack3 i = Some (virt, d)" "area_sizes (stack3[i := (virt, mp3)]) = area_sizes stack"
proof -
  have len: "length stack3 = length stack"
    using assms(2,3) by (metis area_sizes_nth length_list_update)
  obtain virt d where vd: "stack3 ! i = (virt, d)" by fastforce
  have "area_sizes stack3 ! i = (fst (stack ! i), 0)"
    using assms(1-3) by (simp add: area_sizes_def nth_list_update)
  then have "virt = fst (stack ! i)"
    using vd len assms(1) by (simp add: area_sizes_def)
  then have "area_sizes (stack3[i := (virt, mp3)]) =
      (area_sizes stack)[i := (fst (stack ! i), length (snd (stack ! i)))]"
    using assms by (simp add: area_sizes_put)
  also have "\<dots> = area_sizes stack"
    using assms(1) by (metis (no_types, lifting) area_sizes_def case_prod_unfold length_map list_update_id nth_map)
  finally show thesis using that vd len assms(1) by (simp add: nth_opt_def)
qed

text \<open>The state a call comes back to, but for what it restores from the caller.\<close>

definition same_areas :: "vm_state \<Rightarrow> vm_state \<Rightarrow> bool" where
  "same_areas vm vm' \<longleftrightarrow>
    vm_module vm' = vm_module vm \<and> vm_unwind_floor vm' = vm_unwind_floor vm \<and>
    vm_current_pid vm' = vm_current_pid vm \<and> length (vm_mp vm') = length (vm_mp vm) \<and>
    area_sizes (vm_caller_mp_stack vm') = area_sizes (vm_caller_mp_stack vm) \<and>
    extends (loaded_shape (vm_loaded_modules vm)) (loaded_shape (vm_loaded_modules vm')) \<and>
    extends (map at_rest (vm_thread_queue vm)) (map at_rest (vm_thread_queue vm')) \<and>
    (stacks_ok vm \<longrightarrow> stacks_ok vm')"

lemma same_areas_restore:
  "same_areas vm vm' \<Longrightarrow> same_context vm (vm'\<lparr>vm_pc := vm_pc vm, vm_next_pc := n,
    vm_current_loaded_module := vm_current_loaded_module vm, vm_halted := b\<rparr>)"
  by (simp add: same_areas_def same_context_def same_frame_of_reference_def)

lemmas module_swap_defs = enter_module_def leave_module_def take_callee_mp_def put_callee_mp_def
  sbind_def updates_def

lemma enter_loaded:
  assumes "enter_module (Some idx) place (vm\<lparr>vm_unwind_floor := f\<rparr>) = (Inr u, vm2)"
    and "same_frame_of_reference vm2 vm3"
  shows "\<exists>vm4. leave_module (Some idx) place (vm3\<lparr>vm_unwind_floor := vm_unwind_floor vm\<rparr>) = (Inr (), vm4) \<and>
    same_areas vm vm4"
proof -
  let ?lms = "vm_loaded_modules vm" and ?stack = "vm_caller_mp_stack vm"
  obtain lm where lm: "nth_opt ?lms idx = Some lm"
    and vm2: "vm2 = vm\<lparr>vm_unwind_floor := f, vm_loaded_modules := ?lms[idx := lm\<lparr>lm_mp := []\<rparr>],
      vm_mp := lm_mp lm, vm_caller_mp_stack := ?stack @ [(current_module_virt_idx vm, vm_mp vm)],
      vm_current_loaded_module := Some idx\<rparr>"
    using assms(1) by (auto simp: module_swap_defs Let_def current_module_virt_idx_def split: option.splits)
  note same = assms(2) [unfolded vm2 same_frame_of_reference_def, simplified]
  have "area_sizes (vm_caller_mp_stack vm3) =
      area_sizes ?stack @ [(current_module_virt_idx vm, length (vm_mp vm))]"
    using same by (simp add: area_sizes_def)
  note pop = area_sizes_pop [OF this]
  have "extends (loaded_shape (?lms[idx := lm\<lparr>lm_mp := []\<rparr>])) (loaded_shape (vm_loaded_modules vm3))"
    and "length (vm_mp vm3) = length (lm_mp lm)"
    using same by simp_all
  from loaded_round_trip [OF lm this] obtain lm3 where
    lm3: "nth_opt (vm_loaded_modules vm3) idx = Some lm3" and
    "extends (loaded_shape ?lms) (loaded_shape ((vm_loaded_modules vm3)[idx := lm3\<lparr>lm_mp := vm_mp vm3\<rparr>]))" .
  then show ?thesis
    using pop same by (simp add: module_swap_defs same_areas_def Let_def lm3)
qed

lemma enter_main:
  assumes "enter_module None place (vm\<lparr>vm_unwind_floor := f\<rparr>) = (Inr u, vm2)"
    and "place = parked_main_slot vm" and "same_frame_of_reference vm2 vm3"
  shows "\<exists>vm4. leave_module None place (vm3\<lparr>vm_unwind_floor := vm_unwind_floor vm\<rparr>) = (Inr (), vm4) \<and>
    same_areas vm vm4"
proof (cases place)
  case None
  then have vm2: "vm2 = vm\<lparr>vm_unwind_floor := f, vm_mp := vm_mp vm,
      vm_caller_mp_stack := vm_caller_mp_stack vm @ [(current_module_virt_idx vm, [])],
      vm_current_loaded_module := None\<rparr>"
    using assms(1) by (auto simp: module_swap_defs Let_def current_module_virt_idx_def)
  note same = assms(3) [unfolded vm2 same_frame_of_reference_def, simplified]
  have "area_sizes (vm_caller_mp_stack vm3) =
      area_sizes (vm_caller_mp_stack vm) @ [(current_module_virt_idx vm, 0)]"
    using same by (simp add: area_sizes_def)
  from area_sizes_pop [OF this] None same show ?thesis
    by (simp add: module_swap_defs same_areas_def Let_def)
next
  case (Some i)
  let ?stack = "vm_caller_mp_stack vm"
  let ?swapped = "?stack[i := (fst (?stack ! i), [])]"
  from Some have vm2: "vm2 = vm\<lparr>vm_unwind_floor := f, vm_mp := snd (?stack ! i),
      vm_caller_mp_stack := ?swapped @ [(current_module_virt_idx vm, vm_mp vm)],
      vm_current_loaded_module := None\<rparr>"
    using assms(1) by (auto simp: module_swap_defs Let_def current_module_virt_idx_def)
  note same = assms(3) [unfolded vm2 same_frame_of_reference_def, simplified]
  have "area_sizes (vm_caller_mp_stack vm3) =
      area_sizes ?swapped @ [(current_module_virt_idx vm, length (vm_mp vm))]"
    using same by (simp add: area_sizes_def)
  note pop = area_sizes_pop [OF this]
  have "i < length ?stack"
    using Some assms(2) by (auto simp: parked_main_slot_def dest: last_index_less)
  moreover have "length (vm_mp vm3) = length (snd (?stack ! i))" using same by simp
  ultimately obtain virt d where kept: "nth_opt (butlast (vm_caller_mp_stack vm3)) i = Some (virt, d)"
    and "area_sizes ((butlast (vm_caller_mp_stack vm3))[i := (virt, vm_mp vm3)]) = area_sizes ?stack"
    using parked_round_trip [OF _ refl pop(2)] by blast
  then show ?thesis
    using pop same Some by (simp add: module_swap_defs same_areas_def Let_def kept)
qed

lemma call_keeps_context:
  assumes "nested_ok nested"
  shows "run_keeps same_context (run_nested_module_call nested module_idx entry_pc base)"
proof (rule run_keepsI)
  fix vm r vm'
  assume run: "run_nested_module_call nested module_idx entry_pc base vm = Some (r, vm')"
  let ?vm1 = "vm\<lparr>vm_unwind_floor := fs_current_base (vm_frames vm)\<rparr>"
  let ?go = "\<lambda>vm2. nested module_idx base (vm2\<lparr>vm_pc := entry_pc, vm_halted := False\<rparr>)"
  have nested: "same_frame_of_reference vm2 vm3" if "?go vm2 = Some (r', vm3)" for vm2 r' vm3
    using run_keepsD [OF assms [unfolded nested_ok_def, rule_format] that]
    by (simp add: same_frame_of_reference_def)
  show "same_context vm vm'"
  proof (cases "module_idx = vm_current_loaded_module vm")
    case True
    with run obtain vm3 where "?go ?vm1 = Some (r, vm3)"
      and vm': "vm' = vm3\<lparr>vm_unwind_floor := vm_unwind_floor vm, vm_pc := vm_pc vm, vm_next_pc := vm_next_pc vm,
        vm_current_loaded_module := vm_current_loaded_module vm, vm_halted := False\<rparr>"
      by (auto simp: run_nested_module_call_def Let_def split: option.splits)
    from nested [OF this(1)] show ?thesis
      by (simp add: vm' same_context_def same_frame_of_reference_def)
  next
    case entering: False
    show ?thesis
    proof (cases "enter_module module_idx (parked_main_slot vm) ?vm1")
      case (Pair e vm2)
      show ?thesis
      proof (cases e)
        case (Inl err)
        with run entering Pair show ?thesis
          by (simp add: run_nested_module_call_def Let_def same_context_refl)
      next
        case (Inr u)
        with run entering Pair obtain r' vm3 where go: "?go vm2 = Some (r', vm3)"
          by (auto simp: run_nested_module_call_def Let_def split: option.splits)
        have enter: "enter_module module_idx (parked_main_slot vm) ?vm1 = (Inr u, vm2)"
          using Pair Inr by simp
        have "\<exists>vm4. leave_module module_idx (parked_main_slot vm)
            (vm3\<lparr>vm_unwind_floor := vm_unwind_floor vm\<rparr>) = (Inr (), vm4) \<and> same_areas vm vm4"
        proof (cases module_idx)
          case None
          from enter_main [OF enter [unfolded None] refl nested [OF go]] None show ?thesis by simp
        next
          case (Some idx)
          from enter_loaded [OF enter [unfolded Some] nested [OF go]] Some show ?thesis by simp
        qed
        then show ?thesis
          using run entering Pair Inr go
          by (auto simp: run_nested_module_call_def Let_def intro: same_areas_restore)
      qed
    qed
  qed
qed

section \<open>Instructions and interpreter loops\<close>

text \<open>What the handlers of built-in modules are to do.\<close>

definition host_ok :: "host \<Rightarrow> bool" where
  "host_ok hst \<longleftrightarrow> (\<forall>m \<in> set (hs_registry hst). \<forall>f \<in> set (bm_funcs m). keeps_context (bf_handler f))"

lemma nth_opt_mem: "nth_opt xs i = Some x \<Longrightarrow> x \<in> set xs"
  by (auto simp: nth_opt_def split: if_splits)

lemma keeps_builtin_handler:
  assumes "host_ok hst"
  shows "keeps_context (builtin_handler hst module_id fm func_idx)"
proof (cases "get_func (hs_registry hst) module_id (of_nat (mapped_index fm func_idx))")
  case None
  then show ?thesis by (simp add: builtin_handler_def Let_def keeping)
next
  case (Some f)
  then obtain m where "m \<in> set (hs_registry hst)" "f \<in> set (bm_funcs m)"
    unfolding get_func_def
    by (cases "nth_opt (hs_registry hst) (unat module_id)") (auto dest!: nth_opt_mem simp del: nth_opt_Some)
  with assms Some show ?thesis by (simp add: builtin_handler_def Let_def host_ok_def)
qed

lemma keeps_returning [keeping]: "keeps_context copy_return_value" "keeps_context pop_to_caller"
  "keeps_context frame_base_here"
proof -
  show "keeps_context copy_return_value"
    by (rule ctx.kept_byI) (simp add: copy_return_value_def Let_def same_context_refl ctx.kept_byD keeping)
  show "keeps_context pop_to_caller" "keeps_context frame_base_here"
    unfolding pop_to_caller_def frame_base_here_def by (rule keeping)+
qed

lemma keeps_from_result [keeping]: "keeps_context (from_result f)"
  by (simp add: ctx.kept_by_def from_result_def same_context_refl)

lemma mcall_keeps_context:
  assumes "nested_ok nested" and "host_ok hst"
  shows "run_keeps same_context (op_mcall nested hst)"
proof -
  have "run_keeps same_context (case kind of
      MK_Builtin module_id fm \<Rightarrow>
        rlift (sbind (builtin_handler hst module_id fm func_idx) (\<lambda>_.
          sbind copy_return_value (\<lambda>_. pop_to_caller)))
    | MK_Main fm \<Rightarrow>
        rbind (rlift (from_result (\<lambda>vm.
          export_pc (rstr ''main'') (vm_module vm) func_idx (mapped_index fm func_idx)))) (\<lambda>entry_pc.
        rbind (rlift frame_base_here) (\<lambda>base. run_nested_module_call nested None entry_pc base))
    | MK_Loaded module_idx fm \<Rightarrow>
        rbind (rlift (from_result (\<lambda>vm. loaded_export_pc vm module_idx fm func_idx))) (\<lambda>entry_pc.
        rbind (rlift frame_base_here) (\<lambda>base. call_loaded_module nested module_idx entry_pc base)))"
    for kind func_idx
    unfolding call_loaded_module_def
    by (cases kind) (simp_all, (rule ctx_runs.keeps_rbind ctx_runs.keeps_rlift call_keeps_context
        keeps_builtin_handler assms keeping)+)
  note kinds = this
  show ?thesis unfolding op_mcall_def
    by (rule ctx_runs.keeps_rbind ctx_runs.keeps_rlift kinds keeping)+
qed

lemma inline_keeps_context:
  assumes "run_keeps same_context body"
  shows "run_keeps same_context (\<lambda>vm. rbind body (\<lambda>_. rlift (updates (\<lambda>vm'.
    vm'\<lparr>vm_pc := vm_pc vm, vm_next_pc := vm_next_pc vm\<rparr>))) vm)"
proof (rule run_keepsI)
  fix vm r vm'
  assume run: "rbind body (\<lambda>_. rlift (updates (\<lambda>vm'.
    vm'\<lparr>vm_pc := vm_pc vm, vm_next_pc := vm_next_pc vm\<rparr>))) vm = Some (r, vm')"
  then obtain b vm1 where b: "body vm = Some (b, vm1)"
    by (auto simp: rbind_def split: option.splits)
  from run_keepsD [OF assms this] have same: "same_context vm vm1" .
  then have "vm1\<lparr>vm_pc := vm_pc vm, vm_next_pc := n\<rparr> = vm1\<lparr>vm_next_pc := n\<rparr>" for n
    by (simp add: same_context_def)
  with run b same show "same_context vm vm'"
    by (auto simp: rbind_def rlift_def updates_def same_context_fields split: sum.splits)
qed

lemma mspawn_keeps_context:
  assumes "nested_ok nested" and "host_ok hst"
  shows "run_keeps same_context (op_mspawn nested hst)"
proof -
  let ?inline = "\<lambda>s body. rbind (rlift (\<lambda>vm. on_frames (activate_pending (i32_as_usize s)
            (of_nat (vm_next_pc vm))) vm)) (\<lambda>_.
          (\<lambda>vm. rbind body (\<lambda>_. rlift (updates (\<lambda>vm'.
            vm'\<lparr>vm_pc := vm_pc vm, vm_next_pc := vm_next_pc vm\<rparr>))) vm))"
  have inline: "run_keeps same_context (?inline s body)" if "run_keeps same_context body" for s body
    by (rule ctx_runs.keeps_rbind ctx_runs.keeps_rlift inline_keeps_context that keeping)+
  have "run_keeps same_context (case kind of
      MK_Main fm \<Rightarrow>
        rlift (sbind (from_result (\<lambda>vm.
          export_pc (rstr ''main'') (vm_module vm) func_idx (mapped_index fm func_idx))) (\<lambda>entry_pc.
          start_thread (i32_as_usize s) entry_pc))
    | MK_Builtin module_id fm \<Rightarrow>
        ?inline s (rlift (sbind (builtin_handler hst module_id fm func_idx) (\<lambda>_. pop_to_caller)))
    | MK_Loaded module_idx fm \<Rightarrow>
        ?inline s (
          rbind (rlift frame_base_here) (\<lambda>base.
          rbind (rlift (from_result (\<lambda>vm. loaded_export_pc vm module_idx fm func_idx))) (\<lambda>entry_pc.
          call_loaded_module nested module_idx entry_pc base))))" for kind func_idx s
    unfolding call_loaded_module_def
    by (cases kind) (simp_all, (rule inline ctx_runs.keeps_rbind ctx_runs.keeps_rlift call_keeps_context
        keeps_builtin_handler assms keeping)+)
  note kinds = this
  show ?thesis unfolding op_mspawn_def Let_def
    by (rule ctx_runs.keeps_rbind ctx_runs.keeps_rlift kinds keeping)+
qed

lemma dispatch_keeps_context:
  assumes "nested_ok nested" and "host_ok hst"
  shows "run_keeps same_context (dispatch nested hst inst)"
  using mcall_keeps_context [OF assms] mspawn_keeps_context [OF assms]
  by (auto simp: dispatch_def ctx.kept_by_ret split: option.split
      intro!: ctx_runs.keeps_rlift dest: plain_op_keeps_context)

lemma keeps_resolve [keeping]: "keeps_context (resolve_operands inst)"
  by (rule ctx.kept_byI) (simp add: resolve_operands_def Let_def keeping split: sum.split)

lemma keeps_fault_on_nested_block [keeping]: "keeps_context fault_on_nested_block"
  by (rule ctx.kept_byI) (simp add: fault_on_nested_block_def keeping split: option.split)

lemma nested_turn_keeps:
  assumes "nested_ok nested" and "host_ok hst"
  shows "run_keeps same_frame_of_reference (nested_turn nested hst inst)"
proof -
  have "frame_of_reference.kept_by (updates (\<lambda>vm. vm\<lparr>vm_pc := vm_next_pc vm\<rparr>) :: unit vm)"
    by (simp add: frame_of_reference.kept_by_def updates_def same_frame_of_reference_def)
  note step = ref_runs.keeps_rlift [OF this]
  have "run_keeps same_frame_of_reference (rlift m)" if "keeps_context m" for m :: "unit vm"
    by (rule run_keeps_weaken, rule ctx_runs.keeps_rlift, rule that)
  note plain = this
  show ?thesis unfolding nested_turn_def
    by (intro ref_runs.keeps_rbind plain step run_keeps_weaken [OF dispatch_keeps_context] assms)
      (rule keeping same_context_refl)+
qed

theorem nested_loop_ok:
  assumes "host_ok hst"
  shows "nested_ok (nested_interpreter_loop hst n)"
proof (induction n)
  case 0
  show ?case by (simp add: nested_ok_def run_keeps_def)
next
  case (Suc n)
  have again: "run_keeps same_frame_of_reference (\<lambda>vm. if current_data_offset (vm_frames vm) < base
      then Some (Inr (), vm) else nested_interpreter_loop hst n module_idx base vm)" for module_idx base
    using Suc by (auto simp: nested_ok_def run_keeps_def same_frame_of_reference_refl)
  have turn: "run_keeps same_frame_of_reference (rbind (nested_turn (nested_interpreter_loop hst n) hst inst) (\<lambda>_ vm.
      if current_data_offset (vm_frames vm) < base
      then Some (Inr (), vm) else nested_interpreter_loop hst n module_idx base vm))" for inst module_idx base
    by (rule ref_runs.keeps_rbind, rule nested_turn_keeps [OF Suc assms], rule again)
  show ?case
    unfolding nested_ok_def
    by (auto simp: same_frame_of_reference_refl intro!: run_keepsI split: sum.splits if_splits
        dest: run_keepsD [OF turn])
qed

section \<open>Larger bounds\<close>

definition run_le :: "'a run \<Rightarrow> 'a run \<Rightarrow> bool" where
  "run_le m m' \<longleftrightarrow> (\<forall>vm r. m vm = Some r \<longrightarrow> m' vm = Some r)"

definition nested_le :: "nested \<Rightarrow> nested \<Rightarrow> bool" where
  "nested_le nested nested' \<longleftrightarrow> (\<forall>module_idx base. run_le (nested module_idx base) (nested' module_idx base))"

lemma run_leI: "(\<And>vm r. m vm = Some r \<Longrightarrow> m' vm = Some r) \<Longrightarrow> run_le m m'"
  by (simp add: run_le_def)

lemma run_leD: "run_le m m' \<Longrightarrow> m vm = Some r \<Longrightarrow> m' vm = Some r"
  unfolding run_le_def by blast

lemma run_le_refl: "run_le m m"
  by (simp add: run_le_def)

lemma rbind_Some:
  "rbind m f vm = Some r \<longleftrightarrow>
    (\<exists>e vm'. m vm = Some (Inl e, vm') \<and> r = (Inl e, vm')) \<or>
    (\<exists>x vm'. m vm = Some (Inr x, vm') \<and> f x vm' = Some r)"
  by (auto simp: rbind_def split: option.splits sum.splits)

lemma run_le_rbind:
  assumes "run_le m m'" and "\<And>x. run_le (f x) (f' x)"
  shows "run_le (rbind m f) (rbind m' f')"
proof (rule run_leI)
  fix vm r
  assume "rbind m f vm = Some r"
  then consider e vm' where "m vm = Some (Inl e, vm')" "r = (Inl e, vm')"
    | x vm' where "m vm = Some (Inr x, vm')" "f x vm' = Some r"
    unfolding rbind_Some by blast
  then show "rbind m' f' vm = Some r"
    unfolding rbind_Some using run_leD [OF assms(1)] run_leD [OF assms(2)] by (cases; blast)
qed

lemma run_le_then_restoring:
  assumes "run_le m m'"
  shows "run_le (\<lambda>vm. rbind m (f vm) vm) (\<lambda>vm. rbind m' (f vm) vm)"
  by (rule run_leI, rule run_leD [OF run_le_rbind [OF assms run_le_refl]])

lemma run_le_call:
  assumes "nested_le nested nested'"
  shows "run_le (run_nested_module_call nested module_idx entry_pc base)
    (run_nested_module_call nested' module_idx entry_pc base)"
proof (rule run_leI)
  fix vm r
  assume run: "run_nested_module_call nested module_idx entry_pc base vm = Some r"
  note le = run_leD [OF assms [unfolded nested_le_def, rule_format, of module_idx base]]
  let ?vm1 = "vm\<lparr>vm_unwind_floor := fs_current_base (vm_frames vm)\<rparr>"
  obtain e vm2 where enter: "(if module_idx \<noteq> vm_current_loaded_module vm
      then enter_module module_idx (parked_main_slot vm) ?vm1 else (Inr (), ?vm1)) = (e, vm2)"
    by fastforce
  show "run_nested_module_call nested' module_idx entry_pc base vm = Some r"
  proof (cases e)
    case (Inl err)
    with run enter show ?thesis unfolding run_nested_module_call_def Let_def by simp
  next
    case (Inr u)
    then obtain p where go: "nested module_idx base (vm2\<lparr>vm_pc := entry_pc, vm_halted := False\<rparr>) = Some p"
      using run enter unfolding run_nested_module_call_def Let_def by (auto split: option.splits)
    from le [OF go] go run enter Inr show ?thesis unfolding run_nested_module_call_def Let_def by simp
  qed
qed

lemma run_le_mcall:
  assumes "nested_le nested nested'"
  shows "run_le (op_mcall nested hst) (op_mcall nested' hst)"
  unfolding op_mcall_def call_loaded_module_def
  by (intro run_le_rbind run_le_refl; split module_kind.split)
    (auto intro!: run_le_rbind run_le_refl run_le_call assms)

lemma run_le_mspawn:
  assumes "nested_le nested nested'"
  shows "run_le (op_mspawn nested hst) (op_mspawn nested' hst)"
  unfolding op_mspawn_def call_loaded_module_def Let_def
  by (intro run_le_rbind run_le_refl; split module_kind.split)
    (auto intro!: run_le_rbind run_le_refl run_le_call run_le_then_restoring assms)

lemma run_le_dispatch:
  "nested_le nested nested' \<Longrightarrow> run_le (dispatch nested hst inst) (dispatch nested' hst inst)"
  by (auto simp: dispatch_def run_le_refl run_le_mcall run_le_mspawn split: option.split)

lemma nested_loop_step: "nested_le (nested_interpreter_loop hst n) (nested_interpreter_loop hst (Suc n))"
proof (induction n)
  case 0
  show ?case by (simp add: nested_le_def run_le_def)
next
  case (Suc n)
  let ?loop = "nested_interpreter_loop hst"
  have rest: "run_le (\<lambda>vm. if current_data_offset (vm_frames vm) < base then Some (Inr (), vm)
      else ?loop n module_idx base vm)
    (\<lambda>vm. if current_data_offset (vm_frames vm) < base then Some (Inr (), vm)
      else ?loop (Suc n) module_idx base vm)" for module_idx base
    using Suc by (auto simp: nested_le_def run_le_def simp del: nested_interpreter_loop.simps)
  have "run_le (rbind (nested_turn (?loop n) hst inst) (\<lambda>_ vm.
        if current_data_offset (vm_frames vm) < base then Some (Inr (), vm) else ?loop n module_idx base vm))
      (rbind (nested_turn (?loop (Suc n)) hst inst) (\<lambda>_ vm.
        if current_data_offset (vm_frames vm) < base then Some (Inr (), vm)
        else ?loop (Suc n) module_idx base vm))" for inst module_idx base
    unfolding nested_turn_def
    by (intro run_le_rbind run_le_refl run_le_dispatch Suc rest)
  note turn = run_leD [OF this]
  show ?case
    unfolding nested_le_def
    by (intro allI run_leI, subst nested_interpreter_loop.simps, subst (asm) nested_interpreter_loop.simps)
      (auto split: sum.splits if_splits dest: turn simp del: nested_interpreter_loop.simps)
qed

lemma nested_le_trans: "nested_le a b \<Longrightarrow> nested_le b c \<Longrightarrow> nested_le a c"
  by (simp add: nested_le_def run_le_def)

lemma nested_loop_mono:
  assumes "n \<le> m"
  shows "nested_le (nested_interpreter_loop hst n) (nested_interpreter_loop hst m)"
  using assms
proof (induction m)
  case 0
  then show ?case by (simp add: nested_le_def run_le_def)
next
  case (Suc m)
  then show ?case
    using nested_le_trans nested_loop_step [of hst m] by (cases "n = Suc m") (auto simp: nested_le_def run_le_def)
qed

end
