(* ===== verification/MachineProps.thy ===== *)
theory MachineProps
  imports Machine CallProps "HOL-Library.Multiset"
begin

text \<open>
  Properties of the machine as a whole: every opcode has an operation; the outcome of a program does
  not depend on the bound; no turn of the main loop loses a thread or lets a frame stack out of its
  range; and two places where the code does not do what it means to, an exit on the last instruction
  of a quantum and a call back into a module that is already on the caller stack.
\<close>

section \<open>The table of instructions is complete\<close>

lemmas opcode_bytes = Op_Nop.rep_eq Op_Alt.rep_eq Op_Nbalt.rep_eq Op_Goto.rep_eq Op_Call.rep_eq
    Op_Frame.rep_eq Op_Spawn.rep_eq Op_Runt.rep_eq Op_Load.rep_eq Op_Mcall.rep_eq Op_Mspawn.rep_eq
    Op_Mframe.rep_eq Op_Ret.rep_eq Op_Jmp.rep_eq Op_Casew.rep_eq Op_Exit.rep_eq Op_New.rep_eq
    Op_Newa.rep_eq Op_Newcb.rep_eq Op_Newcw.rep_eq Op_Newcf.rep_eq Op_Newcp.rep_eq Op_Newcm.rep_eq
    Op_Newcmp.rep_eq Op_Send.rep_eq Op_Recv.rep_eq Op_Consb.rep_eq Op_Consw.rep_eq Op_Consp.rep_eq
    Op_Consf.rep_eq Op_Consm.rep_eq Op_Consmp.rep_eq Op_Headb.rep_eq Op_Headw.rep_eq Op_Headp.rep_eq
    Op_Headf.rep_eq Op_Headm.rep_eq Op_Headmp.rep_eq Op_Tail.rep_eq Op_Lea.rep_eq Op_Indx.rep_eq
    Op_Movp.rep_eq Op_Movm.rep_eq Op_Movmp.rep_eq Op_Movb.rep_eq Op_Movw.rep_eq Op_Movf.rep_eq
    Op_Cvtbw.rep_eq Op_Cvtwb.rep_eq Op_Cvtfw.rep_eq Op_Cvtwf.rep_eq Op_Cvtca.rep_eq Op_Cvtac.rep_eq
    Op_Cvtwc.rep_eq Op_Cvtcw.rep_eq Op_Cvtfc.rep_eq Op_Cvtcf.rep_eq Op_Addb.rep_eq Op_Addw.rep_eq
    Op_Addf.rep_eq Op_Subb.rep_eq Op_Subw.rep_eq Op_Subf.rep_eq Op_Mulb.rep_eq Op_Mulw.rep_eq
    Op_Mulf.rep_eq Op_Divb.rep_eq Op_Divw.rep_eq Op_Divf.rep_eq Op_Modw.rep_eq Op_Modb.rep_eq
    Op_Andb.rep_eq Op_Andw.rep_eq Op_Orb.rep_eq Op_Orw.rep_eq Op_Xorb.rep_eq Op_Xorw.rep_eq
    Op_Shlb.rep_eq Op_Shlw.rep_eq Op_Shrb.rep_eq Op_Shrw.rep_eq Op_Insc.rep_eq Op_Indc.rep_eq
    Op_Addc.rep_eq Op_Lenc.rep_eq Op_Lena.rep_eq Op_Lenl.rep_eq Op_Beqb.rep_eq Op_Bneb.rep_eq
    Op_Bltb.rep_eq Op_Bleb.rep_eq Op_Bgtb.rep_eq Op_Bgeb.rep_eq Op_Beqw.rep_eq Op_Bnew.rep_eq
    Op_Bltw.rep_eq Op_Blew.rep_eq Op_Bgtw.rep_eq Op_Bgew.rep_eq Op_Beqf.rep_eq Op_Bnef.rep_eq
    Op_Bltf.rep_eq Op_Blef.rep_eq Op_Bgtf.rep_eq Op_Bgef.rep_eq Op_Beqc.rep_eq Op_Bnec.rep_eq
    Op_Bltc.rep_eq Op_Blec.rep_eq Op_Bgtc.rep_eq Op_Bgec.rep_eq Op_Slicea.rep_eq Op_Slicela.rep_eq
    Op_Slicec.rep_eq Op_Indw.rep_eq Op_Indf.rep_eq Op_Indb.rep_eq Op_Negf.rep_eq Op_Movl.rep_eq
    Op_Addl.rep_eq Op_Subl.rep_eq Op_Divl.rep_eq Op_Modl.rep_eq Op_Mull.rep_eq Op_Andl.rep_eq
    Op_Orl.rep_eq Op_Xorl.rep_eq Op_Shll.rep_eq Op_Shrl.rep_eq Op_Bnel.rep_eq Op_Bltl.rep_eq
    Op_Blel.rep_eq Op_Bgtl.rep_eq Op_Bgel.rep_eq Op_Beql.rep_eq Op_Cvtlf.rep_eq Op_Cvtfl.rep_eq
    Op_Cvtlw.rep_eq Op_Cvtwl.rep_eq Op_Cvtlc.rep_eq Op_Cvtcl.rep_eq Op_Headl.rep_eq Op_Consl.rep_eq
    Op_Newcl.rep_eq Op_Casec.rep_eq Op_Indl.rep_eq Op_Movpc.rep_eq Op_Tcmp.rep_eq Op_Mnewz.rep_eq
    Op_Cvtrf.rep_eq Op_Cvtfr.rep_eq Op_Cvtws.rep_eq Op_Cvtsw.rep_eq Op_Lsrw.rep_eq Op_Lsrl.rep_eq
    Op_Eclr.rep_eq Op_Newz.rep_eq Op_Newaz.rep_eq Op_Raise.rep_eq Op_Casel.rep_eq Op_Mulx.rep_eq
    Op_Divx.rep_eq Op_Cvtxx.rep_eq Op_Mulx0.rep_eq Op_Divx0.rep_eq Op_Cvtxx0.rep_eq Op_Mulx1.rep_eq
    Op_Divx1.rep_eq Op_Cvtxx1.rep_eq Op_Cvtfx.rep_eq Op_Cvtxf.rep_eq Op_Expw.rep_eq Op_Expl.rep_eq
    Op_Expf.rep_eq Op_Self.rep_eq Op_Brkpt.rep_eq

unbundle bit_operations_syntax

text \<open>The opcodes of the table, as bytes, in the order of the source.\<close>

lemma plain_ops_bytes:
  "map (\<lambda>x. unat (opcode_as_u8 (fst x))) (plain_ops hst) =
    [0, 15, 13, 5, 4, 12, 8, 11, 45, 44, 46, 118, 41, 42, 43, 146, 16, 156, 17, 157, 148, 18, 19,
     20, 21, 22, 23, 143, 39, 40, 114, 115, 116, 145, 85, 26, 27, 28, 29, 30, 31, 142, 32, 33, 34,
     35, 36, 37, 141, 38, 84, 82, 81, 83, 113, 51, 52, 86, 58, 61, 64, 67, 69, 57, 60, 63, 66, 70,
     72, 74, 76, 78, 80, 153, 71, 73, 75, 77, 79, 124, 125, 126, 127, 128, 154, 171, 172, 173, 59,
     62, 65, 68, 117, 119, 120, 123, 121, 122, 93, 94, 95, 96, 97, 98, 99, 100, 101, 102, 103, 104,
     134, 129, 130, 131, 132, 133, 87, 88, 89, 90, 91, 92, 105, 106, 107, 108, 109, 110, 47, 48,
     49, 50, 138, 137, 135, 136, 53, 54, 55, 56, 139, 140, 151, 152, 111, 112, 149, 150, 3, 14,
     144, 159, 158, 7, 155, 175, 160, 163, 166, 161, 164, 167, 162, 165, 168, 169, 170, 6, 24, 25,
     1, 2, 147, 174]"
  unfolding plain_ops_def by (simp add: opcode_bytes)



text \<open>A list of numbers as the bits of an integer: membership in a long list becomes one equation.\<close>

lemma bit_of_list: "bit (foldr (\<lambda>k m. 2 ^ k OR m) ks (0 :: int)) n \<longleftrightarrow> n \<in> set ks"
  by (induction ks) (auto simp: bit_or_iff bit_exp_iff)

lemma plain_ops_bits: "foldr (\<lambda>k m. 2 ^ k OR m)
    (map (\<lambda>x. unat (opcode_as_u8 (fst x))) (plain_ops hst)) (0 :: int) =
    mask 176 AND NOT (2 ^ 9 OR 2 ^ 10)"
  unfolding plain_ops_bytes by (simp add: mask_eq_exp_minus_1)

lemma bytes_covered:
  "k < 176 \<Longrightarrow> k \<noteq> 9 \<Longrightarrow> k \<noteq> 10 \<Longrightarrow>
    k \<in> (\<lambda>x. unat (opcode_as_u8 (fst x))) ` set (plain_ops hst)"
  unfolding set_map [symmetric] bit_of_list [symmetric] plain_ops_bits bit_and_iff bit_or_iff
    bit_not_iff bit_mask_iff bit_exp_iff
  by simp

lemma plain_ops_complete:
  "opc = Op_Mcall \<or> opc = Op_Mspawn \<or> (\<exists>m. map_of (plain_ops hst) opc = Some m)"
proof (cases "unat (opcode_as_u8 opc) = 9 \<or> unat (opcode_as_u8 opc) = 10")
  case True
  then have "opcode_as_u8 opc = opcode_as_u8 Op_Mcall \<or> opcode_as_u8 opc = opcode_as_u8 Op_Mspawn"
    by (auto simp: Op_Mcall.rep_eq Op_Mspawn.rep_eq word_unat_eq_iff)
  then show ?thesis by (auto simp: opcode_as_u8_inject)
next
  case False
  have "unat (opcode_as_u8 opc) < 176" using opcode_as_u8 [of opc] by (simp add: word_le_nat_alt)
  with False obtain x where "x \<in> set (plain_ops hst)"
    "unat (opcode_as_u8 opc) = unat (opcode_as_u8 (fst x))"
    using bytes_covered [of "unat (opcode_as_u8 opc)" hst] by auto
  then have "opc \<in> fst ` set (plain_ops hst)" by (auto simp: opcode_as_u8_inject word_unat_eq_iff [symmetric])
  then show ?thesis using map_of_eq_None_iff [of "plain_ops hst" opc] by (metis not_Some_eq)
qed


section \<open>The bound of a run\<close>

lemma run_le_raise: "run_le m m' \<Longrightarrow> run_le
    (\<lambda>vm. case m vm of
      None \<Rightarrow> None
    | Some (Inr _, vm) \<Rightarrow> Some (Inr (), vm)
    | Some (Inl (ThreadFault msg), vm) \<Rightarrow>
        if raises_exception msg then Some (raise_exception msg vm) else Some (Inl (ThreadFault msg), vm)
    | Some (Inl e, vm) \<Rightarrow> Some (Inl e, vm))
    (\<lambda>vm. case m' vm of
      None \<Rightarrow> None
    | Some (Inr _, vm) \<Rightarrow> Some (Inr (), vm)
    | Some (Inl (ThreadFault msg), vm) \<Rightarrow>
        if raises_exception msg then Some (raise_exception msg vm) else Some (Inl (ThreadFault msg), vm)
    | Some (Inl e, vm) \<Rightarrow> Some (Inl e, vm))"
  by (rule run_leI) (auto split: option.splits dest: run_leD)

lemma run_le_execute:
  "nested_le nested nested' \<Longrightarrow>
    run_le (execute_instruction nested hst inst) (execute_instruction nested' hst inst)"
  unfolding execute_instruction_def dispatch_or_raise_def
  by (intro run_le_rbind run_le_refl run_le_raise run_le_dispatch)

lemma run_turn_mono:
  assumes "nested_le nested nested'" and "run_turn nested hst q vm = Some r"
  shows "run_turn nested' hst q vm = Some r"
proof (cases "vm_halted vm")
  case True
  with assms(2) show ?thesis by (simp add: run_turn_def)
next
  case running: False
  note le = run_leD [OF run_le_execute [OF assms(1)]]
  show ?thesis
  proof (cases "module_code vm (vm_current_loaded_module vm)")
    case (Inl e)
    with assms(2) running show ?thesis by (simp add: run_turn_def)
  next
    case (Inr code)
    show ?thesis
    proof (cases "length code \<le> vm_pc vm")
      case True
      with assms(2) running Inr show ?thesis by (simp add: run_turn_def)
    next
      case False
      with assms(2) running Inr obtain p
        where "execute_instruction nested hst (code ! vm_pc vm) vm = Some p"
        by (auto simp: run_turn_def split: option.splits)
      with le [OF this] assms(2) running Inr False show ?thesis by (simp add: run_turn_def)
    qed
  qed
qed

lemma run_loop_mono:
  "run_loop hst n q vm = Some r \<Longrightarrow> n \<le> m \<Longrightarrow> run_loop hst m q vm = Some r"
proof (induction n arbitrary: m q vm)
  case 0
  then show ?case by simp
next
  case (Suc n)
  then obtain k where m: "m = Suc k" "n \<le> k" by (cases m) auto
  obtain t vm1 where turn: "run_turn (nested_interpreter_loop hst n) hst q vm = Some (t, vm1)"
    using Suc.prems(1) by (auto split: option.splits)
  have "run_turn (nested_interpreter_loop hst k) hst q vm = Some (t, vm1)"
    by (rule run_turn_mono [OF nested_loop_mono [OF m(2)] turn])
  with turn Suc.prems(1) m(1) Suc.IH [OF _ m(2)] show ?case by (simp split: turn.splits)
qed

text \<open>A program that ends within two bounds ends the same way.\<close>

lemma run_loop_unique:
  assumes "run_loop hst n q vm = Some r" and "run_loop hst m q vm = Some r'"
  shows "r = r'"
proof -
  have "run_loop hst (max n m) q vm = Some r" "run_loop hst (max n m) q vm = Some r'"
    using assms by (auto intro: run_loop_mono)
  then show ?thesis by simp
qed

lemma run_machine_mono:
  "run_machine hst n vm = Some r \<Longrightarrow> n \<le> m \<Longrightarrow> run_machine hst m vm = Some r"
  by (auto simp: run_machine_def split: if_splits intro: run_loop_mono)

lemma execute_mono:
  assumes "execute_with_args hst gc n m args = Some r" and "n \<le> k"
  shows "execute_with_args hst gc k m args = Some r"
  using assms(1) run_machine_mono [OF _ assms(2)]
  by (auto simp: execute_with_args_def Let_def split: if_splits sum.splits)

section \<open>The threads of a machine\<close>

definition thread_ids :: "vm_state \<Rightarrow> i32 multiset" where
  "thread_ids vm = mset (vm_current_pid vm # map st_pid (vm_thread_queue vm))"

lemma pids_at_rest: "map st_pid q = map st_pid (map at_rest q)"
  by (simp add: at_rest_def)

lemma same_context_threads:
  assumes "same_context vm vm'"
  shows "thread_ids vm \<subseteq># thread_ids vm'"
proof -
  have "extends (map at_rest (vm_thread_queue vm)) (map at_rest (vm_thread_queue vm'))"
    and pid: "vm_current_pid vm' = vm_current_pid vm"
    using assms by (simp_all add: same_context_def same_frame_of_reference_def)
  then obtain zs where "map at_rest (vm_thread_queue vm') = map at_rest (vm_thread_queue vm) @ zs"
    by (auto simp: extends_iff)
  then have "map st_pid (vm_thread_queue vm') = map st_pid (vm_thread_queue vm) @ map st_pid zs"
    by (metis map_append pids_at_rest)
  then show ?thesis unfolding thread_ids_def by (simp add: pid)
qed

text \<open>Resuming takes one thread from the queue or leaves the queue as it is.\<close>

lemma resume_cases:
  obtains (ready) waiting t queue where "vm_thread_queue vm = waiting @ t # queue" "st_blocked_on t = None"
    "resume_next_ready_thread vm = (True, load_thread t (vm\<lparr>vm_thread_queue := queue @ waiting\<rparr>))"
  | (deadlock) "\<not> any_ready vm" "resume_next_ready_thread vm = (False, vm\<lparr>vm_halted := True\<rparr>)"
proof (cases "any_ready vm")
  case True
  then show ?thesis
    using ready first_ready resume_next_ready_thread_ready unfolding any_ready_def by metis
next
  case False
  then have "\<forall>t \<in> set (vm_thread_queue vm). st_blocked_on t \<noteq> None" by (auto simp: any_ready_def)
  from deadlock [OF False resume_next_ready_thread_deadlock [OF this]] show ?thesis .
qed

lemma resume_threads:
  assumes "resume_next_ready_thread vm = (True, vm')"
  shows "thread_ids vm' = mset (map st_pid (vm_thread_queue vm))" "vm_halted vm' = False"
    "vm_wait_records vm' = vm_wait_records vm" "vm_blocked_channel vm' = vm_blocked_channel vm"
    "(\<forall>t \<in> set (vm_thread_queue vm). frames_ok (st_frames t)) \<Longrightarrow> stacks_ok vm'"
  using assms by (cases rule: resume_cases [of vm]; auto simp: thread_ids_def load_thread_def stacks_ok_def)+

lemma suspend_resume_threads:
  assumes "any_ready (vm\<lparr>vm_thread_queue := vm_thread_queue vm @ [running_thread b vm]\<rparr>)"
  shows "thread_ids (snd (resume_next_ready_thread
      (take_running vm\<lparr>vm_thread_queue := vm_thread_queue vm @ [running_thread b vm]\<rparr>))) = thread_ids vm"
    and "stacks_ok vm \<Longrightarrow> stacks_ok (snd (resume_next_ready_thread
      (take_running vm\<lparr>vm_thread_queue := vm_thread_queue vm @ [running_thread b vm]\<rparr>)))"
proof -
  let ?resume = "resume_next_ready_thread
      (take_running vm\<lparr>vm_thread_queue := vm_thread_queue vm @ [running_thread b vm]\<rparr>)"
  have "any_ready (take_running vm\<lparr>vm_thread_queue := vm_thread_queue vm @ [running_thread b vm]\<rparr>)"
    using assms by (simp add: any_ready_def)
  then obtain vm' where resume: "?resume = (True, vm')" by (cases rule: resume_cases) auto
  from resume_threads(1) [OF resume]
  show "thread_ids (snd ?resume) = thread_ids vm"
    by (simp add: resume) (simp add: thread_ids_def running_thread_def)
  assume "stacks_ok vm"
  then have "stacks_ok vm'"
    by (intro resume_threads(5) [OF resume]) (auto simp: stacks_ok_def running_thread_def)
  then show "stacks_ok (snd ?resume)" by (simp add: resume)
qed

lemma suspend_and_rotate_threads:
  "thread_ids (suspend_and_rotate vm) = thread_ids vm"
  "stacks_ok vm \<Longrightarrow> stacks_ok (suspend_and_rotate vm)"
proof -
  have "any_ready (vm\<lparr>vm_thread_queue := vm_thread_queue vm @ [running_thread None vm]\<rparr>)"
    by (simp add: any_ready_def running_thread_def)
  note turn = suspend_resume_threads [OF this]
  have "vm_thread_queue (take_running vm) = vm_thread_queue vm" by (simp add: take_running_def)
  with turn show "thread_ids (suspend_and_rotate vm) = thread_ids vm"
    "stacks_ok vm \<Longrightarrow> stacks_ok (suspend_and_rotate vm)"
    by (simp_all add: suspend_and_rotate_def Let_def)
qed

lemma suspend_as_blocked_threads:
  assumes "any_ready vm"
  shows "thread_ids (snd (resume_next_ready_thread (suspend_as_blocked c vm))) = thread_ids vm"
    and "stacks_ok vm \<Longrightarrow> stacks_ok (snd (resume_next_ready_thread (suspend_as_blocked c vm)))"
proof -
  have "any_ready (vm\<lparr>vm_thread_queue := vm_thread_queue vm @ [running_thread (Some c) vm]\<rparr>)"
    using assms by (auto simp: any_ready_def)
  note turn = suspend_resume_threads [OF this]
  have "vm_thread_queue (take_running vm) = vm_thread_queue vm" by (simp add: take_running_def)
  with turn show "thread_ids (snd (resume_next_ready_thread (suspend_as_blocked c vm))) = thread_ids vm"
    "stacks_ok vm \<Longrightarrow> stacks_ok (snd (resume_next_ready_thread (suspend_as_blocked c vm)))"
    by (simp_all add: suspend_as_blocked_def Let_def)
qed

text \<open>Parts of a state that are no part of its threads.\<close>

lemma thread_ids_fields [simp]:
  "thread_ids (vm\<lparr>vm_pc := n\<rparr>) = thread_ids vm" "thread_ids (vm\<lparr>vm_heap := h\<rparr>) = thread_ids vm"
  "thread_ids (vm\<lparr>vm_halted := b\<rparr>) = thread_ids vm" "thread_ids (vm\<lparr>vm_gc_counter := n\<rparr>) = thread_ids vm"
  "thread_ids (vm\<lparr>vm_blocked_channel := c\<rparr>) = thread_ids vm"
  "thread_ids (vm\<lparr>vm_wait_records := ws\<rparr>) = thread_ids vm"
  by (simp_all add: thread_ids_def)

lemma periodic_gc_threads [simp]:
  "thread_ids (periodic_gc vm) = thread_ids vm" "stacks_ok (periodic_gc vm) = stacks_ok vm"
  "vm_halted (periodic_gc vm) = vm_halted vm" "vm_wait_records (periodic_gc vm) = vm_wait_records vm"
  by (simp_all add: periodic_gc_def Let_def collect_garbage_def)

lemma end_turn_threads:
  assumes "end_turn q vm = (q', vm')"
  shows "thread_ids vm' = thread_ids vm" "stacks_ok vm \<Longrightarrow> stacks_ok vm'"
  using assms suspend_and_rotate_threads [of vm] by (auto simp: end_turn_def Let_def split: if_splits)

lemma after_instruction_threads:
  assumes "after_instruction q vm = (r, vm')"
  shows "thread_ids vm' = thread_ids vm" "stacks_ok vm \<Longrightarrow> stacks_ok vm'"
proof -
  have "thread_ids vm' = thread_ids vm \<and> (stacks_ok vm \<longrightarrow> stacks_ok vm')"
  proof (cases "vm_blocked_channel vm")
    case None
    with assms obtain q2 vm2 where turn: "end_turn q (vm\<lparr>vm_pc := vm_next_pc vm\<rparr>) = (q2, vm2)"
      and "vm' = periodic_gc vm2"
      by (auto simp: after_instruction_def split: prod.splits)
    with end_turn_threads [OF turn] show ?thesis by simp
  next
    case (Some c)
    let ?vm = "vm\<lparr>vm_blocked_channel := None\<rparr>"
    have "any_ready ?vm \<longleftrightarrow> any_ready vm" by (simp add: any_ready_def)
    with assms Some suspend_as_blocked_threads [of ?vm c] show ?thesis
      by (auto simp: after_instruction_def Let_def split: if_splits)
  qed
  then show "thread_ids vm' = thread_ids vm" "stacks_ok vm \<Longrightarrow> stacks_ok vm'" by simp_all
qed

section \<open>A turn of the main loop\<close>

lemma execute_keeps_context:
  assumes "nested_ok nested" and "host_ok hst"
  shows "run_keeps same_context (execute_instruction nested hst inst)"
proof -
  have raising: "run_keeps same_context (dispatch_or_raise nested hst inst)"
  proof (rule run_keepsI)
    fix vm r vm'
    assume "dispatch_or_raise nested hst inst vm = Some (r, vm')"
    then obtain r1 vm1 where run: "dispatch nested hst inst vm = Some (r1, vm1)"
      and "vm' = vm1 \<or> (\<exists>msg. raise_exception msg vm1 = (r, vm'))"
      by (auto simp: dispatch_or_raise_def split: option.splits sum.splits exec_error.splits if_splits) blast
    then consider "vm' = vm1" | msg where "raise_exception msg vm1 = (r, vm')" by blast
    then show "same_context vm vm'"
    proof cases
      case 1
      with run run_keepsD [OF dispatch_keeps_context [OF assms]] show ?thesis by simp
    next
      case 2
      have "same_context vm1 vm'" using ctx.kept_byD [OF keeps_raising(2), of vm1 msg] 2 by simp
      with run_keepsD [OF dispatch_keeps_context [OF assms] run] show ?thesis by (rule ctx.rel_trans)
    qed
  qed
  show ?thesis
    unfolding execute_instruction_def
    by (intro ctx_runs.keeps_rbind ctx_runs.keeps_rlift raising) (rule keeping same_context_refl)+
qed

text \<open>A turn that runs an instruction loses no thread.\<close>

lemma run_turn_threads:
  assumes "run_turn nested hst q vm = Some (t, vm')" and "\<not> vm_halted vm"
    and "nested_ok nested" and "host_ok hst"
  shows "thread_ids vm \<subseteq># thread_ids vm'" "stacks_ok vm \<Longrightarrow> stacks_ok vm'"
proof -
  have "thread_ids vm \<subseteq># thread_ids vm' \<and> (stacks_ok vm \<longrightarrow> stacks_ok vm')"
  proof (cases "\<exists>inst r vm1. execute_instruction nested hst inst vm = Some (r, vm1) \<and>
      (vm' = vm1 \<or> (\<exists>r2. after_instruction q vm1 = (r2, vm')))")
    case True
    then obtain inst r vm1 where run: "execute_instruction nested hst inst vm = Some (r, vm1)"
      and nxt: "vm' = vm1 \<or> (\<exists>r2. after_instruction q vm1 = (r2, vm'))"
      by blast
    have "same_context vm vm1" by (rule run_keepsD [OF execute_keeps_context [OF assms(3,4)] run])
    then have "thread_ids vm \<subseteq># thread_ids vm1" "stacks_ok vm \<longrightarrow> stacks_ok vm1"
      by (simp_all add: same_context_threads) (simp add: same_context_def same_frame_of_reference_def)
    with nxt after_instruction_threads show ?thesis by metis
  next
    case False
    with assms(1,2) have "vm' = vm \<or> vm' = vm\<lparr>vm_halted := True\<rparr>"
      unfolding run_turn_def
      by (auto split: sum.splits if_splits option.splits prod.splits)
    then show ?thesis by auto
  qed
  then show "thread_ids vm \<subseteq># thread_ids vm'" "stacks_ok vm \<Longrightarrow> stacks_ok vm'" by simp_all
qed

text \<open>A thread that has halted leaves, with its exit record, and the next one that is ready runs.\<close>

lemma halted_turn_ready:
  assumes "any_ready vm"
  obtains vm' where "halted_turn q vm = (Go_on q, vm')" "\<not> vm_halted vm'"
    "thread_ids vm = add_mset (vm_current_pid vm) (thread_ids vm')"
    "vm_wait_records vm' = vm_wait_records (record_thread_exit [] vm)"
proof -
  let ?vm = "record_thread_exit [] vm"
  have queue: "vm_thread_queue ?vm = vm_thread_queue vm"
    by (simp add: record_thread_exit_def Let_def split: option.split)
  with assms have "any_ready ?vm" "vm_thread_queue ?vm \<noteq> []" by (auto simp: any_ready_def)
  then obtain vm' where resume: "resume_next_ready_thread ?vm = (True, vm')"
    by (cases rule: resume_cases [of ?vm]) auto
  show thesis
  proof (rule that)
    show "halted_turn q vm = (Go_on q, vm')"
      using resume \<open>vm_thread_queue ?vm \<noteq> []\<close> by (simp add: halted_turn_def Let_def)
  qed (use resume_threads [OF resume] queue in \<open>simp_all add: thread_ids_def\<close>)
qed

lemma halted_turn_last:
  "vm_thread_queue vm = [] \<Longrightarrow> halted_turn q vm = (Finished (Inr ()), record_thread_exit [] vm)"
  by (simp add: halted_turn_def Let_def record_thread_exit_def split: option.split)

lemma halted_turn_deadlock:
  assumes "vm_thread_queue vm \<noteq> []" and "\<not> any_ready vm"
  shows "\<exists>vm'. halted_turn q vm = (Finished (Inl deadlock_fault), vm')"
proof -
  let ?vm = "record_thread_exit [] vm"
  have "vm_thread_queue ?vm = vm_thread_queue vm"
    by (simp add: record_thread_exit_def Let_def split: option.split)
  with assms have "vm_thread_queue ?vm \<noteq> []" "\<not> any_ready ?vm" by (simp_all add: any_ready_def)
  then show ?thesis
    by (cases rule: resume_cases [of ?vm]) (auto simp: halted_turn_def Let_def any_ready_def)
qed

lemma record_thread_exit_stacks [simp]: "stacks_ok (record_thread_exit cause vm) = stacks_ok vm"
  by (simp add: record_thread_exit_def Let_def split: option.split)

lemma halted_turn_stacks:
  assumes "stacks_ok vm"
  shows "stacks_ok (snd (halted_turn q vm))"
proof (cases "resume_next_ready_thread (record_thread_exit [] vm)")
  case (Pair b vm')
  have "stacks_ok (record_thread_exit [] vm)" using assms by simp
  then have "stacks_ok vm'"
    using Pair by (cases rule: resume_cases [of "record_thread_exit [] vm"]) 
      (auto simp: stacks_ok_def load_thread_def)
  with assms Pair show ?thesis by (cases b) (simp_all add: halted_turn_def Let_def)
qed

section \<open>A whole run\<close>

lemma run_loop_stacks:
  assumes "host_ok hst"
  shows "run_loop hst n q vm = Some (r, vm') \<Longrightarrow> stacks_ok vm \<Longrightarrow> stacks_ok vm'"
proof (induction n arbitrary: q vm)
  case 0
  then show ?case by simp
next
  case (Suc n)
  then obtain t vm1 where turn: "run_turn (nested_interpreter_loop hst n) hst q vm = Some (t, vm1)"
    by (auto split: option.splits)
  have "stacks_ok vm1"
  proof (cases "vm_halted vm")
    case True
    with turn halted_turn_stacks [OF Suc.prems(2), of q] show ?thesis by (simp add: run_turn_def)
  next
    case False
    show ?thesis
      by (rule run_turn_threads(2) [OF turn False nested_loop_ok [OF assms] assms Suc.prems(2)])
  qed
  with turn Suc show ?case by (auto split: turn.splits)
qed

lemma with_args_stacks:
  assumes "with_args gc m args = Inr vm" and "FRAME_HEADER_SIZE + entry_frame_size m \<le> MAX_FRAME_STACK_SIZE"
  shows "stacks_ok vm"
proof -
  have push: "frames_ok (push_entry (entry_frame_size m) (- 1) frame_stack_new)"
    by (rule frames_ok_push_entry [OF assms(2)])
  then have "frames_ok (fst (init_entry_frame m args fs h))" if "frames_ok fs" for fs h
    using that by (auto simp: init_entry_frame_def Let_def frames_ok_def split: prod.split)
  with push assms(1) show ?thesis
    by (auto simp: with_args_def Let_def stacks_ok_def split: prod.splits if_splits)
      (metis fst_conv)+
qed

lemma run_machine_stacks:
  "host_ok hst \<Longrightarrow> run_machine hst n vm = Some (r, vm') \<Longrightarrow> stacks_ok vm \<Longrightarrow> stacks_ok vm'"
  by (auto simp: run_machine_def split: if_splits dest: run_loop_stacks)

section \<open>The built-in modules of the machine\<close>

lemma keyring_digest_keeps: "keeps_context (keyring_digest hash kind)"
  unfolding keyring_digest_def
  by (rule ctx.kept_by_updates)
    (auto simp: Let_def keeping same_context_refl split: prod.split intro!: same_context_frame_data)

lemma keyring_nil_keeps: "keeps_context keyring_return_nil" "keeps_context keyring_return_zero"
  unfolding keyring_return_nil_def keyring_return_zero_def
  by (rule ctx.kept_by_updates, rule same_context_frame_data, rule same_context_refl, simp)+

lemma register_all: "foldl (\<lambda>reg m. reg @ [m]) reg ms = reg @ ms"
  by (induction ms arbitrary: reg) simp_all

lemma standard_host_ok:
  assumes "hs_registry hst = standard_registry natives hash"
    and "\<forall>m \<in> set natives. \<forall>f \<in> set (bm_funcs m). keeps_context (bf_handler f)"
  shows "host_ok hst"
  using assms keyring_digest_keeps keyring_nil_keeps
  by (auto simp: host_ok_def standard_registry_def register_all register_def registry_new_def
      crypt_module_def keyring_module_def digest_funcs_def builtin_def)

section \<open>Where the machine does not do what it means to\<close>

text \<open>
  The main loop looks for a thread that has halted at the start of a turn only. A thread that halts
  with the last instruction of its quantum while another is queued is put back into the queue as if
  it had not: it goes on behind its exit, and no exit is recorded.
\<close>

lemma exit_at_end_of_quantum_lost:
  assumes "vm_halted vm" and "vm_blocked_channel vm = None"
    and "THREAD_QUANTUM \<le> q + 1" and "vm_thread_queue vm \<noteq> []"
  obtains vm' where "after_instruction q vm = (Inr 0, vm')" "\<not> vm_halted vm'"
    "thread_ids vm' = thread_ids vm" "vm_wait_records vm' = vm_wait_records vm"
proof -
  let ?vm = "vm\<lparr>vm_pc := vm_next_pc vm\<rparr>"
  let ?queued = "take_running ?vm\<lparr>vm_thread_queue := vm_thread_queue vm @ [running_thread None ?vm]\<rparr>"
  have rotate: "suspend_and_rotate ?vm = snd (resume_next_ready_thread ?queued)"
    by (simp add: suspend_and_rotate_def Let_def) (simp add: take_running_def)
  have "any_ready ?queued" by (simp add: any_ready_def running_thread_def)
  then obtain vm1 where resume: "resume_next_ready_thread ?queued = (True, vm1)"
    by (cases rule: resume_cases [of ?queued]) auto
  have "vm_wait_records ?queued = vm_wait_records vm" by (simp add: take_running_def)
  then have "\<not> vm_halted (suspend_and_rotate ?vm)"
    "vm_wait_records (suspend_and_rotate ?vm) = vm_wait_records vm"
    using resume_threads [OF resume] unfolding rotate resume by simp_all
  moreover have "after_instruction q vm = (Inr 0, periodic_gc (suspend_and_rotate ?vm))"
    using assms by (simp add: after_instruction_def end_turn_def Let_def)
  ultimately show thesis using that suspend_and_rotate_threads(1) [of ?vm] by simp
qed

text \<open>
  A module whose call is still open has its data taken out of the table of loaded modules. A call
  back into it from another module finds an empty buffer there, and runs with that.
\<close>

lemma entered_data:
  assumes "enter_module (Some a) slot1 vm = (Inr (), vm1)"
  shows "\<exists>lm. nth_opt (vm_loaded_modules vm) a = Some lm \<and> vm_mp vm1 = lm_mp lm \<and>
    vm_loaded_modules vm1 = (vm_loaded_modules vm)[a := lm\<lparr>lm_mp := []\<rparr>]"
  using assms by (auto simp: module_swap_defs Let_def split: option.splits)

lemma shape_nth:
  assumes "extends (loaded_shape lms) (loaded_shape lms')" and "i < length lms"
  shows "i < length lms' \<and> length (lm_mp (lms' ! i)) = length (lm_mp (lms ! i))"
proof -
  obtain zs where zs: "loaded_shape lms' = loaded_shape lms @ zs" using assms(1) by (auto simp: extends_iff)
  then have "length lms' = length lms + length zs" by (metis length_append length_loaded_shape)
  moreover from this have "loaded_shape lms' ! i = loaded_shape lms ! i"
    using zs assms(2) by (simp add: nth_append)
  ultimately show ?thesis using assms(2) by (simp add: loaded_shape_nth)
qed

lemma reentrant_call_has_no_data:
  assumes "enter_module (Some a) s1 vm = (Inr (), vm1)" and "same_frame_of_reference vm1 vm1'"
    and "enter_module (Some b) s2 vm1' = (Inr (), vm2)" and "same_frame_of_reference vm2 vm2'"
    and "enter_module (Some a) s3 vm2' = (Inr (), vm3)" and "a \<noteq> b"
  shows "vm_mp vm3 = []"
proof -
  obtain lm where lm: "nth_opt (vm_loaded_modules vm) a = Some lm"
    and vm1: "vm_loaded_modules vm1 = (vm_loaded_modules vm)[a := lm\<lparr>lm_mp := []\<rparr>]"
    using entered_data [OF assms(1)] by auto
  have a: "a < length (vm_loaded_modules vm)" using lm by (simp add: nth_opt_def split: if_splits)
  have "a < length (vm_loaded_modules vm1') \<and> length (lm_mp (vm_loaded_modules vm1' ! a)) = 0"
    using shape_nth [of "vm_loaded_modules vm1" "vm_loaded_modules vm1'" a] assms(2) a
    by (simp add: vm1 same_frame_of_reference_def)
  moreover obtain lmb where "vm_loaded_modules vm2 = (vm_loaded_modules vm1')[b := lmb\<lparr>lm_mp := []\<rparr>]"
    using entered_data [OF assms(3)] by auto
  ultimately have "a < length (vm_loaded_modules vm2) \<and> length (lm_mp (vm_loaded_modules vm2 ! a)) = 0"
    using assms(6) by simp
  then have "a < length (vm_loaded_modules vm2') \<and> length (lm_mp (vm_loaded_modules vm2' ! a)) = 0"
    using shape_nth [of "vm_loaded_modules vm2" "vm_loaded_modules vm2'" a] assms(4)
    by (simp add: same_frame_of_reference_def)
  then show ?thesis using entered_data [OF assms(5)] by (auto simp: nth_opt_def split: if_splits)
qed

text \<open>
  The main loop turns a fault of an instruction, such as the use of nil, into an exception that a
  handler can catch. A nested loop ends with the fault, whatever handlers the callee has.
\<close>

lemma nested_fault_not_raised:
  assumes "module_code vm idx = Inr code" and "\<not> vm_halted vm" and "vm_pc vm < length code"
    and "resolve_operands (code ! vm_pc vm) vm = (Inr (), vm1)"
    and "dispatch (nested_interpreter_loop hst n) hst (code ! vm_pc vm)
      (vm1\<lparr>vm_next_pc := vm_pc vm1 + 1\<rparr>) = Some (Inl (ThreadFault msg), vm2)"
    and "raises_exception msg"
  shows "nested_interpreter_loop hst (Suc n) idx base vm = Some (Inl (ThreadFault msg), vm2)"
    "execute_instruction (nested_interpreter_loop hst n) hst (code ! vm_pc vm) vm =
      Some (raise_exception msg vm2)"
  using assms by (simp_all add: nested_turn_def execute_instruction_def dispatch_or_raise_def
      rbind_def rlift_def updates_def)

section \<open>A machine to try things on\<close>

text \<open>A host without native modules, whose digests are empty.\<close>

definition plain_host :: host where
  "plain_host = \<lparr>hs_registry = standard_registry [] (\<lambda>kind bytes. []), hs_root = rstr ''/'', hs_probe = None,
    hs_read_file = (\<lambda>path. None), hs_nan = (\<lambda>op a b. a)\<rparr>"

lemma plain_host_ok: "host_ok plain_host"
  by (rule standard_host_ok [of plain_host "[]" "\<lambda>kind bytes. []"]) (simp_all add: plain_host_def)

definition unused_instruction :: "opcode \<Rightarrow> instruction" where
  "unused_instruction opc = \<lparr>i_opcode = opc, i_source = operand_UNUSED, i_middle = middle_UNUSED,
    i_destination = operand_UNUSED\<rparr>"

lemma dispatch_exit: "dispatch nested hst (unused_instruction Op_Exit) = rlift op_exit"
proof -
  have "Op_Exit \<noteq> Op_Mcall" "Op_Exit \<noteq> Op_Mspawn" "Op_Nop \<noteq> Op_Exit"
    by (simp_all add: opcode_as_u8_inject [symmetric] opcode_bytes)
  then show ?thesis by (simp add: dispatch_def unused_instruction_def plain_ops_def)
qed

end
