(* ===== verification/InstructionProps.thy ===== *)
theory InstructionProps
  imports Instructions
begin

text \<open>
  What the instructions of a thread compute, for every operand: integers and reals, branches, case
  tables, lists, exceptions, channels, and the conversions to and from text.
\<close>

section \<open>A machine to try things on\<close>

text \<open>One frame of 16 bytes, 32 bytes of data, no heap objects, and a module without code.\<close>

definition blank_module :: dis_module where
  "blank_module = \<lparr>m_header = \<lparr>h_magic = XMAGIC, h_signature = [], h_runtime_flags = 0,
      h_stack_extent = 0, h_code_size = 0, h_data_size = 32, h_type_size = 0, h_export_size = 0,
      h_entry_pc = 0, h_entry_type = 0\<rparr>,
    m_code = [], m_types = [], m_data = [], m_name = rstr ''blank'', m_exports = [], m_imports = [],
    m_handlers = []\<rparr>"

definition blank_vm :: vm_state where
  "blank_vm = \<lparr>vm_module = blank_module, vm_mp = replicate 32 0,
    vm_frames = push_entry 16 (- 1) frame_stack_new, vm_heap = heap_new, vm_loaded_modules = [],
    vm_pc = 0, vm_next_pc = 1, vm_halted = False, vm_gc_enabled = True, vm_gc_counter = 0,
    vm_current_loaded_module = None, vm_src = AT_Immediate, vm_mid = AT_Immediate,
    vm_dst = AT_Mp 0, vm_imm_src = 0, vm_imm_mid = 0, vm_imm_dst = 0, vm_last_error = [],
    vm_caller_mp_stack = [], vm_heap_refs = [], vm_blocked_channel = None, vm_unwind_floor = 0,
    vm_thread_queue = [], vm_current_pid = 1, vm_next_pid = 2, vm_wait_records = []\<rparr>"

lemma blank_frames: "fs_current_base (vm_frames blank_vm) = 0" "length (fs_data (vm_frames blank_vm)) = 32"
    "frames_ok (vm_frames blank_vm)"
  by (simp_all add: blank_vm_def push_entry_def frame_stack_new_def Let_def FRAME_HEADER_SIZE_def usize_limit_def
      frames_ok_def MAX_FRAME_STACK_SIZE_def MP_BASE_def)

text \<open>Two immediate operands and a destination in the module data.\<close>

definition with_operands :: "i32 \<Rightarrow> i32 \<Rightarrow> vm_state" where
  "with_operands s m = blank_vm\<lparr>vm_imm_src := s, vm_imm_mid := m\<rparr>"

lemma with_operands_fields [simp]:
  "vm_src (with_operands s m) = AT_Immediate" "vm_mid (with_operands s m) = AT_Immediate"
  "vm_dst (with_operands s m) = AT_Mp 0" "vm_imm_src (with_operands s m) = s"
  "vm_imm_mid (with_operands s m) = m" "vm_mp (with_operands s m) = replicate 32 0"
  "vm_pc (with_operands s m) = 0" "vm_frames (with_operands s m) = vm_frames blank_vm"
  by (simp_all add: with_operands_def blank_vm_def)

lemma with_operands_first:
  "first read_word_at (with_operands s m) = Inr s" "second read_word_at (with_operands s m) = Inr m"
  "holds 4 (with_operands s m) (AT_Mp 0)"
  by (simp_all add: first_def second_def read_word_at_def holds_def in_buf_iff usize_limit_def)

section \<open>Integers\<close>

text \<open>
  C18. The integer instructions compute what they should on the integers their operands stand for,
  words and bigs signed and bytes unsigned, with the result wrapped to the width of the destination:
  sums, differences, products, the bitwise operations, and the shifts, whose amount is taken modulo
  the width. The result is stored where the destination has room for it, and nothing but memory
  changes.
\<close>

theorem integer_results:
  "((op, f) \<in> set word_results \<and> first read_word_at vm = Inr s \<and> second read_word_at vm = Inr m \<and>
      holds 4 vm (vm_dst vm) \<longrightarrow>
    (\<exists>vm'. op vm = (Inr (), vm') \<and> only_memory vm vm' \<and>
      read_word_at vm' (vm_dst vm) imm = Inr (word_of_int (f (sint s) (sint m))))) \<and>
   ((op, f) \<in> set byte_results \<and> first read_byte_at vm = Inr b \<and> second read_byte_at vm = Inr c \<and>
      holds 1 vm (vm_dst vm) \<longrightarrow>
    (\<exists>vm'. op vm = (Inr (), vm') \<and> only_memory vm vm' \<and>
      read_byte_at vm' (vm_dst vm) imm = Inr (word_of_int (f (uint b) (uint c))))) \<and>
   ((op, f) \<in> set big_results \<and> first read_big_at vm = Inr x \<and> second read_big_at vm = Inr y \<and>
      holds 8 vm (vm_dst vm) \<longrightarrow>
    (\<exists>vm'. op vm = (Inr (), vm') \<and> only_memory vm vm' \<and>
      read_big_at vm' (vm_dst vm) imm = Inr (word_of_int (f (sint x) (sint y))))) \<and>
   ((op, f) \<in> set big_word_results \<and> first read_word_at vm = Inr s \<and> second read_big_at vm = Inr y \<and>
      holds 8 vm (vm_dst vm) \<longrightarrow>
    (\<exists>vm'. op vm = (Inr (), vm') \<and> only_memory vm vm' \<and>
      read_big_at vm' (vm_dst vm) imm = Inr (word_of_int (f (sint s) (sint y)))))"
  using word_target.computes_stores [OF computes_word_results, of op f vm s m imm]
    byte_target.computes_stores [OF computes_byte_results, of op f vm b c imm]
    big_target.computes_stores [OF computes_big_results, of op f vm x y imm]
    big_target.computes_stores [OF computes_big_word_results, of op f vm s y imm]
  by blast

theorem integer_results_witness:
  "\<exists>vm'. op_subw (with_operands 1 (- 2147483648)) = (Inr (), vm') \<and>
    read_word_at vm' (AT_Mp 0) 0 = Inr 2147483647"
proof -
  have "(op_subw, \<lambda>s m. m - s) \<in> set word_results" by (simp add: word_results_def)
  with integer_results [of op_subw "\<lambda>s m. m - s" "with_operands 1 (- 2147483648)" 1 "- 2147483648"
      0 0 0 0 0] with_operands_first
  show ?thesis by auto
qed

text \<open>
  C19. Division and remainder truncate towards zero and wrap, so the least integer by minus one
  gives the least integer; a divisor that is zero raises the exception \<open>zero divide\<close> and writes
  nothing. The divisor is the source operand for words, bigs and bytes alike.
\<close>

theorem division_or_exception:
  assumes "first read_word_at vm = Inr s" and "second read_word_at vm = Inr m"
  shows "op_divw vm = (if s = 0 then raise_exception ZERO_DIVIDE vm
      else write_word_at (vm_dst vm) (word_of_int (sint m sdiv sint s)) vm) \<and>
    op_modw vm = (if s = 0 then raise_exception ZERO_DIVIDE vm
      else write_word_at (vm_dst vm) (word_of_int (sint m smod sint s)) vm) \<and>
    (first read_big_at vm = Inr x \<and> second read_big_at vm = Inr y \<longrightarrow>
      op_divl vm = (if x = 0 then raise_exception ZERO_DIVIDE vm
        else write_big_at (vm_dst vm) (word_of_int (sint y sdiv sint x)) vm) \<and>
      op_modl vm = (if x = 0 then raise_exception ZERO_DIVIDE vm
        else write_big_at (vm_dst vm) (word_of_int (sint y smod sint x)) vm)) \<and>
    (first read_byte_at vm = Inr b \<and> second read_byte_at vm = Inr c \<longrightarrow>
      op_divb vm = (if b = 0 then raise_exception ZERO_DIVIDE vm
        else write_byte_at (vm_dst vm) (c div b) vm) \<and>
      op_modb vm = (if b = 0 then raise_exception ZERO_DIVIDE vm
        else write_byte_at (vm_dst vm) (c mod b) vm))"
  using division_result(1,2) [OF assms] division_result(3,4) [of vm x y] division_result(5,6) [of vm b c]
  by blast

theorem division_or_exception_witness:
  "op_divw (with_operands 0 7) = raise_exception ZERO_DIVIDE (with_operands 0 7) \<and>
    op_divw (with_operands 2 (- 7)) = write_word_at (AT_Mp 0) (- 3) (with_operands 2 (- 7))"
  using division_or_exception [OF with_operands_first(1,2) [of 0 7], of 0 0 0 0]
    division_or_exception [OF with_operands_first(1,2) [of 2 "- 7"], of 0 0 0 0]
  by (simp add: signed_divide_int_def)

text \<open>
  C20. The exponentiation loop, which squares and multiplies, computes the power: for an exponent
  that is not negative the wrapped power of the base, for a negative one the integer inverse of the
  wrapped power, and zero where that is zero. It ends for every exponent, the least one included.
\<close>

theorem exponentiation_is_the_power:
  "computes op_expw read_word_at read_word_at write_word_at (\<lambda>n x. exp_spec (sint n) (sint x)) \<and>
   computes op_expl read_word_at read_big_at write_big_at (\<lambda>n x. exp_spec (sint n) (sint x)) \<and>
   exp_loop e (x :: 'a::len word) 1 = x ^ unat e"
  using computes_expw computes_expl exp_loop_power [of e x 1] by simp

section \<open>Control\<close>

text \<open>
  C21. A branch is taken exactly when its relation holds of what its operands stand for: signed
  integers for words and bigs, unsigned ones for bytes, the numbers for reals (with a NaN only the
  branch on inequality is taken), and characters in order for strings, although the code compares
  bytes. Taken it sets the next position, and it changes nothing else.
\<close>

theorem branches_test_their_relation:
  "((op, P) \<in> set word_branches \<longrightarrow> branches op read_word_at (\<lambda>s m. P (sint s) (sint m))) \<and>
   ((op, P) \<in> set big_branches \<longrightarrow> branches op read_big_at (\<lambda>s m. P (sint s) (sint m))) \<and>
   ((op, P) \<in> set byte_branches \<longrightarrow> branches op read_byte_at (\<lambda>s m. P (uint s) (uint m))) \<and>
   ((op, P) \<in> set real_branches \<longrightarrow> branches op read_real_at (real_relation P)) \<and>
   ((op, Q) \<in> set string_branches \<longrightarrow> (\<exists>R. branches op read_string_at R \<and> agree_on_strings R Q))"
  using branches_word_relation branches_big_relation branches_byte_relation branches_real_relation
    branches_string_relation by blast

theorem branches_test_their_relation_witness:
  "op_bltw (with_operands (- 1) 1\<lparr>vm_dst := AT_Immediate, vm_imm_dst := 9\<rparr>) =
    (Inr (), with_operands (- 1) 1\<lparr>vm_dst := AT_Immediate, vm_imm_dst := 9, vm_next_pc := 9\<rparr>)"
proof -
  have "(op_bltw, (<)) \<in> set word_branches" by (simp add: word_branches_def)
  then have "branches op_bltw read_word_at (\<lambda>s m. sint s < sint m)"
    using branches_test_their_relation by blast
  then show ?thesis
    by (simp add: branches_def read_word_at_def i32_as_usize_def)
qed

text \<open>
  C22. The three case instructions search their table by bisection; on a table that is in order they
  go where looking at every entry in turn would: to the target of the first entry whose range holds
  the value, and to the default without one.
\<close>

theorem case_search_is_a_scan:
  assumes "read_word_at vm (vm_dst vm) (vm_imm_dst vm) = Inr cnt" and "0 \<le> sint cnt"
  shows "(read_word_at vm (vm_src vm) (vm_imm_src vm) = Inr w \<and>
      casew_in_order (vm, vm_dst vm, w) (nat (sint cnt)) \<longrightarrow>
    op_casew vm = (Inr (), vm\<lparr>vm_next_pc := i32_as_usize
      (unwrap_or (table_at vm (vm_dst vm) (1 + nat (sint cnt) * 3))
        (case_scan (\<lambda>k. casew_probe vm (vm_dst vm) w (1 + k * 3)) [0..<nat (sint cnt)]))\<rparr>)) \<and>
   (read_big_at vm (vm_src vm) (vm_imm_src vm) = Inr b \<and>
      casel_in_order (vm, vm_dst vm, b) (nat (sint cnt)) \<longrightarrow>
    op_casel vm = (Inr (), vm\<lparr>vm_next_pc := i32_as_usize
      (unwrap_or (table_word vm (vm_dst vm) (8 + nat (sint cnt) * 24))
        (case_scan (\<lambda>k. casel_probe vm (vm_dst vm) b (8 + k * 24)) [0..<nat (sint cnt)]))\<rparr>)) \<and>
   (read_word_at vm (vm_src vm) (vm_imm_src vm) = Inr w \<and>
      casec_in_order (vm, vm_dst vm, table_string vm w) (nat (sint cnt)) \<longrightarrow>
    op_casec vm = (Inr (), vm\<lparr>vm_next_pc := i32_as_usize
      (unwrap_or (table_at vm (vm_dst vm) (1 + nat (sint cnt) * 3))
        (case_scan (\<lambda>k. casec_probe vm (vm_dst vm) (table_string vm w) (1 + k * 3)) [0..<nat (sint cnt)]))\<rparr>))"
  using op_casew_scan [OF _ assms, of w] op_casel_scan [OF _ assms, of b] op_casec_scan [OF _ refl assms, of w]
  by blast

definition case_vm :: vm_state where
  "case_vm = (with_operands 7 0)\<lparr>vm_mp := [1, 0, 0, 0, 5, 0, 0, 0, 10, 0, 0, 0, 77, 0, 0, 0, 99, 0, 0, 0]\<rparr>"

theorem case_search_is_a_scan_witness:
  "op_casew case_vm = (Inr (), case_vm\<lparr>vm_next_pc := 77\<rparr>)"
proof -
  note bytes = case_vm_def mem_read_word_def in_buf_def checked_add_def usize_limit_def
    from_ne_bytes32_def subrange_def word_of_be_def table_at_def table_word_def wrap_usize_def
  have cnt: "read_word_at case_vm (vm_dst case_vm) (vm_imm_dst case_vm) = Inr 1"
    by (simp add: bytes read_word_at_def)
  have "table_at case_vm (AT_Mp 0) 1 = 5" "table_at case_vm (AT_Mp 0) 2 = 10" "table_at case_vm (AT_Mp 0) 3 = 77"
    by (simp_all add: bytes)
  note at = this this(1) [unfolded One_nat_def] this(2) [unfolded numeral_2_eq_2]
  have dst: "vm_dst case_vm = AT_Mp 0" by (simp add: case_vm_def)
  have "casew_in_order (case_vm, vm_dst case_vm, 7) (nat (sint (1 :: i32)))"
    by (simp add: casew_in_order_def at dst wrap_usize_def usize_limit_def)
  moreover have "read_word_at case_vm (vm_src case_vm) (vm_imm_src case_vm) = Inr 7"
    by (simp add: case_vm_def read_word_at_def)
  moreover have "casew_probe case_vm (AT_Mp 0) 7 1 = Hit 77"
    by (simp add: casew_probe_def at wrap_usize_def usize_limit_def)
  ultimately show ?thesis
    using case_search_is_a_scan [OF cnt, of 7 0] by (simp add: dst i32_as_usize_def)
qed

section \<open>Memory, lists and module data\<close>

text \<open>
  C23. Every kind of destination keeps the contract of a memory cell, for words, bytes, bigs and
  reals: reading never fails, what is written to a target that has room for it (in the frame, in a
  data area, in an array or a record of the heap) is read back from it, an immediate is refused
  with an error, and a write changes the contents of memory only: no buffer changes its size, and
  the heap stays consistent with its reference counts.
\<close>

theorem targets_are_memory_cells:
  "(\<exists>v. read_word_at vm t imm = Inr v) \<and> (\<exists>v. read_byte_at vm t imm = Inr v) \<and>
   (\<exists>v. read_big_at vm t imm = Inr v) \<and> (\<exists>v. read_real_at vm t imm = Inr v) \<and>
   (write_word_at t w vm = (res, vm') \<longrightarrow>
     (holds 4 vm t \<longrightarrow> res = Inr () \<and> read_word_at vm' t imm = Inr w) \<and>
     (t = AT_Immediate \<longrightarrow> res = Inl (ExecOther (rstr ''cannot write to immediate'')) \<and> vm' = vm) \<and>
     only_memory vm vm' \<and> (heap_ok (vm_heap vm) \<longrightarrow> heap_ok (vm_heap vm')) \<and>
     (rc_ok ext (hp_objects (vm_heap vm)) \<longrightarrow> rc_ok ext (hp_objects (vm_heap vm')))) \<and>
   (write_byte_at t b vm = (res, vm') \<longrightarrow> only_memory vm vm' \<and>
     (holds 1 vm t \<longrightarrow> res = Inr () \<and> read_byte_at vm' t imm = Inr b)) \<and>
   (write_big_at t d vm = (res, vm') \<longrightarrow> only_memory vm vm' \<and>
     (holds 8 vm t \<longrightarrow> res = Inr () \<and> read_big_at vm' t imm = Inr d)) \<and>
   (write_real_at t d vm = (res, vm') \<longrightarrow> only_memory vm vm' \<and>
     (holds 8 vm t \<longrightarrow> res = Inr () \<and> read_real_at vm' t imm = Inr d))"
proof -
  have word: "(holds 4 vm t \<longrightarrow> res = Inr () \<and> read_word_at vm' t imm = Inr w) \<and>
     (t = AT_Immediate \<longrightarrow> res = Inl (ExecOther (rstr ''cannot write to immediate'')) \<and> vm' = vm) \<and>
     only_memory vm vm' \<and> (heap_ok (vm_heap vm) \<longrightarrow> heap_ok (vm_heap vm')) \<and>
     (rc_ok ext (hp_objects (vm_heap vm)) \<longrightarrow> rc_ok ext (hp_objects (vm_heap vm')))"
    if "write_word_at t w vm = (res, vm')"
    using word_target.wr_holds [OF that] word_target.wr_only_memory [OF that] word_target.wr_heap_ok [OF that]
      word_target.wr_rc_ok [OF that] word_target.wr_immediate [of w vm] that by auto
  have byte: "only_memory vm vm' \<and> (holds 1 vm t \<longrightarrow> res = Inr () \<and> read_byte_at vm' t imm = Inr b)"
    if "write_byte_at t b vm = (res, vm')"
    using byte_target.wr_holds [OF that] byte_target.wr_only_memory [OF that] by blast
  have big: "only_memory vm vm' \<and> (holds 8 vm t \<longrightarrow> res = Inr () \<and> read_big_at vm' t imm = Inr d)"
    if "write_big_at t d vm = (res, vm')"
    using big_target.wr_holds [OF that] big_target.wr_only_memory [OF that] by blast
  have "only_memory vm vm' \<and> (holds 8 vm t \<longrightarrow> res = Inr () \<and> read_real_at vm' t imm = Inr d)"
    if "write_real_at t d vm = (res, vm')"
    using real_target.wr_holds [OF that] real_target.wr_only_memory [OF that] by blast
  with word byte big show ?thesis
    using word_target.rd_total byte_target.rd_total big_target.rd_total real_target.rd_total by blast
qed

theorem targets_are_memory_cells_witness:
  "\<exists>vm'. write_word_at (AT_Mp 8) (- 5) blank_vm = (Inr (), vm') \<and> read_word_at vm' (AT_Mp 8) 0 = Inr (- 5)"
proof -
  have "holds 4 blank_vm (AT_Mp 8)" by (simp add: blank_vm_def holds_def in_buf_iff usize_limit_def)
  moreover obtain res vm' where "write_word_at (AT_Mp 8) (- 5) blank_vm = (res, vm')" by fastforce
  ultimately show ?thesis using targets_are_memory_cells by metis
qed

text \<open>
  \<open>cons\<close> puts its operand in front of the list: on a destination that holds the list of the
  given heads (and whose first cell, if there is one, is counted), the list it leaves there has the
  new head and then the old ones, \<open>lenl\<close> counts one more of them, and the old list is still there.
\<close>

theorem cons_extends_the_list:
  assumes "heap_ok (vm_heap vm)" and "unat (hp_next_id (vm_heap vm)) < 4294967295"
    and "outside_heap (vm_dst vm)" and "holds 4 vm (vm_dst vm)"
    and "read_word_at vm (vm_dst vm) (vm_imm_dst vm) = Inr old"
    and "heap_list (vm_heap vm) old heads" and "read_cons_head vm n = Inr head"
    and "old = NIL \<or> (\<exists>obj. hp_objects (vm_heap vm) old = Some obj \<and> ho_ref_count obj \<noteq> 0 \<and>
      unat (ho_ref_count obj) < 4294967295)"
  shows "\<exists>vm' new. cons_bytes n vm = (Inr (), vm') \<and> heap_ok (vm_heap vm') \<and>
    read_word_at vm' (vm_dst vm) (vm_imm_dst vm) = Inr new \<and> heap_list (vm_heap vm') new (head # heads) \<and>
    heap_list (vm_heap vm') old heads \<and> list_length (vm_heap vm') new = Some (Inr (Suc (length heads)))"
proof -
  let ?h = "vm_heap vm" and ?h' = "add_cell head old (vm_heap vm)"
  note fresh = heap_ok_fresh [OF assms(1)]
  have new: "hp_next_id ?h \<noteq> NIL" using assms(1) by (auto simp: heap_ok_def HEAP_ID_BASE_def NIL_def)
  have get: "heap_get ?h (hp_next_id ?h) = None" by (simp add: heap_get_def fresh)
  have "data_ok (hp_next_id ?h) (HD_List head old)"
    using assms(1,8) new by (auto simp: data_ok_def heap_ok_def objects_ok_def NIL_def)
  then have ok: "heap_ok ?h'"
    unfolding add_cell_def heap_alloc_def by (rule heap_ok_alloc [OF assms(1) _ assms(2)])
  have "heap_list ?h' (hp_next_id ?h) (head # heads)" "heap_list ?h' old heads"
    using heap_list_cons [OF assms(6) get new] heap_list_add_cell [OF assms(6) get] by blast+
  with list_length_heads [OF this(1) ok] ok cons_bytes_result [OF assms(3,4,5,7,8) fresh]
  show ?thesis by force
qed

theorem cons_extends_the_list_witness:
  "\<exists>vm' new. cons_bytes 4 (with_operands 42 0) = (Inr (), vm') \<and>
    heap_list (vm_heap vm') new [[42, 0, 0, 0]]"
proof -
  have heap: "vm_heap (with_operands 42 0) = heap_new" by (simp add: with_operands_def blank_vm_def)
  have "read_word_at (with_operands 42 0) (AT_Mp 0) (vm_imm_dst (with_operands 42 0)) = Inr NIL"
    by (simp add: read_word_at_def mem_read_word_def in_buf_def checked_add_def usize_limit_def
        from_ne_bytes32_def subrange_def word_of_be_def NIL_def)
  moreover have "read_cons_head (with_operands 42 0) 4 = Inr [42, 0, 0, 0]"
    by (simp add: read_cons_head_def Let_def mem_write_word_def in_buf_def checked_add_def usize_limit_def
        to_ne_bytes32_def to_be_bytes32_def copy_at_def)
  moreover have "unat (hp_next_id heap_new) < 4294967295" by (simp add: heap_new_def HEAP_ID_BASE_def)
  ultimately have "\<exists>vm' new. cons_bytes 4 (with_operands 42 0) = (Inr (), vm') \<and>
      heap_ok (vm_heap vm') \<and> read_word_at vm' (AT_Mp 0) (vm_imm_dst (with_operands 42 0)) = Inr new \<and>
      heap_list (vm_heap vm') new [[42, 0, 0, 0]] \<and> heap_list (vm_heap vm') NIL [] \<and>
      list_length (vm_heap vm') new = Some (Inr (Suc (length ([] :: u8 list list))))"
    using cons_extends_the_list [of "with_operands 42 0" NIL "[]" 4 "[42, 0, 0, 0]",
        unfolded heap with_operands_fields] heap_ok_new with_operands_first(3) [of 42 0] heap_list_nil
    unfolding outside_heap_def by blast
  then show ?thesis by blast
qed



section \<open>Exceptions and channels\<close>

text \<open>
  C26. Raising an exception looks along the chain of frames, from the running one through its
  callers down to the limit of the current cross-module call, for the first whose position has a
  handler for the message. Without one the thread faults with the message, and the machine is as it
  was. With one, on frames that do not overlap, the stack is cut back to that frame and execution
  goes on at the handler; the frames below, and the heap, are untouched, and the exception value is
  in its slot where the frame has room for it.
\<close>

theorem exceptions_reach_the_first_handler:
  assumes "chain = frame_chain vm (of_nat (vm_pc vm)) (fs_current_base (vm_frames vm))"
  shows "(catching vm msg chain = None \<longrightarrow>
      raise_exception_with_value msg val vm = (Inl (ThreadFault (rstr ''unhandled exception: '' @ msg)), vm)) \<and>
    (catching vm msg chain = Some (target, exc_off, base) \<and>
      frame_link vm (fs_current_base (vm_frames vm)) base \<and> frames_ok (vm_frames vm) \<and>
      current_data_offset (vm_frames vm) \<le> length (fs_data (vm_frames vm)) \<longrightarrow>
      (\<exists>vm'. raise_exception_with_value msg val vm = (Inr (), vm') \<and> vm_next_pc vm' = target \<and>
        fs_current_base (vm_frames vm') = base \<and> frames_ok (vm_frames vm') \<and>
        vm_heap vm' = vm_heap vm \<and> vm_mp vm' = vm_mp vm \<and>
        (let n = length (fs_data (vm_frames vm')); off = base + FRAME_HEADER_SIZE + exc_off in
          base + FRAME_HEADER_SIZE \<le> n \<and>
          take (base + FRAME_HEADER_SIZE) (fs_data (vm_frames vm')) =
            take (base + FRAME_HEADER_SIZE) (fs_data (vm_frames vm)) \<and>
          (off + 4 \<le> n \<longrightarrow> mem_read_word (fs_data (vm_frames vm')) off = val))))"
proof (intro conjI impI)
  assume "catching vm msg chain = None"
  then show "raise_exception_with_value msg val vm =
      (Inl (ThreadFault (rstr ''unhandled exception: '' @ msg)), vm)"
    by (simp add: raise_exception_with_value_def raise_loop_uncaught assms)
next
  assume *: "catching vm msg chain = Some (target, exc_off, base) \<and>
      frame_link vm (fs_current_base (vm_frames vm)) base \<and> frames_ok (vm_frames vm) \<and>
      current_data_offset (vm_frames vm) \<le> length (fs_data (vm_frames vm))"
  then have "raise_exception_with_value msg val vm = land val target exc_off base vm"
    by (simp add: raise_exception_with_value_def raise_loop_caught assms)
  with * land_link [of vm base val target exc_off]
  show "\<exists>vm'. raise_exception_with_value msg val vm = (Inr (), vm') \<and> vm_next_pc vm' = target \<and>
        fs_current_base (vm_frames vm') = base \<and> frames_ok (vm_frames vm') \<and>
        vm_heap vm' = vm_heap vm \<and> vm_mp vm' = vm_mp vm \<and>
        (let n = length (fs_data (vm_frames vm')); off = base + FRAME_HEADER_SIZE + exc_off in
          base + FRAME_HEADER_SIZE \<le> n \<and>
          take (base + FRAME_HEADER_SIZE) (fs_data (vm_frames vm')) =
            take (base + FRAME_HEADER_SIZE) (fs_data (vm_frames vm)) \<and>
          (off + 4 \<le> n \<longrightarrow> mem_read_word (fs_data (vm_frames vm')) off = val))"
    by simp
qed

definition handler_vm :: vm_state where
  "handler_vm = blank_vm\<lparr>vm_module := blank_module\<lparr>m_handlers := [\<lparr>hd_exception_offset = 4,
    hd_begin_pc = 0, hd_end_pc = 8, hd_type_descriptor = None,
    hd_cases = [\<lparr>ec_name = None, ec_pc = 5\<rparr>]\<rparr>]\<rparr>\<rparr>"

theorem exceptions_reach_the_first_handler_witness:
  "raise_exception_with_value (rstr ''oops!'') 9 blank_vm =
    (Inl (ThreadFault (rstr ''unhandled exception: oops!'')), blank_vm) \<and>
   (\<exists>vm'. raise_exception_with_value (rstr ''oops!'') 9 handler_vm = (Inr (), vm') \<and> vm_next_pc vm' = 5)"
proof -
  have parts: "fs_current_base (vm_frames handler_vm) = 0" "vm_pc handler_vm = 0" "vm_pc blank_vm = 0"
    "vm_frames handler_vm = vm_frames blank_vm" "caller_frame blank_vm 0 = None"
    using blank_frames by (simp_all add: handler_vm_def blank_vm_def caller_frame_def)
  have none: "catching blank_vm (rstr ''oops!'') (frame_chain blank_vm 0 0) = None"
    by (subst frame_chain.simps)
      (simp add: parts catching_def find_handler_def, simp add: blank_vm_def blank_module_def)
  have "find_handler handler_vm 0 (rstr ''oops!'') = Some (5, 4)"
    by (simp add: find_handler_def handler_vm_def blank_vm_def blank_module_def rstr_def i32_as_usize_def)
  then have some: "catching handler_vm (rstr ''oops!'') (frame_chain handler_vm 0 0) = Some (5, 4, 0)"
    by (simp add: catching_step)
  have "rstr ''unhandled exception: '' @ rstr ''oops!'' = rstr ''unhandled exception: oops!''"
    by (simp add: rstr_def)
  with none some exceptions_reach_the_first_handler [OF refl, of blank_vm "rstr ''oops!''" 9 0 0 0]
    exceptions_reach_the_first_handler [OF refl, of handler_vm "rstr ''oops!''" 9 5 4 0] blank_frames
  show ?thesis
    by (auto simp: parts link_here current_data_offset_def FRAME_HEADER_SIZE_def)
qed

text \<open>
  C27. A channel refines a mailbox with room for one message: \<open>send\<close> puts the bytes of its operand
  and \<open>recv\<close> takes the message and stores it. An operation that succeeds leaves no thread waiting
  for the channel and does not block; one that cannot go on changes nothing but the mark that the
  running thread waits for the channel. No other channel is touched.
\<close>

theorem channels_refine_mailboxes:
  assumes "channel_ref vm ch = Inr (n, box)" and "n \<le> ISIZE_MAX"
  shows "(read_word_at vm (vm_dst vm) (vm_imm_dst vm) = Inr ch \<and>
      mailbox_put (read_addr_bytes vm (vm_src vm) (vm_imm_src vm) n) box = (put, box') \<longrightarrow>
    (\<exists>vm'. op_send vm = (Inr (), vm') \<and> mailbox vm' = (mailbox vm)(ch := Some box') \<and>
      (if put then \<not> awaited ch vm' \<and> vm_blocked_channel vm' = vm_blocked_channel vm
       else vm' = vm\<lparr>vm_blocked_channel := Some ch\<rparr>))) \<and>
   (read_word_at vm (vm_src vm) (vm_imm_src vm) = Inr ch \<and> outside_heap (vm_dst vm) \<and>
      mailbox_take box = (taken, box'') \<longrightarrow>
    (\<exists>vm'. op_recv vm = (Inr (), vm') \<and> mailbox vm' = (mailbox vm)(ch := Some box'') \<and>
      (case taken of
         None \<Rightarrow> vm' = vm\<lparr>vm_blocked_channel := Some ch\<rparr>
       | Some m \<Rightarrow> \<not> awaited ch vm' \<and> vm_blocked_channel vm' = vm_blocked_channel vm \<and>
           (m \<noteq> [] \<and> holds (length m) vm (vm_dst vm) \<longrightarrow>
             read_addr_bytes vm' (vm_dst vm) imm (length m) = m))))"
  using op_send_refines [OF _ assms, of put box'] op_recv_refines [OF _ assms(1), of taken box'' imm]
  by blast

definition channel_vm :: vm_state where
  "channel_vm = blank_vm\<lparr>vm_imm_src := 0x10000000,
    vm_heap := snd (heap_alloc 0 (HD_Channel 2 (Some [4, 2])) heap_new)\<rparr>"

theorem channels_refine_mailboxes_witness:
  "\<exists>vm'. op_recv channel_vm = (Inr (), vm') \<and> mailbox vm' 0x10000000 = Some None \<and>
    read_addr_bytes vm' (AT_Mp 0) 0 2 = [4, 2]"
proof -
  have "channel_ref channel_vm 0x10000000 = Inr (2, Some [4, 2])"
    by (simp add: channel_ref_def channel_vm_def heap_get_def heap_alloc_def alloc_typed_def heap_new_def
        HEAP_ID_BASE_def NIL_def Let_def)
  moreover have "read_word_at channel_vm (vm_src channel_vm) (vm_imm_src channel_vm) = Inr 0x10000000"
    "vm_dst channel_vm = AT_Mp 0" "outside_heap (AT_Mp 0)" "holds 2 channel_vm (AT_Mp 0)"
    by (simp_all add: channel_vm_def blank_vm_def read_word_at_def outside_heap_def holds_def in_buf_iff
        usize_limit_def)
  ultimately show ?thesis
    using channels_refine_mailboxes [where vm = channel_vm and ch = "0x10000000" and n = 2 and
        box = "Some [4, 2]" and taken = "Some [4, 2]" and box'' = None and imm = 0 and put = False and box' = None]
    by (auto simp: mailbox_take_def ISIZE_MAX_def usize_limit_def simp flip: numeral_2_eq_2)
qed

section \<open>Reals and text\<close>

text \<open>
  C28. The arithmetic of reals is correctly rounded: the instructions store a result such that, as
  long as it is finite, no number of the format is nearer to the exact sum, product or quotient of
  their operands, and no number is nearer to a decimal number that is read from text. Values are
  integers in units of \<open>2 ^ - 1074\<close>, and distances are compared without division.
\<close>

theorem reals_are_correctly_rounded:
  assumes "first read_real_at vm = Inr a" and "second read_real_at vm = Inr b"
    and "f64_finite a" and "f64_finite b"
  shows "op_addf nan vm = write_real_at (vm_dst vm) (f64_add nan a b) vm \<and>
   (f64_finite (f64_add nan a b) \<longrightarrow>
      \<bar>f64_scaled (f64_add nan a b) - (f64_scaled a + f64_scaled b)\<bar> \<le>
      \<bar>f64_scaled c - (f64_scaled a + f64_scaled b)\<bar>) \<and>
   op_mulf nan vm = write_real_at (vm_dst vm) (f64_mul nan a b) vm \<and>
   (f64_finite (f64_mul nan a b) \<longrightarrow>
      \<bar>f64_scaled (f64_mul nan a b) * 2 ^ 1074 - f64_scaled a * f64_scaled b\<bar> \<le>
      \<bar>f64_scaled c * 2 ^ 1074 - f64_scaled a * f64_scaled b\<bar>) \<and>
   op_divf nan vm = write_real_at (vm_dst vm) (f64_div nan b a) vm \<and>
   (f64_scaled a \<noteq> 0 \<and> f64_finite (f64_div nan b a) \<longrightarrow>
      \<bar>f64_scaled (f64_div nan b a) * \<bar>f64_scaled a\<bar> - f64_scaled b * sgn (f64_scaled a) * 2 ^ 1074\<bar> \<le>
      \<bar>f64_scaled c * \<bar>f64_scaled a\<bar> - f64_scaled b * sgn (f64_scaled a) * 2 ^ 1074\<bar>) \<and>
   (f64_finite (f64_of_decimal neg m e) \<and> x = (if neg then - 1 else 1) * int m * 10 ^ nat e * 2 ^ 1074 \<longrightarrow>
      \<bar>f64_scaled (f64_of_decimal neg m e) * 10 ^ nat (- e) - x\<bar> \<le> \<bar>f64_scaled c * 10 ^ nat (- e) - x\<bar>)"
proof -
  note operand_defs src_real_def mid_or_dst_real_def mid_real_def dst_real_def set_dst_real_def
    op_addf_def op_mulf_def op_divf_def first_def second_def sbind_def
  note ops = this
  have "op_addf nan vm = write_real_at (vm_dst vm) (f64_add nan a b) vm"
    "op_mulf nan vm = write_real_at (vm_dst vm) (f64_mul nan a b) vm"
    "op_divf nan vm = write_real_at (vm_dst vm) (f64_div nan b a) vm"
    using assms(1,2) by (auto simp: ops split: if_splits)
  then show ?thesis
    using f64_add_nearest [OF assms(3,4), of nan c] f64_mul_nearest [OF assms(3,4), of nan c]
      f64_div_nearest [OF assms(4,3), of nan c] f64_of_decimal_nearest [of neg m e x c] by blast
qed

text \<open>The least two positive reals.\<close>

definition real_vm :: vm_state where
  "real_vm = blank_vm\<lparr>vm_src := AT_Mp 0, vm_mid := AT_Mp 8, vm_dst := AT_Mp 16,
    vm_mp := [1, 0, 0, 0, 0, 0, 0, 0, 2, 0, 0, 0, 0, 0, 0, 0, 0, 0, 0, 0, 0, 0, 0, 0]\<rparr>"

theorem reals_are_correctly_rounded_witness:
  "op_addf (\<lambda>op x y. x) real_vm = write_real_at (AT_Mp 16) 3 real_vm \<and>
   (\<forall>c. \<bar>f64_scaled 3 - (f64_scaled 1 + f64_scaled 2)\<bar> \<le> \<bar>f64_scaled c - (f64_scaled 1 + f64_scaled 2)\<bar>)"
proof -
  have small: "f64_finite 1" "f64_finite 2" "f64_finite 3"
    by (simp_all add: f64_finite_def f64_magnitude_def F64_INF_def)
  have three: "f64_add (\<lambda>op x y. x) 1 2 = 3"
    unfolding f64_add_def f64_sum_def
    by (simp add: small f64_finite_cases f64_scaled_def f64_magnitude_def f64_negative_def f64_from_scaled_def
        f64_round_def f64_make_def round_to_format_def F64_INF_def div_round_even_def bit_size.simps)
  have reads: "first read_real_at real_vm = Inr 1" "second read_real_at real_vm = Inr 2" "vm_dst real_vm = AT_Mp 16"
    by (simp_all add: real_vm_def first_def second_def read_real_at_def mem_read_real_def in_buf_iff
        usize_limit_def subrange_def from_ne_bytes64_def from_ne_bytes32_def word_of_be_def
        join_words_def)
  show ?thesis
    using reals_are_correctly_rounded [OF reads(1,2) small(1,2), of "\<lambda>op x y. x"] small(3) reads(3)
    unfolding three by simp
qed

text \<open>
  C29. Numbers survive as text: the decimal text that the conversions of words and bigs write is read
  back as that number, by the integer reader for every word and every big, and by the real reader as
  the real that the integer converts to.
\<close>

theorem numbers_survive_as_text:
  "parse_strtol (show_i32 w) = sint w \<and> parse_strtol (show_int (sint (b :: i64))) = sint b \<and>
   parse_strtod (show_int i) = f64_of_int i"
  by (simp add: parse_strtol_i32 parse_strtol_i64 parse_strtod_show_int)

text \<open>
  C30. Fixed-point multiplication forms the exact product of its 32-bit operands and scales it by the
  power of two it is given, to the left or, rounding down, to the right: for scales below 64 the
  result is the scaled product wrapped to 64 bits, of which the destination takes the low word.
\<close>

theorem fixed_point_product:
  assumes "first read_word_at vm = Inr y" and "read_word_at vm (vm_mid vm) (vm_imm_mid vm) = Inr x"
    and "\<bar>sint (read_dtmp vm)\<bar> < 64"
  shows "op_mulx vm = write_word_at (vm_dst vm)
    (ucast (word_of_int (scaled_down (sint x * sint y) (sint (read_dtmp vm))) :: i64)) vm"
  using assms mulx_value [OF assms(3), of x y]
  by (simp add: op_mulx_def first_def operand_defs sbind_def reads_def)

theorem fixed_point_product_witness:
  "op_mulx (with_operands 3 5) = write_word_at (AT_Mp 0) 15 (with_operands 3 5)"
proof -
  have "mem_read_word (fs_data (vm_frames blank_vm)) 28 = 0"
    by (simp add: blank_vm_def push_entry_def frame_stack_new_def Let_def mem_read_word_def in_buf_iff
        usize_limit_def FRAME_HEADER_SIZE_def mem_write_word_def copy_at_def to_ne_bytes32_def to_be_bytes32_def
        from_ne_bytes32_def subrange_def word_of_be_def resize_def)
  then have "read_dtmp (with_operands 3 5) = 0"
    by (simp add: read_dtmp_def read_temp_def blank_frames current_data_offset_def Let_def
        FRAME_HEADER_SIZE_def DTEMP_OFFSET_def)
  then show ?thesis
    using fixed_point_product [OF with_operands_first(1) [of 3 5], of 5]
    by (simp add: read_word_at_def scaled_down_def)
qed

end
