(* ===== verification/Token.thy ===== *)
theory Token
  imports Utf8
begin

text \<open>
  The tokens of the Limbo compiler (\<open>crates/ricevm-limbo/src/token.rs\<close>).
\<close>

section \<open>Tokens\<close>

record span =
  sp_line :: u32
  sp_col :: u32

text \<open>
  The variants of \<open>TokenKind\<close>: the keywords and the operators, delimiters and punctuation are types of their
  own, for there are many.
\<close>

datatype (plugins only: code size) keyword =
    KW_Adt | KW_Alt | KW_Array | KW_Big | KW_Break | KW_Byte | KW_Case | KW_Chan | KW_Con
  | KW_Continue | KW_Cyclic | KW_Do | KW_Else | KW_Exception | KW_Exit | KW_Fn | KW_For | KW_Hd
  | KW_If | KW_Implement | KW_Import | KW_Include | KW_Int | KW_Len | KW_List | KW_Load
  | KW_Module | KW_Nil | KW_Of | KW_Or | KW_Pick | KW_Real | KW_Ref | KW_Return | KW_Self
  | KW_Spawn | KW_String | KW_Tagof | KW_Tl | KW_To | KW_Type | KW_While | KW_Raise | KW_Iota

datatype (plugins only: code size) symbol =
    SY_Plus | SY_Minus | SY_Star | SY_Slash | SY_Percent | SY_Power | SY_Amp | SY_Pipe | SY_Caret
  | SY_Tilde | SY_Bang | SY_Lshift | SY_Rshift | SY_Eq | SY_Neq | SY_Lt | SY_Gt | SY_Leq | SY_Geq
  | SY_AndAnd | SY_OrOr | SY_ColonColon | SY_Arrow | SY_ChanRecv | SY_ChanSend | SY_Assign
  | SY_ColonEq | SY_PlusEq | SY_MinusEq | SY_StarEq | SY_SlashEq | SY_PercentEq | SY_AmpEq
  | SY_PipeEq | SY_CaretEq | SY_LshiftEq | SY_RshiftEq | SY_Inc | SY_Dec | SY_LParen | SY_RParen
  | SY_LBracket | SY_RBracket | SY_LBrace | SY_RBrace | SY_Comma | SY_Dot | SY_Semicolon
  | SY_Colon | SY_FatArrow

datatype token_kind =
    TK_IntLit i64 | TK_RealLit f64_bits | TK_StringLit rstring | TK_CharLit i32 | TK_Ident rstring
  | TK_Keyword keyword | TK_Symbol symbol | TK_Eof

record token =
  tk_kind :: token_kind
  tk_span :: span

definition keyword_table :: "(rstring \<times> keyword) list" where
  "keyword_table = [
    (rstr ''adt'', KW_Adt), (rstr ''alt'', KW_Alt), (rstr ''array'', KW_Array),
    (rstr ''big'', KW_Big), (rstr ''break'', KW_Break), (rstr ''byte'', KW_Byte),
    (rstr ''case'', KW_Case), (rstr ''chan'', KW_Chan), (rstr ''con'', KW_Con),
    (rstr ''continue'', KW_Continue), (rstr ''cyclic'', KW_Cyclic), (rstr ''do'', KW_Do),
    (rstr ''else'', KW_Else), (rstr ''exception'', KW_Exception), (rstr ''exit'', KW_Exit),
    (rstr ''fn'', KW_Fn), (rstr ''for'', KW_For), (rstr ''hd'', KW_Hd), (rstr ''if'', KW_If),
    (rstr ''implement'', KW_Implement), (rstr ''import'', KW_Import),
    (rstr ''include'', KW_Include), (rstr ''int'', KW_Int), (rstr ''iota'', KW_Iota),
    (rstr ''len'', KW_Len), (rstr ''list'', KW_List), (rstr ''load'', KW_Load),
    (rstr ''module'', KW_Module), (rstr ''nil'', KW_Nil), (rstr ''of'', KW_Of),
    (rstr ''or'', KW_Or), (rstr ''pick'', KW_Pick), (rstr ''raise'', KW_Raise),
    (rstr ''real'', KW_Real), (rstr ''ref'', KW_Ref), (rstr ''return'', KW_Return),
    (rstr ''self'', KW_Self), (rstr ''spawn'', KW_Spawn), (rstr ''string'', KW_String),
    (rstr ''tagof'', KW_Tagof), (rstr ''tl'', KW_Tl), (rstr ''to'', KW_To),
    (rstr ''type'', KW_Type), (rstr ''while'', KW_While)]"

definition keyword_of :: "rstring \<Rightarrow> token_kind option" where
  "keyword_of s = map_option TK_Keyword (map_of keyword_table s)"

end
