(* ===== verification/Lexer.thy ===== *)
theory Lexer
  imports Token RealText
begin

text \<open>
  The lexer of the Limbo compiler (\<open>crates/ricevm-limbo/src/lexer.rs\<close>): the source is a UTF-8 byte
  string with a position, a line and a column, and every method of the source is a function on that
  state. The loops end because each step takes a byte; \<open>tokenize\<close> ends because every token but the
  last one does.
\<close>

section \<open>The state of the lexer\<close>

record lex_error =
  le_file :: rstring
  le_span :: span
  le_message :: rstring

record lexer =
  lx_src :: "u8 list"
  lx_pos :: usize
  lx_line :: u32
  lx_col :: u32
  lx_file :: rstring

type_synonym 'a lx = "(lexer, lex_error, 'a) sm"

definition lexer_new :: "rstring \<Rightarrow> rstring \<Rightarrow> lexer" where
  "lexer_new src file = \<lparr>lx_src = as_bytes src, lx_pos = 0, lx_line = 1, lx_col = 1, lx_file = file\<rparr>"

definition here :: "lexer \<Rightarrow> span" where
  "here lx = \<lparr>sp_line = lx_line lx, sp_col = lx_col lx\<rparr>"

definition peek :: "lexer \<Rightarrow> u8" where
  "peek lx = (if lx_pos lx < length (lx_src lx) then lx_src lx ! lx_pos lx else 0)"

definition peek2 :: "lexer \<Rightarrow> u8" where
  "peek2 lx = (if lx_pos lx + 1 < length (lx_src lx) then lx_src lx ! (lx_pos lx + 1) else 0)"

text \<open>The state \<open>advance\<close> leaves; what it returns is what \<open>peek\<close> gave before.\<close>

definition advance :: "lexer \<Rightarrow> lexer" where
  "advance lx =
    (if lx_pos lx < length (lx_src lx) then
       (if lx_src lx ! lx_pos lx = 10
        then lx\<lparr>lx_pos := lx_pos lx + 1, lx_line := lx_line lx + 1, lx_col := 1\<rparr>
        else lx\<lparr>lx_pos := lx_pos lx + 1, lx_col := lx_col lx + 1\<rparr>)
     else lx)"

definition lex_err_at :: "span \<Rightarrow> rstring \<Rightarrow> 'a lx" where
  "lex_err_at span msg = (\<lambda>lx. (Inl \<lparr>le_file = lx_file lx, le_span = span, le_message = msg\<rparr>, lx))"

definition lex_err :: "rstring \<Rightarrow> 'a lx" where
  "lex_err msg = (\<lambda>lx. lex_err_at (here lx) msg lx)"

text \<open>The bytes from a position to the current one.\<close>

definition taken_from :: "usize \<Rightarrow> lexer \<Rightarrow> u8 list" where
  "taken_from start lx = subrange start (lx_pos lx - start) (lx_src lx)"

lemma advance_pos: "lx_pos (advance lx) = (if lx_pos lx < length (lx_src lx) then lx_pos lx + 1 else lx_pos lx)"
  by (simp add: advance_def)

lemma advance_src [simp]: "lx_src (advance lx) = lx_src lx" "lx_file (advance lx) = lx_file lx"
  by (simp_all add: advance_def)

text \<open>
  What every step of the lexer does: the source and the file stay, the position moves forward and
  not past the end, and the line and the column stay those of the position.
\<close>

definition place_of :: "u8 list \<Rightarrow> span" where
  "place_of before = \<lparr>sp_line = of_nat (Suc (count_list before 10)),
    sp_col = of_nat (Suc (length (takeWhile (\<lambda>b. b \<noteq> 10) (rev before))))\<rparr>"

definition placed :: "lexer \<Rightarrow> bool" where
  "placed lx \<longleftrightarrow> lx_pos lx \<le> length (lx_src lx) \<and> here lx = place_of (take (lx_pos lx) (lx_src lx))"

definition moves :: "lexer \<Rightarrow> lexer \<Rightarrow> bool" where
  "moves lx lx' \<longleftrightarrow> lx_src lx' = lx_src lx \<and> lx_file lx' = lx_file lx \<and> lx_pos lx \<le> lx_pos lx' \<and>
    (placed lx \<longrightarrow> placed lx')"

interpretation lexing: state_relation moves
  by unfold_locales (auto simp: moves_def)

abbreviation moving :: "'a lx \<Rightarrow> bool" where
  "moving m \<equiv> lexing.kept_by m"

named_theorems moving_rules

declare lexing.rules [moving_rules]

lemma moves_refl [moving_rules]: "moves lx lx"
  by (rule lexing.rel_refl)

lemma place_of_snoc:
  "place_of (before @ [b]) = (if b = 10
    then \<lparr>sp_line = sp_line (place_of before) + 1, sp_col = 1\<rparr>
    else \<lparr>sp_line = sp_line (place_of before), sp_col = sp_col (place_of before) + 1\<rparr>)"
  by (simp add: place_of_def)

lemma moves_advance [moving_rules]: "moves lx lx' \<Longrightarrow> moves lx (advance lx')"
proof -
  assume lx: "moves lx lx'"
  have "placed (advance lx')" if "placed lx'"
  proof (cases "lx_pos lx' < length (lx_src lx')")
    case True
    then have "take (Suc (lx_pos lx')) (lx_src lx') = take (lx_pos lx') (lx_src lx') @ [lx_src lx' ! lx_pos lx']"
      by (rule take_Suc_conv_app_nth)
    with that True show ?thesis
      by (auto simp: placed_def advance_def here_def place_of_snoc)
        (simp_all add: place_of_def)
  next
    case False
    with that show ?thesis by (simp add: advance_def)
  qed
  with lx show ?thesis by (simp add: moves_def advance_pos)
qed

lemma moves_advances [moving_rules]: "moves lx lx' \<Longrightarrow> moves lx ((advance ^^ n) lx')"
  by (induction n) (simp_all add: moves_advance)

section \<open>Classes of bytes\<close>

definition byte_in :: "nat \<Rightarrow> nat \<Rightarrow> u8 \<Rightarrow> bool" where
  "byte_in lo hi b \<longleftrightarrow> lo \<le> unat b \<and> unat b \<le> hi"

definition ascii_whitespace :: "u8 \<Rightarrow> bool" where
  "ascii_whitespace b \<longleftrightarrow> b = 32 \<or> b = 9 \<or> b = 10 \<or> b = 12 \<or> b = 13"

definition ascii_alphabetic :: "u8 \<Rightarrow> bool" where
  "ascii_alphabetic b \<longleftrightarrow> byte_in 65 90 b \<or> byte_in 97 122 b"

definition ascii_digit :: "u8 \<Rightarrow> bool" where
  "ascii_digit b \<longleftrightarrow> byte_in 48 57 b"

definition ascii_hexdigit :: "u8 \<Rightarrow> bool" where
  "ascii_hexdigit b \<longleftrightarrow> ascii_digit b \<or> byte_in 65 70 b \<or> byte_in 97 102 b"

definition is_ident_byte :: "u8 \<Rightarrow> bool" where
  "is_ident_byte b \<longleftrightarrow> 128 \<le> unat b"

definition ident_start :: "u8 \<Rightarrow> bool" where
  "ident_start b \<longleftrightarrow> ascii_alphabetic b \<or> b = 95 \<or> is_ident_byte b"

definition ident_part :: "u8 \<Rightarrow> bool" where
  "ident_part b \<longleftrightarrow> ascii_alphabetic b \<or> ascii_digit b \<or> b = 95 \<or> is_ident_byte b"

definition utf8_len :: "u8 \<Rightarrow> usize" where
  "utf8_len lead =
    (if byte_in 0 127 lead then 1
     else if byte_in 192 223 lead then 2
     else if byte_in 224 239 lead then 3
     else if byte_in 240 247 lead then 4
     else 1)"

text \<open>
  \<open>str::from_utf8\<close>: well-formed are the bytes that the lossy decoder turns into the characters they
  encode; every ill-formed byte sequence would become the replacement character.
\<close>

definition from_utf8 :: "u8 list \<Rightarrow> rstring option" where
  "from_utf8 bs = (let s = from_utf8_lossy bs in if as_bytes s = bs then Some s else None)"

section \<open>Skipping\<close>

text \<open>\<open>while self.pos < self.src.len() && p(self.peek()) { self.advance(); }\<close>\<close>

function skip_while :: "(u8 \<Rightarrow> bool) \<Rightarrow> lexer \<Rightarrow> lexer" where
  "skip_while p lx =
    (if lx_pos lx < length (lx_src lx) \<and> p (peek lx) then skip_while p (advance lx) else lx)"
  by pat_completeness auto
termination
  by (relation "measure (\<lambda>(p, lx). length (lx_src lx) - lx_pos lx)") (auto simp: advance_pos)

declare skip_while.simps [simp del]

lemma moves_skip_while [moving_rules]: "moves lx lx' \<Longrightarrow> moves lx (skip_while p lx')"
proof (induction p lx' rule: skip_while.induct)
  case (1 p lx')
  then show ?case by (subst skip_while.simps) (simp add: moves_advance)
qed

lemma skip_while_src [simp]: "lx_src (skip_while p lx) = lx_src lx"
  and skip_while_pos: "lx_pos lx \<le> lx_pos (skip_while p lx)"
  using moves_skip_while [OF moves_refl, of lx p] by (simp_all add: moves_def)

lemma skip_while_moves:
  "lx_pos lx < length (lx_src lx) \<Longrightarrow> p (peek lx) \<Longrightarrow> lx_pos lx < lx_pos (skip_while p lx)"
  using skip_while_pos [of "advance lx" p] by (subst skip_while.simps) (simp add: advance_pos)

lemma peek_inside: "peek lx \<noteq> 0 \<Longrightarrow> lx_pos lx < length (lx_src lx)"
  by (auto simp: peek_def split: if_splits)

function skip_whitespace_and_comments :: "lexer \<Rightarrow> lexer" where
  "skip_whitespace_and_comments lx =
    (let lx = skip_while ascii_whitespace lx in
     if peek lx = 35 then skip_whitespace_and_comments (skip_while (\<lambda>b. b \<noteq> 10) lx) else lx)"
  by pat_completeness auto
termination
proof (relation "measure (\<lambda>lx. length (lx_src lx) - lx_pos lx)", goal_cases)
  case (2 lx ws)
  then have "lx_pos lx \<le> lx_pos ws" "lx_pos ws < length (lx_src ws)" "lx_src ws = lx_src lx"
    using skip_while_pos [of lx ascii_whitespace] peek_inside [of ws] by auto
  moreover have "lx_pos ws < lx_pos (skip_while (\<lambda>b. b \<noteq> 10) ws)"
    by (rule skip_while_moves) (use 2 calculation in simp_all)
  ultimately show ?case by simp
qed simp

declare skip_whitespace_and_comments.simps [simp del]

lemma moves_skip_whitespace [moving_rules]:
  "moves lx lx' \<Longrightarrow> moves lx (skip_whitespace_and_comments lx')"
proof (induction lx' rule: skip_whitespace_and_comments.induct)
  case (1 lx')
  then show ?case
    by (subst skip_whitespace_and_comments.simps) (simp add: Let_def moves_skip_while)
qed

section \<open>Numbers\<close>

text \<open>
  \<open>from_str_radix\<close> and \<open>parse\<close> of an unsigned run of digits, with the texts of its errors: an
  overflow is found when a digit is added, an invalid digit before that.
\<close>

definition to_digit :: "nat \<Rightarrow> rchar \<Rightarrow> nat option" where
  "to_digit radix c =
    (let d = (if 48 \<le> c \<and> c \<le> 57 then c - 48
              else if 97 \<le> c \<and> c \<le> 122 then c - 87
              else if 65 \<le> c \<and> c \<le> 90 then c - 55 else radix) in
     if d < radix then Some d else None)"

fun add_digits :: "nat \<Rightarrow> nat \<Rightarrow> nat \<Rightarrow> rstring \<Rightarrow> rstring + nat" where
  "add_digits radix limit v [] = Inr v"
| "add_digits radix limit v (c # cs) =
    (case to_digit radix c of
       None \<Rightarrow> Inl (rstr ''invalid digit found in string'')
     | Some d \<Rightarrow>
         if limit < v * radix + d then Inl (rstr ''number too large to fit in target type'')
         else add_digits radix limit (v * radix + d) cs)"

definition parse_unsigned :: "nat \<Rightarrow> nat \<Rightarrow> rstring \<Rightarrow> rstring + nat" where
  "parse_unsigned radix limit s =
    (if s = [] then Inl (rstr ''cannot parse integer from empty string'')
     else add_digits radix limit 0 s)"

definition I64_LIMIT :: nat where
  "I64_LIMIT = 9223372036854775807"

definition U32_LIMIT :: nat where
  "U32_LIMIT = 4294967295"

text \<open>
  \<open>parse::<f64>\<close> of digits with at most one dot and at most one exponent: the nearest real, or nothing
  for a number without a digit or an exponent without one.
\<close>

definition parse_exponent :: "rstring \<Rightarrow> int option" where
  "parse_exponent s =
    (case s of
       [] \<Rightarrow> Some 0
     | c # cs \<Rightarrow>
         if c = 101 \<or> c = 69 then
           (let (neg, ds) = take_sign cs in
            if ds \<noteq> [] \<and> list_all is_digit ds
            then Some ((if neg then - 1 else 1) * int (digits_value ds)) else None)
         else None)"

definition parse_f64 :: "rstring \<Rightarrow> f64_bits option" where
  "parse_f64 s =
    (let whole = takeWhile is_digit s; rest = dropWhile is_digit s;
         (frac, rest) = (case rest of
             [] \<Rightarrow> ([], [])
           | c # cs \<Rightarrow> if c = 46 then (takeWhile is_digit cs, dropWhile is_digit cs) else ([], rest)) in
     if whole = [] \<and> frac = [] then None
     else map_option (\<lambda>e. f64_of_decimal False (digits_value (whole @ frac)) (e - int (length frac)))
       (parse_exponent rest))"

definition token_at :: "span \<Rightarrow> token_kind \<Rightarrow> token lx" where
  "token_at span kind = ret \<lparr>tk_kind = kind, tk_span = span\<rparr>"

text \<open>What has been read since a position, as text.\<close>

definition text_from :: "usize \<Rightarrow> rstring \<Rightarrow> rstring lx" where
  "text_from start msg = (\<lambda>lx. case from_utf8 (taken_from start lx) of
      Some s \<Rightarrow> (Inr s, lx) | None \<Rightarrow> lex_err msg lx)"

definition int_token :: "span \<Rightarrow> nat \<Rightarrow> rstring \<Rightarrow> token lx" where
  "int_token span radix s = (case parse_unsigned radix I64_LIMIT s of
      Inr v \<Rightarrow> token_at span (TK_IntLit (of_nat v)) | Inl e \<Rightarrow> lex_err e)"

definition real_token :: "span \<Rightarrow> rstring \<Rightarrow> token lx" where
  "real_token span s = (case parse_f64 s of
      Some v \<Rightarrow> token_at span (TK_RealLit v) | None \<Rightarrow> lex_err (rstr ''invalid float literal''))"

definition at_exponent :: "lexer \<Rightarrow> bool" where
  "at_exponent lx \<longleftrightarrow> peek lx = 101 \<or> peek lx = 69"

definition skip_exponent :: "lexer \<Rightarrow> lexer" where
  "skip_exponent lx =
    (if at_exponent lx then
       let lx = advance lx; lx = (if peek lx = 43 \<or> peek lx = 45 then advance lx else lx) in
       skip_while ascii_digit lx
     else lx)"

definition lex_dot_number :: "span \<Rightarrow> token lx" where
  "lex_dot_number span = sbind (reads lx_pos) (\<lambda>start.
    sbind (updates (\<lambda>lx. skip_exponent (skip_while ascii_digit (advance lx)))) (\<lambda>_.
    sbind (text_from start (rstr ''invalid float'')) (real_token span)))"

definition lex_hex :: "span \<Rightarrow> usize \<Rightarrow> token lx" where
  "lex_hex span start =
    sbind (updates (\<lambda>lx. skip_while ascii_hexdigit (advance (advance lx)))) (\<lambda>_.
    sbind (text_from (start + 2) (rstr ''invalid hex literal'')) (int_token span 16))"

definition lex_radix :: "span \<Rightarrow> usize \<Rightarrow> token lx" where
  "lex_radix span start =
    sbind (text_from start (rstr ''invalid radix'')) (\<lambda>radix_str.
    case parse_unsigned 10 U32_LIMIT radix_str of
      Inl e \<Rightarrow> lex_err e
    | Inr radix \<Rightarrow>
        if radix < 2 \<or> 36 < radix
        then lex_err (rstr ''radix must be between 2 and 36, found '' @ show_nat radix)
        else
          sbind (updates advance) (\<lambda>_. sbind (reads lx_pos) (\<lambda>digits_start.
          sbind (updates (skip_while (\<lambda>b. ascii_alphabetic b \<or> ascii_digit b \<or> b = 95))) (\<lambda>_.
          sbind (text_from digits_start (rstr ''invalid radix digits'')) (int_token span radix)))))"

definition lex_decimal :: "span \<Rightarrow> usize \<Rightarrow> token lx" where
  "lex_decimal span start = (\<lambda>lx.
    let has_dot = (peek lx = 46);
        lx = (if has_dot then skip_while ascii_digit (advance lx) else lx);
        is_float = (has_dot \<or> at_exponent lx);
        lx = skip_exponent lx in
    sbind (text_from start (rstr ''invalid number literal''))
      (if is_float then real_token span else int_token span 10) lx)"

definition lex_number :: "span \<Rightarrow> token lx" where
  "lex_number span = (\<lambda>lx.
    let start = lx_pos lx in
    if peek lx = 48 \<and> (peek2 lx = 120 \<or> peek2 lx = 88) then lex_hex span start lx
    else
      let lx = skip_while ascii_digit lx in
      if peek lx = 114 \<or> peek lx = 82 then lex_radix span start lx
      else lex_decimal span start lx)"

section \<open>Identifiers\<close>

definition lex_ident :: "span \<Rightarrow> token lx" where
  "lex_ident span = sbind (reads lx_pos) (\<lambda>start.
    sbind (updates (skip_while ident_part)) (\<lambda>_.
    sbind (text_from start (rstr ''invalid UTF-8 in identifier'')) (\<lambda>word.
    token_at span (unwrap_or (TK_Ident word) (keyword_of word)))))"

section \<open>Strings and characters\<close>

definition next_utf8_char :: "rchar lx" where
  "next_utf8_char = (\<lambda>lx.
    let start = lx_pos lx; lead = peek lx;
        end_pos = min (start + utf8_len lead) (length (lx_src lx));
        decoded = Option.bind (from_utf8 (subrange start (end_pos - start) (lx_src lx)))
          (\<lambda>s. case s of [] \<Rightarrow> None | c # _ \<Rightarrow> Some c) in
    case decoded of
      Some c \<Rightarrow> (Inr c, (advance ^^ length (char_utf8 c)) lx)
    | None \<Rightarrow> (Inr (unat lead), advance lx))"

definition hex_value :: "u8 \<Rightarrow> nat option" where
  "hex_value d =
    (if byte_in 48 57 d then Some (unat d - 48)
     else if byte_in 97 102 d then Some (unat d - 87)
     else if byte_in 65 70 d then Some (unat d - 55)
     else None)"

primrec lex_hex_digits :: "nat \<Rightarrow> nat \<Rightarrow> nat lx" where
  "lex_hex_digits 0 v = ret v"
| "lex_hex_digits (Suc n) v = sbind (reads peek) (\<lambda>d. sbind (updates advance) (\<lambda>_.
    case hex_value d of
      None \<Rightarrow> lex_err (rstr ''invalid hex escape'')
    | Some x \<Rightarrow> lex_hex_digits n (v * 16 + x)))"

definition lex_hex_escape :: "nat \<Rightarrow> nat lx" where
  "lex_hex_escape digits = lex_hex_digits digits 0"

definition escape_value :: "u8 \<Rightarrow> nat lx" where
  "escape_value esc =
    (if esc = 117 then lex_hex_escape 4
     else ret (if esc = 110 then 10 else if esc = 116 then 9 else if esc = 114 then 13
       else if esc = 97 then 7 else if esc = 98 then 8 else if esc = 102 then 12
       else if esc = 118 then 11 else if esc = 48 then 0 else unat esc))"

text \<open>The character a backslash and what follows it stand for; the backslash is the next byte.\<close>

definition lex_escape :: "nat lx" where
  "lex_escape = sbind (updates advance) (\<lambda>_. sbind (reads peek) (\<lambda>esc.
    sbind (updates advance) (\<lambda>_. escape_value esc)))"

lemma moving_error [moving_rules]: "moving (lex_err_at span msg)" "moving (lex_err msg)"
  by (simp_all add: lexing.kept_by_def lex_err_def lex_err_at_def moves_refl)

lemma moving_text [moving_rules]: "moving (text_from start msg)"
  unfolding text_from_def
  by (rule lexing.kept_byI) (simp add: lexing.kept_byD moving_rules split: option.split)

lemma moving_token [moving_rules]:
  "moving (token_at span kind)" "moving (int_token span radix s)" "moving (real_token span s)"
  unfolding token_at_def int_token_def real_token_def
  by (simp_all add: moving_rules split: sum.split option.split)

lemma moving_hex [moving_rules]: "moving (lex_hex_digits n v)" "moving (lex_hex_escape n)"
proof -
  show "moving (lex_hex_digits n v)" for n v
    by (induction n arbitrary: v) (auto intro!: moving_rules split: option.split)
  then show "moving (lex_hex_escape n)" by (simp add: lex_hex_escape_def)
qed

lemma moving_escape [moving_rules]: "moving (escape_value esc)" "moving lex_escape"
proof -
  show "moving (escape_value esc)" for esc
    unfolding escape_value_def by (rule moving_rules)+
  then show "moving lex_escape"
    unfolding lex_escape_def by (intro moving_rules)
qed

lemma moving_char [moving_rules]: "moving next_utf8_char"
  by (rule lexing.kept_byI) (simp add: next_utf8_char_def Let_def moving_rules split: option.split)

text \<open>A character takes at least one byte.\<close>

lemma next_char_moves:
  assumes "lx_pos lx < length (lx_src lx)" and "next_utf8_char lx = (r, lx')"
  shows "lx_src lx' = lx_src lx" "lx_pos lx < lx_pos lx'"
proof -
  have "moves (advance lx) ((advance ^^ length (char_utf8 c)) lx)" for c
  proof -
    have "length (char_utf8 c) = Suc (length (char_utf8 c) - 1)" by (simp add: char_utf8_def)
    then have "(advance ^^ length (char_utf8 c)) lx = (advance ^^ (length (char_utf8 c) - 1)) (advance lx)"
      by (metis comp_apply funpow_Suc_right)
    then show ?thesis by (simp add: moves_advances moves_refl)
  qed
  then have "moves (advance lx) lx'"
    using assms(2) by (auto simp: next_utf8_char_def Let_def moves_refl split: option.splits)
  then show "lx_src lx' = lx_src lx" "lx_pos lx < lx_pos lx'"
    using assms(1) by (auto simp: moves_def advance_pos)
qed

lemma moving_moves: "moving m \<Longrightarrow> m lx = (r, lx') \<Longrightarrow> moves lx lx'"
  using lexing.kept_byD [of m lx] by simp

lemma escape_moves:
  assumes "lx_pos lx < length (lx_src lx)" and "lex_escape lx = (r, lx')"
  shows "lx_src lx' = lx_src lx" "lx_pos lx < lx_pos lx'"
proof -
  have "escape_value (peek (advance lx)) (advance (advance lx)) = (r, lx')"
    using assms(2) by (simp add: lex_escape_def)
  from moving_moves [OF moving_escape(1) this] have "moves (advance (advance lx)) lx'" .
  then show "lx_src lx' = lx_src lx" "lx_pos lx < lx_pos lx'"
    using assms(1) by (auto simp: moves_def advance_pos split: if_splits)
qed

text \<open>
  The body of a string after its quote. An escape that is no scalar value, half of a surrogate pair,
  adds nothing.
\<close>

function lex_string_body :: "rstring \<Rightarrow> rstring lx" where
  "lex_string_body s lx =
    (if length (lx_src lx) \<le> lx_pos lx then lex_err (rstr ''unterminated string literal'') lx
     else if peek lx = 34 then (Inr s, advance lx)
     else if peek lx = 92 then
       (case lex_escape lx of
          (Inl e, lx') \<Rightarrow> (Inl e, lx')
        | (Inr v, lx') \<Rightarrow> lex_string_body (if scalar v then s @ [v] else s) lx')
     else
       (case next_utf8_char lx of
          (Inl e, lx') \<Rightarrow> (Inl e, lx')
        | (Inr c, lx') \<Rightarrow> lex_string_body (s @ [c]) lx'))"
  by pat_completeness auto
termination
proof (relation "measure (\<lambda>(s, lx). length (lx_src lx) - lx_pos lx)", goal_cases)
  case (2 s lx r lx' v)
  then show ?case using escape_moves [of lx r lx'] by simp
next
  case (3 s lx r lx' c)
  then show ?case using next_char_moves [of lx r lx'] by simp
qed simp

declare lex_string_body.simps [simp del]

lemma moving_string_body [moving_rules]: "moving (lex_string_body s)"
proof (rule lexing.kept_byI)
  fix lx
  show "moves lx (snd (lex_string_body s lx))"
  proof (induction s lx rule: lex_string_body.induct)
    case (1 s lx)
    have esc: "moves lx (snd (lex_escape lx))" by (rule lexing.kept_byD [OF moving_escape(2)])
    have chr: "moves lx (snd (next_utf8_char lx))" by (rule lexing.kept_byD [OF moving_char])
    consider "length (lx_src lx) \<le> lx_pos lx \<or> peek lx = 34" | "lx_pos lx < length (lx_src lx)" "peek lx = 92"
      | "lx_pos lx < length (lx_src lx)" "peek lx \<noteq> 34" "peek lx \<noteq> 92" by linarith
    then show ?case
    proof cases
      case 1
      then show ?thesis
        by (subst lex_string_body.simps) (auto simp: lexing.kept_byD moving_rules)
    next
      case 2
      with 1(1) esc show ?thesis
        by (subst lex_string_body.simps) (auto split: prod.splits sum.splits intro: lexing.rel_trans)
    next
      case 3
      with 1(2) chr show ?thesis
        by (subst lex_string_body.simps) (auto split: prod.splits sum.splits intro: lexing.rel_trans)
    qed
  qed
qed

definition lex_string :: "span \<Rightarrow> token lx" where
  "lex_string span = sbind (updates advance) (\<lambda>_. sbind (lex_string_body []) (\<lambda>s.
    token_at span (TK_StringLit s)))"

definition lex_char :: "span \<Rightarrow> token lx" where
  "lex_char span = sbind (updates advance) (\<lambda>_.
    sbind (\<lambda>lx. (if peek lx = 92 then lex_escape else next_utf8_char) lx) (\<lambda>v.
    \<lambda>lx. if peek lx \<noteq> 39 then lex_err (rstr ''missing closing '' @ [39] @ rstr '' in character literal'') lx
      else token_at span (TK_CharLit (of_nat v)) (advance lx)))"

section \<open>Operators\<close>

text \<open>A symbol, or a longer one when the next byte continues it.\<close>

definition one_of :: "(u8 \<times> symbol) list \<Rightarrow> symbol \<Rightarrow> lexer \<Rightarrow> symbol \<times> lexer" where
  "one_of longer short lx =
    (case map_of longer (peek lx) of Some k \<Rightarrow> (k, advance lx) | None \<Rightarrow> (short, lx))"

definition lex_symbol :: "u8 \<Rightarrow> lexer \<Rightarrow> (symbol \<times> lexer) option" where
  "lex_symbol ch lx =
    (if ch = 43 then Some (one_of [(43, SY_Inc), (61, SY_PlusEq)] SY_Plus lx)
     else if ch = 45 then Some (one_of [(45, SY_Dec), (61, SY_MinusEq), (62, SY_Arrow)] SY_Minus lx)
     else if ch = 42 then Some (one_of [(42, SY_Power), (61, SY_StarEq)] SY_Star lx)
     else if ch = 47 then Some (one_of [(61, SY_SlashEq)] SY_Slash lx)
     else if ch = 37 then Some (one_of [(61, SY_PercentEq)] SY_Percent lx)
     else if ch = 38 then Some (one_of [(38, SY_AndAnd), (61, SY_AmpEq)] SY_Amp lx)
     else if ch = 124 then Some (one_of [(124, SY_OrOr), (61, SY_PipeEq)] SY_Pipe lx)
     else if ch = 94 then Some (one_of [(61, SY_CaretEq)] SY_Caret lx)
     else if ch = 126 then Some (SY_Tilde, lx)
     else if ch = 33 then Some (one_of [(61, SY_Neq)] SY_Bang lx)
     else if ch = 60 then
       Some (if peek lx = 60 then one_of [(61, SY_LshiftEq)] SY_Lshift (advance lx)
         else if peek lx = 61 then (SY_Leq, advance lx)
         else if peek lx = 45 then one_of [(61, SY_ChanSend)] SY_ChanRecv (advance lx)
         else (SY_Lt, lx))
     else if ch = 62 then
       Some (if peek lx = 62 then one_of [(61, SY_RshiftEq)] SY_Rshift (advance lx)
         else if peek lx = 61 then (SY_Geq, advance lx)
         else (SY_Gt, lx))
     else if ch = 61 then Some (one_of [(61, SY_Eq), (62, SY_FatArrow)] SY_Assign lx)
     else if ch = 58 then Some (one_of [(61, SY_ColonEq), (58, SY_ColonColon)] SY_Colon lx)
     else map_option (\<lambda>k. (k, lx)) (map_of
       [(40, SY_LParen), (41, SY_RParen), (91, SY_LBracket), (93, SY_RBracket), (123, SY_LBrace),
        (125, SY_RBrace), (44, SY_Comma), (46, SY_Dot), (59, SY_Semicolon)] ch))"

text \<open>\<open>{:?}\<close> of a character below 128.\<close>

definition hex_digit_char :: "nat \<Rightarrow> rchar" where
  "hex_digit_char d = (if d < 10 then 48 + d else 87 + d)"

definition debug_char :: "u8 \<Rightarrow> rstring" where
  "debug_char ch =
    (let c = unat ch;
         body = (if c = 0 then [92, 48]
           else if c = 9 then [92, 116] else if c = 10 then [92, 110] else if c = 13 then [92, 114]
           else if c = 39 \<or> c = 92 then [92, c]
           else if c < 32 \<or> c = 127 then
             [92, 117, 123] @ (if c < 16 then [hex_digit_char c]
               else [hex_digit_char (c div 16), hex_digit_char (c mod 16)]) @ [125]
           else [c]) in
     [39] @ body @ [39])"

definition lex_operator :: "span \<Rightarrow> token lx" where
  "lex_operator span = (\<lambda>lx.
    case lex_symbol (peek lx) (advance lx) of
      Some (k, lx') \<Rightarrow> token_at span (TK_Symbol k) lx'
    | None \<Rightarrow> lex_err_at span (rstr ''unexpected character: '' @ debug_char (peek lx)) (advance lx))"

section \<open>Tokens of a source\<close>

definition lex_here :: "token lx" where
  "lex_here = (\<lambda>lx.
    let span = here lx; ch = peek lx in
    if length (lx_src lx) \<le> lx_pos lx then token_at span TK_Eof lx
    else if ch = 46 \<and> ascii_digit (peek2 lx) then lex_dot_number span lx
    else if ident_start ch then lex_ident span lx
    else if ascii_digit ch then lex_number span lx
    else if ch = 34 then lex_string span lx
    else if ch = 39 then lex_char span lx
    else lex_operator span lx)"

definition next_token :: "token lx" where
  "next_token = sbind (updates skip_whitespace_and_comments) (\<lambda>_. lex_here)"

section \<open>Every token takes a byte\<close>

lemma moves_run [moving_rules]: "moves lx lx' \<Longrightarrow> moving m \<Longrightarrow> moves lx (snd (m lx'))"
  by (rule lexing.rel_trans [OF _ lexing.kept_byD])

lemma moves_skip_exponent [moving_rules]: "moves lx lx' \<Longrightarrow> moves lx (skip_exponent lx')"
  by (simp add: skip_exponent_def Let_def moving_rules)

lemma moves_one_of [moving_rules]: "moves lx lx' \<Longrightarrow> moves lx (snd (one_of longer short lx'))"
  by (simp add: one_of_def moving_rules split: option.split)

lemma moves_symbol: "pred_option (\<lambda>r. moves lx (snd r)) (lex_symbol ch lx)"
  by (simp add: lex_symbol_def moving_rules option.pred_map)

lemma skip_while_first:
  "lx_pos lx < length (lx_src lx) \<Longrightarrow> p (peek lx) \<Longrightarrow> skip_while p lx = skip_while p (advance lx)"
  by (subst skip_while.simps) simp

lemma moving_radix [moving_rules]: "moving (lex_radix span start)" "moving (lex_hex span start)"
  unfolding lex_radix_def lex_hex_def
  by (auto intro!: moving_rules split: sum.split)

lemma moving_decimal [moving_rules]: "moving (lex_decimal span start)"
  by (rule lexing.kept_byI) (auto simp: lex_decimal_def Let_def intro!: moving_rules)

lemma lex_number_moves:
  assumes "lx_pos lx < length (lx_src lx)" and "ascii_digit (peek lx)"
  shows "moves (advance lx) (snd (lex_number span lx))"
proof -
  have hex: "moves (advance lx) (snd (lex_hex span start lx))" for start
    by (simp add: lex_hex_def) (intro moving_rules; simp add: int_token_def; intro moving_rules)
  have "skip_while ascii_digit lx = skip_while ascii_digit (advance lx)"
    by (rule skip_while_first [of lx ascii_digit, OF assms])
  with hex show ?thesis
    by (simp add: lex_number_def Let_def moving_rules)
qed

lemma lex_here_moves:
  assumes "lx_pos lx < length (lx_src lx)"
  shows "moves (advance lx) (snd (lex_here lx))"
proof -
  have dot: "moves (advance lx) (snd (lex_dot_number span lx))" for span
    unfolding lex_dot_number_def by simp (intro moving_rules)
  have ident: "moves (advance lx) (snd (lex_ident span lx))" if "ident_start (peek lx)" for span
  proof -
    have "ident_part (peek lx)" using that by (auto simp: ident_start_def ident_part_def)
    from skip_while_first [of lx ident_part, OF assms this]
    show ?thesis unfolding lex_ident_def by simp (intro moving_rules)
  qed
  have string: "moves (advance lx) (snd (lex_string span lx))" for span
    unfolding lex_string_def by simp (intro moving_rules)
  have char: "moves (advance lx) (snd (lex_char span lx))" for span
  proof -
    have "moving (\<lambda>lx. (if peek lx = 92 then lex_escape else next_utf8_char) lx)"
      by (rule lexing.kept_byI) (simp add: moving_rules)
    moreover have "moving (\<lambda>lx. if peek lx \<noteq> 39 then lex_err msg lx
        else token_at span (TK_CharLit (of_nat v)) (advance lx))" for v msg
      by (rule lexing.kept_byI) (simp add: moving_rules)
    ultimately show ?thesis
      unfolding lex_char_def by simp (intro moving_rules)
  qed
  have op: "moves (advance lx) (snd (lex_operator span lx))" for span
    using moves_symbol [of "advance lx" "peek lx"]
    by (auto simp: lex_operator_def moving_rules split: option.split)
  show ?thesis
    using assms dot ident lex_number_moves [OF assms] string char op
    by (simp add: lex_here_def Let_def)
qed

lemma next_token_moves: "moves lx (snd (next_token lx))"
proof -
  let ?ws = "skip_whitespace_and_comments lx"
  have ws: "moves lx ?ws" by (intro moving_rules)
  have "moves ?ws (snd (lex_here ?ws))"
  proof (cases "lx_pos ?ws < length (lx_src ?ws)")
    case True
    show ?thesis
      by (rule lexing.rel_trans [OF moves_advance [OF moves_refl] lex_here_moves [OF True]])
  next
    case False
    then show ?thesis by (simp add: lex_here_def Let_def moving_rules)
  qed
  with ws show ?thesis by (auto simp: next_token_def intro: lexing.rel_trans)
qed

text \<open>A token that is not the end takes at least a byte, and its span is that of its first one.\<close>

lemma next_token_progress:
  assumes "next_token lx = (Inr tok, lx')" and "tk_kind tok \<noteq> TK_Eof"
  shows "lx_pos lx < lx_pos lx'" "lx_src lx' = lx_src lx" "lx_pos lx < length (lx_src lx)"
proof -
  let ?ws = "skip_whitespace_and_comments lx"
  have ws: "moves lx ?ws" by (intro moving_rules)
  have here: "lex_here ?ws = (Inr tok, lx')" using assms(1) by (simp add: next_token_def)
  have "lx_pos ?ws < length (lx_src ?ws)"
    using here assms(2) by (rule_tac ccontr) (auto simp: lex_here_def Let_def token_at_def sm_run)
  from lex_here_moves [OF this] this ws here show "lx_pos lx < lx_pos lx'" "lx_src lx' = lx_src lx"
    "lx_pos lx < length (lx_src lx)"
    by (auto simp: moves_def advance_pos)
qed

function tokenize :: "token list lx" where
  "tokenize lx =
    (case next_token lx of
       (Inl e, lx') \<Rightarrow> (Inl e, lx')
     | (Inr tok, lx') \<Rightarrow>
         if tk_kind tok = TK_Eof then (Inr [tok], lx')
         else
           (case tokenize lx' of
              (Inl e, lx2) \<Rightarrow> (Inl e, lx2)
            | (Inr toks, lx2) \<Rightarrow> (Inr (tok # toks), lx2)))"
  by pat_completeness auto
termination
proof (relation "measure (\<lambda>lx. length (lx_src lx) - lx_pos lx)", goal_cases)
  case (2 lx r lx' tok)
  then show ?case using next_token_progress [of lx tok lx'] by auto
qed simp

declare tokenize.simps [simp del]

end
