(* ===== verification/LexerProps.thy ===== *)
theory LexerProps
  imports Lexer
begin

text \<open>
  The places of the tokens: every token carries the line and the column of its first byte, and the
  places go forward through the source.
\<close>

section \<open>Places\<close>

definition spans :: "span \<Rightarrow> token lx \<Rightarrow> bool" where
  "spans sp m \<longleftrightarrow> (\<forall>lx tok lx'. m lx = (Inr tok, lx') \<longrightarrow> tk_span tok = sp)"

lemma spans_bind: "(\<And>x. spans sp (f x)) \<Longrightarrow> spans sp (sbind m f)"
  by (auto simp: spans_def elim!: sbind_InrE)

lemma spans_end: "spans sp (token_at sp kind)" "spans sp (lex_err msg)" "spans sp (lex_err_at sp' msg)"
  by (auto simp: spans_def token_at_def sm_run lex_err_def lex_err_at_def)

lemma spans_literal: "spans sp (int_token sp radix s)" "spans sp (real_token sp s)"
  by (simp_all add: int_token_def real_token_def spans_end split: sum.split option.split)

lemmas spans_rules = spans_bind spans_end spans_literal

lemma spans_number: "spans sp (lex_number sp)"
proof -
  have radix: "spans sp (lex_radix sp start)" for start
    unfolding lex_radix_def by (intro spans_bind; split sum.split) (auto intro!: spans_rules)
  have hex: "spans sp (lex_hex sp start)" for start
    unfolding lex_hex_def by (intro spans_rules)
  have "spans sp (if is_float then real_token sp s else int_token sp 10 s)" for is_float s
    by (simp add: spans_literal)
  then have decimal: "spans sp (sbind (text_from start msg) (if is_float then real_token sp else int_token sp 10))"
    for start msg is_float by (intro spans_bind) (simp add: if_distribR spans_literal)
  show ?thesis
    using radix hex decimal by (auto simp: spans_def lex_number_def lex_decimal_def Let_def split: if_splits)
qed

lemma lex_here_span:
  assumes "lex_here lx = (Inr tok, lx')"
  shows "tk_span tok = here lx"
proof -
  have "spans sp (lex_dot_number sp)" "spans sp (lex_ident sp)" "spans sp (lex_string sp)" for sp
    unfolding lex_dot_number_def lex_ident_def lex_string_def by (intro spans_rules)+
  moreover have "spans sp (lex_char sp)" for sp
    unfolding lex_char_def
    by (intro spans_bind) (auto simp: spans_def token_at_def sm_run lex_err_def lex_err_at_def split: if_splits)
  moreover have "spans sp (lex_operator sp)" for sp
    by (auto simp: spans_def lex_operator_def token_at_def sm_run lex_err_at_def split: option.splits prod.splits)
  ultimately have "spans sp (if c1 then token_at sp TK_Eof else if c2 then lex_dot_number sp
      else if c3 then lex_ident sp else if c4 then lex_number sp else if c5 then lex_string sp
      else if c6 then lex_char sp else lex_operator sp)" for sp c1 c2 c3 c4 c5 c6
    by (simp add: spans_number spans_end(1))
  with assms show ?thesis
    unfolding spans_def lex_here_def Let_def if_distribR [symmetric] by metis
qed

text \<open>Tokens at places of the source from a position on, each one behind the one before.\<close>

fun at_places :: "u8 list \<Rightarrow> nat \<Rightarrow> token list \<Rightarrow> bool" where
  "at_places src p [] \<longleftrightarrow> True"
| "at_places src p (t # ts) \<longleftrightarrow>
    (\<exists>q. p \<le> q \<and> q \<le> length src \<and> tk_span t = place_of (take q src) \<and> at_places src (Suc q) ts)"

lemma at_places_bound: "at_places src p ts \<Longrightarrow> length ts \<le> Suc (length src) - p"
proof (induction ts arbitrary: p)
  case (Cons t ts)
  then obtain q where "p \<le> q" "q \<le> length src" "at_places src (Suc q) ts" by auto
  with Cons.IH [of "Suc q"] show ?case by simp
qed simp

lemma at_places_from: "at_places src p ts \<Longrightarrow> p' \<le> p \<Longrightarrow> at_places src p' ts"
  by (cases ts) (auto intro: order_trans)

lemma tokenize_places:
  "tokenize lx = (Inr toks, lx') \<Longrightarrow> placed lx \<Longrightarrow>
    at_places (lx_src lx) (lx_pos lx) toks \<and> (\<exists>ts t. toks = ts @ [t] \<and> tk_kind t = TK_Eof \<and>
      TK_Eof \<notin> tk_kind ` set ts)"
proof (induction lx arbitrary: toks lx' rule: tokenize.induct)
  case (1 lx toks lx')
  let ?ws = "skip_whitespace_and_comments lx"
  obtain tok lx1 where tok: "next_token lx = (Inr tok, lx1)"
    using "1.prems"(1) by (subst (asm) tokenize.simps) (auto split: prod.splits sum.splits)
  have ws: "moves lx ?ws" by (intro moving_rules)
  have "lex_here ?ws = (Inr tok, lx1)" using tok by (simp add: next_token_def)
  from lex_here_span [OF this] have span: "tk_span tok = here ?ws" .
  have placed: "placed ?ws" and src: "lx_src ?ws = lx_src lx" and pos: "lx_pos lx \<le> lx_pos ?ws"
    using ws "1.prems"(2) by (simp_all add: moves_def)
  then have at: "tk_span tok = place_of (take (lx_pos ?ws) (lx_src lx))" "lx_pos ?ws \<le> length (lx_src lx)"
    using span by (simp_all add: placed_def)
  show ?case
  proof (cases "tk_kind tok = TK_Eof")
    case True
    with "1.prems"(1) tok have "toks = [tok]" by (subst (asm) tokenize.simps) simp
    with at pos True show ?thesis by auto
  next
    case False
    with "1.prems"(1) tok obtain rest lx2 where rest: "tokenize lx1 = (Inr rest, lx2)" and toks: "toks = tok # rest"
      by (subst (asm) tokenize.simps) (auto split: prod.splits sum.splits)
    have "lx_pos ?ws < length (lx_src ?ws)"
      using \<open>lex_here ?ws = _\<close> False
      by (rule_tac ccontr) (auto simp: lex_here_def Let_def token_at_def sm_run)
    from lex_here_moves [OF this] this have lx1: "Suc (lx_pos ?ws) \<le> lx_pos lx1" "lx_src lx1 = lx_src lx" "placed lx1"
      using \<open>lex_here ?ws = _\<close> placed src moves_advance [OF moves_refl, of ?ws]
      by (auto simp: moves_def advance_pos)
    with "1.IH" [OF tok [symmetric] refl False rest]
    have rest_at: "at_places (lx_src lx) (Suc (lx_pos ?ws)) rest" and
      "\<exists>ts t. rest = ts @ [t] \<and> tk_kind t = TK_Eof \<and> TK_Eof \<notin> tk_kind ` set ts"
      using at_places_from [OF _ lx1(1)] lx1(2) by auto
    then obtain ts t where "rest = ts @ [t]" "tk_kind t = TK_Eof" "TK_Eof \<notin> tk_kind ` set ts" by blast
    with False toks have "toks = (tok # ts) @ [t] \<and> tk_kind t = TK_Eof \<and> TK_Eof \<notin> tk_kind ` set (tok # ts)"
      by simp
    moreover have "at_places (lx_src lx) (lx_pos lx) toks"
      using at pos rest_at toks by auto
    ultimately show ?thesis by blast
  qed
qed

lemma moving_tokenize: "moving tokenize"
proof (rule lexing.kept_byI)
  fix lx
  show "moves lx (snd (tokenize lx))"
  proof (induction lx rule: tokenize.induct)
    case (1 lx)
    with next_token_moves [of lx] show ?case
      by (subst tokenize.simps) (auto split: prod.splits sum.splits intro: lexing.rel_trans)
  qed
qed


end
