(* ===== verification/TokenText.thy ===== *)
theory TokenText
  imports Lexer
begin

text \<open>
  The texts of the tokens of Limbo, and the lexer on them: whatever sequence of tokens a text spells,
  with white space behind each of them, is the sequence the lexer reads from it.
\<close>

section \<open>Spellings\<close>

definition ident_char :: "rchar \<Rightarrow> bool" where
  "ident_char c \<longleftrightarrow> scalar c \<and>
    (65 \<le> c \<and> c \<le> 90 \<or> 97 \<le> c \<and> c \<le> 122 \<or> 48 \<le> c \<and> c \<le> 57 \<or> c = 95 \<or> 128 \<le> c)"

definition ident_word :: "rstring \<Rightarrow> bool" where
  "ident_word w \<longleftrightarrow> w \<noteq> [] \<and> list_all ident_char w \<and> \<not> (48 \<le> hd w \<and> hd w \<le> 57) \<and> keyword_of w = None"

text \<open>A character as it is, or behind a backslash; \<open>q\<close> is the quote around it.\<close>

definition escape_table :: "(rchar \<times> rchar) list" where
  "escape_table = [(10, 110), (9, 116), (13, 114), (7, 97), (8, 98), (12, 102), (11, 118), (0, 48),
    (92, 92), (34, 34), (39, 39)]"

definition spells_char :: "rchar \<Rightarrow> rchar \<Rightarrow> rstring \<Rightarrow> bool" where
  "spells_char q c t \<longleftrightarrow> scalar c \<and> c \<noteq> q \<and> c \<noteq> 92 \<and> t = [c] \<or>
    list_ex (\<lambda>(c', e). c = c' \<and> t = [92, e]) escape_table"

definition symbol_table :: "(rstring \<times> symbol) list" where
  "symbol_table = [
    ([43], SY_Plus), ([45], SY_Minus), ([42], SY_Star), ([47], SY_Slash), ([37], SY_Percent),
    ([42, 42], SY_Power), ([38], SY_Amp), ([124], SY_Pipe), ([94], SY_Caret), ([126], SY_Tilde),
    ([33], SY_Bang), ([60, 60], SY_Lshift), ([62, 62], SY_Rshift), ([61, 61], SY_Eq),
    ([33, 61], SY_Neq), ([60], SY_Lt), ([62], SY_Gt), ([60, 61], SY_Leq), ([62, 61], SY_Geq),
    ([38, 38], SY_AndAnd), ([124, 124], SY_OrOr), ([58, 58], SY_ColonColon), ([45, 62], SY_Arrow),
    ([60, 45], SY_ChanRecv), ([60, 45, 61], SY_ChanSend), ([61], SY_Assign), ([58, 61], SY_ColonEq),
    ([43, 61], SY_PlusEq), ([45, 61], SY_MinusEq), ([42, 61], SY_StarEq), ([47, 61], SY_SlashEq),
    ([37, 61], SY_PercentEq), ([38, 61], SY_AmpEq), ([124, 61], SY_PipeEq), ([94, 61], SY_CaretEq),
    ([60, 60, 61], SY_LshiftEq), ([62, 62, 61], SY_RshiftEq), ([43, 43], SY_Inc), ([45, 45], SY_Dec),
    ([40], SY_LParen), ([41], SY_RParen), ([91], SY_LBracket), ([93], SY_RBracket), ([123], SY_LBrace),
    ([125], SY_RBrace), ([44], SY_Comma), ([46], SY_Dot), ([59], SY_Semicolon), ([58], SY_Colon),
    ([61, 62], SY_FatArrow)]"

inductive spells :: "token_kind \<Rightarrow> rstring \<Rightarrow> bool" where
  "ident_word w \<Longrightarrow> spells (TK_Ident w) w"
| "(w, k) \<in> set keyword_table \<Longrightarrow> spells (TK_Keyword k) w"
| "(t, k) \<in> set symbol_table \<Longrightarrow> spells (TK_Symbol k) t"
| "n \<le> I64_LIMIT \<Longrightarrow> spells (TK_IntLit (of_nat n)) (show_nat n)"
| "list_all2 (spells_char 34) s ts \<Longrightarrow> spells (TK_StringLit s) (34 # concat ts @ [34])"
| "spells_char 39 c t \<Longrightarrow> spells (TK_CharLit (of_nat c)) (39 # t @ [39])"

definition white_space :: "rstring \<Rightarrow> bool" where
  "white_space g \<longleftrightarrow> g \<noteq> [] \<and> set g \<subseteq> {32, 9, 10, 12, 13}"

section \<open>The bytes ahead\<close>

definition ahead :: "lexer \<Rightarrow> u8 list" where
  "ahead lx = drop (lx_pos lx) (lx_src lx)"

lemma ahead_peek: "ahead lx = b # bs \<Longrightarrow> peek lx = b \<and> lx_pos lx < length (lx_src lx)"
  by (metis ahead_def drop_eq_Nil2 hd_drop_conv_nth leI list.sel(1) list.distinct(1) peek_def)

lemma ahead_peek2: "ahead lx = b # c # bs \<Longrightarrow> peek2 lx = c"
proof -
  assume a: "ahead lx = b # c # bs"
  then have "drop (Suc (lx_pos lx)) (lx_src lx) = c # bs"
    by (metis ahead_def drop_Suc list.sel(3) tl_drop)
  then show ?thesis
    by (metis Suc_eq_plus1 drop_eq_Nil2 hd_drop_conv_nth leI list.sel(1) list.distinct(1) peek2_def)
qed

lemma ahead_advance [simp]: "ahead (advance lx) = tl (ahead lx)"
  by (auto simp: ahead_def advance_pos drop_Suc tl_drop)

lemma ahead_advances [simp]: "ahead ((advance ^^ n) lx) = drop n (ahead lx)"
  by (induction n) (simp_all add: drop_Suc tl_drop)

lemma advances_src [simp]: "lx_src ((advance ^^ n) lx) = lx_src lx"
  by (induction n) simp_all

lemma ahead_skip_while [simp]: "ahead (skip_while p lx) = dropWhile p (ahead lx)"
proof (induction p lx rule: skip_while.induct)
  case (1 p lx)
  show ?case
  proof (cases "ahead lx")
    case Nil
    then show ?thesis by (subst skip_while.simps) (simp add: ahead_def)
  next
    case (Cons b bs)
    with 1 ahead_peek [OF Cons] show ?thesis by (subst skip_while.simps) simp
  qed
qed

lemma taken_ahead:
  assumes "ahead lx = u @ ahead lx'" and "lx_src lx' = lx_src lx" and "ahead lx' \<noteq> []"
  shows "taken_from (lx_pos lx) lx' = u"
proof -
  have "length (lx_src lx) - lx_pos lx = length u + (length (lx_src lx) - lx_pos lx')"
    using arg_cong [OF assms(1), of length] assms(2) by (simp add: ahead_def)
  moreover have "lx_pos lx' < length (lx_src lx)" using assms(2,3) by (simp add: ahead_def)
  ultimately have "lx_pos lx' - lx_pos lx = length u" by linarith
  with assms(1) show ?thesis by (simp add: taken_from_def subrange_def assms(2) ahead_def)
qed

lemma from_utf8_bytes: "list_all scalar s \<Longrightarrow> from_utf8 (as_bytes s) = Some s"
  by (simp add: from_utf8_def)

lemma text_ahead:
  assumes "ahead lx = as_bytes s @ ahead lx'" and "lx_src lx' = lx_src lx" and "ahead lx' \<noteq> []"
    and "list_all scalar s"
  shows "text_from (lx_pos lx) msg lx' = (Inr s, lx')"
  by (simp add: text_from_def taken_ahead [OF assms(1-3)] from_utf8_bytes [OF assms(4)])

lemma as_bytes_Cons: "as_bytes (c # s) = char_utf8 c @ as_bytes s"
  by (simp add: as_bytes_def)

lemma as_bytes_Nil [simp]: "as_bytes [] = []"
  by (simp add: as_bytes_def)

lemma char_utf8_ascii: "c < 128 \<Longrightarrow> char_utf8 c = [byte c]"
  by (simp add: char_utf8_def)

lemma char_utf8_high: "128 \<le> c \<Longrightarrow> scalar c \<Longrightarrow> list_all is_ident_byte (char_utf8 c)"
  by (auto simp: char_utf8_def is_ident_byte_def scalar_def)

section \<open>Reading one token\<close>

text \<open>A word: the bytes that a class of bytes takes, as text.\<close>

lemma word_gives:
  assumes "list_all p (as_bytes s)" and "\<And>w. ascii_whitespace w \<Longrightarrow> \<not> p w" and "list_all scalar s"
    and "ahead lx = as_bytes s @ w # rest" and "ascii_whitespace w"
  shows "ahead (skip_while p lx) = w # rest"
    and "text_from (lx_pos lx) msg (skip_while p lx) = (Inr s, skip_while p lx)"
proof -
  show "ahead (skip_while p lx) = w # rest"
    using assms by (simp add: dropWhile_append2 list_all_iff)
  then show "text_from (lx_pos lx) msg (skip_while p lx) = (Inr s, skip_while p lx)"
    using assms(3,4) by (intro text_ahead) simp_all
qed

lemma whitespace_bytes: "ascii_whitespace w \<Longrightarrow> w \<in> {32, 9, 10, 12, 13}"
  by (auto simp: ascii_whitespace_def)

lemma whitespace_is_no_word:
  assumes "ascii_whitespace w"
  shows "\<not> ident_part w" "\<not> ascii_digit w" "w \<noteq> 120" "w \<noteq> 88" "w \<noteq> 114" "w \<noteq> 82" "w \<noteq> 46" "w \<noteq> 101" "w \<noteq> 69"
  using whitespace_bytes [OF assms]
  by (auto simp: ident_part_def ascii_alphabetic_def ascii_digit_def is_ident_byte_def byte_in_def)

lemma byte_eq_iff: "n < 256 \<Longrightarrow> byte n = b \<longleftrightarrow> n = unat b"
  using unat_byte [of n] by (auto simp: byte_def)

lemma ident_char_bytes: "ident_char c \<Longrightarrow> list_all ident_part (char_utf8 c)"
proof (cases "c < 128")
  case True
  moreover assume "ident_char c"
  ultimately show ?thesis
    by (auto simp: ident_char_def char_utf8_ascii ident_part_def ascii_alphabetic_def ascii_digit_def
        byte_in_def byte_eq_iff)
next
  case False
  moreover assume "ident_char c"
  ultimately show ?thesis
    using char_utf8_high [of c] by (auto simp: ident_char_def ident_part_def list_all_iff)
qed

lemma ident_word_bytes: "list_all ident_char s \<Longrightarrow> list_all ident_part (as_bytes s)"
  by (induction s) (auto simp: as_bytes_Cons ident_char_bytes)

lemma ident_chars_scalar: "list_all ident_char s \<Longrightarrow> list_all scalar s"
  by (auto simp: list_all_iff ident_char_def)

lemma ident_first:
  assumes "s \<noteq> []" and "list_all ident_char s" and "\<not> (48 \<le> hd s \<and> hd s \<le> 57)"
  shows "\<exists>b bs. as_bytes s = b # bs \<and> ident_start b \<and> b \<noteq> 46"
proof -
  obtain c cs where s: "s = c # cs" using assms(1) by (cases s) auto
  have c: "ident_char c" "\<not> (48 \<le> c \<and> c \<le> 57)" using assms s by auto
  show ?thesis
  proof (cases "c < 128")
    case True
    with c have "ident_start (byte c)" "byte c \<noteq> 46"
      by (auto simp: ident_char_def ident_start_def ascii_alphabetic_def byte_in_def byte_eq_iff)
    with True show ?thesis by (simp add: s as_bytes_Cons char_utf8_ascii)
  next
    case False
    with c(1) have "list_all is_ident_byte (char_utf8 c)" by (simp add: char_utf8_high ident_char_def)
    moreover obtain b bs where "char_utf8 c = b # bs" by (cases "char_utf8 c") (auto simp: char_utf8_def split: if_splits)
    ultimately show ?thesis
      by (auto simp: s as_bytes_Cons ident_start_def is_ident_byte_def)
  qed
qed

lemma ident_gives:
  assumes "s \<noteq> []" and "list_all ident_char s" and "\<not> (48 \<le> hd s \<and> hd s \<le> 57)"
    and "ahead lx = as_bytes s @ w # rest" and "ascii_whitespace w"
  shows "\<exists>lx'. lex_here lx = (Inr \<lparr>tk_kind = unwrap_or (TK_Ident s) (keyword_of s), tk_span = here lx\<rparr>, lx') \<and>
    lx_src lx' = lx_src lx \<and> ahead lx' = w # rest"
proof -
  obtain b bs where first: "as_bytes s = b # bs" "ident_start b" "b \<noteq> 46"
    using ident_first [OF assms(1-3)] by blast
  then have "ahead lx = b # bs @ w # rest" using assms(4) by simp
  from ahead_peek [OF this] first have "lex_here lx = lex_ident (here lx) lx"
    by (simp add: lex_here_def Let_def)
  with word_gives [OF ident_word_bytes [OF assms(2)] _ ident_chars_scalar [OF assms(2)] assms(4,5)]
    whitespace_is_no_word(1)
  show ?thesis
    by (simp add: lex_ident_def token_at_def sm_run)
qed

lemmas keyword_codes = keyword_table_def [unfolded rstr_def list.map of_char_Char of_bool_eq, simplified]

lemma keyword_table_words:
  "list_all (\<lambda>(w, k). w \<noteq> [] \<and> list_all ident_char w \<and> \<not> (48 \<le> hd w \<and> hd w \<le> 57)) keyword_table"
  by (simp add: keyword_codes ident_char_def scalar_def)

lemma keyword_table_distinct: "distinct (map fst keyword_table)"
  by (simp add: keyword_codes)

section \<open>Numbers\<close>

lemma add_digits_append: "add_digits r l v (xs @ ys) =
    (case add_digits r l v xs of Inl e \<Rightarrow> Inl e | Inr v' \<Rightarrow> add_digits r l v' ys)"
  by (induction xs arbitrary: v) (auto split: option.split)

lemma add_digits_show: "n \<le> l \<Longrightarrow> add_digits 10 l 0 (show_nat n) = Inr n"
proof (induction n rule: show_nat.induct)
  case (1 n)
  have digit: "to_digit 10 (48 + d) = Some d" if "d < 10" for d
    using that by (simp add: to_digit_def)
  show ?case
  proof (cases "n < 10")
    case True
    with 1 show ?thesis by (subst show_nat.simps) (simp add: digit)
  next
    case False
    have "add_digits 10 l 0 (show_nat (n div 10)) = Inr (n div 10)"
      using 1 False by auto
    moreover have "n div 10 * 10 + n mod 10 = n" by (rule div_mult_mod_eq)
    ultimately show ?thesis
      using False 1(2) by (subst show_nat.simps) (simp add: digit add_digits_append)
  qed
qed

lemma show_nat_chars: "list_all (\<lambda>c. 48 \<le> c \<and> c \<le> 57) (show_nat n)"
  using show_nat_digits [of _ n] by (auto simp: list_all_iff is_digit_def)

lemma show_nat_not_Nil: "show_nat n \<noteq> []"
  by (subst show_nat.simps) simp

lemma digit_bytes: "list_all (\<lambda>c. 48 \<le> c \<and> c \<le> 57) s \<Longrightarrow> list_all ascii_digit (as_bytes s)"
  by (induction s) (auto simp: as_bytes_Cons char_utf8_ascii ascii_digit_def byte_in_def)

lemma digit_is_no_mark:
  assumes "ascii_digit b"
  shows "b \<noteq> 120" "b \<noteq> 88" "b \<noteq> 46" "\<not> ident_start b"
  using assms by (auto simp: ascii_digit_def byte_in_def ident_start_def ascii_alphabetic_def is_ident_byte_def)

lemma number_gives:
  assumes n: "n \<le> I64_LIMIT" and at: "ahead lx = as_bytes (show_nat n) @ w # rest" and w: "ascii_whitespace w"
  shows "\<exists>lx'. lex_here lx = (Inr \<lparr>tk_kind = TK_IntLit (of_nat n), tk_span = here lx\<rparr>, lx') \<and>
    lx_src lx' = lx_src lx \<and> ahead lx' = w # rest"
proof -
  let ?s = "show_nat n"
  have digits: "list_all ascii_digit (as_bytes ?s)" by (rule digit_bytes [OF show_nat_chars])
  have scalars: "list_all scalar ?s" using show_nat_chars [of n] by (auto simp: list_all_iff scalar_def)
  note word = word_gives [OF digits _ scalars at w, OF whitespace_is_no_word(2)]
  have "as_bytes ?s \<noteq> []" using show_nat_not_Nil [of n]
    by (cases ?s) (auto simp: as_bytes_Cons char_utf8_def)
  then obtain b bs where b: "as_bytes ?s = b # bs" by (cases "as_bytes ?s") auto
  with at have first: "ahead lx = b # bs @ w # rest" "ascii_digit b" using digits by simp_all
  obtain c cs where c: "bs @ w # rest = c # cs" by (cases "bs @ w # rest") auto
  have "c \<noteq> 120" "c \<noteq> 88"
    using c digits b digit_is_no_mark whitespace_is_no_word [OF w] by (cases bs; auto)+
  then have no_hex: "peek2 lx \<noteq> 120" "peek2 lx \<noteq> 88" using ahead_peek2 [of lx b c cs] first c by simp_all
  let ?lx' = "skip_while ascii_digit lx"
  have "peek ?lx' = w" using ahead_peek [OF word(1)] by simp
  then have no_mark: "peek ?lx' \<noteq> 114" "peek ?lx' \<noteq> 82" "peek ?lx' \<noteq> 46" "\<not> at_exponent ?lx'"
    using whitespace_is_no_word [OF w] by (simp_all add: at_exponent_def)
  have "lex_here lx = lex_number (here lx) lx"
    using ahead_peek [OF first(1)] first(2) digit_is_no_mark [OF first(2)] by (simp add: lex_here_def Let_def)
  also have "\<dots> = lex_decimal (here lx) (lx_pos lx) ?lx'"
    using no_hex no_mark by (simp add: lex_number_def Let_def)
  also have "\<dots> = int_token (here lx) 10 ?s ?lx'"
    using no_mark word(2) by (simp add: lex_decimal_def Let_def skip_exponent_def)
  also have "\<dots> = (Inr \<lparr>tk_kind = TK_IntLit (of_nat n), tk_span = here lx\<rparr>, ?lx')"
    using add_digits_show [OF n] show_nat_not_Nil [of n]
    by (simp add: int_token_def parse_unsigned_def token_at_def sm_run)
  finally show ?thesis using word(1) by simp
qed

lemma keyword_word:
  assumes "(w, k) \<in> set keyword_table"
  shows "w \<noteq> []" "list_all ident_char w" "\<not> (48 \<le> hd w \<and> hd w \<le> 57)" "keyword_of w = Some (TK_Keyword k)"
  using assms keyword_table_words map_of_eq_Some_iff [OF keyword_table_distinct, of w k]
  by (auto simp: list_all_iff keyword_of_def)

section \<open>Strings and characters\<close>

lemma utf8_len_char: "scalar c \<Longrightarrow> utf8_len (hd (char_utf8 c)) = length (char_utf8 c)"
  by (auto simp: char_utf8_def utf8_len_def byte_in_def scalar_def)

text \<open>A character in front is the next one, whatever follows it.\<close>

lemma next_char_ahead:
  assumes "scalar c" and at: "ahead lx = char_utf8 c @ rest"
  shows "\<exists>lx'. next_utf8_char lx = (Inr c, lx') \<and> lx_src lx' = lx_src lx \<and> ahead lx' = rest"
proof -
  obtain b bs where b: "char_utf8 c = b # bs"
    by (cases "char_utf8 c") (auto simp: char_utf8_def split: if_splits)
  have lead: "peek lx = b" using ahead_peek [of lx b] at b by simp
  have "lx_pos lx + length (char_utf8 c) \<le> length (lx_src lx)"
    using arg_cong [OF at, of length] b by (simp add: ahead_def)
  then have "min (lx_pos lx + utf8_len b) (length (lx_src lx)) - lx_pos lx = length (char_utf8 c)"
    using utf8_len_char [OF assms(1)] b by simp
  moreover have "take (length (char_utf8 c)) (drop (lx_pos lx) (lx_src lx)) = as_bytes [c]"
    using at by (simp add: ahead_def as_bytes_Cons)
  moreover have "from_utf8 (as_bytes [c]) = Some [c]" using assms(1) by (intro from_utf8_bytes) simp
  ultimately have "next_utf8_char lx = (Inr c, (advance ^^ length (char_utf8 c)) lx)"
    by (simp add: next_utf8_char_def Let_def lead subrange_def)
  then show ?thesis using at by simp
qed

lemma char_first_byte:
  assumes "scalar c" and "q < 128" and "c \<noteq> q"
  shows "\<exists>b bs. char_utf8 c = b # bs \<and> b \<noteq> byte q"
proof (cases "c < 128")
  case True
  then have "byte c \<noteq> byte q" using assms(2,3) byte_eq_iff [of c "byte q"] by simp
  with True show ?thesis by (simp add: char_utf8_ascii)
next
  case False
  with assms have "list_all is_ident_byte (char_utf8 c)" by (simp add: char_utf8_high)
  moreover have "\<not> is_ident_byte (byte q)" using assms(2) by (simp add: is_ident_byte_def)
  ultimately show ?thesis
    by (cases "char_utf8 c") (auto simp: char_utf8_def split: if_splits)
qed

lemma escape_ahead:
  assumes "(c, e) \<in> set escape_table" and "ahead lx = 92 # byte e # rest"
  shows "\<exists>lx'. lex_escape lx = (Inr c, lx') \<and> lx_src lx' = lx_src lx \<and> ahead lx' = rest"
proof -
  have "ahead (advance lx) = byte e # rest" using assms(2) by simp
  from ahead_peek [OF this] have "peek (advance lx) = byte e" by simp
  moreover have "byte e \<noteq> 117 \<and> escape_value (byte e) lx' = (Inr c, lx')" for lx'
    using assms(1) by (auto simp: escape_table_def escape_value_def byte_eq_iff sm_run)
  ultimately show ?thesis using assms(2) by (simp add: lex_escape_def)
qed

lemma escape_table_ascii: "(c, e) \<in> set escape_table \<Longrightarrow> c < 128 \<and> e < 128"
  by (auto simp: escape_table_def)

lemma spells_charE:
  assumes "spells_char q c t"
  obtains (plain) "scalar c" "c \<noteq> q" "c \<noteq> 92" "t = [c]"
    | (escape) e where "(c, e) \<in> set escape_table" "t = [92, e]" "scalar c"
  using assms escape_table_ascii [of c]
  by (fastforce simp: spells_char_def list_ex_iff scalar_def)

lemma string_body_ahead:
  assumes "list_all2 (spells_char 34) s ts" and "ahead lx = as_bytes (concat ts) @ 34 # rest"
  shows "\<exists>lx'. lex_string_body acc lx = (Inr (acc @ s), lx') \<and> lx_src lx' = lx_src lx \<and> ahead lx' = rest"
  using assms
proof (induction s ts arbitrary: acc lx rule: list_all2_induct)
  case Nil
  then have "ahead lx = 34 # rest" by simp
  from ahead_peek [OF this] show ?case
    using Nil by (subst lex_string_body.simps) simp
next
  case (Cons c s t ts)
  from Cons(1) show ?case
  proof (cases rule: spells_charE)
    case plain
    then have at: "ahead lx = char_utf8 c @ as_bytes (concat ts) @ 34 # rest"
      using Cons.prems by (simp add: as_bytes_Cons)
    obtain lx1 where lx1: "next_utf8_char lx = (Inr c, lx1)" "lx_src lx1 = lx_src lx"
      "ahead lx1 = as_bytes (concat ts) @ 34 # rest"
      using next_char_ahead [OF plain(1) at] by blast
    obtain b bs where b: "char_utf8 c = b # bs" "b \<noteq> 34" "b \<noteq> 92"
      using char_first_byte [OF plain(1) _ plain(2)] char_first_byte [OF plain(1) _ plain(3)]
      by (auto simp: byte_def)
    then have "ahead lx = b # bs @ as_bytes (concat ts) @ 34 # rest" using at by simp
    from ahead_peek [OF this] b lx1 Cons.IH [OF lx1(3), of "acc @ [c]"] show ?thesis
      by (subst lex_string_body.simps) simp
  next
    case (escape e)
    then have at: "ahead lx = 92 # byte e # as_bytes (concat ts) @ 34 # rest"
      using Cons.prems escape_table_ascii [OF escape(1)]
      by (simp add: as_bytes_Cons char_utf8_ascii byte_eq_iff)
    obtain lx1 where lx1: "lex_escape lx = (Inr c, lx1)" "lx_src lx1 = lx_src lx"
      "ahead lx1 = as_bytes (concat ts) @ 34 # rest"
      using escape_ahead [OF escape(1) at] by blast
    from ahead_peek [OF at] lx1 Cons.IH [OF lx1(3), of "acc @ [c]"] escape(3) show ?thesis
      by (subst lex_string_body.simps) simp
  qed
qed

lemma string_gives:
  assumes "list_all2 (spells_char 34) s ts" and "ahead lx = 34 # as_bytes (concat ts) @ 34 # rest"
  shows "\<exists>lx'. lex_here lx = (Inr \<lparr>tk_kind = TK_StringLit s, tk_span = here lx\<rparr>, lx') \<and>
    lx_src lx' = lx_src lx \<and> ahead lx' = rest"
proof -
  have "ahead (advance lx) = as_bytes (concat ts) @ 34 # rest" using assms(2) by simp
  from string_body_ahead [OF assms(1) this, of "[]"] ahead_peek [OF assms(2)]
  show ?thesis
    by (auto simp: lex_here_def Let_def lex_string_def token_at_def sm_run ident_start_def
        ascii_alphabetic_def ascii_digit_def is_ident_byte_def byte_in_def)
qed

lemma char_gives:
  assumes "spells_char 39 c t" and at: "ahead lx = 39 # as_bytes t @ 39 # rest"
  shows "\<exists>lx'. lex_here lx = (Inr \<lparr>tk_kind = TK_CharLit (of_nat c), tk_span = here lx\<rparr>, lx') \<and>
    lx_src lx' = lx_src lx \<and> ahead lx' = rest"
proof -
  let ?m = "if peek (advance lx) = 92 then lex_escape else next_utf8_char"
  have at1: "ahead (advance lx) = as_bytes t @ 39 # rest" using at by simp
  have "\<exists>lx'. ?m (advance lx) = (Inr c, lx') \<and> lx_src lx' = lx_src (advance lx) \<and> ahead lx' = 39 # rest"
    using assms(1)
  proof (cases rule: spells_charE)
    case plain
    then obtain b bs where b: "char_utf8 c = b # bs" "b \<noteq> 92"
      using char_first_byte [OF plain(1) _ plain(3)] by (auto simp: byte_def)
    with at1 plain have "ahead (advance lx) = b # bs @ 39 # rest" by (simp add: as_bytes_Cons)
    from ahead_peek [OF this] b next_char_ahead [OF plain(1), of "advance lx" "39 # rest"] at1 plain
    show ?thesis by (simp add: as_bytes_Cons)
  next
    case (escape e)
    then have "ahead (advance lx) = 92 # byte e # 39 # rest"
      using at1 escape_table_ascii [OF escape(1)] by (simp add: as_bytes_Cons char_utf8_ascii byte_eq_iff)
    from ahead_peek [OF this] escape_ahead [OF escape(1) this] show ?thesis by simp
  qed
  then obtain lx1 where lx1: "?m (advance lx) = (Inr c, lx1)" "lx_src lx1 = lx_src lx" "ahead lx1 = 39 # rest"
    by auto
  have "lex_here lx = lex_char (here lx) lx"
    using ahead_peek [OF at]
    by (simp add: lex_here_def Let_def ident_start_def ascii_alphabetic_def ascii_digit_def is_ident_byte_def byte_in_def)
  also have "\<dots> = (Inr \<lparr>tk_kind = TK_CharLit (of_nat c), tk_span = here lx\<rparr>, advance lx1)"
    using lx1 ahead_peek [OF lx1(3)] by (simp add: lex_char_def token_at_def sm_run split: if_splits)
  finally show ?thesis using lx1 by simp
qed

section \<open>Symbols\<close>

text \<open>A symbol is decided by its bytes and by one behind it that continues none.\<close>

fun symbol_step :: "u8 \<Rightarrow> lexer \<Rightarrow> rstring \<times> symbol \<Rightarrow> bool" where
  "symbol_step w lx ([a], k) \<longleftrightarrow> (peek lx = w \<longrightarrow> lex_symbol (byte a) lx = Some (k, lx))"
| "symbol_step w lx ([a, b], k) \<longleftrightarrow>
    (peek lx = byte b \<longrightarrow> peek (advance lx) = w \<longrightarrow> lex_symbol (byte a) lx = Some (k, advance lx))"
| "symbol_step w lx ([a, b, c], k) \<longleftrightarrow>
    (peek lx = byte b \<longrightarrow> peek (advance lx) = byte c \<longrightarrow>
      lex_symbol (byte a) lx = Some (k, advance (advance lx)))"
| "symbol_step w lx _ \<longleftrightarrow> False"

lemma symbol_steps:
  assumes "ascii_whitespace w"
  shows "list_all (symbol_step w lx) symbol_table"
proof -
  have "w \<noteq> 43 \<and> w \<noteq> 45 \<and> w \<noteq> 61 \<and> w \<noteq> 62 \<and> w \<noteq> 42 \<and> w \<noteq> 38 \<and> w \<noteq> 124 \<and> w \<noteq> 60 \<and> w \<noteq> 58"
    using whitespace_bytes [OF assms] by auto
  then show ?thesis
    by (simp add: symbol_table_def lex_symbol_def one_of_def byte_def)
qed

lemma symbol_table_first:
  "list_all (\<lambda>(t, k). t \<noteq> [] \<and> list_all (\<lambda>c. c < 128) t \<and> \<not> ident_start (byte (hd t)) \<and>
    \<not> ascii_digit (byte (hd t)) \<and> byte (hd t) \<notin> {34, 39} \<and> \<not> ascii_whitespace (byte (hd t)) \<and>
    byte (hd t) \<noteq> 35 \<and> (hd t = 46 \<longrightarrow> tl t = [])) symbol_table"
  by (simp add: symbol_table_def byte_def ident_start_def ascii_alphabetic_def ascii_digit_def
      is_ident_byte_def byte_in_def ascii_whitespace_def)

lemma as_bytes_ascii: "list_all (\<lambda>c. c < 128) t \<Longrightarrow> as_bytes t = map byte t"
  by (induction t) (simp_all add: as_bytes_Cons char_utf8_ascii)

lemma symbol_word:
  assumes "(t, k) \<in> set symbol_table"
  obtains a s where "t = a # s" "a < 128" "as_bytes t = map byte t" "\<not> ident_start (byte a)"
    "\<not> ascii_digit (byte a)" "byte a \<noteq> 34" "byte a \<noteq> 39" "\<not> ascii_whitespace (byte a)" "byte a \<noteq> 35"
    "a = 46 \<longrightarrow> s = []"
proof -
  have "\<exists>a s. t = a # s \<and> a < 128 \<and> as_bytes t = map byte t \<and> \<not> ident_start (byte a) \<and>
    \<not> ascii_digit (byte a) \<and> byte a \<noteq> 34 \<and> byte a \<noteq> 39 \<and> \<not> ascii_whitespace (byte a) \<and> byte a \<noteq> 35 \<and>
    (a = 46 \<longrightarrow> s = [])"
    using assms symbol_table_first as_bytes_ascii [of t] by (cases t) (auto simp: list_all_iff)
  then show ?thesis using that by blast
qed

lemma symbol_gives:
  assumes k: "(t, k) \<in> set symbol_table" and at: "ahead lx = as_bytes t @ w # rest" and w: "ascii_whitespace w"
  shows "\<exists>lx'. lex_here lx = (Inr \<lparr>tk_kind = TK_Symbol k, tk_span = here lx\<rparr>, lx') \<and>
    lx_src lx' = lx_src lx \<and> ahead lx' = w # rest"
  using k
proof (rule symbol_word)
  fix a s
  assume t: "t = a # s" "a < 128" "as_bytes t = map byte t"
    and a: "\<not> ident_start (byte a)" "\<not> ascii_digit (byte a)" "byte a \<noteq> 34" "byte a \<noteq> 39" "a = 46 \<longrightarrow> s = []"
  have at0: "ahead lx = byte a # map byte s @ w # rest" using at t by simp
  have at1: "ahead (advance lx) = map byte s @ w # rest" using at0 by simp
  have "\<not> (peek lx = 46 \<and> ascii_digit (peek2 lx))"
  proof
    assume "peek lx = 46 \<and> ascii_digit (peek2 lx)"
    moreover from this have "s = []" using ahead_peek [OF at0] a(5) t(2) by (simp add: byte_eq_iff)
    ultimately show False using ahead_peek2 [of lx _ w rest] at0 whitespace_is_no_word(2) [OF w] by simp
  qed
  then have here: "lex_here lx = lex_operator (here lx) lx"
    using ahead_peek [OF at0] a by (auto simp: lex_here_def Let_def)
  have step: "symbol_step w (advance lx) (t, k)"
    using symbol_steps [OF w, of "advance lx"] k by (simp add: list_all_iff)
  have "\<exists>lx'. lex_symbol (byte a) (advance lx) = Some (k, lx') \<and> lx_src lx' = lx_src lx \<and> ahead lx' = w # rest"
  proof (cases s)
    case Nil
    then show ?thesis using step t at1 ahead_peek [of "advance lx"] by simp
  next
    case (Cons b s')
    then have b: "peek (advance lx) = byte b" "ahead (advance (advance lx)) = map byte s' @ w # rest"
      using at1 ahead_peek [of "advance lx"] by simp_all
    show ?thesis
    proof (cases s')
      case Nil
      then show ?thesis using step t b Cons ahead_peek [of "advance (advance lx)"] by simp
    next
      case (Cons c s'')
      then show ?thesis
        using step t b \<open>s = b # s'\<close> ahead_peek [of "advance (advance lx)"] by (cases s'') simp_all
    qed
  qed
  then show ?thesis using here ahead_peek [OF at0] by (auto simp: lex_operator_def token_at_def sm_run)
qed

section \<open>Sequences of tokens\<close>

lemma spells_reads:
  assumes "spells k t" and "ahead lx = as_bytes t @ w # rest" and "ascii_whitespace w"
  shows "\<exists>lx'. lex_here lx = (Inr \<lparr>tk_kind = k, tk_span = here lx\<rparr>, lx') \<and>
    lx_src lx' = lx_src lx \<and> ahead lx' = w # rest"
  using assms(1)
proof cases
  case 1
  then show ?thesis using ident_gives [OF _ _ _ assms(2,3)] by (simp add: ident_word_def)
next
  case (2 k)
  then show ?thesis using ident_gives [OF keyword_word(1-3) assms(2,3)] keyword_word(4) by simp
next
  case (3 k)
  then show ?thesis using symbol_gives [OF _ assms(2,3)] by simp
next
  case (4 n)
  then show ?thesis using number_gives [OF 4(3) _ assms(3)] assms(2) by simp
next
  case (5 s ts)
  then show ?thesis
    using string_gives [OF 5(3), of lx "w # rest"] assms(2) by (simp add: as_bytes_Cons char_utf8_ascii byte_def)
next
  case (6 c t)
  then show ?thesis
    using char_gives [OF 6(3), of lx "w # rest"] assms(2) by (simp add: as_bytes_Cons char_utf8_ascii byte_def)
qed

definition token_start :: "u8 list \<Rightarrow> bool" where
  "token_start bs \<longleftrightarrow> (case bs of [] \<Rightarrow> False | b # _ \<Rightarrow> \<not> ascii_whitespace b \<and> b \<noteq> 35)"

lemma token_start_append: "token_start bs \<Longrightarrow> token_start (bs @ cs)"
  by (cases bs) (simp_all add: token_start_def)

lemma word_start:
  assumes "s \<noteq> []" and "list_all ident_char s"
  shows "token_start (as_bytes s)"
proof -
  have "list_all ident_part (as_bytes s)" by (rule ident_word_bytes [OF assms(2)])
  moreover have "as_bytes s \<noteq> []"
    using assms(1) by (cases s) (auto simp: as_bytes_Cons char_utf8_def)
  moreover have "\<not> ident_part 35"
    by (simp add: ident_part_def ascii_alphabetic_def ascii_digit_def is_ident_byte_def byte_in_def)
  ultimately show ?thesis
    using whitespace_is_no_word(1) by (cases "as_bytes s") (auto simp: token_start_def)
qed

lemma spells_start:
  assumes "spells k t"
  shows "token_start (as_bytes t)"
  using assms
proof cases
  case 1
  then show ?thesis using word_start by (simp add: ident_word_def)
next
  case (2 k)
  then show ?thesis using keyword_word word_start by simp
next
  case (3 k)
  from 3(2) show ?thesis by (rule symbol_word) (simp add: token_start_def)
next
  case (4 n)
  have "list_all ident_char (show_nat n)"
    using show_nat_chars [of n] by (auto simp: list_all_iff ident_char_def scalar_def)
  with 4 show_nat_not_Nil word_start show ?thesis by simp
qed (simp_all add: token_start_def as_bytes_Cons char_utf8_ascii byte_def ascii_whitespace_def)

lemma white_space_bytes:
  "set g \<subseteq> {32, 9, 10, 12, 13} \<Longrightarrow> list_all ascii_whitespace (as_bytes g)"
  by (induction g) (auto simp: as_bytes_Cons char_utf8_ascii byte_def ascii_whitespace_def)

lemma ahead_skip:
  assumes "ahead lx = ws @ bs" and "list_all ascii_whitespace ws" and "bs = [] \<or> token_start bs"
  shows "ahead (skip_whitespace_and_comments lx) = bs \<and> lx_src (skip_whitespace_and_comments lx) = lx_src lx"
proof -
  have skip: "ahead (skip_while ascii_whitespace lx) = bs"
    using assms by (cases bs) (auto simp: dropWhile_append2 list_all_iff token_start_def)
  have "peek (skip_while ascii_whitespace lx) \<noteq> 35"
  proof (cases bs)
    case Nil
    with skip show ?thesis by (simp add: ahead_def peek_def)
  next
    case (Cons b bs')
    with skip assms(3) ahead_peek [of "skip_while ascii_whitespace lx" b bs'] show ?thesis
      by (simp add: token_start_def)
  qed
  with skip show ?thesis
    by (subst (1 2) skip_whitespace_and_comments.simps) (simp add: Let_def)
qed

definition spaced :: "(rstring \<times> rstring) list \<Rightarrow> rstring" where
  "spaced words = concat (map (\<lambda>(t, g). t @ g) words)"

lemma tokenize_spaced:
  assumes "list_all2 (\<lambda>k (t, g). spells k t \<and> white_space g) kinds words"
    and "ahead lx = ws @ as_bytes (spaced words)" and "list_all ascii_whitespace ws"
  shows "\<exists>toks lx'. tokenize lx = (Inr toks, lx') \<and> map tk_kind toks = kinds @ [TK_Eof]"
  using assms
proof (induction kinds words arbitrary: lx ws rule: list_all2_induct)
  case Nil
  then have "ahead (skip_whitespace_and_comments lx) = []"
    using ahead_skip [of lx ws "[]"] by (simp add: spaced_def)
  then have "\<exists>sp lx'. next_token lx = (Inr \<lparr>tk_kind = TK_Eof, tk_span = sp\<rparr>, lx')"
    by (simp add: next_token_def lex_here_def Let_def token_at_def sm_run ahead_def)
  then show ?case by (subst tokenize.simps) auto
next
  case (Cons k kinds w words)
  obtain t g where w: "w = (t, g)" by fastforce
  then have k: "spells k t" "white_space g" using Cons(1) by simp_all
  obtain g0 gs where g: "as_bytes g = g0 # gs" "ascii_whitespace g0" "list_all ascii_whitespace gs"
    using k(2) white_space_bytes [of g]
    by (cases g) (auto simp: white_space_def as_bytes_Cons char_utf8_def list_all_iff split: if_splits)
  let ?rest = "as_bytes (spaced words)" and ?ws = "skip_whitespace_and_comments lx"
  have "ahead lx = ws @ as_bytes t @ g0 # gs @ ?rest"
    using Cons.prems(1) g(1) by (simp add: w spaced_def)
  then have at: "ahead ?ws = as_bytes t @ g0 # gs @ ?rest"
    using ahead_skip [of lx ws] Cons.prems(2) token_start_append [OF spells_start [OF k(1)]] by blast
  obtain lx1 where lx1: "lex_here ?ws = (Inr \<lparr>tk_kind = k, tk_span = here ?ws\<rparr>, lx1)"
    "ahead lx1 = g0 # gs @ ?rest"
    using spells_reads [OF k(1) at g(2)] by blast
  then obtain toks lx' where "tokenize lx1 = (Inr toks, lx')" "map tk_kind toks = kinds @ [TK_Eof]"
    using Cons.IH [of lx1 "g0 # gs"] g by auto
  moreover have "k \<noteq> TK_Eof" using k(1) by cases simp_all
  moreover have "next_token lx = (Inr \<lparr>tk_kind = k, tk_span = here ?ws\<rparr>, lx1)"
    using lx1(1) by (simp add: next_token_def)
  ultimately show ?case by (subst tokenize.simps) auto
qed

text \<open>
  C16. A source that spells tokens one after another, with white space behind each, is read as those
  tokens and the end: identifiers, keywords, symbols, decimal integers that fit, strings and characters
  as they are or behind a backslash.
\<close>

theorem spelled_tokens_are_read:
  assumes "list_all2 (\<lambda>k (t, g). spells k t \<and> white_space g) kinds words"
  shows "\<exists>toks lx. tokenize (lexer_new (spaced words) file) = (Inr toks, lx) \<and>
    map tk_kind toks = kinds @ [TK_Eof]"
  using tokenize_spaced [OF assms, of "lexer_new (spaced words) file" "[]"]
  by (simp add: lexer_new_def ahead_def)

theorem spelled_tokens_are_read_witness:
  "\<exists>toks lx.
     tokenize (lexer_new (spaced [(rstr ''x'', [32]), ([43, 61], [9]), (show_nat 342, [32, 10]),
       ([34, 104, 92, 110, 34], [32]), ([39, 92, 39, 39], [13]), (rstr ''tl'', [10])]) []) = (Inr toks, lx) \<and>
     map tk_kind toks = [TK_Ident (rstr ''x''), TK_Symbol SY_PlusEq, TK_IntLit 342, TK_StringLit [104, 10],
       TK_CharLit 39, TK_Keyword KW_Tl] @ [TK_Eof]"
proof (rule spelled_tokens_are_read)
  have "spells (TK_Ident (rstr ''x'')) (rstr ''x'')" "spells (TK_Keyword KW_Tl) (rstr ''tl'')"
    by (rule spells.intros; simp add: ident_word_def keyword_of_def keyword_codes ident_char_def scalar_def rstr_def)+
  moreover have "spells (TK_Symbol SY_PlusEq) [43, 61]"
    by (rule spells.intros) (simp add: symbol_table_def)
  moreover have "spells (TK_IntLit 342) (show_nat 342)"
    using spells.intros(4) [of 342] by (simp add: I64_LIMIT_def)
  moreover have "spells (TK_StringLit [104, 10]) (34 # concat [[104], [92, 110]] @ [34])"
    by (rule spells.intros) (simp add: spells_char_def scalar_def escape_table_def)
  moreover have "spells (TK_CharLit (of_nat 39)) (39 # [92, 39] @ [39])"
    by (rule spells.intros) (simp add: spells_char_def escape_table_def)
  ultimately show "list_all2 (\<lambda>k (t, g). spells k t \<and> white_space g)
      [TK_Ident (rstr ''x''), TK_Symbol SY_PlusEq, TK_IntLit 342, TK_StringLit [104, 10], TK_CharLit 39,
        TK_Keyword KW_Tl]
      [(rstr ''x'', [32]), ([43, 61], [9]), (show_nat 342, [32, 10]), ([34, 104, 92, 110, 34], [32]),
        ([39, 92, 39, 39], [13]), (rstr ''tl'', [10])]"
    by (simp add: white_space_def)
qed

end
