(* ===== verification/Ast.thy ===== *)
theory Ast
  imports Token Reals
begin

text \<open>
  The syntax trees of the Limbo compiler (\<open>crates/ricevm-limbo/src/ast.rs\<close>). Expressions, types and
  the declarations inside modules contain each other; the structs between them take the types of their
  parts as parameters, so that only types and expressions recurse.
\<close>

section \<open>Names and operators\<close>

text \<open>\<open>Module.func\<close> or just \<open>func\<close>.\<close>

record qual_name =
  qn_qualifier :: "rstring option"
  qn_name :: rstring

datatype basic_type = BT_Int | BT_Byte | BT_Big | BT_Real | BT_String

datatype bin_op =
    BO_Add | BO_Sub | BO_Mul | BO_Div | BO_Mod | BO_Power | BO_And | BO_Or | BO_Xor | BO_Lshift
  | BO_Rshift | BO_Eq | BO_Neq | BO_Lt | BO_Gt | BO_Leq | BO_Geq | BO_LogAnd | BO_LogOr

datatype unary_op = UO_Neg | UO_Not | UO_BitNot | UO_Ref

section \<open>Declarations\<close>

text \<open>Over the expressions \<open>'e\<close> and the types \<open>'t\<close>.\<close>

datatype (plugins only: code) 't param =
  Param (prm_names: "rstring list") (prm_ty: 't) (prm_is_self: bool) (prm_is_nil: bool)

datatype (plugins only: code) 't func_sig =
  FuncSig (sig_name: rstring) (sig_params: "'t param list") (sig_ret: "'t option") (sig_span: span)

datatype (plugins only: code) ('e, 't) const_decl =
  ConstDecl (cd_name: rstring) (cd_ty: "'t option") (cd_value: 'e) (cd_span: span)

datatype (plugins only: code) 't type_alias_decl =
  TypeAliasDecl (ta_name: rstring) (ta_ty: 't) (ta_span: span)

datatype (plugins only: code) ('e, 't) var_decl =
  VarDecl (vd_names: "rstring list") (vd_ty: "'t option") (vd_init: "'e option") (vd_span: span)

datatype (plugins only: code) 't exception_decl =
  ExceptionDecl (xd_name: rstring) (xd_ty: "'t option") (xd_span: span)

datatype (plugins only: code) ('e, 't) adt_member =
    AM_Field "('e, 't) var_decl"
  | AM_Const "('e, 't) const_decl"
  | AM_Func "'t func_sig"

datatype (plugins only: code) ('e, 't) pick_case =
  PickCase (pc_tags: "rstring list") (pc_fields: "('e, 't) var_decl list")

datatype (plugins only: code) ('e, 't) adt_decl =
  AdtDecl (ad_name: rstring) (ad_members: "('e, 't) adt_member list")
    (ad_pick: "('e, 't) pick_case list option") (ad_span: span)

datatype (plugins only: code) ('e, 't) module_member =
    MM_Const "('e, 't) const_decl"
  | MM_TypeAlias "'t type_alias_decl"
  | MM_Var "('e, 't) var_decl"
  | MM_Func "'t func_sig"
  | MM_Adt "('e, 't) adt_decl"
  | MM_Exception "'t exception_decl"

section \<open>Types and expressions\<close>

datatype (plugins only: code) 'e type_of =
    T_Basic basic_type
  | T_Array "'e type_of"
  | T_List "'e type_of"
  | T_Chan "'e type_of"
  | T_BufChan 'e "'e type_of"
  | T_Ref "'e type_of"
  | T_Tuple "'e type_of list"
  | T_Func "'e type_of func_sig"
  | T_Named qual_name
  | T_Module "('e, 'e type_of) module_member list"

text \<open>One element of an array literal, with the index it names.\<close>

datatype (plugins only: code) 'e array_index = AI_Selectors "('e \<times> 'e option) list" | AI_Wildcard

datatype (plugins only: code) 'e array_elem =
  ArrayElem (ae_index: "'e array_index option") (ae_value: 'e)

datatype (plugins only: code) expr =
    E_IntLit i64 span
  | E_RealLit f64_bits span
  | E_StringLit rstring span
  | E_CharLit i32 span
  | E_Nil span
  | E_Ident rstring span
  | E_Binary expr bin_op expr span
  | E_Unary unary_op expr span
  | E_Call expr "expr list" span
  | E_Dot expr rstring span
  | E_ModQual expr rstring span
  | E_Index expr expr span
  | E_Slice expr "expr option" "expr option" span
  | E_Tuple "expr list" span
  | E_Cons expr expr span
  | E_Recv expr span
  | E_Send expr expr span
  | E_Load "expr type_of" expr span
  | E_ArrayAlloc expr "expr type_of" span
  | E_ArrayLit "expr option" "expr array_elem list" "expr type_of option" span
  | E_ChanAlloc "expr type_of" span
  | E_ListLit "expr list" span
  | E_RefAlloc "expr type_of" "expr list" span
  | E_Cast "expr type_of" expr span
  | E_DeclAssign "rstring list" expr span
  | E_TupleDeclAssign "rstring list" expr span
  | E_Assign expr expr span
  | E_CompoundAssign expr bin_op expr span
  | E_Hd expr span
  | E_Tl expr span
  | E_Len expr span
  | E_Tagof expr span
  | E_PostInc expr span
  | E_PostDec expr span

type_synonym ltype = "expr type_of"

section \<open>Statements\<close>

record import_decl =
  id_names :: "rstring list"
  id_module :: rstring
  id_span :: span

text \<open>Over the statements \<open>'s\<close>.\<close>

datatype (plugins only: code) 's block = Block (blk_stmts: "'s list") (blk_span: span)

datatype (plugins only: code) 's if_stmt =
  IfStmt (if_cond: expr) (if_then: 's) (if_else: "'s option") (if_span: span)

datatype (plugins only: code) 's for_stmt =
  ForStmt (for_init: "'s option") (for_cond: "expr option") (for_post: "'s option") (for_body: 's)
    (for_span: span)

datatype (plugins only: code) 's while_stmt = WhileStmt (wh_cond: expr) (wh_body: 's) (wh_span: span)

datatype (plugins only: code) 's do_stmt = DoStmt (do_body: 's) (do_cond: expr) (do_span: span)

datatype case_pattern = CP_Expr expr | CP_Range expr expr | CP_Wildcard

datatype (plugins only: code) 's case_arm = CaseArm (ca_patterns: "case_pattern list") (ca_body: "'s list")

datatype (plugins only: code) 's case_stmt = CaseStmt (cs_expr: expr) (cs_arms: "'s case_arm list") (cs_span: span)

text \<open>Where the guard of an \<open>alt\<close> puts what it receives, and the guards.\<close>

datatype alt_dest = AD_Decl "rstring list" | AD_TupleDecl "rstring list" | AD_Assign expr

datatype alt_guard = AG_Send expr expr | AG_Recv "alt_dest option" expr | AG_Wildcard

datatype (plugins only: code) 's alt_arm = AltArm (aa_guards: "alt_guard list") (aa_body: "'s list")

datatype (plugins only: code) 's alt_stmt = AltStmt (as_arms: "'s alt_arm list") (as_span: span)

datatype (plugins only: code) 's pick_arm = PickArm (pa_tags: "rstring list") (pa_body: "'s list")

datatype (plugins only: code) 's pick_stmt =
  PickStmt (ps_name: rstring) (ps_expr: expr) (ps_arms: "'s pick_arm list") (ps_span: span)

datatype (plugins only: code) stmt =
    S_Expr expr
  | S_VarDecl "(expr, ltype) var_decl"
  | S_Import import_decl
  | S_Block "stmt block"
  | S_If "stmt if_stmt"
  | S_For "stmt for_stmt"
  | S_While "stmt while_stmt"
  | S_Do "stmt do_stmt"
  | S_Case "stmt case_stmt"
  | S_Alt "stmt alt_stmt"
  | S_Pick "stmt pick_stmt"
  | S_Return "expr option" span
  | S_Break "rstring option" span
  | S_Continue "rstring option" span
  | S_Exit span
  | S_Spawn expr span
  | S_Raise "expr option" span
  | S_Label rstring stmt
  | S_Empty

section \<open>Source files\<close>

record func_decl =
  fd_name :: qual_name
  fd_sig :: "ltype func_sig"
  fd_body :: "stmt block"
  fd_span :: span

record module_decl =
  md_name :: rstring
  md_members :: "(expr, ltype) module_member list"
  md_span :: span

datatype (plugins only: code) decl =
    D_Var "(expr, ltype) var_decl"
  | D_Const "(expr, ltype) const_decl"
  | D_TypeAlias "ltype type_alias_decl"
  | D_Module module_decl
  | D_Adt "(expr, ltype) adt_decl"
  | D_Func func_decl
  | D_Import import_decl
  | D_Exception "ltype exception_decl"

record include_item =
  inc_path :: rstring
  inc_span :: span

record source_file =
  sf_implement :: "rstring list"
  sf_includes :: "include_item list"
  sf_decls :: "decl list"

end
