(* ===== verification/Parser.thy ===== *)
theory Parser
  imports Ast
begin

text \<open>
  The recursive descent parser of the Limbo compiler (\<open>crates/ricevm-limbo/src/parser.rs\<close>): its state,
  the steps over tokens, the loops and the types. A function of the source that calls itself through
  others is a step that takes the function to call as an argument; the function itself is that step
  with a bound on the depth of the calls. A loop has a bound on its iterations. Reaching a bound is an
  outcome of its own, and the properties show that no source reaches one.
\<close>

section \<open>State and outcomes\<close>

record parser =
  pr_tokens :: "token list"
  pr_pos :: usize
  pr_file :: rstring

text \<open>The messages of errors keep what the source formats into the text.\<close>

datatype parse_message =
    PM_Text rstring
  | PM_Expected token_kind token_kind
  | PM_ExpectedIdent token_kind
  | PM_ExpectedType token_kind
  | PM_UnexpectedTop token_kind
  | PM_UnexpectedExpr token_kind

record parse_error =
  pe_file :: rstring
  pe_span :: span
  pe_message :: parse_message

text \<open>An error of the source, a token index out of bounds, a bound of the model.\<close>

datatype parse_stop = PS_Error parse_error | PS_Panic | PS_Fuel

type_synonym 'a pm = "(parser, parse_stop, 'a) sm"

definition parser_new :: "token list \<Rightarrow> rstring \<Rightarrow> parser" where
  "parser_new tokens file = \<lparr>pr_tokens = tokens, pr_pos = 0, pr_file = file\<rparr>"

section \<open>Tokens\<close>

definition default_span :: span where
  "default_span = \<lparr>sp_line = 0, sp_col = 0\<rparr>"

definition tok_span :: "parser \<Rightarrow> span" where
  "tok_span p = (case nth_opt (pr_tokens p) (pr_pos p) of Some t \<Rightarrow> tk_span t | None \<Rightarrow> default_span)"

text \<open>The token \<open>n\<close> places ahead of the cursor.\<close>

definition peek_ahead :: "nat \<Rightarrow> parser \<Rightarrow> token_kind" where
  "peek_ahead n p = (case nth_opt (pr_tokens p) (pr_pos p + n) of Some t \<Rightarrow> tk_kind t | None \<Rightarrow> TK_Eof)"

definition peek_tok :: "parser \<Rightarrow> token_kind" where
  "peek_tok p = peek_ahead 0 p"

definition same_discriminant :: "token_kind \<Rightarrow> token_kind \<Rightarrow> bool" where
  "same_discriminant k k' =
    (case k of
       TK_IntLit _ \<Rightarrow> (case k' of TK_IntLit _ \<Rightarrow> True | _ \<Rightarrow> False)
     | TK_RealLit _ \<Rightarrow> (case k' of TK_RealLit _ \<Rightarrow> True | _ \<Rightarrow> False)
     | TK_StringLit _ \<Rightarrow> (case k' of TK_StringLit _ \<Rightarrow> True | _ \<Rightarrow> False)
     | TK_CharLit _ \<Rightarrow> (case k' of TK_CharLit _ \<Rightarrow> True | _ \<Rightarrow> False)
     | TK_Ident _ \<Rightarrow> (case k' of TK_Ident _ \<Rightarrow> True | _ \<Rightarrow> False)
     | _ \<Rightarrow> k = k')"

definition at_offset :: "nat \<Rightarrow> token_kind \<Rightarrow> parser \<Rightarrow> bool" where
  "at_offset n kind p \<longleftrightarrow> same_discriminant (peek_ahead n p) kind"

definition at_tok :: "token_kind \<Rightarrow> parser \<Rightarrow> bool" where
  "at_tok kind p \<longleftrightarrow> same_discriminant (peek_tok p) kind"

abbreviation at_sym :: "symbol \<Rightarrow> parser \<Rightarrow> bool" where
  "at_sym s \<equiv> at_tok (TK_Symbol s)"

abbreviation at_kw :: "keyword \<Rightarrow> parser \<Rightarrow> bool" where
  "at_kw k \<equiv> at_tok (TK_Keyword k)"

abbreviation at_eof :: "parser \<Rightarrow> bool" where
  "at_eof \<equiv> at_tok TK_Eof"

definition ident_of :: "token_kind \<Rightarrow> rstring option" where
  "ident_of k = (case k of TK_Ident name \<Rightarrow> Some name | _ \<Rightarrow> None)"

definition is_ident :: "token_kind \<Rightarrow> bool" where
  "is_ident k \<longleftrightarrow> ident_of k \<noteq> None"

text \<open>The kinds of the tokens from the one \<open>n\<close> places ahead on, for looking ahead.\<close>

definition kinds_from :: "nat \<Rightarrow> parser \<Rightarrow> token_kind list" where
  "kinds_from n p = map tk_kind (drop (pr_pos p + n) (pr_tokens p))"

text \<open>The cursor stays on the last token.\<close>

definition advance_tok :: "token pm" where
  "advance_tok = (\<lambda>p. case nth_opt (pr_tokens p) (pr_pos p) of
      None \<Rightarrow> (Inl PS_Panic, p)
    | Some tok \<Rightarrow> (Inr tok, if pr_pos p < length (pr_tokens p) - 1 then p\<lparr>pr_pos := pr_pos p + 1\<rparr> else p))"

definition parse_err :: "parse_message \<Rightarrow> 'a pm" where
  "parse_err msg = (\<lambda>p. (Inl (PS_Error \<lparr>pe_file = pr_file p, pe_span = tok_span p, pe_message = msg\<rparr>), p))"

abbreviation then_do :: "'a pm \<Rightarrow> 'b pm \<Rightarrow> 'b pm" where
  "then_do m n \<equiv> sbind m (\<lambda>_. n)"

text \<open>\<open>if c { m } else { n }\<close> on the state.\<close>

definition when_at :: "(parser \<Rightarrow> bool) \<Rightarrow> 'a pm \<Rightarrow> 'a pm \<Rightarrow> 'a pm" where
  "when_at c m n = (\<lambda>p. if c p then m p else n p)"

definition expect :: "token_kind \<Rightarrow> token pm" where
  "expect kind = when_at (at_tok kind) advance_tok
    (sbind (reads peek_tok) (\<lambda>got. parse_err (PM_Expected kind got)))"

abbreviation expect_sym :: "symbol \<Rightarrow> token pm" where
  "expect_sym s \<equiv> expect (TK_Symbol s)"

abbreviation expect_kw :: "keyword \<Rightarrow> token pm" where
  "expect_kw k \<equiv> expect (TK_Keyword k)"

definition expect_ident :: "rstring pm" where
  "expect_ident = sbind (reads peek_tok) (\<lambda>k. case ident_of k of
      Some name \<Rightarrow> then_do advance_tok (ret name)
    | None \<Rightarrow> parse_err (PM_ExpectedIdent k))"

definition expect_semi :: "unit pm" where
  "expect_semi = then_do (expect_sym SY_Semicolon) (ret ())"

section \<open>Loops\<close>

text \<open>\<open>loop { ... }\<close>: the body goes on with a value or leaves with a result.\<close>

primrec loop_fuel :: "nat \<Rightarrow> ('a \<Rightarrow> ('a + 'b) pm) \<Rightarrow> 'a \<Rightarrow> 'b pm" where
  "loop_fuel 0 f x = fail PS_Fuel"
| "loop_fuel (Suc n) f x = sbind (f x) (\<lambda>r. case r of Inl x' \<Rightarrow> loop_fuel n f x' | Inr y \<Rightarrow> ret y)"

definition loop_tok :: "('a \<Rightarrow> ('a + 'b) pm) \<Rightarrow> 'a \<Rightarrow> 'b pm" where
  "loop_tok f x = (\<lambda>p. loop_fuel (Suc (length (pr_tokens p))) f x p)"

definition go_on :: "'a pm \<Rightarrow> ('a + 'b) pm" where
  "go_on m = sbind m (\<lambda>x. ret (Inl x))"

definition leave :: "'b pm \<Rightarrow> ('a + 'b) pm" where
  "leave m = sbind m (\<lambda>x. ret (Inr x))"

text \<open>\<open>while c { x = f(x)?; }\<close>, and the loop that pushes what \<open>m\<close> gives.\<close>

definition while_at :: "(parser \<Rightarrow> bool) \<Rightarrow> ('a \<Rightarrow> 'a pm) \<Rightarrow> 'a \<Rightarrow> 'a pm" where
  "while_at c f = loop_tok (\<lambda>x. when_at c (go_on (f x)) (leave (ret x)))"

definition push_while :: "(parser \<Rightarrow> bool) \<Rightarrow> 'a pm \<Rightarrow> 'a list \<Rightarrow> 'a list pm" where
  "push_while c m = while_at c (\<lambda>xs. sbind m (\<lambda>x. ret (xs @ [x])))"

definition skip_tokens :: "(parser \<Rightarrow> bool) \<Rightarrow> unit pm" where
  "skip_tokens c = while_at c (\<lambda>_. then_do advance_tok (ret ())) ()"

definition in_braces :: "parser \<Rightarrow> bool" where
  "in_braces p \<longleftrightarrow> \<not> at_sym SY_RBrace p \<and> \<not> at_eof p"

text \<open>\<open>advance\<close>, then on to the closing token and over it.\<close>

definition skip_past :: "symbol \<Rightarrow> unit pm" where
  "skip_past close = then_do advance_tok
    (then_do (skip_tokens (\<lambda>p. \<not> at_sym close p \<and> \<not> at_eof p))
      (when_at (at_sym close) (then_do advance_tok (ret ())) (ret ())))"

definition when_skip :: "(parser \<Rightarrow> bool) \<Rightarrow> unit pm" where
  "when_skip c = when_at c (then_do advance_tok (ret ())) (ret ())"

definition at_wildcard_arm :: "parser \<Rightarrow> bool" where
  "at_wildcard_arm p \<longleftrightarrow>
    at_sym SY_Star p \<and> (at_offset 1 (TK_Symbol SY_FatArrow) p \<or> at_offset 1 (TK_Keyword KW_Or) p)"

definition skip_type_params :: "unit pm" where
  "skip_type_params = when_at (at_sym SY_LBracket) (skip_past SY_RBracket) (ret ())"

definition skip_adt_header :: "unit pm" where
  "skip_adt_header = then_do skip_type_params
    (when_at (at_kw KW_For)
      (then_do advance_tok (then_do (expect_sym SY_LBrace)
        (then_do (skip_tokens in_braces) (when_skip (at_sym SY_RBrace)))))
      (ret ()))"

text \<open>\<open>name, name2, ...\<close>\<close>

definition comma_names :: "rstring list pm" where
  "comma_names = sbind expect_ident (\<lambda>name.
    push_while (at_sym SY_Comma) (then_do advance_tok expect_ident) [name])"

section \<open>Types and signatures\<close>

text \<open>Is what follows a comma of the parameter list the start of a new group?\<close>

fun param_group_scan :: "token_kind list \<Rightarrow> bool" where
  "param_group_scan [] = True"
| "param_group_scan (k # ks) =
    (if is_ident k \<or> k = TK_Keyword KW_Nil then
       (case ks of
          [] \<Rightarrow> True
        | k2 # ks2 \<Rightarrow>
            if k2 = TK_Symbol SY_Comma then param_group_scan ks2
            else k2 \<noteq> TK_Symbol SY_Colon)
     else True)"

definition is_param_type_next :: "parser \<Rightarrow> bool" where
  "is_param_type_next p = param_group_scan (kinds_from 1 p)"

text \<open>A parameter name, where \<open>nil\<close> stands for none.\<close>

definition param_name :: "rstring pm" where
  "param_name = when_at (at_kw KW_Nil) (then_do advance_tok (ret (rstr ''nil''))) expect_ident"

definition parse_param :: "ltype pm \<Rightarrow> ltype param pm" where
  "parse_param ty = sbind (reads (at_kw KW_Nil)) (\<lambda>is_nil.
    sbind param_name (\<lambda>name.
    sbind (push_while (\<lambda>p. at_sym SY_Comma p \<and> \<not> is_param_type_next p) (then_do advance_tok param_name) [name])
      (\<lambda>names.
    then_do (expect_sym SY_Colon)
      (sbind (reads (at_kw KW_Self)) (\<lambda>is_self.
       then_do (when_skip (at_kw KW_Self))
         (sbind ty (\<lambda>ty. ret (Param names ty is_self is_nil))))))))"

definition parse_params :: "ltype pm \<Rightarrow> ltype param list pm" where
  "parse_params ty = when_at (at_sym SY_RParen) (ret [])
    (loop_tok (\<lambda>params.
       when_at (at_sym SY_Star) (leave (then_do advance_tok (ret params)))
         (sbind (parse_param ty) (\<lambda>param. let params = params @ [param] in
            when_at (at_sym SY_Comma)
              (then_do advance_tok
                (when_at (at_sym SY_RParen) (ret (Inr params)) (ret (Inl params))))
              (ret (Inr params))))) [])"

definition at_raises :: "parser \<Rightarrow> bool" where
  "at_raises p \<longleftrightarrow> at_kw KW_Raise p \<or> peek_tok p = TK_Ident (rstr ''raises'')"

definition skip_raises :: "unit pm" where
  "skip_raises = when_at at_raises
    (then_do advance_tok
      (when_at (at_sym SY_LParen) (skip_past SY_RParen) (when_skip (\<lambda>p. is_ident (peek_tok p)))))
    (ret ())"

definition skip_for_clause :: "unit pm" where
  "skip_for_clause = when_at (at_kw KW_For)
    (then_do advance_tok (when_at (at_sym SY_LBrace) (skip_past SY_RBrace) (ret ())))
    (ret ())"

text \<open>A trailing \<open>, *\<close> of a parameter list; the cursor goes back over any other comma.\<close>

definition skip_varargs :: "unit pm" where
  "skip_varargs = when_at (at_sym SY_Comma)
    (sbind (reads pr_pos) (\<lambda>saved. then_do advance_tok
      (when_at (at_sym SY_Star) (then_do advance_tok (ret ())) (updates (\<lambda>p. p\<lparr>pr_pos := saved\<rparr>)))))
    (ret ())"

definition parse_sig_params :: "ltype pm \<Rightarrow> ltype param list pm" where
  "parse_sig_params ty = when_at (at_sym SY_Star) (then_do advance_tok (ret []))
    (sbind (parse_params ty) (\<lambda>params. then_do skip_varargs (ret params)))"

definition parse_ret :: "ltype pm \<Rightarrow> ltype option pm" where
  "parse_ret ty = when_at (at_sym SY_Colon)
    (then_do advance_tok (sbind ty (\<lambda>t. ret (Some t)))) (ret None)"

definition parse_func_sig_with :: "ltype pm \<Rightarrow> rstring \<Rightarrow> ltype func_sig pm" where
  "parse_func_sig_with ty name = sbind (reads tok_span) (\<lambda>span.
    then_do (when_at (at_kw KW_Fn) (then_do advance_tok skip_type_params) (ret ()))
    (then_do (expect_sym SY_LParen)
    (sbind (parse_sig_params ty) (\<lambda>params.
    then_do (expect_sym SY_RParen)
    (sbind (parse_ret ty) (\<lambda>ret_ty.
    then_do skip_raises (then_do skip_for_clause (ret (FuncSig name params ret_ty span)))))))))"

definition basic_of :: "token_kind \<Rightarrow> basic_type option" where
  "basic_of k = map_of
    [(TK_Keyword KW_Int, BT_Int), (TK_Keyword KW_Byte, BT_Byte), (TK_Keyword KW_Big, BT_Big),
     (TK_Keyword KW_Real, BT_Real), (TK_Keyword KW_String, BT_String)] k"

definition parse_named_type :: "rstring \<Rightarrow> ltype pm" where
  "parse_named_type name = then_do advance_tok (then_do skip_type_params
    (when_at (\<lambda>p. at_sym SY_Arrow p \<or> at_sym SY_Dot p)
      (then_do advance_tok (sbind expect_ident (\<lambda>member. then_do skip_type_params
        (ret (T_Named \<lparr>qn_qualifier = Some name, qn_name = member\<rparr>)))))
      (ret (T_Named \<lparr>qn_qualifier = None, qn_name = name\<rparr>))))"

definition parse_tuple_type :: "ltype pm \<Rightarrow> ltype pm" where
  "parse_tuple_type ty = then_do advance_tok (sbind ty (\<lambda>first.
    when_at (at_sym SY_Comma)
      (sbind (push_while (at_sym SY_Comma) (then_do advance_tok ty) [first]) (\<lambda>types.
         then_do (expect_sym SY_RParen) (ret (T_Tuple types))))
      (then_do (expect_sym SY_RParen) (ret first))))"

definition parse_of :: "ltype pm \<Rightarrow> (ltype \<Rightarrow> ltype) \<Rightarrow> ltype pm" where
  "parse_of ty f = then_do advance_tok (then_do (expect_kw KW_Of) (sbind ty (\<lambda>elem. ret (f elem))))"

definition parse_type_step :: "ltype pm \<Rightarrow> ltype pm" where
  "parse_type_step ty = sbind (reads peek_tok) (\<lambda>k.
    case basic_of k of
      Some b \<Rightarrow> then_do advance_tok (ret (T_Basic b))
    | None \<Rightarrow>
        if k = TK_Keyword KW_Array then parse_of ty T_Array
        else if k = TK_Keyword KW_List then parse_of ty T_List
        else if k = TK_Keyword KW_Chan then parse_of ty T_Chan
        else if k = TK_Keyword KW_Ref then then_do advance_tok (sbind ty (\<lambda>inner. ret (T_Ref inner)))
        else if k = TK_Keyword KW_Fn then sbind (parse_func_sig_with ty []) (\<lambda>sig. ret (T_Func sig))
        else if k = TK_Symbol SY_LParen then parse_tuple_type ty
        else if k = TK_Keyword KW_Self then then_do advance_tok ty
        else
          (case ident_of k of
             Some name \<Rightarrow> parse_named_type name
           | None \<Rightarrow> parse_err (PM_ExpectedType k)))"

primrec parse_type_fuel :: "nat \<Rightarrow> ltype pm" where
  "parse_type_fuel 0 = fail PS_Fuel"
| "parse_type_fuel (Suc n) = parse_type_step (parse_type_fuel n)"

definition parse_type :: "ltype pm" where
  "parse_type = (\<lambda>p. parse_type_fuel (Suc (length (pr_tokens p))) p)"

definition parse_func_sig :: "rstring \<Rightarrow> ltype func_sig pm" where
  "parse_func_sig = parse_func_sig_with parse_type"

end
