(* ===== verification/ParserExpr.thy ===== *)
theory ParserExpr
  imports Parser
begin

text \<open>
  The expressions of the parser: binding powers decide how far an operand reaches.
\<close>

section \<open>Binding powers\<close>

definition CONS_BP :: nat where
  "CONS_BP = 7"

definition UNARY_BP :: nat where
  "UNARY_BP = 27"

definition infix_binding_power :: "token_kind \<Rightarrow> (nat \<times> nat \<times> bin_op) option" where
  "infix_binding_power k = map_of
    [(TK_Symbol SY_OrOr, (3, 4, BO_LogOr)), (TK_Symbol SY_AndAnd, (5, 6, BO_LogAnd)),
     (TK_Symbol SY_Pipe, (9, 10, BO_Or)), (TK_Symbol SY_Caret, (11, 12, BO_Xor)),
     (TK_Symbol SY_Amp, (13, 14, BO_And)), (TK_Symbol SY_Eq, (15, 16, BO_Eq)),
     (TK_Symbol SY_Neq, (15, 16, BO_Neq)), (TK_Symbol SY_Lt, (17, 18, BO_Lt)),
     (TK_Symbol SY_Gt, (17, 18, BO_Gt)), (TK_Symbol SY_Leq, (17, 18, BO_Leq)),
     (TK_Symbol SY_Geq, (17, 18, BO_Geq)), (TK_Symbol SY_Lshift, (19, 20, BO_Lshift)),
     (TK_Symbol SY_Rshift, (19, 20, BO_Rshift)), (TK_Symbol SY_Plus, (21, 22, BO_Add)),
     (TK_Symbol SY_Minus, (21, 22, BO_Sub)), (TK_Symbol SY_Star, (23, 24, BO_Mul)),
     (TK_Symbol SY_Slash, (23, 24, BO_Div)), (TK_Symbol SY_Percent, (23, 24, BO_Mod)),
     (TK_Symbol SY_Power, (26, 25, BO_Power))] k"

datatype assign_kind = AK_Simple | AK_Compound bin_op | AK_Decl

definition assign_binding_power :: "token_kind \<Rightarrow> (nat \<times> assign_kind) option" where
  "assign_binding_power k = map_of
    [(TK_Symbol SY_Assign, (1, AK_Simple)), (TK_Symbol SY_ColonEq, (1, AK_Decl)),
     (TK_Symbol SY_PlusEq, (1, AK_Compound BO_Add)), (TK_Symbol SY_MinusEq, (1, AK_Compound BO_Sub)),
     (TK_Symbol SY_StarEq, (1, AK_Compound BO_Mul)), (TK_Symbol SY_SlashEq, (1, AK_Compound BO_Div)),
     (TK_Symbol SY_PercentEq, (1, AK_Compound BO_Mod)), (TK_Symbol SY_AmpEq, (1, AK_Compound BO_And)),
     (TK_Symbol SY_PipeEq, (1, AK_Compound BO_Or)), (TK_Symbol SY_CaretEq, (1, AK_Compound BO_Xor)),
     (TK_Symbol SY_LshiftEq, (1, AK_Compound BO_Lshift)),
     (TK_Symbol SY_RshiftEq, (1, AK_Compound BO_Rshift))] k"

section \<open>Lists of expressions\<close>

text \<open>The argument \<open>ex\<close> parses an expression with a minimal binding power.\<close>

definition at_list_end :: "parser \<Rightarrow> bool" where
  "at_list_end p \<longleftrightarrow> at_sym SY_RParen p \<or> at_sym SY_RBracket p \<or> at_sym SY_RBrace p"

definition at_qualifier :: "parser \<Rightarrow> bool" where
  "at_qualifier p \<longleftrightarrow> at_sym SY_FatArrow p \<or> at_kw KW_To p \<or> at_kw KW_Or p"

text \<open>The qualifiers in front of \<open>=>\<close> are read and dropped.\<close>

definition parse_init_expr :: "(nat \<Rightarrow> expr pm) \<Rightarrow> expr pm" where
  "parse_init_expr ex = sbind (ex 0) (\<lambda>e.
    when_at at_qualifier
      (loop_tok (\<lambda>_.
         when_at (at_sym SY_FatArrow) (leave (then_do advance_tok (ex 0)))
           (when_at (\<lambda>p. at_kw KW_Or p \<or> at_kw KW_To p)
             (go_on (then_do advance_tok (then_do (ex 0) (ret ()))))
             (leave (ret e)))) ())
      (ret e))"

text \<open>Elements with commas between them, and perhaps one behind the last.\<close>

definition comma_round :: "(parser \<Rightarrow> bool) \<Rightarrow> 'a pm \<Rightarrow> 'a list \<Rightarrow> ('a list + 'a list) pm" where
  "comma_round end_at m xs = when_at (at_sym SY_Comma)
    (then_do advance_tok (when_at end_at (leave (ret xs)) (go_on (sbind m (\<lambda>x. ret (xs @ [x]))))))
    (leave (ret xs))"

definition comma_list :: "(parser \<Rightarrow> bool) \<Rightarrow> 'a pm \<Rightarrow> 'a list pm" where
  "comma_list end_at m = when_at end_at (ret []) (sbind m (\<lambda>x. loop_tok (comma_round end_at m) [x]))"

definition parse_expr_list :: "(nat \<Rightarrow> expr pm) \<Rightarrow> expr list pm" where
  "parse_expr_list ex = comma_list at_list_end (parse_init_expr ex)"

definition parse_selectors :: "(nat \<Rightarrow> expr pm) \<Rightarrow> expr \<Rightarrow> (expr \<times> expr option) list pm" where
  "parse_selectors ex e1 =
    loop_tok (\<lambda>(selectors, lo).
      sbind (when_at (at_kw KW_To) (then_do advance_tok (sbind (ex 0) (\<lambda>hi. ret (Some hi)))) (ret None)) (\<lambda>hi.
      let selectors = selectors @ [(lo, hi)] in
      when_at (at_kw KW_Or)
        (go_on (then_do advance_tok (sbind (ex 0) (\<lambda>lo. ret (selectors, lo)))))
        (leave (ret selectors)))) ([], e1)"

definition parse_array_elem :: "(nat \<Rightarrow> expr pm) \<Rightarrow> expr array_elem pm" where
  "parse_array_elem ex =
    when_at (at_sym SY_Star)
      (then_do advance_tok (then_do (expect_sym SY_FatArrow)
        (sbind (ex 0) (\<lambda>v. ret (ArrayElem (Some AI_Wildcard) v)))))
      (sbind (ex 0) (\<lambda>e1.
        when_at at_qualifier
          (sbind (parse_selectors ex e1) (\<lambda>selectors.
            then_do (expect_sym SY_FatArrow)
              (sbind (ex 0) (\<lambda>v. ret (ArrayElem (Some (AI_Selectors selectors)) v)))))
          (ret (ArrayElem None e1))))"

definition parse_array_elem_list :: "(nat \<Rightarrow> expr pm) \<Rightarrow> expr array_elem list pm" where
  "parse_array_elem_list ex = comma_list (at_sym SY_RBrace) (parse_array_elem ex)"

section \<open>Prefixes\<close>

text \<open>\<open>advance\<close>, then the operand of a prefix operator.\<close>

definition parse_operand :: "(nat \<Rightarrow> expr pm) \<Rightarrow> (expr \<Rightarrow> expr) \<Rightarrow> expr pm" where
  "parse_operand ex f = then_do advance_tok (sbind (ex UNARY_BP) (\<lambda>e. ret (f e)))"

definition braced_elems :: "(nat \<Rightarrow> expr pm) \<Rightarrow> expr array_elem list pm" where
  "braced_elems ex = then_do advance_tok (sbind (parse_array_elem_list ex) (\<lambda>elems.
    then_do (expect_sym SY_RBrace) (ret elems)))"

definition parse_array :: "(nat \<Rightarrow> expr pm) \<Rightarrow> span \<Rightarrow> expr pm" where
  "parse_array ex span = then_do advance_tok
    (when_at (at_sym SY_LBracket)
      (then_do advance_tok
        (when_at (at_sym SY_RBracket)
          (then_do advance_tok (then_do (expect_kw KW_Of)
            (when_at (at_sym SY_LBrace)
              (sbind (braced_elems ex) (\<lambda>elems. ret (E_ArrayLit None elems None span)))
              (sbind parse_type (\<lambda>ty. ret (E_ArrayAlloc (E_IntLit 0 span) ty span))))))
          (sbind (ex 0) (\<lambda>size. then_do (expect_sym SY_RBracket) (then_do (expect_kw KW_Of)
            (when_at (at_sym SY_LBrace)
              (sbind (braced_elems ex) (\<lambda>elems. ret (E_ArrayLit (Some size) elems None span)))
              (sbind parse_type (\<lambda>ty. ret (E_ArrayAlloc size ty span)))))))))
      (then_do (expect_kw KW_Of) (sbind parse_type (\<lambda>ty. sbind (ex UNARY_BP) (\<lambda>e.
        ret (E_Cast (T_Array ty) e span))))))"

definition parse_chan :: "(nat \<Rightarrow> expr pm) \<Rightarrow> span \<Rightarrow> expr pm" where
  "parse_chan ex span = then_do advance_tok
    (then_do (when_at (at_sym SY_LBracket)
        (then_do advance_tok (then_do (ex 0) (then_do (expect_sym SY_RBracket) (ret ()))))
        (ret ()))
      (then_do (expect_kw KW_Of) (sbind parse_type (\<lambda>ty. ret (E_ChanAlloc ty span)))))"

definition parse_list_lit :: "(nat \<Rightarrow> expr pm) \<Rightarrow> span \<Rightarrow> expr pm" where
  "parse_list_lit ex span = then_do advance_tok (then_do (expect_kw KW_Of) (then_do (expect_sym SY_LBrace)
    (sbind (parse_expr_list ex) (\<lambda>elems. then_do (expect_sym SY_RBrace) (ret (E_ListLit elems span))))))"

definition parse_load :: "(nat \<Rightarrow> expr pm) \<Rightarrow> span \<Rightarrow> expr pm" where
  "parse_load ex span = then_do advance_tok (sbind expect_ident (\<lambda>name.
    sbind (ex 2) (\<lambda>path. ret (E_Load (T_Named \<lparr>qn_qualifier = None, qn_name = name\<rparr>) path span))))"

definition parse_parens :: "(nat \<Rightarrow> expr pm) \<Rightarrow> span \<Rightarrow> expr pm" where
  "parse_parens ex span = then_do advance_tok (sbind (ex 0) (\<lambda>e1.
    when_at (at_sym SY_Comma)
      (sbind (loop_tok (\<lambda>exprs.
          when_at (at_sym SY_Comma)
            (then_do advance_tok
              (when_at (at_sym SY_RParen) (leave (ret exprs)) (go_on (sbind (ex 0) (\<lambda>e. ret (exprs @ [e]))))))
            (leave (ret exprs))) [e1]) (\<lambda>exprs.
        then_do (expect_sym SY_RParen) (ret (E_Tuple exprs span))))
      (then_do (expect_sym SY_RParen) (ret e1))))"

text \<open>The \<open>{:?}\<close> of a basic type.\<close>

definition debug_basic :: "basic_type \<Rightarrow> rstring" where
  "debug_basic b = rstr ''Basic('' @ (case b of BT_Int \<Rightarrow> rstr ''Int'' | BT_Byte \<Rightarrow> rstr ''Byte''
    | BT_Big \<Rightarrow> rstr ''Big'' | BT_Real \<Rightarrow> rstr ''Real'' | BT_String \<Rightarrow> rstr ''String'') @ rstr '')''"

definition after_type_name :: "parser \<Rightarrow> bool" where
  "after_type_name p \<longleftrightarrow> peek_tok p \<in> TK_Symbol `
    {SY_RBracket, SY_Comma, SY_RParen, SY_FatArrow, SY_Semicolon, SY_RBrace}"

definition parse_cast :: "(nat \<Rightarrow> expr pm) \<Rightarrow> basic_type \<Rightarrow> span \<Rightarrow> expr pm" where
  "parse_cast ex b span = sbind parse_type (\<lambda>ty.
    when_at after_type_name (ret (E_Ident (debug_basic b) span))
      (sbind (ex UNARY_BP) (\<lambda>e. ret (E_Cast ty e span))))"

text \<open>Recovery: balanced braces where an expression should be.\<close>

definition skip_braces :: "span \<Rightarrow> expr pm" where
  "skip_braces span = then_do advance_tok
    (loop_tok (\<lambda>depth :: nat.
       when_at (\<lambda>p. 0 < depth \<and> \<not> at_eof p)
         (sbind (reads (\<lambda>p. if at_sym SY_LBrace p then depth + 1
             else if at_sym SY_RBrace p then depth - 1 else depth)) (\<lambda>depth.
           go_on (then_do advance_tok (ret depth))))
         (leave (ret (E_Nil span)))) 1)"

definition prefix_operators :: "(token_kind \<times> (expr \<Rightarrow> span \<Rightarrow> expr)) list" where
  "prefix_operators =
    [(TK_Symbol SY_Inc, E_PostInc), (TK_Symbol SY_Dec, E_PostDec), (TK_Symbol SY_Plus, \<lambda>e _. e),
     (TK_Symbol SY_Minus, E_Unary UO_Neg), (TK_Symbol SY_Bang, E_Unary UO_Not),
     (TK_Symbol SY_Tilde, E_Unary UO_BitNot), (TK_Keyword KW_Hd, E_Hd), (TK_Keyword KW_Tl, E_Tl),
     (TK_Keyword KW_Len, E_Len), (TK_Keyword KW_Tagof, E_Tagof), (TK_Keyword KW_Ref, E_Unary UO_Ref),
     (TK_Symbol SY_ChanRecv, E_Recv)]"

definition literal_of :: "token_kind \<Rightarrow> span \<Rightarrow> expr option" where
  "literal_of k span =
    (case k of
       TK_IntLit v \<Rightarrow> Some (E_IntLit v span)
     | TK_RealLit v \<Rightarrow> Some (E_RealLit v span)
     | TK_StringLit s \<Rightarrow> Some (E_StringLit s span)
     | TK_CharLit v \<Rightarrow> Some (E_CharLit v span)
     | TK_Ident name \<Rightarrow> Some (E_Ident name span)
     | _ \<Rightarrow>
         if k = TK_Keyword KW_Nil then Some (E_Nil span)
         else if k = TK_Keyword KW_Iota then Some (E_Ident (rstr ''iota'') span)
         else None)"

text \<open>A star is a dereference, or the wildcard of an initialiser in front of \<open>=>\<close>.\<close>

definition parse_star :: "(nat \<Rightarrow> expr pm) \<Rightarrow> span \<Rightarrow> expr pm" where
  "parse_star ex span = then_do advance_tok
    (when_at (at_sym SY_FatArrow) (ret (E_Ident [42] span))
      (sbind (ex UNARY_BP) (\<lambda>e. ret (E_Unary UO_Ref e span))))"

definition parse_prefix :: "(nat \<Rightarrow> expr pm) \<Rightarrow> expr pm" where
  "parse_prefix ex = sbind (reads tok_span) (\<lambda>span. sbind (reads peek_tok) (\<lambda>k.
    case literal_of k span of
      Some e \<Rightarrow> then_do advance_tok (ret e)
    | None \<Rightarrow>
        (case map_of prefix_operators k of
           Some f \<Rightarrow> parse_operand ex (\<lambda>e. f e span)
         | None \<Rightarrow>
             (case basic_of k of
                Some b \<Rightarrow> parse_cast ex b span
              | None \<Rightarrow>
                  if k = TK_Symbol SY_Star then parse_star ex span
                  else if k = TK_Keyword KW_Array then parse_array ex span
                  else if k = TK_Keyword KW_Chan then parse_chan ex span
                  else if k = TK_Keyword KW_List then parse_list_lit ex span
                  else if k = TK_Keyword KW_Load then parse_load ex span
                  else if k = TK_Symbol SY_LParen then parse_parens ex span
                  else if k = TK_Symbol SY_LBrace then skip_braces span
                  else parse_err (PM_UnexpectedExpr k)))))"

section \<open>Postfix and infix operators\<close>

definition parse_bound :: "(nat \<Rightarrow> expr pm) \<Rightarrow> expr option pm" where
  "parse_bound ex = then_do advance_tok
    (sbind (when_at (at_sym SY_RBracket) (ret None) (sbind (ex 0) (\<lambda>e. ret (Some e)))) (\<lambda>hi.
      then_do (expect_sym SY_RBracket) (ret hi)))"

definition parse_subscript :: "(nat \<Rightarrow> expr pm) \<Rightarrow> expr \<Rightarrow> span \<Rightarrow> expr pm" where
  "parse_subscript ex lhs span = then_do advance_tok
    (when_at (at_sym SY_Colon)
      (sbind (parse_bound ex) (\<lambda>hi. ret (E_Slice lhs None hi span)))
      (sbind (ex 0) (\<lambda>idx.
        when_at (at_sym SY_Colon)
          (sbind (parse_bound ex) (\<lambda>hi. ret (E_Slice lhs (Some idx) hi span)))
          (then_do (expect_sym SY_RBracket) (ret (E_Index lhs idx span))))))"

text \<open>An expression behind a postfix operator, or nothing when there is none.\<close>

definition parse_postfix :: "(nat \<Rightarrow> expr pm) \<Rightarrow> expr \<Rightarrow> span \<Rightarrow> expr option pm" where
  "parse_postfix ex lhs span = sbind (reads peek_tok) (\<lambda>k.
    if k = TK_Symbol SY_LParen then
      then_do advance_tok (sbind (parse_expr_list ex) (\<lambda>args.
        then_do (expect_sym SY_RParen) (ret (Some (E_Call lhs args span)))))
    else if k = TK_Symbol SY_Dot then
      then_do advance_tok (sbind expect_ident (\<lambda>member. ret (Some (E_Dot lhs member span))))
    else if k = TK_Symbol SY_Arrow then
      then_do advance_tok (sbind expect_ident (\<lambda>member. ret (Some (E_ModQual lhs member span))))
    else if k = TK_Symbol SY_LBracket then
      sbind (parse_subscript ex lhs span) (\<lambda>e. ret (Some e))
    else if k = TK_Symbol SY_Inc then then_do advance_tok (ret (Some (E_PostInc lhs span)))
    else if k = TK_Symbol SY_Dec then then_do advance_tok (ret (Some (E_PostDec lhs span)))
    else ret None)"

text \<open>The names a tuple declares; \<open>nil\<close> for a field that is not bound.\<close>

fun tuple_names :: "expr list \<Rightarrow> rstring list option" where
  "tuple_names [] = Some []"
| "tuple_names (e # es) =
    (case e of
       E_Ident n _ \<Rightarrow> map_option (Cons n) (tuple_names es)
     | E_Nil _ \<Rightarrow> map_option (Cons (rstr ''nil'')) (tuple_names es)
     | _ \<Rightarrow> None)"

definition assigned :: "assign_kind \<Rightarrow> expr \<Rightarrow> expr \<Rightarrow> span \<Rightarrow> expr pm" where
  "assigned kind lhs rhs span =
    (case kind of
       AK_Simple \<Rightarrow> ret (E_Assign lhs rhs span)
     | AK_Compound op \<Rightarrow> ret (E_CompoundAssign lhs op rhs span)
     | AK_Decl \<Rightarrow>
         (case lhs of
            E_Ident name _ \<Rightarrow> ret (E_DeclAssign [name] rhs span)
          | E_Tuple exprs _ \<Rightarrow>
              (case tuple_names exprs of
                 Some names \<Rightarrow> ret (E_TupleDeclAssign names rhs span)
               | None \<Rightarrow> parse_err (PM_Text (rstr ''tuple := elements must be identifiers'')))
          | _ \<Rightarrow> parse_err (PM_Text (rstr ''left side of := must be identifier or tuple''))))"

definition at_send :: "parser \<Rightarrow> bool" where
  "at_send p \<longleftrightarrow> at_sym SY_ChanSend p \<or> at_sym SY_ChanRecv p \<and> at_offset 1 (TK_Symbol SY_Assign) p"

definition send_arrow :: "token pm" where
  "send_arrow = then_do (when_skip (at_sym SY_ChanRecv)) advance_tok"

text \<open>\<open>advance\<close> and the right operand, when the operator binds tightly enough; else the end.\<close>

definition parse_rhs :: "(nat \<Rightarrow> expr pm) \<Rightarrow> nat \<Rightarrow> nat \<Rightarrow> nat \<Rightarrow> expr \<Rightarrow> (expr \<Rightarrow> expr pm) \<Rightarrow> (expr + expr) pm" where
  "parse_rhs ex min_bp l_bp r_bp lhs f =
    (if l_bp < min_bp then leave (ret lhs) else go_on (then_do advance_tok (sbind (ex r_bp) f)))"

definition parse_infix :: "(nat \<Rightarrow> expr pm) \<Rightarrow> nat \<Rightarrow> expr \<Rightarrow> span \<Rightarrow> (expr + expr) pm" where
  "parse_infix ex min_bp lhs span = sbind (reads peek_tok) (\<lambda>k.
    case infix_binding_power k of
      Some (l_bp, r_bp, op) \<Rightarrow> parse_rhs ex min_bp l_bp r_bp lhs (\<lambda>rhs. ret (E_Binary lhs op rhs span))
    | None \<Rightarrow>
        (case assign_binding_power k of
           Some (r_bp, kind) \<Rightarrow> parse_rhs ex min_bp 1 r_bp lhs (\<lambda>rhs. assigned kind lhs rhs span)
         | None \<Rightarrow>
             when_at at_send
               (if 1 < min_bp then leave (ret lhs)
                else go_on (then_do send_arrow (sbind (ex 1) (\<lambda>rhs. ret (E_Send lhs rhs span)))))
               (when_at (at_sym SY_ColonColon)
                 (parse_rhs ex min_bp CONS_BP CONS_BP lhs (\<lambda>rhs. ret (E_Cons lhs rhs span)))
                 (leave (ret lhs)))))"

definition parse_expr_step :: "(nat \<Rightarrow> expr pm) \<Rightarrow> nat \<Rightarrow> expr pm" where
  "parse_expr_step ex min_bp = sbind (reads tok_span) (\<lambda>span. sbind (parse_prefix ex)
    (loop_tok (\<lambda>lhs. sbind (parse_postfix ex lhs span) (\<lambda>r.
      case r of Some e \<Rightarrow> ret (Inl e) | None \<Rightarrow> parse_infix ex min_bp lhs span))))"

primrec parse_expr_fuel :: "nat \<Rightarrow> nat \<Rightarrow> expr pm" where
  "parse_expr_fuel 0 = (\<lambda>_. fail PS_Fuel)"
| "parse_expr_fuel (Suc n) = parse_expr_step (parse_expr_fuel n)"

definition parse_expr_bp :: "nat \<Rightarrow> expr pm" where
  "parse_expr_bp min_bp = (\<lambda>p. parse_expr_fuel (Suc (length (pr_tokens p))) min_bp p)"

definition parse_expr :: "expr pm" where
  "parse_expr = parse_expr_bp 0"

end
