(* ===== verification/ParserStmt.thy ===== *)
theory ParserStmt
  imports ParserExpr
begin

text \<open>
  The statements of the parser. How the tokens ahead are scanned decides between labels, declarations
  and expressions, and where the arms of \<open>case\<close>, \<open>alt\<close> and \<open>pick\<close> end.
\<close>

section \<open>Looking ahead\<close>

fun pick_tag_scan :: "token_kind list \<Rightarrow> bool" where
  "pick_tag_scan [] = False"
| "pick_tag_scan (k # ks) =
    (if k = TK_Keyword KW_Or then
       (case ks of
          [] \<Rightarrow> False
        | k2 # ks2 \<Rightarrow> if is_ident k2 then pick_tag_scan ks2 else pick_tag_scan (k2 # ks2))
     else k = TK_Symbol SY_FatArrow)"

definition is_pick_tag_start :: "parser \<Rightarrow> bool" where
  "is_pick_tag_start p \<longleftrightarrow> is_ident (peek_tok p) \<and> pick_tag_scan (kinds_from 1 p)"

definition is_string_or_ident :: "token_kind \<Rightarrow> bool" where
  "is_string_or_ident k \<longleftrightarrow> (case k of TK_StringLit _ \<Rightarrow> True | TK_Ident _ \<Rightarrow> True | _ \<Rightarrow> False)"

fun exception_scan :: "token_kind list \<Rightarrow> bool" where
  "exception_scan [] = False"
| "exception_scan (k # ks) =
    (if k = TK_Symbol SY_FatArrow then True
     else if k = TK_Keyword KW_Or \<or> is_string_or_ident k \<or> k = TK_Symbol SY_Star then exception_scan ks
     else False)"

definition is_exception_pattern_start :: "parser \<Rightarrow> bool" where
  "is_exception_pattern_start p \<longleftrightarrow>
    (if peek_tok p = TK_Symbol SY_Star then at_wildcard_arm p
     else is_string_or_ident (peek_tok p) \<and> exception_scan (kinds_from 1 p))"

definition label_statements :: "token_kind set" where
  "label_statements = TK_Keyword ` {KW_For, KW_While, KW_Do, KW_Case, KW_Alt, KW_Pick} \<union> {TK_Symbol SY_LBrace}"

definition is_label :: "parser \<Rightarrow> bool" where
  "is_label p \<longleftrightarrow> is_ident (peek_tok p) \<and>
    (case kinds_from 1 p of k # k2 # _ \<Rightarrow> k = TK_Symbol SY_Colon \<and> k2 \<in> label_statements | _ \<Rightarrow> False)"

definition type_starts :: "token_kind set" where
  "type_starts =
    TK_Keyword ` {KW_Int, KW_Byte, KW_Big, KW_Real, KW_String, KW_Array, KW_List, KW_Chan, KW_Ref, KW_Fn,
      KW_Cyclic, KW_Import, KW_Con, KW_Type, KW_Self} \<union> {TK_Symbol SY_LParen}"

fun local_decl_scan :: "token_kind list \<Rightarrow> bool" where
  "local_decl_scan [] = False"
| "local_decl_scan (k # ks) =
    (if k = TK_Symbol SY_Comma then
       (case ks of
          [] \<Rightarrow> False
        | k2 # ks2 \<Rightarrow> if is_ident k2 then local_decl_scan ks2 else local_decl_scan (k2 # ks2))
     else if k = TK_Symbol SY_Colon then
       (case ks of [] \<Rightarrow> False | k2 # _ \<Rightarrow> k2 \<in> type_starts \<or> is_ident k2)
     else False)"

definition is_local_var_decl :: "parser \<Rightarrow> bool" where
  "is_local_var_decl p \<longleftrightarrow> is_ident (peek_tok p) \<and>
    (let ks = kinds_from 1 p in
     \<not> (case ks of k # k2 # _ \<Rightarrow>
           k = TK_Symbol SY_Colon \<and> (k2 \<in> label_statements \<or> k2 = TK_Symbol SY_Semicolon) | _ \<Rightarrow> False) \<and>
     local_decl_scan ks)"

definition pattern_stops :: "token_kind set" where
  "pattern_stops = TK_Keyword ` {KW_If, KW_For, KW_While, KW_Do, KW_Case, KW_Return, KW_Break,
    KW_Continue, KW_Exit, KW_Spawn, KW_Raise, KW_Alt, KW_Pick}"

definition opening_tokens :: "token_kind set" where
  "opening_tokens = TK_Symbol ` {SY_LParen, SY_LBracket, SY_LBrace}"

text \<open>The arrow of a \<open>case\<close> arm, outside brackets and before a statement starts or ends.\<close>

fun pattern_scan :: "int \<Rightarrow> token_kind list \<Rightarrow> bool" where
  "pattern_scan depth [] = False"
| "pattern_scan depth (k # ks) =
    (if k = TK_Symbol SY_FatArrow \<and> depth = 0 then True
     else if k \<in> opening_tokens then pattern_scan (depth + 1) ks
     else if k = TK_Symbol SY_RParen \<or> k = TK_Symbol SY_RBracket then
       (if depth = 0 then False else pattern_scan (depth - 1) ks)
     else if k = TK_Symbol SY_RBrace then
       (if depth < 1 then False else pattern_scan (depth - 1) ks)
     else if depth = 0 \<and> (k = TK_Symbol SY_Semicolon \<or> k \<in> pattern_stops) then False
     else pattern_scan depth ks)"

definition is_case_pattern_start :: "parser \<Rightarrow> bool" where
  "is_case_pattern_start p \<longleftrightarrow>
    (if at_wildcard_arm p then True
     else if peek_tok p \<in> pattern_stops \<union> TK_Symbol ` {SY_LBrace, SY_Semicolon} then False
     else (case kinds_from 1 p of k # _ \<Rightarrow> k = TK_Symbol SY_FatArrow | [] \<Rightarrow> False) \<or>
       pattern_scan 0 (take 60 (kinds_from 0 p)))"

fun guard_scan :: "token_kind list \<Rightarrow> bool" where
  "guard_scan [] = False"
| "guard_scan (k # ks) =
    (if k = TK_Symbol SY_FatArrow then True
     else if k \<in> TK_Symbol ` {SY_Semicolon, SY_LBrace, SY_RBrace} then False
     else guard_scan ks)"

definition is_alt_guard_start :: "parser \<Rightarrow> bool" where
  "is_alt_guard_start p \<longleftrightarrow> at_wildcard_arm p \<or> guard_scan (take 30 (kinds_from 0 p))"

section \<open>Parts of statements\<close>

text \<open>An expression up to a token, if there is one.\<close>

definition optional_expr :: "symbol \<Rightarrow> expr option pm" where
  "optional_expr close = when_at (at_sym close) (ret None) (sbind parse_expr (\<lambda>e. ret (Some e)))"

definition optional_label :: "rstring option pm" where
  "optional_label = sbind (reads peek_tok) (\<lambda>k.
    case ident_of k of Some name \<Rightarrow> then_do advance_tok (ret (Some name)) | None \<Rightarrow> ret None)"

definition semi_then :: "'a \<Rightarrow> 'a pm" where
  "semi_then x = then_do expect_semi (ret x)"

definition initialiser :: "expr option pm" where
  "initialiser = when_at (at_sym SY_Assign)
    (then_do advance_tok (sbind parse_expr (\<lambda>e. ret (Some e)))) (ret None)"

definition parse_local_var_decl :: "stmt pm" where
  "parse_local_var_decl = sbind (reads tok_span) (\<lambda>span. sbind comma_names (\<lambda>names.
    then_do (expect_sym SY_Colon)
      (when_at (at_kw KW_Import)
        (then_do advance_tok (sbind expect_ident (\<lambda>m.
          semi_then (S_Import \<lparr>id_names = names, id_module = m, id_span = span\<rparr>))))
        (when_at (at_kw KW_Con)
          (then_do advance_tok (then_do parse_expr (semi_then S_Empty)))
          (when_at (at_kw KW_Type)
            (then_do advance_tok (then_do parse_type (semi_then S_Empty)))
            (sbind parse_type (\<lambda>ty. sbind initialiser (\<lambda>init.
              semi_then (S_VarDecl (VarDecl names (Some ty) init span))))))))))"

text \<open>\<open>keyword ( e )\<close>\<close>

definition parens_expr :: "expr pm" where
  "parens_expr = then_do (expect_sym SY_LParen) (sbind parse_expr (\<lambda>e.
    then_do (expect_sym SY_RParen) (ret e)))"

text \<open>The argument \<open>st\<close> parses a statement.\<close>

definition parse_block_with :: "stmt pm \<Rightarrow> stmt block pm" where
  "parse_block_with st = sbind (reads tok_span) (\<lambda>span. then_do (expect_sym SY_LBrace)
    (sbind (push_while in_braces st []) (\<lambda>stmts. then_do (expect_sym SY_RBrace) (ret (Block stmts span)))))"

definition parse_if :: "stmt pm \<Rightarrow> stmt pm" where
  "parse_if st = sbind (reads tok_span) (\<lambda>span. then_do (expect_kw KW_If) (sbind parens_expr (\<lambda>c.
    sbind st (\<lambda>t. sbind (when_at (at_kw KW_Else) (then_do advance_tok (sbind st (\<lambda>s. ret (Some s)))) (ret None))
      (\<lambda>e. ret (S_If (IfStmt c t e span)))))))"

definition for_part :: "symbol \<Rightarrow> stmt option pm" where
  "for_part close = sbind (optional_expr close) (\<lambda>e. ret (map_option S_Expr e))"

definition parse_for :: "stmt pm \<Rightarrow> span \<Rightarrow> stmt pm" where
  "parse_for st span = then_do (expect_kw KW_For) (then_do (expect_sym SY_LParen)
    (sbind (for_part SY_Semicolon) (\<lambda>init. then_do expect_semi
      (sbind (optional_expr SY_Semicolon) (\<lambda>c. then_do expect_semi
        (sbind (for_part SY_RParen) (\<lambda>post. then_do (expect_sym SY_RParen)
          (sbind st (\<lambda>body. ret (S_For (ForStmt init c post body span)))))))))))"

definition parse_while :: "stmt pm \<Rightarrow> span \<Rightarrow> stmt pm" where
  "parse_while st span = then_do (expect_kw KW_While) (sbind parens_expr (\<lambda>c.
    sbind st (\<lambda>body. ret (S_While (WhileStmt c body span)))))"

definition parse_do :: "stmt pm \<Rightarrow> span \<Rightarrow> stmt pm" where
  "parse_do st span = then_do (expect_kw KW_Do) (sbind st (\<lambda>body. then_do (expect_kw KW_While)
    (sbind parens_expr (\<lambda>c. semi_then (S_Do (DoStmt body c span))))))"

section \<open>Case\<close>

definition parse_case_pattern :: "case_pattern pm" where
  "parse_case_pattern = when_at at_wildcard_arm (then_do advance_tok (ret CP_Wildcard))
    (sbind parse_expr (\<lambda>e. when_at (at_kw KW_To)
      (then_do advance_tok (sbind parse_expr (\<lambda>e2. ret (CP_Range e e2))))
      (ret (CP_Expr e))))"

text \<open>\<open>m\<close>, and \<open>m\<close> again behind every \<open>or\<close>.\<close>

definition or_list :: "'a pm \<Rightarrow> 'a list pm" where
  "or_list m = sbind m (\<lambda>x. push_while (at_kw KW_Or) (then_do advance_tok m) [x])"

definition parse_case_patterns :: "case_pattern list pm" where
  "parse_case_patterns = or_list parse_case_pattern"

text \<open>What follows when a statement fails: an error of the source is caught, a bound is not.\<close>

definition or_recover :: "'a pm \<Rightarrow> ('a \<Rightarrow> 'b pm) \<Rightarrow> 'b pm \<Rightarrow> 'b pm" where
  "or_recover m f r = (\<lambda>p. case m p of
      (Inl (PS_Error e), p') \<Rightarrow> r p'
    | (Inl stop, p') \<Rightarrow> (Inl stop, p')
    | (Inr x, p') \<Rightarrow> f x p')"

definition case_body :: "stmt pm \<Rightarrow> stmt list pm" where
  "case_body st = loop_tok (\<lambda>body.
    when_at (\<lambda>p. \<not> in_braces p \<or> is_case_pattern_start p) (leave (ret body))
      (or_recover st (\<lambda>s. ret (Inl (body @ [s])))
        (then_do (skip_tokens (\<lambda>p. in_braces p \<and> \<not> is_case_pattern_start p)) (ret (Inr body))))) []"

definition case_arm :: "stmt pm \<Rightarrow> stmt case_arm pm" where
  "case_arm st = sbind parse_case_patterns (\<lambda>patterns. then_do (expect_sym SY_FatArrow)
    (sbind (case_body st) (\<lambda>body. ret (CaseArm patterns body))))"

definition parse_case :: "stmt pm \<Rightarrow> span \<Rightarrow> stmt pm" where
  "parse_case st span = then_do (expect_kw KW_Case) (sbind parse_expr (\<lambda>e. then_do (expect_sym SY_LBrace)
    (sbind (push_while in_braces (case_arm st) []) (\<lambda>arms.
      then_do (expect_sym SY_RBrace) (ret (S_Case (CaseStmt e arms span)))))))"

section \<open>Alt\<close>

definition guard_parts :: "expr \<Rightarrow> alt_dest option \<times> expr" where
  "guard_parts e =
    (case e of
       E_DeclAssign names rhs _ \<Rightarrow> (Some (AD_Decl names), rhs)
     | E_TupleDeclAssign names rhs _ \<Rightarrow> (Some (AD_TupleDecl names), rhs)
     | E_Assign lhs rhs _ \<Rightarrow> (Some (AD_Assign lhs), rhs)
     | _ \<Rightarrow> (None, e))"

definition classify_alt_guard :: "expr \<Rightarrow> alt_guard pm" where
  "classify_alt_guard e = (let (dest, comm) = guard_parts e;
      bad = parse_err (PM_Text (rstr ''an `alt` guard must be a channel send (`c <-= v`) or receive (`x := <-c`)'')) in
    case comm of
      E_Send chan val _ \<Rightarrow> (case dest of None \<Rightarrow> ret (AG_Send chan val) | Some _ \<Rightarrow> bad)
    | E_Recv chan _ \<Rightarrow> ret (AG_Recv dest chan)
    | _ \<Rightarrow> bad)"

definition parse_guards :: "alt_guard list pm" where
  "parse_guards = when_at at_wildcard_arm (then_do advance_tok (ret [AG_Wildcard]))
    (or_list (sbind parse_expr classify_alt_guard))"

definition alt_arm :: "stmt pm \<Rightarrow> stmt alt_arm pm" where
  "alt_arm st = sbind parse_guards (\<lambda>guards. then_do (expect_sym SY_FatArrow)
    (sbind (push_while (\<lambda>p. in_braces p \<and> \<not> is_alt_guard_start p) st []) (\<lambda>body.
      ret (AltArm guards body))))"

definition parse_alt :: "stmt pm \<Rightarrow> span \<Rightarrow> stmt pm" where
  "parse_alt st span = then_do (expect_kw KW_Alt) (then_do (expect_sym SY_LBrace)
    (sbind (push_while in_braces (alt_arm st) []) (\<lambda>arms.
      then_do (expect_sym SY_RBrace) (ret (S_Alt (AltStmt arms span))))))"

section \<open>Pick\<close>

definition pick_tags :: "rstring list pm" where
  "pick_tags = when_at at_wildcard_arm (then_do advance_tok (ret [[42]])) (or_list expect_ident)"

definition pick_arm :: "stmt pm \<Rightarrow> stmt pick_arm pm" where
  "pick_arm st = sbind pick_tags (\<lambda>tags. then_do (expect_sym SY_FatArrow)
    (sbind (push_while (\<lambda>p. in_braces p \<and> \<not> is_pick_tag_start p \<and> \<not> at_wildcard_arm p) st [])
      (\<lambda>body. ret (PickArm tags body))))"

definition parse_pick :: "stmt pm \<Rightarrow> span \<Rightarrow> stmt pm" where
  "parse_pick st span = then_do advance_tok (sbind expect_ident (\<lambda>name. then_do (expect_sym SY_ColonEq)
    (sbind parse_expr (\<lambda>e. then_do (expect_sym SY_LBrace)
      (sbind (push_while in_braces (pick_arm st) []) (\<lambda>arms.
        then_do (expect_sym SY_RBrace) (ret (S_Pick (PickStmt name e arms span)))))))))"

section \<open>Exception handlers\<close>

text \<open>
  The pattern of a handler, over brackets to its arrow. The result says whether there was one: at the
  end of the body or of the source the handlers are over.
\<close>

definition handler_pattern :: "bool pm" where
  "handler_pattern = loop_tok (\<lambda>depth :: int. sbind (reads peek_tok) (\<lambda>k.
    if k = TK_Symbol SY_FatArrow \<and> depth = 0 then leave (then_do advance_tok (ret True))
    else if k \<in> opening_tokens then go_on (then_do advance_tok (ret (depth + 1)))
    else if k = TK_Symbol SY_RParen \<or> k = TK_Symbol SY_RBracket then
      go_on (then_do advance_tok (ret (depth - 1)))
    else if k = TK_Symbol SY_RBrace then
      (if 0 < depth then go_on (then_do advance_tok (ret (depth - 1))) else leave (ret False))
    else if k = TK_Eof then leave (ret False)
    else go_on (then_do advance_tok (ret depth)))) 0"

definition parse_exception_body :: "stmt pm \<Rightarrow> unit pm" where
  "parse_exception_body st = loop_tok (\<lambda>_.
    when_at in_braces
      (sbind handler_pattern (\<lambda>found.
        if found then
          go_on (then_do (push_while (\<lambda>p. in_braces p \<and> \<not> is_exception_pattern_start p) st []) (ret ()))
        else leave (ret ())))
      (leave (ret ()))) ()"

text \<open>\<open>exception [name] { ... }\<close>: read and dropped.\<close>

definition skip_handlers :: "stmt pm \<Rightarrow> unit pm" where
  "skip_handlers st = then_do advance_tok (then_do (when_skip (\<lambda>p. is_ident (peek_tok p)))
    (then_do (expect_sym SY_LBrace) (then_do (parse_exception_body st)
      (then_do (expect_sym SY_RBrace) (ret ())))))"

section \<open>Statements\<close>

definition block_stmt :: "stmt pm \<Rightarrow> stmt pm" where
  "block_stmt st = sbind (parse_block_with st) (\<lambda>b.
    then_do (when_at (at_kw KW_Exception) (skip_handlers st) (ret ())) (ret (S_Block b)))"

definition other_stmt :: "stmt pm \<Rightarrow> stmt pm" where
  "other_stmt st =
    when_at is_label
      (sbind expect_ident (\<lambda>label. then_do (expect_sym SY_Colon) (sbind st (\<lambda>s. ret (S_Label label s)))))
      (when_at is_local_var_decl parse_local_var_decl
        (when_at (at_kw KW_Include)
          (then_do advance_tok (then_do
            (when_skip (\<lambda>p. case peek_tok p of TK_StringLit _ \<Rightarrow> True | _ \<Rightarrow> False)) (semi_then S_Empty)))
          (sbind parse_expr (\<lambda>e. semi_then (S_Expr e)))))"

definition parse_stmt_step :: "stmt pm \<Rightarrow> stmt pm" where
  "parse_stmt_step st = sbind (reads tok_span) (\<lambda>span. sbind (reads peek_tok) (\<lambda>k.
    if k = TK_Symbol SY_LBrace then block_stmt st
    else if k = TK_Keyword KW_If then parse_if st
    else if k = TK_Keyword KW_For then parse_for st span
    else if k = TK_Keyword KW_While then parse_while st span
    else if k = TK_Keyword KW_Do then parse_do st span
    else if k = TK_Keyword KW_Return then
      then_do advance_tok (sbind (optional_expr SY_Semicolon) (\<lambda>e. semi_then (S_Return e span)))
    else if k = TK_Keyword KW_Break then
      then_do advance_tok (sbind optional_label (\<lambda>l. semi_then (S_Break l span)))
    else if k = TK_Keyword KW_Continue then
      then_do advance_tok (sbind optional_label (\<lambda>l. semi_then (S_Continue l span)))
    else if k = TK_Keyword KW_Exit then then_do advance_tok (semi_then (S_Exit span))
    else if k = TK_Keyword KW_Spawn then
      then_do advance_tok (sbind parse_expr (\<lambda>e. semi_then (S_Spawn e span)))
    else if k = TK_Keyword KW_Raise then
      then_do advance_tok (sbind (optional_expr SY_Semicolon) (\<lambda>e. semi_then (S_Raise e span)))
    else if k = TK_Keyword KW_Case then parse_case st span
    else if k = TK_Keyword KW_Pick then parse_pick st span
    else if k = TK_Keyword KW_Alt then parse_alt st span
    else if k = TK_Symbol SY_Semicolon then then_do advance_tok (ret S_Empty)
    else if k = TK_Keyword KW_Exception then then_do (skip_handlers st) (ret S_Empty)
    else other_stmt st))"

primrec parse_stmt_fuel :: "nat \<Rightarrow> stmt pm" where
  "parse_stmt_fuel 0 = fail PS_Fuel"
| "parse_stmt_fuel (Suc n) = parse_stmt_step (parse_stmt_fuel n)"

definition parse_stmt :: "stmt pm" where
  "parse_stmt = (\<lambda>p. parse_stmt_fuel (Suc (length (pr_tokens p))) p)"

definition parse_block :: "stmt block pm" where
  "parse_block = parse_block_with parse_stmt"

end
