(* ===== verification/ParserDecl.thy ===== *)
theory ParserDecl
  imports ParserStmt
begin

text \<open>
  The declarations of the parser: members of modules and of data types, functions, and the source file.
\<close>

section \<open>Members\<close>

definition first_name :: "rstring list \<Rightarrow> rstring" where
  "first_name names = (case names of [] \<Rightarrow> [] | n # _ \<Rightarrow> n)"

definition rename_sig :: "'t func_sig \<Rightarrow> rstring \<Rightarrow> 't func_sig" where
  "rename_sig s name = FuncSig name (sig_params s) (sig_ret s) (sig_span s)"

definition is_field_start :: "parser \<Rightarrow> bool" where
  "is_field_start p \<longleftrightarrow> is_ident (peek_tok p) \<and>
    (case kinds_from 1 p of k # _ \<Rightarrow> k = TK_Symbol SY_Comma \<or> k = TK_Symbol SY_Colon | [] \<Rightarrow> False)"

text \<open>\<open>cyclic\<close> is read and dropped.\<close>

definition parse_field :: "(expr, ltype) var_decl pm" where
  "parse_field = sbind (reads tok_span) (\<lambda>span. sbind comma_names (\<lambda>names.
    then_do (expect_sym SY_Colon) (then_do (when_skip (at_kw KW_Cyclic))
      (sbind parse_type (\<lambda>ty. semi_then (VarDecl names (Some ty) None span))))))"

definition at_pick_field :: "parser \<Rightarrow> bool" where
  "at_pick_field p \<longleftrightarrow> in_braces p \<and> \<not> is_ident (peek_tok p) \<or> is_field_start p"

definition pick_fields :: "(expr, ltype) var_decl list pm" where
  "pick_fields = loop_tok (\<lambda>fields.
    when_at at_pick_field
      (sbind parse_field (\<lambda>f. let fields = fields @ [f] in
        when_at is_pick_tag_start (ret (Inr fields)) (ret (Inl fields))))
      (leave (ret fields))) []"

definition parse_pick_cases :: "(expr, ltype) pick_case list pm" where
  "parse_pick_cases = push_while in_braces
    (sbind (or_list expect_ident) (\<lambda>tags. then_do (expect_sym SY_FatArrow)
      (sbind pick_fields (\<lambda>fields. ret (PickCase tags fields))))) []"

definition in_brace_block :: "'a pm \<Rightarrow> 'a pm" where
  "in_brace_block m = then_do (expect_sym SY_LBrace) (sbind m (\<lambda>x. then_do (expect_sym SY_RBrace) (ret x)))"

definition const_value :: "expr pm" where
  "const_value = then_do advance_tok (sbind parse_expr semi_then)"

definition alias_type :: "ltype pm" where
  "alias_type = then_do advance_tok (sbind parse_type semi_then)"

definition member_sig :: "rstring list \<Rightarrow> ltype func_sig pm" where
  "member_sig names = sbind (parse_func_sig (first_name names)) semi_then"

definition parse_adt_member :: "(expr, ltype) adt_member list pm" where
  "parse_adt_member = sbind (reads tok_span) (\<lambda>span. sbind comma_names (\<lambda>names.
    then_do (expect_sym SY_Colon) (sbind (reads peek_tok) (\<lambda>k.
      if k = TK_Keyword KW_Con then
        sbind const_value (\<lambda>v. ret (map (\<lambda>name. AM_Const (ConstDecl name None v span)) names))
      else if k = TK_Keyword KW_Fn then
        sbind (member_sig names) (\<lambda>s. ret (map (\<lambda>name. AM_Func (rename_sig s name)) names))
      else
        then_do (when_skip (at_kw KW_Cyclic))
          (sbind parse_type (\<lambda>ty. semi_then [AM_Field (VarDecl names (Some ty) None span)]))))))"

type_synonym adt_body = "(expr, ltype) adt_member list \<times> (expr, ltype) pick_case list option"

definition parse_adt_members :: "adt_body pm" where
  "parse_adt_members = while_at in_braces (\<lambda>(members, pick).
    when_at (at_kw KW_Pick)
      (then_do advance_tok (sbind (in_brace_block parse_pick_cases) (\<lambda>cases. ret (members, Some cases))))
      (sbind parse_adt_member (\<lambda>ms. ret (members @ ms, pick)))) ([], None)"

text \<open>\<open>adt\<close> and what follows it, up to the semicolon.\<close>

definition parse_adt :: "adt_body pm" where
  "parse_adt = then_do advance_tok (then_do skip_adt_header
    (sbind (in_brace_block parse_adt_members) semi_then))"

definition adt_decls :: "adt_body \<Rightarrow> span \<Rightarrow> rstring list \<Rightarrow> (expr, ltype) adt_decl list" where
  "adt_decls body span names = map (\<lambda>name. AdtDecl name (fst body) (snd body) span) names"

definition parse_module_member :: "(expr, ltype) module_member list pm" where
  "parse_module_member = sbind (reads tok_span) (\<lambda>span. sbind comma_names (\<lambda>names.
    then_do (expect_sym SY_Colon) (sbind (reads peek_tok) (\<lambda>k.
      if k = TK_Keyword KW_Con then
        sbind const_value (\<lambda>v. ret (map (\<lambda>name. MM_Const (ConstDecl name None v span)) names))
      else if k = TK_Keyword KW_Type then
        sbind alias_type (\<lambda>ty. ret (map (\<lambda>name. MM_TypeAlias (TypeAliasDecl name ty span)) names))
      else if k = TK_Keyword KW_Fn then
        sbind (member_sig names) (\<lambda>s. ret (map (\<lambda>name. MM_Func (rename_sig s name)) names))
      else if k = TK_Keyword KW_Adt then
        sbind parse_adt (\<lambda>body. ret (map MM_Adt (adt_decls body span names)))
      else
        sbind parse_type (\<lambda>ty. semi_then [MM_Var (VarDecl names (Some ty) None span)])))))"

definition parse_module_members :: "(expr, ltype) module_member list pm" where
  "parse_module_members = while_at in_braces (\<lambda>members.
    sbind parse_module_member (\<lambda>ms. ret (members @ ms))) []"

section \<open>Declarations\<close>

definition exception_type :: "ltype option pm" where
  "exception_type = when_at (at_sym SY_LParen)
    (then_do advance_tok (sbind parse_type (\<lambda>t.
      sbind (push_while (at_sym SY_Comma) (then_do advance_tok parse_type) [t]) (\<lambda>types.
      then_do (expect_sym SY_RParen)
        (ret (Some (if length types = 1 then hd types else T_Tuple types)))))))
    (ret None)"

definition parse_colon_decl :: "span \<Rightarrow> decl list pm" where
  "parse_colon_decl span = sbind comma_names (\<lambda>names.
    then_do (expect_sym SY_Colon) (sbind (reads peek_tok) (\<lambda>k.
      if k = TK_Keyword KW_Con then
        sbind const_value (\<lambda>v. ret (map (\<lambda>name. D_Const (ConstDecl name None v span)) names))
      else if k = TK_Keyword KW_Type then
        sbind alias_type (\<lambda>ty. ret (map (\<lambda>name. D_TypeAlias (TypeAliasDecl name ty span)) names))
      else if k = TK_Keyword KW_Module then
        then_do advance_tok (sbind (in_brace_block parse_module_members) (\<lambda>members.
          semi_then (map (\<lambda>name. D_Module \<lparr>md_name = name, md_members = members, md_span = span\<rparr>) names)))
      else if k = TK_Keyword KW_Adt then
        sbind parse_adt (\<lambda>body. ret (map D_Adt (adt_decls body span names)))
      else if k = TK_Keyword KW_Import then
        then_do advance_tok (sbind expect_ident (\<lambda>m.
          semi_then [D_Import \<lparr>id_names = names, id_module = m, id_span = span\<rparr>]))
      else if k = TK_Keyword KW_Exception then
        then_do advance_tok (sbind exception_type (\<lambda>ty.
          semi_then (map (\<lambda>name. D_Exception (ExceptionDecl name ty span)) names)))
      else
        sbind parse_type (\<lambda>ty. sbind initialiser (\<lambda>init.
          semi_then [D_Var (VarDecl names (Some ty) init span)])))))"

text \<open>\<open>name = expr;\<close> and \<open>name := expr;\<close>\<close>

definition parse_top_init :: "symbol \<Rightarrow> span \<Rightarrow> decl pm" where
  "parse_top_init op span = sbind expect_ident (\<lambda>name. then_do (expect_sym op)
    (sbind parse_expr (\<lambda>e. semi_then (D_Var (VarDecl [name] None (Some e) span)))))"

definition parse_top_assign :: "span \<Rightarrow> decl pm" where
  "parse_top_assign = parse_top_init SY_Assign"

definition parse_top_decl_assign :: "span \<Rightarrow> decl pm" where
  "parse_top_decl_assign = parse_top_init SY_ColonEq"

definition parse_func_def :: "decl pm" where
  "parse_func_def = sbind (reads tok_span) (\<lambda>span. sbind expect_ident (\<lambda>name. then_do skip_type_params
    (sbind (while_at (at_sym SY_Dot) (\<lambda>(qualifier, name). then_do advance_tok (sbind expect_ident (\<lambda>name2.
        then_do skip_type_params (ret (Some name, name2))))) (None, name)) (\<lambda>(qualifier, name).
      sbind (parse_func_sig name) (\<lambda>s. sbind parse_block (\<lambda>body.
        ret (D_Func \<lparr>fd_name = \<lparr>qn_qualifier = qualifier, qn_name = name\<rparr>, fd_sig = s, fd_body = body,
          fd_span = span\<rparr>)))))))"

datatype look_ahead = LA_FuncDef | LA_ColonDecl | LA_Assign | LA_DeclAssign

function look_ahead_scan :: "token_kind list \<Rightarrow> look_ahead" where
  "look_ahead_scan [] = LA_ColonDecl"
| "look_ahead_scan (k # ks) =
    (if k = TK_Symbol SY_Dot then
       (case ks of
          [] \<Rightarrow> LA_ColonDecl
        | k2 # ks2 \<Rightarrow> if is_ident k2 then look_ahead_scan ks2 else look_ahead_scan (k2 # ks2))
     else if k = TK_Symbol SY_LParen then LA_FuncDef
     else if k = TK_Symbol SY_LBracket then
       look_ahead_scan (drop 1 (dropWhile (\<lambda>k. k \<noteq> TK_Symbol SY_RBracket) ks))
     else if k = TK_Symbol SY_Assign then LA_Assign
     else if k = TK_Symbol SY_ColonEq then LA_DeclAssign
     else LA_ColonDecl)"
  by pat_completeness auto
termination
  by (relation "measure length") (auto intro!: le_imp_less_Suc le_trans [OF diff_le_self length_dropWhile_le])

definition look_ahead_after_ident :: "parser \<Rightarrow> look_ahead" where
  "look_ahead_after_ident p = look_ahead_scan (kinds_from 1 p)"

definition one_decl :: "decl pm \<Rightarrow> decl list pm" where
  "one_decl m = sbind m (\<lambda>d. ret [d])"

definition parse_top_decl :: "decl list pm" where
  "parse_top_decl = sbind (reads tok_span) (\<lambda>span. sbind (reads peek_tok) (\<lambda>k.
    if is_ident k then
      sbind (reads look_ahead_after_ident) (\<lambda>la. case la of
          LA_FuncDef \<Rightarrow> one_decl parse_func_def
        | LA_ColonDecl \<Rightarrow> parse_colon_decl span
        | LA_Assign \<Rightarrow> one_decl (parse_top_assign span)
        | LA_DeclAssign \<Rightarrow> one_decl (parse_top_decl_assign span))
    else parse_err (PM_UnexpectedTop k)))"

section \<open>Source files\<close>

definition parse_implement :: "rstring list pm" where
  "parse_implement = when_at (at_kw KW_Implement)
    (then_do advance_tok (sbind comma_names semi_then)) (ret [])"

definition parse_include :: "include_item pm" where
  "parse_include = sbind (reads tok_span) (\<lambda>span. then_do advance_tok (sbind (reads peek_tok) (\<lambda>k.
    case k of
      TK_StringLit s \<Rightarrow> then_do advance_tok (semi_then \<lparr>inc_path = s, inc_span = span\<rparr>)
    | _ \<Rightarrow> parse_err (PM_Text (rstr ''expected string after include'')))))"

definition parse_item :: "include_item list \<times> decl list \<Rightarrow> (include_item list \<times> decl list) pm" where
  "parse_item = (\<lambda>(includes, decls).
    when_at (at_kw KW_Include)
      (sbind parse_include (\<lambda>i. ret (includes @ [i], decls)))
      (sbind parse_top_decl (\<lambda>ds. ret (includes, decls @ ds))))"

definition parse_file :: "source_file pm" where
  "parse_file = sbind parse_implement (\<lambda>implement.
    sbind (while_at (\<lambda>p. \<not> at_eof p) parse_item ([], [])) (\<lambda>(includes, decls).
      ret \<lparr>sf_implement = implement, sf_includes = includes, sf_decls = decls\<rparr>))"

end
