(* ===== verification/ParserEnds.thy ===== *)
theory ParserEnds
  imports ParserDecl LexerProps
begin

text \<open>
  The parser ends. On tokens whose last one stands for the end of the source no step reads outside
  them, and every loop and every call within itself takes a token first, so that no bound of the model
  is reached.
\<close>

section \<open>Computations that take tokens\<close>

definition sound :: "parser \<Rightarrow> bool" where
  "sound p \<longleftrightarrow> pr_pos p < length (pr_tokens p) \<and> tk_kind (last (pr_tokens p)) = TK_Eof"

definition left :: "parser \<Rightarrow> nat" where
  "left p = length (pr_tokens p) - pr_pos p"

text \<open>The cursor has moved forward, or stayed.\<close>

definition onward :: "parser \<Rightarrow> parser \<Rightarrow> bool" where
  "onward p p' \<longleftrightarrow> sound p' \<and> pr_tokens p' = pr_tokens p \<and> pr_file p' = pr_file p \<and> left p' \<le> left p"

definition error_of_source :: "parser \<Rightarrow> parse_stop \<Rightarrow> bool" where
  "error_of_source p stop \<longleftrightarrow>
    (\<exists>e. stop = PS_Error e \<and> pe_file e = pr_file p \<and> pe_span e \<in> tk_span ` set (pr_tokens p))"

text \<open>
  From a state that satisfies \<open>P\<close> and has at most \<open>n\<close> tokens left, \<open>m\<close> stops with an error of the
  source or with a value, and it has taken a token when the value satisfies \<open>Q\<close>.
\<close>

definition takes :: "('a \<Rightarrow> bool) \<Rightarrow> (parser \<Rightarrow> bool) \<Rightarrow> nat \<Rightarrow> 'a pm \<Rightarrow> bool" where
  "takes Q P n m \<longleftrightarrow> (\<forall>p. sound p \<longrightarrow> P p \<longrightarrow> left p \<le> n \<longrightarrow>
    (case m p of
       (Inl stop, p') \<Rightarrow> error_of_source p stop \<and> onward p p'
     | (Inr x, p') \<Rightarrow> onward p p' \<and> (Q x \<longrightarrow> left p' < left p)))"

abbreviation eats :: "(parser \<Rightarrow> bool) \<Rightarrow> nat \<Rightarrow> 'a pm \<Rightarrow> bool" where
  "eats \<equiv> takes (\<lambda>_. True)"

abbreviation safe :: "(parser \<Rightarrow> bool) \<Rightarrow> nat \<Rightarrow> 'a pm \<Rightarrow> bool" where
  "safe \<equiv> takes (\<lambda>_. False)"

abbreviation anywhere :: "parser \<Rightarrow> bool" where
  "anywhere \<equiv> \<lambda>_. True"

named_theorems parse_rules \<open>how parts of the parser take tokens\<close>

lemma sound_left: "sound p \<Longrightarrow> 0 < left p"
  by (simp add: sound_def left_def)

lemma onward_refl [simp]: "sound p \<Longrightarrow> onward p p"
  by (simp add: onward_def)

lemma onward_trans: "onward p p' \<Longrightarrow> onward p' p'' \<Longrightarrow> onward p p''"
  by (auto simp: onward_def)

lemma onward_left: "onward p p' \<Longrightarrow> left p' \<le> left p"
  by (simp add: onward_def)

lemma error_onward: "onward p p' \<Longrightarrow> error_of_source p' stop \<longleftrightarrow> error_of_source p stop"
  by (simp add: onward_def error_of_source_def)

lemma takesI:
  assumes "\<And>p. sound p \<Longrightarrow> P p \<Longrightarrow> left p \<le> n \<Longrightarrow>
    (case m p of
       (Inl stop, p') \<Rightarrow> error_of_source p stop \<and> onward p p'
     | (Inr x, p') \<Rightarrow> onward p p' \<and> (Q x \<longrightarrow> left p' < left p))"
  shows "takes Q P n m"
  using assms by (simp add: takes_def)

lemma takesD:
  assumes "takes Q P n m" and "sound p" and "P p" and "left p \<le> n"
  obtains (err) stop p' where "m p = (Inl stop, p')" "error_of_source p stop" "onward p p'"
    | (ok) x p' where "m p = (Inr x, p')" "onward p p'" "Q x \<Longrightarrow> left p' < left p"
proof -
  obtain r p' where m: "m p = (r, p')" by fastforce
  with assms have "case r of Inl stop \<Rightarrow> error_of_source p stop \<and> onward p p'
      | Inr x \<Rightarrow> onward p p' \<and> (Q x \<longrightarrow> left p' < left p)"
    by (auto simp: takes_def)
  with m err ok show thesis by (cases r) auto
qed

lemma takes_0: "takes Q P 0 m"
  by (rule takesI) (use sound_left in fastforce)

lemma takes_weaken:
  assumes "takes Q P n m" and "\<And>x. Q' x \<Longrightarrow> Q x" and "\<And>p. P' p \<Longrightarrow> P p" and "n' \<le> n"
  shows "takes Q' P' n' m"
proof (rule takesI)
  fix p
  assume "sound p" "P' p" "left p \<le> n'"
  with assms(3,4) have "sound p" "P p" "left p \<le> n" by auto
  with assms(1) show "case m p of
       (Inl stop, p') \<Rightarrow> error_of_source p stop \<and> onward p p'
     | (Inr x, p') \<Rightarrow> onward p p' \<and> (Q' x \<longrightarrow> left p' < left p)"
    by (cases rule: takesD) (use assms(2) in auto)
qed

text \<open>One after the other: what follows a part that takes a token has one token less to look at.\<close>

lemma takes_bind:
  assumes m: "takes Q' P n m"
    and f: "\<And>x. Q' x \<Longrightarrow> takes (\<lambda>_. False) anywhere (n - 1) (f x)"
    and g: "\<And>x. \<not> Q' x \<Longrightarrow> takes Q anywhere n (f x)"
  shows "takes Q P n (sbind m f)"
proof (rule takesI)
  fix p
  assume p: "sound p" "P p" "left p \<le> n"
  from m p show "case sbind m f p of
       (Inl stop, p') \<Rightarrow> error_of_source p stop \<and> onward p p'
     | (Inr x, p') \<Rightarrow> onward p p' \<and> (Q x \<longrightarrow> left p' < left p)"
  proof (cases rule: takesD)
    case (err stop p')
    then show ?thesis by simp
  next
    case (ok x p')
    then have p': "sound p'" "left p' \<le> n" using p(3) by (simp_all add: onward_def)
    show ?thesis
    proof (cases "Q' x")
      case True
      with ok have less: "left p' < left p" by simp
      with p(3) have "left p' \<le> n - 1" by simp
      from f [OF True] p'(1) TrueI this show ?thesis
        by (cases rule: takesD)
          (use ok less in \<open>auto simp: error_onward intro: onward_trans dest: onward_left\<close>)
    next
      case False
      from g [OF False] p'(1) TrueI p'(2) show ?thesis
        by (cases rule: takesD)
          (use ok in \<open>auto simp: error_onward intro: onward_trans dest: onward_left\<close>)
    qed
  qed
qed

lemma eats_bind: "eats P n m \<Longrightarrow> (\<And>x. safe anywhere (n - 1) (f x)) \<Longrightarrow> takes Q P n (sbind m f)"
  by (rule takes_bind [where Q' = "\<lambda>_. True"]) auto

lemma safe_bind: "safe P n m \<Longrightarrow> (\<And>x. takes Q anywhere n (f x)) \<Longrightarrow> takes Q P n (sbind m f)"
  by (rule takes_bind [where Q' = "\<lambda>_. False"]) auto

lemma takes_ret [parse_rules]: "\<not> Q x \<Longrightarrow> takes Q P n (ret x)"
  by (rule takesI) (simp add: sm_run)

lemma takes_reads [parse_rules]:
  "(\<And>x. takes Q (\<lambda>p. P p \<and> g p = x) n (f x)) \<Longrightarrow> takes Q P n (sbind (reads g) f)"
  by (rule takesI) (simp add: takes_def)

lemma takes_when [parse_rules]:
  "takes Q (\<lambda>p. P p \<and> c p) n m \<Longrightarrow> takes Q (\<lambda>p. P p \<and> \<not> c p) n m' \<Longrightarrow> takes Q P n (when_at c m m')"
  by (rule takesI) (simp add: takes_def when_at_def)

lemma takes_if [parse_rules]:
  "(b \<Longrightarrow> takes Q P n m) \<Longrightarrow> (\<not> b \<Longrightarrow> takes Q P n m') \<Longrightarrow> takes Q P n (if b then m else m')"
  by simp

lemma takes_option [parse_rules]:
  "(x = None \<Longrightarrow> takes Q P n m) \<Longrightarrow> (\<And>y. x = Some y \<Longrightarrow> takes Q P n (f y)) \<Longrightarrow>
    takes Q P n (case x of None \<Rightarrow> m | Some y \<Rightarrow> f y)"
  by (cases x) simp_all

lemma takes_prod [parse_rules]: "(\<And>a b. x = (a, b) \<Longrightarrow> takes Q P n (f a b)) \<Longrightarrow> takes Q P n (case x of (a, b) \<Rightarrow> f a b)"
  by (cases x) simp

lemma takes_Let [parse_rules]: "takes Q P n (f x) \<Longrightarrow> takes Q P n (let y = x in f y)"
  by simp

text \<open>Choices and sequences in front of a bind move behind it.\<close>

named_theorems parse_assoc

lemma sbind_assoc [parse_assoc]: "sbind (sbind m f) g = sbind m (\<lambda>x. sbind (f x) g)"
  by (auto simp: sbind_def split: prod.split sum.split)

lemma sbind_when [parse_assoc]: "sbind (when_at c m m') f = when_at c (sbind m f) (sbind m' f)"
  by (auto simp: sbind_def when_at_def fun_eq_iff)

lemma sbind_if [parse_assoc]: "sbind (if b then m else m') f = (if b then sbind m f else sbind m' f)"
  by simp

lemma sbind_option [parse_assoc]:
  "sbind (case x of None \<Rightarrow> m | Some y \<Rightarrow> h y) f = (case x of None \<Rightarrow> sbind m f | Some y \<Rightarrow> sbind (h y) f)"
  by (simp split: option.split)

lemmas [parse_assoc] = sbind_ret_left

section \<open>Tokens\<close>

lemma peek_tok_last: "sound p \<Longrightarrow> peek_tok p \<noteq> TK_Eof \<Longrightarrow> Suc (pr_pos p) < length (pr_tokens p)"
proof (rule ccontr)
  assume p: "sound p" "peek_tok p \<noteq> TK_Eof" "\<not> Suc (pr_pos p) < length (pr_tokens p)"
  then have "pr_pos p = length (pr_tokens p) - 1" unfolding sound_def by linarith
  with p show False
    by (cases "pr_tokens p = []") (auto simp: sound_def peek_tok_def peek_ahead_def nth_opt_def last_conv_nth [of "pr_tokens p"])
qed

lemma takes_advance:
  assumes "\<And>p. P p \<Longrightarrow> peek_tok p \<noteq> TK_Eof"
  shows "takes Q P n advance_tok"
proof (rule takesI)
  fix p
  assume p: "sound p" "P p"
  from peek_tok_last [OF p(1) assms [OF p(2)]] p(1)
  show "case advance_tok p of
       (Inl stop, p') \<Rightarrow> error_of_source p stop \<and> onward p p'
     | (Inr x, p') \<Rightarrow> onward p p' \<and> (Q x \<longrightarrow> left p' < left p)"
    by (auto simp: advance_tok_def nth_opt_def sound_def onward_def left_def)
qed

declare takes_advance [parse_rules]

lemma takes_advance_bind [parse_rules]:
  "(\<And>p. P p \<Longrightarrow> peek_tok p \<noteq> TK_Eof) \<Longrightarrow> (\<And>x. safe anywhere (n - 1) (f x)) \<Longrightarrow>
    takes Q P n (sbind advance_tok f)"
  by (intro eats_bind takes_advance)

lemma takes_err [parse_rules]: "takes Q P n (parse_err msg)"
  by (rule takesI)
    (auto simp: parse_err_def error_of_source_def tok_span_def nth_opt_def sound_def)

lemma at_not_eof: "at_tok k p \<Longrightarrow> k \<noteq> TK_Eof \<Longrightarrow> peek_tok p \<noteq> TK_Eof"
  by (auto simp: at_tok_def same_discriminant_def)

lemma at_eof_iff: "at_eof p \<longleftrightarrow> peek_tok p = TK_Eof"
  by (auto simp: at_tok_def same_discriminant_def split: token_kind.splits)

lemma ident_not_eof: "ident_of k = Some x \<Longrightarrow> k \<noteq> TK_Eof" "is_ident k \<Longrightarrow> k \<noteq> TK_Eof"
  by (auto simp: ident_of_def is_ident_def)

lemmas not_eof = at_not_eof ident_not_eof

lemma eats_expect: "k \<noteq> TK_Eof \<Longrightarrow> takes Q P n (expect k)"
  unfolding expect_def
  by (rule takes_when; (intro takes_reads takes_err takes_advance)?) (auto dest: at_not_eof)

lemma eats_ident: "takes Q P n expect_ident"
  unfolding expect_ident_def
  by (intro parse_rules) (auto simp: ident_not_eof)

lemma eats_semi: "takes Q P n expect_semi"
  unfolding expect_semi_def
  by (rule eats_bind [OF eats_expect]) (simp_all add: parse_rules)

lemma eats_semi_then: "takes Q P n (semi_then x)"
  unfolding semi_then_def
  by (rule eats_bind [OF eats_semi]) (simp add: parse_rules)

lemmas [parse_rules] = eats_expect eats_expect [THEN eats_bind] eats_ident eats_ident [THEN eats_bind]
  eats_semi eats_semi [THEN eats_bind] eats_semi_then eats_semi_then [THEN eats_bind]

section \<open>Loops\<close>

text \<open>A loop ends when every round that goes on takes a token.\<close>

lemma loop_fuel_takes:
  assumes "\<And>x. takes (case_sum (\<lambda>_. True) Q) anywhere n (f x)"
  shows "sound p \<Longrightarrow> left p \<le> n \<Longrightarrow> left p < k \<Longrightarrow>
    (case loop_fuel k f x p of
       (Inl stop, p') \<Rightarrow> error_of_source p stop \<and> onward p p'
     | (Inr x, p') \<Rightarrow> onward p p' \<and> (Q x \<longrightarrow> left p' < left p))"
proof (induction k arbitrary: x p)
  case (Suc k)
  from assms [of x] Suc.prems(1) TrueI Suc.prems(2) show ?case
  proof (cases rule: takesD)
    case (ok r p')
    show ?thesis
    proof (cases r)
      case (Inl y)
      with ok have p': "onward p p'" "left p' < left p" by simp_all
      then have "sound p'" "left p' \<le> n" "left p' < k" using Suc.prems by (simp_all add: onward_def)
      from Suc.IH [OF this, of y] ok Inl p' show ?thesis
        by (auto simp: error_onward sm_run intro: onward_trans split: prod.splits sum.splits)
    qed (use ok in \<open>simp add: sm_run\<close>)
  qed simp
qed simp

lemma takes_loop_exit:
  assumes f: "\<And>x. takes (case_sum (\<lambda>_. True) Q) anywhere n (f x)"
  shows "takes Q P n (loop_tok f x)"
proof (rule takesI)
  fix p
  assume p: "sound p" "left p \<le> n"
  have "left p < Suc (length (pr_tokens p))" by (simp add: left_def)
  from loop_fuel_takes [where f = f and x = x, OF f p this]
  show "case loop_tok f x p of
       (Inl stop, p') \<Rightarrow> error_of_source p stop \<and> onward p p'
     | (Inr x, p') \<Rightarrow> onward p p' \<and> (Q x \<longrightarrow> left p' < left p)"
    by (simp add: loop_tok_def del: loop_fuel.simps)
qed

lemma takes_loop [parse_rules]: "(\<And>x. takes isl anywhere n (f x)) \<Longrightarrow> safe P n (loop_tok f x)"
  by (rule takes_loop_exit, rule takes_weaken [where Q = isl]) (auto split: sum.splits)

lemma takes_go_on [parse_rules]: "takes (\<lambda>x. Q (Inl x)) P n m \<Longrightarrow> takes Q P n (go_on m)"
  unfolding go_on_def by (rule takes_bind [where Q' = "\<lambda>x. Q (Inl x)"]) (auto intro: takes_ret)

lemma takes_leave [parse_rules]: "(\<And>x. \<not> Q (Inr x)) \<Longrightarrow> safe P n m \<Longrightarrow> takes Q P n (leave m)"
  unfolding leave_def by (rule safe_bind) (simp_all add: parse_rules)

lemma takes_while [parse_rules]: "(\<And>x. eats c n (f x)) \<Longrightarrow> safe P n (while_at c f x)"
  unfolding while_at_def
  by (intro parse_rules) (auto intro: takes_weaken)

lemma takes_push [parse_rules]: "eats c n m \<Longrightarrow> safe P n (push_while c m xs)"
  unfolding push_while_def
  by (intro takes_while eats_bind) (simp_all add: parse_rules)

lemma takes_skip [parse_rules]:
  "(\<And>p. c p \<Longrightarrow> peek_tok p \<noteq> TK_Eof) \<Longrightarrow> safe P n (skip_tokens c)"
  unfolding skip_tokens_def
  by (intro parse_rules) auto

lemmas [parse_rules] = takes_loop [THEN safe_bind] takes_while [THEN safe_bind]
  takes_push [THEN safe_bind] takes_skip [THEN safe_bind]

lemma takes_when_skip:
  "(\<And>p. P p \<Longrightarrow> c p \<Longrightarrow> peek_tok p \<noteq> TK_Eof) \<Longrightarrow> safe P n (when_skip c)"
  unfolding when_skip_def
  by (intro parse_rules) auto

lemma eats_skip_past:
  "(\<And>p. P p \<Longrightarrow> peek_tok p \<noteq> TK_Eof) \<Longrightarrow> takes Q P n (skip_past close)"
  unfolding skip_past_def
  by (intro parse_rules) (auto simp: at_eof_iff dest: at_not_eof)

lemmas [parse_rules] = takes_when_skip takes_when_skip [THEN safe_bind] eats_skip_past

lemmas at_rules = in_braces_def at_eof_iff

lemma safe_type_params: "safe P n skip_type_params"
  unfolding skip_type_params_def
  by (intro parse_rules; auto dest: not_eof)

lemmas [parse_rules] = safe_type_params safe_type_params [THEN safe_bind]

lemma safe_adt_header: "safe P n skip_adt_header"
  unfolding skip_adt_header_def parse_assoc
  by (intro parse_rules; auto simp: at_rules dest: not_eof)

lemma at_raises_not_eof: "at_raises p \<Longrightarrow> peek_tok p \<noteq> TK_Eof"
  by (auto simp: at_raises_def dest: not_eof)

lemma safe_raises: "safe P n skip_raises"
  unfolding skip_raises_def parse_assoc
  by (intro parse_rules; auto dest: not_eof at_raises_not_eof)

lemma safe_for_clause: "safe P n skip_for_clause"
  unfolding skip_for_clause_def parse_assoc
  by (intro parse_rules; auto dest: not_eof)

lemmas [parse_rules] = safe_adt_header [THEN safe_bind] safe_raises [THEN safe_bind] safe_for_clause [THEN safe_bind]

lemma eats_names: "takes Q P n comma_names"
  unfolding comma_names_def
  by (intro parse_rules; auto dest: not_eof)

lemmas [parse_rules] = eats_names eats_names [THEN eats_bind]

section \<open>Types\<close>

lemma eats_param_name: "takes Q P n param_name"
  unfolding param_name_def
  by (intro parse_rules; auto dest: not_eof)

lemmas [parse_rules] = eats_param_name eats_param_name [THEN eats_bind]

text \<open>Where the cursor goes back it goes back to where it was.\<close>

lemma back_to_comma:
  assumes "sound p" and "advance_tok p = (Inr x, p1)" and "onward p p1"
  shows "onward p (p1\<lparr>pr_pos := pr_pos p\<rparr>)"
  using assms by (simp add: onward_def sound_def left_def)

lemma safe_varargs: "safe P n skip_varargs"
proof (rule takesI)
  fix p
  assume p: "sound p"
  show "case skip_varargs p of
       (Inl stop, p') \<Rightarrow> error_of_source p stop \<and> onward p p'
     | (Inr x, p') \<Rightarrow> onward p p' \<and> (False \<longrightarrow> left p' < left p)"
  proof (cases "at_sym SY_Comma p")
    case True
    then have "peek_tok p \<noteq> TK_Eof" by (auto dest: not_eof)
    have "safe (\<lambda>p. peek_tok p \<noteq> TK_Eof) (left p) advance_tok" by (rule takes_advance)
    from this p \<open>peek_tok p \<noteq> TK_Eof\<close> order_refl show ?thesis
    proof (cases rule: takesD)
      case (err stop p1)
      with True show ?thesis by (simp add: skip_varargs_def when_at_def)
    next
      case (ok x p1)
      show ?thesis
      proof (cases "at_sym SY_Star p1")
        case star: True
        have "safe (at_sym SY_Star) (left p1) (then_do advance_tok (ret ()))"
          by (intro parse_rules; auto dest: not_eof)
        moreover have "sound p1" using ok(2) by (simp add: onward_def)
        ultimately show ?thesis using star order_refl
        proof (cases rule: takesD)
          case (err stop p2)
          with ok star True onward_trans [OF ok(2) err(3)] show ?thesis
            by (simp add: skip_varargs_def when_at_def error_onward [OF ok(2)])
        next
          case (ok y p2)
          with \<open>advance_tok p = _\<close> star True onward_trans [OF \<open>onward p p1\<close> ok(2)] show ?thesis
            by (simp add: skip_varargs_def when_at_def)
        qed
      next
        case False
        with ok back_to_comma [OF p ok(1,2)] True show ?thesis
          by (simp add: skip_varargs_def when_at_def)
      qed
    qed
  qed (use p in \<open>simp add: skip_varargs_def when_at_def sm_run\<close>)
qed

lemmas [parse_rules] = safe_varargs [THEN safe_bind]

lemma basic_not_eof: "basic_of k = Some b \<Longrightarrow> k \<noteq> TK_Eof"
  by (auto simp: basic_of_def)

lemma takes_named_type:
  "(\<And>p. P p \<Longrightarrow> peek_tok p \<noteq> TK_Eof) \<Longrightarrow> takes Q P n (parse_named_type name)"
  unfolding parse_named_type_def parse_assoc
  by (intro parse_rules; auto dest: not_eof)

lemmas [parse_rules] = takes_named_type

text \<open>What the types inside a type are read with takes a token; then so do types.\<close>

locale type_parser =
  fixes ty :: "ltype pm" and n :: nat
  assumes takes_ty: "n' \<le> n \<Longrightarrow> takes Q P n' ty"
begin

lemmas [parse_rules] = takes_ty takes_ty [THEN eats_bind]

lemma takes_param: "n' \<le> n \<Longrightarrow> takes Q P n' (parse_param ty)"
  unfolding parse_param_def parse_assoc
  by (intro parse_rules; auto dest: not_eof)

lemmas [parse_rules] = takes_param [THEN eats_bind]

lemma safe_params: "n' \<le> n \<Longrightarrow> safe P n' (parse_params ty)"
  unfolding parse_params_def parse_assoc Let_def
  by (intro parse_rules; auto dest: not_eof)

lemmas [parse_rules] = safe_params [THEN safe_bind]

lemma safe_sig_params: "n' \<le> n \<Longrightarrow> safe P n' (parse_sig_params ty)"
  unfolding parse_sig_params_def parse_assoc
  by (intro parse_rules; auto dest: not_eof)

lemma safe_ret: "n' \<le> n \<Longrightarrow> safe P n' (parse_ret ty)"
  unfolding parse_ret_def parse_assoc
  by (intro parse_rules; auto dest: not_eof)

lemmas [parse_rules] = safe_sig_params [THEN safe_bind] safe_ret [THEN safe_bind]

lemma takes_sig: "n' \<le> Suc n \<Longrightarrow> takes Q P n' (parse_func_sig_with ty name)"
  unfolding parse_func_sig_with_def parse_assoc
  by (intro parse_rules; auto dest: not_eof)

lemmas [parse_rules] = takes_sig takes_sig [THEN eats_bind]

lemma takes_tuple: "(\<And>p. P p \<Longrightarrow> peek_tok p \<noteq> TK_Eof) \<Longrightarrow> n' \<le> Suc n \<Longrightarrow> takes Q P n' (parse_tuple_type ty)"
  unfolding parse_tuple_type_def parse_assoc
  by (intro parse_rules; auto dest: not_eof)

lemma takes_of: "(\<And>p. P p \<Longrightarrow> peek_tok p \<noteq> TK_Eof) \<Longrightarrow> n' \<le> Suc n \<Longrightarrow> takes Q P n' (parse_of ty f)"
  unfolding parse_of_def parse_assoc
  by (intro parse_rules; auto dest: not_eof)

lemmas [parse_rules] = takes_tuple takes_of

lemma takes_step: "n' \<le> Suc n \<Longrightarrow> takes Q P n' (parse_type_step ty)"
  unfolding parse_type_step_def parse_assoc
  by (intro parse_rules; auto dest: not_eof basic_not_eof)

end

lemma type_fuel: "type_parser (parse_type_fuel n) n"
proof (induction n)
  case 0
  show ?case by unfold_locales (simp add: takes_0)
next
  case (Suc n)
  show ?case by unfold_locales (simp add: type_parser.takes_step [OF Suc])
qed

text \<open>A bound of as many calls as there are tokens is enough.\<close>

lemma takes_bounded:
  assumes "\<And>k. takes Q P k (f k)"
  shows "takes Q P n (\<lambda>p. f (Suc (length (pr_tokens p))) p)"
proof (rule takesI)
  fix p
  assume p: "sound p" "P p"
  have "left p \<le> Suc (length (pr_tokens p))" by (simp add: left_def)
  from assms p this show "case f (Suc (length (pr_tokens p))) p of
       (Inl stop, p') \<Rightarrow> error_of_source p stop \<and> onward p p'
     | (Inr x, p') \<Rightarrow> onward p p' \<and> (Q x \<longrightarrow> left p' < left p)"
    by (cases rule: takesD) auto
qed

lemma takes_type: "takes Q P n parse_type"
  unfolding parse_type_def
  by (rule takes_bounded) (rule type_parser.takes_ty [OF type_fuel order_refl])

interpretation types: type_parser parse_type n for n
  by unfold_locales (rule takes_type)

lemma takes_func_sig: "takes Q P n (parse_func_sig name)"
  unfolding parse_func_sig_def by (rule types.takes_sig [of _ n]) simp

lemmas [parse_rules] = takes_type takes_type [THEN eats_bind] takes_func_sig takes_func_sig [THEN eats_bind]

section \<open>Expressions\<close>

lemma list_end_not_eof:
  "at_list_end p \<Longrightarrow> peek_tok p \<noteq> TK_Eof" "at_qualifier p \<Longrightarrow> peek_tok p \<noteq> TK_Eof"
  "at_send p \<Longrightarrow> peek_tok p \<noteq> TK_Eof"
  by (auto simp: at_list_end_def at_qualifier_def at_send_def dest: not_eof)

lemma safe_comma_list:
  assumes "\<And>P n'. n' \<le> n \<Longrightarrow> eats P n' m" and "n' \<le> n"
  shows "safe P n' (comma_list end_at m)"
proof -
  note [parse_rules] = assms(1) assms(1) [THEN eats_bind]
  show ?thesis
    unfolding comma_list_def comma_round_def parse_assoc
    using assms(2) by (intro parse_rules; auto dest: not_eof)
qed

lemma literal_not_eof: "literal_of k span = Some e \<Longrightarrow> k \<noteq> TK_Eof"
  by (auto simp: literal_of_def)

lemma prefix_not_eof: "map_of prefix_operators k = Some f \<Longrightarrow> k \<noteq> TK_Eof"
  by (auto simp: prefix_operators_def)

lemma infix_not_eof:
  "infix_binding_power k = Some b \<Longrightarrow> k \<noteq> TK_Eof" "assign_binding_power k = Some a \<Longrightarrow> k \<noteq> TK_Eof"
  by (auto simp: infix_binding_power_def assign_binding_power_def)

lemma takes_skip_braces:
  "(\<And>p. P p \<Longrightarrow> peek_tok p \<noteq> TK_Eof) \<Longrightarrow> takes Q P n (skip_braces span)"
  unfolding skip_braces_def
  by (intro parse_rules; auto simp: at_eof_iff)

lemma safe_assigned: "safe P n (assigned kind lhs rhs span)"
  by (auto simp: assigned_def parse_rules split: assign_kind.split expr.split option.split)

lemmas [parse_rules] = takes_skip_braces safe_assigned

text \<open>The spaced arrow of a send is two tokens; the second is there too.\<close>

lemma advance_moves:
  assumes "sound p" and "peek_tok p \<noteq> TK_Eof"
  obtains tok where "advance_tok p = (Inr tok, p\<lparr>pr_pos := Suc (pr_pos p)\<rparr>)"
    "onward p (p\<lparr>pr_pos := Suc (pr_pos p)\<rparr>)" "left (p\<lparr>pr_pos := Suc (pr_pos p)\<rparr>) < left p"
  using peek_tok_last [OF assms] assms(1)
  by (auto simp: advance_tok_def nth_opt_def onward_def sound_def left_def)

lemma takes_send_arrow: "(\<And>p. P p \<Longrightarrow> at_send p) \<Longrightarrow> takes Q P n send_arrow"
proof (rule takesI)
  fix p
  assume "\<And>p. P p \<Longrightarrow> at_send p" and p: "sound p" "P p"
  then have send: "at_send p" by simp
  then have "peek_tok p \<noteq> TK_Eof" by (rule list_end_not_eof)
  from p(1) this obtain tok where first: "advance_tok p = (Inr tok, p\<lparr>pr_pos := Suc (pr_pos p)\<rparr>)"
    "onward p (p\<lparr>pr_pos := Suc (pr_pos p)\<rparr>)" "left (p\<lparr>pr_pos := Suc (pr_pos p)\<rparr>) < left p"
    by (rule advance_moves)
  let ?p = "p\<lparr>pr_pos := Suc (pr_pos p)\<rparr>"
  show "case send_arrow p of
       (Inl stop, p') \<Rightarrow> error_of_source p stop \<and> onward p p'
     | (Inr x, p') \<Rightarrow> onward p p' \<and> (Q x \<longrightarrow> left p' < left p)"
  proof (cases "at_sym SY_ChanRecv p")
    case True
    with send have "at_offset 1 (TK_Symbol SY_Assign) p"
      by (auto simp: at_send_def at_tok_def same_discriminant_def split: token_kind.splits)
    then have "peek_tok ?p \<noteq> TK_Eof"
      by (auto simp: at_offset_def peek_tok_def peek_ahead_def same_discriminant_def)
    moreover have "sound ?p" using first(2) by (simp add: onward_def)
    ultimately obtain tok2 where "advance_tok ?p = (Inr tok2, ?p\<lparr>pr_pos := Suc (pr_pos ?p)\<rparr>)"
      "onward ?p (?p\<lparr>pr_pos := Suc (pr_pos ?p)\<rparr>)"
      "left (?p\<lparr>pr_pos := Suc (pr_pos ?p)\<rparr>) < left ?p"
      using advance_moves by blast
    with True first show ?thesis
      by (simp add: send_arrow_def when_skip_def when_at_def sm_run onward_trans)
  next
    case False
    with first show ?thesis
      by (simp add: send_arrow_def when_skip_def when_at_def sm_run)
  qed
qed

lemmas [parse_rules] = takes_send_arrow [THEN eats_bind]

text \<open>What operands are read with takes a token; then so do expressions.\<close>

locale expr_parser =
  fixes ex :: "nat \<Rightarrow> expr pm" and n :: nat
  assumes takes_ex: "n' \<le> n \<Longrightarrow> takes Q P n' (ex bp)"
begin

lemmas [parse_rules] = takes_ex takes_ex [THEN eats_bind]

lemma takes_init: "n' \<le> n \<Longrightarrow> takes Q P n' (parse_init_expr ex)"
  unfolding parse_init_expr_def parse_assoc
  by (intro parse_rules; auto dest: not_eof)

lemma safe_list: "n' \<le> n \<Longrightarrow> safe P n' (parse_expr_list ex)"
  unfolding parse_expr_list_def
  by (rule safe_comma_list) (auto intro: takes_init)

lemma safe_selectors: "n' \<le> n \<Longrightarrow> safe P n' (parse_selectors ex e)"
  unfolding parse_selectors_def parse_assoc Let_def
  by (intro parse_rules; auto dest: not_eof)

lemmas [parse_rules] = safe_list safe_list [THEN safe_bind] safe_selectors [THEN safe_bind]

lemma takes_elem: "n' \<le> n \<Longrightarrow> takes Q P n' (parse_array_elem ex)"
  unfolding parse_array_elem_def parse_assoc
  by (intro parse_rules; auto dest: not_eof)

lemma safe_elem_list: "n' \<le> n \<Longrightarrow> safe P n' (parse_array_elem_list ex)"
  unfolding parse_array_elem_list_def
  by (rule safe_comma_list) (auto intro: takes_elem)

lemmas [parse_rules] = safe_elem_list [THEN safe_bind]

text \<open>These start with a token of their own.\<close>

lemma takes_operand:
  "(\<And>p. P p \<Longrightarrow> peek_tok p \<noteq> TK_Eof) \<Longrightarrow> n' \<le> Suc n \<Longrightarrow> takes Q P n' (parse_operand ex f)"
  unfolding parse_operand_def parse_assoc
  by (intro parse_rules; auto dest: not_eof)

lemma takes_braced:
  "(\<And>p. P p \<Longrightarrow> peek_tok p \<noteq> TK_Eof) \<Longrightarrow> n' \<le> Suc n \<Longrightarrow> takes Q P n' (braced_elems ex)"
  unfolding braced_elems_def parse_assoc
  by (intro parse_rules; auto dest: not_eof)

lemmas [parse_rules] = takes_braced [THEN eats_bind]

lemma takes_array:
  "(\<And>p. P p \<Longrightarrow> peek_tok p \<noteq> TK_Eof) \<Longrightarrow> n' \<le> Suc n \<Longrightarrow> takes Q P n' (parse_array ex span)"
  unfolding parse_array_def parse_assoc
  by (intro parse_rules; auto dest: not_eof)

lemma takes_chan:
  "(\<And>p. P p \<Longrightarrow> peek_tok p \<noteq> TK_Eof) \<Longrightarrow> n' \<le> Suc n \<Longrightarrow> takes Q P n' (parse_chan ex span)"
  unfolding parse_chan_def parse_assoc
  by (intro parse_rules; auto dest: not_eof)

lemma takes_list_lit:
  "(\<And>p. P p \<Longrightarrow> peek_tok p \<noteq> TK_Eof) \<Longrightarrow> n' \<le> Suc n \<Longrightarrow> takes Q P n' (parse_list_lit ex span)"
  unfolding parse_list_lit_def parse_assoc
  by (intro parse_rules; auto dest: not_eof)

lemma takes_load:
  "(\<And>p. P p \<Longrightarrow> peek_tok p \<noteq> TK_Eof) \<Longrightarrow> n' \<le> Suc n \<Longrightarrow> takes Q P n' (parse_load ex span)"
  unfolding parse_load_def parse_assoc
  by (intro parse_rules; auto dest: not_eof)

lemma takes_parens:
  "(\<And>p. P p \<Longrightarrow> peek_tok p \<noteq> TK_Eof) \<Longrightarrow> n' \<le> Suc n \<Longrightarrow> takes Q P n' (parse_parens ex span)"
  unfolding parse_parens_def parse_assoc
  by (intro parse_rules; auto dest: not_eof)

lemma takes_star:
  "(\<And>p. P p \<Longrightarrow> peek_tok p \<noteq> TK_Eof) \<Longrightarrow> n' \<le> Suc n \<Longrightarrow> takes Q P n' (parse_star ex span)"
  unfolding parse_star_def parse_assoc
  by (intro parse_rules; auto dest: not_eof)

lemma takes_cast: "n' \<le> Suc n \<Longrightarrow> takes Q P n' (parse_cast ex b span)"
  unfolding parse_cast_def parse_assoc
  by (intro parse_rules; auto dest: not_eof)

lemmas [parse_rules] = takes_operand takes_array takes_chan takes_list_lit takes_load takes_parens
  takes_star takes_cast

lemma takes_prefix: "n' \<le> Suc n \<Longrightarrow> takes Q P n' (parse_prefix ex)"
  unfolding parse_prefix_def parse_assoc
  by (intro parse_rules; auto dest: not_eof literal_not_eof prefix_not_eof basic_not_eof)

lemma safe_bound: "(\<And>p. P p \<Longrightarrow> peek_tok p \<noteq> TK_Eof) \<Longrightarrow> n' \<le> Suc n \<Longrightarrow> takes Q P n' (parse_bound ex)"
  unfolding parse_bound_def parse_assoc
  by (intro parse_rules; auto dest: not_eof)

lemmas [parse_rules] = safe_bound [THEN eats_bind]

lemma takes_subscript: "(\<And>p. P p \<Longrightarrow> peek_tok p \<noteq> TK_Eof) \<Longrightarrow> n' \<le> Suc n \<Longrightarrow> takes Q P n' (parse_subscript ex lhs span)"
  unfolding parse_subscript_def parse_assoc
  by (intro parse_rules; auto dest: not_eof)

lemmas [parse_rules] = takes_subscript [THEN eats_bind]

lemma takes_postfix: "n' \<le> Suc n \<Longrightarrow> takes (\<lambda>r. r \<noteq> None) P n' (parse_postfix ex lhs span)"
  unfolding parse_postfix_def parse_assoc
  by (intro parse_rules; auto dest: not_eof)

lemma takes_rhs:
  "(\<And>p. P p \<Longrightarrow> peek_tok p \<noteq> TK_Eof) \<Longrightarrow> n' \<le> Suc n \<Longrightarrow> (\<And>e n. safe anywhere n (f e)) \<Longrightarrow>
    takes isl P n' (parse_rhs ex min_bp l_bp r_bp lhs f)"
  unfolding parse_rhs_def parse_assoc
  by (intro parse_rules; auto dest: not_eof)

lemmas [parse_rules] = takes_rhs

lemma takes_infix: "n' \<le> Suc n \<Longrightarrow> takes isl P n' (parse_infix ex min_bp lhs span)"
  unfolding parse_infix_def parse_assoc
  by (intro parse_rules; auto intro!: parse_rules dest: not_eof infix_not_eof list_end_not_eof)

lemma takes_expr_step: "n' \<le> Suc n \<Longrightarrow> takes Q P n' (parse_expr_step ex bp)"
  unfolding parse_expr_step_def
  by (intro takes_reads eats_bind [OF takes_prefix] takes_loop takes_bind [OF takes_postfix])
    (auto intro!: takes_infix takes_ret)

end

lemma expr_fuel: "expr_parser (parse_expr_fuel n) n"
proof (induction n)
  case 0
  show ?case by unfold_locales (simp add: takes_0)
next
  case (Suc n)
  show ?case by unfold_locales (simp add: expr_parser.takes_expr_step [OF Suc])
qed

lemma takes_expr_bp: "takes Q P n (parse_expr_bp bp)"
  unfolding parse_expr_bp_def
  by (rule takes_bounded) (rule expr_parser.takes_ex [OF expr_fuel order_refl])

interpretation exprs: expr_parser parse_expr_bp n for n
  by unfold_locales (rule takes_expr_bp)

lemma takes_expr: "takes Q P n parse_expr"
  unfolding parse_expr_def by (rule takes_expr_bp)

lemmas [parse_rules] = takes_expr takes_expr [THEN eats_bind]

section \<open>Statements\<close>

lemma safe_optional: "safe P n (optional_expr close)"
  unfolding optional_expr_def parse_assoc
  by (intro parse_rules; auto simp: at_rules dest: not_eof)

lemma safe_label: "safe P n optional_label"
  unfolding optional_label_def parse_assoc
  by (intro parse_rules; auto simp: at_rules dest: not_eof)

lemma safe_initialiser: "safe P n initialiser"
  unfolding initialiser_def parse_assoc
  by (intro parse_rules; auto simp: at_rules dest: not_eof)

lemmas [parse_rules] = safe_optional [THEN safe_bind] safe_label [THEN safe_bind] safe_initialiser [THEN safe_bind]

lemma takes_local_var: "takes Q P n parse_local_var_decl"
  unfolding parse_local_var_decl_def parse_assoc
  by (intro parse_rules; auto simp: at_rules dest: not_eof)

lemma takes_parens_expr: "takes Q P n parens_expr"
  unfolding parens_expr_def parse_assoc
  by (intro parse_rules; auto simp: at_rules dest: not_eof)

lemma safe_for_part: "safe P n (for_part close)"
  unfolding for_part_def parse_assoc
  by (intro parse_rules; auto simp: at_rules dest: not_eof)

lemmas [parse_rules] = takes_local_var takes_parens_expr [THEN eats_bind] safe_for_part [THEN safe_bind]

lemma wildcard_not_eof: "at_wildcard_arm p \<Longrightarrow> peek_tok p \<noteq> TK_Eof"
  by (auto simp: at_wildcard_arm_def dest: not_eof)

lemma takes_case_pattern: "takes Q P n parse_case_pattern"
  unfolding parse_case_pattern_def parse_assoc
  by (intro parse_rules; auto simp: at_rules dest: not_eof wildcard_not_eof)

lemma takes_or_list: "(\<And>Q P n. takes Q P n m) \<Longrightarrow> takes Q P n (or_list m)"
proof -
  assume m: "\<And>Q P n. takes Q P n m"
  note [parse_rules] = m m [THEN eats_bind]
  show ?thesis
    unfolding or_list_def
    by (intro parse_rules; auto dest: not_eof)
qed

lemma takes_case_patterns: "takes Q P n parse_case_patterns"
  unfolding parse_case_patterns_def by (rule takes_or_list) (rule takes_case_pattern)

lemma safe_classify: "safe P n (classify_alt_guard e)"
  by (auto simp: classify_alt_guard_def Let_def parse_rules split: prod.split expr.split option.split)

lemma takes_guard: "takes Q P n (sbind parse_expr classify_alt_guard)"
  by (intro parse_rules safe_classify)

lemma takes_guards: "takes Q P n parse_guards"
  unfolding parse_guards_def
  by (intro parse_rules takes_or_list takes_guard) (auto dest: wildcard_not_eof)

lemma takes_pick_tags: "takes Q P n pick_tags"
  unfolding pick_tags_def
  by (intro parse_rules takes_or_list) (auto dest: wildcard_not_eof)

lemmas [parse_rules] = takes_case_patterns [THEN eats_bind] takes_guards [THEN eats_bind]
  takes_pick_tags [THEN eats_bind]

lemma opening_not_eof: "k \<in> opening_tokens \<Longrightarrow> k \<noteq> TK_Eof"
  by (auto simp: opening_tokens_def)

lemma takes_handler_pattern: "takes (\<lambda>found. found) P n handler_pattern"
  unfolding handler_pattern_def go_on_def leave_def parse_assoc
  by (rule takes_loop_exit) (intro parse_rules; auto dest: opening_not_eof)

text \<open>An error that is caught leaves the cursor where it was found.\<close>

lemma takes_recover:
  assumes m: "eats P n m" and f: "\<And>x. safe anywhere (n - 1) (f x)" and r: "takes Q anywhere n r"
  shows "takes Q P n (or_recover m f r)"
proof (rule takesI)
  fix p
  assume p: "sound p" "P p" "left p \<le> n"
  from m p show "case or_recover m f r p of
       (Inl stop, p') \<Rightarrow> error_of_source p stop \<and> onward p p'
     | (Inr x, p') \<Rightarrow> onward p p' \<and> (Q x \<longrightarrow> left p' < left p)"
  proof (cases rule: takesD)
    case (err stop p')
    then obtain e where "m p = (Inl (PS_Error e), p')" by (auto simp: error_of_source_def)
    moreover have "sound p'" "left p' \<le> n" using err p by (auto simp: onward_def)
    from r this(1) TrueI this(2) have "case r p' of
       (Inl stop, p'') \<Rightarrow> error_of_source p stop \<and> onward p p''
     | (Inr x, p'') \<Rightarrow> onward p p'' \<and> (Q x \<longrightarrow> left p'' < left p)"
      by (cases rule: takesD)
        (use err in \<open>auto simp: error_onward intro: onward_trans dest: onward_left\<close>)
    ultimately show ?thesis by (simp add: or_recover_def)
  next
    case (ok x p')
    then have p': "sound p'" "left p' \<le> n - 1" using p by (auto simp: onward_def)
    from f [of x] p'(1) TrueI p'(2) show ?thesis
      by (cases rule: takesD)
        (use ok in \<open>auto simp: or_recover_def error_onward intro: onward_trans dest: onward_left\<close>)
  qed
qed

text \<open>What the statements inside a statement are read with takes a token; then so do statements.\<close>

locale stmt_parser =
  fixes st :: "stmt pm" and n :: nat
  assumes takes_st: "n' \<le> n \<Longrightarrow> takes Q P n' st"
begin

lemmas [parse_rules] = takes_st takes_st [THEN eats_bind]

lemma safe_case_body: "n' \<le> n \<Longrightarrow> safe P n' (case_body st)"
  unfolding case_body_def parse_assoc
  by (intro parse_rules takes_recover; auto simp: at_rules dest: not_eof)

lemmas [parse_rules] = safe_case_body [THEN safe_bind]

lemma takes_block: "n' \<le> Suc n \<Longrightarrow> takes Q P n' (parse_block_with st)"
  unfolding parse_block_with_def parse_assoc
  by (intro parse_rules; auto simp: at_rules dest: not_eof)

lemmas [parse_rules] = takes_block [THEN eats_bind]

lemma takes_if_stmt: "n' \<le> Suc n \<Longrightarrow> takes Q P n' (parse_if st)"
  unfolding parse_if_def parse_assoc
  by (intro parse_rules; auto simp: at_rules dest: not_eof)

lemma takes_for: "n' \<le> Suc n \<Longrightarrow> takes Q P n' (parse_for st span)"
  unfolding parse_for_def parse_assoc
  by (intro parse_rules; auto simp: at_rules dest: not_eof)

lemma takes_while_stmt: "n' \<le> Suc n \<Longrightarrow> takes Q P n' (parse_while st span)"
  unfolding parse_while_def parse_assoc
  by (intro parse_rules; auto simp: at_rules dest: not_eof)

lemma takes_do: "n' \<le> Suc n \<Longrightarrow> takes Q P n' (parse_do st span)"
  unfolding parse_do_def parse_assoc
  by (intro parse_rules; auto simp: at_rules dest: not_eof)

lemma takes_case_arm: "n' \<le> Suc n \<Longrightarrow> takes Q P n' (case_arm st)"
  unfolding case_arm_def parse_assoc
  by (intro parse_rules; auto simp: at_rules dest: not_eof)

lemma takes_alt_arm: "n' \<le> Suc n \<Longrightarrow> takes Q P n' (alt_arm st)"
  unfolding alt_arm_def parse_assoc
  by (intro parse_rules; auto simp: at_rules dest: not_eof)

lemma takes_pick_arm: "n' \<le> Suc n \<Longrightarrow> takes Q P n' (pick_arm st)"
  unfolding pick_arm_def parse_assoc
  by (intro parse_rules; auto simp: at_rules dest: not_eof)

lemmas [parse_rules] = takes_case_arm takes_alt_arm takes_pick_arm

lemma takes_case: "n' \<le> Suc n \<Longrightarrow> takes Q P n' (parse_case st span)"
  unfolding parse_case_def parse_assoc
  by (intro parse_rules; auto simp: at_rules dest: not_eof)

lemma takes_alt: "n' \<le> Suc n \<Longrightarrow> takes Q P n' (parse_alt st span)"
  unfolding parse_alt_def parse_assoc
  by (intro parse_rules; auto simp: at_rules dest: not_eof)

lemma takes_pick: "(\<And>p. P p \<Longrightarrow> peek_tok p \<noteq> TK_Eof) \<Longrightarrow> n' \<le> Suc n \<Longrightarrow> takes Q P n' (parse_pick st span)"
  unfolding parse_pick_def parse_assoc
  by (intro parse_rules; auto simp: at_rules dest: not_eof)

lemma safe_exception_body: "n' \<le> Suc n \<Longrightarrow> safe P n' (parse_exception_body st)"
  unfolding parse_exception_body_def parse_assoc
  by (intro takes_loop takes_when takes_bind [OF takes_handler_pattern]; intro parse_rules;
      auto simp: at_rules dest: not_eof)

lemmas [parse_rules] = safe_exception_body [THEN safe_bind]

lemma takes_handlers: "(\<And>p. P p \<Longrightarrow> peek_tok p \<noteq> TK_Eof) \<Longrightarrow> n' \<le> Suc n \<Longrightarrow> takes Q P n' (skip_handlers st)"
  unfolding skip_handlers_def parse_assoc
  by (intro parse_rules; auto simp: at_rules dest: not_eof)

lemmas [parse_rules] = takes_handlers takes_handlers [THEN eats_bind]

lemma takes_block_stmt: "n' \<le> Suc n \<Longrightarrow> takes Q P n' (block_stmt st)"
  unfolding block_stmt_def parse_assoc
  by (intro parse_rules; auto simp: at_rules dest: not_eof)

lemma takes_other_stmt: "n' \<le> Suc n \<Longrightarrow> takes Q P n' (other_stmt st)"
  unfolding other_stmt_def parse_assoc
  by (intro parse_rules; auto simp: at_rules dest: not_eof split: token_kind.splits)

lemmas [parse_rules] = takes_if_stmt takes_for takes_while_stmt takes_do takes_case takes_alt takes_pick
  takes_block_stmt takes_other_stmt

lemma takes_stmt_step: "n' \<le> Suc n \<Longrightarrow> takes Q P n' (parse_stmt_step st)"
  unfolding parse_stmt_step_def parse_assoc
  by (intro parse_rules; auto simp: at_rules dest: not_eof)

end

lemma stmt_fuel: "stmt_parser (parse_stmt_fuel n) n"
proof (induction n)
  case 0
  show ?case by unfold_locales (simp add: takes_0)
next
  case (Suc n)
  show ?case by unfold_locales (simp add: stmt_parser.takes_stmt_step [OF Suc])
qed

lemma takes_stmt: "takes Q P n parse_stmt"
  unfolding parse_stmt_def
  by (rule takes_bounded) (rule stmt_parser.takes_st [OF stmt_fuel order_refl])

interpretation stmts: stmt_parser parse_stmt n for n
  by unfold_locales (rule takes_stmt)

lemma takes_parse_block: "takes Q P n parse_block"
  unfolding parse_block_def by (rule stmts.takes_block [of _ n]) simp

lemmas [parse_rules] = takes_parse_block [THEN eats_bind]

section \<open>Declarations\<close>

lemma takes_field: "takes Q P n parse_field"
  unfolding parse_field_def parse_assoc
  by (intro parse_rules; auto simp: at_rules dest: not_eof)

lemmas [parse_rules] = takes_field [THEN eats_bind]

lemma safe_pick_fields: "safe P n pick_fields"
  unfolding pick_fields_def Let_def parse_assoc
  by (intro parse_rules; auto simp: at_rules dest: not_eof)

lemmas [parse_rules] = safe_pick_fields [THEN safe_bind] takes_or_list [OF eats_ident, THEN eats_bind]

lemma safe_pick_cases: "safe P n parse_pick_cases"
  unfolding parse_pick_cases_def parse_assoc
  by (intro parse_rules; auto simp: at_rules dest: not_eof)

lemma takes_brace_block: "(\<And>P n. safe P n m) \<Longrightarrow> takes Q P n (in_brace_block m)"
  unfolding in_brace_block_def
  by (intro parse_rules safe_bind [where m = m]) simp_all

lemmas [parse_rules] = takes_brace_block [OF safe_pick_cases, THEN eats_bind]

lemma takes_const: "(\<And>p. P p \<Longrightarrow> peek_tok p \<noteq> TK_Eof) \<Longrightarrow> takes Q P n const_value"
  unfolding const_value_def parse_assoc
  by (intro parse_rules; auto simp: at_rules dest: not_eof)

lemma takes_alias: "(\<And>p. P p \<Longrightarrow> peek_tok p \<noteq> TK_Eof) \<Longrightarrow> takes Q P n alias_type"
  unfolding alias_type_def parse_assoc
  by (intro parse_rules; auto simp: at_rules dest: not_eof)

lemma takes_member_sig: "takes Q P n (member_sig names)"
  unfolding member_sig_def parse_assoc
  by (intro parse_rules; auto simp: at_rules dest: not_eof)

lemmas [parse_rules] = takes_const [THEN eats_bind] takes_alias [THEN eats_bind] takes_member_sig [THEN eats_bind]

lemma takes_adt_member: "takes Q P n parse_adt_member"
  unfolding parse_adt_member_def parse_assoc
  by (intro parse_rules; auto simp: at_rules dest: not_eof)

lemmas [parse_rules] = takes_adt_member [THEN eats_bind]

lemma safe_adt_members: "safe P n parse_adt_members"
  unfolding parse_adt_members_def parse_assoc
  by (intro parse_rules; auto simp: at_rules dest: not_eof)

lemmas [parse_rules] = takes_brace_block [OF safe_adt_members, THEN eats_bind]

lemma takes_adt: "(\<And>p. P p \<Longrightarrow> peek_tok p \<noteq> TK_Eof) \<Longrightarrow> takes Q P n parse_adt"
  unfolding parse_adt_def parse_assoc
  by (intro parse_rules; auto simp: at_rules dest: not_eof)

lemmas [parse_rules] = takes_adt [THEN eats_bind]

lemma takes_module_member: "takes Q P n parse_module_member"
  unfolding parse_module_member_def parse_assoc
  by (intro parse_rules; auto simp: at_rules dest: not_eof)

lemmas [parse_rules] = takes_module_member [THEN eats_bind]

lemma safe_module_members: "safe P n parse_module_members"
  unfolding parse_module_members_def parse_assoc
  by (intro parse_rules; auto simp: at_rules dest: not_eof)

lemma safe_exception_type: "safe P n exception_type"
  unfolding exception_type_def parse_assoc
  by (intro parse_rules; auto simp: at_rules dest: not_eof)

lemmas [parse_rules] = takes_brace_block [OF safe_module_members, THEN eats_bind] safe_exception_type [THEN safe_bind]

lemma takes_colon_decl: "takes Q P n (parse_colon_decl span)"
  unfolding parse_colon_decl_def parse_assoc
  by (intro parse_rules; auto simp: at_rules dest: not_eof)

lemma takes_top_init: "takes Q P n (parse_top_init op span)"
  unfolding parse_top_init_def parse_assoc
  by (intro parse_rules; auto simp: at_rules dest: not_eof)

lemma takes_func_def: "takes Q P n parse_func_def"
  unfolding parse_func_def_def parse_assoc
  by (intro parse_rules; auto simp: at_rules dest: not_eof)

lemmas [parse_rules] = takes_colon_decl takes_top_init [THEN eats_bind] takes_func_def [THEN eats_bind]

lemma takes_top_decl: "takes Q P n parse_top_decl"
  unfolding parse_top_decl_def one_decl_def parse_top_assign_def parse_top_decl_assign_def parse_assoc
  by (intro parse_rules; auto intro!: parse_rules split: look_ahead.split)

lemma safe_implement: "safe P n parse_implement"
  unfolding parse_implement_def parse_assoc
  by (intro parse_rules; auto simp: at_rules dest: not_eof)

lemma takes_include: "(\<And>p. P p \<Longrightarrow> peek_tok p \<noteq> TK_Eof) \<Longrightarrow> takes Q P n parse_include"
  unfolding parse_include_def parse_assoc
  by (intro parse_rules; auto intro!: parse_rules split: token_kind.split)

lemmas [parse_rules] = takes_top_decl [THEN eats_bind] takes_include [THEN eats_bind] safe_implement [THEN safe_bind]

lemma takes_item: "takes Q P n (parse_item x)"
  unfolding parse_item_def parse_assoc
  by (intro parse_rules; auto simp: at_rules dest: not_eof)

lemmas [parse_rules] = takes_item

lemma safe_file: "safe P n parse_file"
  unfolding parse_file_def parse_assoc
  by (intro parse_rules; auto simp: at_rules dest: not_eof)

section \<open>Every source is parsed or has an error in it\<close>

lemma loop_exit:
  assumes "\<And>x p y p'. f x p = (Inr (Inr y), p') \<Longrightarrow> \<not> c p'"
  shows "loop_fuel k f x p = (Inr y, p') \<Longrightarrow> \<not> c p'"
proof (induction k arbitrary: x p)
  case (Suc k)
  from Suc.prems obtain r p1 where r: "f x p = (Inr r, p1)"
    "(case r of Inl x' \<Rightarrow> loop_fuel k f x' | Inr y \<Rightarrow> ret y) p1 = (Inr y, p')"
    by (auto elim!: sbind_InrE)
  show ?case
  proof (cases r)
    case (Inl x')
    with r Suc.IH show ?thesis by simp
  next
    case (Inr z)
    with r assms show ?thesis by (simp add: sm_run)
  qed
qed (simp add: sm_run)

lemma while_at_exit: "while_at c f x p = (Inr y, p') \<Longrightarrow> \<not> c p'"
  unfolding while_at_def loop_tok_def
  by (erule loop_exit [rotated])
    (auto simp: when_at_def go_on_def leave_def sm_run split: if_splits elim!: sbind_InrE)

lemma parse_file_end: "parse_file p = (Inr sf, p') \<Longrightarrow> at_eof p'"
  by (auto simp: parse_file_def sm_run elim!: sbind_InrE split: prod.splits dest: while_at_exit)


end
