(* ===== verification/ParserTrees.thy ===== *)
theory ParserTrees
  imports ParserEnds
begin

text \<open>
  What expressions mean: a grammar with the binding powers says which tokens write an expression, and
  the parser reads those tokens as that expression.
\<close>

section \<open>The tokens of an expression\<close>

text \<open>
  How tightly a token binds what stands before it; 0 for a token that is no operator. A postfix
  operator binds before any of them.
\<close>

definition tightness :: "token_kind \<Rightarrow> nat" where
  "tightness k =
    (case infix_binding_power k of
       Some (l, _) \<Rightarrow> l
     | None \<Rightarrow>
         if assign_binding_power k \<noteq> None \<or> k = TK_Symbol SY_ChanSend \<or> k = TK_Symbol SY_ChanRecv then 1
         else if k = TK_Symbol SY_ColonColon then CONS_BP else 0)"

definition postfix_tokens :: "token_kind set" where
  "postfix_tokens = TK_Symbol ` {SY_LParen, SY_Dot, SY_Arrow, SY_LBracket, SY_Inc, SY_Dec}"

text \<open>An operand that is open at its end up to the power \<open>hi\<close> ends in front of \<open>k\<close>.\<close>

definition ends_before :: "nat \<Rightarrow> token_kind \<Rightarrow> bool" where
  "ends_before hi k \<longleftrightarrow> k \<notin> postfix_tokens \<and> (tightness k = 0 \<or> tightness k < hi)"

text \<open>
  \<open>atom e ks\<close>: the tokens \<open>ks\<close> write \<open>e\<close>, and a postfix operator may follow. \<open>written lo hi e ks\<close>: they
  write \<open>e\<close> with operators that bind at least as tightly as \<open>lo\<close>, and \<open>e\<close> ends in front of an
  operator that binds less tightly than \<open>hi\<close>. All positions are \<open>sp\<close>.
\<close>

inductive atom :: "span \<Rightarrow> expr \<Rightarrow> token_kind list \<Rightarrow> bool"
  and written :: "span \<Rightarrow> nat \<Rightarrow> nat \<Rightarrow> expr \<Rightarrow> token_kind list \<Rightarrow> bool"
  and arguments :: "span \<Rightarrow> expr list \<Rightarrow> token_kind list \<Rightarrow> bool"
  for sp :: span
where
  literal: "literal_of k sp = Some e \<Longrightarrow> atom sp e [k]"
| parens: "written sp lo hi e ks \<Longrightarrow> atom sp e (TK_Symbol SY_LParen # ks @ [TK_Symbol SY_RParen])"
| member: "atom sp e ks \<Longrightarrow> atom sp (E_Dot e name sp) (ks @ [TK_Symbol SY_Dot, TK_Ident name])"
| through: "atom sp e ks \<Longrightarrow> atom sp (E_ModQual e name sp) (ks @ [TK_Symbol SY_Arrow, TK_Ident name])"
| index: "atom sp e ks \<Longrightarrow> written sp lo hi i js \<Longrightarrow>
    atom sp (E_Index e i sp) (ks @ TK_Symbol SY_LBracket # js @ [TK_Symbol SY_RBracket])"
| call: "atom sp e ks \<Longrightarrow> arguments sp args us \<Longrightarrow>
    atom sp (E_Call e args sp) (ks @ TK_Symbol SY_LParen # us @ [TK_Symbol SY_RParen])"
| increment: "atom sp e ks \<Longrightarrow> atom sp (E_PostInc e sp) (ks @ [TK_Symbol SY_Inc])"
| decrement: "atom sp e ks \<Longrightarrow> atom sp (E_PostDec e sp) (ks @ [TK_Symbol SY_Dec])"
| closed: "atom sp e ks \<Longrightarrow> written sp 28 28 e ks"
| prefixed: "map_of prefix_operators k = Some f \<Longrightarrow> written sp lo hi e ks \<Longrightarrow> UNARY_BP \<le> lo \<Longrightarrow>
    written sp 28 UNARY_BP (f e sp) (k # ks)"
| infix_op: "infix_binding_power k = Some (l, r, op) \<Longrightarrow> written sp lo hi e ks \<Longrightarrow> l < hi \<Longrightarrow>
    written sp lo' hi' e' ks' \<Longrightarrow> r \<le> lo' \<Longrightarrow>
    written sp (min lo l) (min r hi') (E_Binary e op e' sp) (ks @ k # ks')"
| cons_op: "written sp lo hi e ks \<Longrightarrow> CONS_BP < hi \<Longrightarrow> written sp lo' hi' e' ks' \<Longrightarrow> CONS_BP \<le> lo' \<Longrightarrow>
    written sp (min lo CONS_BP) (min CONS_BP hi') (E_Cons e e' sp) (ks @ TK_Symbol SY_ColonColon # ks')"
| assign_op: "assign_binding_power k = Some (1, kind) \<Longrightarrow> written sp lo hi e ks \<Longrightarrow> 1 < hi \<Longrightarrow>
    written sp lo' hi' e' ks' \<Longrightarrow> 1 \<le> lo' \<Longrightarrow> assigned kind e e' sp = ret a \<Longrightarrow>
    written sp (min lo 1) (min 1 hi') a (ks @ k # ks')"
| send_op: "written sp lo hi e ks \<Longrightarrow> 1 < hi \<Longrightarrow> written sp lo' hi' e' ks' \<Longrightarrow> 1 \<le> lo' \<Longrightarrow>
    written sp (min lo 1) (min 1 hi') (E_Send e e' sp) (ks @ TK_Symbol SY_ChanSend # ks')"
| no_argument: "arguments sp [] []"
| one_argument: "written sp lo hi e ks \<Longrightarrow> arguments sp [e] ks"
| more_arguments: "arguments sp es us \<Longrightarrow> es \<noteq> [] \<Longrightarrow> written sp lo hi e ks \<Longrightarrow>
    arguments sp (es @ [e]) (us @ TK_Symbol SY_Comma # ks)"

section \<open>Tokens ahead\<close>

text \<open>The parser is in front of \<open>ks\<close>, in the tokens \<open>T\<close>, which are all at \<open>sp\<close>.\<close>

definition on :: "span \<Rightarrow> token list \<Rightarrow> parser \<Rightarrow> token_kind list \<Rightarrow> bool" where
  "on sp T p ks \<longleftrightarrow> sound p \<and> pr_tokens p = T \<and> kinds_from 0 p = ks \<and> (\<forall>t \<in> set T. tk_span t = sp)"

lemma on_left: "on sp T p ks \<Longrightarrow> left p = length ks"
  by (auto simp: on_def kinds_from_def left_def)

lemma on_sound: "on sp T p ks \<Longrightarrow> sound p" "on sp T p ks \<Longrightarrow> pr_tokens p = T"
  by (simp_all add: on_def)

lemma on_length: "on sp T p ks \<Longrightarrow> length ks \<le> length T"
  by (auto simp: on_def kinds_from_def)

lemma on_span: "on sp T p ks \<Longrightarrow> tok_span p = sp"
  by (auto simp: on_def tok_span_def nth_opt_def sound_def)

lemma on_drop:
  assumes "on sp T p (k # ks)"
  shows "pr_pos p < length T" "tk_kind (T ! pr_pos p) = k" "map tk_kind (drop (Suc (pr_pos p)) T) = ks"
proof -
  have p: "pr_pos p < length T" "map tk_kind (drop (pr_pos p) T) = k # ks"
    using assms by (auto simp: on_def kinds_from_def sound_def)
  then have "drop (pr_pos p) T = T ! pr_pos p # drop (Suc (pr_pos p)) T"
    by (simp add: Cons_nth_drop_Suc)
  with p show "pr_pos p < length T" "tk_kind (T ! pr_pos p) = k" "map tk_kind (drop (Suc (pr_pos p)) T) = ks"
    by simp_all
qed

lemma on_peek: "on sp T p (k # ks) \<Longrightarrow> peek_tok p = k"
  using on_drop [of sp T p k ks] by (simp add: peek_tok_def peek_ahead_def nth_opt_def on_def)

lemma on_advance:
  assumes "on sp T p (k # ks)" and "ks \<noteq> []"
  obtains tok p' where "advance_tok p = (Inr tok, p')" "on sp T p' ks"
proof -
  note p = on_drop [OF assms(1)]
  have "length ks = length T - Suc (pr_pos p)" using arg_cong [OF p(3), of length] by simp
  with assms(2) have less: "Suc (pr_pos p) < length T" by (cases ks) auto
  with p assms(1) have "on sp T (p\<lparr>pr_pos := pr_pos p + 1\<rparr>) ks"
    by (auto simp: on_def kinds_from_def sound_def)
  moreover have "advance_tok p = (Inr (T ! pr_pos p), p\<lparr>pr_pos := pr_pos p + 1\<rparr>)"
    using p(1) less assms(1) by (simp add: advance_tok_def nth_opt_def on_def)
  ultimately show thesis by (rule that [rotated])
qed

lemma same_discriminant_unit:
  "same_discriminant k (TK_Symbol s) \<longleftrightarrow> k = TK_Symbol s"
  "same_discriminant k (TK_Keyword w) \<longleftrightarrow> k = TK_Keyword w"
  by (cases k; simp add: same_discriminant_def)+

lemma on_at [simp]:
  assumes "on sp T p (k # ks)"
  shows "at_sym s p \<longleftrightarrow> k = TK_Symbol s" "at_kw w p \<longleftrightarrow> k = TK_Keyword w"
  using on_peek [OF assms] by (simp_all only: at_tok_def same_discriminant_unit)

text \<open>Steps on the tokens ahead, for the simplifier.\<close>

lemma run_when [simp]: "c p \<Longrightarrow> when_at c m m' p = m p" "\<not> c p \<Longrightarrow> when_at c m m' p = m' p"
  by (simp_all add: when_at_def)

lemma run_expect:
  assumes "on sp T p (TK_Symbol s # ks)" and "ks \<noteq> []"
  obtains tok p' where "expect_sym s p = (Inr tok, p')" "on sp T p' ks"
proof -
  obtain tok p' where p': "advance_tok p = (Inr tok, p')" "on sp T p' ks"
    using on_advance [OF assms] .
  then show thesis by (intro that) (simp_all add: expect_def on_at [OF assms(1)])
qed

lemma run_ident:
  assumes "on sp T p (TK_Ident name # ks)" and "ks \<noteq> []"
  obtains p' where "expect_ident p = (Inr name, p')" "on sp T p' ks"
proof -
  obtain tok p' where p': "advance_tok p = (Inr tok, p')" "on sp T p' ks"
    using on_advance [OF assms] .
  then have "expect_ident p = (Inr name, p')"
    by (simp add: expect_ident_def on_peek [OF assms(1)] ident_of_def sm_run)
  from this p'(2) show thesis by (rule that)
qed

section \<open>Rounds of the operator loop\<close>

definition expr_loop :: "(nat \<Rightarrow> expr pm) \<Rightarrow> nat \<Rightarrow> span \<Rightarrow> expr \<Rightarrow> (expr + expr) pm" where
  "expr_loop ex bp span = (\<lambda>lhs. sbind (parse_postfix ex lhs span) (\<lambda>r.
    case r of Some e \<Rightarrow> ret (Inl e) | None \<Rightarrow> parse_infix ex bp lhs span))"

text \<open>Reading \<open>ks\<close> brings the loop to \<open>e\<close>, in front of \<open>rest\<close>.\<close>

definition reaches :: "span \<Rightarrow> nat \<Rightarrow> expr \<Rightarrow> token_kind list \<Rightarrow> token_kind list \<Rightarrow> bool" where
  "reaches sp bp e ks rest \<longleftrightarrow> (\<forall>n T p k. on sp T p (ks @ rest) \<longrightarrow> length (ks @ rest) \<le> Suc n \<longrightarrow>
    length (ks @ rest) < k \<longrightarrow>
    (\<exists>p' k'. on sp T p' rest \<and> length rest < k' \<and>
      sbind (parse_prefix (parse_expr_fuel n)) (loop_fuel k (expr_loop (parse_expr_fuel n) bp sp)) p =
      loop_fuel k' (expr_loop (parse_expr_fuel n) bp sp) e p'))"

lemma reachesI:
  assumes "\<And>n T p k. on sp T p (ks @ rest) \<Longrightarrow> length (ks @ rest) \<le> Suc n \<Longrightarrow> length (ks @ rest) < k \<Longrightarrow>
    \<exists>p' k'. on sp T p' rest \<and> length rest < k' \<and>
      sbind (parse_prefix (parse_expr_fuel n)) (loop_fuel k (expr_loop (parse_expr_fuel n) bp sp)) p =
      loop_fuel k' (expr_loop (parse_expr_fuel n) bp sp) e p'"
  shows "reaches sp bp e ks rest"
  using assms unfolding reaches_def by blast

lemma reachesD:
  assumes "reaches sp bp e ks rest" and "on sp T p (ks @ rest)" and "length (ks @ rest) \<le> Suc n"
    and "length (ks @ rest) < k"
  obtains p' k' where "on sp T p' rest" "length rest < Suc k'"
    "sbind (parse_prefix (parse_expr_fuel n)) (loop_fuel k (expr_loop (parse_expr_fuel n) bp sp)) p =
      loop_fuel (Suc k') (expr_loop (parse_expr_fuel n) bp sp) e p'"
proof -
  from assms obtain p' k' where "on sp T p' rest" "length rest < k'"
    "sbind (parse_prefix (parse_expr_fuel n)) (loop_fuel k (expr_loop (parse_expr_fuel n) bp sp)) p =
      loop_fuel k' (expr_loop (parse_expr_fuel n) bp sp) e p'"
    unfolding reaches_def by blast
  then show thesis by (cases k') (auto intro: that)
qed

text \<open>A prefix that gives the expression at once.\<close>

lemma reaches_prefix:
  assumes "\<And>n T p. on sp T p (ks @ rest) \<Longrightarrow> length (ks @ rest) \<le> Suc n \<Longrightarrow>
    \<exists>p'. parse_prefix (parse_expr_fuel n) p = (Inr e, p') \<and> on sp T p' rest"
  shows "reaches sp bp e ks rest"
proof (rule reachesI)
  fix n T p k
  assume *: "on sp T p (ks @ rest)" "length (ks @ rest) \<le> Suc n" "length (ks @ rest) < k"
  with assms [OF *(1,2)] show "\<exists>p' k'. on sp T p' rest \<and> length rest < k' \<and>
      sbind (parse_prefix (parse_expr_fuel n)) (loop_fuel k (expr_loop (parse_expr_fuel n) bp sp)) p =
      loop_fuel k' (expr_loop (parse_expr_fuel n) bp sp) e p'"
    by (auto intro!: exI [of _ k])
qed

text \<open>One more round.\<close>

lemma reaches_round:
  assumes e: "reaches sp bp e ks (us @ rest)"
    and r: "\<And>n T p. on sp T p (us @ rest) \<Longrightarrow> length (us @ rest) \<le> n \<Longrightarrow>
      \<exists>p'. expr_loop (parse_expr_fuel n) bp sp e p = (Inr (Inl a), p') \<and> on sp T p' rest"
    and "ks \<noteq> []" and "us \<noteq> []"
  shows "reaches sp bp a (ks @ us) rest"
proof (rule reachesI)
  fix n T p k
  assume p: "on sp T p ((ks @ us) @ rest)" "length ((ks @ us) @ rest) \<le> Suc n" "length ((ks @ us) @ rest) < k"
  then have "on sp T p (ks @ us @ rest)" "length (ks @ us @ rest) \<le> Suc n" "length (ks @ us @ rest) < k" by simp_all
  from e this obtain p1 k1 where p1: "on sp T p1 (us @ rest)" "length (us @ rest) < Suc k1"
    "sbind (parse_prefix (parse_expr_fuel n)) (loop_fuel k (expr_loop (parse_expr_fuel n) bp sp)) p =
      loop_fuel (Suc k1) (expr_loop (parse_expr_fuel n) bp sp) e p1"
    by (rule reachesD)
  have "length (us @ rest) \<le> n" using p(2) assms(3) by (cases ks) simp_all
  from r [OF p1(1) this] obtain p2 where
    "expr_loop (parse_expr_fuel n) bp sp e p1 = (Inr (Inl a), p2)" "on sp T p2 rest" by blast
  moreover have "length rest < k1" using p1(2) assms(4) by (cases us) simp_all
  ultimately show "\<exists>p' k'. on sp T p' rest \<and> length rest < k' \<and>
      sbind (parse_prefix (parse_expr_fuel n)) (loop_fuel k (expr_loop (parse_expr_fuel n) bp sp)) p =
      loop_fuel k' (expr_loop (parse_expr_fuel n) bp sp) a p'"
    using p1(3) by auto
qed

text \<open>In front of a token that ends it, the expression is what the parser gives.\<close>

lemma infix_power: "infix_binding_power k = Some (l, r, op) \<Longrightarrow> 2 < l \<and> l < 28 \<and> 2 < r \<and> r < 28"
  by (auto simp: infix_binding_power_def split: if_splits)

lemma assign_power: "assign_binding_power k = Some (r, kind) \<Longrightarrow> r = 1"
  by (auto simp: assign_binding_power_def split: if_splits)

lemma no_postfix:
  "on sp T p (k # rest) \<Longrightarrow> k \<notin> postfix_tokens \<Longrightarrow> parse_postfix ex lhs span p = (Inr None, p)"
  by (auto simp: parse_postfix_def on_peek postfix_tokens_def sm_run)

lemma loop_leaves:
  assumes p: "on sp T p (k # rest)" and k: "ends_before bp k"
  shows "expr_loop ex bp sp e p = (Inr (Inr e), p)"
proof -
  have post: "parse_postfix ex e sp p = (Inr None, p)"
    using p k by (intro no_postfix) (auto simp: ends_before_def)
  have bp: "tightness k = 0 \<or> tightness k < bp" using k by (simp add: ends_before_def)
  have "parse_infix ex bp e sp p = (Inr (Inr e), p)"
  proof (cases "infix_binding_power k")
    case (Some b)
    then obtain l r op where "infix_binding_power k = Some (l, r, op)" by (cases b) auto
    with bp infix_power [OF this] p show ?thesis
      by (simp add: parse_infix_def on_peek tightness_def parse_rhs_def leave_def sm_run)
  next
    case None
    show ?thesis
    proof (cases "assign_binding_power k")
      case (Some b)
      with bp None p show ?thesis
        by (auto simp: parse_infix_def on_peek tightness_def parse_rhs_def leave_def sm_run)
    next
      case assign: None
      show ?thesis
      proof (cases "k = TK_Symbol SY_ChanSend \<or> k = TK_Symbol SY_ChanRecv")
        case True
        with bp None assign have "1 < bp" by (auto simp: tightness_def)
        with None assign p True show ?thesis
          by (cases "at_send p") (auto simp: parse_infix_def on_peek leave_def sm_run)
      next
        case False
        with p have "\<not> at_send p" by (simp add: at_send_def)
        with bp None assign p False show ?thesis
          by (cases "k = TK_Symbol SY_ColonColon")
            (simp_all add: parse_infix_def on_peek tightness_def parse_rhs_def leave_def sm_run CONS_BP_def)
      qed
    qed
  qed
  with post show ?thesis by (simp add: expr_loop_def)
qed

definition reads_expr :: "span \<Rightarrow> nat \<Rightarrow> expr \<Rightarrow> token_kind list \<Rightarrow> token_kind list \<Rightarrow> bool" where
  "reads_expr sp bp e ks rest \<longleftrightarrow> (\<forall>n T p. on sp T p (ks @ rest) \<longrightarrow> length (ks @ rest) \<le> n \<longrightarrow>
    (\<exists>p'. parse_expr_fuel n bp p = (Inr e, p') \<and> on sp T p' rest))"

lemma reads_exprD:
  assumes "reads_expr sp bp e ks rest" and "on sp T p (ks @ rest)" and "length (ks @ rest) \<le> n"
  obtains p' where "parse_expr_fuel n bp p = (Inr e, p')" "on sp T p' rest"
  using assms unfolding reads_expr_def by blast

lemma bind_then_loop:
  assumes m: "takes Q anywhere n m" and p: "on sp T p ks" "length ks \<le> n"
  shows "sbind m (\<lambda>x. loop_tok f (h x)) p = sbind m (\<lambda>x. loop_fuel (Suc (length T)) f (h x)) p"
  using m on_sound(1) [OF p(1)] TrueI
proof (rule takesD)
  show "left p \<le> n" using p(2) on_left [OF p(1)] by simp
next
  fix stop p'
  assume "m p = (Inl stop, p')"
  then show ?thesis by simp
next
  fix x p'
  assume "m p = (Inr x, p')" "onward p p'"
  moreover from this(2) have "pr_tokens p' = T" using p(1) by (simp add: onward_def on_def)
  ultimately show ?thesis by (simp add: loop_tok_def del: loop_fuel.simps)
qed

lemma prefix_then_loop:
  "on sp T p ks \<Longrightarrow> length ks \<le> Suc n \<Longrightarrow> sbind (parse_prefix (parse_expr_fuel n)) (loop_tok f) p =
    sbind (parse_prefix (parse_expr_fuel n)) (loop_fuel (Suc (length T)) f) p"
  by (rule bind_then_loop [OF expr_parser.takes_prefix [OF expr_fuel order_refl, where Q = "\<lambda>_. False"],
      where h = "\<lambda>x. x"])

lemma init_then_loop:
  "on sp T p ks \<Longrightarrow> length ks \<le> n \<Longrightarrow>
    sbind (parse_init_expr (parse_expr_fuel n)) (\<lambda>x. loop_tok f [x]) p =
    sbind (parse_init_expr (parse_expr_fuel n)) (\<lambda>x. loop_fuel (Suc (length T)) f [x]) p"
  by (rule bind_then_loop [OF expr_parser.takes_init [OF expr_fuel order_refl, where Q = "\<lambda>_. False"]])

lemma reaches_reads:
  assumes e: "reaches sp bp e ks (k # rest)" and k: "ends_before bp k"
  shows "reads_expr sp bp e ks (k # rest)"
  unfolding reads_expr_def
proof (intro allI impI)
  fix n T p
  assume p: "on sp T p (ks @ k # rest)" "length (ks @ k # rest) \<le> n"
  then obtain m where n: "n = Suc m" by (cases n) simp_all
  let ?f = "expr_loop (parse_expr_fuel m) bp sp"
  have "parse_expr_fuel n bp p = sbind (parse_prefix (parse_expr_fuel m)) (loop_tok ?f) p"
    by (simp add: n parse_expr_step_def expr_loop_def [symmetric] on_span [OF p(1)])
  also have "\<dots> = sbind (parse_prefix (parse_expr_fuel m)) (loop_fuel (Suc (length T)) ?f) p"
    using prefix_then_loop [OF p(1)] p(2) n by simp
  finally have run: "parse_expr_fuel n bp p =
    sbind (parse_prefix (parse_expr_fuel m)) (loop_fuel (Suc (length T)) ?f) p" .
  have "length (ks @ k # rest) \<le> Suc m" "length (ks @ k # rest) < Suc (length T)"
    using p(2) n on_length [OF p(1)] by simp_all
  from e p(1) this obtain p' k' where p': "on sp T p' (k # rest)"
    "sbind (parse_prefix (parse_expr_fuel m)) (loop_fuel (Suc (length T)) ?f) p = loop_fuel (Suc k') ?f e p'"
    by (rule reachesD)
  from loop_leaves [OF p'(1) k] have "loop_fuel (Suc k') ?f e p' = (Inr e, p')"
    by (simp add: sm_run)
  with run p' show "\<exists>p'. parse_expr_fuel n bp p = (Inr e, p') \<and> on sp T p' (k # rest)" by simp
qed

section \<open>Atoms\<close>

lemma reaches_literal:
  assumes "literal_of k sp = Some e" and "rest \<noteq> []"
  shows "reaches sp bp e [k] rest"
proof (rule reaches_prefix)
  fix n T p
  assume p: "on sp T p ([k] @ rest)"
  then have p1: "on sp T p (k # rest)" by simp
  obtain tok p' where "advance_tok p = (Inr tok, p')" "on sp T p' rest"
    using on_advance [OF p1 assms(2)] .
  then show "\<exists>p'. parse_prefix (parse_expr_fuel n) p = (Inr e, p') \<and> on sp T p' rest"
    using assms(1) by (simp add: parse_prefix_def on_peek [OF p1] on_span [OF p1] sm_run)
qed

lemma reaches_parens:
  assumes e: "reads_expr sp 0 e ks (TK_Symbol SY_RParen # rest)" and "rest \<noteq> []"
  shows "reaches sp bp e (TK_Symbol SY_LParen # ks @ [TK_Symbol SY_RParen]) rest"
proof (rule reaches_prefix)
  fix n T p
  assume "on sp T p ((TK_Symbol SY_LParen # ks @ [TK_Symbol SY_RParen]) @ rest)"
    and n: "length ((TK_Symbol SY_LParen # ks @ [TK_Symbol SY_RParen]) @ rest) \<le> Suc n"
  then have p: "on sp T p (TK_Symbol SY_LParen # ks @ TK_Symbol SY_RParen # rest)" by simp
  obtain tok p1 where p1: "advance_tok p = (Inr tok, p1)" "on sp T p1 (ks @ TK_Symbol SY_RParen # rest)"
    using on_advance [OF p] by blast
  obtain p2 where p2: "parse_expr_fuel n 0 p1 = (Inr e, p2)" "on sp T p2 (TK_Symbol SY_RParen # rest)"
    using reads_exprD [OF e p1(2)] n by auto
  obtain tok2 p3 where p3: "expect_sym SY_RParen p2 = (Inr tok2, p3)" "on sp T p3 rest"
    using run_expect [OF p2(2) assms(2)] .
  have "parse_parens (parse_expr_fuel n) sp p = (Inr e, p3)"
    using p1 p2 p3 by (simp add: parse_parens_def on_at [OF p2(2)] sm_run)
  then show "\<exists>p'. parse_prefix (parse_expr_fuel n) p = (Inr e, p') \<and> on sp T p' rest"
    using p3(2)
    by (simp add: parse_prefix_def on_peek [OF p] on_span [OF p] literal_of_def prefix_operators_def basic_of_def)
qed

lemma reaches_prefixed:
  assumes k: "map_of prefix_operators k = Some f" and e: "reads_expr sp UNARY_BP e ks rest" and "ks \<noteq> []"
  shows "reaches sp bp (f e sp) (k # ks) rest"
proof (rule reaches_prefix)
  fix n T p
  assume "on sp T p ((k # ks) @ rest)" and n: "length ((k # ks) @ rest) \<le> Suc n"
  then have p: "on sp T p (k # ks @ rest)" by simp
  obtain tok p1 where p1: "advance_tok p = (Inr tok, p1)" "on sp T p1 (ks @ rest)"
    using on_advance [OF p] assms(3) by blast
  obtain p2 where p2: "parse_expr_fuel n UNARY_BP p1 = (Inr e, p2)" "on sp T p2 rest"
    using reads_exprD [OF e p1(2)] n by auto
  have "literal_of k sp = None"
    using k by (auto simp: prefix_operators_def literal_of_def split: if_splits)
  then show "\<exists>p'. parse_prefix (parse_expr_fuel n) p = (Inr (f e sp), p') \<and> on sp T p' rest"
    using k p1 p2
    by (simp add: parse_prefix_def on_peek [OF p] on_span [OF p] parse_operand_def sm_run)
qed

section \<open>Postfix operators\<close>

lemma round_postfix:
  assumes "parse_postfix ex e sp p = (Inr (Some a), p')"
  shows "expr_loop ex bp sp e p = (Inr (Inl a), p')"
  using assms by (simp add: expr_loop_def sm_run)

lemma reaches_member:
  assumes e: "reaches sp bp e ks (TK_Symbol op # TK_Ident name # rest)" and "ks \<noteq> []" and "rest \<noteq> []"
    and op: "op = SY_Dot \<and> a = E_Dot e name sp \<or> op = SY_Arrow \<and> a = E_ModQual e name sp"
  shows "reaches sp bp a (ks @ [TK_Symbol op, TK_Ident name]) rest"
proof (rule reaches_round)
  show "reaches sp bp e ks ([TK_Symbol op, TK_Ident name] @ rest)" using e by simp
  fix n T p
  assume "on sp T p ([TK_Symbol op, TK_Ident name] @ rest)"
  then have p: "on sp T p (TK_Symbol op # TK_Ident name # rest)" by simp
  obtain tok p1 where p1: "advance_tok p = (Inr tok, p1)" "on sp T p1 (TK_Ident name # rest)"
    using on_advance [OF p] by blast
  obtain p2 where p2: "expect_ident p1 = (Inr name, p2)" "on sp T p2 rest"
    using run_ident [OF p1(2) assms(3)] .
  have "parse_postfix (parse_expr_fuel n) e sp p = (Inr (Some a), p2)"
    using op p1(1) p2(1) by (auto simp: parse_postfix_def on_peek [OF p] sm_run)
  with p2(2) round_postfix
  show "\<exists>p'. expr_loop (parse_expr_fuel n) bp sp e p = (Inr (Inl a), p') \<and> on sp T p' rest" by blast
qed (use assms(2) in simp_all)

lemma reaches_step:
  assumes e: "reaches sp bp e ks (TK_Symbol op # rest)" and "ks \<noteq> []" and "rest \<noteq> []"
    and op: "op = SY_Inc \<and> a = E_PostInc e sp \<or> op = SY_Dec \<and> a = E_PostDec e sp"
  shows "reaches sp bp a (ks @ [TK_Symbol op]) rest"
proof (rule reaches_round)
  show "reaches sp bp e ks ([TK_Symbol op] @ rest)" using e by simp
  fix n T p
  assume "on sp T p ([TK_Symbol op] @ rest)"
  then have p: "on sp T p (TK_Symbol op # rest)" by simp
  obtain tok p1 where p1: "advance_tok p = (Inr tok, p1)" "on sp T p1 rest"
    using on_advance [OF p assms(3)] .
  have "parse_postfix (parse_expr_fuel n) e sp p = (Inr (Some a), p1)"
    using op p1(1) by (auto simp: parse_postfix_def on_peek [OF p] sm_run)
  with p1(2) round_postfix
  show "\<exists>p'. expr_loop (parse_expr_fuel n) bp sp e p = (Inr (Inl a), p') \<and> on sp T p' rest" by blast
qed (use assms(2) in simp_all)

lemma reaches_index:
  assumes e: "reaches sp bp e ks (TK_Symbol SY_LBracket # js @ TK_Symbol SY_RBracket # rest)"
    and i: "reads_expr sp 0 i js (TK_Symbol SY_RBracket # rest)"
    and "ks \<noteq> []" and "rest \<noteq> []" and js: "js = j # js'" "j \<noteq> TK_Symbol SY_Colon"
  shows "reaches sp bp (E_Index e i sp) (ks @ TK_Symbol SY_LBracket # js @ [TK_Symbol SY_RBracket]) rest"
proof (rule reaches_round)
  show "reaches sp bp e ks ((TK_Symbol SY_LBracket # js @ [TK_Symbol SY_RBracket]) @ rest)" using e by simp
  fix n T p
  assume "on sp T p ((TK_Symbol SY_LBracket # js @ [TK_Symbol SY_RBracket]) @ rest)"
    and n: "length ((TK_Symbol SY_LBracket # js @ [TK_Symbol SY_RBracket]) @ rest) \<le> n"
  then have p: "on sp T p (TK_Symbol SY_LBracket # js @ TK_Symbol SY_RBracket # rest)" by simp
  obtain tok p1 where p1: "advance_tok p = (Inr tok, p1)" "on sp T p1 (js @ TK_Symbol SY_RBracket # rest)"
    using on_advance [OF p] by blast
  then have no_colon: "\<not> at_sym SY_Colon p1" using js by simp
  obtain p2 where p2: "parse_expr_fuel n 0 p1 = (Inr i, p2)" "on sp T p2 (TK_Symbol SY_RBracket # rest)"
    using reads_exprD [OF i p1(2), of n] n by auto
  obtain tok2 p3 where p3: "expect_sym SY_RBracket p2 = (Inr tok2, p3)" "on sp T p3 rest"
    using run_expect [OF p2(2) assms(4)] .
  have "parse_subscript (parse_expr_fuel n) e sp p = (Inr (E_Index e i sp), p3)"
    using p1(1) no_colon p2(1) p3(1) by (simp add: parse_subscript_def on_at [OF p2(2)] sm_run)
  then have "parse_postfix (parse_expr_fuel n) e sp p = (Inr (Some (E_Index e i sp)), p3)"
    by (simp add: parse_postfix_def on_peek [OF p] sm_run)
  with p3(2) round_postfix
  show "\<exists>p'. expr_loop (parse_expr_fuel n) bp sp e p = (Inr (Inl (E_Index e i sp)), p') \<and> on sp T p' rest"
    by blast
qed (use assms(3) in simp_all)

section \<open>Operators between expressions\<close>

lemma operators_no_postfix:
  "infix_binding_power k = Some b \<Longrightarrow> k \<notin> postfix_tokens"
  "assign_binding_power k = Some a \<Longrightarrow> k \<notin> postfix_tokens \<and> infix_binding_power k = None"
  "TK_Symbol SY_ColonColon \<notin> postfix_tokens" "TK_Symbol SY_ChanSend \<notin> postfix_tokens"
  by (auto simp: postfix_tokens_def infix_binding_power_def assign_binding_power_def split: if_splits)

lemma reaches_operator:
  assumes e: "reaches sp bp e ks (k # ks' @ rest)" and e': "reads_expr sp r e' ks' rest"
    and "ks \<noteq> []" and "ks' \<noteq> []" and k: "k \<notin> postfix_tokens"
    and step: "\<And>ex T p. on sp T p (k # ks' @ rest) \<Longrightarrow>
      parse_infix ex bp e sp p = go_on (then_do advance_tok (sbind (ex r) f)) p"
    and f: "f e' = ret a"
  shows "reaches sp bp a (ks @ k # ks') rest"
proof (rule reaches_round)
  show "reaches sp bp e ks ((k # ks') @ rest)" using e by simp
  fix n T p
  assume "on sp T p ((k # ks') @ rest)" and n: "length ((k # ks') @ rest) \<le> n"
  then have p: "on sp T p (k # ks' @ rest)" by simp
  obtain tok p1 where p1: "advance_tok p = (Inr tok, p1)" "on sp T p1 (ks' @ rest)"
    using on_advance [OF p] assms(4) by blast
  obtain p2 where p2: "parse_expr_fuel n r p1 = (Inr e', p2)" "on sp T p2 rest"
    using reads_exprD [OF e' p1(2), of n] n by auto
  have "parse_infix (parse_expr_fuel n) bp e sp p = (Inr (Inl a), p2)"
    using step [OF p, of "parse_expr_fuel n"] p1(1) p2(1) f by (simp add: go_on_def sm_run)
  with no_postfix [OF p k, of "parse_expr_fuel n" e sp] p2(2)
  show "\<exists>p'. expr_loop (parse_expr_fuel n) bp sp e p = (Inr (Inl a), p') \<and> on sp T p' rest"
    by (simp add: expr_loop_def)
qed (use assms(3) in simp_all)

lemma reaches_infix:
  assumes "reaches sp bp e ks (k # ks' @ rest)" and "reads_expr sp r e' ks' rest" and "ks \<noteq> []" and "ks' \<noteq> []"
    and k: "infix_binding_power k = Some (l, r, op)" and "bp \<le> l"
  shows "reaches sp bp (E_Binary e op e' sp) (ks @ k # ks') rest"
  using assms(1-4) operators_no_postfix(1) [OF k]
  by (rule reaches_operator) (use k \<open>bp \<le> l\<close> in \<open>simp_all add: parse_infix_def on_peek parse_rhs_def\<close>)

lemma reaches_cons:
  assumes "reaches sp bp e ks (TK_Symbol SY_ColonColon # ks' @ rest)" and "reads_expr sp CONS_BP e' ks' rest"
    and "ks \<noteq> []" and "ks' \<noteq> []" and "bp \<le> CONS_BP"
  shows "reaches sp bp (E_Cons e e' sp) (ks @ TK_Symbol SY_ColonColon # ks') rest"
  using assms(1-4) operators_no_postfix(3)
  by (rule reaches_operator)
    (use assms(5) in \<open>simp_all add: parse_infix_def on_peek parse_rhs_def at_send_def
      infix_binding_power_def assign_binding_power_def\<close>)

lemma reaches_assign:
  assumes "reaches sp bp e ks (k # ks' @ rest)" and "reads_expr sp 1 e' ks' rest" and "ks \<noteq> []" and "ks' \<noteq> []"
    and k: "assign_binding_power k = Some (1, kind)" and "bp \<le> 1" and a: "assigned kind e e' sp = ret a"
  shows "reaches sp bp a (ks @ k # ks') rest"
  using assms(1-4) operators_no_postfix(2) [OF k, THEN conjunct1]
proof (rule reaches_operator)
  show "assigned kind e e' sp = ret a" by (rule a)
qed (use k \<open>bp \<le> 1\<close> operators_no_postfix(2) [OF k] in \<open>simp_all add: parse_infix_def on_peek parse_rhs_def\<close>)

lemma reaches_send:
  assumes "reaches sp bp e ks (TK_Symbol SY_ChanSend # ks' @ rest)" and "reads_expr sp 1 e' ks' rest"
    and "ks \<noteq> []" and "ks' \<noteq> []" and "bp \<le> 1"
  shows "reaches sp bp (E_Send e e' sp) (ks @ TK_Symbol SY_ChanSend # ks') rest"
  using assms(1-4) operators_no_postfix(4)
proof (rule reaches_operator)
  fix ex T p
  assume p: "on sp T p (TK_Symbol SY_ChanSend # ks' @ rest)"
  have "send_arrow p = advance_tok p"
    using p by (simp add: send_arrow_def when_skip_def sm_run)
  then have "go_on (then_do send_arrow m) p = go_on (then_do advance_tok m) p" for m :: "expr pm"
    by (simp add: go_on_def sbind_assoc) (simp add: sbind_def)
  with p assms(5) show "parse_infix ex bp e sp p =
      go_on (then_do advance_tok (sbind (ex 1) (\<lambda>rhs. ret (E_Send e rhs sp)))) p"
    by (simp add: parse_infix_def on_peek at_send_def infix_binding_power_def assign_binding_power_def)
qed simp

section \<open>Arguments\<close>

definition collects :: "span \<Rightarrow> expr list \<Rightarrow> token_kind list \<Rightarrow> bool" where
  "collects sp es us \<longleftrightarrow> (\<forall>c rest n T p k. c \<in> {SY_Comma, SY_RParen} \<longrightarrow> on sp T p (us @ TK_Symbol c # rest) \<longrightarrow>
    rest \<noteq> [] \<longrightarrow> length (us @ TK_Symbol c # rest) \<le> n \<longrightarrow> length (us @ TK_Symbol c # rest) < k \<longrightarrow>
    (\<exists>p' k'. on sp T p' (TK_Symbol c # rest) \<and> length (TK_Symbol c # rest) < k' \<and>
      sbind (parse_init_expr (parse_expr_fuel n))
        (\<lambda>x. loop_fuel k (comma_round at_list_end (parse_init_expr (parse_expr_fuel n))) [x]) p =
      loop_fuel k' (comma_round at_list_end (parse_init_expr (parse_expr_fuel n))) es p'))"

lemma collectsD:
  assumes "collects sp es us" and "c \<in> {SY_Comma, SY_RParen}" and "on sp T p (us @ TK_Symbol c # rest)"
    and "rest \<noteq> []" and "length (us @ TK_Symbol c # rest) \<le> n" and "length (us @ TK_Symbol c # rest) < k"
  obtains p' k' where "on sp T p' (TK_Symbol c # rest)" "length (TK_Symbol c # rest) < Suc k'"
    "sbind (parse_init_expr (parse_expr_fuel n))
        (\<lambda>x. loop_fuel k (comma_round at_list_end (parse_init_expr (parse_expr_fuel n))) [x]) p =
      loop_fuel (Suc k') (comma_round at_list_end (parse_init_expr (parse_expr_fuel n))) es p'"
proof -
  from assms obtain p' k' where "on sp T p' (TK_Symbol c # rest)" "length (TK_Symbol c # rest) < k'"
    "sbind (parse_init_expr (parse_expr_fuel n))
        (\<lambda>x. loop_fuel k (comma_round at_list_end (parse_init_expr (parse_expr_fuel n))) [x]) p =
      loop_fuel k' (comma_round at_list_end (parse_init_expr (parse_expr_fuel n))) es p'"
    unfolding collects_def by blast
  then show thesis by (cases k') (auto intro: that)
qed

lemma init_expr_plain:
  assumes e: "reads_expr sp 0 e ks (TK_Symbol c # rest)" and c: "c \<in> {SY_Comma, SY_RParen}"
    and p: "on sp T p (ks @ TK_Symbol c # rest)" "length (ks @ TK_Symbol c # rest) \<le> n"
  obtains p' where "parse_init_expr (parse_expr_fuel n) p = (Inr e, p')" "on sp T p' (TK_Symbol c # rest)"
proof -
  obtain p1 where p1: "parse_expr_fuel n 0 p = (Inr e, p1)" "on sp T p1 (TK_Symbol c # rest)"
    using reads_exprD [OF e p] .
  then have "\<not> at_qualifier p1" using c by (auto simp: at_qualifier_def)
  with p1 show thesis by (intro that) (simp_all add: parse_init_expr_def sm_run)
qed

lemma collects_one:
  assumes e: "\<And>c rest. c \<in> {SY_Comma, SY_RParen} \<Longrightarrow> reads_expr sp 0 e ks (TK_Symbol c # rest)"
  shows "collects sp [e] ks"
  unfolding collects_def
proof (intro allI impI)
  fix c rest n T p k
  assume c: "c \<in> {SY_Comma, SY_RParen}" and p: "on sp T p (ks @ TK_Symbol c # rest)"
    and n: "length (ks @ TK_Symbol c # rest) \<le> n" and k: "length (ks @ TK_Symbol c # rest) < k"
  obtain p' where "parse_init_expr (parse_expr_fuel n) p = (Inr e, p')" "on sp T p' (TK_Symbol c # rest)"
    using init_expr_plain [OF e [OF c] c p n] .
  moreover have "length (TK_Symbol c # rest) < k" using k by simp
  ultimately show "\<exists>p' k'. on sp T p' (TK_Symbol c # rest) \<and> length (TK_Symbol c # rest) < k' \<and>
      sbind (parse_init_expr (parse_expr_fuel n))
        (\<lambda>x. loop_fuel k (comma_round at_list_end (parse_init_expr (parse_expr_fuel n))) [x]) p =
      loop_fuel k' (comma_round at_list_end (parse_init_expr (parse_expr_fuel n))) [e] p'"
    by auto
qed

lemma collects_more:
  assumes es: "collects sp es us" and e: "\<And>c rest. c \<in> {SY_Comma, SY_RParen} \<Longrightarrow> reads_expr sp 0 e ks (TK_Symbol c # rest)"
    and start: "ks = s # ks'" "s \<notin> TK_Symbol ` {SY_RParen, SY_RBracket, SY_RBrace}"
  shows "collects sp (es @ [e]) (us @ TK_Symbol SY_Comma # ks)"
  unfolding collects_def
proof (intro allI impI)
  fix c rest n T p k
  let ?m = "parse_init_expr (parse_expr_fuel n)"
  assume c: "c \<in> {SY_Comma, SY_RParen}" and "on sp T p ((us @ TK_Symbol SY_Comma # ks) @ TK_Symbol c # rest)"
    and "rest \<noteq> []" and n: "length ((us @ TK_Symbol SY_Comma # ks) @ TK_Symbol c # rest) \<le> n"
    and k: "length ((us @ TK_Symbol SY_Comma # ks) @ TK_Symbol c # rest) < k"
  then have p: "on sp T p (us @ TK_Symbol SY_Comma # ks @ TK_Symbol c # rest)" by simp
  have "SY_Comma \<in> {SY_Comma, SY_RParen}" "ks @ TK_Symbol c # rest \<noteq> []"
    "length (us @ TK_Symbol SY_Comma # ks @ TK_Symbol c # rest) \<le> n"
    "length (us @ TK_Symbol SY_Comma # ks @ TK_Symbol c # rest) < k"
    using n k by simp_all
  from es this(1) p this(2-4) obtain p1 k2 where p1: "on sp T p1 (TK_Symbol SY_Comma # ks @ TK_Symbol c # rest)"
    "length (TK_Symbol SY_Comma # ks @ TK_Symbol c # rest) < Suc k2"
    "sbind ?m (\<lambda>x. loop_fuel k (comma_round at_list_end ?m) [x]) p = loop_fuel (Suc k2) (comma_round at_list_end ?m) es p1"
    by (rule collectsD)
  obtain tok p2 where p2: "advance_tok p1 = (Inr tok, p2)" "on sp T p2 (ks @ TK_Symbol c # rest)"
    using on_advance [OF p1(1)] by blast
  then have "\<not> at_list_end p2" using start by (auto simp: at_list_end_def)
  moreover obtain p3 where p3: "?m p2 = (Inr e, p3)" "on sp T p3 (TK_Symbol c # rest)"
    using init_expr_plain [OF e [OF c] c p2(2), of n] n by auto
  ultimately have "comma_round at_list_end ?m es p1 = (Inr (Inl (es @ [e])), p3)"
    using p2(1) by (simp add: comma_round_def on_at [OF p1(1)] go_on_def sm_run)
  with p1(3) p3(2) p1(2)
  show "\<exists>p' k'. on sp T p' (TK_Symbol c # rest) \<and> length (TK_Symbol c # rest) < k' \<and>
      sbind ?m (\<lambda>x. loop_fuel k (comma_round at_list_end ?m) [x]) p =
      loop_fuel k' (comma_round at_list_end ?m) (es @ [e]) p'"
    by (intro exI [of _ p3] exI [of _ k2]) simp
qed

lemma reaches_call:
  assumes e: "reaches sp bp e ks (TK_Symbol SY_LParen # us @ TK_Symbol SY_RParen # rest)"
    and args: "args = [] \<and> us = [] \<or> collects sp args us \<and> us \<noteq> [] \<and> hd us \<notin> TK_Symbol ` {SY_RParen, SY_RBracket, SY_RBrace}"
    and "ks \<noteq> []" and "rest \<noteq> []"
  shows "reaches sp bp (E_Call e args sp) (ks @ TK_Symbol SY_LParen # us @ [TK_Symbol SY_RParen]) rest"
proof (rule reaches_round)
  show "reaches sp bp e ks ((TK_Symbol SY_LParen # us @ [TK_Symbol SY_RParen]) @ rest)" using e by simp
  fix n T p
  let ?m = "parse_init_expr (parse_expr_fuel n)"
  assume "on sp T p ((TK_Symbol SY_LParen # us @ [TK_Symbol SY_RParen]) @ rest)"
    and n: "length ((TK_Symbol SY_LParen # us @ [TK_Symbol SY_RParen]) @ rest) \<le> n"
  then have p: "on sp T p (TK_Symbol SY_LParen # us @ TK_Symbol SY_RParen # rest)" by simp
  obtain tok p1 where p1: "advance_tok p = (Inr tok, p1)" "on sp T p1 (us @ TK_Symbol SY_RParen # rest)"
    using on_advance [OF p] by blast
  have "\<exists>p2. parse_expr_list (parse_expr_fuel n) p1 = (Inr args, p2) \<and> on sp T p2 (TK_Symbol SY_RParen # rest)"
  proof (cases "us = []")
    case True
    with args p1(2) have "args = []" "at_list_end p1" by (auto simp: at_list_end_def collects_def)
    with p1(2) True show ?thesis by (auto simp: parse_expr_list_def comma_list_def sm_run)
  next
    case False
    then obtain u us' where us: "us = u # us'" "u \<notin> TK_Symbol ` {SY_RParen, SY_RBracket, SY_RBrace}" "collects sp args us"
      using args by (cases us) auto
    then have start: "\<not> at_list_end p1" using p1(2) by (auto simp: at_list_end_def)
    have "SY_RParen \<in> {SY_Comma, SY_RParen}" "length (us @ TK_Symbol SY_RParen # rest) \<le> n"
      "length (us @ TK_Symbol SY_RParen # rest) < Suc (length T)"
      using n on_length [OF p1(2)] by simp_all
    from us(3) this(1) p1(2) \<open>rest \<noteq> []\<close> this(2,3) obtain p2 k' where p2: "on sp T p2 (TK_Symbol SY_RParen # rest)"
      "sbind ?m (\<lambda>x. loop_fuel (Suc (length T)) (comma_round at_list_end ?m) [x]) p1 =
        loop_fuel (Suc k') (comma_round at_list_end ?m) args p2"
      by (rule collectsD)
    have "sbind ?m (\<lambda>x. loop_tok (comma_round at_list_end ?m) [x]) p1 =
      sbind ?m (\<lambda>x. loop_fuel (Suc (length T)) (comma_round at_list_end ?m) [x]) p1"
      by (rule init_then_loop [OF p1(2)]) (use n in simp)
    moreover have "loop_fuel (Suc k') (comma_round at_list_end ?m) args p2 = (Inr args, p2)"
      by (simp add: comma_round_def on_at [OF p2(1)] leave_def sm_run)
    ultimately show ?thesis
      using start p2 by (simp add: parse_expr_list_def comma_list_def del: loop_fuel.simps)
  qed
  then obtain p2 where p2: "parse_expr_list (parse_expr_fuel n) p1 = (Inr args, p2)" "on sp T p2 (TK_Symbol SY_RParen # rest)" by blast
  obtain tok3 p3 where p3: "expect_sym SY_RParen p2 = (Inr tok3, p3)" "on sp T p3 rest"
    using run_expect [OF p2(2) \<open>rest \<noteq> []\<close>] .
  have "parse_postfix (parse_expr_fuel n) e sp p = (Inr (Some (E_Call e args sp)), p3)"
    using p1(1) p2(1) p3(1) by (simp add: parse_postfix_def on_peek [OF p] sm_run)
  with p3(2) round_postfix
  show "\<exists>p'. expr_loop (parse_expr_fuel n) bp sp e p = (Inr (Inl (E_Call e args sp)), p') \<and> on sp T p' rest"
    by blast
qed (use assms(3) in simp_all)

section \<open>The grammar is read\<close>

definition starts :: "token_kind list \<Rightarrow> bool" where
  "starts ks \<longleftrightarrow> ks \<noteq> [] \<and> hd ks \<notin> TK_Symbol ` {SY_Colon, SY_RParen, SY_RBracket, SY_RBrace}"

lemma starts_append: "starts ks \<Longrightarrow> starts (ks @ us)"
  by (simp add: starts_def)

lemma starts_Cons: "starts (k # ks) \<longleftrightarrow> k \<notin> TK_Symbol ` {SY_Colon, SY_RParen, SY_RBracket, SY_RBrace}"
  by (simp add: starts_def)

lemma written_starts:
  "atom sp e ks \<Longrightarrow> starts ks"
  "written sp lo hi e' ks' \<Longrightarrow> starts ks'"
  "arguments sp es us \<Longrightarrow> es = [] \<and> us = [] \<or> es \<noteq> [] \<and> starts us"
proof (induction rule: atom_written_arguments.inducts)
  case (literal k e)
  then show ?case by (auto simp: starts_def literal_of_def)
next
  case (prefixed k f lo hi e ks)
  then show ?case by (auto simp: starts_def prefix_operators_def)
qed (auto simp: starts_append starts_Cons)

lemma infix_below_unary: "infix_binding_power k = Some (l, r, op) \<Longrightarrow> l < UNARY_BP"
  by (auto simp: infix_binding_power_def UNARY_BP_def split: if_splits)

lemma written_unary: "written sp lo hi e ks \<Longrightarrow> UNARY_BP \<le> lo \<Longrightarrow> UNARY_BP \<le> hi"
  by (erule written.cases) (auto simp: UNARY_BP_def CONS_BP_def dest: infix_below_unary)

lemma ends_before_min: "ends_before (min a b) k \<longleftrightarrow> ends_before a k \<and> ends_before b k"
  by (auto simp: ends_before_def)

lemma ends_before_mono: "ends_before a k \<Longrightarrow> a \<le> b \<Longrightarrow> ends_before b k"
  by (auto simp: ends_before_def)

lemma ends_before_closer:
  "c \<in> {SY_RParen, SY_RBracket, SY_Comma, SY_Semicolon} \<Longrightarrow> ends_before hi (TK_Symbol c)"
  by (auto simp: ends_before_def postfix_tokens_def tightness_def infix_binding_power_def assign_binding_power_def)

lemma ends_before_infix: "infix_binding_power k = Some (l, r, op) \<Longrightarrow> l < hi \<Longrightarrow> ends_before hi k"
  using operators_no_postfix(1) [of k] by (simp add: ends_before_def tightness_def)

lemma ends_before_assign: "assign_binding_power k = Some a \<Longrightarrow> 1 < hi \<Longrightarrow> ends_before hi k"
  using operators_no_postfix(2) [of k a] by (simp add: ends_before_def tightness_def)

lemma ends_before_symbols:
  "CONS_BP < hi \<Longrightarrow> ends_before hi (TK_Symbol SY_ColonColon)" "1 < hi \<Longrightarrow> ends_before hi (TK_Symbol SY_ChanSend)"
  by (simp_all add: ends_before_def operators_no_postfix tightness_def infix_binding_power_def assign_binding_power_def)

lemma written_reaches:
  "atom sp e ks \<Longrightarrow> (\<And>bp rest. rest \<noteq> [] \<Longrightarrow> reaches sp bp e ks rest)"
  "written sp lo hi e' ks' \<Longrightarrow> (\<And>bp k rest. bp \<le> lo \<Longrightarrow> ends_before hi k \<Longrightarrow> reaches sp bp e' ks' (k # rest))"
  "arguments sp es us \<Longrightarrow> es = [] \<or> collects sp es us"
proof (induction rule: atom_written_arguments.inducts)
  case (literal k e)
  then show ?case by (intro reaches_literal)
next
  case (parens lo hi e ks)
  then show ?case by (intro reaches_parens reaches_reads) (simp_all add: ends_before_closer)
next
  case (member e ks name)
  then show ?case by (intro reaches_member) (use written_starts(1) in \<open>auto simp: starts_def\<close>)
next
  case (through e ks name)
  then show ?case by (intro reaches_member) (use written_starts(1) in \<open>auto simp: starts_def\<close>)
next
  case (index e ks lo hi i js)
  then obtain j js' where "js = j # js'" "j \<noteq> TK_Symbol SY_Colon"
    using written_starts(2) [OF \<open>written sp lo hi i js\<close>] by (cases js) (auto simp: starts_def)
  then show ?case
    using index written_starts(1) [OF \<open>atom sp e ks\<close>]
    by (intro reaches_index reaches_reads) (auto simp: starts_def ends_before_closer)
next
  case (call e ks args us)
  then show ?case
    using written_starts(1) [OF \<open>atom sp e ks\<close>] written_starts(3) [OF \<open>arguments sp args us\<close>]
    by (intro reaches_call) (auto simp: starts_def)
next
  case (increment e ks)
  then show ?case by (intro reaches_step) (use written_starts(1) in \<open>auto simp: starts_def\<close>)
next
  case (decrement e ks)
  then show ?case by (intro reaches_step) (use written_starts(1) in \<open>auto simp: starts_def\<close>)
next
  case (closed e ks)
  then show ?case by simp
next
  case (prefixed k f lo hi e ks)
  have "ends_before hi c" if "ends_before UNARY_BP c" for c
    using ends_before_mono [OF that written_unary [OF \<open>written sp lo hi e ks\<close>\<open>UNARY_BP \<le> lo\<close>]] .
  with prefixed written_starts(2) [OF \<open>written sp lo hi e ks\<close>] show ?case
    by (intro reaches_prefixed reaches_reads) (auto simp: starts_def)
next
  case (infix_op k l r op lo hi e ks lo' hi' e' ks')
  then show ?case
    using written_starts(2) [OF \<open>written sp lo hi e ks\<close>] written_starts(2) [OF \<open>written sp lo' hi' e' ks'\<close>]
    by (intro reaches_infix reaches_reads) (auto simp: starts_def ends_before_min ends_before_infix)
next
  case (cons_op lo hi e ks lo' hi' e' ks')
  then show ?case
    using written_starts(2) [OF \<open>written sp lo hi e ks\<close>] written_starts(2) [OF \<open>written sp lo' hi' e' ks'\<close>]
    by (intro reaches_cons reaches_reads) (auto simp: starts_def ends_before_min ends_before_symbols)
next
  case (assign_op k kind lo hi e ks lo' hi' e' ks' a)
  then show ?case
    using written_starts(2) [OF \<open>written sp lo hi e ks\<close>] written_starts(2) [OF \<open>written sp lo' hi' e' ks'\<close>]
    by (intro reaches_assign reaches_reads) (auto simp: starts_def ends_before_min ends_before_assign)
next
  case (send_op lo hi e ks lo' hi' e' ks')
  then show ?case
    using written_starts(2) [OF \<open>written sp lo hi e ks\<close>] written_starts(2) [OF \<open>written sp lo' hi' e' ks'\<close>]
    by (intro reaches_send reaches_reads) (auto simp: starts_def ends_before_min ends_before_symbols)
next
  case (one_argument lo hi e ks)
  then show ?case by (intro disjI2 collects_one reaches_reads) (auto simp: ends_before_closer)
next
  case (more_arguments es us lo hi e ks)
  then obtain s ks' where "ks = s # ks'" "s \<notin> TK_Symbol ` {SY_RParen, SY_RBracket, SY_RBrace}"
    using written_starts(2) [OF \<open>written sp lo hi e ks\<close>] by (cases ks) (auto simp: starts_def)
  with more_arguments show ?case
    by (intro disjI2 collects_more reaches_reads) (auto simp: ends_before_closer)
qed simp

section \<open>Reading an expression\<close>


text \<open>\<open>a + b * -c[i];\<close>\<close>

definition name_token :: "string \<Rightarrow> token_kind" where
  "name_token s = TK_Ident (rstr s)"

definition sum_tokens :: "token_kind list" where
  "sum_tokens =
    [name_token ''a'', TK_Symbol SY_Plus, name_token ''b'', TK_Symbol SY_Star, TK_Symbol SY_Minus,
     name_token ''c'', TK_Symbol SY_LBracket, name_token ''i'', TK_Symbol SY_RBracket]"

definition sum_tree :: "span \<Rightarrow> expr" where
  "sum_tree sp =
    E_Binary (E_Ident (rstr ''a'') sp) BO_Add
      (E_Binary (E_Ident (rstr ''b'') sp) BO_Mul
        (E_Unary UO_Neg (E_Index (E_Ident (rstr ''c'') sp) (E_Ident (rstr ''i'') sp) sp) sp) sp) sp"

lemma name_atom: "atom sp (E_Ident (rstr s) sp) [name_token s]"
  by (rule literal) (simp add: literal_of_def name_token_def)

lemma sum_written: "written sp 21 22 (sum_tree sp) sum_tokens"
proof -
  have "written sp 28 UNARY_BP (E_Unary UO_Neg (E_Index (E_Ident (rstr ''c'') sp) (E_Ident (rstr ''i'') sp) sp) sp)
    (TK_Symbol SY_Minus # [name_token ''c''] @ TK_Symbol SY_LBracket # [name_token ''i''] @ [TK_Symbol SY_RBracket])"
    by (rule prefixed [OF _ closed [OF index [OF name_atom closed [OF name_atom]]], where f = "E_Unary UO_Neg"])
      (simp_all add: prefix_operators_def UNARY_BP_def)
  note minus = infix_op [OF _ closed [OF name_atom [of _ "''b''"]] _ this, where k = "TK_Symbol SY_Star" and l = 23 and r = 24 and op = BO_Mul]
  note plus = infix_op [OF _ closed [OF name_atom [of _ "''a''"]] _ minus, where k = "TK_Symbol SY_Plus" and l = 21 and r = 22 and op = BO_Add]
  show ?thesis using plus
    by (simp add: infix_binding_power_def sum_tree_def sum_tokens_def UNARY_BP_def)
qed


end
