(* ===== verification/Scheduler.thy ===== *)
theory Scheduler
  imports Machine
begin

text \<open>
  The scheduler of \<open>crates/ricevm-execute/src/scheduler.rs\<close>, which the interpreter does not use yet: a
  queue of threads with records of their own that run cooperatively, and a pool of workers that run
  them on threads of the host. A thread is run by copying it into the state of a machine, executing an
  instruction there and copying it back. What is written only for tracing is left out, and so are the
  registry and the file table, which \<open>host\<close> stands for.
\<close>

section \<open>Threads\<close>

datatype thread_state = TS_Ready | TS_Running | TS_Blocked heap_id | TS_Exited

record vm_thread =
  vt_frames :: frame_stack
  vt_mp :: "u8 list"
  vt_pc :: usize
  vt_next_pc :: usize
  vt_halted :: bool
  vt_src :: addr_target
  vt_mid :: addr_target
  vt_dst :: addr_target
  vt_imm_src :: i32
  vt_imm_mid :: i32
  vt_imm_dst :: i32
  vt_heap_refs :: heap_refs
  vt_last_error :: rstring
  vt_current_loaded_module :: "usize option"
  vt_caller_mp_stack :: "(usize \<times> u8 list) list"
  vt_id :: u32
  vt_state :: thread_state
  vt_blocked_at :: nat

definition is_blocked :: "vm_thread \<Rightarrow> bool" where
  "is_blocked t \<longleftrightarrow> (case vt_state t of TS_Blocked _ \<Rightarrow> True | _ \<Rightarrow> False)"

definition from_suspended :: "u32 \<Rightarrow> suspended_thread \<Rightarrow> vm_thread" where
  "from_suspended tid child = \<lparr>vt_frames = st_frames child, vt_mp = st_mp child, vt_pc = st_pc child,
    vt_next_pc = 0, vt_halted = False, vt_src = AT_None, vt_mid = AT_None, vt_dst = AT_None,
    vt_imm_src = 0, vt_imm_mid = 0, vt_imm_dst = 0, vt_heap_refs = st_heap_refs child,
    vt_last_error = st_last_error child, vt_current_loaded_module = st_current_loaded_module child,
    vt_caller_mp_stack = st_caller_mp_stack child, vt_id = tid,
    vt_state = (case st_blocked_on child of Some chan_id \<Rightarrow> TS_Blocked chan_id | None \<Rightarrow> TS_Ready),
    vt_blocked_at = 0\<rparr>"

definition vm_thread_new :: "u32 \<Rightarrow> frame_stack \<Rightarrow> u8 list \<Rightarrow> usize \<Rightarrow> vm_thread" where
  "vm_thread_new tid frames mp pc = from_suspended tid \<lparr>st_frames = frames, st_mp = mp, st_pc = pc,
    st_pid = tid, st_heap_refs = [], st_last_error = [], st_current_loaded_module = None,
    st_caller_mp_stack = [], st_blocked_on = None\<rparr>"

definition DEFAULT_QUANTA :: nat where
  "DEFAULT_QUANTA = 2048"

text \<open>
  The operands of an instruction in a thread, and its next position. An error leaves the operands
  before the one that failed resolved.
\<close>

definition resolve_for_thread :: "instruction \<Rightarrow> vm_thread \<Rightarrow> (exec_error + unit) \<times> vm_thread" where
  "resolve_for_thread inst t =
    (let fp_base = current_data_offset (vt_frames t);
         t = t\<lparr>vt_imm_src := op_register1 (i_source inst)\<rparr> in
     case resolve_operand (i_source inst) fp_base (fs_data (vt_frames t)) (vt_mp t) (vt_heap_refs t) of
       Inl e \<Rightarrow> (Inl e, t)
     | Inr src \<Rightarrow>
         let t = t\<lparr>vt_src := src, vt_imm_mid := mid_register1 (i_middle inst)\<rparr> in
         (case resolve_middle (i_middle inst) fp_base of
            Inl e \<Rightarrow> (Inl e, t)
          | Inr mid \<Rightarrow>
              let t = t\<lparr>vt_mid := mid, vt_imm_dst := op_register1 (i_destination inst)\<rparr> in
              (case resolve_operand (i_destination inst) fp_base (fs_data (vt_frames t)) (vt_mp t)
                  (vt_heap_refs t) of
                 Inl e \<Rightarrow> (Inl e, t)
               | Inr dst \<Rightarrow> (Inr (), t\<lparr>vt_dst := dst, vt_next_pc := vt_pc t + 1\<rparr>))))"

text \<open>What the machine has made of a thread.\<close>

definition move_back :: "vm_state \<Rightarrow> vm_thread \<Rightarrow> vm_thread" where
  "move_back vm t = t\<lparr>vt_mp := vm_mp vm, vt_frames := vm_frames vm, vt_pc := vm_pc vm,
    vt_next_pc := vm_next_pc vm, vt_halted := vm_halted vm, vt_src := vm_src vm, vt_mid := vm_mid vm,
    vt_dst := vm_dst vm, vt_imm_src := vm_imm_src vm, vt_imm_mid := vm_imm_mid vm,
    vt_imm_dst := vm_imm_dst vm, vt_heap_refs := vm_heap_refs vm, vt_last_error := vm_last_error vm,
    vt_current_loaded_module := vm_current_loaded_module vm,
    vt_caller_mp_stack := vm_caller_mp_stack vm\<rparr>"

section \<open>The cooperative scheduler\<close>

record scheduler =
  sc_module :: dis_module
  sc_heap :: heap
  sc_loaded_modules :: "loaded_module list"
  sc_threads :: "vm_thread list"
  sc_next_thread_id :: u32

definition scheduler_new :: "dis_module \<Rightarrow> heap \<Rightarrow> scheduler" where
  "scheduler_new m h = \<lparr>sc_module = m, sc_heap = h, sc_loaded_modules = [], sc_threads = [],
    sc_next_thread_id = 1\<rparr>"

definition add_thread :: "vm_thread \<Rightarrow> scheduler \<Rightarrow> scheduler" where
  "add_thread t s = s\<lparr>sc_threads := sc_threads s @ [t]\<rparr>"

definition next_id :: "scheduler \<Rightarrow> u32 \<times> scheduler" where
  "next_id s = (sc_next_thread_id s, s\<lparr>sc_next_thread_id := sc_next_thread_id s + 1\<rparr>)"

definition sched_spawn :: "frame_stack \<Rightarrow> u8 list \<Rightarrow> usize \<Rightarrow> scheduler \<Rightarrow> u32 \<times> scheduler" where
  "sched_spawn frames mp pc s =
    (let (tid, s) = next_id s in (tid, add_thread (vm_thread_new tid frames mp pc) s))"

definition adopt_child :: "suspended_thread \<Rightarrow> scheduler \<Rightarrow> u32 \<times> scheduler" where
  "adopt_child child s = (let (tid, s) = next_id s in (tid, add_thread (from_suspended tid child) s))"

definition code_of :: "scheduler \<Rightarrow> vm_thread \<Rightarrow> instruction list" where
  "code_of s t =
    (case vt_current_loaded_module t of
       Some idx \<Rightarrow>
         (case nth_opt (sc_loaded_modules s) idx of
            Some lm \<Rightarrow> m_code (lm_module lm)
          | None \<Rightarrow> m_code (sc_module s))
     | None \<Rightarrow> m_code (sc_module s))"

text \<open>The first thread that does not wait comes to the front.\<close>

definition rotate_to_ready :: "scheduler \<Rightarrow> bool \<times> scheduler" where
  "rotate_to_ready s =
    (let waiting = takeWhile is_blocked (sc_threads s) in
     if length waiting < length (sc_threads s)
     then (True, s\<lparr>sc_threads := rotate (length waiting) (sc_threads s)\<rparr>)
     else (False, s))"

text \<open>What another thread waits for, and the thread that stands for it in the machine's queue.\<close>

definition waits_for :: "vm_thread \<Rightarrow> heap_id option" where
  "waits_for t = (case vt_state t of TS_Blocked chan_id \<Rightarrow> Some chan_id | _ \<Rightarrow> None)"

definition mirror :: "heap_id option \<Rightarrow> suspended_thread" where
  "mirror blocked_on = \<lparr>st_frames = frame_stack_new, st_mp = [], st_pc = 0, st_pid = 0,
    st_heap_refs = [], st_last_error = [], st_current_loaded_module = None, st_caller_mp_stack = [],
    st_blocked_on = blocked_on\<rparr>"

definition vm_of_thread :: "scheduler \<Rightarrow> vm_thread \<Rightarrow> vm_thread list \<Rightarrow> vm_state" where
  "vm_of_thread s t others = \<lparr>vm_module = sc_module s, vm_mp = vt_mp t, vm_frames = vt_frames t,
    vm_heap = sc_heap s, vm_loaded_modules = sc_loaded_modules s, vm_pc = vt_pc t,
    vm_next_pc = vt_next_pc t, vm_halted = vt_halted t, vm_gc_enabled = False, vm_gc_counter = 0,
    vm_current_loaded_module = vt_current_loaded_module t, vm_src = vt_src t, vm_mid = vt_mid t,
    vm_dst = vt_dst t, vm_imm_src = vt_imm_src t, vm_imm_mid = vt_imm_mid t, vm_imm_dst = vt_imm_dst t,
    vm_last_error = vt_last_error t, vm_caller_mp_stack = vt_caller_mp_stack t,
    vm_heap_refs = vt_heap_refs t, vm_blocked_channel = None, vm_unwind_floor = 0,
    vm_thread_queue = map (\<lambda>other. mirror (waits_for other)) others, vm_current_pid = vt_id t,
    vm_next_pid = 0, vm_wait_records = []\<rparr>"

definition wake_if_unblocked :: "suspended_thread \<Rightarrow> vm_thread \<Rightarrow> vm_thread" where
  "wake_if_unblocked m t =
    (if st_blocked_on m = None \<and> waits_for t \<noteq> None then t\<lparr>vt_state := TS_Ready\<rparr> else t)"

definition queue_empty :: exec_error where
  "queue_empty = ExecOther (rstr ''scheduler thread queue unexpectedly empty'')"

definition split_off_panic :: exec_error where
  "split_off_panic = ExecOther (rstr ''`at` out of bounds'')"

text \<open>
  One instruction of the front thread. The queue of the machine starts with the mirrors of the other
  threads; what stands behind them afterwards was spawned. A handler that shortens the queue makes
  \<open>split_off\<close> panic.
\<close>

definition dispatch_for_thread ::
  "nested \<Rightarrow> host \<Rightarrow> instruction \<Rightarrow> scheduler \<Rightarrow> ((exec_error + unit) \<times> scheduler) option" where
  "dispatch_for_thread nested hst inst s =
    (case sc_threads s of
       [] \<Rightarrow> Some (Inl queue_empty, s)
     | t # others \<Rightarrow>
         (case dispatch nested hst inst (vm_of_thread s t others) of
            None \<Rightarrow> None
          | Some (result, vm) \<Rightarrow>
              if length (vm_thread_queue vm) < length others then Some (Inl split_off_panic, s)
              else
                let mirrors = take (length others) (vm_thread_queue vm);
                    spawned = drop (length others) (vm_thread_queue vm);
                    t = move_back vm t;
                    t = (case vm_blocked_channel vm of
                           Some chan_id \<Rightarrow> t\<lparr>vt_state := TS_Blocked chan_id\<rparr>
                         | None \<Rightarrow> t);
                    s = s\<lparr>sc_heap := vm_heap vm, sc_loaded_modules := vm_loaded_modules vm,
                          sc_threads := t # map2 wake_if_unblocked mirrors others\<rparr> in
                Some (result, fold (\<lambda>child s. snd (adopt_child child s)) spawned s)))"

definition set_front :: "(vm_thread \<Rightarrow> vm_thread) \<Rightarrow> scheduler \<Rightarrow> scheduler" where
  "set_front f s = (case sc_threads s of [] \<Rightarrow> s | t # others \<Rightarrow> s\<lparr>sc_threads := f t # others\<rparr>)"

primrec run_thread_quanta ::
  "nested \<Rightarrow> host \<Rightarrow> nat \<Rightarrow> scheduler \<Rightarrow> ((exec_error + unit) \<times> scheduler) option" where
  "run_thread_quanta nested hst 0 s = Some (Inr (), s)"
| "run_thread_quanta nested hst (Suc quanta) s =
    (case sc_threads s of
       [] \<Rightarrow> Some (Inr (), s)
     | t # others \<Rightarrow>
         if vt_halted t then Some (Inr (), s)
         else case nth_opt (code_of s t) (vt_pc t) of
           None \<Rightarrow> Some (Inr (), set_front (\<lambda>t. t\<lparr>vt_halted := True\<rparr>) s)
         | Some inst \<Rightarrow>
             (case resolve_for_thread inst t of
                (Inl e, t) \<Rightarrow> Some (Inl e, s\<lparr>sc_threads := t # others\<rparr>)
              | (Inr _, t) \<Rightarrow>
                  (case dispatch_for_thread nested hst inst (s\<lparr>sc_threads := t # others\<rparr>) of
                     None \<Rightarrow> None
                   | Some (Inl e, s) \<Rightarrow> Some (Inl e, s)
                   | Some (Inr _, s) \<Rightarrow>
                       (case sc_threads s of
                          [] \<Rightarrow> Some (Inr (), s)
                        | t # _ \<Rightarrow>
                            if is_blocked t then Some (Inr (), s)
                            else run_thread_quanta nested hst quanta
                              (set_front (\<lambda>t. t\<lparr>vt_pc := vt_next_pc t\<rparr>) s)))))"

text \<open>The front thread goes to the back, or away when it has halted. A thread alone stays.\<close>

definition rotate_front :: "scheduler \<Rightarrow> scheduler" where
  "rotate_front s =
    (case sc_threads s of
       t # u # others \<Rightarrow> s\<lparr>sc_threads := (u # others) @ (if vt_halted t then [] else [t])\<rparr>
     | _ \<Rightarrow> s)"

text \<open>A turn of the loop of \<open>run\<close>: the result of the run, or nothing when it goes on.\<close>

definition sched_turn ::
  "nested \<Rightarrow> host \<Rightarrow> scheduler \<Rightarrow> ((exec_error + unit) option \<times> scheduler) option" where
  "sched_turn nested hst s =
    (let s = s\<lparr>sc_threads := filter (\<lambda>t. \<not> vt_halted t) (sc_threads s)\<rparr> in
     if sc_threads s = [] then Some (Some (Inr ()), s)
     else case rotate_to_ready s of
       (False, s) \<Rightarrow> Some (Some (Inl deadlock_fault), s)
     | (True, s) \<Rightarrow>
         (case run_thread_quanta nested hst DEFAULT_QUANTA s of
            None \<Rightarrow> None
          | Some (Inl e, s) \<Rightarrow> Some (Some (Inl e), s)
          | Some (Inr _, s) \<Rightarrow> Some (None, rotate_front s)))"

text \<open>The threads may run for ever; the bound is as for \<open>run_loop\<close>.\<close>

primrec sched_run :: "host \<Rightarrow> nat \<Rightarrow> scheduler \<Rightarrow> ((exec_error + unit) \<times> scheduler) option" where
  "sched_run hst 0 s = None"
| "sched_run hst (Suc n) s =
    (if sc_threads s = [] then Some (Inr (), s)
     else case sched_turn (nested_interpreter_loop hst n) hst s of
       None \<Rightarrow> None
     | Some (Some r, s) \<Rightarrow> Some (r, s)
     | Some (None, s) \<Rightarrow> sched_run hst n s)"

section \<open>The pool of workers\<close>

record shared_state =
  ss_module :: dis_module
  ss_heap :: heap
  ss_loaded_modules :: "loaded_module list"
  ss_gc_enabled :: bool
  ss_gc_counter :: usize
  ss_next_thread_id :: u32
  ss_progress :: nat

text \<open>The queue, the number of threads in the hands of workers, the progress seen, the end.\<close>

record thread_pool =
  tp_queue :: "vm_thread list"
  tp_running :: usize
  tp_progress :: nat
  tp_shutdown :: bool

definition thread_pool_new :: thread_pool where
  "thread_pool_new = \<lparr>tp_queue = [], tp_running = 0, tp_progress = 0, tp_shutdown = False\<rparr>"

definition is_runnable :: "thread_pool \<Rightarrow> vm_thread \<Rightarrow> bool" where
  "is_runnable pool t \<longleftrightarrow>
    (case vt_state t of
       TS_Ready \<Rightarrow> True
     | TS_Blocked _ \<Rightarrow> vt_blocked_at t < tp_progress pool
     | _ \<Rightarrow> False)"

definition vm_of_shared :: "shared_state \<Rightarrow> vm_thread \<Rightarrow> vm_state" where
  "vm_of_shared s t = \<lparr>vm_module = ss_module s, vm_mp = vt_mp t, vm_frames = vt_frames t,
    vm_heap = ss_heap s, vm_loaded_modules = ss_loaded_modules s, vm_pc = vt_pc t,
    vm_next_pc = vt_next_pc t, vm_halted = vt_halted t, vm_gc_enabled = ss_gc_enabled s,
    vm_gc_counter = ss_gc_counter s, vm_current_loaded_module = vt_current_loaded_module t,
    vm_src = vt_src t, vm_mid = vt_mid t, vm_dst = vt_dst t, vm_imm_src = vt_imm_src t,
    vm_imm_mid = vt_imm_mid t, vm_imm_dst = vt_imm_dst t, vm_last_error = vt_last_error t,
    vm_caller_mp_stack = vt_caller_mp_stack t, vm_heap_refs = vt_heap_refs t,
    vm_blocked_channel = None, vm_unwind_floor = 0, vm_thread_queue = [], vm_current_pid = 1,
    vm_next_pid = 2, vm_wait_records = []\<rparr>"

definition shared_code :: "shared_state \<Rightarrow> vm_thread \<Rightarrow> instruction option" where
  "shared_code s t =
    (case vt_current_loaded_module t of
       Some idx \<Rightarrow>
         (case nth_opt (ss_loaded_modules s) idx of
            Some lm \<Rightarrow> nth_opt (m_code (lm_module lm)) (vt_pc t)
          | None \<Rightarrow> None)
     | None \<Rightarrow> nth_opt (m_code (ss_module s)) (vt_pc t))"

text \<open>The threads an instruction spawned, with identifiers of their own.\<close>

primrec adopt_children :: "suspended_thread list \<Rightarrow> shared_state \<Rightarrow> vm_thread list \<times> shared_state" where
  "adopt_children [] s = ([], s)"
| "adopt_children (child # children) s =
    (let (ts, s') = adopt_children children (s\<lparr>ss_next_thread_id := ss_next_thread_id s + 1\<rparr>) in
     (from_suspended (ss_next_thread_id s) child # ts, s'))"

definition with_vm :: "vm_state \<Rightarrow> shared_state \<Rightarrow> shared_state" where
  "with_vm vm s = s\<lparr>ss_heap := vm_heap vm, ss_loaded_modules := vm_loaded_modules vm,
    ss_gc_counter := vm_gc_counter vm\<rparr>"

text \<open>
  A quantum of one thread, under the lock of the shared state: the number of instructions it retired,
  the state, the thread and the threads it spawned.
\<close>

type_synonym quantum = "(exec_error + nat) \<times> shared_state \<times> vm_thread \<times> vm_thread list"

primrec run_thread_quanta_shared ::
  "nested \<Rightarrow> host \<Rightarrow> nat \<Rightarrow> nat \<Rightarrow> vm_thread list \<Rightarrow> vm_thread \<Rightarrow> shared_state \<Rightarrow> quantum option" where
  "run_thread_quanta_shared nested hst 0 executed spawned t s = Some (Inr executed, s, t, spawned)"
| "run_thread_quanta_shared nested hst (Suc quanta) executed spawned t s =
    (if vt_halted t then Some (Inr executed, s, t, spawned)
     else case shared_code s t of
       None \<Rightarrow> Some (Inr executed, s, t\<lparr>vt_halted := True\<rparr>, spawned)
     | Some inst \<Rightarrow>
         (case resolve_for_thread inst t of
            (Inl e, t) \<Rightarrow> Some (Inl e, s, t, spawned)
          | (Inr _, t) \<Rightarrow>
              (case dispatch nested hst inst (vm_of_shared s t) of
                 None \<Rightarrow> None
               | Some (result, vm) \<Rightarrow>
                   let t = move_back vm t;
                       (children, s) = adopt_children (vm_thread_queue vm) (with_vm vm s);
                       spawned = spawned @ children in
                   (case result of
                      Inl e \<Rightarrow> Some (Inl e, s, t, spawned)
                    | Inr _ \<Rightarrow>
                        (case vm_blocked_channel vm of
                           Some chan_id \<Rightarrow>
                             Some (Inr executed, s, t\<lparr>vt_state := TS_Blocked chan_id\<rparr>, spawned)
                         | None \<Rightarrow> run_thread_quanta_shared nested hst quanta (executed + 1) spawned
                             (t\<lparr>vt_pc := vt_next_pc t\<rparr>) (s\<lparr>ss_progress := ss_progress s + 1\<rparr>))))))"

text \<open>What a worker finds in the pool: the end, a thread, a deadlock, or nothing for now.\<close>

datatype pick = P_Stop | P_Take vm_thread | P_Deadlock | P_Wait

definition pick_thread :: "thread_pool \<Rightarrow> pick \<times> thread_pool" where
  "pick_thread pool =
    (if tp_shutdown pool then (P_Stop, pool)
     else
       let queue = filter (\<lambda>t. vt_state t \<noteq> TS_Exited) (tp_queue pool);
           pool = pool\<lparr>tp_queue := queue\<rparr>;
           waiting = takeWhile (\<lambda>t. \<not> is_runnable pool t) queue in
       case drop (length waiting) queue of
         t # others \<Rightarrow> (P_Take (t\<lparr>vt_state := TS_Running\<rparr>),
           pool\<lparr>tp_queue := waiting @ others, tp_running := tp_running pool + 1\<rparr>)
       | [] \<Rightarrow>
           if tp_running pool = 0 then
             (if queue = [] then (P_Stop, pool) else (P_Deadlock, pool\<lparr>tp_shutdown := True\<rparr>))
           else (P_Wait, pool))"

definition state_after :: "nat \<Rightarrow> vm_thread \<Rightarrow> vm_thread" where
  "state_after epoch t =
    (if vt_halted t then t\<lparr>vt_state := TS_Exited\<rparr>
     else if vt_state t = TS_Running then t\<lparr>vt_state := TS_Ready\<rparr>
     else if is_blocked t then t\<lparr>vt_blocked_at := epoch\<rparr>
     else t)"

definition return_thread :: "nat \<Rightarrow> vm_thread \<Rightarrow> vm_thread list \<Rightarrow> thread_pool \<Rightarrow> thread_pool" where
  "return_thread epoch t spawned pool = pool\<lparr>tp_running := tp_running pool - 1,
    tp_progress := max (tp_progress pool) epoch,
    tp_queue := tp_queue pool @ state_after epoch t # spawned\<rparr>"

text \<open>
  Where a worker stands in \<open>worker_loop\<close>: before the lock of the pool, asleep on the condition, with a
  thread before the lock of the shared state, with a thread to return, or behind the loop.
\<close>

datatype worker =
    W_Picking
  | W_Waiting
  | W_Holding vm_thread
  | W_Returning "exec_error + nat" nat vm_thread "vm_thread list"
  | W_Done "exec_error + unit"

record pool_system =
  ps_shared :: shared_state
  ps_pool :: thread_pool
  ps_workers :: "worker list"

definition wake :: "worker \<Rightarrow> worker" where
  "wake w = (case w of W_Waiting \<Rightarrow> W_Picking | _ \<Rightarrow> w)"

definition picked :: "pick \<Rightarrow> nat \<Rightarrow> worker list \<Rightarrow> worker list" where
  "picked p i ws =
    (case p of
       P_Stop \<Rightarrow> ws[i := W_Done (Inr ())]
     | P_Take t \<Rightarrow> ws[i := W_Holding t]
     | P_Deadlock \<Rightarrow> (map wake ws)[i := W_Done (Inl deadlock_fault)]
     | P_Wait \<Rightarrow> ws[i := W_Waiting])"

definition returned :: "exec_error + nat \<Rightarrow> worker" where
  "returned r = (case r of Inl e \<Rightarrow> W_Done (Inl e) | Inr _ \<Rightarrow> W_Picking)"

text \<open>
  The critical sections of the workers, in any order. A worker asleep may wake without a signal, as a
  condition variable allows.
\<close>

inductive pool_step :: "nested \<Rightarrow> host \<Rightarrow> pool_system \<Rightarrow> pool_system \<Rightarrow> bool"
  for nested :: nested and hst :: host
where
  pick: "i < length (ps_workers s) \<Longrightarrow> ps_workers s ! i = W_Picking \<Longrightarrow> pick_thread (ps_pool s) = (p, pool) \<Longrightarrow>
    pool_step nested hst s (s\<lparr>ps_pool := pool, ps_workers := picked p i (ps_workers s)\<rparr>)"
| awake: "i < length (ps_workers s) \<Longrightarrow> ps_workers s ! i = W_Waiting \<Longrightarrow>
    pool_step nested hst s (s\<lparr>ps_workers := (ps_workers s)[i := W_Picking]\<rparr>)"
| run: "i < length (ps_workers s) \<Longrightarrow> ps_workers s ! i = W_Holding t \<Longrightarrow>
    run_thread_quanta_shared nested hst DEFAULT_QUANTA 0 [] t (ps_shared s) = Some (r, shared, t', spawned) \<Longrightarrow>
    pool_step nested hst s (s\<lparr>ps_shared := shared,
      ps_workers := (ps_workers s)[i := W_Returning r (ss_progress shared) t' spawned]\<rparr>)"
| give_back: "i < length (ps_workers s) \<Longrightarrow> ps_workers s ! i = W_Returning r epoch t spawned \<Longrightarrow>
    pool_step nested hst s (s\<lparr>ps_pool := return_thread epoch t spawned (ps_pool s),
      ps_workers := (map wake (ps_workers s))[i := returned r]\<rparr>)"

definition preemptive_new :: "dis_module \<Rightarrow> heap \<Rightarrow> bool \<Rightarrow> nat \<Rightarrow> pool_system" where
  "preemptive_new m h gc_enabled pool_size = \<lparr>ps_shared = \<lparr>ss_module = m, ss_heap = h,
      ss_loaded_modules = [], ss_gc_enabled = gc_enabled, ss_gc_counter = 0, ss_next_thread_id = 1,
      ss_progress = 0\<rparr>,
    ps_pool = thread_pool_new, ps_workers = replicate pool_size W_Picking\<rparr>"

definition pool_add_thread :: "vm_thread \<Rightarrow> pool_system \<Rightarrow> pool_system" where
  "pool_add_thread t s = s\<lparr>ps_pool := (ps_pool s)\<lparr>tp_queue := tp_queue (ps_pool s) @ [t]\<rparr>\<rparr>"

definition pool_spawn :: "frame_stack \<Rightarrow> u8 list \<Rightarrow> usize \<Rightarrow> pool_system \<Rightarrow> u32 \<times> pool_system" where
  "pool_spawn frames mp pc s =
    (let tid = ss_next_thread_id (ps_shared s);
         s = s\<lparr>ps_shared := (ps_shared s)\<lparr>ss_next_thread_id := tid + 1\<rparr>\<rparr> in
     (tid, pool_add_thread (vm_thread_new tid frames mp pc) s))"

text \<open>The result of \<open>run\<close> when all workers are done: the last error, if there is one.\<close>

definition pool_result :: "pool_system \<Rightarrow> exec_error + unit" where
  "pool_result s = fold (\<lambda>w r. case w of W_Done (Inl e) \<Rightarrow> Inl e | _ \<Rightarrow> r) (ps_workers s) (Inr ())"

end
