(* ===== verification/SchedulerProps.thy ===== *)
theory SchedulerProps
  imports Scheduler MachineProps InstructionProps "HOL-Library.Multiset"
begin

text \<open>
  What the schedulers promise: no turn and no critical section loses a thread, a deadlock is reported
  only when every thread waits for something nothing can bring about, and no worker sleeps through the
  return of another.
\<close>

declare nth_opt_Some [simp del] nth_opt_None [simp del]

section \<open>The cooperative scheduler\<close>

text \<open>A thread in the queue changes only by being woken.\<close>

definition woken :: "vm_thread \<Rightarrow> vm_thread \<Rightarrow> bool" where
  "woken t t' \<longleftrightarrow> t' = t \<or> is_blocked t \<and> t' = t\<lparr>vt_state := TS_Ready\<rparr>"

lemma woken_mirror: "woken t (wake_if_unblocked m t)"
  by (auto simp: woken_def wake_if_unblocked_def waits_for_def is_blocked_def split: thread_state.split)

lemma woken_mirrors:
  "length ms = length ts \<Longrightarrow> list_all2 woken ts (map2 wake_if_unblocked ms ts)"
  by (auto simp: list_all2_conv_all_nth woken_mirror)

lemma woken_ids: "list_all2 woken ts ts' \<Longrightarrow> map vt_id ts' = map vt_id ts"
  by (induction rule: list_all2_induct) (auto simp: woken_def)

lemma move_back_id [simp]: "vt_id (move_back vm t) = vt_id t"
  by (simp add: move_back_def)

lemma resolve_id: "resolve_for_thread inst t = (r, t') \<Longrightarrow> vt_id t' = vt_id t"
  by (auto simp: resolve_for_thread_def Let_def split: sum.splits)

text \<open>The identifiers of \<open>n\<close> new threads.\<close>

definition ids_from :: "u32 \<Rightarrow> nat \<Rightarrow> u32 list" where
  "ids_from i n = map (\<lambda>k. i + of_nat k) [0..<n]"

lemma ids_from_0 [simp]: "ids_from i 0 = []"
  by (simp add: ids_from_def)

lemma ids_from_Suc: "ids_from i (Suc n) = i # ids_from (i + 1) n"
  by (simp add: ids_from_def upt_conv_Cons map_Suc_upt [symmetric] add.assoc del: upt_Suc)

lemma ids_from_add: "ids_from i (m + n) = ids_from i m @ ids_from (i + of_nat m) n"
  by (induction m arbitrary: i) (simp_all add: ids_from_Suc ac_simps)

text \<open>Threads are added behind the others, with new identifiers.\<close>

definition adds :: "vm_thread list \<Rightarrow> scheduler \<Rightarrow> scheduler \<Rightarrow> bool" where
  "adds ts s s' \<longleftrightarrow> (\<exists>new. sc_threads s' = ts @ new \<and>
    map vt_id new = ids_from (sc_next_thread_id s) (length new) \<and>
    sc_next_thread_id s' = sc_next_thread_id s + of_nat (length new))"

lemma adopt_children_adds:
  "adds (sc_threads s) s (fold (\<lambda>child s. snd (adopt_child child s)) children s)"
proof (induction children arbitrary: s)
  case Nil
  show ?case by (simp add: adds_def)
next
  case (Cons c cs)
  let ?s = "snd (adopt_child c s)"
  have s: "sc_threads ?s = sc_threads s @ [from_suspended (sc_next_thread_id s) c]"
    "sc_next_thread_id ?s = sc_next_thread_id s + 1"
    by (simp_all add: adopt_child_def next_id_def add_thread_def)
  from Cons.IH [of ?s] obtain new where
    "sc_threads (fold (\<lambda>child s. snd (adopt_child child s)) cs ?s) = sc_threads ?s @ new"
    "map vt_id new = ids_from (sc_next_thread_id ?s) (length new)"
    "sc_next_thread_id (fold (\<lambda>child s. snd (adopt_child child s)) cs ?s) =
      sc_next_thread_id ?s + of_nat (length new)"
    unfolding adds_def by blast
  then show ?case
    unfolding adds_def using s
    by (intro exI [of _ "from_suspended (sc_next_thread_id s) c # new"])
      (simp add: ids_from_Suc from_suspended_def ac_simps)
qed

text \<open>
  What a quantum does to the queue: the front thread runs, others are woken, new ones come behind.
\<close>

definition quantum_of :: "scheduler \<Rightarrow> scheduler \<Rightarrow> bool" where
  "quantum_of s s' \<longleftrightarrow> (\<exists>ts. list_all2 woken (tl (sc_threads s)) (tl ts) \<and>
    map vt_id ts = map vt_id (sc_threads s) \<and> adds ts s s')"

lemma woken_trans: "woken t u \<Longrightarrow> woken u v \<Longrightarrow> woken t v"
  by (auto simp: woken_def is_blocked_def)

lemma quantum_of_same:
  assumes "list_all2 woken (tl (sc_threads s)) (tl (sc_threads s'))"
    and "map vt_id (sc_threads s') = map vt_id (sc_threads s)"
    and "sc_next_thread_id s' = sc_next_thread_id s"
  shows "quantum_of s s'"
  unfolding quantum_of_def adds_def
  using assms by (intro exI [of _ "sc_threads s'"] conjI exI [of _ "[]"]) simp_all

lemma woken_refl: "list_all2 woken ts ts"
  by (simp add: list_all2_same woken_def)

lemma quantum_of_refl: "quantum_of s s"
  by (rule quantum_of_same) (simp_all add: woken_refl)

lemma quantum_of_front:
  assumes "sc_threads s = t # others" and "vt_id t' = vt_id t"
  shows "quantum_of s (s\<lparr>sc_threads := t' # others\<rparr>)"
  using assms by (intro quantum_of_same) (simp_all add: woken_refl)

lemma quantum_of_set_front: "(\<And>t. vt_id (f t) = vt_id t) \<Longrightarrow> quantum_of s (set_front f s)"
  by (cases "sc_threads s") (auto simp: set_front_def quantum_of_refl intro: quantum_of_front)

lemma quantum_of_trans:
  assumes "quantum_of s s'" and "quantum_of s' s''"
  shows "quantum_of s s''"
proof -
  obtain ts new where 1: "list_all2 woken (tl (sc_threads s)) (tl ts)" "map vt_id ts = map vt_id (sc_threads s)"
    "sc_threads s' = ts @ new" "map vt_id new = ids_from (sc_next_thread_id s) (length new)"
    "sc_next_thread_id s' = sc_next_thread_id s + of_nat (length new)"
    using assms(1) unfolding quantum_of_def adds_def by blast
  obtain us new2 where 2: "list_all2 woken (tl (sc_threads s')) (tl us)" "map vt_id us = map vt_id (sc_threads s')"
    "sc_threads s'' = us @ new2" "map vt_id new2 = ids_from (sc_next_thread_id s') (length new2)"
    "sc_next_thread_id s'' = sc_next_thread_id s' + of_nat (length new2)"
    using assms(2) unfolding quantum_of_def adds_def by blast
  have len: "length us = length ts + length new" "length ts = length (sc_threads s)"
    using 1(2,3) 2(2) by (metis length_append length_map)+
  let ?us = "take (length ts) us" and ?new = "drop (length ts) us @ new2"
  have ids: "map vt_id us = map vt_id ts @ map vt_id new" using 1(3) 2(2) by simp
  have "tl ?us = take (length ts - 1) (tl us)" by (cases us; cases ts) simp_all
  moreover have "take (length ts - 1) (tl (sc_threads s')) = tl ts" using 1(3) by (cases ts) simp_all
  ultimately have "list_all2 woken (tl ts) (tl ?us)"
    using list_all2_takeI [OF 2(1), of "length ts - 1"] by simp
  with 1(1) have "list_all2 woken (tl (sc_threads s)) (tl ?us)"
    by (rule list_all2_trans [of woken woken woken, rotated]) (rule woken_trans)
  moreover have "map vt_id ?us = map vt_id (sc_threads s)"
    using ids 1(2) len by (simp flip: take_map)
  moreover have "map vt_id ?new = ids_from (sc_next_thread_id s) (length ?new)"
    using ids 1(4,5) 2(4) len by (simp add: ids_from_add flip: drop_map)
  moreover have "sc_next_thread_id s'' = sc_next_thread_id s + of_nat (length ?new)"
    using 1(5) 2(5) len by (simp add: ac_simps)
  moreover have "sc_threads s'' = ?us @ ?new" using 2(3) by simp
  ultimately show ?thesis unfolding quantum_of_def adds_def by blast
qed

lemma dispatch_quantum:
  assumes ok: "nested_ok nested" "host_ok hst"
    and run: "dispatch_for_thread nested hst inst s = Some (r, s')"
  shows "quantum_of s s'"
proof (cases "sc_threads s")
  case Nil
  with run show ?thesis by (simp add: dispatch_for_thread_def quantum_of_refl)
next
  case (Cons t others)
  obtain r0 vm where d: "dispatch nested hst inst (vm_of_thread s t others) = Some (r0, vm)"
    using run Cons by (auto simp: dispatch_for_thread_def split: option.splits)
  have "extends (map at_rest (vm_thread_queue (vm_of_thread s t others))) (map at_rest (vm_thread_queue vm))"
    using run_keepsD [OF dispatch_keeps_context [OF ok] d]
    by (simp add: same_context_def same_frame_of_reference_def)
  then have len: "length others \<le> length (vm_thread_queue vm)"
    by (auto simp: extends_def vm_of_thread_def dest!: arg_cong [of _ _ length])
  let ?t = "case vm_blocked_channel vm of Some chan_id \<Rightarrow> move_back vm t\<lparr>vt_state := TS_Blocked chan_id\<rparr>
    | None \<Rightarrow> move_back vm t"
  let ?ts = "?t # map2 wake_if_unblocked (take (length others) (vm_thread_queue vm)) others"
  let ?s = "s\<lparr>sc_heap := vm_heap vm, sc_loaded_modules := vm_loaded_modules vm, sc_threads := ?ts\<rparr>"
  have s': "s' = fold (\<lambda>child s. snd (adopt_child child s)) (drop (length others) (vm_thread_queue vm)) ?s"
    using run d Cons len by (simp add: dispatch_for_thread_def Let_def split: option.splits)
  have w: "list_all2 woken others (tl ?ts)" using woken_mirrors len by simp
  moreover have "map vt_id ?ts = map vt_id (sc_threads s)"
    using woken_ids [OF w] Cons by (simp split: option.split)
  moreover have "adds ?ts s s'"
    using adopt_children_adds [of ?s "drop (length others) (vm_thread_queue vm)"] by (simp add: s' adds_def)
  ultimately show ?thesis unfolding quantum_of_def using Cons by (intro exI [of _ ?ts]) simp
qed

lemma quanta_quantum:
  assumes ok: "nested_ok nested" "host_ok hst"
  shows "run_thread_quanta nested hst n s = Some (r, s') \<Longrightarrow> quantum_of s s'"
proof (induction n arbitrary: s)
  case 0
  then show ?case by (simp add: quantum_of_refl)
next
  case (Suc n)
  show ?case
  proof (cases "sc_threads s")
    case Nil
    with Suc.prems show ?thesis by (simp add: quantum_of_refl)
  next
    case (Cons t others)
    show ?thesis
    proof (cases "vt_halted t \<or> nth_opt (code_of s t) (vt_pc t) = None")
      case True
      with Suc.prems Cons show ?thesis
        by (cases "vt_halted t") (auto intro: quantum_of_refl quantum_of_set_front)
    next
      case False
      then obtain inst where inst: "nth_opt (code_of s t) (vt_pc t) = Some inst" by blast
      obtain r1 t1 where t1: "resolve_for_thread inst t = (r1, t1)" by fastforce
      let ?s = "s\<lparr>sc_threads := t1 # others\<rparr>"
      have front: "quantum_of s ?s" using Cons resolve_id [OF t1] by (rule quantum_of_front)
      show ?thesis
      proof (cases r1)
        case (Inl e)
        with Suc.prems Cons False inst t1 front show ?thesis by simp
      next
        case (Inr u)
        then obtain r2 s2 where d: "dispatch_for_thread nested hst inst ?s = Some (r2, s2)"
          using Suc.prems Cons False inst t1 by (auto split: option.splits)
        note q = quantum_of_trans [OF front dispatch_quantum [OF ok d]]
        show ?thesis
        proof (cases "r2 \<noteq> Inr () \<or> sc_threads s2 = [] \<or> is_blocked (hd (sc_threads s2))")
          case True
          with Suc.prems Cons False inst t1 Inr d q show ?thesis
            by (auto split: sum.splits list.splits if_splits)
        next
          case go_on: False
          then obtain t2 others2 where "sc_threads s2 = t2 # others2" "\<not> is_blocked t2"
            by (cases "sc_threads s2") auto
          with Suc.prems Cons False inst t1 Inr d go_on
          have "run_thread_quanta nested hst n (set_front (\<lambda>t. t\<lparr>vt_pc := vt_next_pc t\<rparr>) s2) = Some (r, s')"
            by simp
          from Suc.IH [OF this] q show ?thesis
            by (blast intro: quantum_of_trans quantum_of_set_front [where f = "\<lambda>t. t\<lparr>vt_pc := vt_next_pc t\<rparr>", simplified])
        qed
      qed
    qed
  qed
qed

lemma rotate_to_ready_cases:
  obtains "rotate_to_ready s = (False, s)" "\<forall>t \<in> set (sc_threads s). is_blocked t"
  | s' where "rotate_to_ready s = (True, s')" "mset (sc_threads s') = mset (sc_threads s)"
      "sc_next_thread_id s' = sc_next_thread_id s"
      "\<exists>t others. sc_threads s' = t # others \<and> \<not> is_blocked t"
proof (cases "\<forall>t \<in> set (sc_threads s). is_blocked t")
  case True
  then have "takeWhile is_blocked (sc_threads s) = sc_threads s" by simp
  with that(1) True show thesis by (simp add: rotate_to_ready_def Let_def)
next
  case False
  let ?n = "length (takeWhile is_blocked (sc_threads s))"
  have less: "?n < length (sc_threads s)"
    using False by (metis length_takeWhile_le nat_less_le set_takeWhileD takeWhile_eq_take take_all)
  then have "\<not> is_blocked (sc_threads s ! ?n)" by (rule nth_length_takeWhile)
  then have "\<exists>t others. rotate ?n (sc_threads s) = t # others \<and> \<not> is_blocked t"
    using less by (auto simp: rotate_drop_take Cons_nth_drop_Suc [symmetric])
  moreover have "mset (rotate ?n (sc_threads s)) = mset (sc_threads s)"
    using less by (simp add: rotate_drop_take flip: mset_append) (metis append_take_drop_id mset_append union_commute)
  ultimately show thesis using less
    by (intro that(2) [of "s\<lparr>sc_threads := rotate ?n (sc_threads s)\<rparr>"]) (simp_all add: rotate_to_ready_def Let_def)
qed

text \<open>Threads come and go: \<open>new\<close> ones with fresh identifiers, and \<open>ended\<close> ones that have halted.\<close>

definition come_and_go :: "u32 list \<Rightarrow> vm_thread list \<Rightarrow> vm_thread list \<Rightarrow> vm_thread list \<Rightarrow> bool" where
  "come_and_go new ended ts ts' \<longleftrightarrow> (\<forall>t \<in> set ended. vt_halted t) \<and>
    mset (map vt_id ts) + mset new = mset (map vt_id ts') + mset (map vt_id ended)"

lemma rotate_front_ends: "\<exists>ended. come_and_go [] ended (sc_threads s) (sc_threads (rotate_front s))"
proof (cases "sc_threads s")
  case (Cons t others)
  show ?thesis
  proof (cases others)
    case Nil
    with Cons show ?thesis by (auto simp: come_and_go_def rotate_front_def intro!: exI [of _ "[]"])
  next
    case (Cons u us)
    with \<open>sc_threads s = t # others\<close> show ?thesis
      by (cases "vt_halted t")
        (auto simp: come_and_go_def rotate_front_def intro: exI [of _ "[t]"] exI [of _ "[]"])
  qed
qed (auto simp: come_and_go_def rotate_front_def intro!: exI [of _ "[]"])

lemma come_and_go_trans:
  assumes "come_and_go new ended ts ts'" and "come_and_go new' ended' ts' ts''"
  shows "come_and_go (new @ new') (ended @ ended') ts ts''"
proof -
  have "mset (map vt_id ts) + mset new + mset new' = (mset (map vt_id ts') + mset new') + mset (map vt_id ended)"
    using assms(1) by (simp add: come_and_go_def)
  also have "mset (map vt_id ts') + mset new' = mset (map vt_id ts'') + mset (map vt_id ended')"
    using assms(2) by (simp add: come_and_go_def)
  finally show ?thesis using assms by (auto simp: come_and_go_def ac_simps)
qed

lemma quantum_comes:
  assumes "quantum_of s s'"
  shows "\<exists>n. come_and_go (ids_from (sc_next_thread_id s) n) [] (sc_threads s) (sc_threads s') \<and>
    sc_next_thread_id s' = sc_next_thread_id s + of_nat n"
proof -
  obtain ts new where "map vt_id ts = map vt_id (sc_threads s)" "sc_threads s' = ts @ new"
    "map vt_id new = ids_from (sc_next_thread_id s) (length new)"
    "sc_next_thread_id s' = sc_next_thread_id s + of_nat (length new)"
    using assms unfolding quantum_of_def adds_def by blast
  then show ?thesis by (intro exI [of _ "length new"]) (simp add: come_and_go_def flip: mset_map)
qed

lemma halted_go: "come_and_go [] (filter vt_halted ts) ts (filter (\<lambda>t. \<not> vt_halted t) ts)"
  by (induction ts) (simp_all add: come_and_go_def)


definition waiting_thread :: vm_thread where
  "waiting_thread = from_suspended 1 (mirror (Some 5))"

lemma waiting_turn:
  "sched_turn nested hst (add_thread waiting_thread (scheduler_new m h)) =
    Some (Some (Inl deadlock_fault), add_thread waiting_thread (scheduler_new m h))"
  by (simp add: sched_turn_def rotate_to_ready_def Let_def add_thread_def scheduler_new_def waiting_thread_def
      from_suspended_def mirror_def is_blocked_def)


section \<open>The pool\<close>

text \<open>The threads a worker has in its hands, and whether it has one.\<close>

definition held :: "worker \<Rightarrow> vm_thread list" where
  "held w = (case w of W_Holding t \<Rightarrow> [t] | W_Returning r epoch t spawned \<Rightarrow> t # spawned | _ \<Rightarrow> [])"

definition busy :: "worker \<Rightarrow> bool" where
  "busy w \<longleftrightarrow> held w \<noteq> []"

definition epochs :: "worker \<Rightarrow> nat set" where
  "epochs w = (case w of W_Returning r epoch t spawned \<Rightarrow> {epoch} | _ \<Rightarrow> {})"

text \<open>A thread that waits since progress \<open>n\<close> or longer, and is in no worker's hands.\<close>

definition seen_by :: "nat \<Rightarrow> vm_thread \<Rightarrow> bool" where
  "seen_by n t \<longleftrightarrow> vt_blocked_at t \<le> n \<and> vt_state t \<noteq> TS_Running"

text \<open>A thread that has just been spawned.\<close>

definition fresh :: "vm_thread \<Rightarrow> bool" where
  "fresh t \<longleftrightarrow> seen_by 0 t \<and> vt_state t \<noteq> TS_Exited"

lemma busy_simps [simp]:
  "busy (W_Holding t)" "busy (W_Returning r n t ts)" "\<not> busy W_Picking" "\<not> busy W_Waiting" "\<not> busy (W_Done d)"
  "epochs (W_Holding t) = {}" "epochs (W_Returning r n t ts) = {n}" "epochs W_Picking = {}"
  "epochs W_Waiting = {}" "epochs (W_Done d) = {}"
  "held (W_Holding t) = [t]" "held (W_Returning r n t ts) = t # ts" "held W_Picking = []"
  "held W_Waiting = []" "held (W_Done d) = []"
  by (simp_all add: busy_def held_def epochs_def)

lemma wake_simps [simp]: "busy (wake w) = busy w" "epochs (wake w) = epochs w" "held (wake w) = held w"
  "wake w \<noteq> W_Waiting"
  by (simp_all add: wake_def split: worker.split)

text \<open>Counting the busy workers when one changes.\<close>

lemma busy_count:
  assumes "i < length ws"
  shows "length (filter busy (ws[i := w])) + (if busy (ws ! i) then 1 else 0) =
    length (filter busy ws) + (if busy w then 1 else 0)"
proof -
  have ws: "ws = take i ws @ ws ! i # drop (Suc i) ws" using assms by (rule id_take_nth_drop)
  have "ws[i := w] = take i ws @ w # drop (Suc i) ws" using assms by (rule upd_conv_take_nth_drop)
  then have "length (filter busy (ws[i := w])) + (if busy (ws ! i) then 1 else 0) =
    length (filter busy (take i ws @ ws ! i # drop (Suc i) ws)) + (if busy w then 1 else 0)" by simp
  then show ?thesis using ws by simp
qed

lemma busy_wake [simp]: "busy \<circ> wake = busy"
  by (simp add: fun_eq_iff)

text \<open>The three outcomes of a look at the queue.\<close>

lemma pick_cases:
  assumes "pick_thread pool = (p, pool')"
  obtains (stop) "p = P_Stop" "tp_running pool' = tp_running pool" "tp_progress pool' = tp_progress pool"
      "tp_queue pool' = tp_queue pool \<or> tp_queue pool' = filter (\<lambda>t. vt_state t \<noteq> TS_Exited) (tp_queue pool)"
  | (take) before t after where "p = P_Take (t\<lparr>vt_state := TS_Running\<rparr>)" "is_runnable pool t"
      "filter (\<lambda>t. vt_state t \<noteq> TS_Exited) (tp_queue pool) = before @ t # after"
      "pool' = pool\<lparr>tp_queue := before @ after, tp_running := tp_running pool + 1\<rparr>"
  | (deadlock) "p = P_Deadlock" "tp_running pool = 0" "tp_queue pool' \<noteq> []"
      "\<forall>t \<in> set (tp_queue pool'). \<not> is_runnable pool t"
      "pool' = pool\<lparr>tp_queue := filter (\<lambda>t. vt_state t \<noteq> TS_Exited) (tp_queue pool), tp_shutdown := True\<rparr>"
  | (wait) "p = P_Wait" "0 < tp_running pool"
      "pool' = pool\<lparr>tp_queue := filter (\<lambda>t. vt_state t \<noteq> TS_Exited) (tp_queue pool)\<rparr>"
proof (cases "tp_shutdown pool")
  case True
  with assms show thesis by (intro stop) (auto simp: pick_thread_def)
next
  case False
  define q where "q = filter (\<lambda>t. vt_state t \<noteq> TS_Exited) (tp_queue pool)"
  define w where "w = takeWhile (\<lambda>t. \<not> is_runnable pool t) q"
  have same: "is_runnable (pool\<lparr>tp_queue := q\<rparr>) = is_runnable pool" for q
    by (auto simp: is_runnable_def fun_eq_iff split: thread_state.split)
  have "pick_thread pool =
    (case drop (length w) q of
       t # others \<Rightarrow> (P_Take (t\<lparr>vt_state := TS_Running\<rparr>),
         pool\<lparr>tp_queue := w @ others, tp_running := tp_running pool + 1\<rparr>)
     | [] \<Rightarrow>
         if tp_running pool = 0 then
           (if q = [] then (P_Stop, pool\<lparr>tp_queue := q\<rparr>)
            else (P_Deadlock, pool\<lparr>tp_queue := q, tp_shutdown := True\<rparr>))
         else (P_Wait, pool\<lparr>tp_queue := q\<rparr>))"
    by (simp add: pick_thread_def Let_def same False q_def w_def cong: list.case_cong)
  note pick = this [unfolded assms]
  show thesis
  proof (cases "drop (length w) q")
    case Nil
    then have "w = q" unfolding w_def by (metis drop_eq_Nil length_takeWhile_le order_antisym takeWhile_eq_take take_all)
    then have none: "\<forall>t \<in> set q. \<not> is_runnable pool t" unfolding w_def using takeWhile_eq_all_conv by metis
    consider (a) "tp_running pool = 0" "q = []" | (b) "tp_running pool = 0" "q \<noteq> []" | (c) "0 < tp_running pool"
      by blast
    then show thesis
    proof cases
      case a
      with pick Nil have "p = P_Stop" "pool' = pool\<lparr>tp_queue := q\<rparr>" by simp_all
      then show thesis by (intro stop) (simp_all add: q_def)
    next
      case b
      with pick Nil have "p = P_Deadlock" "pool' = pool\<lparr>tp_queue := q, tp_shutdown := True\<rparr>" by simp_all
      then show thesis using b none by (intro deadlock) (simp_all add: q_def [symmetric])
    next
      case c
      with pick Nil have "p = P_Wait" "pool' = pool\<lparr>tp_queue := q\<rparr>" by simp_all
      then show thesis using c by (intro wait) (simp_all add: q_def [symmetric])
    qed
  next
    case (Cons t others)
    then have "q = w @ t # others" unfolding w_def by (metis takeWhile_dropWhile_id dropWhile_eq_drop)
    moreover have "is_runnable pool t"
      using Cons unfolding w_def by (metis (no_types, lifting) dropWhile_eq_drop dropWhile_eq_Cons_conv)
    ultimately show thesis using pick Cons by (intro take [of t w others]) (simp_all add: q_def [symmetric])
  qed
qed

text \<open>What a quantum leaves of the thread, and what it adds.\<close>

definition shared_quantum :: "vm_thread list \<Rightarrow> vm_thread \<Rightarrow> shared_state \<Rightarrow> vm_thread list \<Rightarrow> vm_thread \<Rightarrow> shared_state \<Rightarrow> bool" where
  "shared_quantum sp t s sp' t' s' \<longleftrightarrow> vt_id t' = vt_id t \<and> vt_blocked_at t' = vt_blocked_at t \<and>
    (vt_state t \<noteq> TS_Exited \<longrightarrow> vt_state t' \<noteq> TS_Exited) \<and> ss_progress s \<le> ss_progress s' \<and>
    (\<exists>new. sp' = sp @ new \<and> map vt_id new = ids_from (ss_next_thread_id s) (length new) \<and>
      ss_next_thread_id s' = ss_next_thread_id s + of_nat (length new) \<and> (\<forall>u \<in> set new. fresh u))"

lemma shared_quantum_same:
  assumes "vt_id t' = vt_id t" and "vt_blocked_at t' = vt_blocked_at t"
    and "vt_state t \<noteq> TS_Exited \<longrightarrow> vt_state t' \<noteq> TS_Exited" and "ss_progress s \<le> ss_progress s'" and "ss_next_thread_id s' = ss_next_thread_id s"
  shows "shared_quantum sp t s sp t' s'"
  using assms by (simp add: shared_quantum_def)

lemma shared_quantum_trans:
  assumes "shared_quantum sp t s sp' t' s'" and "shared_quantum sp' t' s' sp'' t'' s''"
  shows "shared_quantum sp t s sp'' t'' s''"
proof -
  obtain new new' where
    "sp' = sp @ new" "map vt_id new = ids_from (ss_next_thread_id s) (length new)"
    "ss_next_thread_id s' = ss_next_thread_id s + of_nat (length new)" "\<forall>u \<in> set new. fresh u"
    "sp'' = sp' @ new'" "map vt_id new' = ids_from (ss_next_thread_id s') (length new')"
    "ss_next_thread_id s'' = ss_next_thread_id s' + of_nat (length new')" "\<forall>u \<in> set new'. fresh u"
    using assms unfolding shared_quantum_def by blast
  then have "sp'' = sp @ (new @ new')" "map vt_id (new @ new') = ids_from (ss_next_thread_id s) (length (new @ new'))"
    "ss_next_thread_id s'' = ss_next_thread_id s + of_nat (length (new @ new'))" "\<forall>u \<in> set (new @ new'). fresh u"
    by (auto simp: ids_from_add add.assoc)
  moreover have "vt_id t'' = vt_id t" "vt_blocked_at t'' = vt_blocked_at t" "ss_progress s \<le> ss_progress s''"
    "vt_state t \<noteq> TS_Exited \<longrightarrow> vt_state t'' \<noteq> TS_Exited"
    using assms by (simp_all add: shared_quantum_def)
  ultimately show ?thesis unfolding shared_quantum_def by blast
qed

lemma adopt_children_new:
  "adopt_children cs s = (new, s') \<Longrightarrow> map vt_id new = ids_from (ss_next_thread_id s) (length new) \<and>
    ss_next_thread_id s' = ss_next_thread_id s + of_nat (length new) \<and> ss_progress s' = ss_progress s \<and>
    (\<forall>u \<in> set new. fresh u)"
proof (induction cs arbitrary: s new)
  case Nil
  then show ?case by simp
next
  case (Cons c cs)
  then obtain new2 where "adopt_children cs (s\<lparr>ss_next_thread_id := ss_next_thread_id s + 1\<rparr>) = (new2, s')"
    "new = from_suspended (ss_next_thread_id s) c # new2"
    by (auto split: prod.splits)
  with Cons.IH [OF this(1)] show ?case
    by (auto simp: ids_from_Suc from_suspended_def fresh_def seen_by_def ac_simps split: option.split)
qed

lemma resolve_keeps:
  "resolve_for_thread inst t = (r, t') \<Longrightarrow> vt_id t' = vt_id t \<and> vt_blocked_at t' = vt_blocked_at t \<and>
    vt_state t' = vt_state t"
  by (auto simp: resolve_for_thread_def Let_def split: sum.splits)

lemma quanta_shared:
  "run_thread_quanta_shared nested hst n executed sp t s = Some (r, s', t', sp') \<Longrightarrow>
    shared_quantum sp t s sp' t' s'"
proof (induction n arbitrary: executed sp t s)
  case 0
  then show ?case by (auto intro: shared_quantum_same)
next
  case (Suc n)
  show ?case
  proof (cases "vt_halted t \<or> shared_code s t = None")
    case True
    with Suc.prems show ?thesis by (cases "vt_halted t") (auto intro: shared_quantum_same)
  next
    case False
    then obtain inst where inst: "shared_code s t = Some inst" by blast
    obtain r1 t1 where t1: "resolve_for_thread inst t = (r1, t1)" by fastforce
    show ?thesis
    proof (cases r1)
      case (Inl e)
      then have "shared_quantum sp t s sp t1 s" using resolve_keeps [OF t1] by (intro shared_quantum_same) simp_all
      with Suc.prems False inst t1 Inl show ?thesis by auto
    next
      case (Inr u)
      then obtain r2 vm where d: "dispatch nested hst inst (vm_of_shared s t1) = Some (r2, vm)"
        using Suc.prems False inst t1 by (auto split: option.splits)
      obtain new s2 where a: "adopt_children (vm_thread_queue vm) (with_vm vm s) = (new, s2)" by fastforce
      have adopted: "shared_quantum sp t s (sp @ new) (move_back vm t1) s2"
        using adopt_children_new [OF a] resolve_keeps [OF t1]
        by (simp add: shared_quantum_def with_vm_def move_back_def)
      have blocked: "shared_quantum sp t s (sp @ new) (move_back vm t1\<lparr>vt_state := TS_Blocked c\<rparr>) s2" for c
        using shared_quantum_trans [OF adopted shared_quantum_same] by simp
      have goes_on: "shared_quantum sp t s (sp @ new) (move_back vm t1\<lparr>vt_pc := pc\<rparr>) (s2\<lparr>ss_progress := ss_progress s2 + 1\<rparr>)"
        for pc
        using shared_quantum_trans [OF adopted shared_quantum_same] by simp
      show ?thesis
      proof (cases "r2 = Inr () \<and> vm_blocked_channel vm = None")
        case True
        with Suc.prems False inst t1 Inr d a
        have "run_thread_quanta_shared nested hst n (executed + 1) (sp @ new)
          (move_back vm t1\<lparr>vt_pc := vt_next_pc (move_back vm t1)\<rparr>) (s2\<lparr>ss_progress := ss_progress s2 + 1\<rparr>) =
          Some (r, s', t', sp')" by (simp add: Let_def)
        from shared_quantum_trans [OF goes_on Suc.IH [OF this]] show ?thesis .
      next
        case stopped: False
        with Suc.prems False inst t1 Inr d a adopted blocked show ?thesis
          by (cases r2) (auto simp: Let_def split: option.splits)
      qed
    qed
  qed
qed

lemma seen_by_mono: "seen_by m t \<Longrightarrow> m \<le> n \<Longrightarrow> seen_by n t"
  by (simp add: seen_by_def)

lemma seen_after: "vt_blocked_at t \<le> n \<Longrightarrow> seen_by n (state_after n t)"
  by (auto simp: seen_by_def state_after_def is_blocked_def split: thread_state.splits)

lemma in_update: "w \<in> set (ws[i := v]) \<Longrightarrow> w = v \<or> w \<in> set ws"
  using set_update_subset_insert by fastforce

lemma update_keeps: "w \<in> set ws \<Longrightarrow> i < length ws \<Longrightarrow> w \<noteq> ws ! i \<Longrightarrow> w \<in> set (ws[i := v])"
  by (metis in_set_conv_nth length_list_update nth_list_update_neq)

text \<open>The pool counts the busy workers, and only while one is busy does another sleep.\<close>

definition counts_ok :: "pool_system \<Rightarrow> bool" where
  "counts_ok s \<longleftrightarrow> tp_running (ps_pool s) = length (filter busy (ps_workers s)) \<and>
    (W_Waiting \<in> set (ps_workers s) \<longrightarrow> 0 < tp_running (ps_pool s))"

text \<open>
  The progress of the machine is what the pool has seen or what a worker is about to tell it, and no
  thread waits for later progress than the pool has seen.
\<close>

definition worker_ok :: "nat \<Rightarrow> worker \<Rightarrow> bool" where
  "worker_ok n w \<longleftrightarrow> (\<forall>e \<in> epochs w. e \<le> n) \<and> (\<forall>t \<in> set (held w). vt_blocked_at t \<le> n \<and> vt_state t \<noteq> TS_Exited) \<and>
    (case w of W_Returning r e t ts \<Rightarrow> vt_blocked_at t \<le> e \<and> (\<forall>u \<in> set ts. fresh u) | _ \<Rightarrow> True)"

definition progress_ok :: "pool_system \<Rightarrow> bool" where
  "progress_ok s \<longleftrightarrow> tp_progress (ps_pool s) \<le> ss_progress (ps_shared s) \<and>
    (\<forall>w \<in> set (ps_workers s). worker_ok (ss_progress (ps_shared s)) w) \<and>
    (tp_progress (ps_pool s) = ss_progress (ps_shared s) \<or>
      (\<exists>w \<in> set (ps_workers s). ss_progress (ps_shared s) \<in> epochs w)) \<and>
    (\<forall>t \<in> set (tp_queue (ps_pool s)). seen_by (tp_progress (ps_pool s)) t)"

lemma worker_ok_mono: "worker_ok m w \<Longrightarrow> m \<le> n \<Longrightarrow> worker_ok n w"
  by (fastforce simp: worker_ok_def)

lemma worker_ok_simps [simp]:
  "worker_ok n W_Picking" "worker_ok n W_Waiting" "worker_ok n (W_Done d)"
  "worker_ok n (W_Holding t) \<longleftrightarrow> vt_blocked_at t \<le> n \<and> vt_state t \<noteq> TS_Exited" "worker_ok n (wake w) = worker_ok n w"
  by (auto simp: worker_ok_def wake_def split: worker.split)

lemma busy_replaced:
  assumes "i < length ws" and "busy (ws ! i)" and "\<not> busy w"
  shows "length (filter busy (ws[i := w])) = length (filter busy ws) - 1" "0 < length (filter busy ws)"
proof -
  have "length (filter busy (ws[i := w])) + 1 = length (filter busy ws)"
    using busy_count [of i ws w] assms by simp
  then show "length (filter busy (ws[i := w])) = length (filter busy ws) - 1" "0 < length (filter busy ws)"
    by linarith+
qed

lemma busy_kept:
  assumes "i < length ws" and "busy (ws ! i) = busy w"
  shows "length (filter busy (ws[i := w])) = length (filter busy ws)"
  using busy_count [of i ws w] assms by (simp split: if_splits)

lemma busy_added:
  assumes "i < length ws" and "\<not> busy (ws ! i)" and "busy w"
  shows "length (filter busy (ws[i := w])) = length (filter busy ws) + 1"
  using busy_count [of i ws w] assms by simp

lemma no_waiting: "W_Waiting \<notin> set (map wake ws)"
  by (auto simp: image_iff) (metis wake_simps(4))

lemma step_counts:
  assumes "pool_step nested hst s s'" and "counts_ok s"
  shows "counts_ok s'"
  using assms
proof (induction rule: pool_step.induct)
  case (pick i s p pool)
  note b = busy_count [OF pick(1)]
  from pick(3) show ?case
  proof (cases rule: pick_cases)
    case stop
    with pick show ?thesis
      by (auto simp: counts_ok_def picked_def busy_kept dest: in_update)
  next
    case (take before t after)
    with pick show ?thesis by (auto simp: counts_ok_def picked_def busy_added)
  next
    case deadlock
    with pick show ?thesis
      using no_waiting [of "ps_workers s"]
      by (auto simp: counts_ok_def picked_def busy_kept wake_def simp del: set_map dest!: in_update)
  next
    case wait
    with pick show ?thesis by (auto simp: counts_ok_def picked_def busy_kept)
  qed
next
  case (awake i s)
  then show ?case by (auto simp: counts_ok_def busy_kept dest: in_update)
next
  case (run i s t r shared t' spawned)
  then show ?case by (auto simp: counts_ok_def busy_kept dest: in_update)
next
  case (give_back i s r epoch t spawned)
  have "\<not> busy (returned r)" "returned r \<noteq> W_Waiting" by (simp_all add: returned_def split: sum.split)
  moreover have "busy (map wake (ps_workers s) ! i)" using give_back by simp
  ultimately show ?case
    using give_back no_waiting [of "ps_workers s"] busy_replaced [of i "map wake (ps_workers s)" "returned r"]
    by (auto simp: counts_ok_def return_thread_def simp del: set_map dest!: in_update)
qed

lemma told_kept:
  assumes "m = n \<or> (\<exists>w \<in> set ws. n \<in> epochs w)" and "n \<notin> epochs (ws ! i)"
  shows "m = n \<or> (\<exists>w \<in> set (ws[i := v]). n \<in> epochs w)"
    and "m = n \<or> (\<exists>w \<in> set ((map wake ws)[i := v]). n \<in> epochs w)"
proof -
  have kept: "\<exists>w \<in> set (ws[i := v]). n \<in> epochs w"
    if here: "\<exists>w \<in> set ws. n \<in> epochs w" "n \<notin> epochs (ws ! i)" for ws
  proof -
    obtain k where k: "k < length ws" "n \<in> epochs (ws ! k)" using here(1) by (metis in_set_conv_nth)
    with here(2) have "(ws[i := v]) ! k = ws ! k" by (metis nth_list_update_neq)
    with k show ?thesis by (metis length_list_update nth_mem)
  qed
  have out: "n \<notin> epochs (map wake ws ! i) \<or> length ws \<le> i" using assms(2) by (cases "i < length ws") simp_all
  show "m = n \<or> (\<exists>w \<in> set (ws[i := v]). n \<in> epochs w)" using assms kept [of ws] by blast
  have "\<exists>w \<in> set ((map wake ws)[i := v]). n \<in> epochs w" if "\<exists>w \<in> set ws. n \<in> epochs w"
    using out
  proof
    assume "n \<notin> epochs (map wake ws ! i)"
    with that show ?thesis by (intro kept) simp_all
  next
    assume "length ws \<le> i"
    then have "(map wake ws)[i := v] = map wake ws" by (intro list_update_beyond) simp
    with that show ?thesis by simp
  qed
  with assms(1) show "m = n \<or> (\<exists>w \<in> set ((map wake ws)[i := v]). n \<in> epochs w)" by blast
qed

lemma step_progress:
  assumes "pool_step nested hst s s'" and "progress_ok s"
  shows "progress_ok s'"
  using assms
proof (induction rule: pool_step.induct)
  case (pick i s p pool)
  let ?n = "ss_progress (ps_shared s)"
  have ok: "tp_progress (ps_pool s) \<le> ?n" "\<forall>w \<in> set (ps_workers s). worker_ok ?n w"
    "tp_progress (ps_pool s) = ?n \<or> (\<exists>w \<in> set (ps_workers s). ?n \<in> epochs w)"
    "\<forall>t \<in> set (tp_queue (ps_pool s)). seen_by (tp_progress (ps_pool s)) t"
    using pick(4) by (simp_all add: progress_ok_def)
  have "?n \<notin> epochs (ps_workers s ! i)" using pick(2) by simp
  note told = told_kept [OF ok(3) this]
  from pick(3) show ?case
  proof (cases rule: pick_cases)
    case stop
    then have "\<forall>t \<in> set (tp_queue pool). seen_by (tp_progress pool) t" using ok(4) by auto
    with stop ok told(1) show ?thesis by (auto simp: progress_ok_def picked_def dest: in_update)
  next
    case (take before t after)
    then have "set (before @ t # after) \<subseteq> set (tp_queue (ps_pool s))"
      by (metis filter_is_subset)
    then have "\<forall>u \<in> insert t (set (before @ after)). seen_by (tp_progress (ps_pool s)) u" using ok(4) by auto
    moreover from this have "vt_blocked_at t \<le> ?n" using ok(1) by (auto simp: seen_by_def)
    ultimately show ?thesis
      using take ok told(1) by (auto simp: progress_ok_def picked_def dest: in_update)
  next
    case deadlock
    with ok told(2) show ?thesis by (auto simp: progress_ok_def picked_def dest!: in_update)
  next
    case wait
    with ok told(1) show ?thesis by (auto simp: progress_ok_def picked_def dest: in_update)
  qed
next
  case (awake i s)
  then have "ss_progress (ps_shared s) \<notin> epochs (ps_workers s ! i)" by simp
  with awake told_kept(1) [OF _ this] show ?case by (auto simp: progress_ok_def dest: in_update)
next
  case (run i s t r shared t' spawned)
  have q: "shared_quantum [] t (ps_shared s) spawned t' shared" by (rule quanta_shared [OF run(3)])
  have "vt_blocked_at t \<le> ss_progress (ps_shared s) \<and> vt_state t \<noteq> TS_Exited"
    using run(2,4) nth_mem [OF run(1)] by (auto simp: progress_ok_def)
  then have at: "vt_blocked_at t' \<le> ss_progress shared" "vt_state t' \<noteq> TS_Exited"
    using q by (auto simp: shared_quantum_def)
  have new: "\<forall>u \<in> set spawned. fresh u" using q by (auto simp: shared_quantum_def)
  have more: "ss_progress (ps_shared s) \<le> ss_progress shared" using q by (simp add: shared_quantum_def)
  let ?w = "W_Returning r (ss_progress shared) t' spawned"
  have "worker_ok (ss_progress shared) ?w"
    using at new by (auto simp: worker_ok_def fresh_def seen_by_def)
  then have workers: "\<forall>w \<in> set ((ps_workers s)[i := ?w]). worker_ok (ss_progress shared) w"
    using run(4) more by (auto simp: progress_ok_def intro: worker_ok_mono dest!: in_update)
  have "?w \<in> set ((ps_workers s)[i := ?w])" using run(1) by (rule set_update_memI)
  then have told: "\<exists>w \<in> set ((ps_workers s)[i := ?w]). ss_progress shared \<in> epochs w" by (rule bexI [rotated]) simp
  have "tp_progress (ps_pool s) \<le> ss_progress shared"
    using run(4) more by (simp add: progress_ok_def)
  with workers told run(4) show ?case by (simp add: progress_ok_def)
next
  case (give_back i s r epoch t spawned)
  let ?n = "ss_progress (ps_shared s)" and ?w = "W_Returning r epoch t spawned"
  have w: "?w \<in> set (ps_workers s)" using give_back(1,2) nth_mem by metis
  then have ok: "worker_ok ?n ?w" using give_back(3) by (auto simp: progress_ok_def)
  have e: "epoch \<le> ?n" "vt_blocked_at t \<le> epoch" "\<forall>u \<in> set spawned. fresh u"
    using ok by (auto simp: worker_ok_def)
  let ?m = "max (tp_progress (ps_pool s)) epoch"
  have le: "?m \<le> ?n" using e(1) give_back(3) by (simp add: progress_ok_def)
  have "vt_blocked_at t \<le> ?m \<Longrightarrow> seen_by ?m (state_after epoch t)"
    by (auto simp: seen_by_def state_after_def is_blocked_def split: thread_state.splits)
  then have queue: "\<forall>u \<in> set (tp_queue (ps_pool s) @ state_after epoch t # spawned). seen_by ?m u"
    using e give_back(3) by (fastforce simp: progress_ok_def fresh_def intro: seen_by_mono)
  have workers: "\<forall>v \<in> set ((map wake (ps_workers s))[i := returned r]). worker_ok ?n v"
    using give_back(3) by (auto simp: progress_ok_def returned_def split: sum.splits dest!: in_update)
  have told: "?m = ?n \<or> (\<exists>v \<in> set ((map wake (ps_workers s))[i := returned r]). ?n \<in> epochs v)"
  proof (cases "?m = ?n")
    case False
    then have "tp_progress (ps_pool s) = ?n \<or> (\<exists>v \<in> set (ps_workers s). ?n \<in> epochs v)"
      and "?n \<notin> epochs (ps_workers s ! i)" and "tp_progress (ps_pool s) \<noteq> ?n"
      using give_back le e(1) by (auto simp: progress_ok_def max_def split: if_splits)
    then show ?thesis using told_kept(2) by blast
  qed simp
  from le queue workers told show ?case by (simp add: progress_ok_def return_thread_def)
qed

text \<open>The threads of a system: those in the queue that have not exited, and those in hands of workers.\<close>

definition live_threads :: "pool_system \<Rightarrow> vm_thread list" where
  "live_threads s =
    filter (\<lambda>t. vt_state t \<noteq> TS_Exited) (tp_queue (ps_pool s)) @ concat (map held (ps_workers s))"

lemma held_replaced:
  assumes "i < length ws"
  shows "mset (map vt_id (concat (map held (ws[i := w])))) + mset (map vt_id (held (ws ! i))) =
    mset (map vt_id (concat (map held ws))) + mset (map vt_id (held w))"
proof -
  have ws: "ws = take i ws @ ws ! i # drop (Suc i) ws" using assms by (rule id_take_nth_drop)
  have "ws[i := w] = take i ws @ w # drop (Suc i) ws" using assms by (rule upd_conv_take_nth_drop)
  then have "mset (map vt_id (concat (map held (ws[i := w])))) + mset (map vt_id (held (ws ! i))) =
    mset (map vt_id (concat (map held (take i ws @ ws ! i # drop (Suc i) ws)))) + mset (map vt_id (held w))"
    by (simp add: ac_simps)
  then show ?thesis using ws by simp
qed

lemma held_wake [simp]: "held \<circ> wake = held"
  by (simp add: fun_eq_iff)

definition pool_moves :: "u32 list \<Rightarrow> vm_thread list \<Rightarrow> pool_system \<Rightarrow> pool_system \<Rightarrow> bool" where
  "pool_moves new ended s s' \<longleftrightarrow> come_and_go new ended (live_threads s) (live_threads s')"

lemma pool_movesI:
  assumes "\<forall>t \<in> set ended. vt_halted t"
    and "mset (map vt_id (filter (\<lambda>t. vt_state t \<noteq> TS_Exited) (tp_queue (ps_pool s)))) +
      mset (map vt_id (concat (map held (ps_workers s)))) + mset new =
      mset (map vt_id (filter (\<lambda>t. vt_state t \<noteq> TS_Exited) (tp_queue (ps_pool s')))) +
      mset (map vt_id (concat (map held (ps_workers s')))) + mset (map vt_id ended)"
  shows "pool_moves new ended s s'"
  using assms by (simp add: pool_moves_def come_and_go_def live_threads_def)

lemma step_moves:
  assumes "pool_step nested hst s s'" and "progress_ok s"
  shows "\<exists>m ended. pool_moves (ids_from (ss_next_thread_id (ps_shared s)) m) ended s s' \<and>
    ss_next_thread_id (ps_shared s') = ss_next_thread_id (ps_shared s) + of_nat m"
  using assms
proof (induction rule: pool_step.induct)
  case (pick i s p pool)
  have "pool_moves [] [] s (s\<lparr>ps_pool := pool, ps_workers := picked p i (ps_workers s)\<rparr>)"
    using pick(3)
  proof (cases rule: pick_cases)
    case stop
    then have "filter (\<lambda>t. vt_state t \<noteq> TS_Exited) (tp_queue pool) =
      filter (\<lambda>t. vt_state t \<noteq> TS_Exited) (tp_queue (ps_pool s))" by auto
    with stop pick held_replaced [OF pick(1), of "W_Done (Inr ())"] show ?thesis
      by (intro pool_movesI) (simp_all add: picked_def)
  next
    case (take before t after)
    have "vt_state u \<noteq> TS_Exited" if "u \<in> set (before @ after)" for u
      using arg_cong [OF take(3), of set] that by auto
    then have "filter (\<lambda>t. vt_state t \<noteq> TS_Exited) (before @ after) = before @ after" by simp
    with pick take held_replaced [OF pick(1), of "W_Holding (t\<lparr>vt_state := TS_Running\<rparr>)"] show ?thesis
      by (intro pool_movesI) (simp_all add: picked_def ac_simps)
  next
    case deadlock
    have "i < length (map wake (ps_workers s))" using pick(1) by simp
    with pick deadlock held_replaced [OF this, of "W_Done (Inl deadlock_fault)"] show ?thesis
      by (intro pool_movesI) (simp_all add: picked_def)
  next
    case wait
    with pick held_replaced [OF pick(1), of W_Waiting] show ?thesis
      by (intro pool_movesI) (simp_all add: picked_def)
  qed
  then show ?case by (intro exI [of _ 0] exI [of _ "[]"]) simp
next
  case (awake i s)
  with held_replaced [OF awake(1), of W_Picking]
  have "pool_moves [] [] s (s\<lparr>ps_workers := (ps_workers s)[i := W_Picking]\<rparr>)"
    by (intro pool_movesI) simp_all
  then show ?case by (intro exI [of _ 0] exI [of _ "[]"]) simp
next
  case (run i s t r shared t' spawned)
  have q: "vt_id t' = vt_id t" "map vt_id spawned = ids_from (ss_next_thread_id (ps_shared s)) (length spawned)"
    "ss_next_thread_id shared = ss_next_thread_id (ps_shared s) + of_nat (length spawned)"
    using quanta_shared [OF run(3)] by (auto simp: shared_quantum_def)
  from run q held_replaced [OF run(1), of "W_Returning r (ss_progress shared) t' spawned"]
  have "pool_moves (map vt_id spawned) [] s (s\<lparr>ps_shared := shared,
      ps_workers := (ps_workers s)[i := W_Returning r (ss_progress shared) t' spawned]\<rparr>)"
    by (intro pool_movesI) (simp_all add: ac_simps)
  with q show ?case by auto
next
  case (give_back i s r epoch t spawned)
  have "i < length (map wake (ps_workers s))" using give_back(1) by simp
  note h = held_replaced [OF this, of "returned r"]
  have none: "held (returned r) = []" by (simp add: returned_def split: sum.split)
  have "worker_ok (ss_progress (ps_shared s)) (ps_workers s ! i)"
    using give_back(1,3) nth_mem by (metis progress_ok_def)
  then have ok: "vt_state t \<noteq> TS_Exited" "\<forall>u \<in> set spawned. vt_state u \<noteq> TS_Exited"
    using give_back(2) by (auto simp: worker_ok_def)
  then have kept: "vt_state (state_after epoch t) = TS_Exited \<longleftrightarrow> vt_halted t"
    "filter (\<lambda>t. vt_state t \<noteq> TS_Exited) spawned = spawned"
    by (auto simp: state_after_def is_blocked_def)
  have same: "vt_id (state_after epoch t) = vt_id t" by (simp add: state_after_def)
  let ?ws = "(map wake (ps_workers s))[i := returned r]" and ?q = "tp_queue (ps_pool s)"
  have "mset (map vt_id (concat (map held (ps_workers s)))) =
      mset (map vt_id (concat (map held ?ws))) + add_mset (vt_id t) (mset (map vt_id spawned))"
    using h by (simp add: give_back(1,2) none)
  moreover have "mset (map vt_id (filter (\<lambda>t. vt_state t \<noteq> TS_Exited) (?q @ state_after epoch t # spawned))) +
      mset (map vt_id (if vt_halted t then [t] else [])) =
      mset (map vt_id (filter (\<lambda>t. vt_state t \<noteq> TS_Exited) ?q)) + add_mset (vt_id t) (mset (map vt_id spawned))"
    by (simp add: kept same)
  ultimately have "pool_moves [] (if vt_halted t then [t] else []) s
      (s\<lparr>ps_pool := return_thread epoch t spawned (ps_pool s), ps_workers := ?ws\<rparr>)"
    by (intro pool_movesI) (simp_all only: return_thread_def pool_system.simps thread_pool.simps ac_simps
        list.set if_split empty_iff ball_simps simp_thms mset.simps list.map add_0 add_0_right, auto)
  then show ?case by (intro exI [of _ 0] exI [of _ "if vt_halted t then [t] else []"]) simp
qed

text \<open>The systems a run of the pool goes through, from threads in the queue and workers that look for one.\<close>

definition pool_start :: "pool_system \<Rightarrow> bool" where
  "pool_start s \<longleftrightarrow> ps_workers s = replicate (length (ps_workers s)) W_Picking \<and>
    tp_running (ps_pool s) = 0 \<and> tp_progress (ps_pool s) = ss_progress (ps_shared s) \<and>
    list_all fresh (tp_queue (ps_pool s))"

lemma start_ok:
  assumes "pool_start s"
  shows "counts_ok s" and "progress_ok s"
proof -
  have ws: "w = W_Picking" if "w \<in> set (ps_workers s)" for w
    using assms that by (metis in_set_replicate pool_start_def)
  then have "\<not> busy w" if "w \<in> set (ps_workers s)" for w using that by (metis busy_simps(3))
  then have "filter busy (ps_workers s) = []" by (simp add: filter_empty_conv)
  with assms ws show "counts_ok s" by (auto simp: counts_ok_def pool_start_def)
  have "worker_ok n w" if "w \<in> set (ps_workers s)" for w n using ws [OF that] by simp
  with assms show "progress_ok s"
    by (auto simp: progress_ok_def pool_start_def list_all_iff fresh_def seen_by_def)
qed

lemma run_ok:
  assumes "(pool_step nested hst)\<^sup>*\<^sup>* s s'" and "pool_start s"
  shows "counts_ok s' \<and> progress_ok s'"
  using assms by (induction rule: rtranclp_induct) (auto simp: start_ok intro: step_counts step_progress)

definition can_act :: "worker \<Rightarrow> bool" where
  "can_act w \<longleftrightarrow> w = W_Picking \<or> busy w"


definition one_worker :: "vm_thread \<Rightarrow> pool_system" where
  "one_worker t = pool_add_thread t (preemptive_new blank_module heap_new False 1)"

lemma one_worker_start: "fresh t \<Longrightarrow> pool_start (one_worker t)"
  by (simp add: one_worker_def pool_add_thread_def preemptive_new_def thread_pool_new_def pool_start_def)

definition ready_thread :: vm_thread where
  "ready_thread = vm_thread_new 7 frame_stack_new [] 0"




text \<open>A thread whose instruction failed is put back as a ready one, and other workers run it again.\<close>

lemma failed_thread_goes_back:
  assumes "vt_state t = TS_Running" and "\<not> vt_halted t"
  shows "t\<lparr>vt_state := TS_Ready\<rparr> \<in> set (tp_queue (return_thread epoch t spawned pool)) \<and>
    is_runnable pool' (t\<lparr>vt_state := TS_Ready\<rparr>)"
  using assms by (simp add: return_thread_def state_after_def is_runnable_def)

end
