(* ===== verification/Symtab.thy ===== *)
theory Symtab
  imports Ast "HOL-Library.AList"
begin

text \<open>
  The symbol table of the compiler (\<open>crates/ricevm-limbo/src/symtab.rs\<close>): resolved types, constants
  and what the interfaces of included modules declare. A \<open>HashMap\<close> is the list of its entries, one
  for a key; nothing of the compiler depends on their order, since it sorts wherever it goes through
  the entries of a map and the order could be seen.
\<close>

section \<open>Maps\<close>

type_synonym 'a hash_map = "(rstring \<times> 'a) list"

definition hm_get :: "'a hash_map \<Rightarrow> rstring \<Rightarrow> 'a option" where
  "hm_get m k = map_of m k"

definition hm_contains :: "'a hash_map \<Rightarrow> rstring \<Rightarrow> bool" where
  "hm_contains m k \<longleftrightarrow> hm_get m k \<noteq> None"

definition hm_insert :: "rstring \<Rightarrow> 'a \<Rightarrow> 'a hash_map \<Rightarrow> 'a hash_map" where
  "hm_insert k v m = AList.update k v m"

definition hm_remove :: "rstring \<Rightarrow> 'a hash_map \<Rightarrow> 'a hash_map" where
  "hm_remove k m = AList.delete k m"

text \<open>\<open>collect\<close> into a map, and \<open>entry(k).or_insert_with\<close>.\<close>

definition hm_collect :: "(rstring \<times> 'a) list \<Rightarrow> 'a hash_map" where
  "hm_collect xs = fold (\<lambda>(k, v). hm_insert k v) xs []"

definition hm_or_insert :: "rstring \<Rightarrow> 'a \<Rightarrow> 'a hash_map \<Rightarrow> 'a hash_map" where
  "hm_or_insert k v m = (if hm_contains m k then m else hm_insert k v m)"

lemma hm_get_insert [simp]: "hm_get (hm_insert k v m) k' = (if k' = k then Some v else hm_get m k')"
  by (simp add: hm_get_def hm_insert_def update_conv')

lemma hm_get_remove [simp]: "hm_get (hm_remove k m) k' = (if k' = k then None else hm_get m k')"
  by (simp add: hm_get_def hm_remove_def delete_conv')

lemma hm_get_Nil [simp]: "hm_get [] k = None"
  by (simp add: hm_get_def)

lemma hm_get_or_insert:
  "hm_get (hm_or_insert k v m) k' = (case hm_get m k' of None \<Rightarrow> (if k' = k then Some v else None) | x \<Rightarrow> x)"
  by (auto simp: hm_or_insert_def hm_contains_def split: option.split)

section \<open>Resolved types\<close>

text \<open>\<open>struct FnType\<close>, over the types it contains.\<close>

datatype (plugins only: code) 't fn_type =
  FnType (ft_params: "(rstring \<times> 't) list") (ft_ret: "'t option")

datatype (plugins only: code) resolved_type =
    RT_Int
  | RT_Byte
  | RT_Big
  | RT_Real
  | RT_String
  | RT_Array resolved_type
  | RT_List resolved_type
  | RT_Chan resolved_type
  | RT_Ref resolved_type
  | RT_Tuple "resolved_type list"
  | RT_Adt rstring
  | RT_Module rstring
  | RT_Fn "resolved_type fn_type"
  | RT_Nil
  | RT_Unknown

definition rt_is_ptr :: "resolved_type \<Rightarrow> bool" where
  "rt_is_ptr ty = (case ty of
      RT_Int \<Rightarrow> False | RT_Byte \<Rightarrow> False | RT_Big \<Rightarrow> False | RT_Real \<Rightarrow> False | RT_Unknown \<Rightarrow> False
    | _ \<Rightarrow> True)"

definition rt_is_array :: "resolved_type \<Rightarrow> bool" where
  "rt_is_array ty = (case ty of RT_Array _ \<Rightarrow> True | _ \<Rightarrow> False)"

definition rt_frame_size :: "resolved_type \<Rightarrow> i32" where
  "rt_frame_size ty = (case ty of RT_Big \<Rightarrow> 8 | RT_Real \<Rightarrow> 8 | _ \<Rightarrow> 4)"

section \<open>Symbols\<close>

datatype const_value = CV_Int i64 | CV_Real f64_bits | CV_String rstring

datatype (plugins only: code) module_symbol =
    SYM_Var resolved_type
  | SYM_Const resolved_type const_value
  | SYM_Func "resolved_type fn_type"
  | SYM_Type resolved_type
  | SYM_Module rstring "(rstring \<times> module_symbol) list"
  | SYM_Opaque rstring

type_synonym adt = "(expr, ltype) adt_decl"

record symbol_table =
  stb_symbols :: "module_symbol hash_map"
  stb_modules :: "module_symbol hash_map hash_map"
  stb_adt_decls :: "adt hash_map hash_map"
  stb_include_paths :: "rstring list"

definition symbol_table_new :: symbol_table where
  "symbol_table_new = \<lparr>stb_symbols = [], stb_modules = [], stb_adt_decls = [], stb_include_paths = []\<rparr>"

definition add_include_path :: "rstring \<Rightarrow> symbol_table \<Rightarrow> symbol_table" where
  "add_include_path path st = st\<lparr>stb_include_paths := stb_include_paths st @ [path]\<rparr>"

definition lookup_symbol :: "symbol_table \<Rightarrow> rstring \<Rightarrow> module_symbol option" where
  "lookup_symbol st name = hm_get (stb_symbols st) name"

definition lookup_qualified :: "symbol_table \<Rightarrow> rstring \<Rightarrow> rstring \<Rightarrow> module_symbol option" where
  "lookup_qualified st module member = Option.bind (hm_get (stb_modules st) module) (\<lambda>m. hm_get m member)"

definition define_symbol :: "rstring \<Rightarrow> module_symbol \<Rightarrow> symbol_table \<Rightarrow> symbol_table" where
  "define_symbol name entry st = st\<lparr>stb_symbols := hm_insert name entry (stb_symbols st)\<rparr>"

definition register_module :: "rstring \<Rightarrow> module_symbol hash_map \<Rightarrow> symbol_table \<Rightarrow> symbol_table" where
  "register_module name members st = st\<lparr>stb_modules := hm_insert name members (stb_modules st)\<rparr>"

definition register_module_adts :: "rstring \<Rightarrow> adt hash_map \<Rightarrow> symbol_table \<Rightarrow> symbol_table" where
  "register_module_adts name adts st =
    (if adts = [] then st else st\<lparr>stb_adt_decls := hm_insert name adts (stb_adt_decls st)\<rparr>)"

definition resolve_module_type :: "symbol_table \<Rightarrow> rstring \<Rightarrow> rstring \<Rightarrow> resolved_type" where
  "resolve_module_type st module type_name =
    (case lookup_qualified st module type_name of
       Some (SYM_Type resolved) \<Rightarrow> resolved
     | _ \<Rightarrow> RT_Adt (module @ rstr ''.'' @ type_name))"

end
