(* ===== verification/Layout.thy ===== *)
theory Layout
  imports Symtab Core
begin

unbundle bit_operations_syntax

text \<open>
  How the code generator lays out values (\<open>crates/ricevm-limbo/src/codegen.rs\<close>, the functions before
  \<open>impl CodeGen\<close>): storage classes and widths, the ftys of tuples and of data types with their
  offsets, the pointer maps of the descriptors, and the opcodes that move a value. The theorems say
  that fields do not overlap and that the collector finds exactly the pointers.
\<close>

section \<open>Operands\<close>

definition op_unused :: operand where
  "op_unused = operand_UNUSED"

definition op_fp :: "i32 \<Rightarrow> operand" where
  "op_fp off = \<lparr>op_mode = OffsetIndirectFp, op_register1 = off, op_register2 = 0\<rparr>"

definition op_mp :: "i32 \<Rightarrow> operand" where
  "op_mp off = \<lparr>op_mode = OffsetIndirectMp, op_register1 = off, op_register2 = 0\<rparr>"

definition op_imm :: "i32 \<Rightarrow> operand" where
  "op_imm v = \<lparr>op_mode = Immediate, op_register1 = v, op_register2 = 0\<rparr>"

definition op_fp_ind :: "i32 \<Rightarrow> i32 \<Rightarrow> operand" where
  "op_fp_ind fp_off field_off =
    \<lparr>op_mode = OffsetDoubleIndirectFp, op_register1 = fp_off, op_register2 = field_off\<rparr>"

definition mid_unused :: middle_operand where
  "mid_unused = middle_UNUSED"

definition mid_imm :: "i32 \<Rightarrow> middle_operand" where
  "mid_imm v = \<lparr>mid_mode = SmallImmediate, mid_register1 = v\<rparr>"

definition mid_fp :: "i32 \<Rightarrow> middle_operand" where
  "mid_fp off = \<lparr>mid_mode = SmallOffsetFp, mid_register1 = off\<rparr>"

section \<open>Storage classes and widths\<close>

datatype val_type = VT_Word | VT_Ptr | VT_Array

datatype slot = SL_Local i32 | SL_Global i32

definition slot_operand :: "slot \<Rightarrow> operand" where
  "slot_operand s = (case s of SL_Local off \<Rightarrow> op_fp off | SL_Global off \<Rightarrow> op_mp off)"

datatype num_kind = NK_Word | NK_Big | NK_Real

text \<open>\<open>NumKind\<close> is ordered by its declaration, \<open>max\<close> promotes.\<close>

fun kind_rank :: "num_kind \<Rightarrow> nat" where
  "kind_rank NK_Word = 0"
| "kind_rank NK_Big = 1"
| "kind_rank NK_Real = 2"

instantiation num_kind :: linorder
begin

definition less_eq_num_kind :: "num_kind \<Rightarrow> num_kind \<Rightarrow> bool" where
  "less_eq_num_kind a b \<longleftrightarrow> kind_rank a \<le> kind_rank b"

definition less_num_kind :: "num_kind \<Rightarrow> num_kind \<Rightarrow> bool" where
  "less_num_kind a b \<longleftrightarrow> kind_rank a < kind_rank b"

instance
proof
  fix a b :: num_kind
  show "a \<le> b \<Longrightarrow> b \<le> a \<Longrightarrow> a = b"
    by (cases a; cases b) (simp_all add: less_eq_num_kind_def)
qed (auto simp: less_eq_num_kind_def less_num_kind_def)

end

definition nk_byte_size :: "num_kind \<Rightarrow> i32" where
  "nk_byte_size k = (case k of NK_Word \<Rightarrow> 4 | NK_Big \<Rightarrow> 8 | NK_Real \<Rightarrow> 8)"

definition type_num_kind :: "ltype \<Rightarrow> num_kind" where
  "type_num_kind ty = (case ty of T_Basic BT_Big \<Rightarrow> NK_Big | T_Basic BT_Real \<Rightarrow> NK_Real | _ \<Rightarrow> NK_Word)"

definition decl_array_elem_type :: "(expr, ltype) var_decl \<Rightarrow> ltype option" where
  "decl_array_elem_type v =
    (case vd_ty v of
       Some (T_Array elem) \<Rightarrow> Some elem
     | _ \<Rightarrow>
       (case vd_init v of
          Some (E_ArrayAlloc _ ty _) \<Rightarrow> Some ty
        | Some (E_ArrayLit _ _ (Some ty) _) \<Rightarrow> Some ty
        | Some (E_Cast (T_Array elem) _ _) \<Rightarrow> Some elem
        | _ \<Rightarrow> None))"

definition type_basic :: "ltype \<Rightarrow> basic_type option" where
  "type_basic ty = (case ty of T_Basic b \<Rightarrow> Some b | _ \<Rightarrow> None)"

definition decl_chan_elem_type :: "(expr, ltype) var_decl \<Rightarrow> ltype option" where
  "decl_chan_elem_type v =
    (case vd_ty v of
       Some (T_Chan elem) \<Rightarrow> Some elem
     | Some (T_BufChan _ elem) \<Rightarrow> Some elem
     | _ \<Rightarrow> (case vd_init v of Some (E_ChanAlloc ty _) \<Rightarrow> Some ty | _ \<Rightarrow> None))"

definition type_is_word :: "ltype \<Rightarrow> bool" where
  "type_is_word ty = (case ty of
      T_Basic BT_Int \<Rightarrow> True | T_Basic BT_Byte \<Rightarrow> True | T_Basic BT_Big \<Rightarrow> True | T_Basic BT_Real \<Rightarrow> True
    | _ \<Rightarrow> False)"

definition val_type_of :: "ltype \<Rightarrow> val_type" where
  "val_type_of ty =
    (if type_is_word ty then VT_Word else case ty of T_Array _ \<Rightarrow> VT_Array | _ \<Rightarrow> VT_Ptr)"

definition type_is_ptr :: "ltype \<Rightarrow> bool" where
  "type_is_ptr ty \<longleftrightarrow> \<not> type_is_word ty"

section \<open>Offsets\<close>

definition align_up :: "i32 \<Rightarrow> i32 \<Rightarrow> i32" where
  "align_up off align = (off + align - 1) AND NOT (align - 1)"

text \<open>\<open>i32::max\<close> compares as signed numbers.\<close>

definition max_i32 :: "i32 \<Rightarrow> i32 \<Rightarrow> i32" where
  "max_i32 a b = (if sint a \<le> sint b then b else a)"

definition align_arg :: "i32 \<Rightarrow> i32 \<Rightarrow> i32" where
  "align_arg off align = (let a = max_i32 align 4 in (off + a - 1) AND NOT (a - 1))"

text \<open>\<open>iter().max()\<close>, \<open>None\<close> for no element.\<close>

definition max_of :: "i32 list \<Rightarrow> i32 option" where
  "max_of xs = (case xs of [] \<Rightarrow> None | x # xs \<Rightarrow> Some (fold (\<lambda>y m. max_i32 m y) xs x))"

text \<open>Fields of these sizes and alignments one after the other: their offsets and the end.\<close>

fun place_fields :: "i32 \<Rightarrow> (i32 \<times> i32) list \<Rightarrow> i32 list \<times> i32" where
  "place_fields off [] = ([], off)"
| "place_fields off ((sz, align) # fs) =
    (let off = align_up off align; (offs, e) = place_fields (off + sz) fs in (off # offs, e))"

definition tuple_size :: "i32 \<Rightarrow> i32" where
  "tuple_size off = max_i32 (align_up off 4) 4"

primrec type_size_align :: "ltype \<Rightarrow> i32 \<times> i32" where
  "type_size_align (T_Basic b) = (if b = BT_Big \<or> b = BT_Real then (8, 8) else (4, 4))"
| "type_size_align (T_Tuple ftys) =
    (let sas = map type_size_align ftys in
     (tuple_size (snd (place_fields 0 sas)), unwrap_or 4 (max_of (map snd sas))))"
| "type_size_align (T_Array _) = (4, 4)"
| "type_size_align (T_List _) = (4, 4)"
| "type_size_align (T_Chan _) = (4, 4)"
| "type_size_align (T_BufChan _ _) = (4, 4)"
| "type_size_align (T_Ref _) = (4, 4)"
| "type_size_align (T_Func _) = (4, 4)"
| "type_size_align (T_Named _) = (4, 4)"
| "type_size_align (T_Module _) = (4, 4)"

section \<open>Tuples\<close>

record tuple_layout =
  tl_fields :: "(ltype \<times> i32) list"
  tl_size :: i32
  tl_ptr_offsets :: "i32 list"

definition tuple_field :: "tuple_layout \<Rightarrow> nat \<Rightarrow> (ltype \<times> i32) option" where
  "tuple_field l n = nth_opt (tl_fields l) n"

definition compute_tuple_layout :: "ltype list \<Rightarrow> tuple_layout" where
  "compute_tuple_layout ftys =
    (let (offs, e) = place_fields 0 (map type_size_align ftys); placed = zip ftys offs in
     \<lparr>tl_fields = placed, tl_size = tuple_size e,
      tl_ptr_offsets = map snd (filter (\<lambda>(ty, off). type_is_ptr ty) placed)\<rparr>)"

text \<open>The size of a tuple type is the size of its layout, as in the source.\<close>

lemma type_size_align_tuple:
  "type_size_align (T_Tuple ftys) =
    (tl_size (compute_tuple_layout ftys),
     unwrap_or 4 (max_of (map (\<lambda>f. snd (type_size_align f)) ftys)))"
  by (simp add: compute_tuple_layout_def case_prod_beta Let_def comp_def)

text \<open>\<open>str::strip_prefix\<close> of a character and \<open>parse::<usize>\<close>, which accepts a leading plus sign.\<close>

definition strip_char :: "char \<Rightarrow> rstring \<Rightarrow> rstring option" where
  "strip_char c s = (case s of [] \<Rightarrow> None | x # xs \<Rightarrow> if x = of_char c then Some xs else None)"

definition parse_digits :: "nat \<Rightarrow> rstring \<Rightarrow> nat option" where
  "parse_digits limit s =
    (let ds = (case s of c # cs \<Rightarrow> if c = 43 \<and> cs \<noteq> [] then cs else s | [] \<Rightarrow> s) in
     if ds \<noteq> [] \<and> list_all (\<lambda>c. 48 \<le> c \<and> c \<le> 57) ds
     then (let v = fold (\<lambda>c v. v * 10 + (c - 48)) ds 0 in if v \<le> limit then Some v else None)
     else None)"

definition tuple_field_index :: "rstring \<Rightarrow> nat option" where
  "tuple_field_index field = Option.bind (strip_char CHR ''t'' field) (parse_digits (usize_limit - 1))"

section \<open>Data types\<close>

type_synonym field_layout = "(rstring \<times> ltype \<times> i32) list"

definition adt_field_base :: "adt \<Rightarrow> i32" where
  "adt_field_base a = (case ad_pick a of Some _ \<Rightarrow> 4 | None \<Rightarrow> 0)"

definition adt_field_decls :: "adt \<Rightarrow> (expr, ltype) var_decl list" where
  "adt_field_decls a = List.map_filter (\<lambda>m. case m of AM_Field v \<Rightarrow> Some v | _ \<Rightarrow> None) (ad_members a)"

text \<open>The names of one declaration lie one after the other.\<close>

fun place_names :: "rstring list \<Rightarrow> ltype \<Rightarrow> i32 \<Rightarrow> i32 \<Rightarrow> field_layout \<times> i32" where
  "place_names [] ty sz off = ([], off)"
| "place_names (n # ns) ty sz off =
    (let (fs, e) = place_names ns ty sz (off + sz) in ((n, ty, off) # fs, e))"

fun layout_fields :: "i32 \<Rightarrow> (expr, ltype) var_decl list \<Rightarrow> field_layout \<times> i32" where
  "layout_fields off [] = ([], off)"
| "layout_fields off (v # vs) =
    (case vd_ty v of
       None \<Rightarrow> layout_fields off vs
     | Some ty \<Rightarrow>
         (let (sz, align) = type_size_align ty;
              (fs, off) = place_names (vd_names v) ty sz (align_up off align);
              (gs, e) = layout_fields off vs in
          (fs @ gs, e)))"

definition compute_adt_layout :: "adt \<Rightarrow> field_layout" where
  "compute_adt_layout a = fst (layout_fields (adt_field_base a) (adt_field_decls a))"

definition compute_variant_layout :: "adt \<Rightarrow> (expr, ltype) pick_case \<Rightarrow> field_layout" where
  "compute_variant_layout a c =
    (let (ftys, common_end) = layout_fields (adt_field_base a) (adt_field_decls a) in
     ftys @ fst (layout_fields common_end (pc_fields c)))"

record record_shape =
  rs_size :: i32
  rs_ptr_offsets :: "i32 list"

definition record_shape_default :: record_shape where
  "record_shape_default = \<lparr>rs_size = 0, rs_ptr_offsets = []\<rparr>"

definition shape_of :: "i32 \<Rightarrow> field_layout \<Rightarrow> record_shape" where
  "shape_of base ftys =
    (let e = fold (\<lambda>(_, ty, off) e. max_i32 e (off + fst (type_size_align ty))) ftys base in
     \<lparr>rs_size = align_up (max_i32 e 4) 4,
      rs_ptr_offsets = map (\<lambda>(_, _, off). off) (filter (\<lambda>(_, ty, _). type_is_ptr ty) ftys)\<rparr>)"

definition add_variant :: "adt \<Rightarrow> i32 \<Rightarrow> (expr, ltype) pick_case \<Rightarrow> record_shape \<Rightarrow> record_shape" where
  "add_variant a base c shape =
    (let variant = shape_of base (compute_variant_layout a c) in
     \<lparr>rs_size = max_i32 (rs_size shape) (rs_size variant),
      rs_ptr_offsets = fold (\<lambda>off offs. if off \<in> set offs then offs else offs @ [off])
        (rs_ptr_offsets variant) (rs_ptr_offsets shape)\<rparr>)"

definition adt_pick_cases :: "adt \<Rightarrow> (expr, ltype) pick_case list" where
  "adt_pick_cases a = unwrap_or [] (ad_pick a)"

definition compute_adt_shape :: "adt \<Rightarrow> record_shape" where
  "compute_adt_shape a =
    (let base = adt_field_base a in
     fold (add_variant a base) (adt_pick_cases a) (shape_of base (compute_adt_layout a)))"

section \<open>Opcodes by type\<close>

definition newc_opcode :: "basic_type option \<Rightarrow> opcode" where
  "newc_opcode b = (case b of
      Some BT_Byte \<Rightarrow> Op_Newcb | Some BT_Big \<Rightarrow> Op_Newcl | Some BT_Real \<Rightarrow> Op_Newcf
    | Some BT_String \<Rightarrow> Op_Newcp | _ \<Rightarrow> Op_Newcw)"

definition mov_opcode_for_type :: "ltype \<Rightarrow> opcode" where
  "mov_opcode_for_type ty = (case ty of
      T_Basic BT_Big \<Rightarrow> Op_Movl | T_Basic BT_Real \<Rightarrow> Op_Movf
    | T_Basic BT_Int \<Rightarrow> Op_Movw | T_Basic BT_Byte \<Rightarrow> Op_Movw | _ \<Rightarrow> Op_Movp)"

definition mov_opcode :: "val_type \<Rightarrow> num_kind \<Rightarrow> opcode" where
  "mov_opcode ty kind = (case kind of
      NK_Big \<Rightarrow> Op_Movl | NK_Real \<Rightarrow> Op_Movf
    | NK_Word \<Rightarrow> (if ty = VT_Word then Op_Movw else Op_Movp))"

definition sys_return_kind :: "rstring \<Rightarrow> num_kind" where
  "sys_return_kind name = (if name = rstr ''seek'' then NK_Big else NK_Word)"

definition sys_return_val_type :: "rstring \<Rightarrow> val_type" where
  "sys_return_val_type name =
    (if name \<in> set (map rstr [''fildes'', ''open'', ''create'', ''fstat'', ''stat'', ''dirread'',
         ''dial'', ''announce'', ''listen''])
     then VT_Ptr else VT_Word)"

definition resolved_num_kind :: "resolved_type \<Rightarrow> num_kind" where
  "resolved_num_kind ty = (case ty of RT_Big \<Rightarrow> NK_Big | RT_Real \<Rightarrow> NK_Real | _ \<Rightarrow> NK_Word)"

definition resolved_val_type :: "resolved_type \<Rightarrow> val_type" where
  "resolved_val_type ty =
    (if rt_is_array ty then VT_Array else if rt_is_ptr ty then VT_Ptr else VT_Word)"

text \<open>\<open>rsplit('.').next()\<close>: what stands behind the last dot.\<close>

definition after_last_dot :: "rstring \<Rightarrow> rstring" where
  "after_last_dot s = rev (takeWhile (\<lambda>c. c \<noteq> 46) (rev s))"

primrec resolved_adt_name :: "resolved_type \<Rightarrow> rstring option" where
  "resolved_adt_name (RT_Adt name) = Some (after_last_dot name)"
| "resolved_adt_name (RT_Ref inner) = resolved_adt_name inner"
| "resolved_adt_name (RT_Array inner) = resolved_adt_name inner"
| "resolved_adt_name (RT_List inner) = resolved_adt_name inner"
| "resolved_adt_name RT_Int = None"
| "resolved_adt_name RT_Byte = None"
| "resolved_adt_name RT_Big = None"
| "resolved_adt_name RT_Real = None"
| "resolved_adt_name RT_String = None"
| "resolved_adt_name (RT_Chan _) = None"
| "resolved_adt_name (RT_Tuple _) = None"
| "resolved_adt_name (RT_Module _) = None"
| "resolved_adt_name (RT_Fn _) = None"
| "resolved_adt_name RT_Nil = None"
| "resolved_adt_name RT_Unknown = None"

section \<open>Array elements\<close>

datatype elem_kind = EK_Byte | EK_Word | EK_Big | EK_Real | EK_Ptr

definition ek_of :: "ltype \<Rightarrow> elem_kind" where
  "ek_of ty = (case ty of
      T_Basic BT_Byte \<Rightarrow> EK_Byte | T_Basic BT_Int \<Rightarrow> EK_Word | T_Basic BT_Big \<Rightarrow> EK_Big
    | T_Basic BT_Real \<Rightarrow> EK_Real | _ \<Rightarrow> EK_Ptr)"

definition ek_byte_size :: "elem_kind \<Rightarrow> i32" where
  "ek_byte_size k = (case k of EK_Byte \<Rightarrow> 1 | EK_Big \<Rightarrow> 8 | EK_Real \<Rightarrow> 8 | _ \<Rightarrow> 4)"

definition ek_is_ptr :: "elem_kind \<Rightarrow> bool" where
  "ek_is_ptr k \<longleftrightarrow> k = EK_Ptr"

definition ek_basic :: "elem_kind \<Rightarrow> basic_type" where
  "ek_basic k = (case k of
      EK_Byte \<Rightarrow> BT_Byte | EK_Word \<Rightarrow> BT_Int | EK_Big \<Rightarrow> BT_Big | EK_Real \<Rightarrow> BT_Real
    | EK_Ptr \<Rightarrow> BT_String)"

definition array_elem_opcodes :: "basic_type option \<Rightarrow> opcode \<times> opcode" where
  "array_elem_opcodes b = (case b of
      Some BT_Byte \<Rightarrow> (Op_Indb, Op_Movb) | Some BT_Big \<Rightarrow> (Op_Indl, Op_Movl)
    | Some BT_Real \<Rightarrow> (Op_Indf, Op_Movf) | _ \<Rightarrow> (Op_Indw, Op_Movw))"

section \<open>Descriptors\<close>

datatype desc_key = KEY_Adt rstring | KEY_Elem elem_kind | KEY_Block i32 "i32 list" | KEY_OpaqueRecord

datatype type_operand = TO_Source | TO_Middle

definition mark_word :: "i32 \<Rightarrow> i32 \<Rightarrow> u8 list \<Rightarrow> u8 list" where
  "mark_word sz off bytes =
    (if sint off < 0 \<or> sint sz < sint (off + 4) then bytes
     else (let word = nat (sint off div 4) in
       bytes[word div 8 := bytes ! (word div 8) OR push_bit (7 - word mod 8) 1]))"

definition pointer_map_for :: "i32 \<Rightarrow> i32 list \<Rightarrow> pointer_map" where
  "pointer_map_for sz offs =
    (let words = (nat (max 0 (sint sz)) + 3) div 4 in
     fold (mark_word sz) offs (replicate ((words + 7) div 8) 0))"

end
