(* ===== verification/ConstFold.thy ===== *)
theory ConstFold
  imports Layout
begin

unbundle bit_operations_syntax

text \<open>
  Constants of the compiler (\<open>codegen.rs\<close>): folded values, \<open>fold_const_binary\<close>, the counter behind
  \<open>iota\<close> and constant expressions. Integers are \<open>i64\<close> that wrap, reals are computed as the machine
  computes them; the payload of a NaN is the parameter \<open>nan\<close>.
\<close>

section \<open>Values\<close>

datatype const_val = CO_Int i64 | CO_Real f64_bits | CO_Str rstring

definition const_to_symbol :: "const_val \<Rightarrow> const_value" where
  "const_to_symbol v = (case v of CO_Int i \<Rightarrow> CV_Int i | CO_Real r \<Rightarrow> CV_Real r | CO_Str s \<Rightarrow> CV_String s)"

definition const_of_symbol :: "const_value \<Rightarrow> const_val" where
  "const_of_symbol v = (case v of CV_Int i \<Rightarrow> CO_Int i | CV_Real r \<Rightarrow> CO_Real r | CV_String s \<Rightarrow> CO_Str s)"

text \<open>An \<open>i64\<close> outside the range of \<open>i32\<close>.\<close>

definition is_big_int :: "i64 \<Rightarrow> bool" where
  "is_big_int v \<longleftrightarrow> sint v > 2147483647 \<or> sint v < - 2147483648"

definition co_val_type :: "const_val \<Rightarrow> val_type" where
  "co_val_type v = (case v of CO_Str _ \<Rightarrow> VT_Ptr | _ \<Rightarrow> VT_Word)"

definition co_num_kind :: "const_val \<Rightarrow> num_kind" where
  "co_num_kind v = (case v of
      CO_Real _ \<Rightarrow> NK_Real | CO_Int i \<Rightarrow> (if is_big_int i then NK_Big else NK_Word) | CO_Str _ \<Rightarrow> NK_Word)"

definition const_word :: "const_val \<Rightarrow> i32" where
  "const_word v = (case v of CO_Int n \<Rightarrow> ucast n | CO_Real r \<Rightarrow> f64_as_signed r | CO_Str _ \<Rightarrow> 0)"

definition const_byte :: "const_val \<Rightarrow> u8" where
  "const_byte v = ucast (const_word v)"

definition const_big :: "const_val \<Rightarrow> i64" where
  "const_big v = (case v of CO_Int n \<Rightarrow> n | CO_Real r \<Rightarrow> f64_as_signed r | CO_Str _ \<Rightarrow> 0)"

definition const_real :: "const_val \<Rightarrow> f64_bits" where
  "const_real v = (case v of CO_Int n \<Rightarrow> f64_of_int (sint n) | CO_Real r \<Rightarrow> r | CO_Str _ \<Rightarrow> 0)"

definition ek_of_values :: "const_val list \<Rightarrow> elem_kind" where
  "ek_of_values vs =
    (if list_ex (\<lambda>v. case v of CO_Str _ \<Rightarrow> True | _ \<Rightarrow> False) vs then EK_Ptr
     else if list_ex (\<lambda>v. case v of CO_Real _ \<Rightarrow> True | _ \<Rightarrow> False) vs then EK_Real
     else EK_Word)"

definition is_byte_cast :: "expr \<Rightarrow> bool" where
  "is_byte_cast e = (case e of E_Cast (T_Basic BT_Byte) _ _ \<Rightarrow> True | _ \<Rightarrow> False)"

section \<open>Binary operations\<close>

text \<open>\<open>{op:?}\<close>.\<close>

definition debug_bin_op :: "bin_op \<Rightarrow> rstring" where
  "debug_bin_op op = rstr (case op of
      BO_Add \<Rightarrow> ''Add'' | BO_Sub \<Rightarrow> ''Sub'' | BO_Mul \<Rightarrow> ''Mul'' | BO_Div \<Rightarrow> ''Div'' | BO_Mod \<Rightarrow> ''Mod''
    | BO_Power \<Rightarrow> ''Power'' | BO_And \<Rightarrow> ''And'' | BO_Or \<Rightarrow> ''Or'' | BO_Xor \<Rightarrow> ''Xor''
    | BO_Lshift \<Rightarrow> ''Lshift'' | BO_Rshift \<Rightarrow> ''Rshift'' | BO_Eq \<Rightarrow> ''Eq'' | BO_Neq \<Rightarrow> ''Neq''
    | BO_Lt \<Rightarrow> ''Lt'' | BO_Gt \<Rightarrow> ''Gt'' | BO_Leq \<Rightarrow> ''Leq'' | BO_Geq \<Rightarrow> ''Geq''
    | BO_LogAnd \<Rightarrow> ''LogAnd'' | BO_LogOr \<Rightarrow> ''LogOr'')"

definition unsupported_const_op :: "rstring \<Rightarrow> rstring + const_val" where
  "unsupported_const_op op = Inl (rstr ''unsupported constant operator '' @ op)"

definition bool_i64 :: "bool \<Rightarrow> i64" where
  "bool_i64 b = (if b then 1 else 0)"

definition fold_int_binary :: "i64 \<Rightarrow> bin_op \<Rightarrow> i64 \<Rightarrow> rstring + const_val" where
  "fold_int_binary a op b =
    (case op of
       BO_Add \<Rightarrow> Inr (CO_Int (a + b))
     | BO_Sub \<Rightarrow> Inr (CO_Int (a - b))
     | BO_Mul \<Rightarrow> Inr (CO_Int (a * b))
     | BO_Div \<Rightarrow> if b = 0 then Inl (rstr ''constant division by zero'') else Inr (CO_Int (wrapping_div a b))
     | BO_Mod \<Rightarrow> if b = 0 then Inl (rstr ''constant division by zero'') else Inr (CO_Int (wrapping_rem a b))
     | BO_Lshift \<Rightarrow> Inr (CO_Int (wrapping_shl a (ucast b)))
     | BO_Rshift \<Rightarrow> Inr (CO_Int (wrapping_shr_signed a (ucast b)))
     | BO_And \<Rightarrow> Inr (CO_Int (a AND b))
     | BO_Or \<Rightarrow> Inr (CO_Int (a OR b))
     | BO_Xor \<Rightarrow> Inr (CO_Int (a XOR b))
     | BO_Eq \<Rightarrow> Inr (CO_Int (bool_i64 (a = b)))
     | BO_Neq \<Rightarrow> Inr (CO_Int (bool_i64 (a \<noteq> b)))
     | BO_Lt \<Rightarrow> Inr (CO_Int (bool_i64 (sint a < sint b)))
     | BO_Gt \<Rightarrow> Inr (CO_Int (bool_i64 (sint a > sint b)))
     | BO_Leq \<Rightarrow> Inr (CO_Int (bool_i64 (sint a \<le> sint b)))
     | BO_Geq \<Rightarrow> Inr (CO_Int (bool_i64 (sint a \<ge> sint b)))
     | _ \<Rightarrow> unsupported_const_op (debug_bin_op op))"

definition fold_real_binary :: "nan_choice \<Rightarrow> f64_bits \<Rightarrow> bin_op \<Rightarrow> f64_bits \<Rightarrow> rstring + const_val" where
  "fold_real_binary nan a op b =
    (case op of
       BO_Add \<Rightarrow> Inr (CO_Real (f64_add nan a b))
     | BO_Sub \<Rightarrow> Inr (CO_Real (f64_sub nan a b))
     | BO_Mul \<Rightarrow> Inr (CO_Real (f64_mul nan a b))
     | BO_Div \<Rightarrow> Inr (CO_Real (f64_div nan a b))
     | _ \<Rightarrow> unsupported_const_op (debug_bin_op op @ rstr '' on real''))"

definition fold_const_binary ::
    "nan_choice \<Rightarrow> const_val \<Rightarrow> bin_op \<Rightarrow> const_val \<Rightarrow> rstring + const_val" where
  "fold_const_binary nan lhs op rhs =
    (case (lhs, rhs) of
       (CO_Str a, CO_Str b) \<Rightarrow>
         if op = BO_Add then Inr (CO_Str (a @ b)) else unsupported_const_op (debug_bin_op op)
     | (CO_Int a, CO_Int b) \<Rightarrow> fold_int_binary a op b
     | (CO_Real a, CO_Real b) \<Rightarrow> fold_real_binary nan a op b
     | (CO_Int a, CO_Real b) \<Rightarrow> fold_real_binary nan (f64_of_int (sint a)) op b
     | (CO_Real a, CO_Int b) \<Rightarrow> fold_real_binary nan a op (f64_of_int (sint b))
     | _ \<Rightarrow> unsupported_const_op (debug_bin_op op))"

section \<open>The counter behind iota\<close>

record iota_counter =
  io_group :: "span option"
  io_value :: i64

definition iota_default :: iota_counter where
  "iota_default = \<lparr>io_group = None, io_value = 0\<rparr>"

definition iota_next :: "span \<Rightarrow> iota_counter \<Rightarrow> i64 \<times> iota_counter" where
  "iota_next sp c =
    (let c = (if io_group c \<noteq> Some sp then \<lparr>io_group = Some sp, io_value = 0\<rparr> else c) in
     (io_value c, c\<lparr>io_value := io_value c + 1\<rparr>))"

section \<open>The size of an expression\<close>

text \<open>It bounds the recursions over expressions. Types inside an expression do not count, nor does the left
  of a qualified name: no recursion goes there.\<close>

definition opt_size :: "nat option \<Rightarrow> nat" where
  "opt_size x = unwrap_or 0 x"

definition index_size :: "nat array_index \<Rightarrow> nat" where
  "index_size i = (case i of
      AI_Selectors sels \<Rightarrow> sum_list (map (\<lambda>(lo, hi). lo + opt_size hi) sels) | AI_Wildcard \<Rightarrow> 0)"

definition elem_size :: "nat array_elem \<Rightarrow> nat" where
  "elem_size e = opt_size (map_option index_size (ae_index e)) + ae_value e"

primrec esize :: "expr \<Rightarrow> nat" where
  "esize (E_IntLit _ _) = 1"
| "esize (E_RealLit _ _) = 1"
| "esize (E_StringLit _ _) = 1"
| "esize (E_CharLit _ _) = 1"
| "esize (E_Nil _) = 1"
| "esize (E_Ident _ _) = 1"
| "esize (E_Binary l _ r _) = Suc (esize l + esize r)"
| "esize (E_Unary _ e _) = Suc (esize e)"
| "esize (E_Call c args _) = Suc (esize c + sum_list (map esize args))"
| "esize (E_Dot e _ _) = Suc (esize e)"
| "esize (E_ModQual _ _ _) = 1"
| "esize (E_Index a i _) = Suc (esize a + esize i)"
| "esize (E_Slice a lo hi _) = Suc (esize a + opt_size (map_option esize lo) + opt_size (map_option esize hi))"
| "esize (E_Tuple es _) = Suc (Suc (sum_list (map esize es)))"
| "esize (E_Cons h t _) = Suc (esize h + esize t)"
| "esize (E_Recv e _) = Suc (esize e)"
| "esize (E_Send c v _) = Suc (esize c + esize v)"
| "esize (E_Load _ p _) = Suc (esize p)"
| "esize (E_ArrayAlloc e _ _) = Suc (esize e)"
| "esize (E_ArrayLit n es _ _) =
    Suc (opt_size (map_option esize n) + sum_list (map elem_size (map (map_array_elem esize) es)))"
| "esize (E_ChanAlloc _ _) = 1"
| "esize (E_ListLit es _) = Suc (sum_list (map esize es))"
| "esize (E_RefAlloc _ es _) = Suc (sum_list (map esize es))"
| "esize (E_Cast _ e _) = Suc (esize e)"
| "esize (E_DeclAssign _ e _) = Suc (esize e)"
| "esize (E_TupleDeclAssign _ e _) = Suc (esize e)"
| "esize (E_Assign l r _) = Suc (esize l + esize r)"
| "esize (E_CompoundAssign l _ r _) = Suc (esize l + esize r)"
| "esize (E_Hd e _) = Suc (esize e)"
| "esize (E_Tl e _) = Suc (esize e)"
| "esize (E_Len e _) = Suc (esize e)"
| "esize (E_Tagof e _) = Suc (esize e)"
| "esize (E_PostInc e _) = Suc (esize e)"
| "esize (E_PostDec e _) = Suc (esize e)"

section \<open>Constant expressions\<close>

text \<open>
  \<open>fold_const\<close>, over what a name (\<open>cv\<close>) and a qualified name (\<open>qv\<close>) stand for as constants.
\<close>

definition fold_unary :: "unary_op \<Rightarrow> const_val \<Rightarrow> const_val option" where
  "fold_unary op v =
    (case (op, v) of
       (UO_Neg, CO_Int n) \<Rightarrow> Some (CO_Int (- n))
     | (UO_Neg, CO_Real r) \<Rightarrow> Some (CO_Real (f64_neg r))
     | (UO_BitNot, CO_Int n) \<Rightarrow> Some (CO_Int (NOT n))
     | (UO_Not, CO_Int n) \<Rightarrow> Some (CO_Int (bool_i64 (n = 0)))
     | _ \<Rightarrow> None)"

definition fold_cast :: "ltype \<Rightarrow> const_val \<Rightarrow> const_val" where
  "fold_cast ty v =
    (case (ty, v) of
       (T_Basic BT_Real, CO_Int n) \<Rightarrow> CO_Real (f64_of_int (sint n))
     | (T_Basic BT_Int, CO_Real r) \<Rightarrow> CO_Int (f64_as_signed r)
     | (T_Basic BT_Big, CO_Real r) \<Rightarrow> CO_Int (f64_as_signed r)
     | (T_Basic BT_Byte, CO_Real r) \<Rightarrow> CO_Int (f64_as_signed r)
     | (T_Basic BT_String, CO_Int n) \<Rightarrow> CO_Str (show_int (sint n))
     | _ \<Rightarrow> v)"

definition debug_unary_op :: "unary_op \<Rightarrow> rstring" where
  "debug_unary_op op = rstr (case op of
      UO_Neg \<Rightarrow> ''Neg'' | UO_Not \<Rightarrow> ''Not'' | UO_BitNot \<Rightarrow> ''BitNot'' | UO_Ref \<Rightarrow> ''Ref'')"

definition quoted :: "rstring \<Rightarrow> rstring" where
  "quoted s = rstr ''`'' @ s @ rstr ''`''"

type_synonym const_lookup = "rstring \<Rightarrow> (rstring + const_val) option"

function fold_expr ::
    "nan_choice \<Rightarrow> const_lookup \<Rightarrow> (rstring \<Rightarrow> const_lookup) \<Rightarrow> i64 \<Rightarrow> expr \<Rightarrow> rstring + const_val" where
  "fold_expr nan cv qv iota e =
    (case e of
       E_IntLit v _ \<Rightarrow> Inr (CO_Int v)
     | E_CharLit v _ \<Rightarrow> Inr (CO_Int (scast v))
     | E_RealLit v _ \<Rightarrow> Inr (CO_Real v)
     | E_StringLit s _ \<Rightarrow> Inr (CO_Str s)
     | E_Ident name _ \<Rightarrow>
         if name = rstr ''iota'' then Inr (CO_Int iota)
         else unwrap_or (Inl (quoted name @ rstr '' is not a constant'')) (cv name)
     | E_ModQual module member _ \<Rightarrow>
         (case module of
            E_Ident mod_name _ \<Rightarrow>
              unwrap_or (Inl (quoted (mod_name @ rstr ''->'' @ member) @ rstr '' is not a constant''))
                (qv mod_name member)
          | _ \<Rightarrow> Inl (rstr ''unsupported qualified constant''))
     | E_Unary op inner _ \<Rightarrow>
         and_then (fold_expr nan cv qv iota inner) (\<lambda>v.
           case fold_unary op v of Some w \<Rightarrow> Inr w | None \<Rightarrow> unsupported_const_op (debug_unary_op op))
     | E_Cast ty inner _ \<Rightarrow> and_then (fold_expr nan cv qv iota inner) (\<lambda>v. Inr (fold_cast ty v))
     | E_Binary lhs op rhs _ \<Rightarrow>
         and_then (fold_expr nan cv qv iota lhs) (\<lambda>l.
         and_then (fold_expr nan cv qv iota rhs) (\<lambda>r. fold_const_binary nan l op r))
     | E_Len inner _ \<Rightarrow>
         and_then (fold_expr nan cv qv iota inner) (\<lambda>v. case v of
             CO_Str s \<Rightarrow> Inr (CO_Int (of_nat (length s)))
           | _ \<Rightarrow> Inl (rstr ''`len` of a non-constant''))
     | _ \<Rightarrow> Inl (rstr ''not a constant expression''))"
  by pat_completeness auto
termination by (relation "measure (\<lambda>(_, _, _, _, e). esize e)") auto

declare fold_expr.simps [simp del]

end
