(* ===== verification/CodeGen.thy ===== *)
theory CodeGen
  imports ConstFold "HOL-Library.List_Lexorder" "HOL-Library.Product_Lexorder"
begin

unbundle bit_operations_syntax

text \<open>
  The state of the code generator (\<open>struct CodeGen\<close> of \<open>codegen.rs\<close>) and the operations on it that
  translate nothing yet: storage in the module data and in frames, the blocks of imported functions,
  the layouts of data types, the names that \<open>import\<close> and \<open>implement\<close> bring into scope, constants, and
  emitting and patching instructions. An index that is out of range would be a panic, which is an
  error of its own.
\<close>

section \<open>State\<close>

datatype cg_error = CompileError rstring | CompilePanic rstring | CompileBound

record loop_frame =
  lf_label :: "rstring option"
  lf_breaks :: "usize list"
  lf_continues :: "usize list"
  lf_continuable :: bool

record imported =
  ip_module :: rstring
  ip_module_type :: "rstring option"
  ip_from_variable :: bool

record module_import =
  mi_index :: usize
  mi_funcs :: "(rstring \<times> usize) list"

type_synonym var_entry = "rstring \<times> i32 \<times> val_type \<times> num_kind"
type_synonym func_entry = "rstring \<times> i32 \<times> i32 \<times> num_kind"

record codegen =
  cg_code :: "instruction list"
  cg_types :: "type_descriptor list"
  cg_data :: "data_item list"
  cg_mp_size :: i32
  cg_string_pool :: "(rstring \<times> i32) list"
  cg_module_name :: rstring
  cg_exports :: "export_entry list"
  cg_imports :: "import_module list"
  cg_module_imports :: "(rstring \<times> module_import) list"
  cg_module_handle_type :: "rstring hash_map"
  cg_module_decls :: "rstring list"
  cg_locals :: "var_entry list"
  cg_next_local :: i32
  cg_frame_size :: i32
  cg_func_table :: "func_entry list"
  cg_local_array_elem :: "ltype hash_map"
  cg_local_chan_elem :: "ltype hash_map"
  cg_local_tuple :: "ltype list hash_map"
  cg_func_tuple_ret :: "ltype list hash_map"
  cg_pending_call_fixups :: "(usize \<times> rstring) list"
  cg_adt_layouts :: "field_layout hash_map"
  cg_adt_shapes :: "record_shape hash_map"
  cg_adt_methods :: "ltype func_sig hash_map hash_map"
  cg_adt_owner :: "rstring hash_map"
  cg_adt_variants :: "(i32 \<times> usize) hash_map"
  cg_func_ret_types :: "ltype hash_map"
  cg_needed_types :: "desc_key list"
  cg_pending_type_fixups :: "(usize \<times> type_operand \<times> desc_key) list"
  cg_local_adt_type :: "rstring hash_map"
  cg_func_frames :: "(i32 \<times> i32 list) list"
  cg_handlers :: "handler list"
  cg_globals :: "var_entry list"
  cg_module_consts :: "(rstring + const_val) hash_map"
  cg_qualified_consts :: "(rstring + const_val) hash_map"
  cg_symtab :: "symbol_table option"
  cg_imported :: "imported hash_map"
  cg_pending_array_elem_types :: "(usize \<times> elem_kind) list"
  cg_pending_global_inits :: "(rstring \<times> expr) list"
  cg_loop_stack :: "loop_frame list"
  cg_pending_label :: "rstring option"

definition codegen_new :: codegen where
  "codegen_new = \<lparr>cg_code = [], cg_types = [], cg_data = [], cg_mp_size = 0, cg_string_pool = [],
    cg_module_name = [], cg_exports = [], cg_imports = [], cg_module_imports = [],
    cg_module_handle_type = [], cg_module_decls = [], cg_locals = [], cg_next_local = 40,
    cg_frame_size = 80, cg_func_table = [], cg_local_array_elem = [], cg_local_chan_elem = [],
    cg_local_tuple = [], cg_func_tuple_ret = [], cg_pending_call_fixups = [], cg_adt_layouts = [],
    cg_adt_shapes = [], cg_adt_methods = [], cg_adt_owner = [], cg_adt_variants = [],
    cg_func_ret_types = [], cg_needed_types = [], cg_pending_type_fixups = [], cg_local_adt_type = [],
    cg_func_frames = [], cg_handlers = [], cg_globals = [], cg_module_consts = [],
    cg_qualified_consts = [], cg_symtab = None, cg_imported = [], cg_pending_array_elem_types = [],
    cg_pending_global_inits = [], cg_loop_stack = [], cg_pending_label = None\<rparr>"

definition with_symtab :: "symbol_table \<Rightarrow> codegen \<Rightarrow> codegen" where
  "with_symtab st cg = cg\<lparr>cg_symtab := Some st\<rparr>"

text \<open>A method on \<open>&mut self\<close>.\<close>

type_synonym 'a cg = "(codegen, cg_error, 'a) sm"

definition cg_err :: "rstring \<Rightarrow> 'a cg" where
  "cg_err msg = fail (CompileError msg)"

definition cg_result :: "rstring + 'a \<Rightarrow> 'a cg" where
  "cg_result r = (case r of Inl msg \<Rightarrow> cg_err msg | Inr x \<Rightarrow> ret x)"

abbreviation asks :: "(codegen \<Rightarrow> 'a) \<Rightarrow> ('a \<Rightarrow> 'b cg) \<Rightarrow> 'b cg" where
  "asks f k \<equiv> sbind (reads f) k"

abbreviation and_do :: "unit cg \<Rightarrow> 'b cg \<Rightarrow> 'b cg" where
  "and_do m n \<equiv> sbind m (\<lambda>_. n)"

text \<open>Statements one after the other, and a loop over a list.\<close>

primrec do_all :: "unit cg list \<Rightarrow> unit cg" where
  "do_all [] = ret ()"
| "do_all (m # ms) = and_do m (do_all ms)"

primrec for_each :: "'a list \<Rightarrow> ('a \<Rightarrow> unit cg) \<Rightarrow> unit cg" where
  "for_each [] f = ret ()"
| "for_each (x # xs) f = and_do (f x) (for_each xs f)"

primrec gather :: "'a list \<Rightarrow> ('a \<Rightarrow> 'b cg) \<Rightarrow> 'b list cg" where
  "gather [] f = ret []"
| "gather (x # xs) f = sbind (f x) (\<lambda>y. sbind (gather xs f) (\<lambda>ys. ret (y # ys)))"

primrec fold_each :: "'a list \<Rightarrow> ('a \<Rightarrow> 'b \<Rightarrow> 'b cg) \<Rightarrow> 'b \<Rightarrow> 'b cg" where
  "fold_each [] f y = ret y"
| "fold_each (x # xs) f y = sbind (f x y) (fold_each xs f)"

definition when_some :: "'a option \<Rightarrow> ('a \<Rightarrow> unit cg) \<Rightarrow> unit cg" where
  "when_some x f = (case x of None \<Rightarrow> ret () | Some y \<Rightarrow> f y)"

text \<open>\<open>xs[i]\<close>.\<close>

definition cg_index_panic :: cg_error where
  "cg_index_panic = CompilePanic (rstr ''index out of bounds'')"

definition at_index :: "'a list \<Rightarrow> usize \<Rightarrow> 'a cg" where
  "at_index xs i = (if i < length xs then ret (xs ! i) else fail cg_index_panic)"

section \<open>Instructions\<close>

definition emit :: "opcode \<Rightarrow> operand \<Rightarrow> middle_operand \<Rightarrow> operand \<Rightarrow> unit cg" where
  "emit opc src mid dst = updates (\<lambda>cg. cg\<lparr>cg_code := cg_code cg @
    [\<lparr>i_opcode = opc, i_source = src, i_middle = mid, i_destination = dst\<rparr>]\<rparr>)"

text \<open>\<open>self.code.len()\<close>, as a position and as an address; and emitting at a remembered position.\<close>

definition code_len :: "codegen \<Rightarrow> usize" where
  "code_len cg = length (cg_code cg)"

definition code_pc :: "codegen \<Rightarrow> i32" where
  "code_pc cg = of_nat (code_len cg)"

definition emit_at :: "opcode \<Rightarrow> operand \<Rightarrow> middle_operand \<Rightarrow> operand \<Rightarrow> usize cg" where
  "emit_at opc src mid dst = asks code_len (\<lambda>idx. and_do (emit opc src mid dst) (ret idx))"

text \<open>\<open>self.code[idx].destination = op\<close>, and \<open>op_imm\<close> of a position, mostly the current one.\<close>

definition patch_instr :: "usize \<Rightarrow> (instruction \<Rightarrow> instruction) \<Rightarrow> unit cg" where
  "patch_instr idx f = (\<lambda>cg.
    if idx < length (cg_code cg)
    then (Inr (), cg\<lparr>cg_code := (cg_code cg)[idx := f (cg_code cg ! idx)]\<rparr>)
    else (Inl cg_index_panic, cg))"

definition patch_dst :: "usize \<Rightarrow> operand \<Rightarrow> unit cg" where
  "patch_dst idx dst = patch_instr idx (\<lambda>i. i\<lparr>i_destination := dst\<rparr>)"

definition patch_to :: "usize \<Rightarrow> i32 \<Rightarrow> unit cg" where
  "patch_to idx pc = patch_dst idx (op_imm pc)"

definition patch_here :: "usize \<Rightarrow> unit cg" where
  "patch_here idx = asks code_pc (patch_to idx)"

definition push_data :: "data_item \<Rightarrow> unit cg" where
  "push_data item = updates (\<lambda>cg. cg\<lparr>cg_data := cg_data cg @ [item]\<rparr>)"

section \<open>Storage\<close>

definition alloc_mp :: "i32 \<Rightarrow> i32 cg" where
  "alloc_mp sz = (\<lambda>cg.
    let off = (if sint sz \<ge> 8 then (cg_mp_size cg + 7) AND NOT 7 else cg_mp_size cg) in
    (Inr off, cg\<lparr>cg_mp_size := (off + sz + 3) AND NOT 3\<rparr>))"

definition intern_string :: "rstring \<Rightarrow> i32 cg" where
  "intern_string s = asks (\<lambda>cg. map_of (cg_string_pool cg) s) (\<lambda>found. case found of
      Some off \<Rightarrow> ret off
    | None \<Rightarrow> sbind (alloc_mp 4) (\<lambda>off.
        and_do (push_data (DI_String off s))
        (and_do (updates (\<lambda>cg. cg\<lparr>cg_string_pool := cg_string_pool cg @ [(s, off)]\<rparr>)) (ret off))))"

definition grow_frame :: "unit cg" where
  "grow_frame = updates (\<lambda>cg.
    if sint (cg_frame_size cg - 8) < sint (cg_next_local cg)
    then cg\<lparr>cg_frame_size := (cg_next_local cg + 24 + 7) AND NOT 7\<rparr> else cg)"

text \<open>\<open>let off = self.next_local; self.next_local += size; self.grow_frame();\<close>\<close>

definition take_slot :: "i32 \<Rightarrow> i32 cg" where
  "take_slot sz = asks cg_next_local (\<lambda>off.
    and_do (updates (\<lambda>cg. cg\<lparr>cg_next_local := cg_next_local cg + sz\<rparr>)) (and_do grow_frame (ret off)))"

definition push_local :: "var_entry \<Rightarrow> unit cg" where
  "push_local v = updates (\<lambda>cg. cg\<lparr>cg_locals := cg_locals cg @ [v]\<rparr>)"

definition get_local :: "codegen \<Rightarrow> rstring \<Rightarrow> (i32 \<times> val_type) option" where
  "get_local cg name = map_option (\<lambda>(off, ty, _). (off, ty)) (map_of (cg_locals cg) name)"

definition local_num_kind :: "codegen \<Rightarrow> rstring \<Rightarrow> num_kind" where
  "local_num_kind cg name = (case map_of (cg_locals cg) name of Some (_, _, k) \<Rightarrow> k | None \<Rightarrow> NK_Word)"

definition alloc_local :: "rstring \<Rightarrow> val_type \<Rightarrow> num_kind \<Rightarrow> i32 cg" where
  "alloc_local name ty kind = asks (\<lambda>cg. map_of (cg_locals cg) name) (\<lambda>found. case found of
      Some (off, _) \<Rightarrow> ret off
    | None \<Rightarrow> sbind (take_slot (nk_byte_size kind)) (\<lambda>off.
        and_do (push_local (name, off, ty, kind)) (ret off)))"

definition alloc_temp :: "i32 cg" where
  "alloc_temp = take_slot 4"

definition alloc_temp_for :: "num_kind \<Rightarrow> i32 cg" where
  "alloc_temp_for kind = take_slot (nk_byte_size kind)"

definition alloc_temp_block :: "i32 \<Rightarrow> i32 cg" where
  "alloc_temp_block sz = take_slot (align_up (max_i32 sz 4) 4)"

definition alloc_local_block :: "rstring \<Rightarrow> i32 \<Rightarrow> i32 cg" where
  "alloc_local_block name sz = asks (\<lambda>cg. map_of (cg_locals cg) name) (\<lambda>found. case found of
      Some (off, _) \<Rightarrow> ret off
    | None \<Rightarrow> sbind (alloc_temp_block sz) (\<lambda>off.
        and_do (push_local (name, off, VT_Word, NK_Word)) (ret off)))"

definition lookup_global :: "codegen \<Rightarrow> rstring \<Rightarrow> i32 option" where
  "lookup_global cg name = map_option fst (map_of (cg_globals cg) name)"

definition lookup_var :: "codegen \<Rightarrow> rstring \<Rightarrow> (slot \<times> val_type \<times> num_kind) option" where
  "lookup_var cg name =
    (case map_of (cg_locals cg) name of
       Some (off, ty, kind) \<Rightarrow> Some (SL_Local off, ty, kind)
     | None \<Rightarrow> map_option (\<lambda>(off, ty, kind). (SL_Global off, ty, kind)) (map_of (cg_globals cg) name))"

section \<open>Imported functions\<close>

text \<open>\<open>iter().position\<close>.\<close>

definition find_position :: "('a \<Rightarrow> bool) \<Rightarrow> 'a list \<Rightarrow> usize option" where
  "find_position p xs = (let i = length (takeWhile (\<lambda>x. \<not> p x) xs) in if i < length xs then Some i else None)"

definition ensure_module_import_slot :: "rstring \<Rightarrow> usize cg" where
  "ensure_module_import_slot interface =
    asks (\<lambda>cg. find_position (\<lambda>(n, _). n = interface) (cg_module_imports cg)) (\<lambda>found. case found of
        Some s \<Rightarrow> ret s
      | None \<Rightarrow>
          and_do (updates (\<lambda>cg. cg\<lparr>cg_imports := cg_imports cg @ [[]],
            cg_module_imports := cg_module_imports cg @
              [(interface, \<lparr>mi_index = length (cg_imports cg), mi_funcs = []\<rparr>)]\<rparr>))
          (asks (\<lambda>cg. length (cg_module_imports cg) - 1) ret))"

definition ensure_module_import :: "rstring \<Rightarrow> usize cg" where
  "ensure_module_import interface =
    sbind (ensure_module_import_slot interface) (\<lambda>s.
    asks cg_module_imports (\<lambda>mis.
    sbind (at_index mis s) (\<lambda>(_, mi). ret (mi_index mi))))"

definition add_import_entry :: "usize \<Rightarrow> rstring \<Rightarrow> unit cg" where
  "add_import_entry block name = asks cg_imports (\<lambda>ims.
    sbind (at_index ims block) (\<lambda>fns.
    updates (\<lambda>cg. cg\<lparr>cg_imports := ims[block := fns @ [\<lparr>im_signature = 0, im_name = name\<rparr>]]\<rparr>)))"

definition ensure_module_func :: "rstring \<Rightarrow> rstring \<Rightarrow> usize cg" where
  "ensure_module_func interface name =
    sbind (ensure_module_import_slot interface) (\<lambda>s.
    asks cg_module_imports (\<lambda>mis.
    sbind (at_index mis s) (\<lambda>(n, mi).
      case map_of (mi_funcs mi) name of
        Some idx \<Rightarrow> ret idx
      | None \<Rightarrow>
          (let idx = length (mi_funcs mi) in
           and_do (updates (\<lambda>cg. cg\<lparr>cg_module_imports :=
             mis[s := (n, mi\<lparr>mi_funcs := mi_funcs mi @ [(name, idx)]\<rparr>)]\<rparr>))
           (and_do (add_import_entry (mi_index mi) name) (ret idx))))))"

section \<open>Descriptors that are needed\<close>

definition need_type :: "usize \<Rightarrow> type_operand \<Rightarrow> desc_key \<Rightarrow> unit cg" where
  "need_type at_pc opd key = updates (\<lambda>cg. cg\<lparr>
    cg_needed_types := (if key \<in> set (cg_needed_types cg) then cg_needed_types cg
                        else cg_needed_types cg @ [key]),
    cg_pending_type_fixups := cg_pending_type_fixups cg @ [(at_pc, opd, key)]\<rparr>)"

section \<open>Data types\<close>

definition adt_func_sigs :: "adt \<Rightarrow> ltype func_sig hash_map" where
  "adt_func_sigs a = hm_collect
    (List.map_filter (\<lambda>m. case m of AM_Func s \<Rightarrow> Some (sig_name s, s) | _ \<Rightarrow> None) (ad_members a))"

definition record_variant :: "adt \<Rightarrow> rstring option \<Rightarrow> usize \<Rightarrow> (expr, ltype) pick_case \<Rightarrow>
    rstring \<Rightarrow> i32 \<times> codegen \<Rightarrow> i32 \<times> codegen" where
  "record_variant a owner grp c name = (\<lambda>(tag, cg).
    let layout = compute_variant_layout a c;
        shape = shape_of (adt_field_base a) layout;
        key = ad_name a @ rstr ''.'' @ name in
    (tag + 1, cg\<lparr>
      cg_adt_layouts := hm_insert key layout (cg_adt_layouts cg),
      cg_adt_shapes := hm_insert key shape (cg_adt_shapes cg),
      cg_adt_methods := hm_insert key (adt_func_sigs a) (cg_adt_methods cg),
      cg_adt_owner := (case owner of Some ow \<Rightarrow> hm_insert key ow (cg_adt_owner cg) | None \<Rightarrow> cg_adt_owner cg),
      cg_adt_variants := hm_insert key (tag, grp) (cg_adt_variants cg)\<rparr>))"

definition record_adt :: "adt \<Rightarrow> rstring option \<Rightarrow> bool \<Rightarrow> codegen \<Rightarrow> codegen" where
  "record_adt a owner overwrite cg =
    (if \<not> overwrite \<and> hm_contains (cg_adt_layouts cg) (ad_name a) then cg
     else
       let cg = cg\<lparr>
             cg_adt_layouts := hm_insert (ad_name a) (compute_adt_layout a) (cg_adt_layouts cg),
             cg_adt_shapes := hm_insert (ad_name a) (compute_adt_shape a) (cg_adt_shapes cg),
             cg_adt_methods := hm_insert (ad_name a) (adt_func_sigs a) (cg_adt_methods cg),
             cg_adt_owner := (case owner of
                 Some ow \<Rightarrow> hm_insert (ad_name a) ow (cg_adt_owner cg)
               | None \<Rightarrow> hm_remove (ad_name a) (cg_adt_owner cg))\<rparr> in
       snd (fold (\<lambda>(grp, c). fold (record_variant a owner grp c) (pc_tags c))
         (enumerate 0 (adt_pick_cases a)) (0, cg)))"

definition implemented :: "source_file \<Rightarrow> rstring option" where
  "implemented file = nth_opt (sf_implement file) 0"

text \<open>The data types of the interfaces, the implemented one first and the others by name.\<close>

definition interface_adts :: "source_file \<Rightarrow> symbol_table \<Rightarrow> (rstring \<times> adt) list" where
  "interface_adts file st =
    concat (map (\<lambda>(module, adts). map (\<lambda>(_, a). (module, a)) (sort_key fst adts))
      (sort_key (\<lambda>(name, _). (implemented file \<noteq> Some name, name)) (stb_adt_decls st)))"

definition collect_interface_adts :: "source_file \<Rightarrow> codegen \<Rightarrow> codegen" where
  "collect_interface_adts file cg =
    (case cg_symtab cg of
       None \<Rightarrow> cg
     | Some st \<Rightarrow>
         fold (\<lambda>(module, a).
             record_adt a (if implemented file \<noteq> Some module then Some module else None) False)
           (interface_adts file st) cg)"

definition collect_adt_decl :: "decl \<Rightarrow> codegen \<Rightarrow> codegen" where
  "collect_adt_decl d cg =
    (case d of
       D_Adt a \<Rightarrow> record_adt a None True cg
     | D_Module m \<Rightarrow>
         fold (\<lambda>member cg. case member of MM_Adt a \<Rightarrow> record_adt a (Some (md_name m)) True cg | _ \<Rightarrow> cg)
           (md_members m) (cg\<lparr>cg_module_decls := List.insert (md_name m) (cg_module_decls cg)\<rparr>)
     | _ \<Rightarrow> cg)"

definition collect_adts :: "source_file \<Rightarrow> codegen \<Rightarrow> codegen" where
  "collect_adts file cg = collect_interface_adts file (fold collect_adt_decl (sf_decls file) cg)"

section \<open>Names in scope\<close>

definition bind_implement_scope :: "source_file \<Rightarrow> codegen \<Rightarrow> codegen" where
  "bind_implement_scope file cg =
    (case (implemented file, cg_symtab cg) of
       (Some module, Some st) \<Rightarrow>
         (case hm_get (stb_modules st) module of
            None \<Rightarrow> cg
          | Some members \<Rightarrow>
              (let names = map fst (filter (\<lambda>(_, entry). case entry of SYM_Func _ \<Rightarrow> False | _ \<Rightarrow> True) members);
                   ip = \<lparr>ip_module = module, ip_module_type = Some module, ip_from_variable = False\<rparr> in
               cg\<lparr>cg_imported := fold (\<lambda>name. hm_or_insert name ip) names (cg_imported cg)\<rparr>))
     | _ \<Rightarrow> cg)"

definition is_module_interface_name :: "codegen \<Rightarrow> rstring \<Rightarrow> bool" where
  "is_module_interface_name cg name =
    (if hm_contains (cg_adt_layouts cg) name then False
     else if name \<in> set (cg_module_decls cg) then True
     else case cg_symtab cg of
         Some st \<Rightarrow> hm_contains (stb_modules st) name \<or>
           (case lookup_symbol st name of Some (SYM_Type _) \<Rightarrow> False | _ \<Rightarrow> True)
       | None \<Rightarrow> True)"

definition handle_interface :: "ltype option \<Rightarrow> expr option \<Rightarrow> rstring option" where
  "handle_interface ty init =
    (let from_init = (case init of Some (E_Load (T_Named qn) _ _) \<Rightarrow> Some (qn_name qn) | _ \<Rightarrow> None) in
     case ty of
       Some (T_Named qn) \<Rightarrow> if qn_qualifier qn = None then Some (qn_name qn) else from_init
     | _ \<Rightarrow> from_init)"

definition note_module_handle :: "rstring \<Rightarrow> ltype option \<Rightarrow> expr option \<Rightarrow> codegen \<Rightarrow> codegen" where
  "note_module_handle name ty init cg =
    (case handle_interface ty init of
       None \<Rightarrow> cg
     | Some interface \<Rightarrow>
         if is_module_interface_name cg interface
         then cg\<lparr>cg_module_handle_type := hm_insert name interface (cg_module_handle_type cg)\<rparr> else cg)"

definition module_member :: "codegen \<Rightarrow> rstring \<Rightarrow> rstring \<Rightarrow> module_symbol option" where
  "module_member cg module_type member =
    Option.bind (cg_symtab cg) (\<lambda>st. lookup_qualified st module_type member)"

definition handle_member :: "codegen \<Rightarrow> rstring \<Rightarrow> rstring \<Rightarrow> module_symbol option" where
  "handle_member cg handle member =
    Option.bind (hm_get (cg_module_handle_type cg) handle) (\<lambda>interface. module_member cg interface member)"

definition resolve_import_operand :: "codegen \<Rightarrow> rstring \<Rightarrow> rstring option \<times> bool" where
  "resolve_import_operand cg operand =
    (case cg_symtab cg of
       None \<Rightarrow> (None, False)
     | Some st \<Rightarrow>
         (case lookup_symbol st operand of
            Some (SYM_Var (RT_Module name)) \<Rightarrow> (Some name, True)
          | Some (SYM_Module name _) \<Rightarrow> (Some name, False)
          | _ \<Rightarrow> if hm_contains (stb_modules st) operand then (Some operand, False) else (None, False)))"

definition not_a_member :: "rstring \<Rightarrow> rstring \<Rightarrow> rstring \<Rightarrow> rstring" where
  "not_a_member member module module_type =
    quoted member @ rstr '' is not a member of module '' @ quoted module @
    (if module = module_type then [] else rstr '' (interface '' @ quoted module_type @ rstr '')'')"

definition bind_import :: "import_decl \<Rightarrow> unit cg" where
  "bind_import imp = asks (\<lambda>cg. resolve_import_operand cg (id_module imp)) (\<lambda>(module_type, from_variable).
    for_each (id_names imp) (\<lambda>name.
      asks (\<lambda>cg. case module_type of Some ty \<Rightarrow> module_member cg ty name = None | None \<Rightarrow> False) (\<lambda>unknown.
      if unknown then cg_err (not_a_member name (id_module imp) (unwrap_or [] module_type))
      else updates (\<lambda>cg. cg\<lparr>cg_imported := hm_insert name
        \<lparr>ip_module = id_module imp, ip_module_type = module_type, ip_from_variable = from_variable\<rparr>
        (cg_imported cg)\<rparr>))))"

section \<open>Constants\<close>

definition qualified_const_value :: "codegen \<Rightarrow> rstring \<Rightarrow> rstring \<Rightarrow> (rstring + const_val) option" where
  "qualified_const_value cg module member =
    (case hm_get (cg_qualified_consts cg) (module @ rstr ''->'' @ member) of
       Some v \<Rightarrow> Some v
     | None \<Rightarrow>
         (case Option.bind (cg_symtab cg) (\<lambda>st. lookup_qualified st module member) of
            Some (SYM_Const _ v) \<Rightarrow> Some (Inr (const_of_symbol v))
          | _ \<Rightarrow> None))"

definition const_value_of :: "codegen \<Rightarrow> rstring \<Rightarrow> (rstring + const_val) option" where
  "const_value_of cg name =
    (let from_symtab = (case Option.bind (cg_symtab cg) (\<lambda>st. lookup_symbol st name) of
           Some (SYM_Const _ v) \<Rightarrow> Some (Inr (const_of_symbol v)) | _ \<Rightarrow> None);
         from_import = Option.bind (hm_get (cg_imported cg) name) (\<lambda>imp.
           Option.bind (ip_module_type imp) (\<lambda>mt. qualified_const_value cg mt name)) in
     case hm_get (cg_module_consts cg) name of
       Some v \<Rightarrow> Some v
     | None \<Rightarrow> (case from_import of Some v \<Rightarrow> Some v | None \<Rightarrow> from_symtab))"

definition fold_const :: "nan_choice \<Rightarrow> codegen \<Rightarrow> expr \<Rightarrow> i64 \<Rightarrow> rstring + const_val" where
  "fold_const nan cg e iota = fold_expr nan (const_value_of cg) (qualified_const_value cg) iota e"

definition collect_member_const :: "nan_choice \<Rightarrow> module_decl \<Rightarrow> bool \<Rightarrow> (expr, ltype) module_member \<Rightarrow>
    iota_counter \<times> codegen \<Rightarrow> iota_counter \<times> codegen" where
  "collect_member_const nan m impl member = (\<lambda>(iota, cg).
    case member of
      MM_Const c \<Rightarrow>
        (let (n, iota) = iota_next (cd_span c) iota;
             v = fold_const nan cg (cd_value c) n;
             cg = cg\<lparr>cg_qualified_consts :=
               hm_insert (md_name m @ rstr ''->'' @ cd_name c) v (cg_qualified_consts cg)\<rparr> in
         (iota, if impl then cg\<lparr>cg_module_consts := hm_insert (cd_name c) v (cg_module_consts cg)\<rparr> else cg))
    | _ \<Rightarrow> (iota, cg))"

definition collect_top_const :: "nan_choice \<Rightarrow> decl \<Rightarrow> iota_counter \<times> codegen \<Rightarrow> iota_counter \<times> codegen" where
  "collect_top_const nan d = (\<lambda>(iota, cg).
    case d of
      D_Const c \<Rightarrow>
        (let (n, iota) = iota_next (cd_span c) iota in
         (iota, cg\<lparr>cg_module_consts :=
           hm_insert (cd_name c) (fold_const nan cg (cd_value c) n) (cg_module_consts cg)\<rparr>))
    | _ \<Rightarrow> (iota, cg))"

definition collect_consts :: "nan_choice \<Rightarrow> source_file \<Rightarrow> codegen \<Rightarrow> codegen" where
  "collect_consts nan file cg =
    (let cg = fold (\<lambda>d cg. case d of
           D_Module m \<Rightarrow>
             snd (fold (collect_member_const nan m (implemented file = Some (md_name m))) (md_members m)
               (iota_default, cg))
         | _ \<Rightarrow> cg) (sf_decls file) cg in
     snd (fold (collect_top_const nan) (sf_decls file) (iota_default, cg)))"

definition imported_value_error :: "codegen \<Rightarrow> rstring \<Rightarrow> imported \<Rightarrow> rstring" where
  "imported_value_error cg name imp =
    (case ip_module_type imp of
       None \<Rightarrow> rstr ''undefined identifier '' @ quoted name @ rstr '': it is imported from '' @
         quoted (ip_module imp) @ rstr '', whose interface was not found (is the include path set?)''
     | Some module_type \<Rightarrow>
         (case module_member cg module_type name of
            Some (SYM_Opaque reason) \<Rightarrow> quoted name @ rstr '', imported from '' @ quoted (ip_module imp) @
              rstr '', cannot be used here: '' @ reason
          | Some (SYM_Type _) \<Rightarrow> quoted name @ rstr '' is a type, not a value''
          | Some (SYM_Func _) \<Rightarrow> quoted name @
              rstr '' is a function; it can only be called, not used as a value''
          | Some (SYM_Var _) \<Rightarrow> quoted name @ rstr '' is a variable of module '' @ quoted (ip_module imp) @
              rstr ''; qualified access to another module's variables is not supported yet''
          | _ \<Rightarrow> not_a_member name (ip_module imp) module_type))"

definition interface_is_known :: "codegen \<Rightarrow> rstring \<Rightarrow> bool" where
  "interface_is_known cg interface =
    (case cg_symtab cg of Some st \<Rightarrow> hm_contains (stb_modules st) interface | None \<Rightarrow> False)"

definition is_known_interface :: "codegen \<Rightarrow> rstring \<Rightarrow> bool" where
  "is_known_interface cg name \<longleftrightarrow> name \<in> set (cg_module_decls cg) \<or> interface_is_known cg name"

section \<open>Materialised constants\<close>

definition gen_word_const_to :: "i32 \<Rightarrow> i32 \<Rightarrow> unit cg" where
  "gen_word_const_to v dst =
    (if - 536870912 \<le> sint v \<and> sint v \<le> 536870911
     then emit Op_Movw (op_imm v) mid_unused (op_fp dst)
     else sbind (alloc_mp 4) (\<lambda>mp_off.
       do_all [push_data (DI_Words mp_off [v]), emit Op_Movw (op_mp mp_off) mid_unused (op_fp dst)]))"

definition gen_big_const_to :: "i64 \<Rightarrow> i32 \<Rightarrow> unit cg" where
  "gen_big_const_to v dst = sbind (alloc_mp 8) (\<lambda>mp_off.
    do_all [push_data (DI_Bigs mp_off [v]), emit Op_Movl (op_mp mp_off) mid_unused (op_fp dst)])"

definition gen_real_const_to :: "f64_bits \<Rightarrow> i32 \<Rightarrow> unit cg" where
  "gen_real_const_to v dst = sbind (alloc_mp 8) (\<lambda>mp_off.
    do_all [push_data (DI_Reals mp_off [v]), emit Op_Movf (op_mp mp_off) mid_unused (op_fp dst)])"

definition gen_string_const_to :: "rstring \<Rightarrow> i32 \<Rightarrow> unit cg" where
  "gen_string_const_to s dst = sbind (intern_string s) (\<lambda>mp.
    emit Op_Movp (op_mp mp) mid_unused (op_fp dst))"

definition gen_int_const_to :: "i64 \<Rightarrow> i32 \<Rightarrow> unit cg" where
  "gen_int_const_to v dst = (if is_big_int v then gen_big_const_to v dst else gen_word_const_to (ucast v) dst)"

definition gen_const_to :: "const_val \<Rightarrow> i32 \<Rightarrow> unit cg" where
  "gen_const_to v dst =
    (case v of
       CO_Int n \<Rightarrow> gen_int_const_to n dst
     | CO_Real r \<Rightarrow> gen_real_const_to r dst
     | CO_Str s \<Rightarrow> gen_string_const_to s dst)"

end
