(* ===== verification/CodeGenTypes.thy ===== *)
theory CodeGenTypes
  imports CodeGen
begin

unbundle bit_operations_syntax

text \<open>
  What the code generator infers about expressions (\<open>codegen.rs\<close>): the data type a value has, the
  elements of arrays and channels, the fields of tuples, storage class and numeric width. Then the
  module-level variables with their initial data.
\<close>

section \<open>Data types of expressions\<close>

definition adt_field_info :: "codegen \<Rightarrow> rstring \<Rightarrow> rstring \<Rightarrow> (i32 \<times> ltype) option" where
  "adt_field_info cg adt_name field_name =
    Option.bind (hm_get (cg_adt_layouts cg) adt_name) (\<lambda>layout.
      map_option (\<lambda>(ty, off). (off, ty)) (map_of layout field_name))"

primrec adt_name_for_type :: "ltype \<Rightarrow> rstring option" where
  "adt_name_for_type (T_Named q) = Some (qn_name q)"
| "adt_name_for_type (T_Ref inner) = adt_name_for_type inner"
| "adt_name_for_type (T_Basic _) = None"
| "adt_name_for_type (T_Array _) = None"
| "adt_name_for_type (T_List _) = None"
| "adt_name_for_type (T_Chan _) = None"
| "adt_name_for_type (T_BufChan _ _) = None"
| "adt_name_for_type (T_Tuple _) = None"
| "adt_name_for_type (T_Func _) = None"
| "adt_name_for_type (T_Module _) = None"

definition adt_method_sig :: "codegen \<Rightarrow> rstring \<Rightarrow> rstring \<Rightarrow> ltype func_sig option" where
  "adt_method_sig cg a method = Option.bind (hm_get (cg_adt_methods cg) a) (\<lambda>ms. hm_get ms method)"

function array_elem_type_for_expr :: "codegen \<Rightarrow> expr \<Rightarrow> ltype option" where
  "array_elem_type_for_expr cg e =
    (case e of
       E_Ident name _ \<Rightarrow> hm_get (cg_local_array_elem cg) name
     | E_Index inner_arr _ _ \<Rightarrow>
         Option.bind (array_elem_type_for_expr cg inner_arr) (\<lambda>t. case t of T_Array elem \<Rightarrow> Some elem | _ \<Rightarrow> None)
     | _ \<Rightarrow> None)"
  by pat_completeness auto
termination by (relation "measure (\<lambda>(_, e). esize e)") auto

declare array_elem_type_for_expr.simps [simp del]

definition chan_elem_of :: "ltype \<Rightarrow> ltype option" where
  "chan_elem_of ty = (case ty of T_Chan e \<Rightarrow> Some e | T_BufChan _ e \<Rightarrow> Some e | _ \<Rightarrow> None)"

text \<open>
  A value is reached through variables, fields, elements, messages and calls, and a call of a method
  through the value it is called on.
\<close>

function adt_name_for_expr :: "codegen \<Rightarrow> expr \<Rightarrow> rstring option"
  and chan_elem_type :: "codegen \<Rightarrow> expr \<Rightarrow> ltype option"
  and adt_name_from_call :: "codegen \<Rightarrow> expr \<Rightarrow> rstring option"
  and adt_method_target :: "codegen \<Rightarrow> expr \<Rightarrow> rstring \<Rightarrow> (rstring \<times> bool) option" where
  "adt_name_for_expr cg e =
    (case e of
       E_Ident name _ \<Rightarrow> hm_get (cg_local_adt_type cg) name
     | E_Dot inner field _ \<Rightarrow>
         Option.bind (adt_name_for_expr cg inner) (\<lambda>outer.
         Option.bind (adt_field_info cg outer field) (\<lambda>(_, ty). adt_name_for_type ty))
     | E_Index arr _ _ \<Rightarrow> Option.bind (array_elem_type_for_expr cg arr) adt_name_for_type
     | E_Recv chan _ \<Rightarrow> Option.bind (chan_elem_type cg chan) adt_name_for_type
     | E_Call _ _ _ \<Rightarrow> adt_name_from_call cg e
     | _ \<Rightarrow> None)"
| "chan_elem_type cg chan =
    (case chan of
       E_Ident name _ \<Rightarrow> hm_get (cg_local_chan_elem cg) name
     | E_ChanAlloc ty _ \<Rightarrow> Some ty
     | E_Dot inner field _ \<Rightarrow>
         Option.bind (adt_name_for_expr cg inner) (\<lambda>a.
         Option.bind (adt_field_info cg a field) (\<lambda>(_, t). chan_elem_of t))
     | _ \<Rightarrow> None)"
| "adt_name_from_call cg e =
    (case e of
       E_Call callee _ _ \<Rightarrow>
         (case callee of
            E_ModQual module name _ \<Rightarrow>
              (case module of
                 E_Ident handle _ \<Rightarrow>
                   (case handle_member cg handle name of
                      Some (SYM_Func ty) \<Rightarrow> Option.bind (ft_ret ty) resolved_adt_name
                    | _ \<Rightarrow> None)
               | _ \<Rightarrow> None)
          | E_Dot obj method _ \<Rightarrow>
              Option.bind (adt_method_target cg obj method) (\<lambda>(a, _).
              Option.bind (adt_method_sig cg a method) (\<lambda>s. Option.bind (sig_ret s) adt_name_for_type))
          | E_Ident name _ \<Rightarrow> Option.bind (hm_get (cg_func_ret_types cg) name) adt_name_for_type
          | _ \<Rightarrow> None)
     | _ \<Rightarrow> None)"
| "adt_method_target cg obj method =
    (let direct = (case obj of
           E_Ident name _ \<Rightarrow>
             if adt_method_sig cg name method \<noteq> None \<and> lookup_var cg name = None then Some name else None
         | _ \<Rightarrow> None) in
     case direct of
       Some name \<Rightarrow> Some (name, False)
     | None \<Rightarrow>
         Option.bind (adt_name_for_expr cg obj) (\<lambda>a.
         Option.bind (adt_method_sig cg a method) (\<lambda>s.
           Some (a, (case sig_params s of p # _ \<Rightarrow> prm_is_self p | [] \<Rightarrow> False)))))"
  by pat_completeness auto
termination
  by (relation "measure (\<lambda>x. case x of
      Inl (Inl (_, e)) \<Rightarrow> 2 * esize e + 1 | Inl (Inr (_, e)) \<Rightarrow> 2 * esize e + 1
    | Inr (Inl (_, e)) \<Rightarrow> 2 * esize e | Inr (Inr (_, e, _)) \<Rightarrow> 2 * esize e + 2)") auto

declare adt_name_for_expr.simps [simp del] chan_elem_type.simps [simp del]
  adt_name_from_call.simps [simp del] adt_method_target.simps [simp del]

text \<open>The declared type of \<open>inner.field\<close>.\<close>

definition field_info_for_expr :: "codegen \<Rightarrow> expr \<Rightarrow> rstring \<Rightarrow> (i32 \<times> ltype) option" where
  "field_info_for_expr cg inner field =
    Option.bind (adt_name_for_expr cg inner) (\<lambda>a. adt_field_info cg a field)"

definition array_elem_basic_for_expr :: "codegen \<Rightarrow> expr \<Rightarrow> basic_type option" where
  "array_elem_basic_for_expr cg e = Option.bind (array_elem_type_for_expr cg e) type_basic"

definition array_elem_type_of :: "codegen \<Rightarrow> expr \<Rightarrow> ltype option" where
  "array_elem_type_of cg arr =
    (case arr of E_Ident name _ \<Rightarrow> hm_get (cg_local_array_elem cg) name | _ \<Rightarrow> None)"

section \<open>Results of calls\<close>

definition module_call_num_kind :: "codegen \<Rightarrow> rstring \<Rightarrow> rstring \<Rightarrow> num_kind" where
  "module_call_num_kind cg handle func =
    (case handle_member cg handle func of
       Some (SYM_Func ty) \<Rightarrow> (case ft_ret ty of Some r \<Rightarrow> resolved_num_kind r | None \<Rightarrow> NK_Word)
     | _ \<Rightarrow> sys_return_kind func)"

definition module_call_val_type :: "codegen \<Rightarrow> rstring \<Rightarrow> rstring \<Rightarrow> val_type" where
  "module_call_val_type cg handle func =
    (case handle_member cg handle func of
       Some (SYM_Func ty) \<Rightarrow> (case ft_ret ty of Some r \<Rightarrow> resolved_val_type r | None \<Rightarrow> VT_Word)
     | _ \<Rightarrow> sys_return_val_type func)"

definition adt_method_num_kind :: "codegen \<Rightarrow> rstring \<Rightarrow> rstring \<Rightarrow> num_kind" where
  "adt_method_num_kind cg a method =
    unwrap_or NK_Word (map_option type_num_kind (Option.bind (adt_method_sig cg a method) sig_ret))"

definition basic_num_kind :: "basic_type option \<Rightarrow> num_kind" where
  "basic_num_kind b = (case b of Some b \<Rightarrow> type_num_kind (T_Basic b) | None \<Rightarrow> NK_Word)"

definition is_truth_op :: "bin_op \<Rightarrow> bool" where
  "is_truth_op op \<longleftrightarrow> op \<in> {BO_Eq, BO_Neq, BO_Lt, BO_Gt, BO_Leq, BO_Geq, BO_LogAnd, BO_LogOr}"

section \<open>Numeric width and storage class\<close>

definition call_num_kind :: "codegen \<Rightarrow> expr \<Rightarrow> num_kind" where
  "call_num_kind cg callee =
    (case callee of
       E_Ident name _ \<Rightarrow> (case map_of (cg_func_table cg) name of Some (_, _, k) \<Rightarrow> k | None \<Rightarrow> NK_Word)
     | E_ModQual module name _ \<Rightarrow>
         (case module of E_Ident handle _ \<Rightarrow> module_call_num_kind cg handle name | _ \<Rightarrow> NK_Word)
     | E_Dot obj method _ \<Rightarrow>
         (case adt_method_target cg obj method of
            Some (a, _) \<Rightarrow> adt_method_num_kind cg a method | None \<Rightarrow> NK_Word)
     | _ \<Rightarrow> NK_Word)"

function infer_num_kind :: "codegen \<Rightarrow> expr \<Rightarrow> num_kind" where
  "infer_num_kind cg e =
    (case e of
       E_IntLit v _ \<Rightarrow> if is_big_int v then NK_Big else NK_Word
     | E_RealLit _ _ \<Rightarrow> NK_Real
     | E_CharLit _ _ \<Rightarrow> NK_Word
     | E_Ident name _ \<Rightarrow>
         (case lookup_var cg name of
            Some (_, _, kind) \<Rightarrow> kind
          | None \<Rightarrow> (case const_value_of cg name of Some (Inr v) \<Rightarrow> co_num_kind v | _ \<Rightarrow> NK_Word))
     | E_Assign _ rhs _ \<Rightarrow> infer_num_kind cg rhs
     | E_DeclAssign _ rhs _ \<Rightarrow> infer_num_kind cg rhs
     | E_CompoundAssign _ _ rhs _ \<Rightarrow> infer_num_kind cg rhs
     | E_PostInc inner _ \<Rightarrow> infer_num_kind cg inner
     | E_PostDec inner _ \<Rightarrow> infer_num_kind cg inner
     | E_Cast ty _ _ \<Rightarrow> type_num_kind ty
     | E_Unary _ inner _ \<Rightarrow> infer_num_kind cg inner
     | E_Binary lhs op rhs _ \<Rightarrow>
         if is_truth_op op then NK_Word else max (infer_num_kind cg lhs) (infer_num_kind cg rhs)
     | E_Len _ _ \<Rightarrow> NK_Word
     | E_Call callee _ _ \<Rightarrow> call_num_kind cg callee
     | E_Index arr _ _ \<Rightarrow> basic_num_kind (array_elem_basic_for_expr cg arr)
     | E_Recv chan _ \<Rightarrow>
         (case chan of
            E_Ident name _ \<Rightarrow>
              (case hm_get (cg_local_chan_elem cg) name of Some t \<Rightarrow> type_num_kind t | None \<Rightarrow> NK_Word)
          | _ \<Rightarrow> NK_Word)
     | E_Dot inner field _ \<Rightarrow>
         (case field_info_for_expr cg inner field of Some (_, t) \<Rightarrow> type_num_kind t | None \<Rightarrow> NK_Word)
     | _ \<Rightarrow> NK_Word)"
  by pat_completeness auto
termination by (relation "measure (\<lambda>(_, e). esize e)") auto

declare infer_num_kind.simps [simp del]

definition call_val_type :: "codegen \<Rightarrow> expr \<Rightarrow> val_type" where
  "call_val_type cg callee =
    (case callee of
       E_ModQual module name _ \<Rightarrow>
         (case module of E_Ident handle _ \<Rightarrow> module_call_val_type cg handle name | _ \<Rightarrow> VT_Word)
     | E_Dot obj method _ \<Rightarrow>
         (case Option.bind (adt_method_target cg obj method) (\<lambda>(a, _).
             Option.bind (adt_method_sig cg a method) sig_ret) of
            Some ty \<Rightarrow> val_type_of ty | None \<Rightarrow> VT_Word)
     | _ \<Rightarrow> VT_Word)"

text \<open>The storage class of a field or an element: a string counts as a word here.\<close>

definition part_val_type :: "ltype option \<Rightarrow> val_type" where
  "part_val_type ty = (case ty of
      Some (T_Basic _) \<Rightarrow> VT_Word | Some (T_Array _) \<Rightarrow> VT_Array | Some _ \<Rightarrow> VT_Ptr | None \<Rightarrow> VT_Word)"

function infer_expr_type :: "codegen \<Rightarrow> expr \<Rightarrow> val_type" where
  "infer_expr_type cg e =
    (case e of
       E_IntLit _ _ \<Rightarrow> VT_Word
     | E_CharLit _ _ \<Rightarrow> VT_Word
     | E_RealLit _ _ \<Rightarrow> VT_Word
     | E_StringLit _ _ \<Rightarrow> VT_Ptr
     | E_Nil _ \<Rightarrow> VT_Ptr
     | E_Ident name _ \<Rightarrow>
         (case lookup_var cg name of
            Some (_, ty, _) \<Rightarrow> ty
          | None \<Rightarrow> (case const_value_of cg name of Some (Inr v) \<Rightarrow> co_val_type v | _ \<Rightarrow> VT_Word))
     | E_Assign _ rhs _ \<Rightarrow> infer_expr_type cg rhs
     | E_DeclAssign _ rhs _ \<Rightarrow> infer_expr_type cg rhs
     | E_CompoundAssign _ _ rhs _ \<Rightarrow> infer_expr_type cg rhs
     | E_PostInc inner _ \<Rightarrow> infer_expr_type cg inner
     | E_PostDec inner _ \<Rightarrow> infer_expr_type cg inner
     | E_Binary lhs op _ _ \<Rightarrow>
         if is_truth_op op then VT_Word
         else if op = BO_Add then (if infer_expr_type cg lhs = VT_Ptr then VT_Ptr else VT_Word)
         else VT_Word
     | E_Hd _ _ \<Rightarrow> VT_Ptr
     | E_Tl _ _ \<Rightarrow> VT_Ptr
     | E_Len _ _ \<Rightarrow> VT_Word
     | E_Dot inner field _ \<Rightarrow> part_val_type (map_option snd (field_info_for_expr cg inner field))
     | E_Index arr _ _ \<Rightarrow> part_val_type (array_elem_type_for_expr cg arr)
     | E_Load _ _ _ \<Rightarrow> VT_Ptr
     | E_Call callee _ _ \<Rightarrow> call_val_type cg callee
     | E_Cons _ _ _ \<Rightarrow> VT_Ptr
     | E_ArrayAlloc _ _ _ \<Rightarrow> VT_Array
     | E_ArrayLit _ _ _ _ \<Rightarrow> VT_Array
     | E_ChanAlloc _ _ \<Rightarrow> VT_Ptr
     | E_ListLit _ _ \<Rightarrow> VT_Ptr
     | E_Cast ty _ _ \<Rightarrow> val_type_of ty
     | _ \<Rightarrow> VT_Word)"
  by pat_completeness auto
termination by (relation "measure (\<lambda>(_, e). esize e)") auto

declare infer_expr_type.simps [simp del]

text \<open>The opcode that moves a value of this kind and class.\<close>

definition infer_decl_type :: "codegen \<Rightarrow> (expr, ltype) var_decl \<Rightarrow> val_type" where
  "infer_decl_type cg v =
    (case vd_ty v of
       Some ty \<Rightarrow> if type_is_word ty then VT_Word else VT_Ptr
     | None \<Rightarrow> (case vd_init v of Some init \<Rightarrow> infer_expr_type cg init | None \<Rightarrow> VT_Word))"

definition decl_num_kind :: "codegen \<Rightarrow> (expr, ltype) var_decl \<Rightarrow> num_kind" where
  "decl_num_kind cg v =
    (case vd_ty v of
       Some ty \<Rightarrow> type_num_kind ty
     | None \<Rightarrow> (case vd_init v of Some init \<Rightarrow> infer_num_kind cg init | None \<Rightarrow> NK_Word))"

definition infer_param_type :: "ltype param \<Rightarrow> val_type" where
  "infer_param_type p = val_type_of (prm_ty p)"

section \<open>Tuples\<close>

definition tuple_of :: "ltype option \<Rightarrow> ltype list option" where
  "tuple_of ty = (case ty of Some (T_Tuple ftys) \<Rightarrow> Some ftys | _ \<Rightarrow> None)"

function tuple_fields_of :: "codegen \<Rightarrow> expr \<Rightarrow> ltype list option"
  and tuple_field_type :: "codegen \<Rightarrow> expr \<Rightarrow> ltype" where
  "tuple_fields_of cg e =
    (case e of
       E_Tuple elems _ \<Rightarrow> Some (map (tuple_field_type cg) elems)
     | E_Ident name _ \<Rightarrow> hm_get (cg_local_tuple cg) name
     | E_Call callee _ _ \<Rightarrow> (case callee of E_Ident n _ \<Rightarrow> hm_get (cg_func_tuple_ret cg) n | _ \<Rightarrow> None)
     | E_Recv chan _ \<Rightarrow> tuple_of (chan_elem_type cg chan)
     | E_Index arr _ _ \<Rightarrow> tuple_of (array_elem_type_of cg arr)
     | E_Dot inner field _ \<Rightarrow>
         (case (tuple_fields_of cg inner, tuple_field_index field) of
            (Some ftys, Some n) \<Rightarrow> tuple_of (map_option fst (tuple_field (compute_tuple_layout ftys) n))
          | _ \<Rightarrow> tuple_of (map_option snd (field_info_for_expr cg inner field)))
     | E_TupleDeclAssign _ rhs _ \<Rightarrow> tuple_fields_of cg rhs
     | E_DeclAssign _ rhs _ \<Rightarrow> tuple_fields_of cg rhs
     | E_Assign _ rhs _ \<Rightarrow> tuple_fields_of cg rhs
     | _ \<Rightarrow> None)"
| "tuple_field_type cg e =
    (case tuple_fields_of cg e of
       Some ftys \<Rightarrow> T_Tuple ftys
     | None \<Rightarrow>
         (case infer_num_kind cg e of
            NK_Big \<Rightarrow> T_Basic BT_Big
          | NK_Real \<Rightarrow> T_Basic BT_Real
          | NK_Word \<Rightarrow> if infer_expr_type cg e = VT_Word then T_Basic BT_Int else T_Basic BT_String))"
  by pat_completeness auto
termination
proof (relation "measure (\<lambda>x. case x of Inl (_, e) \<Rightarrow> 2 * esize e | Inr (_, e) \<Rightarrow> 2 * esize e + 1)")
  fix cg e elems sp y
  assume "e = E_Tuple elems sp" "y \<in> set elems"
  then show "(Inr (cg, y), Inl (cg, e)) \<in> measure (\<lambda>x. case x of
      Inl (_, e) \<Rightarrow> 2 * esize e | Inr (_, e) \<Rightarrow> 2 * esize e + 1)"
    using member_le_sum_list [of "esize y" "map esize elems"] by simp
qed auto

declare tuple_fields_of.simps [simp del] tuple_field_type.simps [simp del]

definition tuple_layout_of :: "codegen \<Rightarrow> expr \<Rightarrow> tuple_layout option" where
  "tuple_layout_of cg e = map_option compute_tuple_layout (tuple_fields_of cg e)"

section \<open>Module-level variables\<close>

record const_array =
  ca_elem :: elem_kind
  ca_len :: i32
  ca_values :: "const_val list"

text \<open>The indices an element names; \<open>None\<close> where one is no constant.\<close>

definition const_int :: "rstring + const_val \<Rightarrow> i64 option" where
  "const_int r = (case r of Inr (CO_Int n) \<Rightarrow> Some n | _ \<Rightarrow> None)"

definition index_range :: "i64 \<Rightarrow> i64 \<Rightarrow> int list" where
  "index_range lo hi = [sint lo..sint hi]"

fun selected_indices :: "(expr \<Rightarrow> rstring + const_val) \<Rightarrow> (expr \<times> expr option) list \<Rightarrow> int list option" where
  "selected_indices fc [] = Some []"
| "selected_indices fc ((lo, hi) # sels) =
    Option.bind (const_int (fc lo)) (\<lambda>lo.
    Option.bind (case hi of None \<Rightarrow> Some [sint lo] | Some hi \<Rightarrow> map_option (index_range lo) (const_int (fc hi))) (\<lambda>is.
    map_option (\<lambda>js. is @ js) (selected_indices fc sels)))"

record placed_elems =
  pe_placed :: "(nat \<times> const_val) list"
  pe_default :: "const_val option"
  pe_next :: nat
  pe_high :: nat

definition place_index :: "const_val \<Rightarrow> int \<Rightarrow> placed_elems \<Rightarrow> placed_elems option" where
  "place_index v i p =
    (if i < 0 then None
     else Some (p\<lparr>pe_placed := pe_placed p @ [(nat i, v)], pe_next := nat i + 1,
                  pe_high := max (pe_high p) (nat i + 1)\<rparr>))"

fun place_indices :: "const_val \<Rightarrow> int list \<Rightarrow> placed_elems \<Rightarrow> placed_elems option" where
  "place_indices v [] p = Some p"
| "place_indices v (i # is) p = Option.bind (place_index v i p) (place_indices v is)"

definition place_elem :: "(expr \<Rightarrow> rstring + const_val) \<Rightarrow> expr array_elem \<Rightarrow> placed_elems \<Rightarrow> placed_elems option" where
  "place_elem fc e p =
    (case fc (ae_value e) of
       Inl _ \<Rightarrow> None
     | Inr v \<Rightarrow>
         (case ae_index e of
            None \<Rightarrow> place_indices v [int (pe_next p)] p
          | Some (AI_Selectors sels) \<Rightarrow>
              Option.bind (selected_indices fc sels) (\<lambda>is. place_indices v is p)
          | Some AI_Wildcard \<Rightarrow> Some (p\<lparr>pe_default := Some v\<rparr>)))"

fun place_elems :: "(expr \<Rightarrow> rstring + const_val) \<Rightarrow> expr array_elem list \<Rightarrow> placed_elems \<Rightarrow> placed_elems option" where
  "place_elems fc [] p = Some p"
| "place_elems fc (e # es) p = Option.bind (place_elem fc e p) (place_elems fc es)"

definition placed_values :: "nat \<Rightarrow> placed_elems \<Rightarrow> const_val list" where
  "placed_values len p =
    fold (\<lambda>(i, v) vs. vs[i := v]) (pe_placed p) (replicate len (unwrap_or (CO_Int 0) (pe_default p)))"

definition const_array_lit :: "(expr \<Rightarrow> rstring + const_val) \<Rightarrow> expr option \<Rightarrow> expr array_elem list \<Rightarrow>
    ltype option \<Rightarrow> rstring + const_array option" where
  "const_array_lit fc sz elems ty =
    (case place_elems fc elems \<lparr>pe_placed = [], pe_default = None, pe_next = 0, pe_high = 0\<rparr> of
       None \<Rightarrow> Inr None
     | Some p \<Rightarrow>
         (let len = (case sz of
                None \<Rightarrow> Some (pe_high p)
              | Some e \<Rightarrow> Option.bind (const_int (fc e)) (\<lambda>n. if sint n < 0 then None else Some (nat (sint n)))) in
          case len of
            None \<Rightarrow> Inr None
          | Some len \<Rightarrow>
              if list_ex (\<lambda>(i, _). len \<le> i) (pe_placed p)
              then Inl (rstr ''array initialiser index is outside the array'')
              else
                (let values = placed_values len p;
                     elem = (case ty of
                         Some t \<Rightarrow> ek_of t
                       | None \<Rightarrow>
                           if elems \<noteq> [] \<and> list_all (\<lambda>e. is_byte_cast (ae_value e)) elems then EK_Byte
                           else ek_of_values values) in
                 Inr (Some \<lparr>ca_elem = elem, ca_len = of_nat len, ca_values = values\<rparr>))))"

definition const_array_of :: "(expr \<Rightarrow> rstring + const_val) \<Rightarrow> expr \<Rightarrow> ltype option \<Rightarrow> rstring + const_array option" where
  "const_array_of fc e declared_elem =
    (case e of
       E_ArrayAlloc sz ty _ \<Rightarrow>
         (case const_int (fc sz) of
            None \<Rightarrow> Inr None
          | Some len \<Rightarrow>
              if is_big_int len then Inl (rstr ''array size is out of range'')
              else if sint len < 0 then Inl (rstr ''array size is negative'')
              else Inr (Some \<lparr>ca_elem = ek_of (unwrap_or ty declared_elem), ca_len = ucast len, ca_values = []\<rparr>))
     | E_ArrayLit sz elems ty _ \<Rightarrow>
         const_array_lit fc sz elems (case declared_elem of Some t \<Rightarrow> Some t | None \<Rightarrow> ty)
     | _ \<Rightarrow> Inr None)"

definition string_elem :: "nat \<Rightarrow> const_val \<Rightarrow> data_item option" where
  "string_elem i v = (case v of CO_Str s \<Rightarrow> Some (DI_String (of_nat i * 4) s) | _ \<Rightarrow> None)"

definition array_image :: "const_array \<Rightarrow> data_item list" where
  "array_image a =
    (case ca_elem a of
       EK_Byte \<Rightarrow> [DI_Bytes 0 (map const_byte (ca_values a))]
     | EK_Word \<Rightarrow> [DI_Words 0 (map const_word (ca_values a))]
     | EK_Big \<Rightarrow> [DI_Bigs 0 (map const_big (ca_values a))]
     | EK_Real \<Rightarrow> [DI_Reals 0 (map const_real (ca_values a))]
     | EK_Ptr \<Rightarrow> List.map_filter (\<lambda>(i, v). string_elem i v) (enumerate 0 (ca_values a)))"

definition emit_const_array :: "i32 \<Rightarrow> const_array \<Rightarrow> unit cg" where
  "emit_const_array off a = asks (\<lambda>cg. length (cg_data cg)) (\<lambda>item.
    do_all [
      push_data (DI_Array off 0 (ca_len a)),
      updates (\<lambda>cg. cg\<lparr>cg_pending_array_elem_types := cg_pending_array_elem_types cg @ [(item, ca_elem a)]\<rparr>),
      if ca_values a = [] then ret ()
      else do_all [push_data (DI_SetArray off 0), for_each (array_image a) push_data,
        push_data DI_RestoreBase]])"

definition global_slot :: "rstring \<Rightarrow> val_type \<Rightarrow> num_kind \<Rightarrow> i32 cg" where
  "global_slot name ty kind = asks (\<lambda>cg. lookup_global cg name) (\<lambda>found. case found of
      Some off \<Rightarrow> ret off
    | None \<Rightarrow> sbind (alloc_mp (nk_byte_size kind)) (\<lambda>off.
        and_do (updates (\<lambda>cg. cg\<lparr>cg_globals := cg_globals cg @ [(name, off, ty, kind)]\<rparr>)) (ret off)))"

text \<open>What a declaration says about the elements and the data type of the variable it declares.\<close>

definition note_array_elem :: "rstring \<Rightarrow> ltype \<Rightarrow> codegen \<Rightarrow> codegen" where
  "note_array_elem name t cg = cg\<lparr>cg_local_array_elem := hm_insert name t (cg_local_array_elem cg)\<rparr>"

definition note_chan_elem :: "rstring \<Rightarrow> ltype \<Rightarrow> codegen \<Rightarrow> codegen" where
  "note_chan_elem name t cg = cg\<lparr>cg_local_chan_elem := hm_insert name t (cg_local_chan_elem cg)\<rparr>"

definition note_adt :: "rstring \<Rightarrow> rstring \<Rightarrow> codegen \<Rightarrow> codegen" where
  "note_adt name a cg = cg\<lparr>cg_local_adt_type := hm_insert name a (cg_local_adt_type cg)\<rparr>"

definition note_tuple :: "rstring \<Rightarrow> ltype list \<Rightarrow> codegen \<Rightarrow> codegen" where
  "note_tuple name ftys cg = cg\<lparr>cg_local_tuple := hm_insert name ftys (cg_local_tuple cg)\<rparr>"

definition note_opt :: "('a \<Rightarrow> codegen \<Rightarrow> codegen) \<Rightarrow> 'a option \<Rightarrow> codegen \<Rightarrow> codegen" where
  "note_opt f x cg = (case x of Some y \<Rightarrow> f y cg | None \<Rightarrow> cg)"

definition note_decl :: "(expr, ltype) var_decl \<Rightarrow> rstring \<Rightarrow> unit cg" where
  "note_decl v name = updates (\<lambda>cg.
    note_module_handle name (vd_ty v) (vd_init v)
      (note_opt (note_adt name) (Option.bind (vd_ty v) adt_name_for_type)
        (note_opt (note_chan_elem name) (decl_chan_elem_type v)
          (note_opt (note_array_elem name) (decl_array_elem_type v) cg))))"

definition global_data :: "num_kind \<Rightarrow> i32 \<Rightarrow> const_val \<Rightarrow> data_item" where
  "global_data kind off v =
    (case v of
       CO_Int n \<Rightarrow> if kind = NK_Big then DI_Bigs off [n] else DI_Words off [ucast n]
     | CO_Real r \<Rightarrow> DI_Reals off [r]
     | CO_Str s \<Rightarrow> DI_String off s)"

definition defer_global_init :: "nan_choice \<Rightarrow> (expr, ltype) var_decl \<Rightarrow> rstring \<Rightarrow> i32 \<Rightarrow> expr \<Rightarrow> unit cg" where
  "defer_global_init nan v name off e =
    asks (\<lambda>cg. const_array_of (\<lambda>x. fold_const nan cg x 0) e (decl_array_elem_type v)) (\<lambda>folded.
    sbind (cg_result folded) (\<lambda>image. case image of
        Some a \<Rightarrow> do_all [
          if decl_array_elem_type v = None
          then updates (note_array_elem name (T_Basic (ek_basic (ca_elem a)))) else ret (),
          emit_const_array off a]
      | None \<Rightarrow> updates (\<lambda>cg. cg\<lparr>cg_pending_global_inits := cg_pending_global_inits cg @ [(name, e)]\<rparr>)))"

definition declare_global :: "nan_choice \<Rightarrow> (expr, ltype) var_decl \<Rightarrow> unit cg" where
  "declare_global nan v =
    asks (\<lambda>cg. infer_decl_type cg v) (\<lambda>ty.
    asks (\<lambda>cg. decl_num_kind cg v) (\<lambda>kind.
    asks (\<lambda>cg. case vd_init v of
        Some e \<Rightarrow> (case fold_const nan cg e 0 of Inr c \<Rightarrow> Some c | Inl _ \<Rightarrow> None) | None \<Rightarrow> None) (\<lambda>init.
    for_each (vd_names v) (\<lambda>name.
      if name = rstr ''nil'' then ret ()
      else sbind (global_slot name ty kind) (\<lambda>off.
        do_all [
          note_decl v name,
          (case (init, vd_init v) of
             (None, Some e) \<Rightarrow> defer_global_init nan v name off e
           | _ \<Rightarrow> ret ()),
          when_some init (\<lambda>c. push_data (global_data kind off c))])))))"

definition collect_globals :: "nan_choice \<Rightarrow> source_file \<Rightarrow> unit cg" where
  "collect_globals nan file = for_each (sf_decls file) (\<lambda>d.
    case d of
      D_Var v \<Rightarrow> declare_global nan v
    | D_Module m \<Rightarrow>
        if implemented file = Some (md_name m)
        then for_each (md_members m) (\<lambda>member. case member of MM_Var v \<Rightarrow> declare_global nan v | _ \<Rightarrow> ret ())
        else ret ()
    | _ \<Rightarrow> ret ())"

end
