(* ===== verification/CodeGenExpr.thy ===== *)
theory CodeGenExpr
  imports CodeGenTypes Parser
begin

unbundle bit_operations_syntax

text \<open>
  The translation of expressions (\<open>codegen.rs\<close>). Every function that translates a part of an
  expression takes the functions for the whole as arguments: \<open>to e dst\<close> leaves the value of \<open>e\<close> in the
  frame at \<open>dst\<close> (\<open>gen_expr_to\<close>), \<open>disc e\<close> runs \<open>e\<close> for its effects (\<open>gen_expr_discard\<close>). The two are
  tied together in \<open>CodeGenValues\<close>, with a bound on the depth.
\<close>

section \<open>Messages\<close>

definition describe_expr_kind :: "expr \<Rightarrow> rstring" where
  "describe_expr_kind e = rstr (case e of
      E_ArrayLit _ _ _ _ \<Rightarrow> ''an array literal outside a declaration''
    | E_Tuple _ _ \<Rightarrow> ''a tuple value''
    | E_TupleDeclAssign _ _ _ \<Rightarrow> ''a tuple `:=` used as an expression''
    | E_Tagof _ _ \<Rightarrow> ''`tagof`''
    | E_Slice _ _ _ _ \<Rightarrow> ''slicing''
    | _ \<Rightarrow> ''this expression'')"

definition unsupported_call_target :: "expr \<Rightarrow> rstring" where
  "unsupported_call_target callee = (case callee of
      E_Dot _ method _ \<Rightarrow>
        rstr ''calling the ADT function member '' @ quoted method @ rstr '' is not supported yet''
    | E_Index _ _ _ \<Rightarrow> rstr ''calling a function held in an array element is not supported yet''
    | _ \<Rightarrow> rstr ''unsupported call target'')"

definition out_of_tuple :: "rstring \<Rightarrow> tuple_layout \<Rightarrow> rstring" where
  "out_of_tuple field layout = rstr ''`.'' @ field @ rstr ''` is out of range for a '' @
    show_nat (length (tl_fields layout)) @ rstr ''-field tuple''"

text \<open>A clean-up that runs whether or not the operation succeeds, and \<open>Result::ok\<close>.\<close>

definition cg_finally :: "'a cg \<Rightarrow> (codegen \<Rightarrow> codegen) \<Rightarrow> 'a cg" where
  "cg_finally m f = (\<lambda>cg. let (r, cg) = m cg in (r, f cg))"

definition cg_ignore_err :: "unit cg \<Rightarrow> unit cg" where
  "cg_ignore_err m = (\<lambda>cg. case m cg of (Inl (CompileError _), cg) \<Rightarrow> (Inr (), cg) | r \<Rightarrow> r)"

section \<open>Moving values\<close>

definition copy_leaf :: "ltype \<Rightarrow> i32 \<Rightarrow> i32 \<Rightarrow> unit cg" where
  "copy_leaf ty src dst = (if src = dst then ret ()
    else emit (mov_opcode_for_type ty) (op_fp src) mid_unused (op_fp dst))"

definition copy_parts :: "((i32 \<Rightarrow> i32 \<Rightarrow> unit cg) \<times> i32) list \<Rightarrow> i32 \<Rightarrow> i32 \<Rightarrow> unit cg" where
  "copy_parts parts src dst = (if src = dst then ret ()
    else for_each parts (\<lambda>(cp, off). cp (src + off) (dst + off)))"

primrec copy_value :: "ltype \<Rightarrow> i32 \<Rightarrow> i32 \<Rightarrow> unit cg" where
  "copy_value (T_Tuple ftys) =
    copy_parts (zip (map copy_value ftys) (map snd (tl_fields (compute_tuple_layout ftys))))"
| "copy_value (T_Basic b) = copy_leaf (T_Basic b)"
| "copy_value (T_Array t) = copy_leaf (T_Array t)"
| "copy_value (T_List t) = copy_leaf (T_List t)"
| "copy_value (T_Chan t) = copy_leaf (T_Chan t)"
| "copy_value (T_BufChan n t) = copy_leaf (T_BufChan n t)"
| "copy_value (T_Ref t) = copy_leaf (T_Ref t)"
| "copy_value (T_Func s) = copy_leaf (T_Func s)"
| "copy_value (T_Named q) = copy_leaf (T_Named q)"
| "copy_value (T_Module m) = copy_leaf (T_Module m)"

definition declare_local_of_type :: "rstring \<Rightarrow> ltype \<Rightarrow> i32 cg" where
  "declare_local_of_type name ty =
    (case ty of
       T_Tuple ftys \<Rightarrow>
         sbind (alloc_local_block name (tl_size (compute_tuple_layout ftys))) (\<lambda>off.
         and_do (updates (note_tuple name ftys)) (ret off))
     | _ \<Rightarrow> alloc_local name (val_type_of ty) (type_num_kind ty))"

type_synonym gen_to = "expr \<Rightarrow> i32 \<Rightarrow> unit cg"
type_synonym gen_disc = "expr \<Rightarrow> unit cg"

definition convert_opcode :: "num_kind \<Rightarrow> num_kind \<Rightarrow> opcode option" where
  "convert_opcode inner target =
    (case (inner, target) of
       (NK_Word, NK_Big) \<Rightarrow> Some Op_Cvtwl | (NK_Word, NK_Real) \<Rightarrow> Some Op_Cvtwf
     | (NK_Big, NK_Word) \<Rightarrow> Some Op_Cvtlw | (NK_Big, NK_Real) \<Rightarrow> Some Op_Cvtlf
     | (NK_Real, NK_Word) \<Rightarrow> Some Op_Cvtfw | (NK_Real, NK_Big) \<Rightarrow> Some Op_Cvtfl
     | _ \<Rightarrow> None)"

definition gen_expr_to_kind :: "gen_to \<Rightarrow> expr \<Rightarrow> i32 \<Rightarrow> num_kind \<Rightarrow> unit cg" where
  "gen_expr_to_kind to e dst target = asks (\<lambda>cg. infer_num_kind cg e) (\<lambda>inner.
    if inner = target then to e dst
    else sbind (alloc_temp_for inner) (\<lambda>tmp. and_do (to e tmp)
      (case convert_opcode inner target of
         Some cvt \<Rightarrow> emit cvt (op_fp tmp) mid_unused (op_fp dst)
       | None \<Rightarrow> to e dst)))"

section \<open>Conditions\<close>

definition is_nil :: "expr \<Rightarrow> bool" where
  "is_nil e = (case e of E_Nil _ \<Rightarrow> True | _ \<Rightarrow> False)"

definition gen_nil_test :: "gen_to \<Rightarrow> expr \<Rightarrow> i32 \<Rightarrow> unit cg" where
  "gen_nil_test to lhs dst = sbind alloc_temp (\<lambda>tmp.
    and_do (to lhs tmp) (and_do (emit Op_Movw (op_imm 1) mid_unused (op_fp dst))
    (sbind (emit_at Op_Beqw (op_fp tmp) (mid_imm 0) (op_imm 0)) (\<lambda>skip.
      do_all [emit Op_Movw (op_imm 0) mid_unused (op_fp dst), patch_here skip]))))"

definition gen_cond_to :: "gen_to \<Rightarrow> expr \<Rightarrow> i32 \<Rightarrow> unit cg" where
  "gen_cond_to to e dst =
    (case e of
       E_Binary lhs op rhs _ \<Rightarrow>
         if op = BO_Neq \<and> is_nil rhs then to lhs dst
         else if op = BO_Eq \<and> is_nil rhs then gen_nil_test to lhs dst
         else if op = BO_Neq \<and> is_nil lhs then to rhs dst
         else to e dst
     | _ \<Rightarrow> to e dst)"

section \<open>Tuples\<close>

definition gen_tuple_literal_to :: "gen_to \<Rightarrow> expr list \<Rightarrow> i32 \<Rightarrow> unit cg" where
  "gen_tuple_literal_to to elems dst = asks (\<lambda>cg. map (tuple_field_type cg) elems) (\<lambda>ftys.
    for_each (zip elems (tl_fields (compute_tuple_layout ftys))) (\<lambda>(elem, ty, off).
      gen_expr_to_kind to elem (dst + off) (type_num_kind ty)))"

definition local_tuple_block :: "codegen \<Rightarrow> expr \<Rightarrow> (i32 \<times> tuple_layout) option" where
  "local_tuple_block cg e =
    (case e of
       E_Ident name _ \<Rightarrow>
         Option.bind (hm_get (cg_local_tuple cg) name) (\<lambda>ftys.
           map_option (\<lambda>(off, _). (off, compute_tuple_layout ftys)) (get_local cg name))
     | _ \<Rightarrow> None)"

definition is_tuple_element :: "codegen \<Rightarrow> expr \<Rightarrow> bool" where
  "is_tuple_element cg e =
    (case e of E_Index arr _ _ \<Rightarrow> tuple_of (array_elem_type_of cg arr) \<noteq> None | _ \<Rightarrow> False)"

definition gen_tuple_block :: "gen_to \<Rightarrow> expr \<Rightarrow> (i32 \<times> tuple_layout) cg" where
  "gen_tuple_block to e = (\<lambda>cg.
    (case local_tuple_block cg e of
       Some r \<Rightarrow> ret r
     | None \<Rightarrow>
         if is_tuple_element cg e
         then cg_err (rstr ''an array of tuples is not supported yet: element indexing moves a single word, so every field but the first would be read from the wrong place'')
         else (case tuple_layout_of cg e of
             None \<Rightarrow> cg_err (describe_expr_kind e @ rstr '' has no known tuple type here'')
           | Some layout \<Rightarrow> sbind (alloc_temp_block (tl_size layout)) (\<lambda>block.
               and_do (to e block) (ret (block, layout))))) cg)"

text \<open>The layout of the right-hand side, or one word for each of \<open>n\<close> names where it is not known.\<close>

definition destructured_layout :: "codegen \<Rightarrow> expr \<Rightarrow> nat \<Rightarrow> tuple_layout" where
  "destructured_layout cg rhs n =
    (let words = compute_tuple_layout (replicate n (T_Basic BT_Int)) in
     case tuple_layout_of cg rhs of
       Some l \<Rightarrow> if length (tl_fields l) = n then l else words
     | None \<Rightarrow> words)"

definition alias_name :: "string \<Rightarrow> codegen \<Rightarrow> rstring" where
  "alias_name prefix cg = 0 # rstr prefix @ show_nat (length (cg_locals cg))"

definition assign_from_alias :: "expr \<Rightarrow> rstring \<Rightarrow> expr" where
  "assign_from_alias target alias = E_Assign target (E_Ident alias default_span) default_span"

definition is_tuple_type :: "ltype \<Rightarrow> bool" where
  "is_tuple_type ty = (case ty of T_Tuple _ \<Rightarrow> True | _ \<Rightarrow> False)"

definition assign_tuple_ident :: "rstring \<Rightarrow> ltype \<Rightarrow> i32 \<Rightarrow> unit cg" where
  "assign_tuple_ident name ty src = asks (\<lambda>cg. lookup_var cg name) (\<lambda>found.
    sbind (case found of
        Some (s, _, _) \<Rightarrow> ret s
      | None \<Rightarrow> sbind (declare_local_of_type name ty) (\<lambda>off. ret (SL_Local off))) (\<lambda>s.
      let move = emit (mov_opcode_for_type ty) (op_fp src) mid_unused (slot_operand s) in
      case s of
        SL_Local dst \<Rightarrow> if is_tuple_type ty then copy_value ty src dst else move
      | SL_Global _ \<Rightarrow> move))"

definition assign_tuple_alias :: "gen_disc \<Rightarrow> expr \<Rightarrow> ltype \<Rightarrow> i32 \<Rightarrow> unit cg" where
  "assign_tuple_alias disc target ty src = asks (alias_name ''tuple-field-'') (\<lambda>alias.
    and_do (push_local (alias, src, val_type_of ty, type_num_kind ty))
      (cg_finally (disc (assign_from_alias target alias))
        (\<lambda>cg. cg\<lparr>cg_locals := butlast (cg_locals cg)\<rparr>)))"

definition gen_tuple_assign :: "gen_disc \<Rightarrow> gen_to \<Rightarrow> expr list \<Rightarrow> expr \<Rightarrow> unit cg" where
  "gen_tuple_assign disc to targets rhs =
    asks (\<lambda>cg. destructured_layout cg rhs (length targets)) (\<lambda>layout.
    sbind (alloc_temp_block (tl_size layout)) (\<lambda>block.
    and_do (to rhs block)
      (for_each (zip targets (tl_fields layout)) (\<lambda>(target, ty, off).
        case target of
          E_Nil _ \<Rightarrow> ret ()
        | E_Ident name _ \<Rightarrow> assign_tuple_ident name ty (block + off)
        | _ \<Rightarrow> assign_tuple_alias disc target ty (block + off)))))"

definition declare_tuple_names :: "rstring list \<Rightarrow> tuple_layout \<Rightarrow> i32 \<Rightarrow> unit cg" where
  "declare_tuple_names names layout block =
    for_each (zip names (tl_fields layout)) (\<lambda>(name, ty, off).
      if name = rstr ''nil'' then ret ()
      else sbind (declare_local_of_type name ty) (\<lambda>local. copy_value ty (block + off) local))"

definition gen_tuple_decl_assign :: "gen_to \<Rightarrow> rstring list \<Rightarrow> expr \<Rightarrow> i32 option \<Rightarrow> unit cg" where
  "gen_tuple_decl_assign to names rhs dst =
    asks (\<lambda>cg. destructured_layout cg rhs (length names)) (\<lambda>layout.
    sbind (case dst of Some d \<Rightarrow> ret d | None \<Rightarrow> alloc_temp_block (tl_size layout)) (\<lambda>block.
    and_do (to rhs block) (declare_tuple_names names layout block)))"

section \<open>Channels\<close>

definition gen_send :: "gen_to \<Rightarrow> expr \<Rightarrow> expr \<Rightarrow> unit cg" where
  "gen_send to chan v = asks (\<lambda>cg. chan_elem_type cg chan) (\<lambda>elem.
    sbind alloc_temp (\<lambda>chan_tmp. and_do (to chan chan_tmp)
    (case tuple_of elem of
       Some ftys \<Rightarrow> sbind (alloc_temp_block (tl_size (compute_tuple_layout ftys))) (\<lambda>val_tmp.
         do_all [to v val_tmp, emit Op_Send (op_fp val_tmp) mid_unused (op_fp chan_tmp)])
     | None \<Rightarrow> asks (\<lambda>cg. case elem of Some t \<Rightarrow> type_num_kind t | None \<Rightarrow> infer_num_kind cg v) (\<lambda>val_kind.
         sbind (alloc_temp_for val_kind) (\<lambda>val_tmp.
         do_all [gen_expr_to_kind to v val_tmp val_kind,
           emit Op_Send (op_fp val_tmp) mid_unused (op_fp chan_tmp)])))))"

section \<open>Arguments\<close>

record arg_slot =
  as_tmp :: i32
  as_tuple :: "tuple_layout option"
  as_op :: opcode
  as_width :: i32
  as_align :: i32

definition layout_align :: "tuple_layout \<Rightarrow> i32" where
  "layout_align layout = unwrap_or 4 (max_of (map (\<lambda>(ty, _). snd (type_size_align ty)) (tl_fields layout)))"

definition gen_arg_value :: "gen_to \<Rightarrow> expr \<Rightarrow> arg_slot cg" where
  "gen_arg_value to arg = asks (\<lambda>cg. tuple_layout_of cg arg) (\<lambda>found. case found of
      Some layout \<Rightarrow> sbind (alloc_temp_block (tl_size layout)) (\<lambda>tmp. and_do (to arg tmp)
        (ret \<lparr>as_tmp = tmp, as_tuple = Some layout, as_op = Op_Movw, as_width = 0,
              as_align = layout_align layout\<rparr>))
    | None \<Rightarrow> asks (\<lambda>cg. infer_num_kind cg arg) (\<lambda>kind.
        sbind (alloc_temp_for kind) (\<lambda>tmp. and_do (to arg tmp)
        (asks (\<lambda>cg. infer_expr_type cg arg) (\<lambda>ty.
          ret \<lparr>as_tmp = tmp, as_tuple = None, as_op = mov_opcode ty kind, as_width = nk_byte_size kind,
               as_align = nk_byte_size kind\<rparr>)))))"

definition store_arg :: "i32 \<Rightarrow> arg_slot \<Rightarrow> i32 \<Rightarrow> i32 cg" where
  "store_arg frame_tmp s arg_off =
    (let arg_off = align_arg arg_off (as_align s) in
     case as_tuple s of
       Some layout \<Rightarrow> and_do
         (for_each (tl_fields layout) (\<lambda>(ty, off).
           emit (mov_opcode_for_type ty) (op_fp (as_tmp s + off)) mid_unused (op_fp_ind frame_tmp (arg_off + off))))
         (ret (arg_off + tl_size layout))
     | None \<Rightarrow> and_do
         (emit (as_op s) (op_fp (as_tmp s)) mid_unused (op_fp_ind frame_tmp arg_off))
         (ret (arg_off + as_width s)))"

definition store_args :: "i32 \<Rightarrow> arg_slot list \<Rightarrow> unit cg" where
  "store_args frame_tmp slots = sbind (fold_each slots (store_arg frame_tmp) 32) (\<lambda>_. ret ())"

section \<open>Calls\<close>

text \<open>\<open>func_table.iter().enumerate().find(name)\<close>: the index and the entry.\<close>

definition find_func :: "codegen \<Rightarrow> rstring \<Rightarrow> (usize \<times> i32 \<times> num_kind) option" where
  "find_func cg name =
    Option.bind (find_position (\<lambda>(n, _). n = name) (cg_func_table cg)) (\<lambda>i.
      case cg_func_table cg ! i of (_, pc, _, k) \<Rightarrow> Some (i, pc, k))"

definition func_known :: "codegen \<Rightarrow> rstring \<Rightarrow> bool" where
  "func_known cg name \<longleftrightarrow> list_ex (\<lambda>(n, _). n = name) (cg_func_table cg)"

definition push_call_fixup :: "usize \<Rightarrow> rstring \<Rightarrow> unit cg" where
  "push_call_fixup idx name =
    updates (\<lambda>cg. cg\<lparr>cg_pending_call_fixups := cg_pending_call_fixups cg @ [(idx, name)]\<rparr>)"

definition gen_local_call :: "gen_to \<Rightarrow> rstring \<Rightarrow> expr list \<Rightarrow> i32 option \<Rightarrow> unit cg" where
  "gen_local_call to func_name args result_dst = asks (\<lambda>cg. find_func cg func_name) (\<lambda>found. case found of
      None \<Rightarrow> cg_err (rstr ''call to undefined function '' @ quoted func_name)
    | Some (func_idx, func_pc, ret_kind) \<Rightarrow>
        sbind (gather args (gen_arg_value to)) (\<lambda>arg_temps.
        sbind alloc_temp (\<lambda>frame_tmp.
        sbind (alloc_temp_for ret_kind) (\<lambda>ret_tmp.
        and_do (do_all [
          emit Op_Frame (op_imm (2 + of_nat func_idx)) mid_unused (op_fp frame_tmp),
          store_args frame_tmp arg_temps,
          emit Op_Lea (op_fp (unwrap_or ret_tmp result_dst)) mid_unused (op_fp_ind frame_tmp 16)])
        (sbind (emit_at Op_Call (op_fp frame_tmp) mid_unused (op_imm func_pc)) (\<lambda>call_idx.
          if sint func_pc < 0 then push_call_fixup call_idx func_name else ret ()))))))"

definition emit_module_call ::
    "gen_to \<Rightarrow> slot \<Rightarrow> rstring \<Rightarrow> rstring \<Rightarrow> expr list \<Rightarrow> i32 option \<Rightarrow> num_kind \<Rightarrow> unit cg" where
  "emit_module_call to s interface func_name args result_dst ret_kind =
    sbind (ensure_module_func interface func_name) (\<lambda>func_idx.
    sbind (gather args (gen_arg_value to)) (\<lambda>arg_temps.
    sbind alloc_temp (\<lambda>frame_tmp.
    sbind (alloc_temp_for ret_kind) (\<lambda>ret_tmp.
    do_all [
      emit Op_Mframe (slot_operand s) (mid_imm (of_nat func_idx)) (op_fp frame_tmp),
      store_args frame_tmp arg_temps,
      emit Op_Lea (op_fp (unwrap_or ret_tmp result_dst)) mid_unused (op_fp_ind frame_tmp 16),
      emit Op_Mcall (op_fp frame_tmp) (mid_imm (of_nat func_idx)) (slot_operand s)]))))"

definition unresolved_handle_error :: "codegen \<Rightarrow> rstring \<Rightarrow> rstring \<Rightarrow> rstring" where
  "unresolved_handle_error cg handle member =
    (if is_known_interface cg handle
     then rstr ''cannot call '' @ quoted member @ rstr '' because '' @ quoted handle @
       rstr '' is a module interface, not a module variable''
     else rstr ''undefined identifier '' @ quoted handle @ rstr '' in '' @
       quoted (handle @ rstr ''->'' @ member))"

definition not_a_module_handle_error :: "rstring \<Rightarrow> rstring \<Rightarrow> rstring" where
  "not_a_module_handle_error handle member = rstr ''cannot call '' @ quoted member @ rstr '' through '' @
    quoted handle @ rstr '': '' @ quoted handle @ rstr '' is not declared with a module type''"

text \<open>The error of a call to something the interface does not declare as a function.\<close>

definition module_call_error :: "codegen \<Rightarrow> rstring \<Rightarrow> rstring \<Rightarrow> rstring \<Rightarrow> rstring option" where
  "module_call_error cg handle interface func_name =
    (if interface_is_known cg interface
     then (case module_member cg interface func_name of
         Some (SYM_Func _) \<Rightarrow> None
       | Some _ \<Rightarrow> Some (quoted func_name @ rstr '' is not a function of module '' @ quoted handle @
           rstr '' (interface '' @ quoted interface @ rstr '')'')
       | None \<Rightarrow> Some (not_a_member func_name handle interface))
     else None)"

definition gen_module_call :: "gen_to \<Rightarrow> rstring \<Rightarrow> rstring \<Rightarrow> expr list \<Rightarrow> i32 option \<Rightarrow> unit cg" where
  "gen_module_call to handle func_name args result_dst = (\<lambda>cg.
    (case lookup_var cg handle of
       None \<Rightarrow> cg_err (unresolved_handle_error cg handle func_name)
     | Some (s, _, _) \<Rightarrow>
         (case hm_get (cg_module_handle_type cg) handle of
            None \<Rightarrow> cg_err (not_a_module_handle_error handle func_name)
          | Some interface \<Rightarrow>
              (case module_call_error cg handle interface func_name of
                 Some msg \<Rightarrow> cg_err msg
               | None \<Rightarrow> emit_module_call to s interface func_name args result_dst
                   (module_call_num_kind cg handle func_name)))) cg)"

definition handle_for_interface :: "codegen \<Rightarrow> rstring \<Rightarrow> rstring option" where
  "handle_for_interface cg interface =
    (let matches = (\<lambda>(name, _). hm_get (cg_module_handle_type cg) name = Some interface) in
     case find matches (cg_locals cg) of
       Some (name, _) \<Rightarrow> Some name
     | None \<Rightarrow> map_option fst (find matches (cg_globals cg)))"

definition gen_adt_method_call :: "gen_to \<Rightarrow> expr \<Rightarrow> rstring \<Rightarrow> expr list \<Rightarrow> i32 option \<Rightarrow> unit cg" where
  "gen_adt_method_call to obj method args result_dst = (\<lambda>cg.
    (case adt_method_target cg obj method of
       None \<Rightarrow> cg_err (unsupported_call_target (E_Dot obj method default_span))
     | Some (a, takes_self) \<Rightarrow>
         (let func_name = a @ rstr ''.'' @ method;
              full_args = (if takes_self then [obj] else []) @ args in
          if func_known cg func_name then gen_local_call to func_name full_args result_dst
          else case hm_get (cg_adt_owner cg) a of
              None \<Rightarrow> cg_err (quoted func_name @ rstr '' is declared but not defined, and '' @ quoted a @
                rstr '' belongs to no interface this file can see'')
            | Some ow \<Rightarrow>
                (case handle_for_interface cg ow of
                   None \<Rightarrow> cg_err (rstr ''cannot call '' @ quoted func_name @
                     rstr '': no module variable of interface '' @ quoted ow @
                     rstr '' is in scope to call it through'')
                 | Some handle \<Rightarrow>
                     (case lookup_var cg handle of
                        None \<Rightarrow> cg_err (rstr ''cannot call '' @ quoted func_name @ rstr '': '' @
                          quoted handle @ rstr '' has no storage'')
                      | Some (s, _, _) \<Rightarrow> emit_module_call to s ow func_name full_args result_dst
                          (adt_method_num_kind cg a method))))) cg)"

definition is_func_symbol :: "module_symbol option \<Rightarrow> bool" where
  "is_func_symbol entry = (case entry of Some (SYM_Func _) \<Rightarrow> True | _ \<Rightarrow> False)"

definition imported_callee :: "codegen \<Rightarrow> rstring \<Rightarrow> rstring + expr option" where
  "imported_callee cg name =
    (if func_known cg name then Inr None
     else case hm_get (cg_imported cg) name of
         None \<Rightarrow> Inr None
       | Some imp \<Rightarrow>
           (let qualified = Inr (Some (E_ModQual (E_Ident (ip_module imp) default_span) name default_span)) in
            case ip_module_type imp of
              None \<Rightarrow> qualified
            | Some module_type \<Rightarrow>
                if \<not> is_func_symbol (module_member cg module_type name) then Inr None
                else if \<not> ip_from_variable imp
                then Inl (rstr ''cannot call '' @ quoted name @ rstr '' because '' @ quoted (ip_module imp) @
                  rstr '' is a module interface, not a module variable'')
                else qualified))"

text \<open>
  The two entry points differ in where the result goes. The rewritten call of an imported function goes
  back through the translation of calls.
\<close>

definition not_through_variable :: "rstring \<Rightarrow> rstring" where
  "not_through_variable func_name = quoted func_name @ rstr '' must be called through a module variable''"

definition gen_call_expr :: "gen_disc \<Rightarrow> gen_to \<Rightarrow> expr \<Rightarrow> unit cg" where
  "gen_call_expr disc to e =
    (case e of
       E_Call callee args _ \<Rightarrow>
         (case callee of
            E_ModQual module func_name _ \<Rightarrow>
              (case module of
                 E_Ident handle _ \<Rightarrow> gen_module_call to handle func_name args None
               | _ \<Rightarrow> cg_err (not_through_variable func_name))
          | E_Ident func_name _ \<Rightarrow>
              asks (\<lambda>cg. imported_callee cg func_name) (\<lambda>r. sbind (cg_result r) (\<lambda>found. case found of
                  Some qualified \<Rightarrow> disc (E_Call qualified args default_span)
                | None \<Rightarrow> gen_local_call to func_name args None))
          | E_Dot obj method _ \<Rightarrow> gen_adt_method_call to obj method args None
          | _ \<Rightarrow> cg_err (unsupported_call_target callee))
     | _ \<Rightarrow> ret ())"

definition gen_call_with_result :: "gen_to \<Rightarrow> expr \<Rightarrow> expr list \<Rightarrow> i32 \<Rightarrow> unit cg" where
  "gen_call_with_result to callee args dst =
    (case callee of
       E_ModQual module func_name _ \<Rightarrow>
         (case module of
            E_Ident handle _ \<Rightarrow> gen_module_call to handle func_name args (Some dst)
          | _ \<Rightarrow> cg_err (not_through_variable func_name))
     | E_Dot obj method _ \<Rightarrow> gen_adt_method_call to obj method args (Some dst)
     | E_Call _ _ _ \<Rightarrow> to callee dst
     | E_Ident func_name _ \<Rightarrow>
         asks (\<lambda>cg. imported_callee cg func_name) (\<lambda>r. sbind (cg_result r) (\<lambda>found. case found of
             Some qualified \<Rightarrow> to (E_Call qualified args default_span) dst
           | None \<Rightarrow> gen_local_call to func_name args (Some dst)))
     | _ \<Rightarrow> cg_err (unsupported_call_target callee))"

section \<open>Qualified names and constructors\<close>

definition gen_mod_qual_value :: "rstring \<Rightarrow> rstring \<Rightarrow> i32 \<Rightarrow> unit cg" where
  "gen_mod_qual_value name member dst = (\<lambda>cg.
    (let interface = unwrap_or name (hm_get (cg_module_handle_type cg) name);
         q = quoted (name @ rstr ''->'' @ member) in
     case qualified_const_value cg interface member of
       Some (Inr v) \<Rightarrow> gen_const_to v dst
     | Some (Inl why) \<Rightarrow> cg_err (q @ rstr '' is unusable: '' @ why)
     | None \<Rightarrow>
         if member = rstr ''PATH'' \<and> \<not> interface_is_known cg interface
         then gen_string_const_to (rstr ''$'' @ interface) dst
         else cg_err (case module_member cg interface member of
             Some (SYM_Opaque reason) \<Rightarrow> q @ rstr '' cannot be used here: '' @ reason
           | Some (SYM_Type _) \<Rightarrow> q @ rstr '' is a type, not a value''
           | Some (SYM_Func _) \<Rightarrow> q @ rstr '' is a function; it can only be called''
           | Some (SYM_Var _) \<Rightarrow> q @ rstr '' is a variable of another module; qualified access to another module's variables is not supported yet''
           | Some _ \<Rightarrow> q @ rstr '' is not a value''
           | None \<Rightarrow>
               if interface_is_known cg interface then not_a_member member name interface
               else q @ rstr '': the interface of '' @ quoted interface @
                 rstr '' was not found (is the include path set?)'')) cg)"

definition adt_variant_owner :: "codegen \<Rightarrow> expr \<Rightarrow> rstring option" where
  "adt_variant_owner cg e =
    (case e of
       E_Ident name _ \<Rightarrow> if lookup_var cg name = None then Some name else None
     | E_ModQual _ name _ \<Rightarrow> Some name
     | _ \<Rightarrow> None)"

definition known_adt :: "codegen \<Rightarrow> rstring \<Rightarrow> rstring option" where
  "known_adt cg name = (if hm_contains (cg_adt_layouts cg) name then Some name else None)"

definition adt_ctor_name :: "codegen \<Rightarrow> expr \<Rightarrow> rstring option" where
  "adt_ctor_name cg e =
    (case e of
       E_Dot base variant _ \<Rightarrow>
         Option.bind (adt_variant_owner cg base) (\<lambda>a.
           let key = a @ rstr ''.'' @ variant in
           if hm_contains (cg_adt_variants cg) key then Some key else None)
     | E_Ident name _ \<Rightarrow> known_adt cg name
     | E_ModQual _ name _ \<Rightarrow> known_adt cg name
     | _ \<Rightarrow> None)"

definition variant_tag :: "codegen \<Rightarrow> expr \<Rightarrow> i32 option" where
  "variant_tag cg e =
    (case e of
       E_Dot base variant _ \<Rightarrow>
         Option.bind (adt_variant_owner cg base) (\<lambda>a.
           map_option fst (hm_get (cg_adt_variants cg) (a @ rstr ''.'' @ variant)))
     | _ \<Rightarrow> None)"

text \<open>The move of a field of a known type, or of a value whose field is not known.\<close>

definition field_mov :: "ltype option \<Rightarrow> val_type \<Rightarrow> opcode" where
  "field_mov ty vt =
    (case ty of
       Some (T_Basic BT_Big) \<Rightarrow> Op_Movl
     | Some (T_Basic BT_Real) \<Rightarrow> Op_Movf
     | Some (T_Basic _) \<Rightarrow> Op_Movw
     | Some _ \<Rightarrow> Op_Movp
     | None \<Rightarrow> if vt \<noteq> VT_Word then Op_Movp else Op_Movw)"

definition gen_field_init :: "gen_to \<Rightarrow> field_layout option \<Rightarrow> i32 \<Rightarrow> nat \<times> expr \<Rightarrow> unit cg" where
  "gen_field_init to layout dst = (\<lambda>(i, arg).
    let (field_off, field_ty) = (case Option.bind layout (\<lambda>l. nth_opt l i) of
          Some (_, t, off) \<Rightarrow> (off, Some t) | None \<Rightarrow> (of_nat i * 4, None));
        kind = unwrap_or NK_Word (map_option type_num_kind field_ty) in
    sbind (alloc_temp_for kind) (\<lambda>arg_tmp.
    and_do (gen_expr_to_kind to arg arg_tmp kind)
      (asks (\<lambda>cg. field_mov field_ty (infer_expr_type cg arg)) (\<lambda>op.
        emit op (op_fp arg_tmp) mid_unused (op_fp_ind dst field_off)))))"

definition gen_record_alloc :: "gen_to \<Rightarrow> rstring \<Rightarrow> expr list \<Rightarrow> i32 \<Rightarrow> unit cg" where
  "gen_record_alloc to a args dst =
    asks (\<lambda>cg. if hm_contains (cg_adt_shapes cg) a then KEY_Adt a else KEY_OpaqueRecord) (\<lambda>key.
    sbind (emit_at Op_New (op_imm 0) mid_unused (op_fp dst)) (\<lambda>at_pc.
    and_do (need_type at_pc TO_Source key)
    (asks (\<lambda>cg. hm_get (cg_adt_variants cg) a) (\<lambda>variant.
    and_do (when_some variant (\<lambda>(tag, _). emit Op_Movw (op_imm tag) mid_unused (op_fp_ind dst 0)))
    (asks (\<lambda>cg. hm_get (cg_adt_layouts cg) a) (\<lambda>layout.
      for_each (enumerate 0 args) (gen_field_init to layout dst)))))))"

end
