(* ===== verification/CodeGenValues.thy ===== *)
theory CodeGenValues
  imports CodeGenExpr
begin

unbundle bit_operations_syntax

text \<open>
  The second half of the translation of expressions (\<open>codegen.rs\<close>): operators, assignments, array
  literals, conversions, and the two functions over all expressions.
\<close>

section \<open>Opcodes of operators\<close>

definition arith_opcode :: "bin_op \<Rightarrow> num_kind \<Rightarrow> opcode option" where
  "arith_opcode op kind =
    (case op of
       BO_Add \<Rightarrow> Some (case kind of NK_Word \<Rightarrow> Op_Addw | NK_Big \<Rightarrow> Op_Addl | NK_Real \<Rightarrow> Op_Addf)
     | BO_Sub \<Rightarrow> Some (case kind of NK_Word \<Rightarrow> Op_Subw | NK_Big \<Rightarrow> Op_Subl | NK_Real \<Rightarrow> Op_Subf)
     | BO_Mul \<Rightarrow> Some (case kind of NK_Word \<Rightarrow> Op_Mulw | NK_Big \<Rightarrow> Op_Mull | NK_Real \<Rightarrow> Op_Mulf)
     | BO_Div \<Rightarrow> Some (case kind of NK_Word \<Rightarrow> Op_Divw | NK_Big \<Rightarrow> Op_Divl | NK_Real \<Rightarrow> Op_Divf)
     | _ \<Rightarrow> None)"

definition compound_opcode :: "bin_op \<Rightarrow> num_kind \<Rightarrow> opcode" where
  "compound_opcode op kind = unwrap_or Op_Addw (arith_opcode op kind)"

definition compare_opcode :: "bin_op \<Rightarrow> num_kind \<Rightarrow> opcode" where
  "compare_opcode op kind =
    (case op of
       BO_Eq \<Rightarrow> (case kind of NK_Word \<Rightarrow> Op_Beqw | NK_Big \<Rightarrow> Op_Beql | NK_Real \<Rightarrow> Op_Beqf)
     | BO_Neq \<Rightarrow> (case kind of NK_Word \<Rightarrow> Op_Bnew | NK_Big \<Rightarrow> Op_Bnel | NK_Real \<Rightarrow> Op_Bnef)
     | BO_Lt \<Rightarrow> (case kind of NK_Word \<Rightarrow> Op_Bltw | NK_Big \<Rightarrow> Op_Bltl | NK_Real \<Rightarrow> Op_Bltf)
     | BO_Gt \<Rightarrow> (case kind of NK_Word \<Rightarrow> Op_Bgtw | NK_Big \<Rightarrow> Op_Bgtl | NK_Real \<Rightarrow> Op_Bgtf)
     | BO_Leq \<Rightarrow> (case kind of NK_Word \<Rightarrow> Op_Blew | NK_Big \<Rightarrow> Op_Blel | NK_Real \<Rightarrow> Op_Blef)
     | BO_Geq \<Rightarrow> (case kind of NK_Word \<Rightarrow> Op_Bgew | NK_Big \<Rightarrow> Op_Bgel | NK_Real \<Rightarrow> Op_Bgef)
     | _ \<Rightarrow> Op_Beqw)"

definition shift_opcode :: "bin_op \<Rightarrow> num_kind \<Rightarrow> opcode option" where
  "shift_opcode op kind =
    (case (op, kind) of
       (BO_Lshift, NK_Word) \<Rightarrow> Some Op_Shlw | (BO_Lshift, NK_Big) \<Rightarrow> Some Op_Shll
     | (BO_Rshift, NK_Word) \<Rightarrow> Some Op_Shrw | (BO_Rshift, NK_Big) \<Rightarrow> Some Op_Shrl
     | (BO_Power, NK_Word) \<Rightarrow> Some Op_Expw | (BO_Power, NK_Big) \<Rightarrow> Some Op_Expl
     | (BO_Power, NK_Real) \<Rightarrow> Some Op_Expf
     | _ \<Rightarrow> None)"

definition binary_opcode :: "bin_op \<Rightarrow> num_kind \<Rightarrow> rstring + opcode" where
  "binary_opcode op kind =
    (case arith_opcode op kind of
       Some opc \<Rightarrow> Inr opc
     | None \<Rightarrow>
         (case (op, kind) of
            (BO_Mod, NK_Word) \<Rightarrow> Inr Op_Modw
          | (BO_Mod, NK_Big) \<Rightarrow> Inr Op_Modl
          | (BO_Mod, NK_Real) \<Rightarrow> Inl (rstr ''real % real has no Dis opcode; use math->fmod'')
          | (BO_And, NK_Word) \<Rightarrow> Inr Op_Andw
          | (BO_And, NK_Big) \<Rightarrow> Inr Op_Andl
          | (BO_Or, NK_Word) \<Rightarrow> Inr Op_Orw
          | (BO_Or, NK_Big) \<Rightarrow> Inr Op_Orl
          | (BO_Xor, NK_Word) \<Rightarrow> Inr Op_Xorw
          | (BO_Xor, NK_Big) \<Rightarrow> Inr Op_Xorl
          | _ \<Rightarrow> if op \<in> {BO_And, BO_Or, BO_Xor}
                then Inl (rstr ''bitwise '' @ debug_bin_op op @ rstr '' on real operand is not valid'')
                else Inr Op_Movw))"

section \<open>Binary operators\<close>

text \<open>One, unless the branch at \<open>skip\<close> is taken over the assignment of zero.\<close>

definition gen_truth :: "opcode \<Rightarrow> i32 \<Rightarrow> i32 \<Rightarrow> i32 \<Rightarrow> unit cg" where
  "gen_truth branch l r dst =
    and_do (emit Op_Movw (op_imm 1) mid_unused (op_fp dst))
    (sbind (emit_at branch (op_fp l) (mid_fp r) (op_imm 0)) (\<lambda>skip.
      do_all [emit Op_Movw (op_imm 0) mid_unused (op_fp dst), patch_here skip]))"

definition gen_comparison :: "gen_to \<Rightarrow> expr \<Rightarrow> bin_op \<Rightarrow> expr \<Rightarrow> i32 \<Rightarrow> unit cg" where
  "gen_comparison to lhs op rhs dst = asks (\<lambda>cg. infer_expr_type cg lhs) (\<lambda>lt.
    if lt = VT_Ptr \<and> (op = BO_Eq \<or> op = BO_Neq)
    then sbind alloc_temp (\<lambda>l. sbind alloc_temp (\<lambda>r.
      do_all [to lhs l, to rhs r, gen_truth (if op = BO_Eq then Op_Beqc else Op_Bnec) l r dst]))
    else asks (\<lambda>cg. max (infer_num_kind cg lhs) (infer_num_kind cg rhs)) (\<lambda>kind.
      sbind (alloc_temp_for kind) (\<lambda>l. sbind (alloc_temp_for kind) (\<lambda>r.
      do_all [gen_expr_to_kind to lhs l kind, gen_expr_to_kind to rhs r kind,
        gen_truth (compare_opcode op kind) l r dst]))))"

definition gen_logical :: "opcode \<Rightarrow> i32 \<Rightarrow> gen_to \<Rightarrow> expr \<Rightarrow> expr \<Rightarrow> i32 \<Rightarrow> unit cg" where
  "gen_logical branch v to lhs rhs dst = sbind alloc_temp (\<lambda>l.
    and_do (gen_cond_to to lhs l)
    (sbind (emit_at branch (op_fp l) (mid_imm 0) (op_imm 0)) (\<lambda>short.
    and_do (gen_cond_to to rhs dst)
    (sbind (emit_at Op_Jmp op_unused mid_unused (op_imm 0)) (\<lambda>end_jump.
      do_all [patch_here short, emit Op_Movw (op_imm v) mid_unused (op_fp dst), patch_here end_jump])))))"

definition gen_logical_and :: "gen_to \<Rightarrow> expr \<Rightarrow> expr \<Rightarrow> i32 \<Rightarrow> unit cg" where
  "gen_logical_and = gen_logical Op_Beqw 0"

definition gen_logical_or :: "gen_to \<Rightarrow> expr \<Rightarrow> expr \<Rightarrow> i32 \<Rightarrow> unit cg" where
  "gen_logical_or = gen_logical Op_Bnew 1"

definition gen_shift :: "gen_to \<Rightarrow> expr \<Rightarrow> bin_op \<Rightarrow> expr \<Rightarrow> i32 \<Rightarrow> unit cg" where
  "gen_shift to lhs op rhs dst = asks (\<lambda>cg. infer_num_kind cg lhs) (\<lambda>lhs_kind.
    sbind (alloc_temp_for lhs_kind) (\<lambda>l. sbind (alloc_temp_for NK_Word) (\<lambda>r.
    do_all [gen_expr_to_kind to lhs l lhs_kind, gen_expr_to_kind to rhs r NK_Word,
      (case shift_opcode op lhs_kind of
         Some opc \<Rightarrow> emit opc (op_fp r) (mid_fp l) (op_fp dst)
       | None \<Rightarrow> cg_err (rstr ''unsupported '' @ debug_bin_op op @ rstr '' on real-typed operand''))])))"

definition gen_arith :: "gen_to \<Rightarrow> expr \<Rightarrow> bin_op \<Rightarrow> expr \<Rightarrow> i32 \<Rightarrow> unit cg" where
  "gen_arith to lhs op rhs dst = asks (\<lambda>cg. max (infer_num_kind cg lhs) (infer_num_kind cg rhs)) (\<lambda>kind.
    sbind (alloc_temp_for kind) (\<lambda>l. sbind (alloc_temp_for kind) (\<lambda>r.
    do_all [gen_expr_to_kind to lhs l kind, gen_expr_to_kind to rhs r kind,
      sbind (cg_result (binary_opcode op kind)) (\<lambda>opc. emit opc (op_fp r) (mid_fp l) (op_fp dst))])))"

definition gen_binary :: "gen_to \<Rightarrow> expr \<Rightarrow> bin_op \<Rightarrow> expr \<Rightarrow> i32 \<Rightarrow> unit cg" where
  "gen_binary to lhs op rhs dst =
    (if op \<in> {BO_Eq, BO_Neq, BO_Lt, BO_Gt, BO_Leq, BO_Geq} then gen_comparison to lhs op rhs dst
     else if op = BO_LogAnd then gen_logical_and to lhs rhs dst
     else if op = BO_LogOr then gen_logical_or to lhs rhs dst
     else if op \<in> {BO_Lshift, BO_Rshift, BO_Power} then gen_shift to lhs op rhs dst
     else gen_arith to lhs op rhs dst)"

definition gen_concat :: "gen_to \<Rightarrow> expr \<Rightarrow> expr \<Rightarrow> i32 \<Rightarrow> unit cg" where
  "gen_concat to lhs rhs dst = sbind alloc_temp (\<lambda>l. sbind alloc_temp (\<lambda>r.
    do_all [to lhs l, to rhs r, emit Op_Addc (op_fp r) (mid_fp l) (op_fp dst)]))"

section \<open>Unary operators\<close>

text \<open>Zero minus the operand; the zero of a big or a real is converted from a word.\<close>

definition gen_neg :: "gen_to \<Rightarrow> expr \<Rightarrow> num_kind \<Rightarrow> i32 \<Rightarrow> unit cg" where
  "gen_neg to inner kind dst =
    sbind (alloc_temp_for kind) (\<lambda>inner_tmp. sbind (alloc_temp_for kind) (\<lambda>zero_tmp.
    and_do (to inner inner_tmp)
    (case kind of
       NK_Word \<Rightarrow> do_all [
         emit Op_Movw (op_imm 0) mid_unused (op_fp zero_tmp),
         emit Op_Subw (op_fp inner_tmp) (mid_fp zero_tmp) (op_fp dst)]
     | NK_Big \<Rightarrow> sbind (alloc_temp_for NK_Word) (\<lambda>z_word. do_all [
         emit Op_Movw (op_imm 0) mid_unused (op_fp z_word),
         emit Op_Cvtwl (op_fp z_word) mid_unused (op_fp zero_tmp),
         emit Op_Subl (op_fp inner_tmp) (mid_fp zero_tmp) (op_fp dst)])
     | NK_Real \<Rightarrow> sbind (alloc_temp_for NK_Word) (\<lambda>z_word. do_all [
         emit Op_Movw (op_imm 0) mid_unused (op_fp z_word),
         emit Op_Cvtwf (op_fp z_word) mid_unused (op_fp zero_tmp),
         emit Op_Subf (op_fp inner_tmp) (mid_fp zero_tmp) (op_fp dst)]))))"

definition gen_not :: "gen_to \<Rightarrow> expr \<Rightarrow> i32 \<Rightarrow> unit cg" where
  "gen_not to inner dst = and_do (to inner dst)
    (sbind (emit_at Op_Beqw (op_fp dst) (mid_imm 0) (op_imm 0)) (\<lambda>skip.
    and_do (emit Op_Movw (op_imm 0) mid_unused (op_fp dst))
    (sbind (emit_at Op_Jmp op_unused mid_unused (op_imm 0)) (\<lambda>end_jump.
      do_all [patch_here skip, emit Op_Movw (op_imm 1) mid_unused (op_fp dst), patch_here end_jump]))))"

definition gen_bit_not :: "gen_to \<Rightarrow> expr \<Rightarrow> num_kind \<Rightarrow> i32 \<Rightarrow> unit cg" where
  "gen_bit_not to inner kind dst = and_do (to inner dst)
    (case kind of
       NK_Word \<Rightarrow> sbind alloc_temp (\<lambda>t. do_all [
         emit Op_Movw (op_imm (- 1)) mid_unused (op_fp t),
         emit Op_Xorw (op_fp t) mid_unused (op_fp dst)])
     | NK_Big \<Rightarrow> sbind (alloc_temp_for NK_Word) (\<lambda>z_word. sbind (alloc_temp_for NK_Big) (\<lambda>t. do_all [
         emit Op_Movw (op_imm (- 1)) mid_unused (op_fp z_word),
         emit Op_Cvtwl (op_fp z_word) mid_unused (op_fp t),
         emit Op_Xorl (op_fp t) mid_unused (op_fp dst)]))
     | NK_Real \<Rightarrow> cg_err (rstr ''bitwise NOT on real operand is not valid''))"

text \<open>What \<open>ref\<close> allocates: a constructor with its arguments, or one without.\<close>

definition ref_target :: "codegen \<Rightarrow> expr \<Rightarrow> (rstring \<times> expr list) option" where
  "ref_target cg inner =
    (let bare = map_option (\<lambda>name. (name, [])) (adt_ctor_name cg inner) in
     case inner of
       E_Call callee args _ \<Rightarrow>
         (case adt_ctor_name cg callee of Some name \<Rightarrow> Some (name, args) | None \<Rightarrow> bare)
     | _ \<Rightarrow> bare)"

definition gen_ref :: "gen_to \<Rightarrow> expr \<Rightarrow> i32 \<Rightarrow> unit cg" where
  "gen_ref to inner dst = asks (\<lambda>cg. ref_target cg inner) (\<lambda>found. case found of
      Some (name, args) \<Rightarrow> gen_record_alloc to name args dst
    | None \<Rightarrow> to inner dst)"

definition gen_unary :: "gen_to \<Rightarrow> unary_op \<Rightarrow> expr \<Rightarrow> i32 \<Rightarrow> unit cg" where
  "gen_unary to op inner dst = asks (\<lambda>cg. infer_num_kind cg inner) (\<lambda>kind.
    case op of
      UO_Neg \<Rightarrow> gen_neg to inner kind dst
    | UO_Not \<Rightarrow> gen_not to inner dst
    | UO_BitNot \<Rightarrow> gen_bit_not to inner kind dst
    | UO_Ref \<Rightarrow> gen_ref to inner dst)"

section \<open>Fields without a known layout\<close>

definition estimate_field_offset :: "rstring \<Rightarrow> i32" where
  "estimate_field_offset field =
    (let known = map_of (concat (map (\<lambda>(ns, off). map (\<lambda>n. (rstr n, off)) ns)
           [([''x'', ''min'', ''fd'', ''path'', ''name''], 0),
            ([''y'', ''max'', ''vers'', ''uid'', ''offset''], 4),
            ([''z'', ''qtype'', ''gid'', ''label''], 8),
            ([''w'', ''muid'', ''mode''], 12),
            ([''length'', ''size''], 16), ([''atime''], 20), ([''mtime''], 24)])) field in
     case known of
       Some off \<Rightarrow> off
     | None \<Rightarrow>
         (case strip_char CHR ''t'' field of
            None \<Rightarrow> 0
          | Some (c # cs) \<Rightarrow>
              if c = 45 \<and> cs \<noteq> [] \<and> hd cs \<noteq> 43
              then (case parse_digits 2147483648 cs of Some n \<Rightarrow> - of_nat n * 4 | None \<Rightarrow> 0)
              else (case parse_digits 2147483647 (c # cs) of Some n \<Rightarrow> of_nat n * 4 | None \<Rightarrow> 0)
          | Some [] \<Rightarrow> 0))"

section \<open>Increment and decrement\<close>

definition emit_inc_dec :: "operand \<Rightarrow> num_kind \<Rightarrow> bool \<Rightarrow> unit cg" where
  "emit_inc_dec target kind inc =
    (case kind of
       NK_Word \<Rightarrow> emit (if inc then Op_Addw else Op_Subw) (op_imm 1) mid_unused target
     | NK_Big \<Rightarrow> sbind (alloc_temp_for NK_Word) (\<lambda>z. sbind (alloc_temp_for NK_Big) (\<lambda>one. do_all [
         emit Op_Movw (op_imm 1) mid_unused (op_fp z),
         emit Op_Cvtwl (op_fp z) mid_unused (op_fp one),
         emit (if inc then Op_Addl else Op_Subl) (op_fp one) mid_unused target]))
     | NK_Real \<Rightarrow> sbind (alloc_temp_for NK_Word) (\<lambda>z. sbind (alloc_temp_for NK_Real) (\<lambda>one. do_all [
         emit Op_Movw (op_imm 1) mid_unused (op_fp z),
         emit Op_Cvtwf (op_fp z) mid_unused (op_fp one),
         emit (if inc then Op_Addf else Op_Subf) (op_fp one) mid_unused target])))"

text \<open>The old value goes to \<open>dst\<close> first.\<close>

definition finish_inc_dec :: "operand \<Rightarrow> opcode \<Rightarrow> num_kind \<Rightarrow> bool \<Rightarrow> i32 option \<Rightarrow> unit cg" where
  "finish_inc_dec target mov kind inc dst =
    and_do (when_some dst (\<lambda>d. emit mov target mid_unused (op_fp d))) (emit_inc_dec target kind inc)"

definition inc_dec_ident :: "rstring \<Rightarrow> bool \<Rightarrow> i32 option \<Rightarrow> unit cg" where
  "inc_dec_ident name inc dst = asks (\<lambda>cg. lookup_var cg name) (\<lambda>found. case found of
      None \<Rightarrow> cg_err (rstr ''undefined variable '' @ quoted name @ rstr '' in `++`/`--`'')
    | Some (s, ty, kind) \<Rightarrow>
        if map_option SL_Local dst = Some s then emit_inc_dec (slot_operand s) kind inc
        else finish_inc_dec (slot_operand s) (mov_opcode ty kind) kind inc dst)"

definition variable_slot :: "codegen \<Rightarrow> expr \<Rightarrow> slot option" where
  "variable_slot cg e = (case e of E_Ident name _ \<Rightarrow> map_option fst (lookup_var cg name) | _ \<Rightarrow> None)"

definition inc_dec_char :: "gen_to \<Rightarrow> expr \<Rightarrow> expr \<Rightarrow> bool \<Rightarrow> i32 option \<Rightarrow> unit cg" where
  "inc_dec_char to arr idx inc dst = asks (\<lambda>cg. variable_slot cg arr) (\<lambda>arr_slot.
    sbind alloc_temp (\<lambda>arr_tmp. sbind alloc_temp (\<lambda>idx_tmp.
    and_do (to arr arr_tmp) (and_do (to idx idx_tmp)
    (sbind alloc_temp (\<lambda>val_tmp. do_all [
      emit Op_Indc (op_fp arr_tmp) (mid_fp idx_tmp) (op_fp val_tmp),
      when_some dst (\<lambda>d. emit Op_Movw (op_fp val_tmp) mid_unused (op_fp d)),
      emit (if inc then Op_Addw else Op_Subw) (op_imm 1) mid_unused (op_fp val_tmp),
      emit Op_Insc (op_fp val_tmp) (mid_fp idx_tmp)
        (unwrap_or (op_fp arr_tmp) (map_option slot_operand arr_slot))]))))))"

definition inc_dec_elem :: "gen_to \<Rightarrow> expr \<Rightarrow> expr \<Rightarrow> bool \<Rightarrow> i32 option \<Rightarrow> unit cg" where
  "inc_dec_elem to arr idx inc dst = asks (\<lambda>cg. array_elem_basic_for_expr cg arr) (\<lambda>elem.
    let (ind_op, mov_op) = array_elem_opcodes elem in
    sbind alloc_temp (\<lambda>arr_tmp. sbind alloc_temp (\<lambda>idx_tmp.
    and_do (to arr arr_tmp) (and_do (to idx idx_tmp)
    (sbind alloc_temp (\<lambda>ref_tmp. do_all [
      emit ind_op (op_fp arr_tmp) (mid_fp ref_tmp) (op_fp idx_tmp),
      finish_inc_dec (op_fp_ind ref_tmp 0) mov_op (basic_num_kind elem) inc dst]))))))"

definition inc_dec_field :: "gen_to \<Rightarrow> expr \<Rightarrow> rstring \<Rightarrow> bool \<Rightarrow> i32 option \<Rightarrow> unit cg" where
  "inc_dec_field to obj field inc dst = sbind alloc_temp (\<lambda>ref_tmp. and_do (to obj ref_tmp)
    (asks (\<lambda>cg. field_info_for_expr cg obj field) (\<lambda>info. case info of
        Some (off, ty) \<Rightarrow> finish_inc_dec (op_fp_ind ref_tmp off)
          (case ty of T_Basic BT_Big \<Rightarrow> Op_Movl | T_Basic BT_Real \<Rightarrow> Op_Movf | _ \<Rightarrow> Op_Movw)
          (type_num_kind ty) inc dst
      | None \<Rightarrow> finish_inc_dec (op_fp_ind ref_tmp (estimate_field_offset field)) Op_Movw NK_Word inc dst)))"

definition gen_inc_dec :: "gen_to \<Rightarrow> expr \<Rightarrow> bool \<Rightarrow> i32 option \<Rightarrow> unit cg" where
  "gen_inc_dec to inner inc dst =
    (case inner of
       E_Ident name _ \<Rightarrow> inc_dec_ident name inc dst
     | E_Index arr idx _ \<Rightarrow> asks (\<lambda>cg. infer_expr_type cg arr) (\<lambda>ty.
         if ty \<noteq> VT_Array then inc_dec_char to arr idx inc dst else inc_dec_elem to arr idx inc dst)
     | E_Dot obj field _ \<Rightarrow> inc_dec_field to obj field inc dst
     | _ \<Rightarrow> cg_err (rstr ''`++`/`--` needs a variable, element or field''))"

section \<open>Array literals\<close>

definition array_lit_elem_kind :: "codegen \<Rightarrow> expr array_elem list \<Rightarrow> ltype option \<Rightarrow> elem_kind" where
  "array_lit_elem_kind cg elems elem_ty =
    (case elem_ty of
       Some t \<Rightarrow> ek_of t
     | None \<Rightarrow>
         (case elems of
            [] \<Rightarrow> EK_Word
          | e # _ \<Rightarrow>
              if list_all (\<lambda>e. is_byte_cast (ae_value e)) elems then EK_Byte
              else if infer_expr_type cg (ae_value e) = VT_Word
              then (case infer_num_kind cg (ae_value e) of
                  NK_Big \<Rightarrow> EK_Big | NK_Real \<Rightarrow> EK_Real | NK_Word \<Rightarrow> EK_Word)
              else EK_Ptr))"

record literal_elems =
  le_placed :: "(int \<times> expr) list"
  le_default :: "expr option"
  le_next :: int

fun place_selectors :: "(expr \<Rightarrow> rstring + const_val) \<Rightarrow> expr \<Rightarrow> (expr \<times> expr option) list \<Rightarrow>
    literal_elems \<Rightarrow> literal_elems option" where
  "place_selectors fc v [] p = Some p"
| "place_selectors fc v ((lo, hi) # sels) p =
    Option.bind (const_int (fc lo)) (\<lambda>lo.
    Option.bind (case hi of None \<Rightarrow> Some lo | Some hi \<Rightarrow> const_int (fc hi)) (\<lambda>hi.
    place_selectors fc v sels (p\<lparr>le_placed := le_placed p @ map (\<lambda>i. (i, v)) (index_range lo hi),
      le_next := sint hi + 1\<rparr>)))"

definition place_literal :: "(expr \<Rightarrow> rstring + const_val) \<Rightarrow> expr array_elem \<Rightarrow> literal_elems \<Rightarrow>
    literal_elems option" where
  "place_literal fc e p =
    (case ae_index e of
       None \<Rightarrow> Some (p\<lparr>le_placed := le_placed p @ [(le_next p, ae_value e)], le_next := le_next p + 1\<rparr>)
     | Some (AI_Selectors sels) \<Rightarrow> place_selectors fc (ae_value e) sels p
     | Some AI_Wildcard \<Rightarrow> Some (p\<lparr>le_default := Some (ae_value e)\<rparr>))"

fun place_literals :: "(expr \<Rightarrow> rstring + const_val) \<Rightarrow> expr array_elem list \<Rightarrow> literal_elems \<Rightarrow>
    literal_elems option" where
  "place_literals fc [] p = Some p"
| "place_literals fc (e # es) p = Option.bind (place_literal fc e p) (place_literals fc es)"

definition i32_of_int :: "rstring \<Rightarrow> int \<Rightarrow> i32 cg" where
  "i32_of_int msg v = (if - 2147483648 \<le> v \<and> v \<le> 2147483647 then ret (of_int v) else cg_err msg)"

definition elem_num_kind :: "elem_kind \<Rightarrow> num_kind" where
  "elem_num_kind k = (case k of EK_Big \<Rightarrow> NK_Big | EK_Real \<Rightarrow> NK_Real | _ \<Rightarrow> NK_Word)"

definition literal_length :: "gen_to \<Rightarrow> expr option \<Rightarrow> literal_elems \<Rightarrow> i32 \<Rightarrow> unit cg" where
  "literal_length to sz p len_tmp =
    (case sz of
       Some e \<Rightarrow> to e len_tmp
     | None \<Rightarrow> sbind (i32_of_int (rstr ''array size is out of range'')
         (case map (\<lambda>(i, _). i + 1) (le_placed p) of [] \<Rightarrow> 0 | is \<Rightarrow> Max (set is)))
         (\<lambda>len. gen_word_const_to len len_tmp))"

definition fill_literal :: "gen_to \<Rightarrow> elem_kind \<Rightarrow> opcode \<Rightarrow> opcode \<Rightarrow> i32 \<Rightarrow> i32 \<Rightarrow> expr \<Rightarrow> unit cg" where
  "fill_literal to kind ind_op mov_op len_tmp dst v = sbind (alloc_temp_for (elem_num_kind kind)) (\<lambda>val_tmp.
    and_do (gen_expr_to_kind to v val_tmp (elem_num_kind kind))
    (sbind alloc_temp (\<lambda>i_tmp.
    and_do (emit Op_Movw (op_imm 0) mid_unused (op_fp i_tmp))
    (asks code_pc (\<lambda>loop_start.
    sbind (emit_at Op_Bgew (op_fp i_tmp) (mid_fp len_tmp) (op_imm 0)) (\<lambda>exit_jump.
    sbind alloc_temp (\<lambda>ref_tmp. do_all [
      emit ind_op (op_fp dst) (mid_fp ref_tmp) (op_fp i_tmp),
      emit mov_op (op_fp val_tmp) mid_unused (op_fp_ind ref_tmp 0),
      emit Op_Addw (op_imm 1) mid_unused (op_fp i_tmp),
      emit Op_Jmp op_unused mid_unused (op_imm loop_start),
      patch_here exit_jump])))))))"

definition store_literal :: "gen_to \<Rightarrow> elem_kind \<Rightarrow> opcode \<Rightarrow> opcode \<Rightarrow> i32 \<Rightarrow> int \<times> expr \<Rightarrow> unit cg" where
  "store_literal to kind ind_op mov_op dst = (\<lambda>(index, v).
    sbind (i32_of_int (rstr ''array index is out of range'') index) (\<lambda>index.
    sbind (alloc_temp_for (elem_num_kind kind)) (\<lambda>val_tmp.
    and_do (gen_expr_to_kind to v val_tmp (elem_num_kind kind))
    (sbind alloc_temp (\<lambda>idx_tmp.
    and_do (gen_word_const_to index idx_tmp)
    (sbind alloc_temp (\<lambda>ref_tmp. do_all [
      emit ind_op (op_fp dst) (mid_fp ref_tmp) (op_fp idx_tmp),
      emit mov_op (op_fp val_tmp) mid_unused (op_fp_ind ref_tmp 0)])))))))"

definition gen_array_literal :: "nan_choice \<Rightarrow> gen_to \<Rightarrow> expr option \<Rightarrow> expr array_elem list \<Rightarrow>
    ltype option \<Rightarrow> i32 \<Rightarrow> unit cg" where
  "gen_array_literal nan to sz elems elem_ty dst =
    asks (\<lambda>cg. place_literals (\<lambda>x. fold_const nan cg x 0) elems
      \<lparr>le_placed = [], le_default = None, le_next = 0\<rparr>) (\<lambda>found. case found of
      None \<Rightarrow> cg_err (rstr ''an array-literal index must be a constant here'')
    | Some p \<Rightarrow> asks (\<lambda>cg. array_lit_elem_kind cg elems elem_ty) (\<lambda>kind.
        let (ind_op, mov) = array_elem_opcodes (Some (ek_basic kind));
            mov_op = (if ek_is_ptr kind then Op_Movp else mov) in
        sbind alloc_temp (\<lambda>len_tmp.
        and_do (literal_length to sz p len_tmp)
        (sbind (emit_at Op_Newa (op_fp len_tmp) (mid_imm 0) (op_fp dst)) (\<lambda>at_pc. do_all [
          need_type at_pc TO_Middle (KEY_Elem kind),
          when_some (le_default p) (fill_literal to kind ind_op mov_op len_tmp dst),
          for_each (le_placed p) (store_literal to kind ind_op mov_op dst)])))))"

section \<open>Assignments\<close>

definition assign_target :: "rstring \<Rightarrow> expr \<Rightarrow> (slot \<times> val_type \<times> num_kind) cg" where
  "assign_target name rhs = asks (\<lambda>cg. lookup_var cg name) (\<lambda>found. case found of
      Some v \<Rightarrow> ret v
    | None \<Rightarrow> asks (\<lambda>cg. infer_expr_type cg rhs) (\<lambda>ty. asks (\<lambda>cg. infer_num_kind cg rhs) (\<lambda>kind.
        sbind (alloc_local name ty kind) (\<lambda>off. ret (SL_Local off, ty, kind)))))"

definition gen_assign_to_ident :: "gen_to \<Rightarrow> rstring \<Rightarrow> expr \<Rightarrow> i32 option \<Rightarrow> unit cg" where
  "gen_assign_to_ident to name rhs dst = sbind (assign_target name rhs) (\<lambda>(s, ty, kind).
    let mov = mov_opcode ty kind in
    case s of
      SL_Local off \<Rightarrow> do_all [gen_expr_to_kind to rhs off kind,
        when_some dst (\<lambda>d. if d \<noteq> off then emit mov (op_fp off) mid_unused (op_fp d) else ret ())]
    | SL_Global mp_off \<Rightarrow> sbind (alloc_temp_for kind) (\<lambda>tmp. do_all [
        gen_expr_to_kind to rhs tmp kind,
        emit mov (op_fp tmp) mid_unused (op_mp mp_off),
        when_some dst (\<lambda>d. emit mov (op_fp tmp) mid_unused (op_fp d))]))"

definition assign_element :: "gen_to \<Rightarrow> expr \<Rightarrow> expr \<Rightarrow> expr \<Rightarrow> unit cg" where
  "assign_element to arr idx rhs = asks (\<lambda>cg. infer_expr_type cg arr) (\<lambda>arr_ty.
    sbind alloc_temp (\<lambda>idx_tmp. sbind alloc_temp (\<lambda>arr_tmp.
    if arr_ty = VT_Array
    then asks (\<lambda>cg. array_elem_basic_for_expr cg arr) (\<lambda>elem.
      sbind (alloc_temp_for (basic_num_kind elem)) (\<lambda>val_tmp.
      and_do (do_all [to rhs val_tmp, to idx idx_tmp, to arr arr_tmp])
      (sbind alloc_temp (\<lambda>ref_tmp. let (ind_op, mov_op) = array_elem_opcodes elem in do_all [
        emit ind_op (op_fp arr_tmp) (mid_fp ref_tmp) (op_fp idx_tmp),
        emit mov_op (op_fp val_tmp) mid_unused (op_fp_ind ref_tmp 0)]))))
    else sbind alloc_temp (\<lambda>val_tmp. do_all [to rhs val_tmp, to idx idx_tmp, to arr arr_tmp,
      emit Op_Insc (op_fp val_tmp) (mid_fp idx_tmp) (op_fp arr_tmp)]))))"

text \<open>The value of an optional bound of a slice, zero without one.\<close>

definition gen_low_bound :: "gen_to \<Rightarrow> expr option \<Rightarrow> i32 \<Rightarrow> unit cg" where
  "gen_low_bound to lo t = (case lo of
      Some e \<Rightarrow> to e t | None \<Rightarrow> emit Op_Movw (op_imm 0) mid_unused (op_fp t))"

definition assign_slice :: "gen_to \<Rightarrow> expr \<Rightarrow> expr option \<Rightarrow> expr \<Rightarrow> unit cg" where
  "assign_slice to arr lo rhs = sbind alloc_temp (\<lambda>rhs_tmp. and_do (to rhs rhs_tmp)
    (sbind alloc_temp (\<lambda>arr_tmp. and_do (to arr arr_tmp)
    (sbind alloc_temp (\<lambda>lo_tmp. do_all [gen_low_bound to lo lo_tmp,
      emit Op_Slicela (op_fp rhs_tmp) (mid_fp lo_tmp) (op_fp arr_tmp)])))))"

definition assign_tuple_field :: "gen_to \<Rightarrow> expr \<Rightarrow> rstring \<Rightarrow> nat \<Rightarrow> ltype list \<Rightarrow> expr \<Rightarrow> unit cg" where
  "assign_tuple_field to inner field n ftys rhs =
    (let layout = compute_tuple_layout ftys in
     case tuple_field layout n of
       None \<Rightarrow> cg_err (out_of_tuple field layout)
     | Some (fty, foff) \<Rightarrow>
         (case inner of
            E_Ident base _ \<Rightarrow> asks (\<lambda>cg. get_local cg base) (\<lambda>found. case found of
                None \<Rightarrow> cg_err (quoted base @ rstr '' is not a tuple this function declares'')
              | Some (base_off, _) \<Rightarrow> sbind (alloc_temp_for (type_num_kind fty)) (\<lambda>val_tmp. do_all [
                  gen_expr_to_kind to rhs val_tmp (type_num_kind fty),
                  copy_value fty val_tmp (base_off + foff)]))
          | _ \<Rightarrow> cg_err (rstr ''assigning to a field of a tuple that is not a variable is not supported yet'')))"

definition assign_ref_field :: "gen_to \<Rightarrow> expr \<Rightarrow> rstring \<Rightarrow> expr \<Rightarrow> unit cg" where
  "assign_ref_field to inner field rhs = sbind alloc_temp (\<lambda>ref_tmp.
    asks (\<lambda>cg. field_info_for_expr cg inner field) (\<lambda>info.
    let (field_off, ty) = (case info of
          Some (off, ty) \<Rightarrow> (off, Some ty) | None \<Rightarrow> (estimate_field_offset field, None));
        val_kind = unwrap_or NK_Word (map_option type_num_kind ty) in
    sbind (alloc_temp_for val_kind) (\<lambda>val_tmp.
    and_do (do_all [gen_expr_to_kind to rhs val_tmp val_kind, to inner ref_tmp])
    (asks (\<lambda>cg. field_mov ty (infer_expr_type cg rhs)) (\<lambda>op.
      emit op (op_fp val_tmp) mid_unused (op_fp_ind ref_tmp field_off))))))"

definition assign_field :: "gen_to \<Rightarrow> expr \<Rightarrow> rstring \<Rightarrow> expr \<Rightarrow> unit cg" where
  "assign_field to inner field rhs = asks (\<lambda>cg. tuple_fields_of cg inner) (\<lambda>ftys.
    case (tuple_field_index field, ftys) of
      (Some n, Some ftys) \<Rightarrow> assign_tuple_field to inner field n ftys rhs
    | _ \<Rightarrow> assign_ref_field to inner field rhs)"

definition gen_assign :: "gen_disc \<Rightarrow> gen_to \<Rightarrow> expr \<Rightarrow> expr \<Rightarrow> unit cg" where
  "gen_assign disc to lhs rhs =
    (case lhs of
       E_Ident name _ \<Rightarrow> gen_assign_to_ident to name rhs None
     | E_Tuple targets _ \<Rightarrow> gen_tuple_assign disc to targets rhs
     | E_Index arr idx _ \<Rightarrow> assign_element to arr idx rhs
     | E_Slice arr lo _ _ \<Rightarrow> assign_slice to arr lo rhs
     | E_Dot inner field _ \<Rightarrow> assign_field to inner field rhs
     | _ \<Rightarrow> sbind alloc_temp (to rhs))"

definition compound_ident :: "gen_to \<Rightarrow> rstring \<Rightarrow> bin_op \<Rightarrow> expr \<Rightarrow> unit cg" where
  "compound_ident to name op rhs = asks (\<lambda>cg. lookup_var cg name) (\<lambda>found.
    sbind (case found of
        Some v \<Rightarrow> ret v
      | None \<Rightarrow> sbind (alloc_local name VT_Word NK_Word) (\<lambda>off. ret (SL_Local off, VT_Word, NK_Word)))
    (\<lambda>(s, vt, kind).
      if vt = VT_Ptr \<and> op = BO_Add
      then sbind alloc_temp (\<lambda>rhs_tmp. do_all [to rhs rhs_tmp,
        emit Op_Addc (op_fp rhs_tmp) mid_unused (slot_operand s)])
      else sbind (alloc_temp_for kind) (\<lambda>rhs_tmp. do_all [gen_expr_to_kind to rhs rhs_tmp kind,
        emit (compound_opcode op kind) (op_fp rhs_tmp) mid_unused (slot_operand s)])))"

definition compound_element :: "gen_to \<Rightarrow> expr \<Rightarrow> expr \<Rightarrow> bin_op \<Rightarrow> expr \<Rightarrow> unit cg" where
  "compound_element to arr idx op rhs = asks (\<lambda>cg. array_elem_basic_for_expr cg arr) (\<lambda>elem.
    let kind = basic_num_kind elem in
    sbind (alloc_temp_for kind) (\<lambda>val_tmp. and_do (gen_expr_to_kind to rhs val_tmp kind)
    (sbind alloc_temp (\<lambda>idx_tmp. sbind alloc_temp (\<lambda>arr_tmp.
    and_do (do_all [to idx idx_tmp, to arr arr_tmp])
    (sbind alloc_temp (\<lambda>ref_tmp. do_all [
      emit (fst (array_elem_opcodes elem)) (op_fp arr_tmp) (mid_fp ref_tmp) (op_fp idx_tmp),
      emit (compound_opcode op kind) (op_fp val_tmp) mid_unused (op_fp_ind ref_tmp 0)])))))))"

definition gen_compound_assign :: "gen_to \<Rightarrow> expr \<Rightarrow> bin_op \<Rightarrow> expr \<Rightarrow> unit cg" where
  "gen_compound_assign to lhs op rhs =
    (case lhs of
       E_Ident name _ \<Rightarrow> compound_ident to name op rhs
     | E_Index arr idx _ \<Rightarrow> compound_element to arr idx op rhs
     | _ \<Rightarrow> ret ())"

text \<open>The name of a declaration, and what its right-hand side says about the variable.\<close>

definition decl_name :: "rstring list \<Rightarrow> rstring" where
  "decl_name names = (case names of n # _ \<Rightarrow> n | [] \<Rightarrow> rstr ''_'')"

definition rhs_array_elem :: "codegen \<Rightarrow> expr \<Rightarrow> ltype option" where
  "rhs_array_elem cg rhs =
    (case rhs of
       E_ArrayAlloc _ ty _ \<Rightarrow> Some ty
     | E_ArrayLit _ elems ty _ \<Rightarrow> (case ty of
         Some t \<Rightarrow> Some t
       | None \<Rightarrow> Some (T_Basic (ek_basic (array_lit_elem_kind cg elems None))))
     | _ \<Rightarrow> None)"

definition rhs_adt :: "codegen \<Rightarrow> expr \<Rightarrow> rstring option" where
  "rhs_adt cg rhs =
    (case rhs of
       E_RefAlloc ty _ _ \<Rightarrow> adt_name_for_type ty
     | E_Unary UO_Ref inner _ \<Rightarrow>
         (case inner of E_Call callee _ _ \<Rightarrow> adt_ctor_name cg callee | _ \<Rightarrow> adt_ctor_name cg inner)
     | _ \<Rightarrow> adt_name_from_call cg rhs)"

definition note_rhs :: "rstring \<Rightarrow> expr \<Rightarrow> unit cg" where
  "note_rhs name rhs = do_all [
    updates (\<lambda>cg. note_opt (note_array_elem name) (rhs_array_elem cg rhs) cg),
    updates (\<lambda>cg. note_opt (note_chan_elem name) (chan_elem_type cg rhs) cg),
    updates (\<lambda>cg. note_opt (note_adt name) (rhs_adt cg rhs) cg),
    updates (note_module_handle name None (Some rhs))]"

definition gen_decl_assign :: "gen_to \<Rightarrow> rstring list \<Rightarrow> expr \<Rightarrow> unit cg" where
  "gen_decl_assign to names rhs =
    asks (\<lambda>cg. infer_expr_type cg rhs) (\<lambda>ty. asks (\<lambda>cg. infer_num_kind cg rhs) (\<lambda>kind.
    asks (\<lambda>cg. tuple_fields_of cg rhs) (\<lambda>ftys. case ftys of
        Some ftys \<Rightarrow> sbind (declare_local_of_type (decl_name names) (T_Tuple ftys)) (to rhs)
      | None \<Rightarrow> sbind (alloc_local (decl_name names) ty kind) (\<lambda>off.
          and_do (note_rhs (decl_name names) rhs) (to rhs off)))))"

definition gen_expr_discard_step :: "gen_disc \<Rightarrow> gen_to \<Rightarrow> expr \<Rightarrow> unit cg" where
  "gen_expr_discard_step disc to e =
    (case e of
       E_Assign lhs rhs _ \<Rightarrow> gen_assign disc to lhs rhs
     | E_CompoundAssign lhs op rhs _ \<Rightarrow> gen_compound_assign to lhs op rhs
     | E_DeclAssign names rhs _ \<Rightarrow> gen_decl_assign to names rhs
     | E_TupleDeclAssign names rhs _ \<Rightarrow> gen_tuple_decl_assign to names rhs None
     | E_PostInc inner _ \<Rightarrow> gen_inc_dec to inner True None
     | E_PostDec inner _ \<Rightarrow> gen_inc_dec to inner False None
     | E_Call _ _ _ \<Rightarrow> gen_call_expr disc to e
     | E_Send chan v _ \<Rightarrow> gen_send to chan v
     | E_ModQual _ _ _ \<Rightarrow> gen_call_expr disc to e
     | _ \<Rightarrow> sbind alloc_temp (to e))"

section \<open>Values\<close>

definition local_tuple_slot :: "codegen \<Rightarrow> rstring \<Rightarrow> (ltype list \<times> i32) option" where
  "local_tuple_slot cg name = Option.bind (hm_get (cg_local_tuple cg) name) (\<lambda>ftys.
    map_option (\<lambda>(off, _). (ftys, off)) (get_local cg name))"

definition gen_ident :: "rstring \<Rightarrow> i32 \<Rightarrow> unit cg" where
  "gen_ident name dst = (\<lambda>cg.
    (case local_tuple_slot cg name of
       Some (ftys, src) \<Rightarrow> copy_value (T_Tuple ftys) src dst
     | None \<Rightarrow>
         (case lookup_var cg name of
            Some (s, ty, kind) \<Rightarrow>
              if s \<noteq> SL_Local dst then emit (mov_opcode ty kind) (slot_operand s) mid_unused (op_fp dst)
              else ret ()
          | None \<Rightarrow>
              (case const_value_of cg name of
                 Some (Inr v) \<Rightarrow> gen_const_to v dst
               | Some (Inl why) \<Rightarrow>
                   cg_err (rstr ''constant '' @ quoted name @ rstr '' cannot be folded: '' @ why)
               | None \<Rightarrow>
                   cg_err (case hm_get (cg_imported cg) name of
                       Some imp \<Rightarrow> imported_value_error cg name imp
                     | None \<Rightarrow> rstr ''undefined identifier '' @ quoted name)))) cg)"

definition gen_index :: "gen_to \<Rightarrow> expr \<Rightarrow> expr \<Rightarrow> i32 \<Rightarrow> unit cg" where
  "gen_index to arr idx dst = asks (\<lambda>cg. infer_expr_type cg arr) (\<lambda>arr_ty.
    asks (\<lambda>cg. array_elem_basic_for_expr cg arr) (\<lambda>elem.
    sbind alloc_temp (\<lambda>arr_tmp. sbind alloc_temp (\<lambda>idx_tmp.
    and_do (do_all [to arr arr_tmp, to idx idx_tmp])
    (if arr_ty = VT_Ptr then emit Op_Indc (op_fp arr_tmp) (mid_fp idx_tmp) (op_fp dst)
     else sbind alloc_temp (\<lambda>ref_tmp. let (ind_op, mov_op) = array_elem_opcodes elem in do_all [
       emit ind_op (op_fp arr_tmp) (mid_fp ref_tmp) (op_fp idx_tmp),
       emit mov_op (op_fp_ind ref_tmp 0) mid_unused (op_fp dst)]))))))"

definition length_opcode :: "val_type \<Rightarrow> opcode" where
  "length_opcode ty = (if ty = VT_Array then Op_Lena else Op_Lenc)"

definition gen_slice :: "gen_to \<Rightarrow> expr \<Rightarrow> expr option \<Rightarrow> expr option \<Rightarrow> i32 \<Rightarrow> unit cg" where
  "gen_slice to arr lo hi dst = sbind alloc_temp (\<lambda>arr_tmp. and_do (to arr arr_tmp)
    (sbind alloc_temp (\<lambda>lo_tmp. sbind alloc_temp (\<lambda>hi_tmp. do_all [
      gen_low_bound to lo lo_tmp,
      (case hi of
         Some e \<Rightarrow> to e hi_tmp
       | None \<Rightarrow> asks (\<lambda>cg. infer_expr_type cg arr) (\<lambda>ty.
           emit (length_opcode ty) (op_fp arr_tmp) mid_unused (op_fp hi_tmp))),
      emit Op_Slicea (op_fp lo_tmp) (mid_fp hi_tmp) (op_fp arr_tmp),
      if arr_tmp \<noteq> dst then emit Op_Movp (op_fp arr_tmp) mid_unused (op_fp dst) else ret ()]))))"

definition gen_hd :: "gen_to \<Rightarrow> expr \<Rightarrow> i32 \<Rightarrow> unit cg" where
  "gen_hd to inner dst = sbind alloc_temp (\<lambda>tmp.
    do_all [to inner tmp, emit Op_Headp (op_fp tmp) mid_unused (op_fp dst)])"

text \<open>Where the operand of \<open>tl\<close> is a name that is no local variable, an error in it is dropped.\<close>

definition tl_operand :: "gen_to \<Rightarrow> expr \<Rightarrow> i32 cg" where
  "tl_operand to inner =
    (case inner of
       E_Ident name _ \<Rightarrow> asks (\<lambda>cg. get_local cg name) (\<lambda>found. case found of
           Some (off, _) \<Rightarrow> ret off
         | None \<Rightarrow> sbind alloc_temp (\<lambda>t. and_do (cg_ignore_err (to inner t)) (ret t)))
     | _ \<Rightarrow> sbind alloc_temp (\<lambda>t. and_do (to inner t) (ret t)))"

definition gen_tl :: "gen_to \<Rightarrow> expr \<Rightarrow> i32 \<Rightarrow> unit cg" where
  "gen_tl to inner dst = sbind (tl_operand to inner) (\<lambda>tmp.
    emit Op_Tail (op_fp tmp) mid_unused (op_fp dst))"

definition gen_len :: "gen_to \<Rightarrow> expr \<Rightarrow> i32 \<Rightarrow> unit cg" where
  "gen_len to inner dst = sbind alloc_temp (\<lambda>tmp. and_do (to inner tmp)
    (asks (\<lambda>cg. infer_expr_type cg inner) (\<lambda>ty.
      emit (length_opcode ty) (op_fp tmp) mid_unused (op_fp dst))))"

definition gen_cons :: "gen_to \<Rightarrow> expr \<Rightarrow> expr \<Rightarrow> i32 \<Rightarrow> unit cg" where
  "gen_cons to head tail dst = sbind alloc_temp (\<lambda>h. sbind alloc_temp (\<lambda>t. do_all [
    to head h, to tail t,
    emit Op_Consp (op_fp h) mid_unused (op_fp t),
    if t \<noteq> dst then emit Op_Movp (op_fp t) mid_unused (op_fp dst) else ret ()]))"

definition gen_load :: "gen_to \<Rightarrow> ltype \<Rightarrow> expr \<Rightarrow> i32 \<Rightarrow> unit cg" where
  "gen_load to ty path dst =
    (case ty of
       T_Named qn \<Rightarrow> sbind (ensure_module_import (qn_name qn)) (\<lambda>import_idx.
         sbind alloc_temp (\<lambda>path_tmp. do_all [to path path_tmp,
           emit Op_Load (op_fp path_tmp) (mid_imm (of_nat import_idx)) (op_fp dst)]))
     | _ \<Rightarrow> cg_err (rstr ''`load` needs a module name''))"

definition gen_decl_value :: "gen_disc \<Rightarrow> expr \<Rightarrow> rstring list \<Rightarrow> i32 \<Rightarrow> unit cg" where
  "gen_decl_value disc e names dst = and_do (disc e)
    (asks (\<lambda>cg. get_local cg (decl_name names)) (\<lambda>found. case found of
        None \<Rightarrow> ret ()
      | Some (off, ty) \<Rightarrow> asks (\<lambda>cg. local_num_kind cg (decl_name names)) (\<lambda>kind.
          if off \<noteq> dst then emit (mov_opcode ty kind) (op_fp off) mid_unused (op_fp dst) else ret ())))"

section \<open>Conversions\<close>

text \<open>The operand in a temporary of its own width, converted from there; or in place.\<close>

definition convert_from :: "gen_to \<Rightarrow> expr \<Rightarrow> num_kind \<Rightarrow> opcode \<Rightarrow> i32 \<Rightarrow> unit cg" where
  "convert_from to inner kind opc dst = sbind (alloc_temp_for kind) (\<lambda>tmp.
    do_all [to inner tmp, emit opc (op_fp tmp) mid_unused (op_fp dst)])"

definition convert_in_place :: "gen_to \<Rightarrow> expr \<Rightarrow> opcode \<Rightarrow> i32 \<Rightarrow> unit cg" where
  "convert_in_place to inner opc dst =
    do_all [to inner dst, emit opc (op_fp dst) mid_unused (op_fp dst)]"

definition cast_to_int :: "gen_to \<Rightarrow> expr \<Rightarrow> i32 \<Rightarrow> unit cg" where
  "cast_to_int to inner dst = asks (\<lambda>cg. infer_num_kind cg inner) (\<lambda>kind.
    asks (\<lambda>cg. infer_expr_type cg inner) (\<lambda>ty. case kind of
        NK_Word \<Rightarrow> if ty = VT_Ptr then convert_in_place to inner Op_Cvtcw dst else to inner dst
      | NK_Big \<Rightarrow> convert_from to inner NK_Big Op_Cvtlw dst
      | NK_Real \<Rightarrow> convert_from to inner NK_Real Op_Cvtfw dst))"

definition cast_to_big :: "gen_to \<Rightarrow> expr \<Rightarrow> i32 \<Rightarrow> unit cg" where
  "cast_to_big to inner dst = asks (\<lambda>cg. infer_num_kind cg inner) (\<lambda>kind. case kind of
      NK_Word \<Rightarrow> convert_from to inner NK_Word Op_Cvtwl dst
    | NK_Big \<Rightarrow> to inner dst
    | NK_Real \<Rightarrow> convert_from to inner NK_Real Op_Cvtfl dst)"

definition cast_to_real :: "gen_to \<Rightarrow> expr \<Rightarrow> i32 \<Rightarrow> unit cg" where
  "cast_to_real to inner dst = asks (\<lambda>cg. infer_num_kind cg inner) (\<lambda>kind. case kind of
      NK_Word \<Rightarrow> convert_from to inner NK_Word Op_Cvtwf dst
    | NK_Big \<Rightarrow> convert_from to inner NK_Big Op_Cvtlf dst
    | NK_Real \<Rightarrow> to inner dst)"

definition cast_to_string :: "gen_to \<Rightarrow> expr \<Rightarrow> i32 \<Rightarrow> unit cg" where
  "cast_to_string to inner dst = asks (\<lambda>cg. infer_expr_type cg inner) (\<lambda>ty.
    if ty = VT_Array then convert_in_place to inner Op_Cvtac dst
    else asks (\<lambda>cg. infer_num_kind cg inner) (\<lambda>kind. case kind of
        NK_Big \<Rightarrow> convert_from to inner NK_Big Op_Cvtlc dst
      | NK_Real \<Rightarrow> convert_from to inner NK_Real Op_Cvtfc dst
      | NK_Word \<Rightarrow> convert_in_place to inner Op_Cvtwc dst))"

definition gen_cast :: "gen_to \<Rightarrow> ltype \<Rightarrow> expr \<Rightarrow> i32 \<Rightarrow> unit cg" where
  "gen_cast to ty inner dst =
    (case ty of
       T_Array (T_Basic BT_Byte) \<Rightarrow> convert_in_place to inner Op_Cvtca dst
     | T_Basic BT_Int \<Rightarrow> cast_to_int to inner dst
     | T_Basic BT_Big \<Rightarrow> cast_to_big to inner dst
     | T_Basic BT_Real \<Rightarrow> cast_to_real to inner dst
     | T_Basic BT_String \<Rightarrow> cast_to_string to inner dst
     | _ \<Rightarrow> to inner dst)"

section \<open>Allocation, fields and channels\<close>

definition gen_array_alloc :: "gen_to \<Rightarrow> expr \<Rightarrow> ltype \<Rightarrow> i32 \<Rightarrow> unit cg" where
  "gen_array_alloc to sz elem dst = sbind alloc_temp (\<lambda>sz_tmp. and_do (to sz sz_tmp)
    (sbind (emit_at Op_Newa (op_fp sz_tmp) (mid_imm 0) (op_fp dst)) (\<lambda>at_pc.
      need_type at_pc TO_Middle (KEY_Elem (ek_of elem)))))"

definition gen_tuple_field :: "gen_to \<Rightarrow> expr \<Rightarrow> rstring \<Rightarrow> nat \<Rightarrow> i32 \<Rightarrow> unit cg" where
  "gen_tuple_field to inner field n dst = sbind (gen_tuple_block to inner) (\<lambda>(block, layout).
    case tuple_field layout n of
      None \<Rightarrow> cg_err (out_of_tuple field layout)
    | Some (ty, off) \<Rightarrow> copy_value ty (block + off) dst)"

definition gen_ref_field :: "gen_to \<Rightarrow> expr \<Rightarrow> rstring \<Rightarrow> i32 \<Rightarrow> unit cg" where
  "gen_ref_field to inner field dst = sbind alloc_temp (\<lambda>ref_tmp. and_do (to inner ref_tmp)
    (asks (\<lambda>cg. field_info_for_expr cg inner field) (\<lambda>info.
      let (field_off, mov_op) = (case info of
            Some (off, ty) \<Rightarrow> (off, field_mov (Some ty) VT_Word)
          | None \<Rightarrow> (estimate_field_offset field, Op_Movw)) in
      emit mov_op (op_fp_ind ref_tmp field_off) mid_unused (op_fp dst))))"

definition gen_dot :: "gen_to \<Rightarrow> expr \<Rightarrow> rstring \<Rightarrow> i32 \<Rightarrow> unit cg" where
  "gen_dot to inner field dst = asks (\<lambda>cg. tuple_fields_of cg inner) (\<lambda>ftys.
    case (tuple_field_index field, ftys) of
      (Some n, Some _) \<Rightarrow> gen_tuple_field to inner field n dst
    | _ \<Rightarrow> gen_ref_field to inner field dst)"

definition gen_chan_alloc :: "ltype \<Rightarrow> i32 \<Rightarrow> unit cg" where
  "gen_chan_alloc ty dst =
    (case ty of
       T_Tuple ftys \<Rightarrow>
         (let layout = compute_tuple_layout ftys in
          sbind (emit_at (if tl_ptr_offsets layout = [] then Op_Newcm else Op_Newcmp) (op_imm 0) mid_unused
            (op_fp dst)) (\<lambda>at_pc.
            need_type at_pc TO_Source (KEY_Block (tl_size layout) (tl_ptr_offsets layout))))
     | _ \<Rightarrow> emit (newc_opcode (type_basic ty)) op_unused (mid_imm 0) (op_fp dst))"

definition gen_recv :: "gen_to \<Rightarrow> expr \<Rightarrow> i32 \<Rightarrow> unit cg" where
  "gen_recv to chan dst = sbind alloc_temp (\<lambda>chan_tmp.
    do_all [to chan chan_tmp, emit Op_Recv (op_fp chan_tmp) mid_unused (op_fp dst)])"

definition gen_tagof :: "gen_to \<Rightarrow> expr \<Rightarrow> i32 \<Rightarrow> unit cg" where
  "gen_tagof to inner dst = asks (\<lambda>cg. variant_tag cg inner) (\<lambda>found. case found of
      Some tag \<Rightarrow> gen_word_const_to tag dst
    | None \<Rightarrow> sbind alloc_temp (\<lambda>tmp. do_all [to inner tmp,
        emit Op_Movw (op_fp_ind tmp 0) mid_unused (op_fp dst)]))"

definition gen_list_literal :: "gen_to \<Rightarrow> expr list \<Rightarrow> i32 \<Rightarrow> unit cg" where
  "gen_list_literal to elems dst = and_do (emit Op_Movw (op_imm 0) mid_unused (op_fp dst))
    (for_each (rev elems) (\<lambda>elem. sbind alloc_temp (\<lambda>elem_tmp.
      do_all [to elem elem_tmp, emit Op_Consp (op_fp elem_tmp) mid_unused (op_fp dst)])))"

section \<open>All expressions\<close>

definition gen_expr_to_step :: "nan_choice \<Rightarrow> gen_disc \<Rightarrow> gen_to \<Rightarrow> expr \<Rightarrow> i32 \<Rightarrow> unit cg" where
  "gen_expr_to_step nan disc to e dst =
    (case e of
       E_IntLit v _ \<Rightarrow> gen_int_const_to v dst
     | E_CharLit v _ \<Rightarrow> emit Op_Movw (op_imm v) mid_unused (op_fp dst)
     | E_RealLit v _ \<Rightarrow> gen_real_const_to v dst
     | E_StringLit s _ \<Rightarrow> gen_string_const_to s dst
     | E_Nil _ \<Rightarrow> emit Op_Movw (op_imm 0) mid_unused (op_fp dst)
     | E_Ident name _ \<Rightarrow> gen_ident name dst
     | E_Binary lhs op rhs _ \<Rightarrow> asks (\<lambda>cg. infer_expr_type cg lhs) (\<lambda>lt.
         if op = BO_Add \<and> lt = VT_Ptr then gen_concat to lhs rhs dst else gen_binary to lhs op rhs dst)
     | E_Index arr idx _ \<Rightarrow> gen_index to arr idx dst
     | E_Slice arr lo hi _ \<Rightarrow> gen_slice to arr lo hi dst
     | E_Unary op inner _ \<Rightarrow> gen_unary to op inner dst
     | E_Hd inner _ \<Rightarrow> gen_hd to inner dst
     | E_Tl inner _ \<Rightarrow> gen_tl to inner dst
     | E_Len inner _ \<Rightarrow> gen_len to inner dst
     | E_Cons head tail _ \<Rightarrow> gen_cons to head tail dst
     | E_Load ty path _ \<Rightarrow> gen_load to ty path dst
     | E_ModQual module member _ \<Rightarrow>
         (case module of
            E_Ident name _ \<Rightarrow> gen_mod_qual_value name member dst
          | _ \<Rightarrow> cg_err (rstr ''`->'' @ member @ rstr ''` must be applied to a module name or module variable''))
     | E_Call callee args _ \<Rightarrow> gen_call_with_result to callee args dst
     | E_DeclAssign names _ _ \<Rightarrow> gen_decl_value disc e names dst
     | E_PostInc inner _ \<Rightarrow> gen_inc_dec to inner True (Some dst)
     | E_PostDec inner _ \<Rightarrow> gen_inc_dec to inner False (Some dst)
     | E_Cast ty inner _ \<Rightarrow> gen_cast to ty inner dst
     | E_ArrayAlloc sz elem _ \<Rightarrow> gen_array_alloc to sz elem dst
     | E_ArrayLit sz elems ty _ \<Rightarrow> gen_array_literal nan to sz elems ty dst
     | E_RefAlloc ty args _ \<Rightarrow> gen_record_alloc to (unwrap_or [] (adt_name_for_type ty)) args dst
     | E_Dot inner field _ \<Rightarrow> gen_dot to inner field dst
     | E_ChanAlloc ty _ \<Rightarrow> gen_chan_alloc ty dst
     | E_Tuple elems _ \<Rightarrow> gen_tuple_literal_to to elems dst
     | E_TupleDeclAssign names rhs _ \<Rightarrow> gen_tuple_decl_assign to names rhs (Some dst)
     | E_Recv chan _ \<Rightarrow> gen_recv to chan dst
     | E_Send chan v _ \<Rightarrow> do_all [gen_send to chan v, emit Op_Movw (op_imm 0) mid_unused (op_fp dst)]
     | E_Tagof inner _ \<Rightarrow> gen_tagof to inner dst
     | E_ListLit elems _ \<Rightarrow> gen_list_literal to elems dst
     | E_Assign lhs rhs _ \<Rightarrow>
         (case lhs of
            E_Ident name _ \<Rightarrow> gen_assign_to_ident to name rhs (Some dst)
          | _ \<Rightarrow> to rhs dst)
     | E_CompoundAssign _ _ _ _ \<Rightarrow> cg_err (describe_expr_kind e @ rstr '' is not supported yet''))"

text \<open>The bound is on the depth of the calls of the two functions.\<close>

fun gen_expr_discard :: "nan_choice \<Rightarrow> nat \<Rightarrow> expr \<Rightarrow> unit cg"
  and gen_expr_to :: "nan_choice \<Rightarrow> nat \<Rightarrow> expr \<Rightarrow> i32 \<Rightarrow> unit cg" where
  "gen_expr_discard nan 0 e = fail CompileBound"
| "gen_expr_discard nan (Suc n) e =
    gen_expr_discard_step (\<lambda>e. gen_expr_discard nan n e) (\<lambda>e dst. gen_expr_to nan n e dst) e"
| "gen_expr_to nan 0 e dst = fail CompileBound"
| "gen_expr_to nan (Suc n) e dst =
    gen_expr_to_step nan (\<lambda>e. gen_expr_discard nan n e) (\<lambda>e dst. gen_expr_to nan n e dst) e dst"

end
