(* ===== verification/CodeGenStmt.thy ===== *)
theory CodeGenStmt
  imports CodeGenValues
begin

unbundle bit_operations_syntax

text \<open>
  The translation of statements, functions and files (\<open>codegen.rs\<close>): jumps that are emitted first and
  patched when their target is known, the constructs that \<open>break\<close> and \<open>continue\<close> refer to, \<open>alt\<close> with
  its table, \<open>pick\<close> with its tags, the type descriptors, and \<open>compile\<close>.
\<close>

section \<open>Passes over the syntax tree\<close>

text \<open>The strings that occur first, in this order, get their place in the module data first.\<close>

definition intern :: "rstring \<Rightarrow> unit cg" where
  "intern s = sbind (intern_string s) (\<lambda>_. ret ())"

definition opt_do :: "unit cg option \<Rightarrow> unit cg" where
  "opt_do m = unwrap_or (ret ()) m"

primrec scan_expr_strings :: "expr \<Rightarrow> unit cg" where
  "scan_expr_strings (E_StringLit s _) = intern s"
| "scan_expr_strings (E_Call c args _) = and_do (scan_expr_strings c) (do_all (map scan_expr_strings args))"
| "scan_expr_strings (E_Binary l _ r _) = and_do (scan_expr_strings l) (scan_expr_strings r)"
| "scan_expr_strings (E_Assign l r _) = and_do (scan_expr_strings l) (scan_expr_strings r)"
| "scan_expr_strings (E_CompoundAssign l _ r _) = and_do (scan_expr_strings l) (scan_expr_strings r)"
| "scan_expr_strings (E_Cons l r _) = and_do (scan_expr_strings l) (scan_expr_strings r)"
| "scan_expr_strings (E_Send l r _) = and_do (scan_expr_strings l) (scan_expr_strings r)"
| "scan_expr_strings (E_ModQual l _ _) = scan_expr_strings l"
| "scan_expr_strings (E_Dot l _ _) = scan_expr_strings l"
| "scan_expr_strings (E_Hd l _) = scan_expr_strings l"
| "scan_expr_strings (E_Tl l _) = scan_expr_strings l"
| "scan_expr_strings (E_Len l _) = scan_expr_strings l"
| "scan_expr_strings (E_Unary _ l _) = scan_expr_strings l"
| "scan_expr_strings (E_Recv l _) = scan_expr_strings l"
| "scan_expr_strings (E_PostInc l _) = scan_expr_strings l"
| "scan_expr_strings (E_PostDec l _) = scan_expr_strings l"
| "scan_expr_strings (E_Tagof l _) = scan_expr_strings l"
| "scan_expr_strings (E_Load _ p _) = scan_expr_strings p"
| "scan_expr_strings (E_DeclAssign _ p _) = scan_expr_strings p"
| "scan_expr_strings (E_TupleDeclAssign _ p _) = scan_expr_strings p"
| "scan_expr_strings (E_Cast _ p _) = scan_expr_strings p"
| "scan_expr_strings (E_ArrayAlloc p _ _) = scan_expr_strings p"
| "scan_expr_strings (E_Index a i _) = and_do (scan_expr_strings a) (scan_expr_strings i)"
| "scan_expr_strings (E_Slice a lo hi _) =
    do_all [scan_expr_strings a, opt_do (map_option scan_expr_strings lo),
      opt_do (map_option scan_expr_strings hi)]"
| "scan_expr_strings (E_Tuple es _) = do_all (map scan_expr_strings es)"
| "scan_expr_strings (E_ListLit es _) = do_all (map scan_expr_strings es)"
| "scan_expr_strings (E_IntLit _ _) = ret ()"
| "scan_expr_strings (E_RealLit _ _) = ret ()"
| "scan_expr_strings (E_CharLit _ _) = ret ()"
| "scan_expr_strings (E_Nil _) = ret ()"
| "scan_expr_strings (E_Ident _ _) = ret ()"
| "scan_expr_strings (E_ArrayLit _ _ _ _) = ret ()"
| "scan_expr_strings (E_ChanAlloc _ _) = ret ()"
| "scan_expr_strings (E_RefAlloc _ _ _) = ret ()"

definition scan_if :: "unit cg if_stmt \<Rightarrow> unit cg" where
  "scan_if s = do_all [scan_expr_strings (if_cond s), if_then s, opt_do (if_else s)]"

definition scan_while :: "unit cg while_stmt \<Rightarrow> unit cg" where
  "scan_while s = do_all [scan_expr_strings (wh_cond s), wh_body s]"

definition scan_for :: "unit cg for_stmt \<Rightarrow> unit cg" where
  "scan_for s = do_all [opt_do (for_init s), opt_do (map_option scan_expr_strings (for_cond s)),
    opt_do (for_post s), for_body s]"

primrec scan_stmt_strings :: "stmt \<Rightarrow> unit cg" where
  "scan_stmt_strings (S_Expr e) = scan_expr_strings e"
| "scan_stmt_strings (S_If s) = scan_if (map_if_stmt scan_stmt_strings s)"
| "scan_stmt_strings (S_While s) = scan_while (map_while_stmt scan_stmt_strings s)"
| "scan_stmt_strings (S_For s) = scan_for (map_for_stmt scan_stmt_strings s)"
| "scan_stmt_strings (S_Block b) = do_all (blk_stmts (map_block scan_stmt_strings b))"
| "scan_stmt_strings (S_Return e _) = opt_do (map_option scan_expr_strings e)"
| "scan_stmt_strings (S_Raise e _) = opt_do (map_option scan_expr_strings e)"
| "scan_stmt_strings (S_Spawn e _) = scan_expr_strings e"
| "scan_stmt_strings (S_VarDecl v) = opt_do (map_option scan_expr_strings (vd_init v))"
| "scan_stmt_strings (S_Import _) = ret ()"
| "scan_stmt_strings (S_Do _) = ret ()"
| "scan_stmt_strings (S_Case _) = ret ()"
| "scan_stmt_strings (S_Alt _) = ret ()"
| "scan_stmt_strings (S_Pick _) = ret ()"
| "scan_stmt_strings (S_Break _ _) = ret ()"
| "scan_stmt_strings (S_Continue _ _) = ret ()"
| "scan_stmt_strings (S_Exit _) = ret ()"
| "scan_stmt_strings (S_Label _ _) = ret ()"
| "scan_stmt_strings S_Empty = ret ()"

definition collect_strings :: "source_file \<Rightarrow> unit cg" where
  "collect_strings file = for_each (sf_decls file) (\<lambda>d. case d of
      D_Func f \<Rightarrow> for_each (blk_stmts (fd_body f)) scan_stmt_strings | _ \<Rightarrow> ret ())"

primrec collect_stmt_imports :: "stmt \<Rightarrow> unit cg" where
  "collect_stmt_imports (S_Import imp) = bind_import imp"
| "collect_stmt_imports (S_Block b) = do_all (blk_stmts (map_block collect_stmt_imports b))"
| "collect_stmt_imports (S_If s) =
    (let i = map_if_stmt collect_stmt_imports s in and_do (if_then i) (opt_do (if_else i)))"
| "collect_stmt_imports (S_For s) = for_body (map_for_stmt collect_stmt_imports s)"
| "collect_stmt_imports (S_While s) = wh_body (map_while_stmt collect_stmt_imports s)"
| "collect_stmt_imports (S_Do s) = do_body (map_do_stmt collect_stmt_imports s)"
| "collect_stmt_imports (S_Label _ s) = collect_stmt_imports s"
| "collect_stmt_imports (S_Case s) =
    do_all (concat (map ca_body (cs_arms (map_case_stmt collect_stmt_imports s))))"
| "collect_stmt_imports (S_Expr _) = ret ()"
| "collect_stmt_imports (S_VarDecl _) = ret ()"
| "collect_stmt_imports (S_Alt _) = ret ()"
| "collect_stmt_imports (S_Pick _) = ret ()"
| "collect_stmt_imports (S_Return _ _) = ret ()"
| "collect_stmt_imports (S_Break _ _) = ret ()"
| "collect_stmt_imports (S_Continue _ _) = ret ()"
| "collect_stmt_imports (S_Exit _) = ret ()"
| "collect_stmt_imports (S_Spawn _ _) = ret ()"
| "collect_stmt_imports (S_Raise _ _) = ret ()"
| "collect_stmt_imports S_Empty = ret ()"

definition collect_imports :: "source_file \<Rightarrow> unit cg" where
  "collect_imports file = for_each (sf_decls file) (\<lambda>d. case d of
      D_Import imp \<Rightarrow> bind_import imp
    | D_Func f \<Rightarrow> for_each (blk_stmts (fd_body f)) collect_stmt_imports
    | _ \<Rightarrow> ret ())"

section \<open>Breakable constructs\<close>

definition push_loop :: "bool \<Rightarrow> unit cg" where
  "push_loop continuable = updates (\<lambda>cg. cg\<lparr>cg_pending_label := None,
    cg_loop_stack := cg_loop_stack cg @ [\<lparr>lf_label = cg_pending_label cg, lf_breaks = [], lf_continues = [],
      lf_continuable = continuable\<rparr>]\<rparr>)"

text \<open>\<open>iter().rposition\<close>.\<close>

definition find_rposition :: "('a \<Rightarrow> bool) \<Rightarrow> 'a list \<Rightarrow> usize option" where
  "find_rposition p xs = (case filter (\<lambda>i. p (xs ! i)) [0..<length xs] of [] \<Rightarrow> None | is \<Rightarrow> Some (last is))"

definition find_loop :: "codegen \<Rightarrow> rstring option \<Rightarrow> bool \<Rightarrow> usize option" where
  "find_loop cg label need_continue =
    find_rposition (\<lambda>f. (\<not> need_continue \<or> lf_continuable f) \<and>
      (case label of Some l \<Rightarrow> lf_label f = Some l | None \<Rightarrow> True)) (cg_loop_stack cg)"

definition update_loop :: "usize \<Rightarrow> (loop_frame \<Rightarrow> loop_frame) \<Rightarrow> unit cg" where
  "update_loop idx f = asks cg_loop_stack (\<lambda>stack. sbind (at_index stack idx) (\<lambda>frame.
    updates (\<lambda>cg. cg\<lparr>cg_loop_stack := stack[idx := f frame]\<rparr>)))"

definition gen_break :: "rstring option \<Rightarrow> unit cg" where
  "gen_break label = asks (\<lambda>cg. find_loop cg label False) (\<lambda>found. case found of
      None \<Rightarrow> cg_err (case label of
          Some l \<Rightarrow> rstr ''`break '' @ l @ rstr ''`: no enclosing statement labelled '' @ quoted l
        | None \<Rightarrow> rstr ''`break` outside of a loop or case statement'')
    | Some idx \<Rightarrow> sbind (emit_at Op_Jmp op_unused mid_unused (op_imm 0)) (\<lambda>jump.
        update_loop idx (\<lambda>f. f\<lparr>lf_breaks := lf_breaks f @ [jump]\<rparr>)))"

definition gen_continue :: "rstring option \<Rightarrow> unit cg" where
  "gen_continue label = asks (\<lambda>cg. find_loop cg label True) (\<lambda>found. case found of
      None \<Rightarrow> cg_err (case label of
          Some l \<Rightarrow> rstr ''`continue '' @ l @ rstr ''`: no enclosing loop labelled '' @ quoted l
        | None \<Rightarrow> rstr ''`continue` outside of a loop'')
    | Some idx \<Rightarrow> sbind (emit_at Op_Jmp op_unused mid_unused (op_imm 0)) (\<lambda>jump.
        update_loop idx (\<lambda>f. f\<lparr>lf_continues := lf_continues f @ [jump]\<rparr>)))"

definition pop_loop_frame :: "codegen \<Rightarrow> codegen" where
  "pop_loop_frame cg = cg\<lparr>cg_loop_stack := butlast (cg_loop_stack cg)\<rparr>"

definition pop_loop :: "i32 \<Rightarrow> i32 \<Rightarrow> unit cg" where
  "pop_loop exit_pc continue_pc = asks cg_loop_stack (\<lambda>stack.
    if stack = [] then ret ()
    else do_all [updates pop_loop_frame,
      for_each (lf_breaks (last stack)) (\<lambda>idx. patch_to idx exit_pc),
      for_each (lf_continues (last stack)) (\<lambda>idx. patch_to idx continue_pc)])"

section \<open>Conditionals and loops\<close>

type_synonym gen_st = "stmt \<Rightarrow> unit cg"

text \<open>A condition and the branch that is taken when it is zero.\<close>

definition gen_branch_unless :: "gen_to \<Rightarrow> expr \<Rightarrow> usize cg" where
  "gen_branch_unless to cond = sbind alloc_temp (\<lambda>cond_tmp. and_do (gen_cond_to to cond cond_tmp)
    (emit_at Op_Beqw (op_fp cond_tmp) (mid_imm 0) (op_imm 0)))"

definition emit_jump :: "usize cg" where
  "emit_jump = emit_at Op_Jmp op_unused mid_unused (op_imm 0)"

definition jump_to :: "i32 \<Rightarrow> unit cg" where
  "jump_to pc = emit Op_Jmp op_unused mid_unused (op_imm pc)"

definition gen_if :: "gen_st \<Rightarrow> gen_to \<Rightarrow> stmt if_stmt \<Rightarrow> unit cg" where
  "gen_if st to s = sbind (gen_branch_unless to (if_cond s)) (\<lambda>jump_idx. and_do (st (if_then s))
    (case if_else s of
       None \<Rightarrow> patch_here jump_idx
     | Some else_stmt \<Rightarrow> sbind emit_jump (\<lambda>skip_idx.
         do_all [patch_here jump_idx, st else_stmt, patch_here skip_idx])))"

definition gen_while :: "gen_st \<Rightarrow> gen_to \<Rightarrow> stmt while_stmt \<Rightarrow> unit cg" where
  "gen_while st to s = and_do (push_loop True) (asks code_pc (\<lambda>loop_start.
    sbind (gen_branch_unless to (wh_cond s)) (\<lambda>jump_idx.
    and_do (st (wh_body s)) (and_do (jump_to loop_start)
    (asks code_pc (\<lambda>exit_pc. do_all [patch_to jump_idx exit_pc, pop_loop exit_pc loop_start]))))))"

definition gen_for :: "gen_st \<Rightarrow> gen_to \<Rightarrow> stmt for_stmt \<Rightarrow> unit cg" where
  "gen_for st to s = and_do (push_loop True) (and_do (when_some (for_init s) st)
    (asks code_pc (\<lambda>loop_start.
    sbind (case for_cond s of
        Some cond \<Rightarrow> sbind (gen_branch_unless to cond) (\<lambda>idx. ret (Some idx)) | None \<Rightarrow> ret None) (\<lambda>jump_idx.
    and_do (st (for_body s)) (asks code_pc (\<lambda>continue_pc.
    and_do (when_some (for_post s) st) (and_do (jump_to loop_start)
    (asks code_pc (\<lambda>exit_pc. do_all [when_some jump_idx (\<lambda>idx. patch_to idx exit_pc),
      pop_loop exit_pc continue_pc])))))))))"

definition gen_do :: "gen_st \<Rightarrow> gen_to \<Rightarrow> stmt do_stmt \<Rightarrow> unit cg" where
  "gen_do st to s = and_do (push_loop True) (asks code_pc (\<lambda>loop_start.
    and_do (st (do_body s)) (asks code_pc (\<lambda>continue_pc.
    sbind alloc_temp (\<lambda>cond_tmp. and_do (gen_cond_to to (do_cond s) cond_tmp)
    (and_do (emit Op_Bnew (op_fp cond_tmp) (mid_imm 0) (op_imm loop_start))
    (asks code_pc (\<lambda>exit_pc. pop_loop exit_pc continue_pc))))))))"

section \<open>Case\<close>

text \<open>The test of one pattern gives the jump to the body.\<close>

definition gen_pattern :: "gen_to \<Rightarrow> i32 \<Rightarrow> val_type \<Rightarrow> case_pattern \<Rightarrow> usize cg" where
  "gen_pattern to val_tmp val_ty pat =
    (case pat of
       CP_Expr e \<Rightarrow> sbind alloc_temp (\<lambda>pat_tmp. and_do (to e pat_tmp)
         (emit_at (if val_ty \<noteq> VT_Word then Op_Beqc else Op_Beqw) (op_fp val_tmp) (mid_fp pat_tmp) (op_imm 0)))
     | CP_Range lo hi \<Rightarrow> sbind alloc_temp (\<lambda>lo_tmp. sbind alloc_temp (\<lambda>hi_tmp.
         and_do (do_all [to lo lo_tmp, to hi hi_tmp])
         (sbind (emit_at Op_Bltw (op_fp val_tmp) (mid_fp lo_tmp) (op_imm 0)) (\<lambda>below_idx.
         sbind (emit_at Op_Blew (op_fp val_tmp) (mid_fp hi_tmp) (op_imm 0)) (\<lambda>match_idx.
         and_do (patch_here below_idx) (ret match_idx))))))
     | CP_Wildcard \<Rightarrow> emit_jump)"

definition gen_case_arm :: "gen_st \<Rightarrow> gen_to \<Rightarrow> i32 \<Rightarrow> val_type \<Rightarrow> stmt case_arm \<Rightarrow> usize cg" where
  "gen_case_arm st to val_tmp val_ty arm =
    sbind (gather (ca_patterns arm) (gen_pattern to val_tmp val_ty)) (\<lambda>arm_jumps.
    sbind emit_jump (\<lambda>skip_idx.
    and_do (asks code_pc (\<lambda>body_pc. for_each arm_jumps (\<lambda>idx. patch_to idx body_pc)))
    (and_do (for_each (ca_body arm) st)
    (sbind emit_jump (\<lambda>end_idx. and_do (patch_here skip_idx) (ret end_idx))))))"

definition gen_case :: "gen_st \<Rightarrow> gen_to \<Rightarrow> stmt case_stmt \<Rightarrow> unit cg" where
  "gen_case st to s = and_do (push_loop False) (sbind alloc_temp (\<lambda>val_tmp.
    and_do (to (cs_expr s) val_tmp) (asks (\<lambda>cg. infer_expr_type cg (cs_expr s)) (\<lambda>val_ty.
    sbind (gather (cs_arms s) (gen_case_arm st to val_tmp val_ty)) (\<lambda>end_jumps.
    asks code_pc (\<lambda>end_pc. do_all [for_each end_jumps (\<lambda>idx. patch_to idx end_pc),
      pop_loop end_pc end_pc]))))))"

section \<open>Alt\<close>

datatype alt_prologue = AP_None | AP_Tuple "rstring list" "ltype list" | AP_Store expr ltype

record guard_entry =
  al_guard :: alt_guard
  al_index :: usize
  al_arm :: usize
  al_slot :: i32
  al_prologue :: alt_prologue

definition is_send_guard :: "alt_guard \<Rightarrow> bool" where
  "is_send_guard g = (case g of AG_Send _ _ \<Rightarrow> True | _ \<Rightarrow> False)"

definition is_recv_guard :: "alt_guard \<Rightarrow> bool" where
  "is_recv_guard g = (case g of AG_Recv _ _ \<Rightarrow> True | _ \<Rightarrow> False)"

definition guards_of :: "stmt alt_stmt \<Rightarrow> (usize \<times> alt_guard) list" where
  "guards_of s = concat (map (\<lambda>(arm, a). map (\<lambda>g. (arm, g)) (aa_guards a)) (enumerate 0 (as_arms s)))"

definition nsend_of :: "stmt alt_stmt \<Rightarrow> usize" where
  "nsend_of s = length (filter (\<lambda>(_, g). is_send_guard g) (guards_of s))"

definition nrecv_of :: "stmt alt_stmt \<Rightarrow> usize" where
  "nrecv_of s = length (filter (\<lambda>(_, g). is_recv_guard g) (guards_of s))"

record alt_scan =
  sc_entries :: "guard_entry list"
  sc_wildcard :: "usize option"
  sc_next_send :: usize
  sc_next_recv :: usize

definition guard_entry_new :: "alt_guard \<Rightarrow> usize \<Rightarrow> usize \<Rightarrow> guard_entry" where
  "guard_entry_new g index arm =
    \<lparr>al_guard = g, al_index = index, al_arm = arm, al_slot = 0, al_prologue = AP_None\<rparr>"

fun number_guards :: "usize \<Rightarrow> (usize \<times> alt_guard) list \<Rightarrow> alt_scan \<Rightarrow> rstring + alt_scan" where
  "number_guards nsend [] sc = Inr sc"
| "number_guards nsend ((arm, g) # gs) sc =
    (case g of
       AG_Send _ _ \<Rightarrow> number_guards nsend gs (sc\<lparr>sc_next_send := sc_next_send sc + 1,
         sc_entries := sc_entries sc @ [guard_entry_new g (sc_next_send sc) arm]\<rparr>)
     | AG_Recv _ _ \<Rightarrow> number_guards nsend gs (sc\<lparr>sc_next_recv := sc_next_recv sc + 1,
         sc_entries := sc_entries sc @ [guard_entry_new g (nsend + sc_next_recv sc) arm]\<rparr>)
     | AG_Wildcard \<Rightarrow>
         if sc_wildcard sc \<noteq> None then Inl (rstr ''an `alt` may have only one `*` arm'')
         else number_guards nsend gs (sc\<lparr>sc_wildcard := Some arm\<rparr>))"

definition alloc_chan_slot :: "ltype option \<Rightarrow> i32 cg" where
  "alloc_chan_slot elem =
    (case elem of
       Some (T_Tuple ftys) \<Rightarrow> alloc_temp_block (tl_size (compute_tuple_layout ftys))
     | Some t \<Rightarrow> alloc_temp_for (type_num_kind t)
     | None \<Rightarrow> alloc_temp)"

definition note_received :: "rstring \<Rightarrow> ltype \<Rightarrow> codegen \<Rightarrow> codegen" where
  "note_received name t cg =
    note_opt (note_adt name) (adt_name_for_type t)
      (case t of
         T_Array e \<Rightarrow> note_array_elem name e cg
       | T_Chan e \<Rightarrow> note_chan_elem name e cg
       | T_BufChan _ e \<Rightarrow> note_chan_elem name e cg
       | _ \<Rightarrow> cg)"

definition recv_into_decl :: "rstring \<Rightarrow> ltype option \<Rightarrow> i32 cg" where
  "recv_into_decl name elem =
    (case elem of
       None \<Rightarrow> alloc_local name VT_Word NK_Word
     | Some t \<Rightarrow> sbind (declare_local_of_type name t) (\<lambda>off.
         and_do (updates (note_received name t)) (ret off)))"

definition local_slot :: "codegen \<Rightarrow> expr \<Rightarrow> i32 option" where
  "local_slot cg target =
    (case variable_slot cg target of Some (SL_Local off) \<Rightarrow> Some off | _ \<Rightarrow> None)"

definition alt_recv_destination :: "alt_dest option \<Rightarrow> ltype option \<Rightarrow> (i32 \<times> alt_prologue) cg" where
  "alt_recv_destination dest elem =
    (case dest of
       None \<Rightarrow> sbind (alloc_chan_slot elem) (\<lambda>s. ret (s, AP_None))
     | Some (AD_Decl names) \<Rightarrow>
         (case names of
            [name] \<Rightarrow> sbind (recv_into_decl name elem) (\<lambda>s. ret (s, AP_None))
          | _ \<Rightarrow> cg_err (rstr ''an `alt` receive guard declares one name, not '' @ show_nat (length names)))
     | Some (AD_TupleDecl names) \<Rightarrow>
         (case tuple_of elem of
            None \<Rightarrow> cg_err (rstr ''an `alt` guard receiving into a tuple needs a channel of a known tuple type'')
          | Some ftys \<Rightarrow> sbind (alloc_temp_block (tl_size (compute_tuple_layout ftys))) (\<lambda>block.
              ret (block, AP_Tuple names ftys)))
     | Some (AD_Assign target) \<Rightarrow> asks (\<lambda>cg. local_slot cg target) (\<lambda>found. case found of
           Some off \<Rightarrow> ret (off, AP_None)
         | None \<Rightarrow> sbind (alloc_chan_slot elem) (\<lambda>s.
             ret (s, AP_Store target (unwrap_or (T_Basic BT_Int) elem)))))"

definition gen_alt_prologue :: "gen_disc \<Rightarrow> guard_entry \<Rightarrow> unit cg" where
  "gen_alt_prologue disc entry =
    (case al_prologue entry of
       AP_None \<Rightarrow> ret ()
     | AP_Tuple names ftys \<Rightarrow> declare_tuple_names names (compute_tuple_layout ftys) (al_slot entry)
     | AP_Store target ty \<Rightarrow> asks (alias_name ''alt-recv-'') (\<lambda>alias.
         and_do (push_local (alias, al_slot entry, val_type_of ty, type_num_kind ty))
         (cg_finally (disc (assign_from_alias target alias))
           (\<lambda>cg. cg\<lparr>cg_locals := filter (\<lambda>(name, _). name \<noteq> alias) (cg_locals cg)\<rparr>))))"

definition entry_word :: "i32 \<Rightarrow> i32 \<Rightarrow> guard_entry \<Rightarrow> operand" where
  "entry_word table off entry = op_fp (table + off + 8 * of_nat (al_index entry))"

definition setup_value :: "gen_to \<Rightarrow> ltype option \<Rightarrow> alt_guard \<Rightarrow> (i32 \<times> alt_prologue) cg" where
  "setup_value to elem guard =
    (case guard of
       AG_Send _ v \<Rightarrow> sbind (alloc_chan_slot elem) (\<lambda>s.
         and_do (case elem of
             None \<Rightarrow> to v s
           | Some t \<Rightarrow> if is_tuple_type t then to v s else gen_expr_to_kind to v s (type_num_kind t))
         (ret (s, AP_None)))
     | AG_Recv dest _ \<Rightarrow> alt_recv_destination dest elem
     | AG_Wildcard \<Rightarrow> ret (0, AP_None))"

definition guard_chan :: "alt_guard \<Rightarrow> expr option" where
  "guard_chan g = (case g of AG_Send chan _ \<Rightarrow> Some chan | AG_Recv _ chan \<Rightarrow> Some chan | AG_Wildcard \<Rightarrow> None)"

definition is_chan_array :: "codegen \<Rightarrow> expr \<Rightarrow> bool" where
  "is_chan_array cg chan \<longleftrightarrow> Option.bind (array_elem_type_of cg chan) chan_elem_of \<noteq> None"

definition setup_entry :: "gen_to \<Rightarrow> i32 \<Rightarrow> guard_entry \<Rightarrow> guard_entry cg" where
  "setup_entry to table entry =
    (case guard_chan (al_guard entry) of
       None \<Rightarrow> ret entry
     | Some chan \<Rightarrow> asks (\<lambda>cg. is_chan_array cg chan) (\<lambda>many.
         if many
         then cg_err (rstr ''an `alt` guard on an array of channels is not supported: each table entry names one channel, so the array's elements cannot be waited on together'')
         else asks (\<lambda>cg. chan_elem_type cg chan) (\<lambda>elem.
           sbind alloc_temp (\<lambda>chan_tmp.
           and_do (do_all [to chan chan_tmp,
             emit Op_Movp (op_fp chan_tmp) mid_unused (entry_word table 8 entry)])
           (sbind (setup_value to elem (al_guard entry)) (\<lambda>(s, prologue).
           and_do (emit Op_Lea (op_fp s) mid_unused (entry_word table 12 entry))
           (ret (entry\<lparr>al_slot := s, al_prologue := prologue\<rparr>))))))))"

text \<open>The landing pads of an arm: each entry's own, with a jump to the body unless the body is next.\<close>

fun gen_arm_pads :: "gen_disc \<Rightarrow> usize list \<Rightarrow> bool \<Rightarrow> guard_entry list \<Rightarrow> usize list cg" where
  "gen_arm_pads disc pads is_wildcard [] = ret []"
| "gen_arm_pads disc pads is_wildcard (entry # es) =
    sbind (at_index pads (al_index entry)) (\<lambda>pad.
    and_do (do_all [patch_here pad, gen_alt_prologue disc entry])
    (sbind (if es \<noteq> [] \<or> is_wildcard then sbind emit_jump (\<lambda>j. ret [j]) else ret []) (\<lambda>js.
    sbind (gen_arm_pads disc pads is_wildcard es) (\<lambda>ks. ret (js @ ks)))))"

definition gen_alt_arm :: "gen_disc \<Rightarrow> gen_st \<Rightarrow> guard_entry list \<Rightarrow> usize list \<Rightarrow> usize option \<Rightarrow>
    usize option \<Rightarrow> usize \<times> stmt alt_arm \<Rightarrow> usize cg" where
  "gen_alt_arm disc st entries pads wildcard_arm wildcard_pad = (\<lambda>(arm, alt_arm).
    let is_wildcard = (wildcard_arm = Some arm) in
    sbind (gen_arm_pads disc pads is_wildcard (filter (\<lambda>e. al_arm e = arm) entries)) (\<lambda>to_body.
    and_do (do_all [
      (if is_wildcard then when_some wildcard_pad patch_here else ret ()),
      asks code_pc (\<lambda>body_pc. for_each to_body (\<lambda>i. patch_to i body_pc)),
      for_each (aa_body alt_arm) st])
    emit_jump))"

definition test_selection :: "i32 \<Rightarrow> usize \<Rightarrow> usize cg" where
  "test_selection selection index =
    emit_at Op_Beqw (op_fp selection) (mid_imm (of_nat index)) (op_imm 0)"

definition gen_alt_dispatch :: "gen_disc \<Rightarrow> gen_st \<Rightarrow> stmt alt_stmt \<Rightarrow> usize \<Rightarrow> i32 \<Rightarrow> guard_entry list \<Rightarrow>
    usize option \<Rightarrow> unit cg" where
  "gen_alt_dispatch disc st s nentries selection entries wildcard_arm =
    sbind (gather [0..<nentries] (test_selection selection)) (\<lambda>pads.
    sbind (case wildcard_arm of
        Some _ \<Rightarrow> sbind (test_selection selection nentries) (\<lambda>i. ret (Some i)) | None \<Rightarrow> ret None) (\<lambda>wildcard_pad.
    sbind emit_jump (\<lambda>no_match.
    sbind (gather (enumerate 0 (as_arms s))
      (gen_alt_arm disc st entries pads wildcard_arm wildcard_pad)) (\<lambda>end_jumps.
    asks code_pc (\<lambda>end_pc. do_all [for_each (no_match # end_jumps) (\<lambda>i. patch_to i end_pc),
      pop_loop end_pc end_pc])))))"

definition gen_alt_body :: "gen_disc \<Rightarrow> gen_to \<Rightarrow> gen_st \<Rightarrow> stmt alt_stmt \<Rightarrow> unit cg" where
  "gen_alt_body disc to st s =
    (let nsend = nsend_of s; nrecv = nrecv_of s; nentries = nsend + nrecv in
     sbind (cg_result (number_guards nsend (guards_of s)
       \<lparr>sc_entries = [], sc_wildcard = None, sc_next_send = 0, sc_next_recv = 0\<rparr>)) (\<lambda>sc.
     sbind (alloc_temp_block (8 + 8 * of_nat nentries)) (\<lambda>table.
     sbind alloc_temp (\<lambda>selection.
     sbind (gather (sc_entries sc) (setup_entry to table)) (\<lambda>entries. do_all [
       emit Op_Movw (op_imm (of_nat nsend)) mid_unused (op_fp table),
       emit Op_Movw (op_imm (of_nat nrecv)) mid_unused (op_fp (table + 4)),
       emit (if sc_wildcard sc \<noteq> None then Op_Nbalt else Op_Alt) (op_fp table) mid_unused (op_fp selection),
       gen_alt_dispatch disc st s nentries selection entries (sc_wildcard sc)])))))"

definition cg_on_err :: "'a cg \<Rightarrow> (codegen \<Rightarrow> codegen) \<Rightarrow> 'a cg" where
  "cg_on_err m f = (\<lambda>cg. case m cg of (Inl e, cg) \<Rightarrow> (Inl e, f cg) | r \<Rightarrow> r)"

definition gen_alt :: "gen_disc \<Rightarrow> gen_to \<Rightarrow> gen_st \<Rightarrow> stmt alt_stmt \<Rightarrow> unit cg" where
  "gen_alt disc to st s = and_do (push_loop False) (cg_on_err (gen_alt_body disc to st s) pop_loop_frame)"

section \<open>Pick\<close>

text \<open>\<open>split('.').next()\<close>: what stands before the first dot.\<close>

definition before_first_dot :: "rstring \<Rightarrow> rstring" where
  "before_first_dot s = takeWhile (\<lambda>c. c \<noteq> 46) s"

definition variant_key :: "rstring \<Rightarrow> rstring \<Rightarrow> rstring" where
  "variant_key base name = base @ rstr ''.'' @ name"

fun common_group :: "codegen \<Rightarrow> rstring \<Rightarrow> rstring list \<Rightarrow> usize option \<Rightarrow> usize option option" where
  "common_group cg base [] grp = Some grp"
| "common_group cg base (name # ns) grp =
    (case hm_get (cg_adt_variants cg) (variant_key base name) of
       Some (_, g) \<Rightarrow> if grp = None \<or> grp = Some g then common_group cg base ns (Some g) else None
     | None \<Rightarrow> None)"

definition pick_arm_type :: "codegen \<Rightarrow> rstring \<Rightarrow> rstring list \<Rightarrow> rstring" where
  "pick_arm_type cg base tags =
    (case common_group cg base tags None of
       Some (Some _) \<Rightarrow> (case tags of name # _ \<Rightarrow> variant_key base name | [] \<Rightarrow> base)
     | _ \<Rightarrow> base)"

definition unknown_variant :: "codegen \<Rightarrow> rstring \<Rightarrow> rstring \<Rightarrow> rstring" where
  "unknown_variant cg base name =
    (if hm_contains (cg_adt_layouts cg) base
     then quoted name @ rstr '' is not a variant of '' @ quoted base
     else rstr ''the declaration of '' @ quoted base @ rstr '' was not found, so '' @ quoted name @
       rstr '' cannot be resolved to a tag (is the include path set?)'')"

text \<open>The tests of the tags: for each the jump and its arm, and the arm of the wildcard.\<close>

definition gen_pick_tag :: "rstring \<Rightarrow> i32 \<Rightarrow> usize \<times> rstring \<Rightarrow> (usize \<times> usize) list \<times> usize option \<Rightarrow>
    ((usize \<times> usize) list \<times> usize option) cg" where
  "gen_pick_tag base tag = (\<lambda>(arm, name) (pads, wildcard).
    if name = rstr ''*''
    then if wildcard \<noteq> None then cg_err (rstr ''a `pick` may have only one `*` arm'') else ret (pads, Some arm)
    else asks (\<lambda>cg. hm_get (cg_adt_variants cg) (variant_key base name)) (\<lambda>found. case found of
        None \<Rightarrow> asks (\<lambda>cg. unknown_variant cg base name) cg_err
      | Some (v, _) \<Rightarrow> sbind (emit_at Op_Beqw (op_fp tag) (mid_imm v) (op_imm 0)) (\<lambda>at_pc.
          ret (pads @ [(at_pc, arm)], wildcard))))"

definition arm_tags :: "stmt pick_stmt \<Rightarrow> (usize \<times> rstring) list" where
  "arm_tags s = concat (map (\<lambda>(arm, a). map (\<lambda>t. (arm, t)) (pa_tags a)) (enumerate 0 (ps_arms s)))"

definition gen_pick_arm :: "gen_st \<Rightarrow> rstring \<Rightarrow> rstring \<Rightarrow> (usize \<times> usize) list \<Rightarrow> usize option \<Rightarrow> usize \<Rightarrow>
    usize \<times> stmt pick_arm \<Rightarrow> usize cg" where
  "gen_pick_arm st name base pads wildcard dflt = (\<lambda>(arm, pick_arm).
    and_do (asks code_pc (\<lambda>body_pc. do_all [
      for_each pads (\<lambda>(i, ow). if ow = arm then patch_to i body_pc else ret ()),
      if wildcard = Some arm then patch_to dflt body_pc else ret ()]))
    (and_do (updates (\<lambda>cg. note_adt name (pick_arm_type cg base (pa_tags pick_arm)) cg))
    (and_do (for_each (pa_body pick_arm) st) emit_jump)))"

definition restore_adt :: "rstring \<Rightarrow> rstring option \<Rightarrow> codegen \<Rightarrow> codegen" where
  "restore_adt name saved cg = cg\<lparr>cg_local_adt_type :=
    (case saved of Some p \<Rightarrow> hm_insert name p (cg_local_adt_type cg)
     | None \<Rightarrow> hm_remove name (cg_local_adt_type cg))\<rparr>"

definition gen_pick_arms :: "gen_st \<Rightarrow> stmt pick_stmt \<Rightarrow> rstring \<Rightarrow> (usize \<times> usize) list \<Rightarrow> usize option \<Rightarrow>
    unit cg" where
  "gen_pick_arms st s base pads wildcard = sbind emit_jump (\<lambda>dflt.
    asks (\<lambda>cg. hm_get (cg_local_adt_type cg) (ps_name s)) (\<lambda>saved.
    sbind (gather (enumerate 0 (ps_arms s)) (gen_pick_arm st (ps_name s) base pads wildcard dflt)) (\<lambda>end_jumps.
    and_do (updates (restore_adt (ps_name s) saved))
    (asks code_pc (\<lambda>end_pc. do_all [
      (if wildcard = None then patch_to dflt end_pc else ret ()),
      for_each end_jumps (\<lambda>i. patch_to i end_pc),
      pop_loop end_pc end_pc])))))"

definition gen_pick_body :: "gen_to \<Rightarrow> gen_st \<Rightarrow> stmt pick_stmt \<Rightarrow> unit cg" where
  "gen_pick_body to st s = asks (\<lambda>cg. adt_name_for_expr cg (ps_expr s)) (\<lambda>found. case found of
      None \<Rightarrow> cg_err (rstr ''`pick '' @ ps_name s @ rstr '' := ...`: the ADT of the value being picked over is not known here, so its tags cannot be resolved'')
    | Some a \<Rightarrow>
        (let base = before_first_dot a in
         sbind (alloc_local (ps_name s) VT_Ptr NK_Word) (\<lambda>bind_off.
         and_do (to (ps_expr s) bind_off)
         (sbind alloc_temp (\<lambda>tag.
         and_do (emit Op_Movw (op_fp_ind bind_off 0) mid_unused (op_fp tag))
         (sbind (fold_each (arm_tags s) (gen_pick_tag base tag) ([], None)) (\<lambda>(pads, wildcard).
           gen_pick_arms st s base pads wildcard)))))))"

definition gen_pick :: "gen_to \<Rightarrow> gen_st \<Rightarrow> stmt pick_stmt \<Rightarrow> unit cg" where
  "gen_pick to st s = and_do (push_loop False) (cg_on_err (gen_pick_body to st s) pop_loop_frame)"

section \<open>Other statements\<close>

definition declare_names :: "(expr, ltype) var_decl \<Rightarrow> val_type \<Rightarrow> num_kind \<Rightarrow> rstring \<Rightarrow> unit cg" where
  "declare_names v ty kind name = and_do
    (sbind (case tuple_of (vd_ty v) of
        Some ftys \<Rightarrow> declare_local_of_type name (T_Tuple ftys)
      | None \<Rightarrow> alloc_local name ty kind) (\<lambda>_. ret ()))
    (note_decl v name)"

definition gen_var_decl :: "gen_to \<Rightarrow> (expr, ltype) var_decl \<Rightarrow> unit cg" where
  "gen_var_decl to v = asks (\<lambda>cg. infer_decl_type cg v) (\<lambda>ty. asks (\<lambda>cg. decl_num_kind cg v) (\<lambda>kind.
    and_do (for_each (vd_names v) (declare_names v ty kind))
    (when_some (vd_init v) (\<lambda>init.
      asks (\<lambda>cg. case get_local cg (case vd_names v of n # _ \<Rightarrow> n | [] \<Rightarrow> []) of
          Some (off, _) \<Rightarrow> off | None \<Rightarrow> 0) (\<lambda>off. to init off)))))"

definition gen_return :: "gen_to \<Rightarrow> expr option \<Rightarrow> unit cg" where
  "gen_return to value = and_do
    (when_some value (\<lambda>e. asks (\<lambda>cg. tuple_layout_of cg e) (\<lambda>found. case found of
        Some layout \<Rightarrow> sbind (alloc_temp_block (tl_size layout)) (\<lambda>block. do_all [to e block,
          for_each (tl_fields layout) (\<lambda>(ty, off).
            emit (mov_opcode_for_type ty) (op_fp (block + off)) mid_unused (op_fp_ind 16 off))])
      | None \<Rightarrow> asks (\<lambda>cg. infer_expr_type cg e) (\<lambda>ty. asks (\<lambda>cg. infer_num_kind cg e) (\<lambda>kind.
          sbind (alloc_temp_for kind) (\<lambda>val_tmp. do_all [to e val_tmp,
            emit (mov_opcode ty kind) (op_fp val_tmp) mid_unused (op_fp_ind 16 0)]))))))
    (emit Op_Ret op_unused mid_unused op_unused)"

definition gen_raise :: "gen_to \<Rightarrow> expr option \<Rightarrow> unit cg" where
  "gen_raise to value =
    (case value of
       Some e \<Rightarrow> sbind alloc_temp (\<lambda>tmp. do_all [to e tmp,
         emit Op_Raise (op_fp tmp) mid_unused op_unused])
     | None \<Rightarrow> cg_err (rstr ''bare `raise` (re-raise) is not supported yet''))"

text \<open>\<open>spawn\<close> of a known function; everything else is evaluated and dropped.\<close>

definition spawn_target :: "codegen \<Rightarrow> expr \<Rightarrow> (rstring \<times> expr list \<times> usize \<times> i32) option" where
  "spawn_target cg e =
    (case e of
       E_Call callee args _ \<Rightarrow>
         (case callee of
            E_Ident name _ \<Rightarrow> map_option (\<lambda>(i, pc, _). (name, args, i, pc)) (find_func cg name)
          | _ \<Rightarrow> None)
     | _ \<Rightarrow> None)"

definition spawn_arg :: "gen_to \<Rightarrow> i32 \<Rightarrow> expr \<Rightarrow> i32 \<Rightarrow> i32 cg" where
  "spawn_arg to frame_tmp arg arg_off = sbind (gen_arg_value to arg) (\<lambda>s. store_arg frame_tmp s arg_off)"

definition gen_spawn :: "gen_disc \<Rightarrow> gen_to \<Rightarrow> expr \<Rightarrow> unit cg" where
  "gen_spawn disc to e = asks (\<lambda>cg. spawn_target cg e) (\<lambda>found. case found of
      None \<Rightarrow> disc e
    | Some (func_name, args, func_idx, pc) \<Rightarrow> sbind alloc_temp (\<lambda>frame_tmp.
        and_do (emit Op_Frame (op_imm (2 + of_nat func_idx)) mid_unused (op_fp frame_tmp))
        (sbind (fold_each args (spawn_arg to frame_tmp) 32) (\<lambda>_.
        sbind (emit_at Op_Spawn (op_fp frame_tmp) mid_unused (op_imm pc)) (\<lambda>spawn_idx.
          if sint pc < 0 then push_call_fixup spawn_idx func_name else ret ())))))"

definition gen_label :: "gen_st \<Rightarrow> rstring \<Rightarrow> stmt \<Rightarrow> unit cg" where
  "gen_label st name inner = and_do (updates (\<lambda>cg. cg\<lparr>cg_pending_label := Some name\<rparr>))
    (cg_finally (st inner) (\<lambda>cg. cg\<lparr>cg_pending_label := None\<rparr>))"

definition gen_stmt_step :: "gen_disc \<Rightarrow> gen_to \<Rightarrow> gen_st \<Rightarrow> stmt \<Rightarrow> unit cg" where
  "gen_stmt_step disc to st s =
    (case s of
       S_Expr e \<Rightarrow> disc e
     | S_VarDecl v \<Rightarrow> gen_var_decl to v
     | S_Return value _ \<Rightarrow> gen_return to value
     | S_Exit _ \<Rightarrow> emit Op_Exit op_unused mid_unused op_unused
     | S_Block b \<Rightarrow> for_each (blk_stmts b) st
     | S_If i \<Rightarrow> gen_if st to i
     | S_While w \<Rightarrow> gen_while st to w
     | S_For f \<Rightarrow> gen_for st to f
     | S_Raise value _ \<Rightarrow> gen_raise to value
     | S_Case c \<Rightarrow> gen_case st to c
     | S_Do d \<Rightarrow> gen_do st to d
     | S_Label name inner \<Rightarrow> gen_label st name inner
     | S_Break label _ \<Rightarrow> gen_break label
     | S_Continue label _ \<Rightarrow> gen_continue label
     | S_Spawn e _ \<Rightarrow> gen_spawn disc to e
     | S_Empty \<Rightarrow> ret ()
     | S_Import _ \<Rightarrow> ret ()
     | S_Alt a \<Rightarrow> gen_alt disc to st a
     | S_Pick p \<Rightarrow> gen_pick to st p)"

fun gen_stmt :: "nan_choice \<Rightarrow> nat \<Rightarrow> stmt \<Rightarrow> unit cg" where
  "gen_stmt nan 0 s = fail CompileBound"
| "gen_stmt nan (Suc n) s =
    gen_stmt_step (gen_expr_discard nan n) (gen_expr_to nan n) (\<lambda>s. gen_stmt nan n s) s"

end
