(* ===== verification/CodeGenFile.thy ===== *)
theory CodeGenFile
  imports CodeGenStmt
begin

unbundle bit_operations_syntax

text \<open>
  Functions, type descriptors and whole files: the rest of \<open>codegen.rs\<close>. The bound on the depth of
  the translation is computed from the file; \<open>CodeGenEnds\<close> shows that it is enough.
\<close>

section \<open>The bound\<close>

definition ebound :: "expr \<Rightarrow> nat" where
  "ebound e = 32 * (esize e + 4)"

definition obound :: "expr option \<Rightarrow> nat" where
  "obound e = opt_size (map_option ebound e)"

definition pattern_bound :: "case_pattern \<Rightarrow> nat" where
  "pattern_bound p = (case p of
      CP_Expr e \<Rightarrow> ebound e | CP_Range lo hi \<Rightarrow> ebound lo + ebound hi | CP_Wildcard \<Rightarrow> 0)"

definition guard_bound :: "alt_guard \<Rightarrow> nat" where
  "guard_bound g = (case g of
      AG_Send c v \<Rightarrow> ebound c + ebound v
    | AG_Recv dest c \<Rightarrow> ebound c + (case dest of Some (AD_Assign target) \<Rightarrow> ebound target | _ \<Rightarrow> 0)
    | AG_Wildcard \<Rightarrow> 0)"

definition if_bound :: "nat if_stmt \<Rightarrow> nat" where
  "if_bound s = ebound (if_cond s) + if_then s + opt_size (if_else s)"

definition while_bound :: "nat while_stmt \<Rightarrow> nat" where
  "while_bound s = ebound (wh_cond s) + wh_body s"

definition for_bound :: "nat for_stmt \<Rightarrow> nat" where
  "for_bound s = opt_size (for_init s) + obound (for_cond s) + opt_size (for_post s) + for_body s"

definition do_bound :: "nat do_stmt \<Rightarrow> nat" where
  "do_bound s = do_body s + ebound (do_cond s)"

definition case_bound :: "nat case_stmt \<Rightarrow> nat" where
  "case_bound s = ebound (cs_expr s) + sum_list (map (\<lambda>a.
    sum_list (map pattern_bound (ca_patterns a)) + sum_list (ca_body a)) (cs_arms s))"

definition alt_bound :: "nat alt_stmt \<Rightarrow> nat" where
  "alt_bound s = sum_list (map (\<lambda>a. sum_list (map guard_bound (aa_guards a)) + sum_list (aa_body a)) (as_arms s))"

definition pick_bound :: "nat pick_stmt \<Rightarrow> nat" where
  "pick_bound s = ebound (ps_expr s) + sum_list (map (\<lambda>a. sum_list (pa_body a)) (ps_arms s))"

primrec sbound :: "stmt \<Rightarrow> nat" where
  "sbound (S_Expr e) = Suc (ebound e)"
| "sbound (S_VarDecl v) = Suc (obound (vd_init v))"
| "sbound (S_Import _) = 1"
| "sbound (S_Block b) = Suc (sum_list (blk_stmts (map_block sbound b)))"
| "sbound (S_If s) = Suc (if_bound (map_if_stmt sbound s))"
| "sbound (S_For s) = Suc (for_bound (map_for_stmt sbound s))"
| "sbound (S_While s) = Suc (while_bound (map_while_stmt sbound s))"
| "sbound (S_Do s) = Suc (do_bound (map_do_stmt sbound s))"
| "sbound (S_Case s) = Suc (case_bound (map_case_stmt sbound s))"
| "sbound (S_Alt s) = Suc (alt_bound (map_alt_stmt sbound s))"
| "sbound (S_Pick s) = Suc (pick_bound (map_pick_stmt sbound s))"
| "sbound (S_Return e _) = Suc (obound e)"
| "sbound (S_Break _ _) = 1"
| "sbound (S_Continue _ _) = 1"
| "sbound (S_Exit _) = 1"
| "sbound (S_Spawn e _) = Suc (ebound e)"
| "sbound (S_Raise e _) = Suc (obound e)"
| "sbound (S_Label _ s) = Suc (sbound s)"
| "sbound S_Empty = 1"

definition member_bound :: "(expr, ltype) module_member \<Rightarrow> nat" where
  "member_bound m = (case m of MM_Var v \<Rightarrow> obound (vd_init v) | _ \<Rightarrow> 0)"

definition decl_bound :: "decl \<Rightarrow> nat" where
  "decl_bound d = (case d of
      D_Var v \<Rightarrow> obound (vd_init v)
    | D_Module m \<Rightarrow> sum_list (map member_bound (md_members m))
    | D_Func f \<Rightarrow> sum_list (map sbound (blk_stmts (fd_body f)))
    | _ \<Rightarrow> 0)"

definition file_bound :: "source_file \<Rightarrow> nat" where
  "file_bound file = sum_list (map decl_bound (sf_decls file))"

section \<open>Functions\<close>

definition full_name :: "qual_name \<Rightarrow> rstring" where
  "full_name q = (case qn_qualifier q of Some m \<Rightarrow> m @ rstr ''.'' @ qn_name q | None \<Rightarrow> qn_name q)"

definition param_width :: "ltype \<Rightarrow> i32 \<times> i32" where
  "param_width ty =
    (case ty of
       T_Tuple ftys \<Rightarrow> (tl_size (compute_tuple_layout ftys), snd (type_size_align ty))
     | _ \<Rightarrow> (nk_byte_size (type_num_kind ty), nk_byte_size (type_num_kind ty)))"

definition note_param :: "ltype \<Rightarrow> rstring \<Rightarrow> codegen \<Rightarrow> codegen" where
  "note_param ty name cg =
    note_module_handle name (Some ty) None
      (note_opt (note_adt name) (adt_name_for_type ty)
        (note_opt (note_chan_elem name) (chan_elem_of ty)
          (note_opt (note_array_elem name) (case ty of T_Array e \<Rightarrow> Some e | _ \<Rightarrow> None)
            (note_opt (note_tuple name) (tuple_of (Some ty)) cg))))"

definition register_param :: "ltype param \<Rightarrow> rstring \<Rightarrow> i32 \<Rightarrow> i32 cg" where
  "register_param p name param_off =
    (let (width, align) = param_width (prm_ty p); off = align_arg param_off align in
     and_do
       (if name = rstr ''nil'' then ret ()
        else do_all [push_local (name, off, infer_param_type p, type_num_kind (prm_ty p)),
          updates (note_param (prm_ty p) name)])
       (ret (off + width)))"

definition register_params :: "ltype param \<Rightarrow> i32 \<Rightarrow> i32 cg" where
  "register_params p = fold_each (prm_names p) (register_param p)"

definition ends_function :: "codegen \<Rightarrow> bool" where
  "ends_function cg \<longleftrightarrow> cg_code cg \<noteq> [] \<and> i_opcode (last (cg_code cg)) \<in> {Op_Ret, Op_Exit}"

definition set_func_entry :: "rstring \<Rightarrow> i32 \<Rightarrow> i32 \<Rightarrow> func_entry list \<Rightarrow> func_entry list" where
  "set_func_entry name pc frame table =
    (case find_position (\<lambda>(n, p, _). n = name \<and> sint p < 0) table of
       Some i \<Rightarrow> table[i := (case table ! i of (n, _, _, k) \<Rightarrow> (n, pc, frame, k))]
     | None \<Rightarrow> table)"

definition frame_pointers :: "var_entry list \<Rightarrow> i32 list" where
  "frame_pointers locals =
    map (\<lambda>(_, off, _). off) (filter (\<lambda>(_, _, ty, kind). ty \<noteq> VT_Word \<and> kind = NK_Word) locals)"

definition finish_func :: "qual_name \<Rightarrow> usize \<Rightarrow> codegen \<Rightarrow> codegen" where
  "finish_func name entry_pc cg =
    (let cg = cg\<lparr>
           cg_func_table := set_func_entry (full_name name) (of_nat entry_pc) (cg_frame_size cg) (cg_func_table cg),
           cg_func_frames := cg_func_frames cg @ [(cg_frame_size cg, frame_pointers (cg_locals cg))]\<rparr>;
         type_idx = 2 + (of_nat (length (cg_func_frames cg)) - 1) in
     if qn_name name = rstr ''init''
     then cg\<lparr>cg_exports := cg_exports cg @
       [\<lparr>ex_pc = of_nat entry_pc, ex_frame_type = type_idx, ex_signature = 0, ex_name = rstr ''init''\<rparr>]\<rparr>
     else cg)"

definition start_func :: "codegen \<Rightarrow> codegen" where
  "start_func cg = cg\<lparr>cg_locals := [], cg_local_tuple := [], cg_next_local := 40, cg_frame_size := 80\<rparr>"

definition gen_global_inits :: "gen_to \<Rightarrow> unit cg" where
  "gen_global_inits to = asks cg_pending_global_inits (\<lambda>inits.
    and_do (updates (\<lambda>cg. cg\<lparr>cg_pending_global_inits := []\<rparr>))
    (for_each inits (\<lambda>(name, e). gen_assign_to_ident to name e None)))"

definition gen_func :: "gen_to \<Rightarrow> gen_st \<Rightarrow> func_decl \<Rightarrow> unit cg" where
  "gen_func to st f = asks code_len (\<lambda>entry_pc.
    and_do (updates start_func)
    (sbind (fold_each (sig_params (fd_sig f)) register_params 32) (\<lambda>param_off. do_all [
      updates (\<lambda>cg. cg\<lparr>cg_next_local := max_i32 param_off 40\<rparr>),
      (if qn_name (fd_name f) = rstr ''init'' then gen_global_inits to else ret ()),
      for_each (blk_stmts (fd_body f)) st,
      asks ends_function (\<lambda>ends. if ends then ret () else emit Op_Ret op_unused mid_unused op_unused),
      updates (finish_func (fd_name f) entry_pc)])))"

section \<open>Descriptors\<close>

definition describe :: "u32 \<Rightarrow> i32 \<Rightarrow> i32 list \<Rightarrow> type_descriptor" where
  "describe tid sz offs =
    (let m = pointer_map_for sz offs in
     \<lparr>td_id = tid, td_size = sz, td_pointer_map = m, td_pointer_count = count_pointers m\<rparr>)"

definition descriptor_for :: "codegen \<Rightarrow> u32 \<Rightarrow> desc_key \<Rightarrow> type_descriptor" where
  "descriptor_for cg tid key =
    (case key of
       KEY_Adt name \<Rightarrow>
         (let shape = unwrap_or record_shape_default (hm_get (cg_adt_shapes cg) name) in
          describe tid (max_i32 (rs_size shape) 4) (rs_ptr_offsets shape))
     | KEY_Elem kind \<Rightarrow> describe tid (ek_byte_size kind) (if ek_is_ptr kind then [0] else [])
     | KEY_Block sz offs \<Rightarrow> describe tid sz offs
     | KEY_OpaqueRecord \<Rightarrow> describe tid 48 (map (\<lambda>w. of_nat w * 4) [0..<12]))"

definition push_type :: "type_descriptor \<Rightarrow> codegen \<Rightarrow> codegen" where
  "push_type td cg = cg\<lparr>cg_types := cg_types cg @ [td]\<rparr>"

definition need_elem_types :: "(usize \<times> elem_kind) list \<Rightarrow> codegen \<Rightarrow> codegen" where
  "need_elem_types pending cg = cg\<lparr>cg_pending_array_elem_types := [],
    cg_needed_types := fold (\<lambda>(_, elem) ks. if KEY_Elem elem \<in> set ks then ks else ks @ [KEY_Elem elem])
      pending (cg_needed_types cg)\<rparr>"

definition index_of_type :: "codegen \<Rightarrow> i32 \<Rightarrow> desc_key \<Rightarrow> i32" where
  "index_of_type cg base key =
    (case find_position (\<lambda>k. k = key) (cg_needed_types cg) of Some pos \<Rightarrow> base + of_nat pos | None \<Rightarrow> 0)"

definition patch_elem_type :: "i32 \<Rightarrow> usize \<times> elem_kind \<Rightarrow> unit cg" where
  "patch_elem_type base = (\<lambda>(item, elem). asks cg_data (\<lambda>items.
    asks (\<lambda>cg. index_of_type cg base (KEY_Elem elem)) (\<lambda>tid.
    sbind (at_index items item) (\<lambda>d. case d of
        DI_Array off _ len \<Rightarrow> updates (\<lambda>cg. cg\<lparr>cg_data := items[item := DI_Array off tid len]\<rparr>)
      | _ \<Rightarrow> ret ()))))"

definition patch_type_operand :: "i32 \<Rightarrow> usize \<times> type_operand \<times> desc_key \<Rightarrow> unit cg" where
  "patch_type_operand base = (\<lambda>(at_pc, opd, key). asks (\<lambda>cg. index_of_type cg base key) (\<lambda>tid.
    patch_instr at_pc (case opd of
        TO_Source \<Rightarrow> (\<lambda>i. i\<lparr>i_source := op_imm tid\<rparr>) | TO_Middle \<Rightarrow> (\<lambda>i. i\<lparr>i_middle := mid_imm tid\<rparr>))))"

definition push_descriptors :: "codegen \<Rightarrow> codegen" where
  "push_descriptors cg =
    (let cg = fold (\<lambda>tid cg. push_type (descriptor_for cg (of_nat tid) KEY_OpaqueRecord) cg) [0..<2] cg;
         cg = fold (\<lambda>(i, (fsize, ptrs)) cg. push_type (describe (of_nat (2 + i)) fsize ptrs) cg)
           (enumerate 0 (cg_func_frames cg)) cg in
     cg)"

definition push_needed :: "nat \<Rightarrow> codegen \<Rightarrow> codegen" where
  "push_needed base cg =
    fold (\<lambda>(i, key) cg. push_type (descriptor_for cg (of_nat (base + i)) key) cg)
      (enumerate 0 (cg_needed_types cg)) cg"

definition build_types :: "unit cg" where
  "build_types = and_do (updates push_descriptors)
    (asks cg_pending_array_elem_types (\<lambda>pending.
    and_do (updates (need_elem_types pending))
    (asks (\<lambda>cg. length (cg_types cg)) (\<lambda>base.
    and_do (updates (push_needed base))
    (and_do (for_each pending (patch_elem_type (of_nat base)))
    (asks cg_pending_type_fixups (\<lambda>fixups.
    and_do (updates (\<lambda>cg. cg\<lparr>cg_pending_type_fixups := []\<rparr>))
    (for_each fixups (patch_type_operand (of_nat base))))))))))"

section \<open>Files\<close>

definition funcs_of :: "source_file \<Rightarrow> func_decl list" where
  "funcs_of file = List.map_filter (\<lambda>d. case d of D_Func f \<Rightarrow> Some f | _ \<Rightarrow> None) (sf_decls file)"

definition register_func :: "func_decl \<Rightarrow> codegen \<Rightarrow> codegen" where
  "register_func f cg =
    (let name = full_name (fd_name f); ret_ty = sig_ret (fd_sig f) in
     cg\<lparr>
       cg_func_tuple_ret := (case tuple_of ret_ty of
           Some ftys \<Rightarrow> hm_insert name ftys (cg_func_tuple_ret cg) | None \<Rightarrow> cg_func_tuple_ret cg),
       cg_func_ret_types := (case ret_ty of
           Some ty \<Rightarrow> hm_insert name ty (cg_func_ret_types cg) | None \<Rightarrow> cg_func_ret_types cg),
       cg_func_table := cg_func_table cg @
         [(name, - 1, 0, unwrap_or NK_Word (map_option type_num_kind ret_ty))]\<rparr>)"

definition join_with :: "rstring \<Rightarrow> rstring list \<Rightarrow> rstring" where
  "join_with sep xs = concat (case xs of [] \<Rightarrow> [] | x # xs \<Rightarrow> x # map (\<lambda>y. sep @ y) xs)"

definition no_init_error :: "codegen \<Rightarrow> rstring" where
  "no_init_error cg = rstr ''module '' @ quoted (cg_module_name cg) @
    rstr '' has no `init` function, so the module-level initialiser(s) for '' @
    quoted (join_with (rstr ''`, `'') (map fst (cg_pending_global_inits cg))) @
    rstr '' would never run: add an `init` function, or use a constant initialiser''"

definition patch_call :: "usize \<times> rstring \<Rightarrow> unit cg" where
  "patch_call = (\<lambda>(idx, name).
    asks (\<lambda>cg. case map_of (cg_func_table cg) name of Some (pc, _, _) \<Rightarrow> pc | None \<Rightarrow> - 1) (\<lambda>pc.
    if sint pc < 0 then cg_err (rstr ''unresolved forward reference to function '' @ quoted name)
    else patch_to idx pc))"

definition patch_calls :: "unit cg" where
  "patch_calls = asks cg_pending_call_fixups (\<lambda>fixups.
    and_do (updates (\<lambda>cg. cg\<lparr>cg_pending_call_fixups := []\<rparr>)) (for_each fixups patch_call))"

definition the_module :: "codegen \<Rightarrow> dis_module" where
  "the_module cg =
    (let (entry_pc, entry_type) = (case cg_exports cg of
           e # _ \<Rightarrow> (ex_pc e, ex_frame_type e) | [] \<Rightarrow> (- 1, - 1));
         max_frame = unwrap_or (cg_frame_size cg) (max_of (map fst (cg_func_frames cg))) in
     \<lparr>m_header = \<lparr>h_magic = XMAGIC, h_signature = [],
        h_runtime_flags = (if cg_handlers cg = [] then 0x40 else 0x60),
        h_stack_extent = max_i32 (max_frame + 256) 480,
        h_code_size = of_nat (length (cg_code cg)), h_data_size = cg_mp_size cg,
        h_type_size = of_nat (length (cg_types cg)), h_export_size = of_nat (length (cg_exports cg)),
        h_entry_pc = entry_pc, h_entry_type = entry_type\<rparr>,
      m_code = cg_code cg, m_types = cg_types cg, m_data = cg_data cg, m_name = cg_module_name cg,
      m_exports = cg_exports cg, m_imports = cg_imports cg, m_handlers = cg_handlers cg\<rparr>)"

text \<open>The passes before any code, the functions, and what follows them.\<close>

definition collect_file :: "nan_choice \<Rightarrow> source_file \<Rightarrow> unit cg" where
  "collect_file nan file = do_all [
    updates (\<lambda>cg. cg\<lparr>cg_module_name := unwrap_or (rstr ''Unknown'') (implemented file)\<rparr>),
    collect_strings file,
    updates (collect_adts file),
    collect_imports file,
    updates (bind_implement_scope file),
    updates (collect_consts nan file),
    collect_globals nan file,
    updates (fold register_func (funcs_of file))]"

definition gen_file :: "nan_choice \<Rightarrow> nat \<Rightarrow> source_file \<Rightarrow> unit cg" where
  "gen_file nan n file = do_all [
    collect_file nan file,
    for_each (funcs_of file) (gen_func (gen_expr_to nan n) (gen_stmt nan n)),
    asks (\<lambda>cg. cg_pending_global_inits cg \<noteq> []) (\<lambda>queued.
      if queued then asks no_init_error cg_err else ret ()),
    patch_calls,
    build_types,
    updates (\<lambda>cg. if cg_imports cg = [] then cg\<lparr>cg_imports := [[]]\<rparr> else cg)]"

definition compile_file :: "nan_choice \<Rightarrow> source_file \<Rightarrow> codegen \<Rightarrow> cg_error + dis_module" where
  "compile_file nan file cg =
    (case gen_file nan (file_bound file) file cg of
       (Inl e, _) \<Rightarrow> Inl e
     | (Inr _, cg) \<Rightarrow> Inr (the_module cg))"

end
