(* ===== verification/Spec2Isabelle.thy ===== *)
theory Spec2Isabelle
  imports LoadProps RoundTrip Channel MachineProps InstructionProps LexerProps TokenText ParserTrees SchedulerProps CodeGenFile
begin

text \<open>
  A verification development for ricevm, a Rust implementation of Inferno's Dis virtual machine and of
  a compiler for its language Limbo. Limbo source text goes through the lexer, the parser and the code
  generator of \<open>crates/ricevm-limbo\<close>, whose writer puts the module into a \<open>.dis\<close> file;
  \<open>crates/ricevm-loader\<close> reads and validates such a file; \<open>crates/ricevm-execute\<close> runs the module.
  \<open>crates/ricevm-core\<close> holds the data all of them share.

  \<^bold>\<open>Conventions.\<close> Definitions keep the names of the source. A struct is a record whose fields carry a
  prefix of the struct's name, an enum a datatype, an \<open>i32\<close> or \<open>u64\<close> a word of its width (\<open>Prelude\<close>),
  an \<open>f64\<close> its bit pattern, a \<open>usize\<close> a natural number whose overflow is written out where it can
  occur, a \<open>String\<close> a list of characters (\<open>Utf8\<close>). A fallible function returns a sum, the error on the
  left. A method that changes \<open>self\<close> is a function from the state to a result and the new state, also
  when it fails (\<open>sm\<close> in \<open>Prelude\<close>, with \<open>sbind\<close> for the operator \<open>?\<close>). A panic of the source is an
  outcome of its own.

  \<^bold>\<open>The module format.\<close> \<open>Core\<close> models \<open>ricevm-core\<close> (opcodes, operands, instructions, headers,
  modules, errors); \<open>Utf8\<close> and \<open>Bytes\<close> model strings and machine words as bytes; \<open>Reader\<close> is the
  cursor of \<open>reader.rs\<close> and \<open>Loader\<close> the sections and the validation of \<open>decode.rs\<close> and \<open>lib.rs\<close>;
  \<open>Writer\<close> is \<open>writer.rs\<close>. The locale \<open>reader_op\<close> says what every parser keeps (the bytes, a cursor
  inside them that only moves forward) and is interpreted for each section in \<open>LoadProps\<close>. \<open>Codec\<close>
  says value by value what writer and loader agree on; \<open>RoundTrip\<close> composes it to whole modules.

  \<^bold>\<open>The state of the machine.\<close> \<open>Memory\<close>, \<open>Address\<close>, \<open>Frame\<close>, \<open>Heap\<close>, \<open>Gc\<close> and \<open>Channel\<close> model the
  files of the same name under \<open>ricevm-execute/src\<close>: typed accesses to byte buffers, operand addresses,
  the stack of frames, counted objects with slices and copy on write, mark and sweep, queues of senders
  and receivers. \<open>VmTypes\<close>, \<open>Vm\<close>, \<open>Exceptions\<close> and \<open>Threads\<close> model \<open>vm.rs\<close>: the state \<open>vm_state\<close>, reads
  and writes of operands through slices, unwinding to a handler, and cooperative threads. \<open>DataInit\<close> is
  \<open>data.rs\<close>. \<open>VmAccess\<close> proves the contract of the operand accessors (every target is a memory cell)
  that the instructions rest on.

  \<^bold>\<open>The instructions.\<close> One theory for each file of \<open>ops/\<close>: \<open>Arith\<close> (\<open>arith.rs\<close>, \<open>big.rs\<close>), \<open>Compare\<close>,
  \<open>Control\<close>, \<open>HeapOps\<close> (\<open>heap.rs\<close>, \<open>data_move.rs\<close>), \<open>Pointers\<close>, \<open>Lists\<close>, \<open>Strings\<close>, \<open>Reals\<close> (\<open>float.rs\<close>,
  with IEEE arithmetic by exact rounding), \<open>Convert\<close> and \<open>RealText\<close> (\<open>convert.rs\<close>), \<open>FixedPoint\<close>,
  \<open>Concurrency\<close>; \<open>Modules\<close> (the registry of \<open>builtin.rs\<close> and \<open>load\<close>) and \<open>Calls\<close> (calls into other
  modules with their nested interpreter loop, and the table \<open>dispatch\<close> of \<open>mod.rs\<close> over all 176
  opcodes). \<open>Machine\<close> is the main loop of \<open>vm.rs\<close> with its turns, quanta and collections, the built-in
  modules \<open>vm.rs\<close> defines itself, and \<open>execute_with_args\<close> of \<open>lib.rs\<close>. \<open>Scheduler\<close> is the second
  scheduler, \<open>scheduler.rs\<close>: the cooperative queue and the pool of workers, whose critical sections are
  the steps of a transition relation.

  \<^bold>\<open>The compiler.\<close> \<open>Token\<close> and \<open>Lexer\<close> model \<open>token.rs\<close> and \<open>lexer.rs\<close>, \<open>Ast\<close> the syntax trees of
  \<open>ast.rs\<close>, \<open>Parser\<close>, \<open>ParserExpr\<close>, \<open>ParserStmt\<close> and \<open>ParserDecl\<close> the parser of \<open>parser.rs\<close>.

  \<^bold>\<open>What the lemmas show.\<close> The format: what is written is loaded back, what is loaded is valid, reading
  stays inside the bytes. The state: frames nest, counts cover references, collections free exactly
  what nothing reaches, slices share storage, channels are queues. The instructions: \<open>InstructionProps\<close>
  relates integer, real and fixed-point instructions to the mathematical operations, branches to their
  relations, bisection to a scan, \<open>send\<close> and \<open>recv\<close> to mailboxes. The machine: \<open>Context\<close>,
  \<open>Instructions\<close>, \<open>CallProps\<close> and \<open>MachineProps\<close> show what every instruction keeps, through calls into
  other modules, and that turns lose no thread and no frame stack leaves its range. The compiler:
  \<open>LexerProps\<close> and \<open>TokenText\<close> (tokens lie in the order of the source; a text that spells tokens is
  read as them), \<open>ParserEnds\<close> (every source text ends in an error at one of its places or in a tree;
  the locales \<open>type_parser\<close>, \<open>expr_parser\<close> and \<open>stmt_parser\<close> carry what a parser of a part promises),
  \<open>ParserTrees\<close> (expressions get the tree of the grammar with its binding powers).

  \<^bold>\<open>Bounds.\<close> Loops and recursions that structural recursion does not cover take a bound. Where the
  bound is reached the model says so, never a made-up result. The data section (\<open>parse_data_loop\<close>) is
  bounded by the bytes that remain, since an item takes one; the parser by the number of tokens, since
  every round and every nested call takes one (\<open>every_source_is_parsed_or_wrong\<close> shows that no source
  reaches it); reads through slices by the identifier of the slice, since a parent is older
  (\<open>walks_over_the_heap_end\<close>); the length of a list in the same way. A program may run for ever, so
  \<open>run_loop\<close> and \<open>nested_interpreter_loop\<close> give \<open>None\<close> when the bound is reached, and
  \<open>larger_bounds_agree\<close> shows that all bounds that are enough agree. The scheduler's main loop is
  bounded in the same way.

  \<^bold>\<open>Parameters.\<close> \<open>host\<close> holds what the host decides: the registry of the native modules with their
  handlers, the files that \<open>load\<close> reads, the root path, and the payload of a NaN, which IEEE 754 leaves
  open. The digests of the keyring module come from other packages and are the parameter \<open>hash\<close>.

  \<^bold>\<open>Not modelled.\<close> \<open>sys.rs\<close>, \<open>filetab.rs\<close>, \<open>audio.rs\<close>, \<open>draw.rs\<close> and \<open>tk.rs\<close> are files, processes,
  sockets, sound and windows of the host; \<open>math.rs\<close> hands its arguments to the C library; they enter
  through the registry. \<open>debugger.rs\<close> is a terminal dialogue over the same interpreter, and the CLI
  reads arguments and files. The code generator \<open>codegen.rs\<close> and the include files \<open>includes.rs\<close> with
  the symbol table \<open>symtab.rs\<close> are not modelled, so there is no theorem about the code of a compiled
  program. Tracing output is left out everywhere.
\<close>

section \<open>The module format\<close>

definition sample_header :: header where
  "sample_header = \<lparr>h_magic = XMAGIC, h_signature = [], h_runtime_flags = 0x40, h_stack_extent = 0,
    h_code_size = 1, h_data_size = 0, h_type_size = 0, h_export_size = 0, h_entry_pc = 0,
    h_entry_type = - 1\<rparr>"

definition sample_module :: dis_module where
  "sample_module = \<lparr>m_header = sample_header,
    m_code = [\<lparr>i_opcode = Op_Exit,
      i_source = \<lparr>op_mode = Immediate, op_register1 = - 70, op_register2 = 0\<rparr>,
      i_middle = middle_UNUSED,
      i_destination = \<lparr>op_mode = OffsetDoubleIndirectFp, op_register1 = 40, op_register2 = 9000\<rparr>\<rparr>],
    m_types = [], m_data = [DI_Words 0 [5]], m_name = rstr ''Test'', m_exports = [],
    m_imports = [[\<lparr>im_signature = 7, im_name = rstr ''print''\<rparr>]], m_handlers = []\<rparr>"

lemmas sample_defs = sample_module_def sample_header_def operand_in_range_def OPERAND_MIN_def
  OPERAND_MAX_def count_ok_def XMAGIC_def HAS_IMPORT_def HAS_HANDLER_def flags_contains_def
  MUST_COMPILE_def DONT_COMPILE_def middle_UNUSED_def string_ok_def rstr_def scalar_def

lemma sample_module_ok: "module_ok sample_module"
  by (simp add: module_ok_def header_ok_def instruction_ok_def operand_ok_def middle_ok_def
      data_item_ok_def import_module_ok_def import_ok_def Let_def sample_defs)

lemma sample_module_valid: "validate_module sample_module = Inr ()"
  by (simp add: validate_module_def out_of_bounds_def as_i32_def Let_def sample_defs)

lemma sample_module_loads: "\<exists>bs. write_dis sample_module = Inr bs \<and> load bs = Inr sample_module"
  by (rule write_then_load [OF sample_module_ok sample_module_valid])



text \<open>
  C2. Whatever bytes it is given, a module the loader accepts is consistent: the entry point, the
  exports, the exception handlers and their cases point into the code, the types they name exist,
  the compile flags do not conflict, and the sections have the lengths the header announces.
\<close>

theorem loaded_module_is_valid:
  assumes "load data = Inr m"
  shows "module_valid m \<and>
    int (length (m_code m)) = sint (h_code_size (m_header m)) \<and>
    int (length (m_types m)) = sint (h_type_size (m_header m)) \<and>
    int (length (m_exports m)) = sint (h_export_size (m_header m))"
proof -
  obtain t where "parse_module (reader_new data) = (Inr m, t)" using load_InrE [OF assms] .
  from parse_module_valid [OF this] show ?thesis by blast
qed

theorem loaded_module_is_valid_witness:
  "\<exists>data m. load data = Inr m \<and> module_valid m \<and> length (m_code m) = 1"
proof -
  obtain bs where bs: "load bs = Inr sample_module" using sample_module_loads by blast
  from loaded_module_is_valid [OF bs] have "module_valid sample_module" by blast
  moreover have "length (m_code sample_module) = 1" by (simp add: sample_module_def)
  ultimately show ?thesis using bs by blast
qed

text \<open>
  C3. Reading never runs past the input: started on any position inside the bytes, the parser of a
  whole module ends on a position inside them and not before the start, and leaves the bytes as
  they are, on success and on every error.
\<close>

theorem parsing_stays_in_bounds:
  assumes "reader_ok r"
  shows "reader_ok (snd (parse_module r)) \<and> r_data (snd (parse_module r)) = r_data r \<and>
    r_pos r \<le> r_pos (snd (parse_module r)) \<and> r_pos (snd (parse_module r)) \<le> length (r_data r)"
  using rmodule.keeps_ok [OF assms] rmodule.keeps_data [OF assms] rmodule.moves_forward [OF assms]
    rmodule.pos_bounded [OF assms] by blast

theorem parsing_stays_in_bounds_witness:
  "reader_ok (snd (parse_module (reader_new [0x80, 1])))"
  using parsing_stays_in_bounds [of "reader_new [0x80, 1]"]
  by (simp add: reader_ok_def reader_new_def)



text \<open>
  The variable-length operand encoding: a value in the 30-bit range of the format is written,
  and read back whatever bytes follow; a value outside it is refused and nothing is written.
\<close>

theorem operand_encoding:
  "(operand_in_range v \<longrightarrow>
     (\<exists>bs. write_op v buf = (Inr (), buf @ bs) \<and>
       (\<forall>rest sec. read_operand sec \<lparr>r_data = buf @ bs @ rest, r_pos = length buf\<rparr> =
         (Inr v, \<lparr>r_data = buf @ bs @ rest, r_pos = length buf + length bs\<rparr>)))) \<and>
   (\<not> operand_in_range v \<longrightarrow> write_op v buf = (Inl (OperandOutOfRange v), buf))"
proof (intro conjI impI)
  assume v: "operand_in_range v"
  obtain bs where w: "writes (write_op v) bs" using write_op_in_range [OF v] by blast
  have "parses (read_operand sec) bs v" for sec
  proof -
    obtain bs' where bs': "writes (write_op v) bs'" "parses (read_operand sec) bs' v"
      using coded_operand [OF v, of sec] by (auto simp: coded_def)
    with writes_unique [OF w bs'(1)] show ?thesis by simp
  qed
  then have "read_operand sec \<lparr>r_data = buf @ bs @ rest, r_pos = length buf\<rparr> =
      (Inr v, \<lparr>r_data = buf @ bs @ rest, r_pos = length buf + length bs\<rparr>)" for rest sec
    using parsesD(1) [of "read_operand sec" bs v "\<lparr>r_data = buf @ bs @ rest, r_pos = length buf\<rparr>" rest]
    by (simp add: reader_ok_def)
  with w show "\<exists>bs. write_op v buf = (Inr (), buf @ bs) \<and>
       (\<forall>rest sec. read_operand sec \<lparr>r_data = buf @ bs @ rest, r_pos = length buf\<rparr> =
         (Inr v, \<lparr>r_data = buf @ bs @ rest, r_pos = length buf + length bs\<rparr>))"
    unfolding writes_def by blast
qed (rule write_op_out_of_range)

theorem operand_encoding_witness:
  "(\<exists>bs. write_op (- 70) [] = (Inr (), bs) \<and>
     read_operand [] \<lparr>r_data = bs @ [9], r_pos = 0\<rparr> =
       (Inr (- 70), \<lparr>r_data = bs @ [9], r_pos = length bs\<rparr>)) \<and>
   write_op 0x20000000 [] = (Inl (OperandOutOfRange 0x20000000), [])"
  using operand_encoding [where v = "- 70" and buf = "[]"]
    operand_encoding [where v = "0x20000000" and buf = "[]"]
  by (auto simp: operand_in_range_def OPERAND_MIN_def OPERAND_MAX_def)

section \<open>Addresses, frames and memory\<close>

text \<open>
  The address ranges are disjoint and each decodes to what it was made from: a frame address to
  the frame slot, an address of a module's data area to that module and offset, a heap identifier
  to the object, and an offset that leaves its range to nothing.
\<close>

theorem address_ranges:
  "(a \<noteq> 0 \<and> unat a < MP_BASE \<longrightarrow> decode_virtual_addr a r =
     (if unat a + r < MP_BASE then AT_Frame (unat a + r) else AT_None)) \<and>
   (idx < MAX_MODULES \<and> off < MP_STRIDE \<longrightarrow>
     decode_virtual_addr (of_nat (MP_BASE + idx * MP_STRIDE + off)) r =
       (if off + r < MP_STRIDE then AT_ModuleMp idx (off + r) else AT_None)) \<and>
   (HEAP_ID_BASE \<le> hid \<and> hid < HEAP_REF_FLAG \<longrightarrow> decode_virtual_addr hid r = AT_HeapArray hid r)"
  using decode_frame [of a r] decode_module [of idx off r] decode_heap [of hid r]
  by (simp add: word_le_nat_alt word_less_nat_alt HEAP_ID_BASE_def HEAP_REF_FLAG_def)

theorem address_ranges_witness:
  "decode_virtual_addr 40 8 = AT_Frame 48 \<and>
   decode_virtual_addr (of_nat (MP_BASE + 3 * MP_STRIDE + 16)) 4 = AT_ModuleMp 3 20 \<and>
   decode_virtual_addr 0x10000005 12 = AT_HeapArray 0x10000005 12"
  using address_ranges [where a = 40 and r = 8 and idx = 0 and off = 0 and hid = 0]
    address_ranges [where a = 0 and r = 4 and idx = 3 and off = 16 and hid = 0]
    address_ranges [where a = 0 and r = 12 and idx = 0 and off = 0 and hid = "0x10000005"]
  by (simp add: MAX_MODULES_def MP_STRIDE_def MP_BASE_def HEAP_ID_BASE_def HEAP_REF_FLAG_def)

text \<open>
  C7. No operand, whatever its registers and whatever words the frame or the module data hold,
  resolves outside the range of its kind: frame targets stay below the module ranges, module
  targets name one of the 128 modules and stay in its stride, heap targets are heap identifiers or
  come from the reference table.
\<close>

theorem operands_resolve_in_range:
  assumes "resolve_operand opd fp_base stack_data mp_data refs = Inr t"
  shows "target_in_range refs t"
  using assms by (rule resolve_operand_in_range)

theorem operands_resolve_in_range_witness:
  "target_in_range [] (AT_Frame 24)"
  using operands_resolve_in_range [of "\<lparr>op_mode = OffsetIndirectFp, op_register1 = 8, op_register2 = 0\<rparr>"
      16 "[]" "[]" "[]" "AT_Frame 24"]
  by (simp add: resolve_operand_def frame_addr_def offset_operand_def usize_try_from_def
      MP_BASE_def checked_add_def usize_limit_def)

text \<open>
  C8. A call and its return: reserve a frame, make it current, let the callee run any balanced
  sequence of writes to its own frame, reservations and inner calls, and pop. The return gives the
  saved program counter, the caller's bytes are what they were, and the caller's frame is current.
\<close>

theorem call_then_return:
  assumes "frames_ok fs" and "current_data_offset fs \<le> length (fs_data fs)"
    and "alloc_pending n fs = (Inr off, fs1)"
    and "activate_pending off pc fs1 = (Inr (), fs2)" and "frame_run fs2 fs3"
  shows "\<exists>fs4. frame_pop fs3 = (Inr pc, fs4) \<and> fs_data fs4 = fs_data fs \<and>
    fs_current_base fs4 = fs_current_base fs \<and> frames_ok fs4"
proof -
  note alloc = alloc_pending_Inr [OF assms(1,3)]
  have ok1: "frames_ok fs1" using frames_ok_alloc assms(1,3) by blast
  have base: "fs_current_base fs1 = fs_current_base fs" by (simp add: alloc(2))
  have room: "current_data_offset fs1 + FRAME_HEADER_SIZE \<le> off"
    using alloc(1) assms(2) base by (simp add: current_data_offset_def)
  note act = activate_pending_Inr [OF ok1 assms(4)]
  have "keeps_below fs2 fs3"
    using frame_run_keeps_below [OF assms(5)] frames_ok_activate [OF ok1 assms(4)] act(2,3,5) by simp
  from call_return [OF ok1 room assms(4) this surjective_pairing [of "frame_pop fs3"]]
  show ?thesis
    using alloc base by (intro exI [of _ "snd (frame_pop fs3)"])
      (auto simp: keeps_below_def prod_eq_iff)
qed

definition sample_stack :: frame_stack where
  "sample_stack = push_entry 8 (- 1) frame_stack_new"

theorem call_then_return_witness:
  "\<exists>off fs1 fs2 fs4. alloc_pending 12 sample_stack = (Inr off, fs1) \<and>
    activate_pending off 7 fs1 = (Inr (), fs2) \<and> frame_pop fs2 = (Inr 7, fs4) \<and>
    fs_data fs4 = fs_data sample_stack"
proof -
  have ok: "frames_ok sample_stack"
    by (simp add: sample_stack_def frames_ok_push_entry FRAME_HEADER_SIZE_def
        MAX_FRAME_STACK_SIZE_def MP_BASE_def)
  have len: "length (fs_data sample_stack) = 24" "fs_current_base sample_stack = 0"
    by (simp_all add: sample_stack_def push_entry_def Let_def FRAME_HEADER_SIZE_def usize_limit_def)
  obtain off fs1 where a: "alloc_pending 12 sample_stack = (Inr off, fs1)"
    using alloc_pending_total [OF ok, of 12] len
    by (auto simp: FRAME_HEADER_SIZE_def MAX_FRAME_STACK_SIZE_def MP_BASE_def)
  note alloc = alloc_pending_Inr [OF ok a]
  obtain fs2 where b: "activate_pending off 7 fs1 = (Inr (), fs2)"
    using alloc len by (simp add: activate_pending_def Let_def FRAME_HEADER_SIZE_def)
  have "current_data_offset sample_stack \<le> length (fs_data sample_stack)"
    by (simp add: len current_data_offset_def FRAME_HEADER_SIZE_def)
  from call_then_return [OF ok this a b run_done] a b show ?thesis by blast
qed

text \<open>
  The typed accessors of a byte buffer: a word that was written where it fits is read back, it
  does not disturb a word at any other place that it does not overlap, and a write outside the
  buffer changes nothing.
\<close>

theorem memory_word_slots:
  "(length buf < usize_limit \<and> off + 4 \<le> length buf \<longrightarrow>
     mem_read_word (mem_write_word buf off v) off = v) \<and>
   (off + 4 \<le> q \<or> q + 4 \<le> off \<longrightarrow>
     mem_read_word (mem_write_word buf off v) q = mem_read_word buf q) \<and>
   (length buf < off + 4 \<longrightarrow> mem_write_word buf off v = buf \<and> mem_read_word buf off = 0)"
proof (intro conjI impI)
  assume out: "length buf < off + 4"
  have "\<not> in_buf 4 (length buf) off" using in_buf_le [of 4 "length buf" off] out by auto
  then show "mem_write_word buf off v = buf" "mem_read_word buf off = 0"
    by (rule word_slot.put_outside, rule word_slot.get_outside)
qed (auto simp: in_buf_iff word_slot.get_put_same word_slot.get_put_other)

theorem memory_word_slots_witness:
  "mem_read_word (mem_write_word [0, 0, 0, 0, 0, 0, 0, 0] 4 (- 2)) 4 = - 2"
  using memory_word_slots [of "[0, 0, 0, 0, 0, 0, 0, 0]" 4 "- 2" 0] by (simp add: usize_limit_def)

section \<open>The heap\<close>

text \<open>
  C10. Reference counting is safe: if every count covers the references that objects own and the
  ones held outside (the multiset \<open>ext\<close> with \<open>hid\<close>), releasing \<open>hid\<close> keeps that so for the
  remaining ones. In particular no object that is still referenced, from inside or outside, is freed.
\<close>

theorem dec_ref_is_safe:
  assumes "rc_ok (add_mset hid ext) (hp_objects h)"
  shows "rc_ok ext (hp_objects (dec_ref hid h))"
  using assms by (rule dec_ref_rc_ok)

definition sample_heap :: heap where
  "sample_heap = snd (heap_alloc 0 (HD_List [] 0x10000000)
    (snd (heap_alloc 0 (HD_List [] NIL) heap_new)))"

text \<open>Two cells, the younger one owning the older, and one reference to the younger from outside.\<close>

lemma sample_heap_objects:
  "hp_objects sample_heap = [0x10000000 \<mapsto>
      \<lparr>ho_ref_count = 1, ho_type_id = 0, ho_trace = None, ho_data = HD_List [] NIL\<rparr>,
    0x10000001 \<mapsto>
      \<lparr>ho_ref_count = 1, ho_type_id = 0, ho_trace = None, ho_data = HD_List [] 0x10000000\<rparr>]"
  by (simp add: sample_heap_def heap_alloc_def alloc_typed_def heap_new_def HEAP_ID_BASE_def Let_def)

lemma sample_heap_Some:
  "hp_objects sample_heap x = Some obj \<longleftrightarrow>
    x = 0x10000000 \<and>
      obj = \<lparr>ho_ref_count = 1, ho_type_id = 0, ho_trace = None, ho_data = HD_List [] 0\<rparr> \<or>
    x = 0x10000001 \<and>
      obj = \<lparr>ho_ref_count = 1, ho_type_id = 0, ho_trace = None, ho_data = HD_List [] 0x10000000\<rparr>"
  by (auto simp: sample_heap_objects NIL_def)

lemma sample_heap_rc: "rc_ok {#0x10000001#} (hp_objects sample_heap)"
proof -
  have own: "owners (hp_objects sample_heap) 0x10000000 = {0x10000001}"
    "owners (hp_objects sample_heap) 0x10000001 = {}"
    unfolding owners_def sample_heap_Some by (auto simp: NIL_def)
  have "hp_objects sample_heap 0x10000000 \<noteq> None" "hp_objects sample_heap 0x10000001 \<noteq> None"
    by (simp_all add: sample_heap_objects)
  with own show ?thesis unfolding rc_ok_def sample_heap_Some by (auto simp: NIL_def)
qed

theorem dec_ref_is_safe_witness: "rc_ok {#} (hp_objects (dec_ref 0x10000001 sample_heap))"
  by (rule dec_ref_is_safe [OF sample_heap_rc])

text \<open>
  C11. The collector is exact: after a collection an object is on the heap, unchanged, precisely
  when it was there before and is reachable from a root (a word of a frame stack or a data area, or
  an entry of a reference table, of the running and of every suspended thread), or is a module
  handle.
\<close>

theorem collector_is_exact:
  "hp_objects (collect h frames mp loaded threads callers refs) hid =
    (case hp_objects h hid of
       None \<Rightarrow> None
     | Some obj \<Rightarrow>
         if reachable h (gc_roots h frames mp loaded threads callers refs) hid \<or>
           is_permanent (ho_data obj)
         then Some obj else None)"
  by (rule collect_exact)



text \<open>
  C13. Slices share the storage of their parent: what is written through an array or through a
  slice of slices is what every view of the same array reads, each at its own position, and the
  bytes outside the written range are the old ones.
\<close>

theorem slices_share_storage:
  assumes "heap_ok h" and "array_view h a i r q" and "array_view h b j r q'"
    and "heap_get h r = Some obj" and "ho_data obj = HD_Array et es data n"
    and "q + length bytes \<le> length data" and "q' + len \<le> length data"
    and "length data < usize_limit"
  shows "array_read (array_write a i bytes h) b j len =
    Some (subrange q' len (copy_at q bytes data))"
  using assms by (rule array_write_read)

definition sliced_heap :: heap where
  "sliced_heap = snd (heap_alloc 0 (HD_ArraySlice 0x10000000 2 0 1 2)
    (snd (heap_alloc 0 (HD_Array 0 1 [1, 2, 3, 4] 4) heap_new)))"

lemma sliced_heap_objects:
  "hp_objects sliced_heap = [0x10000000 \<mapsto>
      \<lparr>ho_ref_count = 1, ho_type_id = 0, ho_trace = None, ho_data = HD_Array 0 1 [1, 2, 3, 4] 4\<rparr>,
    0x10000001 \<mapsto>
      \<lparr>ho_ref_count = 1, ho_type_id = 0, ho_trace = None,
       ho_data = HD_ArraySlice 0x10000000 2 0 1 2\<rparr>]"
  "hp_next_id sliced_heap = 0x10000002"
  by (simp_all add: sliced_heap_def heap_alloc_def alloc_typed_def heap_new_def HEAP_ID_BASE_def
      Let_def)

lemma sliced_heap_ok: "heap_ok sliced_heap"
  by (auto simp: heap_ok_def objects_ok_def sliced_heap_objects HEAP_ID_BASE_def NIL_def
      split: if_splits)

theorem slices_share_storage_witness:
  "array_read (array_write 0x10000001 1 [9] sliced_heap) 0x10000000 2 2 = Some [3, 9]"
proof -
  have parent: "array_view sliced_heap 0x10000000 k 0x10000000 k" for k
    by (rule view_array [where et = 0 and es = 1 and data = "[1, 2, 3, 4]" and n = 4],
        simp add: heap_get_def sliced_heap_objects NIL_def, simp)
  then have slice: "array_view sliced_heap 0x10000001 1 0x10000000 3"
    by - (rule view_slice, simp add: heap_get_def sliced_heap_objects NIL_def, simp,
        simp_all add: usize_limit_def)
  show ?thesis
    using slices_share_storage [OF sliced_heap_ok slice parent [of 2], of _ 0 1 "[1, 2, 3, 4]" 4 "[9]" 2]
    by (simp add: heap_get_def sliced_heap_objects NIL_def usize_limit_def subrange_def copy_at_def)
qed

text \<open>
  C14. Copy on write: the string handed out for writing is referenced at most once, has the old
  contents, and when it is a copy everyone else still sees the old string.
\<close>

theorem cow_string_is_private:
  assumes "heap_ok h" and "cow_string hid h = (Some (new_id, s), h')"
  shows "get_string h hid = Some s \<and> get_string h' new_id = Some s \<and>
    (\<exists>obj. hp_objects h' new_id = Some obj \<and> ho_ref_count obj \<le> 1) \<and>
    (new_id \<noteq> hid \<longrightarrow> get_string h' hid = Some s \<and> hp_objects h new_id = None)"
  using cow_string_unshared [OF assms] by blast

definition string_heap :: heap where
  "string_heap = inc_ref 0x10000000 (snd (heap_alloc 0 (HD_Str [104, 105]) heap_new))"

theorem cow_string_is_private_witness:
  "get_string (snd (cow_string 0x10000000 string_heap)) 0x10000000 = Some [104, 105]"
proof -
  have h: "hp_objects string_heap = [0x10000000 \<mapsto>
      \<lparr>ho_ref_count = 2, ho_type_id = 0, ho_trace = None, ho_data = HD_Str [104, 105]\<rparr>]"
    "hp_next_id string_heap = 0x10000001"
    by (simp_all add: string_heap_def heap_alloc_def alloc_typed_def heap_new_def HEAP_ID_BASE_def
        inc_ref_def NIL_def Let_def)
  then have ok: "heap_ok string_heap"
    by (auto simp: heap_ok_def objects_ok_def HEAP_ID_BASE_def split: if_splits)
  obtain h' where "cow_string 0x10000000 string_heap = (Some (0x10000001, [104, 105]), h')"
    using h by (simp add: cow_string_def NIL_def dec_ref_shared heap_alloc_def alloc_typed_def Let_def)
  with cow_string_is_private [OF ok this] show ?thesis by simp
qed

section \<open>Channels and text\<close>

text \<open>
  C15. A channel delivers in order and loses nothing: along any run, the messages delivered followed
  by the ones that wait are the messages that waited before followed by the ones sent, the same
  holds for the receivers, and never both a sender and a receiver wait.
\<close>

theorem channel_is_fifo:
  assumes "channel_ok ch" and "channel_run ops ch = (outs, ch')"
  shows "channel_ok ch' \<and>
    map snd outs @ map cr_data (ch_senders ch') = map cr_data (ch_senders ch) @ sent ops \<and>
    map fst outs @ map cr_thread_id (ch_receivers ch') =
      map cr_thread_id (ch_receivers ch) @ asked ops"
  using assms by (rule channel_run_fifo)

theorem channel_is_fifo_witness:
  "fst (channel_run [Send 1 [5], Send 2 [6], Recv 3, Recv 4] (channel_new 1)) =
    [(3, [5]), (4, [6])]"
proof -
  obtain outs ch' where run:
    "channel_run [Send 1 [5], Send 2 [6], Recv 3, Recv 4] (channel_new 1) = (outs, ch')"
    by fastforce
  have "ch_senders ch' = []" "ch_receivers ch' = []"
    using run by (auto simp: channel_new_def try_send_def try_recv_def)
  with channel_is_fifo [OF channel_ok_new run] have "map snd outs = [[5], [6]]" "map fst outs = [3, 4]"
    by (simp_all add: channel_new_def)
  then have "outs = [(3, [5]), (4, [6])]" by (auto simp: map_eq_Cons_conv)
  with run show ?thesis by simp
qed

text \<open>
  Strings survive the module file: the UTF-8 bytes of any string of scalar values are read back
  by the lossy decoder as that string.
\<close>

theorem strings_roundtrip:
  assumes "list_all scalar s"
  shows "from_utf8_lossy (as_bytes s) = s"
  using assms by simp

theorem strings_roundtrip_witness: "from_utf8_lossy (as_bytes [72, 233, 8364, 128512]) = [72, 233, 8364, 128512]"
  using strings_roundtrip [of "[72, 233, 8364, 128512]"] by (simp add: scalar_def)

text \<open>
  The byte of an opcode decodes to that opcode, and exactly the bytes above the last opcode are
  refused.
\<close>

theorem opcodes_decode:
  "opcode_try_from (opcode_as_u8 op) = Inr op \<and>
   (opcode_try_from b = Inr op \<longleftrightarrow> opcode_as_u8 op = b) \<and>
   (opcode_try_from b = Inl b \<longleftrightarrow> opcode_as_u8 Op_Brkpt < b)"
  using opcode_try_from_Inr [of b op] opcode_try_from_as_u8 [of op] opcode_try_from_Inl [of b b]
  by (auto simp: Op_Brkpt.rep_eq)

section \<open>The machine\<close>






text \<open>
  C34. Turns are fair: a thread with \<open>k\<close> ready threads before it in the queue is the running one
  after \<open>k + 1\<close> turns in which the running thread used up its quantum, however many threads wait
  for channels in between.
\<close>

theorem ready_threads_get_their_turn:
  assumes "k < length (ready_threads vm)"
  shows "vm_current_pid ((suspend_and_rotate ^^ Suc k) vm) = st_pid (ready_threads vm ! k)"
  using assms by (rule ready_thread_runs)

definition three_threads :: vm_state where
  "three_threads = blank_vm\<lparr>vm_thread_queue := [running_thread (Some 7) (blank_vm\<lparr>vm_current_pid := 2\<rparr>),
    running_thread None (blank_vm\<lparr>vm_current_pid := 3\<rparr>), running_thread None (blank_vm\<lparr>vm_current_pid := 4\<rparr>)]\<rparr>"

theorem ready_threads_get_their_turn_witness:
  "vm_current_pid (suspend_and_rotate (suspend_and_rotate three_threads)) = 4"
proof -
  have "ready_threads three_threads = [running_thread None (blank_vm\<lparr>vm_current_pid := 3\<rparr>),
      running_thread None (blank_vm\<lparr>vm_current_pid := 4\<rparr>)]"
    by (simp add: ready_threads_def three_threads_def running_thread_def)
  then show ?thesis
    using ready_threads_get_their_turn [of 1 three_threads] by (simp add: running_thread_def)
qed


text \<open>The program that ends at once: two turns, one for \<open>exit\<close> and one for the end of the thread.\<close>

definition exit_module :: dis_module where
  "exit_module = blank_module\<lparr>m_code := [unused_instruction Op_Exit]\<rparr>"

definition exit_vm :: vm_state where
  "exit_vm = blank_vm\<lparr>vm_module := exit_module\<rparr>"

lemma exit_runs:
  assumes "vm_pc vm = 0" and "\<not> vm_halted vm" and "vm_current_loaded_module vm = None"
    and "m_code (vm_module vm) = [unused_instruction Op_Exit]" and "vm_blocked_channel vm = None"
    and "vm_thread_queue vm = []"
  shows "\<exists>vm'. run_loop hst 2 0 vm = Some (Inr (), vm')"
proof -
  let ?nested = "nested_interpreter_loop hst 1"
  obtain vm1 where ops: "resolve_operands (unused_instruction Op_Exit) vm = (Inr (), vm1)"
    and same: "vm_thread_queue vm1 = []" "vm_blocked_channel vm1 = None"
    using assms by (simp add: resolve_operands_def unused_instruction_def operand_UNUSED_def
        middle_UNUSED_def resolve_operand_def resolve_middle_def Let_def)
  let ?vm2 = "vm1\<lparr>vm_next_pc := vm_pc vm1 + 1, vm_halted := True\<rparr>"
  have "execute_instruction ?nested hst (unused_instruction Op_Exit) vm = Some (Inr (), ?vm2)"
    by (simp add: execute_instruction_def dispatch_or_raise_def dispatch_exit rbind_def rlift_def ops
        updates_def op_exit_def)
  moreover obtain vm3 where "after_instruction 0 ?vm2 = (Inr 1, vm3)" "vm_halted vm3" "vm_thread_queue vm3 = []"
    using same by (simp add: after_instruction_def end_turn_def THREAD_QUANTUM_def Let_def
        periodic_gc_def collect_garbage_def)
  ultimately show ?thesis
    using assms by (simp add: numeral_2_eq_2 run_turn_def module_code_def halted_turn_last)
qed

lemma exit_module_size: "entry_frame_size exit_module = 64"
  by (simp add: entry_frame_size_def exit_module_def blank_module_def)

lemma exit_module_runs:
  "\<exists>vm vm'. with_args True exit_module [] = Inr vm \<and> run_machine plain_host 2 vm = Some (Inr (), vm')"
proof -
  have data: "h_data_size (m_header exit_module) = 32" "h_entry_pc (m_header exit_module) = 0"
    "m_code exit_module = [unused_instruction Op_Exit]"
    by (simp_all add: exit_module_def blank_module_def)
  have "\<exists>vm. with_args True exit_module [] = Inr vm \<and> vm_pc vm = 0 \<and> \<not> vm_halted vm \<and>
    vm_current_loaded_module vm = None \<and> vm_module vm = exit_module \<and> vm_blocked_channel vm = None \<and>
    vm_thread_queue vm = []"
    by (simp add: with_args_def exit_module_size data Let_def ISIZE_MAX_def wrap_usize_def usize_limit_def
        FRAME_HEADER_SIZE_def i32_as_usize_def split: prod.split)
  then show ?thesis
    using exit_runs [of _ plain_host] by (fastforce simp: run_machine_def data)
qed






section \<open>Two places where the machine loses something\<close>



text \<open>
  C39. A call back into a loaded module whose own call is still open finds no data: entering it,
  then another module, then the first again, with anything in between that keeps the frame of
  reference (which every instruction and every inner call does), leaves the inner call with an empty
  data area, whatever the module had stored.
\<close>

theorem reentrant_call_finds_no_data:
  assumes "enter_module (Some a) s1 vm = (Inr (), vm1)" and "same_frame_of_reference vm1 vm1'"
    and "enter_module (Some b) s2 vm1' = (Inr (), vm2)" and "same_frame_of_reference vm2 vm2'"
    and "enter_module (Some a) s3 vm2' = (Inr (), vm3)" and "a \<noteq> b"
  shows "vm_mp vm3 = []"
  using assms by (rule reentrant_call_has_no_data)

definition two_modules :: vm_state where
  "two_modules = blank_vm\<lparr>vm_loaded_modules :=
    [\<lparr>lm_module = blank_module, lm_mp = [1, 2, 3, 4]\<rparr>, \<lparr>lm_module = blank_module, lm_mp = [5]\<rparr>]\<rparr>"

theorem reentrant_call_finds_no_data_witness:
  "\<exists>vm1 vm2 vm3. enter_module (Some 0) None two_modules = (Inr (), vm1) \<and> vm_mp vm1 = [1, 2, 3, 4] \<and>
    enter_module (Some 1) None vm1 = (Inr (), vm2) \<and> enter_module (Some 0) None vm2 = (Inr (), vm3) \<and>
    vm_mp vm3 = []"
proof -
  obtain vm1 where one: "enter_module (Some 0) None two_modules = (Inr (), vm1)" "vm_mp vm1 = [1, 2, 3, 4]"
    "vm_loaded_modules vm1 =
      [\<lparr>lm_module = blank_module, lm_mp = []\<rparr>, \<lparr>lm_module = blank_module, lm_mp = [5]\<rparr>]"
    by (simp add: two_modules_def module_swap_defs Let_def nth_opt_def)
  obtain vm2 where two: "enter_module (Some 1) None vm1 = (Inr (), vm2)"
    "vm_loaded_modules vm2 =
      [\<lparr>lm_module = blank_module, lm_mp = []\<rparr>, \<lparr>lm_module = blank_module, lm_mp = []\<rparr>]"
    by (simp add: one module_swap_defs Let_def nth_opt_def)
  obtain vm3 where three: "enter_module (Some 0) None vm2 = (Inr (), vm3)"
    by (simp add: two module_swap_defs Let_def nth_opt_def)
  have "vm_mp vm3 = []"
    by (rule reentrant_call_finds_no_data [OF one(1) same_frame_of_reference_refl two(1)
          same_frame_of_reference_refl three]) simp
  with one two three show ?thesis by blast
qed

end
